(* ===== verification/Go_Base.thy ===== *)
theory Go_Base
  imports Main "HOL-Library.Word" "HOL-Library.AList"
begin

section \<open>What the agent uses of Go: times, machine integers, identifiers, faults\<close>

text \<open>
  The prelude of the development.  It holds the theorem collections the other theories extend,
  the model of the parts of the Go language and standard library the agent relies on
  (\<open>time.Time\<close>, \<open>uint64\<close> counters, random identifiers, calls that can fail), and the
  generic lemmas on lists, association lists and words that the component proofs share.
\<close>

named_theorems queue_simps "unfolding rules for the operations of the persistent queue"
named_theorems journal_simps "unfolding rules for the operations of the command journal"
named_theorems frame_simps "what an operation leaves unchanged"
named_theorems inv_intros "an operation keeps the invariant of its component"

type_synonym u64 = "64 word"
type_synonym bytes = string

subsection \<open>\<open>time.Time\<close>\<close>

text \<open>
  An instant counts nanoseconds from Go's zero time (January 1 of year 1, UTC), so
  \<open>IsZero\<close> is instant 0.  The location is kept because the code distinguishes \<open>time.UTC\<close>
  from a zone whose offset happens to be zero.  A duration is a number of nanoseconds.
\<close>

datatype location = UTC | Zone int

datatype gotime = GoTime (instant: int) (location: location)

definition zero_time :: gotime where
  "zero_time = GoTime 0 UTC"

definition is_zero_time :: "gotime \<Rightarrow> bool" where
  "is_zero_time t \<longleftrightarrow> instant t = 0"

definition to_utc :: "gotime \<Rightarrow> gotime" where
  "to_utc t = GoTime (instant t) UTC"

definition before :: "gotime \<Rightarrow> gotime \<Rightarrow> bool" where
  "before a b \<longleftrightarrow> instant a < instant b"

definition after :: "gotime \<Rightarrow> gotime \<Rightarrow> bool" where
  "after a b \<longleftrightarrow> instant b < instant a"

definition time_add :: "gotime \<Rightarrow> int \<Rightarrow> gotime" where
  "time_add t d = GoTime (instant t + d) (location t)"

text \<open>\<open>Time.Sub\<close> saturates at the ends of the 64-bit \<open>Duration\<close>.\<close>

definition max_duration :: int where
  "max_duration = 2 ^ 63 - 1"

definition min_duration :: int where
  "min_duration = - (2 ^ 63)"

definition time_sub :: "gotime \<Rightarrow> gotime \<Rightarrow> int" where
  "time_sub a b = max min_duration (min max_duration (instant a - instant b))"

fun zone_offset :: "location \<Rightarrow> int" where
  "zone_offset UTC = 0"
| "zone_offset (Zone z) = z"

definition second :: int where
  "second = 1000000000"

definition minute :: int where
  "minute = 60 * second"

lemma instant_to_utc [simp]: "instant (to_utc t) = instant t"
  by (simp add: to_utc_def)

lemma location_to_utc [simp]: "location (to_utc t) = UTC"
  by (simp add: to_utc_def)

lemma to_utc_idem [simp]: "to_utc (to_utc t) = to_utc t"
  by (simp add: to_utc_def)

lemma is_zero_to_utc [simp]: "is_zero_time (to_utc t) = is_zero_time t"
  by (simp add: is_zero_time_def)

lemma not_after_iff: "\<not> after a b \<longleftrightarrow> instant a \<le> instant b"
  by (auto simp: after_def)

lemma time_sub_le:
  "d < max_duration \<Longrightarrow> time_sub a b \<le> d \<Longrightarrow> min_duration \<le> d \<Longrightarrow> instant a - instant b \<le> d"
  by (auto simp: time_sub_def min_def max_def split: if_splits)

subsection \<open>Calls that can fail\<close>

text \<open>
  Every file operation and every call of the random number generator can fail.  A model of an
  operation takes the outcomes of its calls as an argument, a script that is consumed one entry
  per call; past its end every call succeeds.  \<open>IoFail\<close> is a call that failed and changed
  nothing, \<open>IoLate\<close> one whose effect is in place although it reported an error (the rename of
  an atomic write happened and the following directory sync failed).
\<close>

datatype io = IoOk | IoFail | IoLate

fun take_io :: "io list \<Rightarrow> io \<times> io list" where
  "take_io [] = (IoOk, [])"
| "take_io (x # xs) = (x, xs)"

lemma fst_take_io_ok [simp]: "set ios \<subseteq> {IoOk} \<Longrightarrow> fst (take_io ios) = IoOk"
  by (cases ios) auto

lemma set_snd_take_io: "set (snd (take_io ios)) \<subseteq> set ios"
  by (cases ios) auto

text \<open>\<open>protocol.NewID\<close>: the identifiers the random source yields, \<open>None\<close> where it fails.\<close>

type_synonym id_supply = "string option list"

fun take_id :: "id_supply \<Rightarrow> string option \<times> id_supply" where
  "take_id [] = (None, [])"
| "take_id (x # xs) = (x, xs)"

subsection \<open>Counters\<close>

lemma unat_Suc_u64:
  fixes w :: u64
  assumes "w \<noteq> - 1"
  shows "unat (w + 1) = Suc (unat w)"
proof -
  have "1 + w \<noteq> 0"
    using assms by (metis add.inverse_inverse add_eq_0_iff minus_minus)
  then show ?thesis
    by (simp add: unatSuc add.commute)
qed

lemma u64_not_max: "unat (w :: u64) < 2 ^ 64 - 1 \<Longrightarrow> w \<noteq> - 1"
  by (auto simp: unsigned_minus_1_eq_mask mask_eq_exp_minus_1)

end
