(* ===== verification/Go_Text.thy ===== *)
theory Go_Text
  imports Go_Base
begin

section \<open>Text: character classes, the identifier patterns, decimal numerals\<close>

text \<open>
  Go strings are byte strings, so \<open>string\<close> models them directly.  This theory holds the
  regular expressions of the agent as executable recognisers (each is named after the Go
  variable), the decimal printing of \<open>fmt\<close> (\<open>%d\<close>, \<open>%020d\<close>) with its inverse, and the
  few functions of \<open>strings\<close> and \<open>strconv\<close> the code calls.
\<close>

subsection \<open>Character classes\<close>

definition code_of :: "char \<Rightarrow> nat" where
  "code_of c = of_char c"

definition is_digit :: "char \<Rightarrow> bool" where
  "is_digit c \<longleftrightarrow> 48 \<le> code_of c \<and> code_of c \<le> 57"

definition is_lower :: "char \<Rightarrow> bool" where
  "is_lower c \<longleftrightarrow> 97 \<le> code_of c \<and> code_of c \<le> 122"

definition is_upper :: "char \<Rightarrow> bool" where
  "is_upper c \<longleftrightarrow> 65 \<le> code_of c \<and> code_of c \<le> 90"

definition is_alnum :: "char \<Rightarrow> bool" where
  "is_alnum c \<longleftrightarrow> is_digit c \<or> is_lower c \<or> is_upper c"

definition is_lower_hex :: "char \<Rightarrow> bool" where
  "is_lower_hex c \<longleftrightarrow> is_digit c \<or> 97 \<le> code_of c \<and> code_of c \<le> 102"

definition is_hex :: "char \<Rightarrow> bool" where
  "is_hex c \<longleftrightarrow> is_lower_hex c \<or> 65 \<le> code_of c \<and> code_of c \<le> 70"

lemmas char_class_defs =
  code_of_def is_digit_def is_lower_def is_upper_def is_alnum_def is_lower_hex_def is_hex_def

subsection \<open>The identifier patterns\<close>

text \<open>\<open>^[A-Za-z0-9][A-Za-z0-9<extra>]{lo,hi}$\<close>.\<close>

fun match_ref :: "string \<Rightarrow> nat \<Rightarrow> nat \<Rightarrow> string \<Rightarrow> bool" where
  "match_ref extra lo hi [] = False"
| "match_ref extra lo hi (c # cs) =
     (is_alnum c \<and> lo \<le> length cs \<and> length cs \<le> hi \<and>
      list_all (\<lambda>d. is_alnum d \<or> d \<in> set extra) cs)"

definition commandIDRE :: "string \<Rightarrow> bool" where
  "commandIDRE = match_ref ''._:-'' 0 127"

definition journalNodeRef :: "string \<Rightarrow> bool" where
  "journalNodeRef = match_ref ''._-'' 0 127"

definition nodeRE :: "string \<Rightarrow> bool" where
  "nodeRE = match_ref ''._-'' 0 127"

text \<open>\<open>^[a-z][a-z0-9._-]{0,127}$\<close> and \<open>^UPID:[A-Za-z0-9@!+,:._-]{1,511}$\<close>.\<close>

fun errorStageRE :: "string \<Rightarrow> bool" where
  "errorStageRE [] = False"
| "errorStageRE (c # cs) =
     (is_lower c \<and> length cs \<le> 127 \<and> list_all (\<lambda>d. is_lower d \<or> is_digit d \<or> d \<in> set ''._-'') cs)"

definition upidRE :: "string \<Rightarrow> bool" where
  "upidRE s \<longleftrightarrow> take 5 s = ''UPID:'' \<and>
     (let cs = drop 5 s in 1 \<le> length cs \<and> length cs \<le> 511 \<and>
      list_all (\<lambda>d. is_alnum d \<or> d \<in> set ''@!+,:._-'') cs)"

definition safeRef :: "string \<Rightarrow> bool" where
  "safeRef = match_ref ''._:-'' 1 191"

definition attachmentRef :: "string \<Rightarrow> bool" where
  "attachmentRef = match_ref ''_.:-'' 0 63"

text \<open>Groups of lower-case hexadecimal digits of the given lengths, joined by hyphens.\<close>

fun match_hex_groups :: "nat list \<Rightarrow> string \<Rightarrow> bool" where
  "match_hex_groups [] s = False"
| "match_hex_groups [n] s = (length s = n \<and> list_all is_lower_hex s)"
| "match_hex_groups (n # m # ns) s =
     (n < length s \<and> list_all is_lower_hex (take n s) \<and> s ! n = CHR ''-'' \<and>
      match_hex_groups (m # ns) (drop (Suc n) s))"

definition uuidRE :: "string \<Rightarrow> bool" where
  "uuidRE = match_hex_groups [8, 4, 4, 4, 12]"

definition bodyHashRE :: "string \<Rightarrow> bool" where
  "bodyHashRE = match_hex_groups [64]"

fun split_on :: "char \<Rightarrow> string \<Rightarrow> string list" where
  "split_on d [] = [[]]"
| "split_on d (c # cs) =
     (if c = d then [] # split_on d cs
      else (case split_on d cs of [] \<Rightarrow> [[c]] | w # ws \<Rightarrow> (c # w) # ws))"

text \<open>
  \<open>filepath.Clean(p) == "/"\<close>: a rooted path whose components cancel out; \<open>..\<close> at the root
  stays there.  The components still standing are counted in \<open>n\<close>.
\<close>

fun clean_depth :: "nat \<Rightarrow> string list \<Rightarrow> nat" where
  "clean_depth n [] = n"
| "clean_depth n (w # ws) =
     (if w = [] \<or> w = ''.'' then clean_depth n ws
      else if w = ''..'' then clean_depth (n - 1) ws else clean_depth (Suc n) ws)"

definition clean_is_root :: "string \<Rightarrow> bool" where
  "clean_is_root p \<longleftrightarrow> take 1 p = ''/'' \<and> clean_depth 0 (split_on CHR ''/'' p) = 0"

text \<open>\<open>[a-z][a-z0-9-]{0,hi}\<close>, with no upper bound when \<open>hi\<close> is \<open>None\<close>.\<close>

fun match_action_word :: "nat option \<Rightarrow> string \<Rightarrow> bool" where
  "match_action_word hi [] = False"
| "match_action_word hi (c # cs) =
     (is_lower c \<and> (case hi of None \<Rightarrow> True | Some n \<Rightarrow> length cs \<le> n) \<and>
      list_all (\<lambda>d. is_lower d \<or> is_digit d \<or> d = CHR ''-'') cs)"

definition actionRE :: "string \<Rightarrow> bool" where
  "actionRE s =
     (let ws = split_on CHR ''.'' s in 2 \<le> length ws \<and> list_all (match_action_word None) ws)"

definition actionRef :: "string \<Rightarrow> bool" where
  "actionRef s =
     (let ws = split_on CHR ''.'' s
      in 2 \<le> length ws \<and> length ws \<le> 4 \<and> list_all (match_action_word (Some 31)) ws)"

lemma commandIDRE_nonempty: "commandIDRE s \<Longrightarrow> s \<noteq> []"
  by (cases s) (auto simp: commandIDRE_def)

lemma uuidRE_length: "uuidRE s \<Longrightarrow> length s = 36"
  by (auto simp: uuidRE_def)

lemma uuidRE_nonempty: "uuidRE s \<Longrightarrow> s \<noteq> []"
  by (auto dest: uuidRE_length)

subsection \<open>Decimal numerals\<close>

definition digit_char :: "nat \<Rightarrow> char" where
  "digit_char d = char_of (48 + d)"

fun dec :: "nat \<Rightarrow> string" where
  "dec n = (if n < 10 then [digit_char n] else dec (n div 10) @ [digit_char (n mod 10)])"

declare dec.simps [simp del]

definition dec_int :: "int \<Rightarrow> string" where
  "dec_int i = (if i < 0 then CHR ''-'' # dec (nat (- i)) else dec (nat i))"

definition digit_val :: "char \<Rightarrow> nat" where
  "digit_val c = code_of c - 48"

definition parse_dec :: "string \<Rightarrow> nat" where
  "parse_dec s = foldl (\<lambda>a c. 10 * a + digit_val c) 0 s"

lemma digit_val_char [simp]: "d < 10 \<Longrightarrow> digit_val (digit_char d) = d"
  by (simp add: digit_val_def digit_char_def code_of_def)

lemma is_digit_char [simp]: "d < 10 \<Longrightarrow> is_digit (digit_char d)"
  by (simp add: digit_char_def char_class_defs)

lemma parse_dec_dec [simp]: "parse_dec (dec n) = n"
proof (induction n rule: dec.induct)
  case (1 n)
  then show ?case
    by (subst dec.simps) (auto simp: parse_dec_def)
qed

lemma dec_inject [simp]: "dec m = dec n \<longleftrightarrow> m = n"
  by (metis parse_dec_dec)

lemma dec_nonempty [simp]: "dec n \<noteq> []"
  by (subst dec.simps) simp

lemma dec_digits: "list_all is_digit (dec n)"
proof (induction n rule: dec.induct)
  case (1 n)
  then show ?case
    by (subst dec.simps) auto
qed

lemma dec_length_le: "n < 10 ^ Suc k \<Longrightarrow> length (dec n) \<le> Suc k"
proof (induction k arbitrary: n)
  case 0
  then show ?case by (subst dec.simps) simp
next
  case (Suc k)
  show ?case
  proof (cases "n < 10")
    case True
    then show ?thesis by (subst dec.simps) simp
  next
    case False
    from Suc.prems have "n div 10 < 10 ^ Suc k"
      by (simp add: less_mult_imp_div_less)
    with Suc.IH False show ?thesis by (subst dec.simps) simp
  qed
qed

text \<open>\<open>%020d\<close>: padded with zeros on the left to twenty digits.\<close>

definition dec020 :: "nat \<Rightarrow> string" where
  "dec020 n = replicate (20 - length (dec n)) CHR ''0'' @ dec n"

lemma parse_dec_zeros: "parse_dec (replicate k CHR ''0'' @ s) = parse_dec s"
  by (induction k) (simp_all add: parse_dec_def digit_val_def code_of_def)

lemma dec020_inject: "dec020 m = dec020 n \<longleftrightarrow> m = n"
  by (metis dec020_def parse_dec_dec parse_dec_zeros)

lemma unat_u64_bound: "unat (w :: u64) < 10 ^ 20"
  using unsigned_less [of w, where ?'a = nat] by simp

lemma length_dec020_u64 [simp]: "length (dec020 (unat (w :: u64))) = 20"
  using dec_length_le [of "unat w" 19] unat_u64_bound [of w] by (simp add: dec020_def)

text \<open>
  \<open>strconv.ParseUint(s, 10, 64)\<close> and \<open>strconv.Atoi\<close>: \<open>None\<close> where they report an
  error (no digits, another character, out of range).
\<close>

definition parse_uint :: "string \<Rightarrow> u64 option" where
  "parse_uint s =
     (if s \<noteq> [] \<and> list_all is_digit s \<and> parse_dec s < 2 ^ 64
      then Some (of_nat (parse_dec s)) else None)"

fun atoi :: "string \<Rightarrow> int option" where
  "atoi [] = None"
| "atoi (c # cs) =
     (if c = CHR ''-'' then
        (if cs \<noteq> [] \<and> list_all is_digit cs \<and> parse_dec cs \<le> 2 ^ 63
         then Some (- int (parse_dec cs)) else None)
      else
        (let ds = (if c = CHR ''+'' then cs else c # cs)
         in if ds \<noteq> [] \<and> list_all is_digit ds \<and> parse_dec ds < 2 ^ 63
            then Some (int (parse_dec ds)) else None))"

lemma parse_uint_dec: "parse_uint (dec (unat w)) = Some w"
  using unsigned_less [of w, where ?'a = nat] by (simp add: parse_uint_def dec_digits)

subsection \<open>Functions of \<open>strings\<close>\<close>

text \<open>
  The white space that \<open>strings.TrimSpace\<close> removes, each rune as its UTF-8 bytes.
\<close>

definition space_runes :: "string list" where
  "space_runes = map (map char_of)
     ([[9], [10], [11], [12], [13], [32], [194, 133], [194, 160], [225, 154, 128]] @
      map (\<lambda>k. [226, 128, 128 + k]) [0 ..< 11] @
      [[226, 128, 168], [226, 128, 169], [226, 128, 175], [226, 129, 159], [227, 128, 128 :: nat]])"

fun strip_prefix :: "string \<Rightarrow> string \<Rightarrow> string option" where
  "strip_prefix [] s = Some s"
| "strip_prefix (p # ps) [] = None"
| "strip_prefix (p # ps) (c # cs) = (if p = c then strip_prefix ps cs else None)"

definition has_prefix :: "string \<Rightarrow> string \<Rightarrow> bool" where
  "has_prefix p s \<longleftrightarrow> take (length p) s = p"

definition has_suffix :: "string \<Rightarrow> string \<Rightarrow> bool" where
  "has_suffix p s \<longleftrightarrow> length p \<le> length s \<and> drop (length s - length p) s = p"

definition trim_prefix :: "string \<Rightarrow> string \<Rightarrow> string" where
  "trim_prefix p s = (if has_prefix p s then drop (length p) s else s)"

definition drop_space :: "string \<Rightarrow> string" where
  "drop_space s =
     (case find (\<lambda>r. has_prefix r s) space_runes of None \<Rightarrow> s | Some r \<Rightarrow> drop (length r) s)"

fun trim_left_fuel :: "nat \<Rightarrow> string \<Rightarrow> string" where
  "trim_left_fuel 0 s = s"
| "trim_left_fuel (Suc k) s = trim_left_fuel k (drop_space s)"

text \<open>One pass per byte is enough: each pass removes a rune of at least one byte or nothing.\<close>

definition trim_left_space :: "string \<Rightarrow> string" where
  "trim_left_space s = trim_left_fuel (length s) s"

definition drop_space_right :: "string \<Rightarrow> string" where
  "drop_space_right s =
     (case find (\<lambda>r. has_suffix r s) space_runes of None \<Rightarrow> s | Some r \<Rightarrow> take (length s - length r) s)"

definition trim_right_space :: "string \<Rightarrow> string" where
  "trim_right_space s = (drop_space_right ^^ length s) s"

text \<open>\<open>strings.TrimSpace\<close>.\<close>

definition trim_space :: "string \<Rightarrow> string" where
  "trim_space s = trim_right_space (trim_left_space s)"

definition is_blank :: "string \<Rightarrow> bool" where
  "is_blank s \<longleftrightarrow> trim_left_space s = []"

text \<open>\<open>strings.TrimSpace(s) == s\<close>.\<close>

definition is_trimmed :: "string \<Rightarrow> bool" where
  "is_trimmed s \<longleftrightarrow> \<not> list_ex (\<lambda>r. has_prefix r s \<or> has_suffix r s) space_runes"

lemma is_blank_Nil [simp]: "is_blank []"
  by (simp add: is_blank_def trim_left_space_def)

lemma space_rune_heads:
  "r \<in> set space_runes \<Longrightarrow> r \<noteq> [] \<and> code_of (hd r) \<in> {9, 10, 11, 12, 13, 32, 194, 225, 226, 227}"
  by (auto simp: space_runes_def code_of_def)

lemma not_is_blank_head:
  assumes "code_of c \<notin> {9, 10, 11, 12, 13, 32, 194, 225, 226, 227}"
  shows "\<not> is_blank (c # cs)"
proof -
  have "\<not> has_prefix r (c # cs)" if "r \<in> set space_runes" for r
    using space_rune_heads [OF that] assms by (cases r) (auto simp: has_prefix_def)
  then have "find (\<lambda>r. has_prefix r (c # cs)) space_runes = None" by (auto simp: find_None_iff)
  then have "drop_space (c # cs) = c # cs" by (simp add: drop_space_def)
  then have "trim_left_fuel k (c # cs) = c # cs" for k by (induction k) simp_all
  then show ?thesis by (simp add: is_blank_def trim_left_space_def)
qed

lemma has_suffix_append [simp]: "has_suffix p (s @ p)"
  by (simp add: has_suffix_def)

definition to_upper_char :: "char \<Rightarrow> char" where
  "to_upper_char c = (if is_lower c then char_of (code_of c - 32) else c)"

text \<open>
  \<open>strings.ToUpper\<close> and \<open>strings.EqualFold\<close> on ASCII text; the code applies them to MAC
  addresses, on whose alphabet Unicode case folding adds nothing.
\<close>

definition to_upper :: "string \<Rightarrow> string" where
  "to_upper = map to_upper_char"

definition equal_fold :: "string \<Rightarrow> string \<Rightarrow> bool" where
  "equal_fold a b \<longleftrightarrow> to_upper a = to_upper b"

text \<open>\<open>truncate(value, size)\<close> of the queue: the first \<open>size\<close> bytes.\<close>

definition truncate_text :: "string \<Rightarrow> nat \<Rightarrow> string" where
  "truncate_text v n = (if length v \<le> n then v else take n v)"

lemma length_truncate_text: "length (truncate_text v n) \<le> n"
  by (simp add: truncate_text_def)

subsection \<open>Hexadecimal\<close>

definition to_lower :: "string \<Rightarrow> string" where
  "to_lower = map (\<lambda>c. if is_upper c then char_of (code_of c + 32) else c)"

definition hex_digit :: "nat \<Rightarrow> char" where
  "hex_digit d = (if d < 10 then char_of (48 + d) else char_of (87 + d))"

text \<open>\<open>hex.EncodeToString\<close> and the verb \<open>%x\<close> on bytes.\<close>

definition hex_encode :: "8 word list \<Rightarrow> string" where
  "hex_encode bs = concat (map (\<lambda>b. [hex_digit (unat b div 16), hex_digit (unat b mod 16)]) bs)"

definition hex_val :: "char \<Rightarrow> nat" where
  "hex_val c =
     (if is_digit c then code_of c - 48 else if 97 \<le> code_of c then code_of c - 87 else code_of c - 55)"

definition hex_number :: "string \<Rightarrow> nat" where
  "hex_number w = fold (\<lambda>c n. 16 * n + hex_val c) w 0"

text \<open>
  \<open>net.ParseMAC\<close>: 6, 8 or 20 bytes, written as pairs of digits joined by colons or hyphens or
  as groups of four digits joined by dots; the separator is read off the third or fifth byte.
\<close>

definition parseMAC :: "string \<Rightarrow> nat list option" where
  "parseMAC s =
     (if length s < 14 then None
      else if s ! 2 = CHR '':'' \<or> s ! 2 = CHR ''-'' then
        (let ws = split_on (s ! 2) s in
         if length ws \<in> {6, 8, 20} \<and> list_all (\<lambda>w. length w = 2 \<and> list_all is_hex w) ws
         then Some (map hex_number ws) else None)
      else if s ! 4 = CHR ''.'' then
        (let ws = split_on CHR ''.'' s in
         if length ws \<in> {3, 4, 10} \<and> list_all (\<lambda>w. length w = 4 \<and> list_all is_hex w) ws
         then Some (concat (map (\<lambda>w. [hex_number (take 2 w), hex_number (drop 2 w)]) ws)) else None)
      else None)"

lemma byte_nibbles: "unat (b :: 8 word) div 16 < 16"
  using unsigned_less [of b, where ?'a = nat] by simp

lemma is_lower_hex_digit [simp]: "d < 16 \<Longrightarrow> is_lower_hex (hex_digit d)"
  by (auto simp: hex_digit_def char_class_defs)

lemma hex_val_digit [simp]: "d < 16 \<Longrightarrow> hex_val (hex_digit d) = d"
  by (auto simp: hex_digit_def hex_val_def char_class_defs)

lemma hex_digit_inject: "d < 16 \<Longrightarrow> e < 16 \<Longrightarrow> hex_digit d = hex_digit e \<longleftrightarrow> d = e"
  using hex_val_digit by metis

lemma length_hex_encode [simp]: "length (hex_encode bs) = 2 * length bs"
  by (induction bs) (auto simp: hex_encode_def)

lemma hex_encode_lower: "list_all is_lower_hex (hex_encode bs)"
  by (induction bs) (auto simp: hex_encode_def byte_nibbles)

lemma hex_encode_append: "hex_encode (xs @ ys) = hex_encode xs @ hex_encode ys"
  by (simp add: hex_encode_def)

lemma hex_encode_inject [simp]: "hex_encode xs = hex_encode ys \<longleftrightarrow> xs = ys"
proof (induction xs arbitrary: ys)
  case Nil
  then show ?case by (cases ys) (auto simp: hex_encode_def)
next
  case (Cons x xs)
  have byte: "x = y" if "unat x div 16 = unat y div 16" "unat x mod 16 = unat y mod 16" for y :: "8 word"
    using that by (metis div_mult_mod_eq word_unat_eq_iff)
  show ?case
    by (cases ys) (use Cons byte in \<open>auto simp: hex_encode_def hex_digit_inject byte_nibbles\<close>)
qed

lemma to_lower_hex: "list_all is_lower_hex s \<Longrightarrow> to_lower s = s"
  by (induction s) (auto simp: to_lower_def char_class_defs)

text \<open>
  \<open>hex.DecodeString\<close>, and base64 with the standard alphabet and padding.  Every caller encodes the
  decoded bytes again and compares, so only the canonical texts matter.
\<close>

fun hex_decode :: "string \<Rightarrow> 8 word list option" where
  "hex_decode [] = Some []"
| "hex_decode [c] = None"
| "hex_decode (c # d # cs) =
     (if is_hex c \<and> is_hex d
      then map_option (Cons (of_nat (16 * hex_val c + hex_val d))) (hex_decode cs) else None)"

definition base64_alphabet :: string where
  "base64_alphabet = ''ABCDEFGHIJKLMNOPQRSTUVWXYZabcdefghijklmnopqrstuvwxyz0123456789+/''"

fun base64_encode :: "8 word list \<Rightarrow> string" where
  "base64_encode [] = []"
| "base64_encode [a] =
     (let n = unat a * 16 in [base64_alphabet ! (n div 64), base64_alphabet ! (n mod 64), CHR ''='', CHR ''=''])"
| "base64_encode [a, b] =
     (let n = (unat a * 256 + unat b) * 4 in
      [base64_alphabet ! (n div 4096), base64_alphabet ! (n div 64 mod 64), base64_alphabet ! (n mod 64), CHR ''=''])"
| "base64_encode (a # b # c # bs) =
     (let n = (unat a * 256 + unat b) * 256 + unat c in
      [base64_alphabet ! (n div 262144), base64_alphabet ! (n div 4096 mod 64), base64_alphabet ! (n div 64 mod 64),
       base64_alphabet ! (n mod 64)] @ base64_encode bs)"

fun index_of :: "'a \<Rightarrow> 'a list \<Rightarrow> nat option" where
  "index_of x [] = None"
| "index_of x (y # ys) = (if x = y then Some 0 else map_option Suc (index_of x ys))"

fun base64_decode :: "string \<Rightarrow> 8 word list option" where
  "base64_decode [] = Some []"
| "base64_decode (w # x # y # z # cs) =
     (case (index_of w base64_alphabet, index_of x base64_alphabet) of
        (Some i, Some j) \<Rightarrow>
          if y = CHR ''='' \<and> z = CHR ''='' \<and> cs = [] then Some [of_nat ((i * 64 + j) div 16)]
          else (case index_of y base64_alphabet of
            None \<Rightarrow> None
          | Some k \<Rightarrow>
              if z = CHR ''='' \<and> cs = [] then
                (let n = ((i * 64 + j) * 64 + k) div 4 in Some [of_nat (n div 256), of_nat n])
              else (case index_of z base64_alphabet of
                None \<Rightarrow> None
              | Some l \<Rightarrow>
                  (let n = ((i * 64 + j) * 64 + k) * 64 + l in
                   map_option (\<lambda>bs. of_nat (n div 65536) # of_nat (n div 256) # of_nat n # bs) (base64_decode cs))))
      | _ \<Rightarrow> None)"
| "base64_decode _ = None"

lemma index_of_nth: "distinct xs \<Longrightarrow> i < length xs \<Longrightarrow> index_of (xs ! i) xs = Some i"
proof (induction xs arbitrary: i)
  case (Cons x xs)
  then show ?case by (cases i) auto
qed simp

lemma base64_index [simp]: "i < 64 \<Longrightarrow> index_of (base64_alphabet ! i) base64_alphabet = Some i"
  by (rule index_of_nth) (simp_all add: base64_alphabet_def)

lemma base64_no_pad [simp]: "i < 64 \<Longrightarrow> base64_alphabet ! i \<noteq> CHR ''=''"
proof -
  assume "i < 64"
  then have "base64_alphabet ! i \<in> set base64_alphabet" by (intro nth_mem) (simp add: base64_alphabet_def)
  moreover have "CHR ''='' \<notin> set base64_alphabet" by (simp add: base64_alphabet_def)
  ultimately show ?thesis by metis
qed

lemma byte_less [simp]: "unat (a :: 8 word) < 256"
  using unsigned_less [of a, where ?'a = nat] by simp

lemma of_nat_byte: "of_nat (n * 256 + unat a) = (a :: 8 word)"
proof -
  have "(256 :: 8 word) = 0" by simp
  then have "of_nat n * 256 = (0 :: 8 word)" by (metis mult_zero_right)
  then show ?thesis by simp
qed

lemma base64_bounds:
  "(unat (a :: 8 word) * 256 + unat (b :: 8 word)) * 4 < 262144"
  "(unat (a :: 8 word) * 256 + unat (b :: 8 word)) * 256 + unat (c :: 8 word) < 16777216"
proof -
  have "(x * 256 + y) * 4 < 262144" "(x * 256 + y) * 256 + z < 16777216" if "x < 256" "y < 256" "z < 256" for x y z :: nat
    using that by simp_all
  then show "(unat a * 256 + unat b) * 4 < 262144" "(unat a * 256 + unat b) * 256 + unat c < 16777216"
    using byte_less by blast+
qed

lemma div_256: "(x * 256 + unat (c :: 8 word)) div 256 = x"
proof -
  have "(x * 256 + z) div 256 = x" if "z < 256" for z :: nat using that by simp
  then show ?thesis using byte_less by blast
qed

lemma base64_join:
  "(n :: nat) div 4096 * 64 + n div 64 mod 64 = n div 64" "n div 262144 * 64 + n div 4096 mod 64 = n div 4096"
proof -
  have "n div 4096 = n div 64 div 64" "n div 262144 = n div 4096 div 64"
    by (simp_all add: div_mult2_eq [symmetric])
  then show "n div 4096 * 64 + n div 64 mod 64 = n div 64" "n div 262144 * 64 + n div 4096 mod 64 = n div 4096"
    by (simp_all only: div_mult_mod_eq)
qed

lemma base64_decode_group:
  assumes "n < 16777216"
  shows "base64_decode (base64_alphabet ! (n div 262144) # base64_alphabet ! (n div 4096 mod 64) #
      base64_alphabet ! (n div 64 mod 64) # base64_alphabet ! (n mod 64) # cs) =
    map_option (\<lambda>bs. of_nat (n div 65536) # of_nat (n div 256) # of_nat n # bs) (base64_decode cs)"
proof -
  have i: "n div 262144 < 64" using assms by (intro less_mult_imp_div_less) simp
  have "((n div 262144 * 64 + n div 4096 mod 64) * 64 + n div 64 mod 64) * 64 + n mod 64 = n"
    by (simp only: base64_join div_mult_mod_eq)
  then have "262144 * (n div 262144) + 4096 * (n div 4096 mod 64) + n div 64 mod 64 * 64 + n mod 64 = n"
    by simp
  then show ?thesis using i by (simp add: Let_def del: of_nat_add of_nat_mult)
qed

lemma base64_roundtrip: "base64_decode (base64_encode bs) = Some bs"
proof (induction bs rule: base64_encode.induct)
  case (2 a)
  have "unat a * 16 div 64 < 64" using byte_less [of a] by linarith
  moreover have "(unat a * 16 div 64 * 64 + unat a * 16 mod 64) div 16 = unat a"
    by (simp only: div_mult_mod_eq)
  ultimately show ?case by (simp add: Let_def)
next
  case (3 a b)
  let ?n = "(unat a * 256 + unat b) * 4"
  have "?n div 4096 < 64"
    using base64_bounds(1) by (intro less_mult_imp_div_less) simp
  moreover have "((?n div 4096 * 64 + ?n div 64 mod 64) * 64 + ?n mod 64) div 4 = unat a * 256 + unat b"
    by (simp only: base64_join div_mult_mod_eq) simp
  ultimately show ?case using of_nat_byte [of "unat a" b] by (simp add: Let_def)
next
  case (4 a b c bs)
  let ?n = "(unat a * 256 + unat b) * 256 + unat c"
  have d: "?n div 256 = unat a * 256 + unat b" by (rule div_256)
  have "?n div 65536 = ?n div 256 div 256" by (simp only: div_mult2_eq [symmetric]) simp
  then have e: "?n div 65536 = unat a" by (simp only: div_256)
  have "of_nat (?n div 65536) = a" "of_nat (?n div 256) = b" "of_nat ?n = c"
    unfolding d e by (simp, rule of_nat_byte, rule of_nat_byte)
  then show ?case
    using base64_decode_group [OF base64_bounds(2) [of a b c], of "base64_encode bs"] 4
    by (simp only: base64_encode.simps Let_def append_Cons append_Nil option.map)
qed simp

subsection \<open>Signed numerals and slashes\<close>

lemma slash_not_digit: "is_digit c \<Longrightarrow> c \<noteq> CHR ''/''"
  by (auto simp: char_class_defs)

lemma dec_no_slash [simp]: "CHR ''/'' \<notin> set (dec n)"
  using dec_digits [of n] slash_not_digit by (auto simp: list_all_iff)

lemma dec_int_no_slash [simp]: "CHR ''/'' \<notin> set (dec_int i)"
  by (simp add: dec_int_def)

lemma minus_not_dec: "CHR ''-'' # s \<noteq> dec n"
proof
  assume "CHR ''-'' # s = dec n"
  with dec_digits [of n] have "is_digit CHR ''-''" by (metis list.pred_inject(2))
  then show False by (simp add: char_class_defs)
qed

lemma dec_int_inject [simp]: "dec_int i = dec_int j \<longleftrightarrow> i = j"
  using minus_not_dec minus_not_dec [symmetric] by (auto simp: dec_int_def)

lemma safeRef_no_slash: "safeRef s \<Longrightarrow> CHR ''/'' \<notin> set s"
  by (cases s) (auto simp: safeRef_def list_all_iff char_class_defs)

lemma split_at_slash:
  assumes "x \<notin> set xs" "x \<notin> set ys"
  shows "xs @ x # us = ys @ x # vs \<longleftrightarrow> xs = ys \<and> us = vs"
  using assms by (auto simp: append_eq_append_conv2 append_eq_Cons_conv Cons_eq_append_conv)

lemma dec_head_digit: "dec n = c # cs \<Longrightarrow> is_digit c"
  using dec_digits [of n] by simp

lemma atoi_dec_int: "- (2 ^ 63) \<le> i \<Longrightarrow> i < 2 ^ 63 \<Longrightarrow> atoi (dec_int i) = Some i"
proof (cases "i < 0")
  case True
  assume "- (2 ^ 63) \<le> i"
  then show ?thesis using True by (simp add: dec_int_def dec_digits nat_le_iff)
next
  case False
  assume "i < 2 ^ 63"
  obtain c cs where c: "dec (nat i) = c # cs" by (cases "dec (nat i)") auto
  then have "c \<noteq> CHR ''-''" "c \<noteq> CHR ''+''" using dec_head_digit [OF c] by (auto simp: char_class_defs)
  moreover have "parse_dec (c # cs) = nat i" "list_all is_digit (c # cs)"
    using parse_dec_dec [of "nat i"] dec_digits [of "nat i"] unfolding c by auto
  ultimately show ?thesis using False \<open>i < 2 ^ 63\<close> c by (auto simp: dec_int_def nat_less_iff)
qed

subsection \<open>Texts without surrounding white space\<close>

text \<open>Texts of printable ASCII characters have nothing to trim.\<close>

lemma space_rune_codes: "r \<in> set space_runes \<Longrightarrow> r \<noteq> [] \<and> (\<forall>c \<in> set r. code_of c \<le> 32 \<or> 127 < code_of c)"
  by (auto simp: space_runes_def code_of_def)

lemma trim_space_printable:
  assumes "list_all (\<lambda>c. 32 < code_of c \<and> code_of c \<le> 127) s"
  shows "trim_space s = s"
proof -
  have "\<not> has_prefix r s \<and> \<not> has_suffix r s" if "r \<in> set space_runes" for r
  proof -
    have r: "hd r \<in> set r" using space_rune_codes [OF that] by simp
    moreover have "hd r \<notin> set s"
    proof
      assume "hd r \<in> set s"
      then have "32 < code_of (hd r)" "code_of (hd r) \<le> 127" using assms by (auto simp: list_all_iff)
      then show False using space_rune_codes [OF that] r by fastforce
    qed
    ultimately show ?thesis
      unfolding has_prefix_def has_suffix_def by (metis in_set_takeD in_set_dropD)
  qed
  then have "drop_space s = s" "drop_space_right s = s"
    by (auto simp: drop_space_def drop_space_right_def find_None_iff split: option.splits)
      (auto simp: find_Some_iff)
  then have "trim_left_fuel k s = s" "(drop_space_right ^^ k) s = s" for k by (induction k) auto
  then show ?thesis by (simp add: trim_space_def trim_left_space_def trim_right_space_def)
qed

definition printable :: "char \<Rightarrow> bool" where
  "printable c \<longleftrightarrow> 33 \<le> code_of c \<and> code_of c \<le> 126"

lemma runes_not_printable: "list_all (\<lambda>r. r \<noteq> [] \<and> \<not> printable (hd r) \<and> \<not> printable (last r)) space_runes"
  by (auto simp: space_runes_def printable_def code_of_def list_all_iff)

lemma trimmed_ends: "s \<noteq> [] \<Longrightarrow> printable (hd s) \<Longrightarrow> printable (last s) \<Longrightarrow> is_trimmed s"
proof -
  assume s: "s \<noteq> []" "printable (hd s)" "printable (last s)"
  have "\<not> has_prefix r s \<and> \<not> has_suffix r s" if "r \<in> set space_runes" for r
  proof -
    have r: "r \<noteq> []" "\<not> printable (hd r)" "\<not> printable (last r)"
      using that runes_not_printable by (auto simp: list_all_iff)
    have "hd s = hd r" if "has_prefix r s" using that r(1) s(1) by (metis hd_take has_prefix_def length_greater_0_conv)
    moreover have "last s = last r" if "has_suffix r s"
      using that r(1) by (metis has_suffix_def last_drop drop_eq_Nil linorder_not_le)
    ultimately show ?thesis using r s by auto
  qed
  then show ?thesis by (auto simp: is_trimmed_def list_ex_iff)
qed

subsection \<open>Decimal arithmetic on texts\<close>

lemma parse_dec_append: "parse_dec (s @ t) = parse_dec s * 10 ^ length t + parse_dec t"
proof (induction t rule: rev_induct)
  case (snoc c t)
  then show ?case by (simp add: parse_dec_def algebra_simps)
qed (simp add: parse_dec_def)

lemma parse_dec_Cons: "parse_dec (c # s) = digit_val c * 10 ^ length s + parse_dec s"
  using parse_dec_append [of "[c]" s] by (simp add: parse_dec_def)

lemma parse_dec_Nil [simp]: "parse_dec [] = 0"
  by (simp add: parse_dec_def)

lemma digit_val_bounds: "is_digit c \<Longrightarrow> digit_val c < 10"
  by (auto simp: digit_val_def char_class_defs)

lemma digit_char_zero: "char_of (48 :: nat) = CHR ''0''"
proof -
  have "(of_char (char_of (48 :: nat)) :: nat) = of_char CHR ''0''" by simp
  then show ?thesis by (simp only: of_char_eq_iff)
qed

lemma dec_zero: "dec 0 = ''0''"
  by (subst dec.simps) (simp add: digit_char_def digit_char_zero)

lemma digit_val_zero:
  assumes "is_digit c"
  shows "digit_val c = 0 \<longleftrightarrow> c = CHR ''0''"
proof
  assume "digit_val c = 0"
  then have "(of_char c :: nat) = of_char CHR ''0''" using assms by (simp add: digit_val_def char_class_defs)
  then show "c = CHR ''0''" by (simp only: of_char_eq_iff)
qed (simp add: digit_val_def code_of_def)

lemma parse_dec_less: "list_all is_digit s \<Longrightarrow> parse_dec s < 10 ^ length s"
proof (induction s)
  case (Cons c s)
  then have "digit_val c \<le> 9" using digit_val_bounds by fastforce
  then have "digit_val c * 10 ^ length s \<le> 9 * 10 ^ length s" by (rule mult_le_mono1)
  moreover have "parse_dec s < 10 ^ length s" using Cons by simp
  ultimately have "digit_val c * 10 ^ length s + parse_dec s < 9 * 10 ^ length s + 10 ^ length s"
    by (rule add_le_less_mono)
  then show ?case by (simp add: parse_dec_Cons)
qed simp

lemma parse_dec_ge:
  assumes "list_all is_digit s" "s \<noteq> []" "hd s \<noteq> CHR ''0''"
  shows "10 ^ (length s - 1) \<le> parse_dec s"
proof -
  obtain c t where s: "s = c # t" using assms(2) by (cases s) auto
  then have "digit_val c \<noteq> 0" using assms digit_val_zero by auto
  then have "1 * 10 ^ length t \<le> digit_val c * 10 ^ length t" by (intro mult_le_mono1) simp
  then show ?thesis using s by (simp only: parse_dec_Cons) (metis diff_Suc_1 length_Cons mult_1 trans_le_add1)
qed

text \<open>A text of digits without a leading zero is the print of its value.\<close>

lemma dec_parse_dec:
  assumes "list_all is_digit s" "s \<noteq> []" "hd s \<noteq> CHR ''0''"
  shows "dec (parse_dec s) = s"
  using assms
proof (induction s rule: rev_induct)
  case (snoc c s)
  have c: "is_digit c" "digit_char (digit_val c) = c"
    using snoc.prems(1) by (auto simp: digit_char_def digit_val_def char_class_defs)
  show ?case
  proof (cases "s = []")
    case True
    then show ?thesis using c digit_val_bounds [OF c(1)] by (subst dec.simps) (simp add: parse_dec_Cons)
  next
    case False
    then have ih: "dec (parse_dec s) = s" using snoc by auto
    have "10 ^ (length s - 1) \<le> parse_dec s" using snoc.prems False by (intro parse_dec_ge) auto
    then have "1 \<le> parse_dec s" using one_le_power [of "10 :: nat" "length s - 1"] by linarith
    moreover have "parse_dec (s @ [c]) = 10 * parse_dec s + digit_val c" by (simp add: parse_dec_append parse_dec_Cons)
    ultimately show ?thesis using ih c digit_val_bounds [OF c(1)] by (subst dec.simps) simp
  qed
qed simp

end
