(* ===== verification/Durable_File.thy ===== *)
theory Durable_File
  imports Go_Text
begin

section \<open>Directories, atomic file replacement, crashes\<close>

text \<open>
  Every durable component of the agent writes its files the same way (\<open>store.atomicWrite\<close>,
  \<open>runstate.persist\<close>, \<open>meter.atomicJSON\<close>, \<open>control.writeJournal\<close>): a temporary file in
  the same directory, chmod, write, sync, close, rename over the target, sync of the directory.
  This theory models that sequence call by call, with a failure or a crash at any of them, and
  proves that it implements the interface the components use: a write that either leaves the
  old value or installs the new one, and installs it when it reports success.

  A file's content is the value its bytes decode to, \<open>None\<close> for bytes that do not decode
  (an empty or partly written file).
\<close>

type_synonym 'c dir = "(string \<times> 'c option) list"

definition dir_read :: "'c dir \<Rightarrow> string \<Rightarrow> 'c option option" where
  "dir_read d p = map_of d p"

definition dir_put :: "string \<Rightarrow> 'c option \<Rightarrow> 'c dir \<Rightarrow> 'c dir" where
  "dir_put p c d = AList.update p c d"

definition dir_del :: "string \<Rightarrow> 'c dir \<Rightarrow> 'c dir" where
  "dir_del p d = AList.delete p d"

lemma dir_read_put [simp]: "dir_read (dir_put p c d) q = (if q = p then Some c else dir_read d q)"
  by (simp add: dir_read_def dir_put_def update_conv')

lemma dir_read_del [simp]: "dir_read (dir_del p d) q = (if q = p then None else dir_read d q)"
  by (simp add: dir_read_def dir_del_def delete_conv')

lemma dir_read_Nil [simp]: "dir_read [] p = None"
  by (simp add: dir_read_def)

text \<open>\<open>os.Remove\<close>.\<close>

datatype remove_result = Removed | NotExist | RemoveError

definition dir_remove :: "io \<Rightarrow> string \<Rightarrow> 'c dir \<Rightarrow> remove_result \<times> 'c dir" where
  "dir_remove oc p d =
     (if oc \<noteq> IoOk then (RemoveError, d)
      else if dir_read d p = None then (NotExist, d)
      else (Removed, dir_del p d))"

text \<open>The atomic write as one call: reported success and the directory after it.\<close>

fun dir_write :: "io \<Rightarrow> string \<Rightarrow> 'c \<Rightarrow> 'c dir \<Rightarrow> bool \<times> 'c dir" where
  "dir_write IoOk p c d = (True, dir_put p (Some c) d)"
| "dir_write IoFail p c d = (False, d)"
| "dir_write IoLate p c d = (False, dir_put p (Some c) d)"

subsection \<open>The interface of durable writes\<close>

locale durable_store =
  fixes put_file :: "'o \<Rightarrow> string \<Rightarrow> 'c \<Rightarrow> 'd \<Rightarrow> bool \<times> 'd"
    and get_file :: "'d \<Rightarrow> string \<Rightarrow> 'c option option"
    and visible :: "string \<Rightarrow> bool"
  assumes write_ok: "visible p \<Longrightarrow> put_file oc p c d = (True, d') \<Longrightarrow> get_file d' p = Some (Some c)"
    and write_old_or_new: "visible p \<Longrightarrow> put_file oc p c d = (ok, d') \<Longrightarrow>
      get_file d' p = get_file d p \<or> get_file d' p = Some (Some c)"
    and write_frame: "visible p \<Longrightarrow> visible q \<Longrightarrow> q \<noteq> p \<Longrightarrow> put_file oc p c d = (ok, d') \<Longrightarrow>
      get_file d' q = get_file d q"
begin

lemma write_keeps_decodable:
  assumes "visible p" "visible q" "put_file oc p c d = (ok, d')"
    and "\<exists>v. get_file d q = Some (Some v) \<and> P v" and "P c"
  shows "\<exists>v. get_file d' q = Some (Some v) \<and> P v"
proof (cases "q = p")
  case True
  then show ?thesis using write_old_or_new [OF assms(1,3)] assms(4,5) by auto
next
  case False
  then show ?thesis using write_frame [OF assms(1,2) False assms(3)] assms(4) by simp
qed

fun write_all :: "('o \<times> string \<times> 'c) list \<Rightarrow> 'd \<Rightarrow> 'd" where
  "write_all [] d = d"
| "write_all ((oc, p, c) # ws) d = write_all ws (snd (put_file oc p c d))"

text \<open>
  Whatever writes follow, and whichever of them fail, a file that decoded keeps decoding to its
  old value or to one that was written to it.
\<close>

lemma write_all_old_or_new:
  assumes "\<forall>(oc, p, c) \<in> set ws. visible p" and "visible q" and "get_file d q = Some (Some v)"
  shows "\<exists>v'. get_file (write_all ws d) q = Some (Some v') \<and>
    (v' = v \<or> (\<exists>oc. (oc, q, v') \<in> set ws))"
  using assms
proof (induction ws arbitrary: d v)
  case Nil
  then show ?case by simp
next
  case (Cons w ws)
  obtain oc p c where w: "w = (oc, p, c)" by (cases w)
  obtain ok d' where wr: "put_file oc p c d = (ok, d')" by fastforce
  have p: "visible p" using Cons.prems(1) w by auto
  have "\<exists>u. get_file d' q = Some (Some u) \<and> (u = v \<or> q = p \<and> u = c)"
    using write_old_or_new [OF p wr] write_frame [OF p Cons.prems(2) _ wr] Cons.prems(3) by metis
  then obtain u where u: "get_file d' q = Some (Some u)" "u = v \<or> q = p \<and> u = c" by blast
  have "\<forall>(oc, p, c) \<in> set ws. visible p" using Cons.prems(1) by auto
  from Cons.IH [OF this Cons.prems(2) u(1)] show ?case
    using u(2) w wr by auto
qed

end

interpretation dw: durable_store dir_write dir_read "\<lambda>_. True"
proof unfold_locales
  fix oc :: io and p q :: string and c :: 'a and d d' :: "'a dir" and ok :: bool
  show "dir_write oc p c d = (True, d') \<Longrightarrow> dir_read d' p = Some (Some c)"
    by (cases oc) auto
  show "dir_write oc p c d = (ok, d') \<Longrightarrow> dir_read d' p = dir_read d p \<or> dir_read d' p = Some (Some c)"
    by (cases oc) auto
  show "q \<noteq> p \<Longrightarrow> dir_write oc p c d = (ok, d') \<Longrightarrow> dir_read d' q = dir_read d q"
    by (cases oc) auto
qed

lemmas dir_write_ok = dw.write_ok [OF TrueI]
lemmas dir_write_old_or_new = dw.write_old_or_new [OF TrueI]
lemmas dir_write_frame = dw.write_frame [OF TrueI TrueI]

subsection \<open>The system calls of an atomic write\<close>

datatype aw_step = CreateTemp | Chmod | WriteBody | SyncFile | CloseFile | RenameFile | SyncDir

text \<open>
  The call that fails, if any.  The deferred \<open>os.Remove\<close> of the temporary file runs on every
  return; after the rename the temporary name is gone and it has no effect.
\<close>

definition atomic_write ::
  "aw_step option \<Rightarrow> string \<Rightarrow> string \<Rightarrow> 'c \<Rightarrow> 'c dir \<Rightarrow> bool \<times> 'c dir" where
  "atomic_write fault tmp p c d =
     (if fault = Some CreateTemp then (False, d)
      else let d1 = dir_put tmp None d in
      if fault = Some Chmod then (False, dir_del tmp d1)
      else if fault = Some WriteBody then (False, dir_del tmp d1)
      else let d2 = dir_put tmp (Some c) d1 in
      if fault = Some SyncFile then (False, dir_del tmp d2)
      else if fault = Some CloseFile then (False, dir_del tmp d2)
      else if fault = Some RenameFile then (False, dir_del tmp d2)
      else let d3 = dir_put p (Some c) (dir_del tmp d2) in
      if fault = Some SyncDir then (False, d3) else (True, d3))"

text \<open>
  The directories a crash just before a call can leave: the body written and not yet synced may
  be lost, and so may a rename before the directory is synced.
\<close>

fun crash_dirs :: "aw_step \<Rightarrow> string \<Rightarrow> string \<Rightarrow> 'c \<Rightarrow> 'c dir \<Rightarrow> 'c dir list" where
  "crash_dirs CreateTemp tmp p c d = [d]"
| "crash_dirs Chmod tmp p c d = [dir_put tmp None d]"
| "crash_dirs WriteBody tmp p c d = [dir_put tmp None d]"
| "crash_dirs SyncFile tmp p c d = [dir_put tmp None d, dir_put tmp (Some c) d]"
| "crash_dirs CloseFile tmp p c d = [dir_put tmp (Some c) d]"
| "crash_dirs RenameFile tmp p c d = [dir_put tmp (Some c) d]"
| "crash_dirs SyncDir tmp p c d =
     [dir_put tmp (Some c) d, dir_put p (Some c) (dir_del tmp (dir_put tmp (Some c) d))]"

text \<open>The outcome a component sees of the call that failed.\<close>

fun io_of_fault :: "aw_step option \<Rightarrow> io" where
  "io_of_fault None = IoOk"
| "io_of_fault (Some SyncDir) = IoLate"
| "io_of_fault (Some _) = IoFail"

lemma atomic_write_refines:
  assumes "tmp \<noteq> p" and "dir_read d tmp = None"
  shows "fst (atomic_write fault tmp p c d) = fst (dir_write (io_of_fault fault) p c d) \<and>
    (\<forall>q. dir_read (snd (atomic_write fault tmp p c d)) q =
         dir_read (snd (dir_write (io_of_fault fault) p c d)) q)"
proof (cases fault)
  case None
  then show ?thesis using assms by (auto simp: atomic_write_def Let_def)
next
  case (Some s)
  then show ?thesis using assms by (cases s) (auto simp: atomic_write_def Let_def)
qed

lemma crash_dirs_old_or_new:
  assumes "tmp \<noteq> p" and "d' \<in> set (crash_dirs s tmp p c d)"
  shows "dir_read d' p = dir_read d p \<or> dir_read d' p = Some (Some c)"
    and "q \<noteq> p \<Longrightarrow> q \<noteq> tmp \<Longrightarrow> dir_read d' q = dir_read d q"
  using assms by (cases s; auto)+

interpretation aw: durable_store "\<lambda>fault p c d. atomic_write fault ''.pending-'' p c d" dir_read
  "\<lambda>p. p \<noteq> ''.pending-''"
proof unfold_locales
  fix oc :: "aw_step option" and p q :: string and c :: 'a and d d' :: "'a dir" and ok :: bool
  assume p: "p \<noteq> ''.pending-''"
  show "atomic_write oc ''.pending-'' p c d = (True, d') \<Longrightarrow> dir_read d' p = Some (Some c)"
    using p by (auto simp: atomic_write_def Let_def split: if_splits)
  show "atomic_write oc ''.pending-'' p c d = (ok, d') \<Longrightarrow>
      dir_read d' p = dir_read d p \<or> dir_read d' p = Some (Some c)"
    using p by (auto simp: atomic_write_def Let_def split: if_splits)
  show "q \<noteq> ''.pending-'' \<Longrightarrow> q \<noteq> p \<Longrightarrow> atomic_write oc ''.pending-'' p c d = (ok, d') \<Longrightarrow>
      dir_read d' q = dir_read d q"
    using p by (auto simp: atomic_write_def Let_def split: if_splits)
qed

end
