(* ===== verification/Outbox.thy ===== *)
theory Outbox
  imports Go_Base
begin

section \<open>The outbox interface\<close>

text \<open>
  The metering manager and the control service reach the persistent queue only through an
  interface with one method, \<open>Enqueue(batchID, payload)\<close> (\<open>meter.Queue\<close>,
  \<open>control.ReceiptQueue\<close>).  This locale states what those clients rely on and proves, from
  the laws alone, that repeating an enqueue after a crash is harmless.  \<open>e\<close> is the
  environment of a call (clock, outcomes of file operations), \<open>holds\<close> says that a batch ID is
  pending, \<open>stores\<close> that its payload is on disk, \<open>spare\<close> that the sequence counter is not
  exhausted.
\<close>

locale outbox =
  fixes enq :: "'env \<Rightarrow> string \<Rightarrow> bytes \<Rightarrow> 'q \<Rightarrow> ('e + 'i \<times> bool) \<times> 'q"
    and holds :: "'q \<Rightarrow> string \<Rightarrow> bool"
    and stores :: "'q \<Rightarrow> string \<Rightarrow> bytes \<Rightarrow> bool"
    and inv :: "'q \<Rightarrow> bool"
    and spare :: "'q \<Rightarrow> bool"
  assumes enq_inv: "inv q \<Longrightarrow> spare q \<Longrightarrow> inv (snd (enq e b p q))"
    and enq_accepts: "inv q \<Longrightarrow> enq e b p q = (Inr (i, fresh), q') \<Longrightarrow> holds q' b"
    and enq_fresh: "inv q \<Longrightarrow> enq e b p q = (Inr (i, True), q') \<Longrightarrow> \<not> holds q b \<and> stores q' b p"
    and enq_again: "inv q \<Longrightarrow> holds q b \<Longrightarrow> enq e b p q = (Inr (i, fresh), q') \<Longrightarrow> \<not> fresh \<and> q' = q"
    and enq_keeps: "inv q \<Longrightarrow> spare q \<Longrightarrow> stores q b p \<Longrightarrow> stores (snd (enq e c p' q)) b p"
    and stores_holds: "stores q b p \<Longrightarrow> holds q b"
begin

text \<open>Retrying an accepted batch adds nothing.\<close>

lemma enq_retry:
  assumes "inv q" "spare q" "enq e b p q = (Inr (i, f), q1)" "enq e' b p q1 = (Inr (i', f'), q2)"
  shows "q2 = q1 \<and> \<not> f'"
proof -
  have "inv q1" using enq_inv [OF assms(1,2), of e b p] assms(3) by simp
  moreover have "holds q1 b" using enq_accepts [OF assms(1,3)] .
  ultimately show ?thesis using enq_again [OF _ _ assms(4)] by blast
qed

text \<open>A payload that was stored stays stored when other batches, or the same one, are enqueued.\<close>

fun enq_all :: "('env \<times> string \<times> bytes) list \<Rightarrow> 'q \<Rightarrow> 'q" where
  "enq_all [] q = q"
| "enq_all ((e, b, p) # bs) q = enq_all bs (snd (enq e b p q))"

lemma enq_all_stores:
  assumes "inv q" "stores q b p" "\<forall>k \<le> length bs. spare (enq_all (take k bs) q)"
  shows "stores (enq_all bs q) b p"
  using assms
proof (induction bs arbitrary: q)
  case (Cons x bs)
  obtain e c p' where x: "x = (e, c, p')" by (cases x)
  have s: "spare q" using Cons.prems(3) by (metis enq_all.simps(1) le0 take0)
  have "\<forall>k \<le> length bs. spare (enq_all (take k bs) (snd (enq e c p' q)))"
  proof (intro allI impI)
    fix k assume "k \<le> length bs"
    then have "spare (enq_all (take (Suc k) (x # bs)) q)" using Cons.prems(3) by auto
    then show "spare (enq_all (take k bs) (snd (enq e c p' q)))" by (simp add: x)
  qed
  then show ?case
    using Cons.IH enq_inv [OF Cons.prems(1) s] enq_keeps [OF Cons.prems(1) s Cons.prems(2)] by (simp add: x)
qed simp

end

end
