(* ===== verification/Go_Utf8.thy ===== *)
theory Go_Utf8
  imports Go_Text
begin

section \<open>Runes, fields and substrings\<close>

text \<open>
  Texts are byte strings; this theory decodes them as Go does: the valid UTF-8 encoding at the
  front of a text, the runes of a text with every invalid byte on its own, \<open>utf8.ValidString\<close>,
  \<open>strings.Map\<close>, \<open>strings.Fields\<close> and \<open>strings.Contains\<close>.
\<close>

definition contains_text :: "string \<Rightarrow> string \<Rightarrow> bool" where
  "contains_text t s \<longleftrightarrow> list_ex (\<lambda>n. has_prefix t (drop n s)) [0 ..< Suc (length s)]"

text \<open>\<open>base64.StdEncoding.DecodeString\<close> skips line breaks.\<close>

definition base64_std :: "string \<Rightarrow> 8 word list option" where
  "base64_std s = base64_decode (filter (\<lambda>c. code_of c \<noteq> 10 \<and> code_of c \<noteq> 13) s)"

definition between :: "nat \<Rightarrow> nat \<Rightarrow> char \<Rightarrow> bool" where
  "between lo hi c \<longleftrightarrow> lo \<le> code_of c \<and> code_of c \<le> hi"

definition is_cont :: "char \<Rightarrow> bool" where
  "is_cont c \<longleftrightarrow> between 128 191 c"

text \<open>The length of an encoding from its first byte and the bounds of the second byte.\<close>

definition lead_len :: "char \<Rightarrow> nat" where
  "lead_len c =
     (if between 0 127 c then 1 else if between 194 223 c then 2 else if between 224 239 c then 3
      else if between 240 244 c then 4 else 0)"

definition second_ok :: "char \<Rightarrow> char \<Rightarrow> bool" where
  "second_ok c d \<longleftrightarrow>
     (if code_of c = 224 then between 160 191 d else if code_of c = 237 then between 128 159 d
      else if code_of c = 240 then between 144 191 d else if code_of c = 244 then between 128 143 d
      else is_cont d)"

fun is_rune :: "string \<Rightarrow> bool" where
  "is_rune [] \<longleftrightarrow> False"
| "is_rune (c # cs) \<longleftrightarrow>
     lead_len c = Suc (length cs) \<and> list_all is_cont cs \<and> (case cs of [] \<Rightarrow> True | d # _ \<Rightarrow> second_ok c d)"

text \<open>The width of the encoding a text starts with, 0 for an invalid byte.\<close>

definition rune_width :: "string \<Rightarrow> nat" where
  "rune_width s =
     (case s of [] \<Rightarrow> 0
      | c # _ \<Rightarrow> if is_rune (take (lead_len c) s) then lead_len c else 0)"

text \<open>The runes of a text; \<open>None\<close> stands for one invalid byte, which Go reads as U+FFFD.\<close>

function runes :: "string \<Rightarrow> string option list" where
  "runes [] = []"
| "runes (c # cs) =
     (let n = rune_width (c # cs) in
      if n = 0 then None # runes cs else Some (take n (c # cs)) # runes (drop n (c # cs)))"
  by pat_completeness auto
termination
  by (relation "measure length") (auto simp: Let_def)

definition valid_utf8 :: "string \<Rightarrow> bool" where
  "valid_utf8 s \<longleftrightarrow> None \<notin> set (runes s)"

definition rune_error :: string where
  "rune_error = map char_of [239, 191, 189 :: nat]"

definition rune_bytes :: "string option \<Rightarrow> string" where
  "rune_bytes r = (case r of None \<Rightarrow> rune_error | Some x \<Rightarrow> x)"

text \<open>\<open>strings.Map\<close> for a mapping given on encodings.\<close>

definition map_runes :: "(string \<Rightarrow> string) \<Rightarrow> string \<Rightarrow> string" where
  "map_runes f s = concat (map (\<lambda>r. f (rune_bytes r)) (runes s))"

text \<open>\<open>strings.Fields\<close>: the maximal runs of runes that are not white space.\<close>

fun fields_of :: "string list \<Rightarrow> string \<Rightarrow> string list" where
  "fields_of [] w = (if w = [] then [] else [w])"
| "fields_of (r # rs) w =
     (if r \<in> set space_runes then (if w = [] then [] else [w]) @ fields_of rs [] else fields_of rs (w @ r))"

text \<open>
  An invalid byte is a rune that is not white space and keeps its byte.
\<close>

fun rune_pieces :: "string option list \<Rightarrow> string \<Rightarrow> string list" where
  "rune_pieces [] s = []"
| "rune_pieces (None # rs) s = take 1 s # rune_pieces rs (drop 1 s)"
| "rune_pieces (Some x # rs) s = x # rune_pieces rs (drop (length x) s)"

definition fields :: "string \<Rightarrow> string list" where
  "fields s = fields_of (rune_pieces (runes s) s) []"

fun join_space :: "string list \<Rightarrow> string" where
  "join_space [] = []"
| "join_space [w] = w"
| "join_space (w # v # ws) = w @ '' '' @ join_space (v # ws)"

subsection \<open>Encodings synchronise\<close>

lemma is_rune_parts:
  assumes "is_rune r"
  shows "\<exists>c cs. r = c # cs \<and> lead_len c = Suc (length cs) \<and> list_all is_cont cs \<and> \<not> is_cont c"
proof -
  obtain c cs where r: "r = c # cs" using assms by (cases r) auto
  have l: "lead_len c = Suc (length cs)" "list_all is_cont cs" using assms r by auto
  have "\<not> is_cont c" using l(1) by (auto simp: lead_len_def is_cont_def between_def split: if_splits)
  then show ?thesis using r l by blast
qed

lemma rune_prefix_eq:
  assumes "is_rune r" "is_rune q" "r @ s = q @ t"
  shows "r = q \<and> s = t"
proof -
  have "length r = length q" using is_rune_parts [OF assms(1)] is_rune_parts [OF assms(2)] assms(3) by auto
  then show ?thesis using assms(3) by simp
qed

lemma rune_suffix_eq:
  assumes "is_rune r" "is_rune q" "s @ r = t @ q"
  shows "r = q \<and> s = t"
proof -
  obtain c cs where r: "r = c # cs" "list_all is_cont cs" "\<not> is_cont c" using is_rune_parts [OF assms(1)] by auto
  obtain d ds where q: "q = d # ds" "list_all is_cont ds" "\<not> is_cont d" using is_rune_parts [OF assms(2)] by auto
  have rs: "rev (s @ r) = rev cs @ c # rev s" "rev (t @ q) = rev ds @ d # rev t" using r q by simp_all
  have "takeWhile is_cont (rev cs @ c # rev s) = rev cs"
    using r by (subst takeWhile_append2) (auto simp: list_all_iff)
  moreover have "takeWhile is_cont (rev ds @ d # rev t) = rev ds"
    using q by (subst takeWhile_append2) (auto simp: list_all_iff)
  ultimately have "rev cs = rev ds" using rs assms(3) by metis
  then have "length r = length q" using r q by simp
  then show ?thesis using assms(3) by simp
qed

lemma is_rune_nonempty: "is_rune r \<Longrightarrow> r \<noteq> []"
  by auto

lemma is_rune_length: "is_rune r \<Longrightarrow> length r \<le> 4"
  using is_rune_parts [of r] by (auto simp: lead_len_def split: if_splits)

lemma rune_width_append: "is_rune r \<Longrightarrow> rune_width (r @ s) = length r"
  using is_rune_parts [of r] by (auto simp: rune_width_def)

lemma runes_append: "is_rune r \<Longrightarrow> runes (r @ s) = Some r # runes s"
proof -
  assume r: "is_rune r"
  obtain c cs where c: "r = c # cs" using is_rune_nonempty [OF r] by (cases r) auto
  have "rune_width (c # cs @ s) = Suc (length cs)" using rune_width_append [OF r, of s] c by simp
  then show ?thesis using c by simp
qed

lemma runes_concat: "list_all is_rune rs \<Longrightarrow> runes (concat rs @ s) = map Some rs @ runes s"
  by (induction rs) (simp_all add: runes_append)

lemma runes_parts: "runes s = map Some rs \<Longrightarrow> list_all is_rune rs \<and> concat rs = s"
proof (induction s arbitrary: rs rule: runes.induct)
  case (2 c cs)
  let ?n = "rune_width (c # cs)"
  have n: "?n \<noteq> 0" using 2(3) by (auto simp: Let_def split: if_splits)
  then obtain r rs' where rs: "rs = r # rs'" "r = take ?n (c # cs)" "runes (drop ?n (c # cs)) = map Some rs'"
    using 2(3) by (cases rs) (auto simp: Let_def)
  have "is_rune r" using n rs(2) by (auto simp: rune_width_def split: if_splits)
  moreover have "list_all is_rune rs' \<and> concat rs' = drop ?n (c # cs)" using 2(2) [OF refl n rs(3)] .
  ultimately show ?case using rs by simp
qed simp

text \<open>The valid texts are the concatenations of encodings.\<close>

lemma valid_utf8_iff: "valid_utf8 s \<longleftrightarrow> (\<exists>rs. list_all is_rune rs \<and> s = concat rs)"
proof
  assume "valid_utf8 s"
  then have "Some (the x) = x" if "x \<in> set (runes s)" for x using that by (cases x) (auto simp: valid_utf8_def)
  then have "runes s = map Some (map the (runes s))" by (auto intro: map_idI [symmetric])
  then show "\<exists>rs. list_all is_rune rs \<and> s = concat rs" using runes_parts by metis
next
  assume "\<exists>rs. list_all is_rune rs \<and> s = concat rs"
  then obtain rs where "list_all is_rune rs" "s = concat rs" by blast
  then show "valid_utf8 s" using runes_concat [of rs "[]"] by (auto simp: valid_utf8_def)
qed

lemma rune_error_rune: "is_rune rune_error"
  by (simp add: rune_error_def lead_len_def between_def second_ok_def is_cont_def code_of_def)

lemma runes_are_runes: "Some x \<in> set (runes s) \<Longrightarrow> is_rune x"
proof (induction s rule: runes.induct)
  case (2 c cs)
  show ?case
  proof (cases "rune_width (c # cs) = 0")
    case True
    then show ?thesis using 2 by simp
  next
    case False
    then have "is_rune (take (rune_width (c # cs)) (c # cs))" by (auto simp: rune_width_def split: if_splits)
    then show ?thesis using 2(2) [OF refl False] 2(3) False by (auto simp: Let_def)
  qed
qed simp

text \<open>
  What a text is after \<open>json.Marshal\<close> and \<open>json.Unmarshal\<close>: every invalid byte has become U+FFFD.
\<close>

definition json_text :: "string \<Rightarrow> string" where
  "json_text s = map_runes (\<lambda>r. r) s"

lemma json_text_runes: "json_text s = concat (map rune_bytes (runes s))"
  by (simp add: json_text_def map_runes_def)

lemma json_text_valid [simp]: "valid_utf8 (json_text s)"
proof -
  have "list_all is_rune (map rune_bytes (runes s))"
    using runes_are_runes rune_error_rune by (auto simp: list_all_iff rune_bytes_def split: option.splits)
  then show ?thesis unfolding valid_utf8_iff json_text_runes by blast
qed

lemma json_text_same [simp]: "valid_utf8 s \<Longrightarrow> json_text s = s"
proof -
  assume "valid_utf8 s"
  then obtain rs where rs: "list_all is_rune rs" "s = concat rs" unfolding valid_utf8_iff by blast
  have "runes s = map Some rs" using runes_concat [OF rs(1), of "[]"] rs(2) by simp
  then show "json_text s = s" by (simp add: json_text_runes rs(2) rune_bytes_def comp_def)
qed

lemma space_runes_are_runes: "list_all is_rune space_runes"
  by (simp add: space_runes_def lead_len_def between_def second_ok_def is_cont_def code_of_def upt_rec)

text \<open>A valid text is trimmed exactly when its first and its last rune are no white space.\<close>

lemma trimmed_runes:
  assumes "list_all is_rune rs" "rs \<noteq> []" "hd rs \<notin> set space_runes" "last rs \<notin> set space_runes"
  shows "is_trimmed (concat rs)"
proof -
  have ends: "is_rune (hd rs)" "is_rune (last rs)" using assms(1,2) by (auto simp: list_all_iff)
  have parts: "concat rs = hd rs @ concat (tl rs)" "concat rs = concat (butlast rs) @ last rs"
    using assms(2) by (cases rs, auto) (metis append_butlast_last_id concat.simps concat_append append_Nil2)
  have "\<not> has_prefix r (concat rs) \<and> \<not> has_suffix r (concat rs)" if r: "r \<in> set space_runes" for r
  proof -
    have ir: "is_rune r" using r space_runes_are_runes by (auto simp: list_all_iff)
    have "\<not> has_prefix r (concat rs)"
    proof
      assume "has_prefix r (concat rs)"
      then have "concat rs = r @ drop (length r) (concat rs)" by (metis append_take_drop_id has_prefix_def)
      then show False using rune_prefix_eq [OF ir ends(1)] parts(1) r assms(3) by metis
    qed
    moreover have "\<not> has_suffix r (concat rs)"
    proof
      assume "has_suffix r (concat rs)"
      then have "concat rs = take (length (concat rs) - length r) (concat rs) @ r" by (metis append_take_drop_id has_suffix_def)
      then show False using rune_suffix_eq [OF ir ends(2)] parts(2) r assms(4) by metis
    qed
    ultimately show ?thesis by simp
  qed
  then show ?thesis by (auto simp: is_trimmed_def list_ex_iff)
qed

subsection \<open>Base64 texts\<close>

lemma alphabet_visible: "c \<in> set base64_alphabet \<Longrightarrow> 43 \<le> code_of c"
  by (auto simp: base64_alphabet_def code_of_def)

lemma base64_encode_visible: "list_all (\<lambda>c. 43 \<le> code_of c) (base64_encode bs)"
proof -
  have n: "43 \<le> code_of (base64_alphabet ! i)" if "i < 64" for i
    using that by (intro alphabet_visible nth_mem) (simp add: base64_alphabet_def)
  have b2: "1024 * unat a + unat b * 4 < 262144" for a b :: "8 word"
    using base64_bounds(1) [of a b] by (simp add: algebra_simps)
  have b3: "65536 * unat a + unat b * 256 + unat c < 16777216" for a b c :: "8 word"
    using base64_bounds(2) [of a b c] by (simp add: algebra_simps)
  show ?thesis
    by (induction bs rule: base64_encode.induct)
      (auto simp: Let_def code_of_def b2 b3 intro!: n [unfolded code_of_def] less_mult_imp_div_less)
qed

lemma base64_std_encode: "base64_std (base64_encode bs) = Some bs"
proof -
  have "\<forall>c \<in> set (base64_encode bs). code_of c \<noteq> 10 \<and> code_of c \<noteq> 13"
    using base64_encode_visible [of bs] by (auto simp: list_all_iff)
  then have "filter (\<lambda>c. code_of c \<noteq> 10 \<and> code_of c \<noteq> 13) (base64_encode bs) = base64_encode bs"
    by (simp add: filter_id_conv)
  then show ?thesis by (simp add: base64_std_def base64_roundtrip)
qed

end
