(* ===== verification/Store_Queue.thy ===== *)
theory Store_Queue
  imports Durable_File Outbox Go_Utf8 "HOL-Library.List_Lexorder" "HOL-Library.Char_ord"
begin

section \<open>The persistent queue (\<open>internal/store/queue.go\<close>)\<close>

text \<open>
  A crash-safe disk queue for one destination and kind.  The state is the in-memory \<open>Queue\<close>
  (its items and counters) together with the directory that survives a crash: one
  \<open>.wal.json\<close> file per pending item, the \<open>.dead-letter\<close> directory and \<open>stats.json\<close>.
  The mutex makes every operation one step; each takes the script of outcomes of its file
  operations.  \<open>h\<close> stands for \<open>safeID\<close>'s truncated SHA-256: no property below needs it to
  be injective, because a file name also carries the item's sequence number.

  \<open>PendingItems\<close> and \<open>PendingBytes\<close> count records and bytes held in memory and are
  integers here; the sequence and the loss counters keep their 64 bits.
\<close>

subsection \<open>Data\<close>

type_synonym kind = string

definition Metering :: kind where "Metering = ''metering''"
definition Telemetry :: kind where "Telemetry = ''telemetry''"
definition Audit :: kind where "Audit = ''audit''"

definition kind_valid :: "kind \<Rightarrow> bool" where
  "kind_valid k \<longleftrightarrow> k = Metering \<or> k = Telemetry \<or> k = Audit"

lemmas kind_defs = Metering_def Telemetry_def Audit_def

datatype q_error = ErrInvalid | ErrCapacity | ErrNotExist | ErrCorrupt | ErrIO

definition AuditEnqueueDelay :: int where
  "AuditEnqueueDelay = 5 * second"

record policy =
  max_items :: int
  max_bytes :: int
  drop_oldest :: bool

record item =
  it_batch :: string
  it_seq :: u64
  it_payload :: bytes
  it_created :: gotime
  it_attempts :: int
  it_next :: gotime
  it_error :: string

record stats =
  pending_items :: int
  pending_bytes :: int
  dropped_items :: u64
  dropped_bytes :: u64
  dead_items :: u64
  dead_bytes :: u64
  next_seq :: u64

record queue =
  q_kind :: kind
  q_policy :: policy
  q_items :: "item list"
  q_stats :: stats
  q_wal :: "item dir"
  q_dead :: "item dir"
  q_stats_file :: "stats option option"

text \<open>
  \<open>q.items\<close> is a map keyed by the item's own batch ID, so the list of its values stands for
  it; the list's order plays the part of Go's unspecified iteration order.
\<close>

definition lookup_item :: "string \<Rightarrow> item list \<Rightarrow> item option" where
  "lookup_item b xs = find (\<lambda>x. it_batch x = b) xs"

definition delete_item :: "string \<Rightarrow> item list \<Rightarrow> item list" where
  "delete_item b xs = filter (\<lambda>x. it_batch x \<noteq> b) xs"

definition put_item :: "item \<Rightarrow> item list \<Rightarrow> item list" where
  "put_item x xs = x # delete_item (it_batch x) xs"

definition psize :: "item \<Rightarrow> int" where
  "psize x = int (length (it_payload x))"

definition total_bytes :: "item list \<Rightarrow> int" where
  "total_bytes xs = sum_list (map psize xs)"

subsection \<open>Operations\<close>

definition wal_suffix :: string where
  "wal_suffix = ''.wal.json''"

definition itemPath :: "(string \<Rightarrow> string) \<Rightarrow> item \<Rightarrow> string" where
  "itemPath h x = dec020 (unat (it_seq x)) @ ''-'' @ h (it_batch x) @ wal_suffix"

definition deadPath :: "(string \<Rightarrow> string) \<Rightarrow> item \<Rightarrow> string" where
  "deadPath h x = dec020 (unat (it_seq x)) @ ''-'' @ h (it_batch x) @ ''.dead.json''"

text \<open>
  What decoding gives back of an encoded item.  The payload is encoded in base64 and the times are in
  UTC, so only texts can change: bytes that are not valid UTF-8, such as the end of an error text that was
  cut within a character.
\<close>

definition item_json :: "item \<Rightarrow> item" where
  "item_json x = x\<lparr>it_batch := json_text (it_batch x), it_error := json_text (it_error x)\<rparr>"

definition writeItem :: "(string \<Rightarrow> string) \<Rightarrow> item \<Rightarrow> io list \<Rightarrow> queue \<Rightarrow> bool \<times> io list \<times> queue" where
  "writeItem h x ios q =
     (let (r, ios') = take_io ios; (ok, d) = dir_write r (itemPath h x) (item_json x) (q_wal q)
      in (ok, ios', q\<lparr>q_wal := d\<rparr>))"

definition writeStats :: "io list \<Rightarrow> queue \<Rightarrow> bool \<times> io list \<times> queue" where
  "writeStats ios q =
     (let (r, ios') = take_io ios
      in (r = IoOk, ios', if r = IoFail then q else q\<lparr>q_stats_file := Some (Some (q_stats q))\<rparr>))"

fun oldest_from :: "item option \<Rightarrow> item list \<Rightarrow> item option" where
  "oldest_from best [] = best"
| "oldest_from best (x # xs) =
     oldest_from (case best of None \<Rightarrow> Some x
                  | Some b \<Rightarrow> if it_seq x < it_seq b then Some x else Some b) xs"

definition oldest :: "queue \<Rightarrow> item option" where
  "oldest q = oldest_from None (q_items q)"

definition over :: "queue \<Rightarrow> int \<Rightarrow> bool" where
  "over q n \<longleftrightarrow>
     max_items (q_policy q) > 0 \<and> pending_items (q_stats q) + 1 > max_items (q_policy q) \<or>
     max_bytes (q_policy q) > 0 \<and> pending_bytes (q_stats q) + n > max_bytes (q_policy q)"

definition drop_item :: "(string \<Rightarrow> string) \<Rightarrow> item \<Rightarrow> queue \<Rightarrow> queue" where
  "drop_item h x q =
     q\<lparr>q_wal := dir_del (itemPath h x) (q_wal q),
       q_items := delete_item (it_batch x) (q_items q),
       q_stats := (q_stats q)
         \<lparr>pending_items := pending_items (q_stats q) - 1,
          pending_bytes := pending_bytes (q_stats q) - psize x,
          dropped_items := dropped_items (q_stats q) + 1,
          dropped_bytes := dropped_bytes (q_stats q) + of_nat (length (it_payload x))\<rparr>\<rparr>"

lemma oldest_from_mem: "oldest_from best xs = Some x \<Longrightarrow> best = Some x \<or> x \<in> set xs"
  by (induction best xs rule: oldest_from.induct) (auto split: option.splits if_splits)

lemma oldest_mem: "oldest q = Some x \<Longrightarrow> x \<in> set (q_items q)"
  unfolding oldest_def by (auto dest: oldest_from_mem)

lemma length_delete_item: "x \<in> set xs \<Longrightarrow> length (delete_item (it_batch x) xs) < length xs"
  unfolding delete_item_def by (rule length_filter_less) auto

text \<open>The eviction loop of \<open>makeCapacity\<close>; an error leaves the evictions already done in place.\<close>

function evict :: "(string \<Rightarrow> string) \<Rightarrow> int \<Rightarrow> io list \<Rightarrow> queue \<Rightarrow> q_error option \<times> io list \<times> queue" where
  "evict h n ios q =
     (if \<not> over q n then (None, ios, q)
      else case oldest q of
        None \<Rightarrow> (Some ErrCapacity, ios, q)
      | Some x \<Rightarrow>
          (let (r, ios') = take_io ios in
           case dir_remove r (itemPath h x) (q_wal q) of
             (Removed, _) \<Rightarrow> evict h n ios' (drop_item h x q)
           | _ \<Rightarrow> (Some ErrIO, ios', q)))"
  by pat_completeness auto
termination
  by (relation "measure (\<lambda>(h, n, ios, q). length (q_items q))")
     (auto simp: drop_item_def dest!: oldest_mem length_delete_item)

declare evict.simps [simp del]

definition makeCapacity ::
  "(string \<Rightarrow> string) \<Rightarrow> int \<Rightarrow> io list \<Rightarrow> queue \<Rightarrow> q_error option \<times> io list \<times> queue" where
  "makeCapacity h n ios q =
     (if \<not> over q n then (None, ios, q)
      else if q_kind q \<noteq> Telemetry \<or> \<not> drop_oldest (q_policy q) then (Some ErrCapacity, ios, q)
      else case evict h n ios q of
        (Some e, ios1, q1) \<Rightarrow> (Some e, ios1, q1)
      | (None, ios1, q1) \<Rightarrow>
          (let (r, ios2) = take_io ios1 in
           if r \<noteq> IoOk then (Some ErrIO, ios2, q1)
           else case writeStats ios2 q1 of
             (ok, ios3, q2) \<Rightarrow> (if ok then None else Some ErrIO, ios3, q2)))"

definition new_item :: "kind \<Rightarrow> gotime \<Rightarrow> string \<Rightarrow> bytes \<Rightarrow> u64 \<Rightarrow> item" where
  "new_item k now b p s =
     \<lparr>it_batch = b, it_seq = s, it_payload = p, it_created = to_utc now, it_attempts = 0,
      it_next = (if k = Audit then time_add (to_utc now) AuditEnqueueDelay else to_utc now),
      it_error = ''''\<rparr>"

definition Enqueue ::
  "(string \<Rightarrow> string) \<Rightarrow> gotime \<Rightarrow> io list \<Rightarrow> string \<Rightarrow> bytes \<Rightarrow> queue \<Rightarrow>
   (q_error + item \<times> bool) \<times> queue" where
  "Enqueue h now ios b p q =
     (if is_blank b \<or> p = [] then (Inl ErrInvalid, q)
      else case lookup_item b (q_items q) of
        Some x \<Rightarrow> (Inr (x, False), q)
      | None \<Rightarrow>
          (case makeCapacity h (int (length p)) ios q of
             (Some e, ios1, q1) \<Rightarrow> (Inl e, q1)
           | (None, ios1, q1) \<Rightarrow>
               (let s = next_seq (q_stats q1) + 1; x = new_item (q_kind q1) now b p s in
                case writeItem h x ios1 q1 of
                  (False, ios2, q2) \<Rightarrow> (Inl ErrIO, q2)
                | (True, ios2, q2) \<Rightarrow>
                    (let q3 = q2\<lparr>q_items := put_item x (q_items q2),
                                 q_stats := (q_stats q2)
                                   \<lparr>next_seq := s,
                                    pending_items := pending_items (q_stats q2) + 1,
                                    pending_bytes := pending_bytes (q_stats q2) + int (length p)\<rparr>\<rparr>
                     in case writeStats ios2 q3 of
                       (ok, ios3, q4) \<Rightarrow> (if ok then Inr (x, True) else Inl ErrIO, q4)))))"

fun next_from :: "gotime \<Rightarrow> item option \<Rightarrow> item list \<Rightarrow> item option" where
  "next_from now best [] = best"
| "next_from now best (x # xs) =
     next_from now
       (if \<not> after (it_next x) now \<and> (case best of None \<Rightarrow> True | Some b \<Rightarrow> it_seq x < it_seq b)
        then Some x else best) xs"

definition Next :: "gotime \<Rightarrow> queue \<Rightarrow> item option" where
  "Next now q = next_from now None (q_items q)"

definition remove_pending :: "string \<Rightarrow> item \<Rightarrow> queue \<Rightarrow> queue" where
  "remove_pending b x q =
     q\<lparr>q_items := delete_item b (q_items q),
       q_stats := (q_stats q)\<lparr>pending_items := pending_items (q_stats q) - 1,
                              pending_bytes := pending_bytes (q_stats q) - psize x\<rparr>\<rparr>"

definition Ack :: "(string \<Rightarrow> string) \<Rightarrow> io list \<Rightarrow> string \<Rightarrow> queue \<Rightarrow> q_error option \<times> queue" where
  "Ack h ios b q =
     (case lookup_item b (q_items q) of
        None \<Rightarrow> (None, q)
      | Some x \<Rightarrow>
          (let (r1, ios1) = take_io ios; (rm, d) = dir_remove r1 (itemPath h x) (q_wal q) in
           if rm = RemoveError then (Some ErrIO, q)
           else let q1 = q\<lparr>q_wal := d\<rparr>; (r2, ios2) = take_io ios1 in
           if r2 \<noteq> IoOk then (Some ErrIO, q1)
           else case writeStats ios2 (remove_pending b x q1) of
             (ok, _, q2) \<Rightarrow> (if ok then None else Some ErrIO, q2)))"

definition Nack ::
  "(string \<Rightarrow> string) \<Rightarrow> io list \<Rightarrow> string \<Rightarrow> gotime \<Rightarrow> string \<Rightarrow> queue \<Rightarrow> q_error option \<times> queue" where
  "Nack h ios b next reason q =
     (case lookup_item b (q_items q) of
        None \<Rightarrow> (Some ErrNotExist, q)
      | Some x \<Rightarrow>
          (let x' = x\<lparr>it_attempts := it_attempts x + 1, it_next := to_utc next,
                      it_error := truncate_text reason 512\<rparr>
           in case writeItem h x' ios q of
             (False, _, q1) \<Rightarrow> (Some ErrIO, q1)
           | (True, _, q1) \<Rightarrow> (None, q1\<lparr>q_items := put_item x' (q_items q1)\<rparr>)))"

definition Quarantine ::
  "(string \<Rightarrow> string) \<Rightarrow> io list \<Rightarrow> string \<Rightarrow> string \<Rightarrow> queue \<Rightarrow> q_error option \<times> queue" where
  "Quarantine h ios b reason q =
     (case lookup_item b (q_items q) of
        None \<Rightarrow> (Some ErrNotExist, q)
      | Some x \<Rightarrow>
          (let x' = x\<lparr>it_error := truncate_text reason 512, it_next := zero_time,
                      it_attempts := it_attempts x + 1\<rparr>;
               (r0, ios0) = take_io ios; (ok0, dd) = dir_write r0 (deadPath h x') (item_json x') (q_dead q);
               q0 = q\<lparr>q_dead := dd\<rparr> in
           if \<not> ok0 then (Some ErrIO, q0)
           else let (r1, ios1) = take_io ios0; (rm, d) = dir_remove r1 (itemPath h x') (q_wal q0) in
           if rm = RemoveError then (Some ErrIO, q0)
           else let q1 = q0\<lparr>q_wal := d\<rparr>; (r2, ios2) = take_io ios1 in
           if r2 \<noteq> IoOk then (Some ErrIO, q1)
           else let q2 = remove_pending b x' q1;
                    q3 = q2\<lparr>q_stats := (q_stats q2)
                           \<lparr>dead_items := dead_items (q_stats q2) + 1,
                            dead_bytes := dead_bytes (q_stats q2) + of_nat (length (it_payload x'))\<rparr>\<rparr>
           in case writeStats ios2 q3 of
             (ok, _, q4) \<Rightarrow> (if ok then None else Some ErrIO, q4)))"

definition Snapshot :: "queue \<Rightarrow> item list" where
  "Snapshot q = sort_key it_seq (q_items q)"

subsection \<open>Opening a queue after a restart\<close>

definition zero_stats :: stats where
  "zero_stats = \<lparr>pending_items = 0, pending_bytes = 0, dropped_items = 0, dropped_bytes = 0,
     dead_items = 0, dead_bytes = 0, next_seq = 0\<rparr>"

text \<open>One \<open>.wal.json\<close> entry of the directory, whose file is read; other names are skipped.\<close>

fun load_entries :: "(string \<times> item option) list \<Rightarrow> io list \<Rightarrow> item list \<Rightarrow> stats \<Rightarrow> q_error + item list \<times> stats \<times> io list" where
  "load_entries [] ios xs s = Inr (xs, s, ios)"
| "load_entries ((name, content) # es) ios xs s =
     (if \<not> has_suffix wal_suffix name then load_entries es ios xs s
      else if fst (take_io ios) \<noteq> IoOk then Inl ErrIO
      else case content of
        None \<Rightarrow> Inl ErrCorrupt
      | Some x \<Rightarrow>
          if it_batch x = [] \<or> it_seq x = 0 then Inl ErrCorrupt
          else load_entries es (snd (take_io ios)) (put_item x xs)
                 (s\<lparr>pending_items := pending_items s + 1,
                    pending_bytes := pending_bytes s + psize x,
                    next_seq := (if next_seq s < it_seq x then it_seq x else next_seq s)\<rparr>))"

text \<open>
  The reads of \<open>stats.json\<close>, of the directory and of each item may fail; \<open>os.ReadDir\<close> yields the entries
  sorted by file name.
\<close>

definition load :: "io list \<Rightarrow> queue \<Rightarrow> q_error + queue" where
  "load ios q =
     (let (r1, ios1) = take_io ios; (r2, ios2) = take_io ios1 in
      if r1 \<noteq> IoOk then Inl ErrIO
      else case q_stats_file q of
        Some None \<Rightarrow> Inl ErrCorrupt
      | sf \<Rightarrow>
          (let s0 = (case sf of Some (Some s) \<Rightarrow> s | _ \<Rightarrow> zero_stats) in
           if r2 \<noteq> IoOk then Inl ErrIO
           else case load_entries (sort_key fst (q_wal q)) ios2 [] (s0\<lparr>pending_items := 0, pending_bytes := 0\<rparr>) of
             Inl e \<Rightarrow> Inl e
           | Inr (xs, s, ios3) \<Rightarrow>
               (case writeStats ios3 (q\<lparr>q_items := xs, q_stats := s\<rparr>) of
                  (ok, _, q1) \<Rightarrow> if ok then Inr q1 else Inl ErrIO)))"

definition Open ::
  "string \<Rightarrow> string \<Rightarrow> kind \<Rightarrow> policy \<Rightarrow> io list \<Rightarrow> queue \<Rightarrow> q_error + queue" where
  "Open root destination k pol ios disk =
     (if root = [] \<or> destination = [] \<or> \<not> kind_valid k then Inl ErrInvalid
      else if CHR ''/'' \<in> set destination \<or> destination = ''.'' \<or> destination = ''..''
      then Inl ErrInvalid
      else if (k = Metering \<or> k = Audit) \<and> drop_oldest pol then Inl ErrInvalid
      else let (r1, ios1) = take_io ios; (r2, ios2) = take_io ios1 in
      if r1 \<noteq> IoOk \<or> r2 \<noteq> IoOk then Inl ErrIO
      else load ios2 (disk\<lparr>q_kind := k, q_policy := pol, q_items := [], q_stats := zero_stats\<rparr>))"

subsection \<open>The list of pending items\<close>

lemma lookup_item_Some: "lookup_item b xs = Some x \<Longrightarrow> x \<in> set xs \<and> it_batch x = b"
  by (auto simp: lookup_item_def find_Some_iff)

lemma lookup_item_None: "lookup_item b xs = None \<longleftrightarrow> b \<notin> it_batch ` set xs"
  by (auto simp: lookup_item_def find_None_iff)

lemma lookup_item_mem:
  "distinct (map it_batch xs) \<Longrightarrow> x \<in> set xs \<Longrightarrow> lookup_item (it_batch x) xs = Some x"
  by (induction xs) (auto simp: lookup_item_def rev_image_eqI)

lemma set_delete_item [simp]: "set (delete_item b xs) = {x \<in> set xs. it_batch x \<noteq> b}"
  by (auto simp: delete_item_def)

lemma set_put_item [simp]: "set (put_item x xs) = insert x {y \<in> set xs. it_batch y \<noteq> it_batch x}"
  by (simp add: put_item_def)

lemma delete_item_absent: "b \<notin> it_batch ` set xs \<Longrightarrow> delete_item b xs = xs"
  by (auto simp: delete_item_def intro!: filter_True)

lemma delete_item_same:
  "distinct (map it_batch xs) \<Longrightarrow> x \<in> set xs \<Longrightarrow>
   length xs = Suc (length (delete_item (it_batch x) xs)) \<and>
   total_bytes xs = psize x + total_bytes (delete_item (it_batch x) xs)"
proof (induction xs)
  case (Cons y ys)
  show ?case
  proof (cases "it_batch y = it_batch x")
    case True
    with Cons.prems have y: "y = x" by (auto simp: rev_image_eqI)
    have "it_batch x \<notin> it_batch ` set ys" using Cons.prems True by auto
    from delete_item_absent [OF this] show ?thesis
      by (simp add: y delete_item_def total_bytes_def)
  next
    case False
    with Cons show ?thesis by (auto simp: delete_item_def total_bytes_def)
  qed
qed simp

lemma distinct_delete_item:
  "distinct (map f xs) \<Longrightarrow> distinct (map f (delete_item b xs))"
  unfolding delete_item_def by (rule distinct_map_filter)

subsection \<open>The invariant of the in-memory state\<close>

definition queue_ok :: "queue \<Rightarrow> bool" where
  "queue_ok q \<longleftrightarrow>
     distinct (map it_batch (q_items q)) \<and> distinct (map it_seq (q_items q)) \<and>
     (\<forall>x \<in> set (q_items q). it_batch x \<noteq> [] \<and> it_seq x \<noteq> 0 \<and> it_seq x \<le> next_seq (q_stats q)) \<and>
     pending_items (q_stats q) = int (length (q_items q)) \<and>
     pending_bytes (q_stats q) = total_bytes (q_items q)"

definition same_cfg :: "queue \<Rightarrow> queue \<Rightarrow> bool" where
  "same_cfg q q' \<longleftrightarrow> q_kind q' = q_kind q \<and> q_policy q' = q_policy q \<and>
     next_seq (q_stats q') = next_seq (q_stats q)"

lemma same_cfg_refl [simp]: "same_cfg q q"
  by (simp add: same_cfg_def)

lemma same_cfg_trans: "same_cfg a b \<Longrightarrow> same_cfg b c \<Longrightarrow> same_cfg a c"
  by (simp add: same_cfg_def)

lemma queue_okD:
  assumes "queue_ok q" "x \<in> set (q_items q)" "y \<in> set (q_items q)"
  shows "it_batch x = it_batch y \<Longrightarrow> x = y" and "it_seq x = it_seq y \<Longrightarrow> x = y"
  using assms by (auto simp: queue_ok_def distinct_map inj_on_def)

text \<open>The invariant looks at the items and the counters only.\<close>

lemma queue_ok_cong:
  "q_items q' = q_items q \<Longrightarrow> q_stats q' = q_stats q \<Longrightarrow> queue_ok q' = queue_ok q"
  by (simp add: queue_ok_def)

lemma queue_ok_remove:
  assumes "queue_ok q" "x \<in> set (q_items q)"
    and "q_items q' = delete_item (it_batch x) (q_items q)"
    and "pending_items (q_stats q') = pending_items (q_stats q) - 1"
    and "pending_bytes (q_stats q') = pending_bytes (q_stats q) - psize x"
    and "next_seq (q_stats q') = next_seq (q_stats q)"
  shows "queue_ok q'"
  using assms delete_item_same [of "q_items q" x]
  by (auto simp: queue_ok_def distinct_delete_item)

lemma writeItem_frame [frame_simps]:
  assumes "writeItem h x ios q = (ok, ios', q')"
  shows "q_items q' = q_items q" "q_stats q' = q_stats q" "q_kind q' = q_kind q"
    "q_policy q' = q_policy q" "q_dead q' = q_dead q" "q_stats_file q' = q_stats_file q"
  using assms by (auto simp: writeItem_def Let_def split: prod.splits)

lemma writeItem_wal:
  assumes "writeItem h x ios q = (ok, ios', q')"
  shows "ok \<Longrightarrow> dir_read (q_wal q') (itemPath h x) = Some (Some (item_json x))"
    and "dir_read (q_wal q') (itemPath h x) = dir_read (q_wal q) (itemPath h x) \<or>
         dir_read (q_wal q') (itemPath h x) = Some (Some (item_json x))"
    and "p \<noteq> itemPath h x \<Longrightarrow> dir_read (q_wal q') p = dir_read (q_wal q) p"
  using assms
  by (auto simp: writeItem_def Let_def split: prod.splits
      dest: dir_write_ok dir_write_old_or_new dir_write_frame)

lemma writeStats_frame [frame_simps]:
  assumes "writeStats ios q = (ok, ios', q')"
  shows "q_items q' = q_items q" "q_stats q' = q_stats q" "q_kind q' = q_kind q"
    "q_policy q' = q_policy q" "q_dead q' = q_dead q" "q_wal q' = q_wal q"
  using assms by (auto simp: writeStats_def Let_def split: prod.splits if_splits)

lemma drop_item_frame [frame_simps]:
  "q_items (drop_item h x q) = delete_item (it_batch x) (q_items q)"
  "same_cfg q (drop_item h x q)" "q_dead (drop_item h x q) = q_dead q"
  "q_wal (drop_item h x q) = dir_del (itemPath h x) (q_wal q)"
  by (simp_all add: drop_item_def same_cfg_def)

lemma drop_item_ok [inv_intros]:
  "queue_ok q \<Longrightarrow> x \<in> set (q_items q) \<Longrightarrow> queue_ok (drop_item h x q)"
  by (erule (1) queue_ok_remove) (simp_all add: drop_item_def)

subsection \<open>Picking the oldest item\<close>

lemma oldest_from_min:
  assumes "oldest_from best xs = Some x" and "y \<in> set xs \<or> best = Some y"
  shows "it_seq x \<le> it_seq y"
  using assms
proof (induction best xs arbitrary: y rule: oldest_from.induct)
  case (2 best z zs)
  let ?b = "case best of None \<Rightarrow> Some z | Some b \<Rightarrow> if it_seq z < it_seq b then Some z else Some b"
  from "2.prems"(1) have r: "oldest_from ?b zs = Some x" by simp
  have "\<exists>b'. ?b = Some b' \<and> it_seq b' \<le> it_seq z \<and> (\<forall>b. best = Some b \<longrightarrow> it_seq b' \<le> it_seq b)"
    by (auto split: option.splits)
  then obtain b' where b': "?b = Some b'" "it_seq b' \<le> it_seq z"
    "\<forall>b. best = Some b \<longrightarrow> it_seq b' \<le> it_seq b" by blast
  have "it_seq x \<le> it_seq b'" using "2.IH" [OF r] b'(1) by blast
  then show ?case using "2.prems"(2) "2.IH" [OF r] b' by (auto intro: order_trans)
qed auto

lemma oldest_min: "oldest q = Some x \<Longrightarrow> y \<in> set (q_items q) \<Longrightarrow> it_seq x \<le> it_seq y"
  unfolding oldest_def by (rule oldest_from_min) auto

lemma oldest_from_None: "oldest_from best xs = None \<longleftrightarrow> best = None \<and> xs = []"
  by (induction best xs rule: oldest_from.induct) (auto split: option.splits)

lemma oldest_None: "oldest q = None \<longleftrightarrow> q_items q = []"
  by (simp add: oldest_def oldest_from_None)

subsection \<open>Eviction\<close>

lemma itemPath_seq: "itemPath h x = itemPath h y \<Longrightarrow> it_seq x = it_seq y"
proof -
  assume "itemPath h x = itemPath h y"
  then have "take 20 (itemPath h x) = take 20 (itemPath h y)" by simp
  then show ?thesis by (simp add: itemPath_def dec020_inject word_unat_eq_iff)
qed

lemma itemPath_neq:
  "queue_ok q \<Longrightarrow> x \<in> set (q_items q) \<Longrightarrow> y \<in> set (q_items q) \<Longrightarrow> x \<noteq> y \<Longrightarrow>
   itemPath h x \<noteq> itemPath h y"
  using itemPath_seq queue_okD(2) by blast

text \<open>
  What one run of the eviction loop does: it keeps the invariant and the configuration, drops
  items oldest first, leaves the files of the survivors alone, and ends without an error only
  when the new record fits.
\<close>

definition evicted :: "(string \<Rightarrow> string) \<Rightarrow> queue \<Rightarrow> queue \<Rightarrow> bool" where
  "evicted h q q' \<longleftrightarrow>
     queue_ok q' \<and> same_cfg q q' \<and> q_dead q' = q_dead q \<and> set (q_items q') \<subseteq> set (q_items q) \<and>
     (\<forall>x \<in> set (q_items q) - set (q_items q'). \<forall>y \<in> set (q_items q'). it_seq x < it_seq y) \<and>
     (\<forall>x \<in> set (q_items q'). dir_read (q_wal q') (itemPath h x) = dir_read (q_wal q) (itemPath h x))"

lemma evicted_refl: "queue_ok q \<Longrightarrow> evicted h q q"
  by (simp add: evicted_def)

lemma evicted_drop_oldest:
  assumes "queue_ok q" "oldest q = Some x" "evicted h (drop_item h x q) q'"
  shows "evicted h q q'"
proof -
  let ?q1 = "drop_item h x q"
  have x: "x \<in> set (q_items q)" using assms(2) by (rule oldest_mem)
  have items1: "set (q_items ?q1) = set (q_items q) - {x}"
    using x queue_okD(1) [OF assms(1)] by (auto simp: drop_item_frame)
  have older: "it_seq x < it_seq y" if "y \<in> set (q_items q')" for y
  proof -
    have y: "y \<in> set (q_items q)" "y \<noteq> x"
      using that assms(3) items1 by (auto simp: evicted_def)
    then show ?thesis
      using oldest_min [OF assms(2) y(1)] queue_okD(2) [OF assms(1) x y(1)]
      by (metis order.not_eq_order_implies_strict)
  qed
  have wal: "dir_read (q_wal ?q1) (itemPath h y) = dir_read (q_wal q) (itemPath h y)"
    if "y \<in> set (q_items q')" for y
  proof -
    have "y \<in> set (q_items q)" "y \<noteq> x" using that assms(3) items1 by (auto simp: evicted_def)
    then show ?thesis
      using itemPath_neq [OF assms(1) _ x] by (simp add: drop_item_frame)
  qed
  have "same_cfg q q'"
    using assms(3) by (auto simp: evicted_def intro: same_cfg_trans [OF drop_item_frame(2)])
  then show ?thesis
    using assms(3) older wal items1 by (auto simp: evicted_def drop_item_frame)
qed

lemma evict_spec:
  assumes "queue_ok q" "evict h n ios q = (e, ios', q')"
  shows "evicted h q q' \<and> (e = None \<longrightarrow> \<not> over q' n)"
  using assms
proof (induction h n ios q arbitrary: e ios' q' rule: evict.induct)
  case (1 h n ios q)
  show ?case
  proof (cases "over q n")
    case False
    then show ?thesis using "1.prems" by (auto simp: evict.simps [of h n ios q] evicted_refl)
  next
    case ov: True
    show ?thesis
    proof (cases "oldest q")
      case None
      then show ?thesis
        using "1.prems" ov by (auto simp: evict.simps [of h n ios q] evicted_refl)
    next
      case (Some x)
      obtain r ios1 where io: "take_io ios = (r, ios1)" by fastforce
      obtain rm d where rm: "dir_remove r (itemPath h x) (q_wal q) = (rm, d)" by fastforce
      show ?thesis
      proof (cases "rm = Removed")
        case True
        have ev: "evict h n ios1 (drop_item h x q) = (e, ios', q')"
          using "1.prems"(2) ov Some io rm True by (simp add: evict.simps [of h n ios q])
        have ok: "queue_ok (drop_item h x q)"
          using "1.prems"(1) oldest_mem [OF Some] by (rule drop_item_ok)
        have "evicted h (drop_item h x q) q' \<and> (e = None \<longrightarrow> \<not> over q' n)"
          using "1.IH" [OF _ Some io [symmetric] refl rm [unfolded True, symmetric]] ov ok ev io rm True
          by auto
        then show ?thesis using evicted_drop_oldest [OF "1.prems"(1) Some] by blast
      next
        case False
        then show ?thesis
          using "1.prems" ov Some io rm
          by (cases rm) (auto simp: evict.simps [of h n ios q] evicted_refl)
      qed
    qed
  qed
qed

lemma writeStats_evicted:
  assumes "writeStats ios q1 = (ok, ios', q2)"
  shows "evicted h q q2 = evicted h q q1" and "over q2 n = over q1 n"
  using writeStats_frame [OF assms] by (simp_all add: evicted_def queue_ok_def same_cfg_def over_def)

lemma makeCapacity_spec:
  assumes "queue_ok q" "makeCapacity h n ios q = (e, ios', q')"
  shows "evicted h q q' \<and> (e = None \<longrightarrow> \<not> over q' n) \<and> (q_kind q \<noteq> Telemetry \<longrightarrow> q' = q)"
proof (cases "\<not> over q n \<or> q_kind q \<noteq> Telemetry \<or> \<not> drop_oldest (q_policy q)")
  case True
  then show ?thesis using assms by (auto simp: makeCapacity_def evicted_refl split: if_splits)
next
  case False
  obtain e1 ios1 q1 where ev: "evict h n ios q = (e1, ios1, q1)" by (metis prod_cases3)
  obtain r ios2 where io: "take_io ios1 = (r, ios2)" by fastforce
  obtain ok ios3 q2 where ws: "writeStats ios2 q1 = (ok, ios3, q2)" by (metis prod_cases3)
  note mc = assms(2) [unfolded makeCapacity_def Let_def io prod.case ws ev]
  show ?thesis
    using mc False evict_spec [OF assms(1) ev] writeStats_evicted [OF ws]
    by (cases e1) (auto simp: io ws split: if_splits)
qed

subsection \<open>Enqueue\<close>

definition wal_touched :: "string \<Rightarrow> item \<Rightarrow> queue \<Rightarrow> queue \<Rightarrow> bool" where
  "wal_touched p x q q' \<longleftrightarrow>
     (dir_read (q_wal q') p = dir_read (q_wal q) p \<or> dir_read (q_wal q') p = Some (Some (item_json x))) \<and>
     (\<forall>p'. p' \<noteq> p \<longrightarrow> dir_read (q_wal q') p' = dir_read (q_wal q) p')"

definition unstored :: "(string \<Rightarrow> string) \<Rightarrow> item \<Rightarrow> queue \<Rightarrow> queue \<Rightarrow> bool" where
  "unstored h x q q' \<longleftrightarrow>
     q_items q' = q_items q \<and> q_stats q' = q_stats q \<and> q_kind q' = q_kind q \<and>
     q_policy q' = q_policy q \<and> q_dead q' = q_dead q \<and> wal_touched (itemPath h x) x q q'"

definition stored :: "(string \<Rightarrow> string) \<Rightarrow> item \<Rightarrow> queue \<Rightarrow> queue \<Rightarrow> bool" where
  "stored h x q q' \<longleftrightarrow>
     q_items q' = put_item x (q_items q) \<and>
     q_stats q' = (q_stats q)\<lparr>next_seq := it_seq x, pending_items := pending_items (q_stats q) + 1,
                               pending_bytes := pending_bytes (q_stats q) + psize x\<rparr> \<and>
     q_kind q' = q_kind q \<and> q_policy q' = q_policy q \<and> q_dead q' = q_dead q \<and>
     wal_touched (itemPath h x) x q q' \<and> dir_read (q_wal q') (itemPath h x) = Some (Some (item_json x))"

lemma new_item_simps [simp]:
  "it_batch (new_item k now b p s) = b" "it_seq (new_item k now b p s) = s"
  "it_payload (new_item k now b p s) = p" "psize (new_item k now b p s) = int (length p)"
  by (simp_all add: new_item_def psize_def)

lemma Enqueue_fresh:
  assumes "queue_ok q" "Enqueue h now ios b p q = (r, q')"
    and "\<not> is_blank b" "p \<noteq> []" "lookup_item b (q_items q) = None"
  obtains (full) e where "r = Inl e" "evicted h q q'" "q_kind q \<noteq> Telemetry \<Longrightarrow> q' = q"
  | (unwritten) q1 x where "x = new_item (q_kind q) now b p (next_seq (q_stats q) + 1)"
      "evicted h q q1" "q_kind q \<noteq> Telemetry \<Longrightarrow> q1 = q" "\<not> over q1 (int (length p))"
      "r = Inl ErrIO" "unstored h x q1 q'"
  | (written) q1 x where "x = new_item (q_kind q) now b p (next_seq (q_stats q) + 1)"
      "evicted h q q1" "q_kind q \<noteq> Telemetry \<Longrightarrow> q1 = q" "\<not> over q1 (int (length p))"
      "r = Inr (x, True) \<or> r = Inl ErrIO" "stored h x q1 q'"
proof -
  obtain e ios1 q1 where mc: "makeCapacity h (int (length p)) ios q = (e, ios1, q1)"
    by (metis prod_cases3)
  note mcs = makeCapacity_spec [OF assms(1) mc]
  show thesis
  proof (cases e)
    case (Some e')
    then show thesis using full assms(2-5) mc mcs by (auto simp: Enqueue_def)
  next
    case None
    have cfg: "q_kind q1 = q_kind q" "next_seq (q_stats q1) = next_seq (q_stats q)"
      using mcs by (auto simp: evicted_def same_cfg_def)
    define x where "x = new_item (q_kind q) now b p (next_seq (q_stats q) + 1)"
    obtain ok ios2 q2 where wi: "writeItem h x ios1 q1 = (ok, ios2, q2)" by (metis prod_cases3)
    note wf = writeItem_frame [OF wi] writeItem_wal [OF wi]
    show thesis
    proof (cases ok)
      case False
      then have "r = Inl ErrIO" "q' = q2"
        using assms(2-5) mc None wi cfg by (auto simp: Enqueue_def Let_def x_def)
      moreover have "unstored h x q1 q2"
        using wf by (simp add: unstored_def wal_touched_def)
      ultimately show thesis using unwritten [OF x_def, of q1] mcs None by auto
    next
      case True
      define q3 where "q3 = q2\<lparr>q_items := put_item x (q_items q2),
         q_stats := (q_stats q2)\<lparr>next_seq := it_seq x, pending_items := pending_items (q_stats q2) + 1,
                                 pending_bytes := pending_bytes (q_stats q2) + psize x\<rparr>\<rparr>"
      obtain ok3 ios3 q4 where ws: "writeStats ios2 q3 = (ok3, ios3, q4)" by (metis prod_cases3)
      have "r = (if ok3 then Inr (x, True) else Inl ErrIO)" "q' = q4"
        using assms(2-5) mc None wi True cfg ws [unfolded q3_def]
        by (auto simp: Enqueue_def Let_def x_def)
      moreover have "stored h x q1 q4"
        using wf True writeStats_frame [OF ws] by (simp add: stored_def wal_touched_def q3_def)
      ultimately show thesis using written [OF x_def, of q1] mcs None by auto
    qed
  qed
qed

text \<open>An enqueue that does not reach the capacity check changes nothing.\<close>

lemma Enqueue_refused:
  "is_blank b \<or> p = [] \<Longrightarrow> Enqueue h now ios b p q = (Inl ErrInvalid, q)"
  by (auto simp: Enqueue_def)

lemma Enqueue_duplicate:
  "\<not> is_blank b \<Longrightarrow> p \<noteq> [] \<Longrightarrow> lookup_item b (q_items q) = Some x \<Longrightarrow>
   Enqueue h now ios b p q = (Inr (x, False), q)"
  by (auto simp: Enqueue_def)

lemma evicted_okD: "evicted h q q' \<Longrightarrow> queue_ok q'"
  by (simp add: evicted_def)

lemma unstored_ok: "queue_ok q1 \<Longrightarrow> unstored h x q1 q' \<Longrightarrow> queue_ok q'"
  by (simp add: unstored_def queue_ok_def)

lemma u64_fresh_Suc:
  fixes s :: u64
  assumes "s \<noteq> - 1"
  shows "s < s + 1" "s + 1 \<noteq> 0"
  using assms unat_Suc_u64 [OF assms] by (auto simp: word_less_nat_alt)

lemma stored_ok:
  assumes "queue_ok q1" "stored h x q1 q'" "it_batch x \<noteq> []"
    and "it_batch x \<notin> it_batch ` set (q_items q1)"
    and "it_seq x = next_seq (q_stats q1) + 1" "next_seq (q_stats q1) \<noteq> - 1"
  shows "queue_ok q'"
proof -
  have fresh: "it_seq y < it_seq x" if "y \<in> set (q_items q1)" for y
    using that assms(1,5) u64_fresh_Suc [OF assms(6)] by (auto simp: queue_ok_def)
  have items: "q_items q' = x # q_items q1"
    using assms(2,4) by (simp add: stored_def put_item_def delete_item_absent)
  have "distinct (map it_seq (q_items q'))"
    using assms(1) fresh by (fastforce simp: items queue_ok_def)
  moreover have "q_stats q' = (q_stats q1)\<lparr>next_seq := it_seq x,
      pending_items := pending_items (q_stats q1) + 1,
      pending_bytes := pending_bytes (q_stats q1) + psize x\<rparr>"
    using assms(2) by (simp add: stored_def)
  ultimately show ?thesis
    using assms(1,3,4,5) u64_fresh_Suc [OF assms(6)] fresh
    by (auto simp: queue_ok_def items total_bytes_def intro: order.strict_implies_order)
qed

lemma Enqueue_ok [inv_intros]:
  assumes "queue_ok q" "next_seq (q_stats q) \<noteq> - 1"
  shows "queue_ok (snd (Enqueue h now ios b p q))"
proof (cases "is_blank b \<or> p = [] \<or> lookup_item b (q_items q) \<noteq> None")
  case True
  then show ?thesis using assms(1) by (auto simp: Enqueue_def)
next
  case False
  then have b: "\<not> is_blank b" "p \<noteq> []" "lookup_item b (q_items q) = None" "b \<noteq> []" by auto
  obtain r q' where e: "Enqueue h now ios b p q = (r, q')" by fastforce
  from assms(1) e b(1-3) show ?thesis
  proof (cases rule: Enqueue_fresh)
    case full
    then show ?thesis by (simp add: e evicted_okD)
  next
    case unwritten
    then show ?thesis by (auto simp: e dest: evicted_okD intro: unstored_ok)
  next
    case (written q1 x)
    have "b \<notin> it_batch ` set (q_items q1)" "next_seq (q_stats q1) = next_seq (q_stats q)"
      using written(2) b(3) by (auto simp: evicted_def same_cfg_def lookup_item_None)
    then have "queue_ok q'"
      using stored_ok [OF evicted_okD [OF written(2)] written(6)] written(1) b(4) assms(2) by simp
    then show ?thesis by (simp add: e)
  qed
qed

subsection \<open>Ack, Nack and Quarantine\<close>

lemma dir_remove_read:
  assumes "dir_remove r p d = (rm, d')"
  shows "p' \<noteq> p \<Longrightarrow> dir_read d' p' = dir_read d p'"
    and "rm = RemoveError \<Longrightarrow> d' = d" and "rm \<noteq> RemoveError \<Longrightarrow> dir_read d' p = None"
  using assms by (auto simp: dir_remove_def split: if_splits)

lemma remove_pending_frame [frame_simps]:
  "q_items (remove_pending b x q) = delete_item b (q_items q)"
  "next_seq (q_stats (remove_pending b x q)) = next_seq (q_stats q)"
  "q_kind (remove_pending b x q) = q_kind q" "q_policy (remove_pending b x q) = q_policy q"
  "q_wal (remove_pending b x q) = q_wal q" "q_dead (remove_pending b x q) = q_dead q"
  by (simp_all add: remove_pending_def)

text \<open>
  What the three operations on one item have in common: the invariant and the configuration
  survive, the other items and their files are untouched.
\<close>

definition touches :: "(string \<Rightarrow> string) \<Rightarrow> string \<Rightarrow> queue \<Rightarrow> queue \<Rightarrow> bool" where
  "touches h b q q' \<longleftrightarrow>
     queue_ok q' \<and> same_cfg q q' \<and>
     {x \<in> set (q_items q'). it_batch x \<noteq> b} = {x \<in> set (q_items q). it_batch x \<noteq> b} \<and>
     (\<forall>x \<in> set (q_items q). it_batch x \<noteq> b \<longrightarrow>
        dir_read (q_wal q') (itemPath h x) = dir_read (q_wal q) (itemPath h x))"

lemma touches_refl: "queue_ok q \<Longrightarrow> touches h b q q"
  by (simp add: touches_def)

lemma itemPath_other:
  assumes "queue_ok q" "lookup_item b (q_items q) = Some x" "y \<in> set (q_items q)" "it_batch y \<noteq> b"
  shows "itemPath h y \<noteq> itemPath h x"
  using assms itemPath_neq [OF assms(1,3)] lookup_item_Some [OF assms(2)] by auto

lemma Ack_touches: "queue_ok q \<Longrightarrow> touches h b q (snd (Ack h ios b q))"
proof (cases "lookup_item b (q_items q)")
  case None
  then show "queue_ok q \<Longrightarrow> touches h b q (snd (Ack h ios b q))"
    by (simp add: Ack_def touches_refl)
next
  case (Some x)
  assume ok: "queue_ok q"
  note x = lookup_item_Some [OF Some]
  obtain r1 ios1 where io1: "take_io ios = (r1, ios1)" by fastforce
  obtain rm d where rm: "dir_remove r1 (itemPath h x) (q_wal q) = (rm, d)" by fastforce
  obtain r2 ios2 where io2: "take_io ios1 = (r2, ios2)" by fastforce
  let ?q1 = "q\<lparr>q_wal := d\<rparr>" and ?q2 = "remove_pending b x (q\<lparr>q_wal := d\<rparr>)"
  obtain ok3 ios3 q3 where ws: "writeStats ios2 ?q2 = (ok3, ios3, q3)" by (metis prod_cases3)
  have wal: "dir_read d (itemPath h y) = dir_read (q_wal q) (itemPath h y)"
    if "y \<in> set (q_items q)" "it_batch y \<noteq> b" for y
    using dir_remove_read(1) [OF rm itemPath_other [OF ok Some that]] .
  have t1: "touches h b q ?q1"
    using ok wal by (auto simp: touches_def same_cfg_def queue_ok_def)
  have "queue_ok ?q2"
    by (rule queue_ok_remove [where q = q and x = x]) (use ok x in \<open>auto simp: remove_pending_def\<close>)
  then have "touches h b q ?q2"
    using wal by (auto simp: touches_def same_cfg_def remove_pending_frame)
  then have "touches h b q q3"
    using writeStats_frame [OF ws] by (auto simp: touches_def same_cfg_def queue_ok_def)
  then show "touches h b q (snd (Ack h ios b q))"
    using t1 touches_refl [OF ok] by (simp add: Ack_def Some io1 rm io2 ws Let_def)
qed

text \<open>A retry rewrites the metadata of one item in place.\<close>

definition same_core :: "item \<Rightarrow> item \<Rightarrow> bool" where
  "same_core x y \<longleftrightarrow> it_batch x = it_batch y \<and> it_seq x = it_seq y \<and>
     it_payload x = it_payload y \<and> it_created x = it_created y"

lemma same_core_refl [simp]: "same_core x x"
  by (simp add: same_core_def)

lemma same_core_json: "same_core x y \<Longrightarrow> same_core (item_json x) (item_json y)"
  by (simp add: same_core_def item_json_def)

lemma same_core_path: "same_core x y \<Longrightarrow> itemPath h x = itemPath h y"
  by (simp add: same_core_def itemPath_def)

lemma queue_ok_replace:
  assumes "queue_ok q" "x \<in> set (q_items q)" "same_core x' x"
    and "q_items q' = put_item x' (q_items q)" "q_stats q' = q_stats q"
  shows "queue_ok q'"
proof -
  have b: "it_batch x' = it_batch x" and s: "it_seq x' = it_seq x" "psize x' = psize x"
    using assms(3) by (auto simp: same_core_def psize_def)
  have "distinct (map it_seq (q_items q'))"
  proof -
    have "it_seq x \<notin> it_seq ` {y \<in> set (q_items q). it_batch y \<noteq> it_batch x}"
      using queue_okD(2) [OF assms(1,2)] by force
    then show ?thesis
      using assms(1) by (auto simp: assms(4) put_item_def b s queue_ok_def distinct_delete_item)
  qed
  then show ?thesis
    using assms delete_item_same [of "q_items q" x]
    by (auto simp: queue_ok_def assms(4,5) put_item_def b s distinct_delete_item total_bytes_def)
qed

lemma Nack_touches:
  assumes ok: "queue_ok q"
  shows "touches h b q (snd (Nack h ios b nxt reason q))"
proof (cases "lookup_item b (q_items q)")
  case None
  then show ?thesis using ok by (simp add: Nack_def touches_refl)
next
  case (Some x)
  note x = lookup_item_Some [OF Some]
  define x' where "x' = x\<lparr>it_attempts := it_attempts x + 1, it_next := to_utc nxt,
    it_error := truncate_text reason 512\<rparr>"
  have core: "same_core x' x" by (simp add: x'_def same_core_def)
  obtain okw ios1 q1 where wi: "writeItem h x' ios q = (okw, ios1, q1)" by (metis prod_cases3)
  note wf = writeItem_frame [OF wi] writeItem_wal [OF wi]
  have wal: "dir_read (q_wal q1) (itemPath h y) = dir_read (q_wal q) (itemPath h y)"
    if "y \<in> set (q_items q)" "it_batch y \<noteq> b" for y
    using wf(9) itemPath_other [OF ok Some that, of h] same_core_path [OF core] by metis
  have "touches h b q q1"
    using ok wal wf by (auto simp: touches_def same_cfg_def queue_ok_def)
  moreover have "touches h b q (q1\<lparr>q_items := put_item x' (q_items q1)\<rparr>)"
    using queue_ok_replace [OF ok _ core, of "q1\<lparr>q_items := put_item x' (q_items q1)\<rparr>"] x wf wal core
    by (auto simp: touches_def same_cfg_def same_core_def)
  ultimately show ?thesis
    using Some wi by (auto simp: Nack_def x'_def Let_def split: prod.splits bool.splits)
qed

lemma Quarantine_touches:
  assumes ok: "queue_ok q"
  shows "touches h b q (snd (Quarantine h ios b reason q))"
proof (cases "lookup_item b (q_items q)")
  case None
  then show ?thesis using ok by (simp add: Quarantine_def touches_refl)
next
  case (Some x)
  note x = lookup_item_Some [OF Some]
  define x' where "x' = x\<lparr>it_error := truncate_text reason 512, it_next := zero_time,
    it_attempts := it_attempts x + 1\<rparr>"
  have core: "same_core x' x" "psize x' = psize x" by (simp_all add: x'_def same_core_def psize_def)
  obtain r0 ios0 where io0: "take_io ios = (r0, ios0)" by fastforce
  obtain ok0 dd where dw: "dir_write r0 (deadPath h x') (item_json x') (q_dead q) = (ok0, dd)" by fastforce
  obtain r1 ios1 where io1: "take_io ios0 = (r1, ios1)" by fastforce
  obtain rm d where rm: "dir_remove r1 (itemPath h x') (q_wal q) = (rm, d)" by fastforce
  obtain r2 ios2 where io2: "take_io ios1 = (r2, ios2)" by fastforce
  define q0 where "q0 = q\<lparr>q_dead := dd\<rparr>"
  define q1 where "q1 = q0\<lparr>q_wal := d\<rparr>"
  define q2 where "q2 = remove_pending b x' q1"
  define q3 where "q3 = q2\<lparr>q_stats := (q_stats q2)\<lparr>dead_items := dead_items (q_stats q2) + 1,
     dead_bytes := dead_bytes (q_stats q2) + of_nat (length (it_payload x'))\<rparr>\<rparr>"
  obtain ok4 ios4 q4 where ws: "writeStats ios2 q3 = (ok4, ios4, q4)" by (metis prod_cases3)
  have wal: "dir_read d (itemPath h y) = dir_read (q_wal q) (itemPath h y)"
    if "y \<in> set (q_items q)" "it_batch y \<noteq> b" for y
    using dir_remove_read(1) [OF rm] itemPath_other [OF ok Some that, of h] same_core_path [OF core(1)]
    by metis
  have t0: "touches h b q q0" using ok by (auto simp: q0_def touches_def same_cfg_def queue_ok_def)
  have t1: "touches h b q q1"
    using ok wal by (auto simp: q1_def q0_def touches_def same_cfg_def queue_ok_def)
  have "queue_ok q3"
    by (rule queue_ok_remove [where q = q and x = x])
       (use ok x core in \<open>auto simp: q3_def q2_def q1_def q0_def remove_pending_def\<close>)
  then have "touches h b q q3"
    using wal by (auto simp: q3_def q2_def q1_def q0_def touches_def same_cfg_def remove_pending_frame)
  then have t4: "touches h b q q4"
    using writeStats_frame [OF ws] by (auto simp: touches_def same_cfg_def queue_ok_def)
  have "snd (Quarantine h ios b reason q) \<in> {q0, q1, q4}"
    using Some io0 dw io1 rm io2 ws unfolding q0_def q1_def q2_def q3_def
    by (simp add: Quarantine_def x'_def Let_def)
  then show ?thesis using t0 t1 t4 by auto
qed

subsection \<open>Runs of the queue\<close>

text \<open>
  The operations as steps, each with the outcomes of its file operations, and runs of them.
  Another process never opens the directory, so a run is any sequence of steps.
\<close>

datatype q_op =
    EnqueueOp gotime "io list" string bytes
  | AckOp "io list" string
  | NackOp "io list" string gotime string
  | QuarantineOp "io list" string string

fun q_step :: "(string \<Rightarrow> string) \<Rightarrow> q_op \<Rightarrow> queue \<Rightarrow> queue" where
  "q_step h (EnqueueOp now ios b p) q = snd (Enqueue h now ios b p q)"
| "q_step h (AckOp ios b) q = snd (Ack h ios b q)"
| "q_step h (NackOp ios b nxt reason) q = snd (Nack h ios b nxt reason q)"
| "q_step h (QuarantineOp ios b reason) q = snd (Quarantine h ios b reason q)"

fun q_run :: "(string \<Rightarrow> string) \<Rightarrow> q_op list \<Rightarrow> queue \<Rightarrow> queue" where
  "q_run h [] q = q"
| "q_run h (a # as) q = q_run h as (q_step h a q)"

fun removes :: "string \<Rightarrow> q_op \<Rightarrow> bool" where
  "removes b (AckOp ios b') = (b' = b)"
| "removes b (QuarantineOp ios b' reason) = (b' = b)"
| "removes b _ = False"

lemma Enqueue_seq:
  assumes "queue_ok q"
  shows "next_seq (q_stats (snd (Enqueue h now ios b p q))) \<in>
           {next_seq (q_stats q), next_seq (q_stats q) + 1} \<and>
         q_kind (snd (Enqueue h now ios b p q)) = q_kind q \<and>
         q_policy (snd (Enqueue h now ios b p q)) = q_policy q"
proof (cases "is_blank b \<or> p = [] \<or> lookup_item b (q_items q) \<noteq> None")
  case True
  then show ?thesis by (auto simp: Enqueue_def)
next
  case False
  then have b: "\<not> is_blank b" "p \<noteq> []" "lookup_item b (q_items q) = None" by auto
  obtain r q' where e: "Enqueue h now ios b p q = (r, q')" by fastforce
  from assms(1) e b show ?thesis
    by (cases rule: Enqueue_fresh)
       (auto simp: e evicted_def same_cfg_def unstored_def stored_def)
qed

lemma touches_cfg: "touches h b q q' \<Longrightarrow> same_cfg q q'"
  by (simp add: touches_def)

lemma q_step_seq:
  assumes "queue_ok q"
  shows "next_seq (q_stats (q_step h a q)) \<in> {next_seq (q_stats q), next_seq (q_stats q) + 1} \<and>
     q_kind (q_step h a q) = q_kind q \<and> q_policy (q_step h a q) = q_policy q"
proof (cases a)
  case (EnqueueOp now ios b p)
  then show ?thesis using Enqueue_seq [OF assms, of h now ios b p] by simp
next
  case (AckOp ios b)
  then show ?thesis using touches_cfg [OF Ack_touches [OF assms]] by (simp add: same_cfg_def)
next
  case (NackOp ios b nxt reason)
  then show ?thesis using touches_cfg [OF Nack_touches [OF assms]] by (simp add: same_cfg_def)
next
  case (QuarantineOp ios b reason)
  then show ?thesis using touches_cfg [OF Quarantine_touches [OF assms]] by (simp add: same_cfg_def)
qed

lemma q_step_ok [inv_intros]:
  "queue_ok q \<Longrightarrow> next_seq (q_stats q) \<noteq> - 1 \<Longrightarrow> queue_ok (q_step h a q)"
  using Ack_touches Nack_touches Quarantine_touches
  by (cases a) (auto simp: Enqueue_ok touches_def)

lemma q_step_unat_seq:
  assumes "queue_ok q" "unat (next_seq (q_stats q)) < 2 ^ 64 - 1"
  shows "unat (next_seq (q_stats (q_step h a q))) \<le> Suc (unat (next_seq (q_stats q)))"
  using q_step_seq [OF assms(1), of h a] unat_Suc_u64 [OF u64_not_max [OF assms(2)]] by auto

lemma q_run_ok:
  "queue_ok q \<Longrightarrow> unat (next_seq (q_stats q)) + length as < 2 ^ 64 \<Longrightarrow> queue_ok (q_run h as q)"
proof (induction as arbitrary: q)
  case (Cons a as)
  have n: "unat (next_seq (q_stats q)) < 2 ^ 64 - 1" using Cons.prems(2) by simp
  have "queue_ok (q_step h a q)" using Cons.prems(1) u64_not_max [OF n] by (rule q_step_ok)
  moreover have "unat (next_seq (q_stats (q_step h a q))) + length as < 2 ^ 64"
    using q_step_unat_seq [OF Cons.prems(1) n, of h a] Cons.prems(2) by simp
  ultimately show ?case using Cons.IH by simp
qed simp

subsection \<open>Durability\<close>

text \<open>
  A batch is durable when it is pending in memory and its file decodes to the record JSON makes of
  it, up to the retry metadata: sequence, payload and time of creation are those in memory, and the
  batch ID too if it is valid UTF-8.
\<close>

definition durable :: "(string \<Rightarrow> string) \<Rightarrow> string \<Rightarrow> bytes \<Rightarrow> queue \<Rightarrow> bool" where
  "durable h b p q \<longleftrightarrow>
     (\<exists>x \<in> set (q_items q). it_batch x = b \<and> it_payload x = p \<and>
        (\<exists>y. dir_read (q_wal q) (itemPath h x) = Some (Some y) \<and> same_core y (item_json x)))"

lemma touches_durable:
  assumes "touches h c q q'" "c \<noteq> b" "durable h b p q"
  shows "durable h b p q'"
proof -
  obtain x y where x: "x \<in> set (q_items q)" "it_batch x = b" "it_payload x = p"
    and y: "dir_read (q_wal q) (itemPath h x) = Some (Some y)" "same_core y (item_json x)"
    using assms(3) by (auto simp: durable_def)
  have "x \<in> set (q_items q')" using assms(1,2) x by (auto simp: touches_def)
  moreover have "dir_read (q_wal q') (itemPath h x) = Some (Some y)"
    using assms(1,2) x y by (auto simp: touches_def)
  ultimately show ?thesis using x y by (auto simp: durable_def)
qed

lemma Enqueue_durable:
  assumes "queue_ok q" "q_kind q \<noteq> Telemetry" "next_seq (q_stats q) \<noteq> - 1" "durable h b p q"
  shows "durable h b p (snd (Enqueue h now ios b' p' q))"
proof (cases "is_blank b' \<or> p' = [] \<or> lookup_item b' (q_items q) \<noteq> None")
  case True
  then show ?thesis using assms by (auto simp: Enqueue_def)
next
  case False
  then have b': "\<not> is_blank b'" "p' \<noteq> []" "lookup_item b' (q_items q) = None" by auto
  obtain r q' where e: "Enqueue h now ios b' p' q = (r, q')" by fastforce
  have other: "itemPath h y \<noteq> itemPath h z"
    if "y \<in> set (q_items q)" "it_seq z = next_seq (q_stats q) + 1" for y z
  proof -
    have "it_seq y \<noteq> it_seq z"
      using that assms(1) u64_fresh_Suc [OF assms(3)] by (auto simp: queue_ok_def)
    then show ?thesis using itemPath_seq by blast
  qed
  from assms(1) e b' show ?thesis
  proof (cases rule: Enqueue_fresh)
    case full
    then show ?thesis using assms by (simp add: e)
  next
    case (unwritten q1 x)
    then have "q1 = q" using assms(2) by simp
    with unwritten assms(4) show ?thesis
      using other [of _ x] by (fastforce simp: e durable_def unstored_def wal_touched_def)
  next
    case (written q1 x)
    then have q1: "q1 = q" using assms(2) by simp
    have "b' \<notin> it_batch ` set (q_items q)" using b'(3) by (simp add: lookup_item_None)
    with q1 written assms(4) show ?thesis
      using other [of _ x]
      by (fastforce simp: e durable_def stored_def wal_touched_def put_item_def delete_item_absent)
  qed
qed

lemma Nack_durable:
  assumes ok: "queue_ok q" and d: "durable h b p q"
  shows "durable h b p (snd (Nack h ios b nxt reason q))"
proof -
  obtain x y where x: "x \<in> set (q_items q)" "it_batch x = b" "it_payload x = p"
    and y: "dir_read (q_wal q) (itemPath h x) = Some (Some y)" "same_core y (item_json x)"
    using d by (auto simp: durable_def)
  have lk: "lookup_item b (q_items q) = Some x"
    using lookup_item_mem [of "q_items q" x] ok x by (simp add: queue_ok_def)
  define x' where "x' = x\<lparr>it_attempts := it_attempts x + 1, it_next := to_utc nxt,
    it_error := truncate_text reason 512\<rparr>"
  have core: "same_core x' x" by (simp add: x'_def same_core_def)
  obtain okw ios1 q1 where wi: "writeItem h x' ios q = (okw, ios1, q1)" by (metis prod_cases3)
  have "dir_read (q_wal q1) (itemPath h x) = Some (Some y) \<or>
        dir_read (q_wal q1) (itemPath h x) = Some (Some (item_json x'))"
    using writeItem_wal(2) [OF wi] y same_core_path [OF core, of h] by auto
  then have "\<exists>z. dir_read (q_wal q1) (itemPath h x) = Some (Some z) \<and> same_core z (item_json x)"
    using y same_core_json [OF core] by auto
  moreover have "itemPath h x' = itemPath h x" using core by (rule same_core_path)
  ultimately show ?thesis
    using lk wi writeItem_frame(1) [OF wi] x core
    by (auto simp: Nack_def x'_def [symmetric] durable_def same_core_def item_json_def split: prod.splits bool.splits)
qed

lemma q_step_durable:
  assumes "queue_ok q" "q_kind q \<noteq> Telemetry" "next_seq (q_stats q) \<noteq> - 1" "durable h b p q"
    and "\<not> removes b a"
  shows "durable h b p (q_step h a q)"
proof (cases a)
  case (EnqueueOp now ios b' p')
  then show ?thesis using Enqueue_durable [OF assms(1-4)] by simp
next
  case (NackOp ios b' nxt reason)
  show ?thesis
  proof (cases "b' = b")
    case True
    then show ?thesis using NackOp Nack_durable [OF assms(1,4)] by simp
  next
    case False
    then show ?thesis using NackOp touches_durable [OF Nack_touches [OF assms(1)] _ assms(4)] by simp
  qed
next
  case (AckOp ios b')
  then show ?thesis using touches_durable [OF Ack_touches [OF assms(1)] _ assms(4)] assms(5) by simp
next
  case (QuarantineOp ios b' reason)
  then show ?thesis
    using touches_durable [OF Quarantine_touches [OF assms(1)] _ assms(4)] assms(5) by simp
qed

lemma q_run_durable:
  assumes "queue_ok q" "q_kind q \<noteq> Telemetry" "unat (next_seq (q_stats q)) + length as < 2 ^ 64"
    and "durable h b p q" "\<not> list_ex (removes b) as"
  shows "durable h b p (q_run h as q)"
  using assms
proof (induction as arbitrary: q)
  case (Cons a as)
  have n: "unat (next_seq (q_stats q)) < 2 ^ 64 - 1" using Cons.prems(3) by simp
  note n' = u64_not_max [OF n]
  have "unat (next_seq (q_stats (q_step h a q))) + length as < 2 ^ 64"
    using q_step_unat_seq [OF Cons.prems(1) n, of h a] Cons.prems(3) by simp
  moreover have "durable h b p (q_step h a q)"
    using q_step_durable [OF Cons.prems(1,2) n' Cons.prems(4)] Cons.prems(5) by simp
  ultimately show ?case
    using Cons.IH [of "q_step h a q"] q_step_ok [OF Cons.prems(1) n'] Cons.prems(2,5)
      q_step_seq [OF Cons.prems(1), of h a]
    by simp
qed simp

lemma Enqueue_accepted_durable:
  assumes "queue_ok q" "Enqueue h now ios b p q = (Inr (x, True), q')"
  shows "durable h b p q' \<and> it_batch x = b \<and> it_payload x = p"
proof -
  have b: "\<not> is_blank b" "p \<noteq> []" "lookup_item b (q_items q) = None"
    using assms(2) by (auto simp: Enqueue_def split: if_splits option.splits)
  from assms(1,2) b show ?thesis
    by (cases rule: Enqueue_fresh) (auto simp: durable_def stored_def intro: exI [of _ "item_json x"])
qed

subsection \<open>Delivery order\<close>

definition due :: "gotime \<Rightarrow> item \<Rightarrow> bool" where
  "due now x \<longleftrightarrow> \<not> after (it_next x) now"

lemma next_from_spec:
  assumes "next_from now best xs = r" and "\<forall>b. best = Some b \<longrightarrow> due now b"
  shows "case r of None \<Rightarrow> best = None \<and> (\<forall>y \<in> set xs. \<not> due now y)
    | Some x \<Rightarrow> due now x \<and> (x \<in> set xs \<or> best = Some x) \<and>
        (\<forall>y. (y \<in> set xs \<and> due now y) \<or> best = Some y \<longrightarrow> it_seq x \<le> it_seq y)"
  using assms
proof (induction now best xs arbitrary: r rule: next_from.induct)
  case (1 now best)
  then show ?case by (auto split: option.splits)
next
  case (2 now best z zs)
  let ?b = "if \<not> after (it_next z) now \<and> (case best of None \<Rightarrow> True | Some b \<Rightarrow> it_seq z < it_seq b)
            then Some z else best"
  have b: "\<forall>b. ?b = Some b \<longrightarrow> due now b" using "2.prems"(2) by (auto simp: due_def)
  have "next_from now ?b zs = r" using "2.prems"(1) by simp
  note IH = "2.IH" [OF this b]
  show ?case
  proof (cases r)
    case None
    with IH show ?thesis by (auto simp: due_def split: if_splits option.splits)
  next
    case (Some x)
    have le: "it_seq x \<le> it_seq y" if "?b = Some y" for y using IH Some that by auto
    have zx: "it_seq x \<le> it_seq z" if "due now z"
    proof (cases "?b = Some z")
      case True
      then show ?thesis by (rule le)
    next
      case False
      with that obtain b where b: "best = Some b" "\<not> it_seq z < it_seq b"
        by (auto simp: due_def split: option.splits if_splits)
      then have "?b = Some b" by simp
      then show ?thesis using le b(2) by force
    qed
    have bx: "it_seq x \<le> it_seq y" if "best = Some y" for y
    proof (cases "?b = Some y")
      case True
      then show ?thesis by (rule le)
    next
      case False
      with that have "?b = Some z" "it_seq z < it_seq y" by (auto split: if_splits)
      then show ?thesis using le [of z] by simp
    qed
    have "x \<in> set (z # zs) \<or> best = Some x" using IH Some by (auto split: if_splits)
    then show ?thesis using IH Some zx bx by auto
  qed
qed

lemma Next_spec:
  "case Next now q of None \<Rightarrow> \<forall>y \<in> set (q_items q). \<not> due now y
   | Some x \<Rightarrow> x \<in> set (q_items q) \<and> due now x \<and>
       (\<forall>y \<in> set (q_items q). due now y \<longrightarrow> it_seq x \<le> it_seq y)"
  using next_from_spec [of now None "q_items q" "Next now q"]
  by (auto simp: Next_def split: option.splits)

end
