(* ===== verification/Queue_Recovery.thy ===== *)
theory Queue_Recovery
  imports Store_Queue
begin

section \<open>Recovery of the persistent queue after a restart\<close>

text \<open>
  The second half of the queue's proof: fault-free operations keep the in-memory items and the
  \<open>.wal.json\<close> files in agreement, and reopening a directory that agrees with the memory of
  the process that died rebuilds the same items, as their encoding shows them, and the same pending counters
  (\<open>load\<close>).
\<close>

subsection \<open>Agreement of memory and disk, and recovery\<close>

definition agree :: "(string \<Rightarrow> string) \<Rightarrow> queue \<Rightarrow> bool" where
  "agree h q \<longleftrightarrow> distinct (map fst (q_wal q)) \<and>
     (\<forall>n c. has_suffix wal_suffix n \<longrightarrow>
        (dir_read (q_wal q) n = Some c \<longleftrightarrow> (\<exists>x \<in> set (q_items q). n = itemPath h x \<and> c = Some (item_json x))))"

text \<open>The batch IDs of the agent are hexadecimal or UUID texts; JSON keeps every valid UTF-8 text.\<close>

definition valid_names :: "queue \<Rightarrow> bool" where
  "valid_names q \<longleftrightarrow> (\<forall>x \<in> set (q_items q). valid_utf8 (it_batch x))"

lemma item_json_simps [simp]:
  "it_seq (item_json x) = it_seq x" "it_payload (item_json x) = it_payload x" "psize (item_json x) = psize x"
  "item_json (item_json x) = item_json x"
  by (simp_all add: item_json_def psize_def)

lemma item_json_name [simp]:
  "valid_utf8 (it_batch x) \<Longrightarrow> it_batch (item_json x) = it_batch x"
  "valid_utf8 (it_batch x) \<Longrightarrow> itemPath h (item_json x) = itemPath h x"
  by (simp_all add: item_json_def itemPath_def)

lemma touches_names: "touches h b q q' \<Longrightarrow> valid_names q \<Longrightarrow> valid_utf8 b \<Longrightarrow> valid_names q'"
  unfolding touches_def valid_names_def by blast

lemma itemPath_suffix [simp]: "has_suffix wal_suffix (itemPath h x)"
  using has_suffix_append [of wal_suffix "dec020 (unat (it_seq x)) @ ''-'' @ h (it_batch x)"]
  by (simp add: itemPath_def)

lemma distinct_dir_put: "distinct (map fst d) \<Longrightarrow> distinct (map fst (dir_put p c d))"
  by (simp add: dir_put_def distinct_update)

lemma distinct_dir_del: "distinct (map fst d) \<Longrightarrow> distinct (map fst (dir_del p d))"
  by (simp add: dir_del_def distinct_delete)

lemma agree_remove:
  assumes "queue_ok q" "agree h q" "x \<in> set (q_items q)"
    and "q_wal q' = dir_del (itemPath h x) (q_wal q)" "q_items q' = delete_item (it_batch x) (q_items q)"
  shows "agree h q'"
proof -
  have items: "set (q_items q') = set (q_items q) - {x}"
    using assms(3,5) queue_okD(1) [OF assms(1)] by auto
  show ?thesis
    using assms(2,3) itemPath_neq [OF assms(1,3)]
    by (auto simp: agree_def items assms(4) distinct_dir_del)
qed

lemma agree_insert:
  assumes "agree h q" "it_batch x \<notin> it_batch ` set (q_items q)"
    and "\<forall>y \<in> set (q_items q). it_seq y \<noteq> it_seq x"
    and "q_wal q' = dir_put (itemPath h x) (Some (item_json x)) (q_wal q)" "q_items q' = put_item x (q_items q)"
  shows "agree h q'"
proof -
  have items: "set (q_items q') = insert x (set (q_items q))"
    using assms(2,5) by (simp add: put_item_def delete_item_absent)
  have "itemPath h x \<notin> itemPath h ` set (q_items q)"
    using assms(3) itemPath_seq by (metis imageE)
  then show ?thesis
    using assms(1) by (auto simp: agree_def items assms(4) distinct_dir_put)
qed

lemma agree_file:
  "agree h q \<Longrightarrow> x \<in> set (q_items q) \<Longrightarrow> dir_read (q_wal q) (itemPath h x) = Some (Some (item_json x))"
  by (auto simp: agree_def)

lemma agree_cong: "q_items q' = q_items q \<Longrightarrow> q_wal q' = q_wal q \<Longrightarrow> agree h q' = agree h q"
  by (simp add: agree_def)

text \<open>Without faults the eviction loop never fails to remove a file.\<close>

lemma evict_agree:
  assumes "queue_ok q" "agree h q" "set ios \<subseteq> {IoOk}" "evict h n ios q = (e, ios', q')"
  shows "agree h q' \<and> set ios' \<subseteq> {IoOk} \<and> e \<noteq> Some ErrIO"
  using assms
proof (induction h n ios q arbitrary: e ios' q' rule: evict.induct)
  case (1 h n ios q)
  show ?case
  proof (cases "over q n \<and> q_items q \<noteq> []")
    case False
    then have "\<not> over q n \<or> oldest q = None" using oldest_None [of q] by auto
    then show ?thesis
      using "1.prems" by (auto simp: evict.simps [of h n ios q] split: if_splits)
  next
    case True
    then obtain x where x: "oldest q = Some x" using oldest_None [of q] by (cases "oldest q") auto
    obtain ios1 where io: "take_io ios = (IoOk, ios1)"
      using fst_take_io_ok [OF "1.prems"(3)] by (cases "take_io ios") auto
    have ios1: "set ios1 \<subseteq> {IoOk}" using set_snd_take_io [of ios] io "1.prems"(3) by auto
    have rm: "dir_remove IoOk (itemPath h x) (q_wal q) = (Removed, dir_del (itemPath h x) (q_wal q))"
      using agree_file [OF "1.prems"(2) oldest_mem [OF x]] by (simp add: dir_remove_def)
    have "agree h (drop_item h x q)"
      by (rule agree_remove [OF "1.prems"(1,2) oldest_mem [OF x]]) (simp_all add: drop_item_frame)
    moreover have "queue_ok (drop_item h x q)"
      using "1.prems"(1) oldest_mem [OF x] by (rule drop_item_ok)
    moreover have "evict h n ios1 (drop_item h x q) = (e, ios', q')"
      using "1.prems"(4) True x io rm by (simp add: evict.simps [of h n ios q])
    ultimately show ?thesis
      using "1.IH" [OF _ x io [symmetric] refl rm [symmetric]] True ios1 io rm by auto
  qed
qed

lemma take_io_clean:
  assumes "set ios \<subseteq> {IoOk}"
  obtains ios' where "take_io ios = (IoOk, ios')" "set ios' \<subseteq> {IoOk}"
  using assms by (cases ios) auto

definition synced :: "queue \<Rightarrow> bool" where
  "synced q \<longleftrightarrow> (\<exists>s. q_stats_file q = Some (Some s) \<and> next_seq s = next_seq (q_stats q)) \<or>
     q_stats_file q = None \<and> next_seq (q_stats q) = 0"

text \<open>Fault-free operations on batches with valid IDs keep memory and disk in agreement.\<close>

fun clean :: "q_op \<Rightarrow> bool" where
  "clean (EnqueueOp now ios b p) \<longleftrightarrow> set ios \<subseteq> {IoOk} \<and> valid_utf8 b"
| "clean (AckOp ios b) = (set ios \<subseteq> {IoOk})"
| "clean (NackOp ios b nxt reason) = (set ios \<subseteq> {IoOk})"
| "clean (QuarantineOp ios b reason) = (set ios \<subseteq> {IoOk})"

lemma writeStats_clean:
  assumes "set ios \<subseteq> {IoOk}"
  obtains ios' where "writeStats ios q = (True, ios', q\<lparr>q_stats_file := Some (Some (q_stats q))\<rparr>)"
    "set ios' \<subseteq> {IoOk}"
proof -
  obtain ios' where "take_io ios = (IoOk, ios')" "set ios' \<subseteq> {IoOk}"
    using take_io_clean [OF assms] .
  then show thesis using that [of ios'] by (simp add: writeStats_def)
qed

lemma writeItem_clean:
  assumes "set ios \<subseteq> {IoOk}"
  obtains ios' where "writeItem h x ios q =
      (True, ios', q\<lparr>q_wal := dir_put (itemPath h x) (Some (item_json x)) (q_wal q)\<rparr>)" "set ios' \<subseteq> {IoOk}"
proof -
  obtain ios' where "take_io ios = (IoOk, ios')" "set ios' \<subseteq> {IoOk}"
    using take_io_clean [OF assms] .
  then show thesis using that [of ios'] by (simp add: writeItem_def)
qed

lemma evict_stats_file: "evict h n ios q = (e, ios', q') \<Longrightarrow> q_stats_file q' = q_stats_file q"
proof (induction h n ios q arbitrary: e ios' q' rule: evict.induct)
  case (1 h n ios q)
  then show ?case
    by (auto simp: evict.simps [of h n ios q] drop_item_def split: if_splits option.splits prod.splits
        remove_result.splits)
qed

lemma makeCapacity_clean:
  assumes "queue_ok q" "agree h q" "synced q" "set ios \<subseteq> {IoOk}"
    "makeCapacity h n ios q = (e, ios', q')"
  shows "agree h q' \<and> synced q' \<and> set ios' \<subseteq> {IoOk}"
proof (cases "\<not> over q n \<or> q_kind q \<noteq> Telemetry \<or> \<not> drop_oldest (q_policy q)")
  case True
  then show ?thesis using assms by (auto simp: makeCapacity_def split: if_splits)
next
  case False
  obtain e1 ios1 q1 where ev: "evict h n ios q = (e1, ios1, q1)" by (metis prod_cases3)
  note ea = evict_agree [OF assms(1,2,4) ev]
  have s1: "synced q1"
    using assms(3) evict_stats_file [OF ev] evict_spec [OF assms(1) ev]
    by (simp add: synced_def evicted_def same_cfg_def)
  obtain ios2 where io: "take_io ios1 = (IoOk, ios2)" "set ios2 \<subseteq> {IoOk}"
    using take_io_clean ea by metis
  obtain ios3 where ws: "writeStats ios2 q1 = (True, ios3, q1\<lparr>q_stats_file := Some (Some (q_stats q1))\<rparr>)"
    "set ios3 \<subseteq> {IoOk}" using writeStats_clean [OF io(2)] by blast
  show ?thesis
    using assms(5) False ea s1 io ws ev
    by (cases e1) (auto simp: makeCapacity_def synced_def agree_def)
qed

definition consistent :: "(string \<Rightarrow> string) \<Rightarrow> queue \<Rightarrow> bool" where
  "consistent h q \<longleftrightarrow> queue_ok q \<and> agree h q \<and> synced q \<and> valid_names q"

lemma Enqueue_consistent:
  assumes "consistent h q" "set ios \<subseteq> {IoOk}" "next_seq (q_stats q) \<noteq> - 1" "valid_utf8 b"
  shows "consistent h (snd (Enqueue h now ios b p q))"
proof (cases "is_blank b \<or> p = [] \<or> lookup_item b (q_items q) \<noteq> None")
  case True
  then show ?thesis using assms(1) by (auto simp: Enqueue_def)
next
  case False
  have c: "queue_ok q" "agree h q" "synced q" "valid_names q" using assms(1) by (auto simp: consistent_def)
  obtain e ios1 q1 where mc: "makeCapacity h (int (length p)) ios q = (e, ios1, q1)"
    by (metis prod_cases3)
  note m = makeCapacity_spec [OF c(1) mc] makeCapacity_clean [OF c(1-3) assms(2) mc]
  have e: "evicted h q q1" using m by simp
  then have names: "valid_names q1" using c(4) by (auto simp: evicted_def valid_names_def)
  have ok: "queue_ok (snd (Enqueue h now ios b p q))" using c(1) assms(3) by (rule Enqueue_ok)
  show ?thesis
  proof (cases e)
    case (Some e')
    then show ?thesis using False mc m ok names by (auto simp: Enqueue_def consistent_def)
  next
    case None
    define x where "x = new_item (q_kind q1) now b p (next_seq (q_stats q1) + 1)"
    obtain ios2 where wi: "writeItem h x ios1 q1 =
        (True, ios2, q1\<lparr>q_wal := dir_put (itemPath h x) (Some (item_json x)) (q_wal q1)\<rparr>)" "set ios2 \<subseteq> {IoOk}"
      using writeItem_clean m by blast
    define q3 where "q3 = q1\<lparr>q_wal := dir_put (itemPath h x) (Some (item_json x)) (q_wal q1),
      q_items := put_item x (q_items q1),
      q_stats := (q_stats q1)\<lparr>next_seq := next_seq (q_stats q1) + 1,
        pending_items := pending_items (q_stats q1) + 1,
        pending_bytes := pending_bytes (q_stats q1) + int (length p)\<rparr>\<rparr>"
    obtain ios3 where ws: "writeStats ios2 q3 =
        (True, ios3, q3\<lparr>q_stats_file := Some (Some (q_stats q3))\<rparr>)"
      using writeStats_clean [OF wi(2)] by blast
    have res: "snd (Enqueue h now ios b p q) = q3\<lparr>q_stats_file := Some (Some (q_stats q3))\<rparr>"
      using False mc None wi(1) ws unfolding q3_def
      by (auto simp: Enqueue_def x_def Let_def split: option.splits)
    have "b \<notin> it_batch ` set (q_items q1)"
      using e False by (auto simp: evicted_def lookup_item_None)
    moreover have "\<forall>y \<in> set (q_items q1). it_seq y \<noteq> it_seq x"
      using e u64_fresh_Suc [OF assms(3)]
      by (fastforce simp: evicted_def queue_ok_def same_cfg_def x_def)
    ultimately have "agree h q3"
      using agree_insert [of h q1 x q3] m by (simp add: q3_def x_def)
    moreover have "valid_names q3" using names assms(4) by (auto simp: valid_names_def q3_def x_def)
    ultimately show ?thesis
      using ok res by (simp add: consistent_def synced_def agree_def valid_names_def)
  qed
qed

lemma Ack_consistent:
  assumes "consistent h q" "set ios \<subseteq> {IoOk}"
  shows "consistent h (snd (Ack h ios b q))"
proof (cases "lookup_item b (q_items q)")
  case None
  then show ?thesis using assms(1) by (simp add: Ack_def)
next
  case (Some x)
  note x = lookup_item_Some [OF Some]
  have c: "queue_ok q" "agree h q" "synced q" "valid_names q" using assms(1) by (auto simp: consistent_def)
  obtain ios1 where io1: "take_io ios = (IoOk, ios1)" "set ios1 \<subseteq> {IoOk}"
    using take_io_clean [OF assms(2)] .
  obtain ios2 where io2: "take_io ios1 = (IoOk, ios2)" "set ios2 \<subseteq> {IoOk}"
    using take_io_clean [OF io1(2)] .
  have rm: "dir_remove IoOk (itemPath h x) (q_wal q) = (Removed, dir_del (itemPath h x) (q_wal q))"
    using agree_file [OF c(2)] x by (simp add: dir_remove_def)
  let ?q2 = "remove_pending b x (q\<lparr>q_wal := dir_del (itemPath h x) (q_wal q)\<rparr>)"
  obtain ios3 where ws: "writeStats ios2 ?q2 = (True, ios3, ?q2\<lparr>q_stats_file := Some (Some (q_stats ?q2))\<rparr>)"
    using writeStats_clean [OF io2(2)] by blast
  have "agree h ?q2"
    by (rule agree_remove [OF c(1,2), of x]) (use x in \<open>simp_all add: remove_pending_frame\<close>)
  moreover have "queue_ok (snd (Ack h ios b q)) \<and> valid_names (snd (Ack h ios b q))"
    using Ack_touches [OF c(1), of h b ios] touches_names [OF _ c(4)] x c(4) by (auto simp: touches_def valid_names_def)
  ultimately show ?thesis
    using Some io1 io2 rm ws by (simp add: Ack_def consistent_def synced_def agree_def)
qed

lemma Quarantine_consistent:
  assumes "consistent h q" "set ios \<subseteq> {IoOk}"
  shows "consistent h (snd (Quarantine h ios b reason q))"
proof (cases "lookup_item b (q_items q)")
  case None
  then show ?thesis using assms(1) by (simp add: Quarantine_def)
next
  case (Some x)
  note x = lookup_item_Some [OF Some]
  have c: "queue_ok q" "agree h q" "synced q" "valid_names q" using assms(1) by (auto simp: consistent_def)
  define x' where "x' = x\<lparr>it_error := truncate_text reason 512, it_next := zero_time,
    it_attempts := it_attempts x + 1\<rparr>"
  have core: "itemPath h x' = itemPath h x" "psize x' = psize x"
    by (simp_all add: x'_def itemPath_def psize_def)
  obtain ios0 where io0: "take_io ios = (IoOk, ios0)" "set ios0 \<subseteq> {IoOk}"
    using take_io_clean [OF assms(2)] .
  obtain ios1 where io1: "take_io ios0 = (IoOk, ios1)" "set ios1 \<subseteq> {IoOk}"
    using take_io_clean [OF io0(2)] .
  obtain ios2 where io2: "take_io ios1 = (IoOk, ios2)" "set ios2 \<subseteq> {IoOk}"
    using take_io_clean [OF io1(2)] .
  define q1 where "q1 = q\<lparr>q_dead := dir_put (deadPath h x') (Some (item_json x')) (q_dead q),
    q_wal := dir_del (itemPath h x) (q_wal q)\<rparr>"
  define q3 where "q3 = (remove_pending b x' q1)\<lparr>q_stats := (q_stats (remove_pending b x' q1))
    \<lparr>dead_items := dead_items (q_stats (remove_pending b x' q1)) + 1,
     dead_bytes := dead_bytes (q_stats (remove_pending b x' q1)) + of_nat (length (it_payload x'))\<rparr>\<rparr>"
  have rm: "dir_remove IoOk (itemPath h x) (q_wal q) = (Removed, dir_del (itemPath h x) (q_wal q))"
    using agree_file [OF c(2)] x by (simp add: dir_remove_def)
  obtain ios3 where ws: "writeStats ios2 q3 = (True, ios3, q3\<lparr>q_stats_file := Some (Some (q_stats q3))\<rparr>)"
    using writeStats_clean [OF io2(2)] by blast
  have "agree h q3"
    by (rule agree_remove [OF c(1,2), of x]) (use x in \<open>simp_all add: q3_def q1_def remove_pending_frame\<close>)
  moreover have "queue_ok (snd (Quarantine h ios b reason q)) \<and> valid_names (snd (Quarantine h ios b reason q))"
    using Quarantine_touches [OF c(1), of h b ios reason] touches_names [OF _ c(4)] x c(4) by (auto simp: touches_def valid_names_def)
  moreover have "snd (Quarantine h ios b reason q) = q3\<lparr>q_stats_file := Some (Some (q_stats q3))\<rparr>"
    using Some io0 io1 io2 rm ws core unfolding q3_def q1_def
    by (simp add: Quarantine_def x'_def [symmetric] Let_def)
  ultimately show ?thesis by (simp add: consistent_def synced_def agree_def)
qed

lemma Nack_consistent:
  assumes "consistent h q" "set ios \<subseteq> {IoOk}"
  shows "consistent h (snd (Nack h ios b nxt reason q))"
proof (cases "lookup_item b (q_items q)")
  case None
  then show ?thesis using assms(1) by (simp add: Nack_def)
next
  case (Some x)
  note x = lookup_item_Some [OF Some]
  have c: "queue_ok q" "agree h q" "synced q" "valid_names q" using assms(1) by (auto simp: consistent_def)
  define x' where "x' = x\<lparr>it_attempts := it_attempts x + 1, it_next := to_utc nxt,
    it_error := truncate_text reason 512\<rparr>"
  have core: "itemPath h x' = itemPath h x" "it_batch x' = b"
    using x by (simp_all add: x'_def itemPath_def)
  obtain ios1 where wi: "writeItem h x' ios q =
      (True, ios1, q\<lparr>q_wal := dir_put (itemPath h x') (Some (item_json x')) (q_wal q)\<rparr>)"
    using writeItem_clean [OF assms(2)] by blast
  let ?q' = "q\<lparr>q_wal := dir_put (itemPath h x') (Some (item_json x')) (q_wal q), q_items := put_item x' (q_items q)\<rparr>"
  have res: "snd (Nack h ios b nxt reason q) = ?q'"
    using Some wi by (simp add: Nack_def x'_def [symmetric])
  have items: "set (put_item x' (q_items q)) = insert x' (set (q_items q) - {x})"
    using x core queue_okD(1) [OF c(1)] by auto
  have "itemPath h x \<notin> itemPath h ` (set (q_items q) - {x})"
    using itemPath_neq [OF c(1)] x by blast
  then have "agree h ?q'"
    using c(2) x by (auto simp: agree_def items core distinct_dir_put dest: queue_okD(1) [OF c(1)])
  moreover have "queue_ok ?q' \<and> valid_names ?q'"
    using Nack_touches [OF c(1), of h b ios nxt reason] touches_names [OF _ c(4)] x c(4) unfolding res touches_def valid_names_def by blast
  ultimately show ?thesis using c(3) res by (simp add: consistent_def synced_def)
qed

lemma q_step_consistent [inv_intros]:
  "consistent h q \<Longrightarrow> clean a \<Longrightarrow> next_seq (q_stats q) \<noteq> - 1 \<Longrightarrow> consistent h (q_step h a q)"
  by (cases a)
     (auto simp: Enqueue_consistent Ack_consistent Nack_consistent Quarantine_consistent)

lemma q_run_consistent:
  "consistent h q \<Longrightarrow> list_all clean as \<Longrightarrow> unat (next_seq (q_stats q)) + length as < 2 ^ 64 \<Longrightarrow>
   consistent h (q_run h as q)"
proof (induction as arbitrary: q)
  case (Cons a as)
  have ok: "queue_ok q" using Cons.prems(1) by (simp add: consistent_def)
  have n: "unat (next_seq (q_stats q)) < 2 ^ 64 - 1" using Cons.prems(3) by simp
  have "consistent h (q_step h a q)"
    using Cons.prems(1,2) u64_not_max [OF n] by (simp add: q_step_consistent)
  moreover have "unat (next_seq (q_stats (q_step h a q))) + length as < 2 ^ 64"
    using q_step_unat_seq [OF ok n, of h a] Cons.prems(3) by simp
  ultimately show ?case using Cons.IH Cons.prems(2) by simp
qed simp

subsection \<open>Reading the directory\<close>

fun wal_items :: "(string \<times> item option) list \<Rightarrow> item list" where
  "wal_items [] = []"
| "wal_items ((n, c) # es) =
     (if has_suffix wal_suffix n then (case c of None \<Rightarrow> wal_items es | Some x \<Rightarrow> x # wal_items es)
      else wal_items es)"

lemma set_wal_items:
  "set (wal_items es) = {x. \<exists>n. (n, Some x) \<in> set es \<and> has_suffix wal_suffix n}"
  by (induction es rule: wal_items.induct) (auto split: option.splits)

definition loadable :: "(string \<times> item option) list \<Rightarrow> bool" where
  "loadable es \<longleftrightarrow> (\<forall>(n, c) \<in> set es. has_suffix wal_suffix n \<longrightarrow>
     (\<exists>x. c = Some x \<and> it_batch x \<noteq> [] \<and> it_seq x \<noteq> 0))"

lemma load_entries_ok:
  assumes "loadable es" "distinct (map it_batch (rev (wal_items es) @ xs))" "set ios \<subseteq> {IoOk}"
  shows "\<exists>s' ios'. load_entries es ios xs s = Inr (rev (wal_items es) @ xs, s', ios') \<and> set ios' \<subseteq> {IoOk} \<and>
    pending_items s' = pending_items s + int (length (wal_items es)) \<and>
    pending_bytes s' = pending_bytes s + total_bytes (wal_items es) \<and>
    (\<forall>x \<in> set (wal_items es). it_seq x \<le> next_seq s') \<and> next_seq s \<le> next_seq s' \<and>
    next_seq s' \<in> insert (next_seq s) (it_seq ` set (wal_items es)) \<and>
    dropped_items s' = dropped_items s \<and> dead_items s' = dead_items s"
  using assms
proof (induction es ios xs s rule: load_entries.induct)
  case (1 ios xs s)
  then show ?case by (simp add: total_bytes_def)
next
  case (2 n c es ios xs s)
  show ?case
  proof (cases "has_suffix wal_suffix n")
    case False
    then show ?thesis using "2.IH"(1) "2.prems" by (auto simp: loadable_def)
  next
    case True
    then obtain x where x: "c = Some x" "it_batch x \<noteq> []" "it_seq x \<noteq> 0"
      using "2.prems"(1) by (auto simp: loadable_def)
    have p: "put_item x xs = x # xs"
      using "2.prems"(2) True x(1) by (simp add: put_item_def delete_item_absent)
    have d: "distinct (map it_batch (rev (wal_items es) @ put_item x xs))"
      using "2.prems"(2) True x(1) p by auto
    have l: "loadable es" using "2.prems"(1) by (auto simp: loadable_def)
    obtain ios' where io: "take_io ios = (IoOk, ios')" "set ios' \<subseteq> {IoOk}" using take_io_clean [OF "2.prems"(3)] .
    have g: "\<not> (it_batch x = [] \<or> it_seq x = 0)" "\<not> fst (take_io ios) \<noteq> IoOk" using x io by simp_all
    from "2.IH"(2) [OF _ g(2) x(1) g(1) l d] True io show ?thesis
      by (auto simp: x p total_bytes_def split: if_splits intro: order_trans less_imp_le)
  qed
qed

lemma distinct_wal_items:
  assumes "distinct (map fst es)" "inj_on it_batch I"
    and "\<forall>(n, c) \<in> set es. has_suffix wal_suffix n \<longrightarrow> (\<exists>x \<in> I. n = itemPath h x \<and> c = Some x)"
  shows "distinct (map it_batch (wal_items es))"
  using assms(1,3)
proof (induction es)
  case (Cons e es)
  obtain n c where e: "e = (n, c)" by (cases e)
  have IH: "distinct (map it_batch (wal_items es))" using Cons by auto
  show ?case
  proof (cases "has_suffix wal_suffix n")
    case True
    then obtain x where x: "x \<in> I" "n = itemPath h x" "c = Some x" using Cons.prems(2) e by auto
    have "it_batch x \<notin> it_batch ` set (wal_items es)"
    proof
      assume "it_batch x \<in> it_batch ` set (wal_items es)"
      then obtain y m where y: "(m, Some y) \<in> set es" "has_suffix wal_suffix m" "it_batch y = it_batch x"
        by (auto simp: set_wal_items)
      then have "y \<in> I" "m = itemPath h y" using Cons.prems(2) by auto
      then have "y = x" using assms(2) x(1) y(3) by (auto simp: inj_on_def)
      then have "n \<in> fst ` set es" using y(1) \<open>m = itemPath h y\<close> x(2) by force
      then show False using Cons.prems(1) e by auto
    qed
    then show ?thesis using IH True e x by simp
  next
    case False
    then show ?thesis using IH e by simp
  qed
qed simp

lemma agree_wal_entry:
  assumes "agree h q" "(n, c) \<in> set (q_wal q)" "has_suffix wal_suffix n"
  shows "\<exists>x \<in> set (q_items q). n = itemPath h x \<and> c = Some (item_json x)"
proof -
  have "dir_read (q_wal q) n = Some c"
    using assms(1,2) by (simp add: agree_def dir_read_def)
  then show ?thesis using assms(1,3) by (auto simp: agree_def)
qed

lemma agree_wal_items:
  assumes "queue_ok q" "agree h q" "valid_names q"
  shows "set (wal_items (sort_key fst (q_wal q))) = item_json ` set (q_items q)"
    and "distinct (map it_batch (wal_items (sort_key fst (q_wal q))))"
    and "loadable (sort_key fst (q_wal q))"
proof -
  have names: "it_batch (item_json x) = it_batch x" "itemPath h (item_json x) = itemPath h x" if "x \<in> set (q_items q)" for x
    using assms(3) that by (simp_all add: valid_names_def)
  show "set (wal_items (sort_key fst (q_wal q))) = item_json ` set (q_items q)"
  proof
    show "set (wal_items (sort_key fst (q_wal q))) \<subseteq> item_json ` set (q_items q)"
      using agree_wal_entry [OF assms(2)] by (fastforce simp: set_wal_items)
    show "item_json ` set (q_items q) \<subseteq> set (wal_items (sort_key fst (q_wal q)))"
    proof (rule image_subsetI)
      fix x assume "x \<in> set (q_items q)"
      then have "(itemPath h x, Some (item_json x)) \<in> set (q_wal q)"
        using agree_file [OF assms(2)] by (auto simp: dir_read_def dest: map_of_SomeD)
      then show "item_json x \<in> set (wal_items (sort_key fst (q_wal q)))"
        by (auto simp: set_wal_items intro!: exI [of _ "itemPath h x"])
    qed
  qed
  show "distinct (map it_batch (wal_items (sort_key fst (q_wal q))))"
  proof (rule distinct_wal_items)
    show "distinct (map fst (sort_key fst (q_wal q)))"
      using assms(2) by (simp add: agree_def distinct_map)
    show "inj_on it_batch (item_json ` set (q_items q))"
      using queue_okD(1) [OF assms(1)] by (auto simp: inj_on_def names)
    show "\<forall>(n, c) \<in> set (sort_key fst (q_wal q)). has_suffix wal_suffix n \<longrightarrow>
        (\<exists>x \<in> item_json ` set (q_items q). n = itemPath h x \<and> c = Some x)"
      using agree_wal_entry [OF assms(2)] names by fastforce
  qed
  show "loadable (sort_key fst (q_wal q))"
    using agree_wal_entry [OF assms(2)] assms(1) names by (fastforce simp: loadable_def queue_ok_def)
qed

lemma same_set_sums:
  assumes "distinct (map it_batch xs)" "distinct (map it_batch ys)" "set xs = set ys"
  shows "length xs = length ys" "total_bytes xs = total_bytes ys"
proof -
  have d: "distinct xs" "distinct ys" using assms by (auto simp: distinct_map)
  show "length xs = length ys" using d assms(3) by (metis distinct_card)
  show "total_bytes xs = total_bytes ys"
    using d assms(3) by (simp add: total_bytes_def sum_list_distinct_conv_sum_set)
qed

lemma agree_decoded:
  assumes "agree h q" "valid_names q" "q_wal q' = q_wal q" "set (q_items q') = item_json ` set (q_items q)"
  shows "agree h q'"
proof -
  have "(\<exists>x \<in> set (q_items q'). n = itemPath h x \<and> c = Some (item_json x)) \<longleftrightarrow>
      (\<exists>x \<in> set (q_items q). n = itemPath h x \<and> c = Some (item_json x))" for n c
    using assms(2,4) by (auto simp: valid_names_def)
  then show ?thesis using assms(1,3) by (simp add: agree_def)
qed

lemma load_recovers:
  assumes "consistent h q" "set ios \<subseteq> {IoOk}"
    and disk: "q_wal d = q_wal q" "q_stats_file d = q_stats_file q"
  shows "\<exists>q'. load ios d = Inr q' \<and> set (q_items q') = item_json ` set (q_items q) \<and>
    pending_items (q_stats q') = pending_items (q_stats q) \<and>
    pending_bytes (q_stats q') = pending_bytes (q_stats q) \<and>
    next_seq (q_stats q') = next_seq (q_stats q) \<and>
    q_kind q' = q_kind d \<and> q_policy q' = q_policy d \<and> q_wal q' = q_wal d \<and> q_dead q' = q_dead d \<and>
    consistent h q'"
proof -
  have c: "queue_ok q" "agree h q" "synced q" "valid_names q" using assms(1) by (auto simp: consistent_def)
  obtain ios1 where io1: "take_io ios = (IoOk, ios1)" "set ios1 \<subseteq> {IoOk}" using take_io_clean [OF assms(2)] .
  obtain ios2 where io2: "take_io ios1 = (IoOk, ios2)" "set ios2 \<subseteq> {IoOk}" using take_io_clean [OF io1(2)] .
  define s0 where "s0 = (case q_stats_file d of Some (Some s) \<Rightarrow> s | _ \<Rightarrow> zero_stats)"
  have s0: "next_seq s0 = next_seq (q_stats q)" "q_stats_file d \<noteq> Some None"
    using c(3) disk(2) by (auto simp: s0_def synced_def zero_stats_def)
  define es where "es = sort_key fst (q_wal q)"
  note w = agree_wal_items [OF c(1,2,4), folded es_def]
  have "distinct (map it_batch (rev (wal_items es) @ []))" using w(2) by (simp add: distinct_map)
  from load_entries_ok [OF w(3) this io2(2), of "s0\<lparr>pending_items := 0, pending_bytes := 0\<rparr>"]
  obtain s' ios3 where s': "load_entries es ios2 [] (s0\<lparr>pending_items := 0, pending_bytes := 0\<rparr>) =
      Inr (rev (wal_items es), s', ios3)" "set ios3 \<subseteq> {IoOk}"
    and cnt: "pending_items s' = int (length (wal_items es))" "pending_bytes s' = total_bytes (wal_items es)"
    and seq: "\<forall>x \<in> set (wal_items es). it_seq x \<le> next_seq s'" "next_seq s0 \<le> next_seq s'"
      "next_seq s' \<in> insert (next_seq s0) (it_seq ` set (wal_items es))" by auto
  have sq: "next_seq s' = next_seq (q_stats q)"
    using seq s0(1) w(1) c(1) by (force simp: queue_ok_def)
  define q1 where "q1 = d\<lparr>q_items := rev (wal_items es), q_stats := s'\<rparr>"
  obtain ios' where ws: "writeStats ios3 q1 =
      (True, ios', q1\<lparr>q_stats_file := Some (Some (q_stats q1))\<rparr>)"
    using writeStats_clean [OF s'(2)] by blast
  let ?q' = "q1\<lparr>q_stats_file := Some (Some (q_stats q1))\<rparr>"
  have l: "load ios d = Inr ?q'"
    using s0(2) s' ws io1 io2 unfolding q1_def es_def s0_def load_def disk(1)
    by (auto split: option.splits)
  have names: "it_batch (item_json x) = it_batch x" if "x \<in> set (q_items q)" for x
    using c(4) that by (simp add: valid_names_def)
  have items: "set (q_items ?q') = item_json ` set (q_items q)" using w(1) by (simp add: q1_def)
  have d: "distinct (map it_batch (map item_json (q_items q)))" "distinct (map it_seq (wal_items es))"
  proof -
    have "map it_batch (map item_json (q_items q)) = map it_batch (q_items q)" using names by simp
    then show "distinct (map it_batch (map item_json (q_items q)))" using c(1) unfolding queue_ok_def by metis
    have "inj_on it_seq (set (q_items q))" using c(1) by (simp add: queue_ok_def distinct_map)
    then have "inj_on it_seq (item_json ` set (q_items q))" by (auto simp: inj_on_def)
    then show "distinct (map it_seq (wal_items es))" using w(1,2) by (simp add: distinct_map)
  qed
  have sums: "length (wal_items es) = length (q_items q)" "total_bytes (wal_items es) = total_bytes (q_items q)"
    using same_set_sums [OF w(2) d(1)] w(1) by (simp_all add: total_bytes_def comp_def)
  have "queue_ok ?q'"
    using w(1,2) d(2) cnt sums seq(1) c(1) names by (auto simp: q1_def queue_ok_def total_bytes_def rev_map [symmetric])
  moreover have "agree h ?q'" by (rule agree_decoded [OF c(2,4) _ items]) (simp add: q1_def disk(1))
  moreover have "valid_names ?q'" using items c(4) by (auto simp: valid_names_def)
  ultimately have "consistent h ?q'" by (simp add: consistent_def synced_def)
  then show ?thesis
    using l items sq cnt sums c(1) by (intro exI [of _ ?q']) (simp add: q1_def queue_ok_def)
qed

subsection \<open>The queue implements the outbox interface\<close>

definition queue_holds :: "queue \<Rightarrow> string \<Rightarrow> bool" where
  "queue_holds q b \<longleftrightarrow> b \<in> it_batch ` set (q_items q)"

definition never_evicts :: "queue \<Rightarrow> bool" where
  "never_evicts q \<longleftrightarrow> queue_ok q \<and> q_kind q \<noteq> Telemetry"

definition seq_spare :: "queue \<Rightarrow> bool" where
  "seq_spare q \<longleftrightarrow> next_seq (q_stats q) \<noteq> - 1"

lemma Enqueue_accepts:
  assumes "queue_ok q" "Enqueue h now ios b p q = (Inr (x, fresh), q')"
  shows "queue_holds q' b \<and> (fresh \<longrightarrow> \<not> queue_holds q b)"
proof (cases fresh)
  case True
  have "lookup_item b (q_items q) = None"
    using assms(2) True by (auto simp: Enqueue_def split: if_splits option.splits)
  moreover have "durable h b p q'" using Enqueue_accepted_durable [OF assms(1)] assms(2) True by auto
  ultimately show ?thesis by (auto simp: queue_holds_def durable_def lookup_item_None)
next
  case False
  have "lookup_item b (q_items q) \<noteq> None"
  proof
    assume n: "lookup_item b (q_items q) = None"
    have b: "\<not> is_blank b" "p \<noteq> []" using assms(2) by (auto simp: Enqueue_def)
    from assms b n False show False by (cases rule: Enqueue_fresh) auto
  qed
  then obtain y where "lookup_item b (q_items q) = Some y" by auto
  then show ?thesis
    using assms(2) False lookup_item_Some [of b "q_items q" y]
    by (auto simp: Enqueue_def queue_holds_def split: if_splits)
qed

interpretation mq: outbox "\<lambda>(now, ios) b p q. Enqueue h now ios b p q" queue_holds
  "\<lambda>q b p. durable h b p q" never_evicts seq_spare for h
proof unfold_locales
  fix q q' :: queue and e :: "gotime \<times> io list" and b c :: string and p p' :: bytes and i :: item
    and fresh :: bool
  obtain now ios where e: "e = (now, ios)" by (cases e)
  show "never_evicts q \<Longrightarrow> seq_spare q \<Longrightarrow>
      never_evicts (snd ((\<lambda>(now, ios) b p q. Enqueue h now ios b p q) e b p q))"
    using Enqueue_ok [of q h now ios b p] Enqueue_seq [of q h now ios b p]
    by (simp add: e never_evicts_def seq_spare_def)
  show "never_evicts q \<Longrightarrow> (\<lambda>(now, ios) b p q. Enqueue h now ios b p q) e b p q = (Inr (i, fresh), q') \<Longrightarrow>
      queue_holds q' b"
    using Enqueue_accepts [of q h now ios b p i fresh q'] by (simp add: e never_evicts_def)
  show "never_evicts q \<Longrightarrow> (\<lambda>(now, ios) b p q. Enqueue h now ios b p q) e b p q = (Inr (i, True), q') \<Longrightarrow>
      \<not> queue_holds q b \<and> durable h b p q'"
    using Enqueue_accepts [of q h now ios b p i True q'] Enqueue_accepted_durable [of q h now ios b p i q']
    by (simp add: e never_evicts_def)
  show "never_evicts q \<Longrightarrow> queue_holds q b \<Longrightarrow>
      (\<lambda>(now, ios) b p q. Enqueue h now ios b p q) e b p q = (Inr (i, fresh), q') \<Longrightarrow> \<not> fresh \<and> q' = q"
    by (auto simp: e Enqueue_def queue_holds_def lookup_item_None split: if_splits option.splits)
  show "never_evicts q \<Longrightarrow> seq_spare q \<Longrightarrow> durable h b p q \<Longrightarrow>
      durable h b p (snd ((\<lambda>(now, ios) b p q. Enqueue h now ios b p q) e c p' q))"
    using Enqueue_durable [of q h b p now ios c p'] by (simp add: e never_evicts_def seq_spare_def)
  show "durable h b p q \<Longrightarrow> queue_holds q b" by (auto simp: durable_def queue_holds_def)
qed

subsection \<open>Properties\<close>

text \<open>A concrete queue for the witnesses: one metering record, file and counters in agreement.\<close>

definition ex_hash :: "string \<Rightarrow> string" where
  "ex_hash b = b"

definition ex_policy :: policy where
  "ex_policy = \<lparr>max_items = 2, max_bytes = 10, drop_oldest = False\<rparr>"

definition ex_now :: gotime where
  "ex_now = GoTime 1000 UTC"

definition ex_empty :: "kind \<Rightarrow> policy \<Rightarrow> queue" where
  "ex_empty k pol = \<lparr>q_kind = k, q_policy = pol, q_items = [], q_stats = zero_stats, q_wal = [],
     q_dead = [], q_stats_file = None\<rparr>"

lemma ex_empty_consistent: "consistent h (ex_empty k pol)"
  by (simp add: ex_empty_def consistent_def queue_ok_def agree_def synced_def zero_stats_def total_bytes_def valid_names_def)

lemma ex_name_valid: "valid_utf8 ''b''"
  by (simp add: valid_utf8_def rune_width_def lead_len_def between_def code_of_def Let_def)

lemma ex_empty_ok: "queue_ok (ex_empty k pol)"
  using ex_empty_consistent [of id] by (simp add: consistent_def)

lemmas ex_queue_eval = ex_hash_def ex_policy_def ex_now_def ex_empty_def zero_stats_def
  Enqueue_def makeCapacity_def over_def lookup_item_def writeItem_def writeStats_def new_item_def
  put_item_def delete_item_def not_is_blank_head code_of_def kind_defs AuditEnqueueDelay_def Let_def

text \<open>
  C12: Once \<open>Enqueue\<close> of a metering or audit queue has reported that it stored a batch, the
  batch stays pending and its file on disk stays decodable to the same payload through every
  further sequence of enqueues, acks, retries and quarantines, whichever of their file
  operations fail, until an \<open>Ack\<close> or \<open>Quarantine\<close> names that batch.
\<close>

theorem stored_batch_survives:
  assumes "queue_ok q" "q_kind q \<noteq> Telemetry"
    and "Enqueue h now ios b p q = (Inr (x, True), q')"
    and "\<not> list_ex (removes b) as" "unat (next_seq (q_stats q)) + length as + 1 < 2 ^ 64"
  shows "durable h b p (q_run h as q')"
proof (rule q_run_durable)
  have n: "unat (next_seq (q_stats q)) < 2 ^ 64 - 1" using assms(5) by simp
  note n' = u64_not_max [OF n]
  show "queue_ok q'" using Enqueue_ok [OF assms(1) n', of h now ios b p] assms(3) by simp
  show "durable h b p q'" using Enqueue_accepted_durable [OF assms(1,3)] by simp
  show "q_kind q' \<noteq> Telemetry" using Enqueue_seq [OF assms(1), of h now ios b p] assms(2,3) by simp
  show "unat (next_seq (q_stats q')) + length as < 2 ^ 64"
    using Enqueue_seq [OF assms(1), of h now ios b p] assms(3,5) unat_Suc_u64 [OF n'] by auto
  show "\<not> list_ex (removes b) as" by (rule assms(4))
qed

theorem stored_batch_survives_witness:
  "durable ex_hash ''b'' ''xy''
     (q_run ex_hash [NackOp [IoLate] ''b'' ex_now ''timeout'', EnqueueOp ex_now [IoFail] ''c'' ''z'']
        (snd (Enqueue ex_hash ex_now [] ''b'' ''xy'' (ex_empty Metering ex_policy))))"
proof (rule stored_batch_survives [OF ex_empty_ok, where now = ex_now and ios = "[]" and
      x = "new_item Metering ex_now ''b'' ''xy'' 1"])
  show "q_kind (ex_empty Metering ex_policy) \<noteq> Telemetry" by (simp add: ex_empty_def kind_defs)
  show "Enqueue ex_hash ex_now [] ''b'' ''xy'' (ex_empty Metering ex_policy) =
    (Inr (new_item Metering ex_now ''b'' ''xy'' 1, True),
     snd (Enqueue ex_hash ex_now [] ''b'' ''xy'' (ex_empty Metering ex_policy)))"
    by (simp add: ex_queue_eval)
  show "\<not> list_ex (removes ''b'') [NackOp [IoLate] ''b'' ex_now ''timeout'', EnqueueOp ex_now [IoFail] ''c'' ''z'']"
    by simp
  show "unat (next_seq (q_stats (ex_empty Metering ex_policy))) +
      length [NackOp [IoLate] ''b'' ex_now ''timeout'', EnqueueOp ex_now [IoFail] ''c'' ''z''] + 1 < 2 ^ 64"
    by (simp add: ex_empty_def zero_stats_def)
qed

text \<open>
  C35: Every run of queue operations, with any of their file operations failing, keeps the
  queue's invariant: batch IDs and sequence numbers are unique, sequences are positive and at
  most the last one handed out, and the pending counters equal the number and the total size of
  the pending records.
\<close>

theorem queue_invariant_preserved:
  assumes "queue_ok q" "unat (next_seq (q_stats q)) + length as < 2 ^ 64"
  shows "queue_ok (q_run h as q)"
  using assms by (rule q_run_ok)

theorem queue_invariant_preserved_witness:
  "queue_ok (q_run ex_hash [EnqueueOp ex_now [IoLate] ''b'' ''xy'', AckOp [IoFail] ''b'']
     (ex_empty Telemetry ex_policy))"
  using queue_invariant_preserved [OF ex_empty_ok, of Telemetry ex_policy
      "[EnqueueOp ex_now [IoLate] ''b'' ''xy'', AckOp [IoFail] ''b'']" ex_hash]
  by (simp add: ex_empty_def zero_stats_def)

text \<open>
  A batch is stored only within the limits: after a successful \<open>Enqueue\<close> the number of
  pending records and their total size are at most the policy's non-zero limits.
\<close>

theorem capacity_respected:
  assumes "queue_ok q" "next_seq (q_stats q) \<noteq> - 1" "Enqueue h now ios b p q = (Inr (x, True), q')"
  shows "(0 < max_items (q_policy q) \<longrightarrow> int (length (q_items q')) \<le> max_items (q_policy q)) \<and>
    (0 < max_bytes (q_policy q) \<longrightarrow> total_bytes (q_items q') \<le> max_bytes (q_policy q))"
proof -
  have b: "\<not> is_blank b" "p \<noteq> []" "lookup_item b (q_items q) = None"
    using assms(3) by (auto simp: Enqueue_def split: if_splits option.splits)
  have "queue_ok q'" using Enqueue_ok [OF assms(1,2), of h now ios b p] assms(3) by simp
  then have c: "int (length (q_items q')) = pending_items (q_stats q')"
    "total_bytes (q_items q') = pending_bytes (q_stats q')" by (simp_all add: queue_ok_def)
  from assms(1,3) b show ?thesis
  proof (cases rule: Enqueue_fresh)
    case (written q1 y)
    have "pending_items (q_stats q') = pending_items (q_stats q1) + 1"
      "pending_bytes (q_stats q') = pending_bytes (q_stats q1) + int (length p)"
      "q_policy q1 = q_policy q"
      using written(1,2,6) by (simp_all add: stored_def evicted_def same_cfg_def)
    then show ?thesis using written(4) unfolding c over_def by auto
  qed simp_all
qed

theorem capacity_respected_witness:
  "int (length (q_items (snd (Enqueue ex_hash ex_now [] ''b'' ''xy'' (ex_empty Metering ex_policy))))) \<le> 2"
proof -
  have "Enqueue ex_hash ex_now [] ''b'' ''xy'' (ex_empty Metering ex_policy) =
    (Inr (new_item Metering ex_now ''b'' ''xy'' 1, True),
     snd (Enqueue ex_hash ex_now [] ''b'' ''xy'' (ex_empty Metering ex_policy)))"
    by (simp add: ex_queue_eval)
  from capacity_respected [OF ex_empty_ok _ this] show ?thesis
    by (simp add: ex_empty_def zero_stats_def ex_policy_def)
qed

text \<open>
  An \<open>Enqueue\<close> never removes a record from a metering or audit queue, and from a telemetry
  queue it evicts oldest first: every record it drops has a smaller sequence number than every
  record that remains.
\<close>

theorem eviction_oldest_first:
  assumes "queue_ok q" "next_seq (q_stats q) \<noteq> - 1" "Enqueue h now ios b p q = (r, q')"
  shows "(q_kind q \<noteq> Telemetry \<longrightarrow> set (q_items q) \<subseteq> set (q_items q')) \<and>
    (\<forall>x \<in> set (q_items q) - set (q_items q'). \<forall>y \<in> set (q_items q'). it_seq x < it_seq y)"
proof (cases "is_blank b \<or> p = [] \<or> lookup_item b (q_items q) \<noteq> None")
  case True
  then have "q' = q" using assms(3) by (auto simp: Enqueue_def split: if_splits)
  then show ?thesis by simp
next
  case False
  then have b: "\<not> is_blank b" "p \<noteq> []" "lookup_item b (q_items q) = None" by auto
  from assms(1,3) b show ?thesis
  proof (cases rule: Enqueue_fresh)
    case full
    then show ?thesis by (auto simp: evicted_def)
  next
    case unwritten
    then show ?thesis by (auto simp: evicted_def unstored_def)
  next
    case (written q1 x)
    have new: "it_seq y < it_seq x" if "y \<in> set (q_items q)" for y
      using that assms(1) written(1) u64_fresh_Suc [OF assms(2)] by (auto simp: queue_ok_def)
    have "b \<notin> it_batch ` set (q_items q1)"
      using written(2) b(3) by (auto simp: evicted_def lookup_item_None)
    then have "set (q_items q') = insert x (set (q_items q1))"
      using written(1,6) by (simp add: stored_def put_item_def delete_item_absent)
    then show ?thesis using written(2,3) new by (auto simp: evicted_def)
  qed
qed

theorem eviction_oldest_first_witness:
  "set (q_items (ex_empty Audit ex_policy)) \<subseteq>
     set (q_items (snd (Enqueue ex_hash ex_now [] ''b'' ''xy'' (ex_empty Audit ex_policy))))"
  using eviction_oldest_first [OF ex_empty_ok, of Audit ex_policy ex_hash ex_now "[]" "''b''" "''xy''"
      "fst (Enqueue ex_hash ex_now [] ''b'' ''xy'' (ex_empty Audit ex_policy))"
      "snd (Enqueue ex_hash ex_now [] ''b'' ''xy'' (ex_empty Audit ex_policy))"]
  by (simp add: ex_empty_def zero_stats_def)

text \<open>
  \<open>Next\<close> hands out the due record with the smallest sequence number, whatever the order
  in which the item map is enumerated, and nothing exactly when no record is due.
\<close>

theorem next_is_oldest_due:
  "case Next now q of
     None \<Rightarrow> filter (due now) (q_items q) = []
   | Some x \<Rightarrow> x \<in> set (filter (due now) (q_items q)) \<and>
       list_all (\<lambda>y. it_seq x \<le> it_seq y) (filter (due now) (q_items q))"
  using Next_spec [where now = now and q = q]
  by (auto simp: list_all_iff filter_empty_conv split: option.splits)

text \<open>
  C30: After any fault-free run on a metering, telemetry or audit queue of batches with valid UTF-8
  IDs, a restart rebuilds it: \<open>Open\<close> succeeds on the directory that is left and yields the same
  pending counters, the same sequence counter and the same pending records, except that in a record's error
  text the bytes that are not valid UTF-8 (the text is cut at 512 bytes) have become U+FFFD.
\<close>

theorem restart_recovers_pending:
  assumes "consistent h q" "list_all clean as" "unat (next_seq (q_stats q)) + length as < 2 ^ 64"
    and "root \<noteq> []" "dest \<noteq> []" "CHR ''/'' \<notin> set dest" "dest \<noteq> ''.''" "dest \<noteq> ''..''"
    and "kind_valid k" "k \<noteq> Telemetry \<longrightarrow> \<not> drop_oldest pol"
  shows "\<exists>q'. Open root dest k pol [] (q_run h as q) = Inr q' \<and>
    set (q_items q') = (\<lambda>x. x\<lparr>it_error := json_text (it_error x)\<rparr>) ` set (q_items (q_run h as q)) \<and>
    pending_items (q_stats q') = pending_items (q_stats (q_run h as q)) \<and>
    pending_bytes (q_stats q') = pending_bytes (q_stats (q_run h as q)) \<and>
    next_seq (q_stats q') = next_seq (q_stats (q_run h as q)) \<and> consistent h q'"
proof -
  have c: "consistent h (q_run h as q)" using assms(1-3) by (rule q_run_consistent)
  have "item_json x = x\<lparr>it_error := json_text (it_error x)\<rparr>" if "x \<in> set (q_items (q_run h as q))" for x
    using c that by (simp add: consistent_def valid_names_def item_json_def)
  then have items: "(\<lambda>x. x\<lparr>it_error := json_text (it_error x)\<rparr>) ` set (q_items (q_run h as q)) = item_json ` set (q_items (q_run h as q))"
    by (simp cong: image_cong)
  have "k = Metering \<or> k = Audit \<Longrightarrow> k \<noteq> Telemetry" by (auto simp: kind_defs)
  then have "Open root dest k pol [] (q_run h as q) =
      load [] ((q_run h as q)\<lparr>q_kind := k, q_policy := pol, q_items := [], q_stats := zero_stats\<rparr>)"
    using assms(4-10) by (auto simp: Open_def)
  with load_recovers [OF c, of "[]" "(q_run h as q)\<lparr>q_kind := k, q_policy := pol, q_items := [], q_stats := zero_stats\<rparr>"]
  show ?thesis unfolding items by auto
qed

lemma ex_retried:
  "it_error ` set (q_items (q_run ex_hash [EnqueueOp ex_now [] ''b'' ''xy'', NackOp [] ''b'' ex_now [CHR 0xFF]]
     (ex_empty Metering ex_policy))) = {[CHR 0xFF]}"
  by (simp add: ex_queue_eval Nack_def truncate_text_def)

lemma ex_cut_text: "json_text [CHR 0xFF] = rune_error"
  by (simp add: json_text_runes rune_width_def lead_len_def between_def code_of_def rune_bytes_def Let_def)

theorem restart_recovers_pending_witness:
  "\<exists>q'. Open ''/var'' ''site'' Metering ex_policy []
      (q_run ex_hash [EnqueueOp ex_now [] ''b'' ''xy'', NackOp [] ''b'' ex_now [CHR 0xFF]] (ex_empty Metering ex_policy)) = Inr q' \<and>
    it_error ` set (q_items q') = {rune_error} \<and> consistent ex_hash q'"
proof -
  let ?as = "[EnqueueOp ex_now [] ''b'' ''xy'', NackOp [] ''b'' ex_now [CHR 0xFF]]"
  have "\<exists>q'. Open ''/var'' ''site'' Metering ex_policy [] (q_run ex_hash ?as (ex_empty Metering ex_policy)) = Inr q' \<and>
      set (q_items q') = (\<lambda>x. x\<lparr>it_error := json_text (it_error x)\<rparr>) ` set (q_items (q_run ex_hash ?as (ex_empty Metering ex_policy))) \<and>
      pending_items (q_stats q') = pending_items (q_stats (q_run ex_hash ?as (ex_empty Metering ex_policy))) \<and>
      pending_bytes (q_stats q') = pending_bytes (q_stats (q_run ex_hash ?as (ex_empty Metering ex_policy))) \<and>
      next_seq (q_stats q') = next_seq (q_stats (q_run ex_hash ?as (ex_empty Metering ex_policy))) \<and> consistent ex_hash q'"
    by (rule restart_recovers_pending [OF ex_empty_consistent])
      (simp_all add: ex_name_valid ex_empty_def zero_stats_def kind_valid_def ex_policy_def)
  then obtain q' where q': "Open ''/var'' ''site'' Metering ex_policy [] (q_run ex_hash ?as (ex_empty Metering ex_policy)) = Inr q'"
      "set (q_items q') = (\<lambda>x. x\<lparr>it_error := json_text (it_error x)\<rparr>) ` set (q_items (q_run ex_hash ?as (ex_empty Metering ex_policy)))"
      "consistent ex_hash q'" by blast
  have "it_error ` set (q_items q') = json_text ` it_error ` set (q_items (q_run ex_hash ?as (ex_empty Metering ex_policy)))"
    unfolding q'(2) by (simp add: image_image)
  also have "\<dots> = {rune_error}" unfolding ex_retried by (simp add: ex_cut_text)
  finally show ?thesis using q'(1,3) by blast
qed

subsection \<open>Two defects\<close>

lemma total_bytes_nonneg: "0 \<le> total_bytes xs"
  by (induction xs) (auto simp: total_bytes_def psize_def)

lemma evict_oversize:
  assumes "queue_ok q" "agree h q" "set ios \<subseteq> {IoOk}" "0 < max_bytes (q_policy q)"
    and "max_bytes (q_policy q) < n"
  shows "\<exists>ios' q'. evict h n ios q = (Some ErrCapacity, ios', q') \<and> q_items q' = [] \<and>
    q_stats_file q' = q_stats_file q"
  using assms
proof (induction h n ios q rule: evict.induct)
  case (1 h n ios q)
  have ov: "over q n"
    using "1.prems" total_bytes_nonneg [of "q_items q"] by (auto simp: over_def queue_ok_def)
  show ?case
  proof (cases "oldest q")
    case None
    then show ?thesis using ov oldest_None [of q] by (simp add: evict.simps [of h n ios q])
  next
    case (Some x)
    note x = oldest_mem [OF Some]
    obtain ios1 where io: "take_io ios = (IoOk, ios1)" "set ios1 \<subseteq> {IoOk}"
      using take_io_clean [OF "1.prems"(3)] .
    have rm: "dir_remove IoOk (itemPath h x) (q_wal q) = (Removed, dir_del (itemPath h x) (q_wal q))"
      using agree_file [OF "1.prems"(2) x] by (simp add: dir_remove_def)
    have "agree h (drop_item h x q)"
      by (rule agree_remove [OF "1.prems"(1,2) x]) (simp_all add: drop_item_frame)
    moreover have "q_stats_file (drop_item h x q) = q_stats_file q" "q_policy (drop_item h x q) = q_policy q"
      by (simp_all add: drop_item_def)
    moreover have "evict h n ios q = evict h n ios1 (drop_item h x q)"
      using ov Some io rm by (simp add: evict.simps [of h n ios q])
    ultimately show ?thesis
      using "1.IH" [OF _ Some io(1) [symmetric] refl rm [symmetric]] ov io rm
        drop_item_ok [OF "1.prems"(1) x] "1.prems"(4,5)
      by simp
  qed
qed

text \<open>
  C36: A telemetry payload larger than \<open>MaxBytes\<close> can never fit, yet \<open>Enqueue\<close> first evicts
  every pending record, then refuses the payload with \<open>ErrCapacity\<close>, and leaves the drop
  counters unpersisted although the code says it persists them.
\<close>

theorem oversize_payload_empties_queue:
  assumes "queue_ok q" "agree h q" "q_kind q = Telemetry" "drop_oldest (q_policy q)"
    and "0 < max_bytes (q_policy q)" "max_bytes (q_policy q) < int (length p)"
    and "\<not> is_blank b" "lookup_item b (q_items q) = None"
  shows "\<exists>q'. Enqueue h now [] b p q = (Inl ErrCapacity, q') \<and> q_items q' = [] \<and>
    q_stats_file q' = q_stats_file q"
proof -
  have p: "p \<noteq> []" using assms(5,6) by auto
  obtain ios' q' where ev: "evict h (int (length p)) [] q = (Some ErrCapacity, ios', q')"
    "q_items q' = []" "q_stats_file q' = q_stats_file q"
    using evict_oversize [OF assms(1,2) _ assms(5,6), of "[]"] by auto
  have "over q (int (length p))"
    using assms(1,5,6) total_bytes_nonneg [of "q_items q"] by (auto simp: over_def queue_ok_def)
  then have "makeCapacity h (int (length p)) [] q = (Some ErrCapacity, ios', q')"
    using assms(3,4) ev by (simp add: makeCapacity_def)
  then show ?thesis using assms(7,8) p ev by (simp add: Enqueue_def)
qed

definition ex_telemetry :: queue where
  "ex_telemetry = snd (Enqueue ex_hash ex_now [] ''b'' ''xy'' (ex_empty Telemetry (ex_policy\<lparr>drop_oldest := True\<rparr>)))"

theorem oversize_payload_empties_queue_witness:
  "map it_batch (q_items ex_telemetry) = [''b''] \<and>
   q_items (snd (Enqueue ex_hash ex_now [] ''c'' ''0123456789a'' ex_telemetry)) = []"
proof -
  have c: "consistent ex_hash ex_telemetry"
    unfolding ex_telemetry_def
    by (rule Enqueue_consistent [OF ex_empty_consistent]) (simp_all add: ex_empty_def zero_stats_def ex_name_valid)
  have "map it_batch (q_items ex_telemetry) = [''b'']" by (simp add: ex_telemetry_def ex_queue_eval)
  moreover have "q_kind ex_telemetry = Telemetry" "drop_oldest (q_policy ex_telemetry)"
    "max_bytes (q_policy ex_telemetry) = 10" "lookup_item ''c'' (q_items ex_telemetry) = None"
    by (simp_all add: ex_telemetry_def ex_queue_eval)
  ultimately show ?thesis
    using c oversize_payload_empties_queue [of ex_telemetry ex_hash "''0123456789a''" "''c''" ex_now]
    by (auto simp: consistent_def not_is_blank_head code_of_def)
qed

end
