(* ===== verification/Run_State.thy ===== *)
theory Run_State
  imports Durable_File Go_Text
begin

section \<open>Wire sequences that survive restarts (\<open>internal/runstate/state.go\<close>)\<close>

text \<open>
  Three independent 64-bit sequence counters and the identifier of the current boot, kept in
  one JSON document.  A process is the document in memory; the file survives it.  Every call
  takes the outcomes of its file operations: creating the private directory and the atomic
  write.
\<close>

record run_doc =
  rd_version :: int
  rd_boot :: string
  rd_website :: u64
  rd_monitoring :: u64
  rd_audit :: u64

datatype rs_error = RsInvalid | RsCorrupt | RsIO | RsExhausted | RsNoID

definition rs_version :: int where
  "rs_version = 1"

type_synonym rs_disk = "run_doc option option"

definition rs_persist :: "io list \<Rightarrow> run_doc \<Rightarrow> rs_disk \<Rightarrow> bool \<times> rs_disk" where
  "rs_persist ios d disk =
     (let (r1, ios1) = take_io ios; (r2, ios2) = take_io ios1 in
      if r1 \<noteq> IoOk then (False, disk)
      else (case r2 of IoOk \<Rightarrow> (True, Some (Some d)) | IoFail \<Rightarrow> (False, disk)
              | IoLate \<Rightarrow> (False, Some (Some d))))"

text \<open>\<open>Open\<close>: the document, or the error, and the file afterwards.  The root directory itself is no
  file name; reading an existing file may fail.\<close>

definition rs_Open :: "string \<Rightarrow> io list \<Rightarrow> id_supply \<Rightarrow> rs_disk \<Rightarrow> (rs_error + run_doc) \<times> rs_disk" where
  "rs_Open filename ios ids disk =
     (if filename = [] \<or> clean_is_root filename then (Inl RsInvalid, disk)
      else let (r0, ios0) = take_io ios in
      if r0 \<noteq> IoOk then (Inl RsIO, disk)
      else
        (case (case disk of
             None \<Rightarrow> Inr \<lparr>rd_version = rs_version, rd_boot = '''', rd_website = 0, rd_monitoring = 0, rd_audit = 0\<rparr>
           | Some None \<Rightarrow> Inl RsCorrupt
           | Some (Some d) \<Rightarrow> if rd_version d \<noteq> rs_version then Inl RsCorrupt else Inr d) of
           Inl e \<Rightarrow> (Inl e, disk)
         | Inr d \<Rightarrow>
             (case fst (take_id ids) of
                None \<Rightarrow> (Inl RsNoID, disk)
              | Some boot \<Rightarrow>
                  (let d' = d\<lparr>rd_boot := boot\<rparr>; (ok, disk') = rs_persist ios0 d' disk
                   in (if ok then Inr d' else Inl RsIO, disk')))))"

text \<open>
  The three \<open>Next\<close> methods differ in the field they advance: exhausted at the largest value,
  advanced, persisted, and taken back when persisting failed.
\<close>

definition NextWebsite :: "io list \<Rightarrow> run_doc \<Rightarrow> rs_disk \<Rightarrow> (rs_error + u64) \<times> run_doc \<times> rs_disk" where
  "NextWebsite ios d disk =
     (if rd_website d = - 1 then (Inl RsExhausted, d, disk)
      else let d' = d\<lparr>rd_website := rd_website d + 1\<rparr>; (ok, disk') = rs_persist ios d' disk in
      if ok then (Inr (rd_website d'), d', disk')
      else (Inl RsIO, d'\<lparr>rd_website := rd_website d' - 1\<rparr>, disk'))"

definition NextMonitoring :: "io list \<Rightarrow> run_doc \<Rightarrow> rs_disk \<Rightarrow> (rs_error + u64) \<times> run_doc \<times> rs_disk" where
  "NextMonitoring ios d disk =
     (if rd_monitoring d = - 1 then (Inl RsExhausted, d, disk)
      else let d' = d\<lparr>rd_monitoring := rd_monitoring d + 1\<rparr>; (ok, disk') = rs_persist ios d' disk in
      if ok then (Inr (rd_monitoring d'), d', disk')
      else (Inl RsIO, d'\<lparr>rd_monitoring := rd_monitoring d' - 1\<rparr>, disk'))"

definition NextMonitoringAudit :: "io list \<Rightarrow> run_doc \<Rightarrow> rs_disk \<Rightarrow> (rs_error + u64) \<times> run_doc \<times> rs_disk" where
  "NextMonitoringAudit ios d disk =
     (if rd_audit d = - 1 then (Inl RsExhausted, d, disk)
      else let d' = d\<lparr>rd_audit := rd_audit d + 1\<rparr>; (ok, disk') = rs_persist ios d' disk in
      if ok then (Inr (rd_audit d'), d', disk')
      else (Inl RsIO, d'\<lparr>rd_audit := rd_audit d' - 1\<rparr>, disk'))"

subsection \<open>Runs with restarts\<close>

datatype stream = Website | Monitoring | MonitoringAudit

datatype rs_op = Restart "io list" id_supply | Call stream "io list"

record rs_sys =
  sys_mem :: "run_doc option"
  sys_disk :: rs_disk

fun next_of :: "stream \<Rightarrow> io list \<Rightarrow> run_doc \<Rightarrow> rs_disk \<Rightarrow> (rs_error + u64) \<times> run_doc \<times> rs_disk" where
  "next_of Website = NextWebsite"
| "next_of Monitoring = NextMonitoring"
| "next_of MonitoringAudit = NextMonitoringAudit"

text \<open>A step and the sequence number it handed out, if any.  \<open>Restart\<close> may follow a crash at any time.\<close>

fun rs_step :: "string \<Rightarrow> rs_op \<Rightarrow> rs_sys \<Rightarrow> (stream \<times> u64) list \<times> rs_sys" where
  "rs_step fn (Restart ios ids) s =
     (let (r, disk) = rs_Open fn ios ids (sys_disk s)
      in ([], \<lparr>sys_mem = (case r of Inl _ \<Rightarrow> None | Inr d \<Rightarrow> Some d), sys_disk = disk\<rparr>))"
| "rs_step fn (Call st ios) s =
     (case sys_mem s of
        None \<Rightarrow> ([], s)
      | Some d \<Rightarrow>
          (let (r, d', disk) = next_of st ios d (sys_disk s)
           in (case r of Inl _ \<Rightarrow> [] | Inr v \<Rightarrow> [(st, v)], \<lparr>sys_mem = Some d', sys_disk = disk\<rparr>)))"

fun rs_run :: "string \<Rightarrow> rs_op list \<Rightarrow> rs_sys \<Rightarrow> (stream \<times> u64) list \<times> rs_sys" where
  "rs_run fn [] s = ([], s)"
| "rs_run fn (a # as) s =
     (let (out, s1) = rs_step fn a s; (outs, s2) = rs_run fn as s1 in (out @ outs, s2))"

definition issued :: "stream \<Rightarrow> (stream \<times> u64) list \<Rightarrow> u64 list" where
  "issued st out = map snd (filter (\<lambda>x. fst x = st) out)"

subsection \<open>The counters\<close>

fun level :: "stream \<Rightarrow> run_doc \<Rightarrow> u64" where
  "level Website d = rd_website d"
| "level Monitoring d = rd_monitoring d"
| "level MonitoringAudit d = rd_audit d"

text \<open>What the three methods promise: the contract of one durable counter.\<close>

locale wire_counter =
  fixes nxt :: "io list \<Rightarrow> run_doc \<Rightarrow> rs_disk \<Rightarrow> (rs_error + u64) \<times> run_doc \<times> rs_disk"
    and lev :: "run_doc \<Rightarrow> u64"
    and adv :: "u64 \<Rightarrow> run_doc \<Rightarrow> run_doc"
  assumes nxt_def: "nxt ios d disk =
      (if lev d = - 1 then (Inl RsExhausted, d, disk)
       else let d' = adv (lev d + 1) d; (ok, disk') = rs_persist ios d' disk in
       if ok then (Inr (lev d'), d', disk') else (Inl RsIO, adv (lev d' - 1) d', disk'))"
    and lev_adv: "lev (adv v d) = v"
    and adv_adv: "adv v (adv w d) = adv v d"
    and adv_lev: "adv (lev d) d = d"
begin

lemma nxt_ok:
  assumes "nxt ios d disk = (Inr v, d', disk')"
  shows "lev d \<noteq> - 1 \<and> v = lev d + 1 \<and> d' = adv v d \<and> disk' = Some (Some d')"
  using assms
  by (auto simp: nxt_def lev_adv Let_def rs_persist_def split: if_splits prod.splits io.splits)

lemma nxt_error:
  assumes "nxt ios d disk = (Inl e, d', disk')"
  shows "d' = d \<and> (disk' = disk \<or> lev d \<noteq> - 1 \<and> disk' = Some (Some (adv (lev d + 1) d)))"
  using assms
  by (auto simp: nxt_def lev_adv adv_adv adv_lev Let_def rs_persist_def
      split: if_splits prod.splits io.splits)

end

interpretation web: wire_counter NextWebsite rd_website "\<lambda>v d. d\<lparr>rd_website := v\<rparr>"
  by unfold_locales (auto simp: NextWebsite_def)

interpretation mon: wire_counter NextMonitoring rd_monitoring "\<lambda>v d. d\<lparr>rd_monitoring := v\<rparr>"
  by unfold_locales (auto simp: NextMonitoring_def)

interpretation aud: wire_counter NextMonitoringAudit rd_audit "\<lambda>v d. d\<lparr>rd_audit := v\<rparr>"
  by unfold_locales (auto simp: NextMonitoringAudit_def)

lemmas next_ok_cases = web.nxt_ok mon.nxt_ok aud.nxt_ok
lemmas next_error_cases = web.nxt_error mon.nxt_error aud.nxt_error

lemma u64_Suc_le: "(w :: u64) \<noteq> - 1 \<Longrightarrow> w \<le> w + 1 \<and> w < w + 1"
  using unat_Suc_u64 [of w] by (auto simp: word_less_nat_alt word_le_nat_alt)

lemma level_update:
  "level st (d\<lparr>rd_website := v\<rparr>) = (if st = Website then v else level st d)"
  "level st (d\<lparr>rd_monitoring := v\<rparr>) = (if st = Monitoring then v else level st d)"
  "level st (d\<lparr>rd_audit := v\<rparr>) = (if st = MonitoringAudit then v else level st d)"
  by (cases st; simp)+

lemma next_of_ok:
  assumes "next_of st ios d disk = (Inr v, d', disk')"
  shows "level st d < v \<and> level st d' = v \<and> disk' = Some (Some d') \<and>
    (\<forall>st'. st' \<noteq> st \<longrightarrow> level st' d' = level st' d) \<and> rd_version d' = rd_version d"
  using assms by (cases st) (auto dest!: next_ok_cases simp: u64_Suc_le level_update)

lemma next_of_error:
  assumes "next_of st ios d disk = (Inl e, d', disk')"
  shows "d' = d \<and> (disk' = disk \<or> (\<exists>d2. disk' = Some (Some d2) \<and> rd_version d2 = rd_version d \<and>
    (\<forall>st'. level st' d \<le> level st' d2)))"
  using assms
  by (cases st) (auto dest!: next_error_cases simp: u64_Suc_le level_update)

text \<open>
  A lower bound for everything still to be handed out on a stream: the document in memory has
  reached it, and so has the file a restart would read.
\<close>

definition reached :: "stream \<Rightarrow> u64 \<Rightarrow> rs_sys \<Rightarrow> bool" where
  "reached st n s \<longleftrightarrow>
     (case sys_mem s of None \<Rightarrow> True | Some d \<Rightarrow> n \<le> level st d) \<and>
     (case sys_disk s of Some (Some d) \<Rightarrow> n \<le> level st d | Some None \<Rightarrow> True | None \<Rightarrow> n = 0)"

lemma persist_disk:
  "rs_persist ios d disk = (ok, disk') \<Longrightarrow> disk' = disk \<and> \<not> ok \<or> disk' = Some (Some d)"
  by (auto simp: rs_persist_def Let_def split: prod.splits if_splits io.splits)

lemma open_reached:
  assumes "reached st n s" "rs_Open fn ios ids (sys_disk s) = (r, disk)"
  shows "reached st n \<lparr>sys_mem = (case r of Inl _ \<Rightarrow> None | Inr d \<Rightarrow> Some d), sys_disk = disk\<rparr>"
  using assms
  by (cases st)
     (auto simp: reached_def rs_Open_def Let_def split: prod.splits if_splits option.splits sum.splits
       dest!: persist_disk)

lemma step_reached:
  assumes "reached st n s" "rs_step fn a s = (out, s')"
  shows "issued st out = [] \<and> reached st n s' \<or>
    (\<exists>v. issued st out = [v] \<and> n < v \<and> reached st v s')"
proof (cases a)
  case (Restart ios ids)
  then show ?thesis using assms open_reached [OF assms(1)] by (auto simp: issued_def split: prod.splits)
next
  case (Call st' ios)
  show ?thesis
  proof (cases "sys_mem s")
    case None
    then show ?thesis using assms Call by (auto simp: issued_def)
  next
    case (Some d)
    obtain r d' disk where n: "next_of st' ios d (sys_disk s) = (r, d', disk)" by (metis prod_cases3)
    show ?thesis
    proof (cases r)
      case (Inr v)
      then show ?thesis
        using assms Call Some n next_of_ok [of st' ios d "sys_disk s" v d' disk]
        by (cases "st' = st") (auto simp: issued_def reached_def)
    next
      case (Inl e)
      then show ?thesis
        using assms Call Some n next_of_error [of st' ios d "sys_disk s" e d' disk]
        by (auto simp: issued_def reached_def) (meson order_trans)
    qed
  qed
qed

lemma run_reached:
  assumes "reached st n s" "rs_run fn as s = (outs, s')"
  shows "sorted_wrt (<) (issued st outs) \<and> list_all (\<lambda>v. n < v) (issued st outs)"
  using assms
proof (induction as arbitrary: s n outs)
  case Nil
  then show ?case by (simp add: issued_def)
next
  case (Cons a as)
  obtain out s1 where st: "rs_step fn a s = (out, s1)" by fastforce
  obtain outs' where rest: "rs_run fn as s1 = (outs', s')" and outs: "outs = out @ outs'"
    using Cons.prems(2) st by (auto split: prod.splits)
  have app: "issued st outs = issued st out @ issued st outs'" by (simp add: outs issued_def)
  from step_reached [OF Cons.prems(1) st] show ?case
  proof
    assume "issued st out = [] \<and> reached st n s1"
    then show ?thesis using Cons.IH [of n s1 outs'] rest app by auto
  next
    assume "\<exists>v. issued st out = [v] \<and> n < v \<and> reached st v s1"
    then obtain v where v: "issued st out = [v]" "n < v" "reached st v s1" by blast
    then show ?thesis using Cons.IH [OF v(3) rest] app by (auto simp: list_all_iff)
  qed
qed

subsection \<open>Properties\<close>

text \<open>
  C31: Over any run with process restarts and failing writes, the sequence numbers handed out on
  each of the three streams are strictly increasing; in particular none is ever used twice.
\<close>

theorem wire_sequences_increase:
  "sorted_wrt (<) (issued st (fst (rs_run fn as \<lparr>sys_mem = None, sys_disk = disk\<rparr>)))"
proof -
  have "reached st 0 \<lparr>sys_mem = None, sys_disk = disk\<rparr>"
    by (auto simp: reached_def split: option.splits)
  then show ?thesis using run_reached [where n = 0] by (metis fst_conv surj_pair)
qed

text \<open>
  A counter at its largest value is refused instead of wrapping to zero, and a call that
  could not persist leaves the counter in memory where it was.
\<close>

theorem wire_sequence_never_wraps:
  assumes "next_of st ios d disk = (r, d', disk')"
  shows "(level st d = - 1 \<longrightarrow> r = Inl RsExhausted \<and> d' = d \<and> disk' = disk) \<and>
    (\<forall>v. r = Inr v \<longrightarrow> unat v = unat (level st d) + 1) \<and> (\<forall>e. r = Inl e \<longrightarrow> d' = d)"
proof -
  have "level st d = - 1 \<Longrightarrow> r = Inl RsExhausted \<and> d' = d \<and> disk' = disk"
    using assms by (cases st) (auto simp: NextWebsite_def NextMonitoring_def NextMonitoringAudit_def)
  moreover have "unat v = unat (level st d) + 1" if "r = Inr v" for v
    using assms that by (cases st) (auto dest!: next_ok_cases simp: unat_Suc_u64)
  ultimately show ?thesis using assms next_of_error by blast
qed

theorem wire_sequence_never_wraps_witness:
  "next_of Website [IoOk, IoFail]
     \<lparr>rd_version = 1, rd_boot = ''b'', rd_website = 7, rd_monitoring = 0, rd_audit = 0\<rparr> None =
   (Inl RsIO, \<lparr>rd_version = 1, rd_boot = ''b'', rd_website = 7, rd_monitoring = 0, rd_audit = 0\<rparr>, None)"
proof -
  let ?d = "\<lparr>rd_version = 1, rd_boot = ''b'', rd_website = 7, rd_monitoring = 0, rd_audit = 0 :: u64\<rparr>"
  obtain r d' disk' where n: "next_of Website [IoOk, IoFail] ?d None = (r, d', disk')"
    by (metis prod_cases3)
  then have "r = Inl RsIO" "disk' = None" by (auto simp: NextWebsite_def rs_persist_def)
  with wire_sequence_never_wraps [OF n] n show ?thesis by simp
qed

end
