(* ===== verification/Lifecycle.thy ===== *)
theory Lifecycle
  imports Durable_File
begin

section \<open>Process sessions and unclean exits (\<open>internal/lifecycle/state.go\<close>)\<close>

text \<open>
  One JSON document records whether the current process session ended cleanly.  A session that
  begins while the document still says \<open>running\<close> adds an incident, which is kept until both
  telemetry domains have queued it.  The file is represented by its length in bytes and the
  value the strict decoder reads from it (\<open>None\<close> when it rejects the bytes); the length that
  \<open>json.Marshal\<close> produces is computed, because the code limits it.
\<close>

definition lc_version :: int where
  "lc_version = 1"

definition maximumBytes :: nat where
  "maximumBytes = 1048576"

definition maximumEvents :: nat where
  "maximumEvents = 4096"

definition DomainWebsite :: string where
  "DomainWebsite = ''website''"

definition DomainMonitor :: string where
  "DomainMonitor = ''monitoring''"

record incident =
  EventID :: string
  PreviousBootID :: string
  PreviousStartedAt :: gotime
  ObservedAt :: gotime
  WebsiteQueued :: bool
  MonitoringQueued :: bool

record lc_doc =
  lc_Version :: int
  lc_State :: string
  lc_BootID :: string
  lc_StartedAt :: gotime
  lc_CleanExitAt :: "gotime option"
  lc_Pending :: "incident list"

datatype lc_error = LcIdentity | LcIO | LcUnsafe | LcTooLarge | LcInvalid | LcBacklog | LcNoID
  | LcEncode | LcDomain

type_synonym lc_disk = "(nat \<times> lc_doc option) option"

definition validUTC :: "gotime \<Rightarrow> bool" where
  "validUTC t \<longleftrightarrow> \<not> is_zero_time t \<and> zone_offset (location t) = 0"

definition valid_incident :: "incident \<Rightarrow> bool" where
  "valid_incident i \<longleftrightarrow> uuidRE (EventID i) \<and> uuidRE (PreviousBootID i) \<and>
     validUTC (PreviousStartedAt i) \<and> validUTC (ObservedAt i)"

fun valid_incidents :: "string list \<Rightarrow> incident list \<Rightarrow> bool" where
  "valid_incidents seen [] = True"
| "valid_incidents seen (i # is) =
     (valid_incident i \<and> EventID i \<notin> set seen \<and> valid_incidents (EventID i # seen) is)"

definition lc_validate :: "lc_doc \<Rightarrow> bool" where
  "lc_validate d \<longleftrightarrow>
     lc_Version d = lc_version \<and> (lc_State d = ''running'' \<or> lc_State d = ''clean'') \<and>
     uuidRE (lc_BootID d) \<and> validUTC (lc_StartedAt d) \<and> length (lc_Pending d) \<le> maximumEvents \<and>
     (lc_State d = ''running'' \<longrightarrow> lc_CleanExitAt d = None) \<and>
     (lc_State d = ''clean'' \<longrightarrow>
        (case lc_CleanExitAt d of None \<Rightarrow> False
         | Some t \<Rightarrow> validUTC t \<and> \<not> before t (lc_StartedAt d))) \<and>
     valid_incidents [] (lc_Pending d)"

subsection \<open>The length of the encoded document\<close>

text \<open>
  \<open>Time.MarshalJSON\<close> writes RFC 3339 with nanoseconds, trailing zeros of the fraction removed,
  and refuses years outside 0 to 9999; its length below counts the quotes.  The field names
  and punctuation of an incident take 106 bytes, those of the document 62, and \<open>cleanExitAt\<close>
  adds 15.  Identifiers and states need no escapes once \<open>validate\<close> accepted them.
\<close>

definition year_0 :: int where
  "year_0 = - 366 * 86400 * second"

definition year_10000 :: int where
  "year_10000 = 3652059 * 86400 * second"

fun fraction_digits :: "nat \<Rightarrow> int \<Rightarrow> nat" where
  "fraction_digits 0 n = 0"
| "fraction_digits (Suc k) n = (if n mod 10 = 0 then fraction_digits k (n div 10) else Suc k)"

definition time_len :: "gotime \<Rightarrow> nat option" where
  "time_len t =
     (let wall = instant t + zone_offset (location t) * second; ns = instant t mod second in
      if wall < year_0 \<or> year_10000 \<le> wall then None
      else Some (21 + (if ns = 0 then 0 else 1 + fraction_digits 9 ns) +
                 (if zone_offset (location t) = 0 then 1 else 6)))"

definition bool_len :: "bool \<Rightarrow> nat" where
  "bool_len b = (if b then 4 else 5)"

definition incident_len :: "incident \<Rightarrow> nat option" where
  "incident_len i =
     (case (time_len (PreviousStartedAt i), time_len (ObservedAt i)) of
        (Some a, Some b) \<Rightarrow>
          Some (106 + length (EventID i) + length (PreviousBootID i) + a + b
                + bool_len (WebsiteQueued i) + bool_len (MonitoringQueued i))
      | _ \<Rightarrow> None)"

fun incidents_len :: "incident list \<Rightarrow> nat option" where
  "incidents_len [] = Some 0"
| "incidents_len (i # is) =
     (case (incident_len i, incidents_len is) of (Some a, Some b) \<Rightarrow> Some (a + 1 + b) | _ \<Rightarrow> None)"

definition doc_len :: "lc_doc \<Rightarrow> nat option" where
  "doc_len d =
     (case (time_len (lc_StartedAt d), (case lc_CleanExitAt d of None \<Rightarrow> Some 0
              | Some t \<Rightarrow> map_option (\<lambda>n. 15 + n) (time_len t)), incidents_len (lc_Pending d)) of
        (Some a, Some b, Some c) \<Rightarrow>
          Some (62 + length (lc_State d) + length (lc_BootID d) + a + b + (c - 1))
      | _ \<Rightarrow> None)"

subsection \<open>Operations\<close>

text \<open>
  \<open>persist\<close> validates, encodes and replaces the file atomically, with a final newline.  \<open>load\<close>
  takes the outcome of opening and of reading the file.
\<close>

definition lc_persist :: "io list \<Rightarrow> lc_doc \<Rightarrow> lc_disk \<Rightarrow> lc_error option \<times> lc_disk" where
  "lc_persist ios d disk =
     (if \<not> lc_validate d then (Some LcInvalid, disk)
      else case doc_len d of
        None \<Rightarrow> (Some LcEncode, disk)
      | Some n \<Rightarrow>
          if n > maximumBytes then (Some LcEncode, disk)
          else (case fst (take_io ios) of
                  IoOk \<Rightarrow> (None, Some (n + 1, Some d))
                | IoFail \<Rightarrow> (Some LcIO, disk)
                | IoLate \<Rightarrow> (Some LcIO, Some (n + 1, Some d))))"

definition lc_load :: "io list \<Rightarrow> lc_disk \<Rightarrow> (lc_error + lc_doc option) \<times> io list" where
  "lc_load ios disk =
     (case disk of
        None \<Rightarrow> (Inr None, ios)
      | Some (n, v) \<Rightarrow>
          (let (r1, ios1) = take_io ios in
           if r1 \<noteq> IoOk then (Inl LcUnsafe, ios1)
           else let (r2, ios2) = take_io ios1 in
           if r2 \<noteq> IoOk \<or> n > maximumBytes then (Inl LcTooLarge, ios2)
           else (case v of
                   None \<Rightarrow> (Inl LcInvalid, ios2)
                 | Some d \<Rightarrow> (if lc_validate d then Inr (Some d) else Inl LcInvalid, ios2))))"

definition new_incident :: "string \<Rightarrow> lc_doc \<Rightarrow> gotime \<Rightarrow> incident" where
  "new_incident eventID previous now =
     \<lparr>EventID = eventID, PreviousBootID = lc_BootID previous, PreviousStartedAt = lc_StartedAt previous,
      ObservedAt = to_utc now, WebsiteQueued = False, MonitoringQueued = False\<rparr>"

text \<open>The incidents of a new session, computed from the document the previous one left.\<close>

definition carry_pending :: "id_supply \<Rightarrow> gotime \<Rightarrow> lc_doc option \<Rightarrow> lc_error + incident list" where
  "carry_pending ids now found =
     (case found of
        None \<Rightarrow> Inr []
      | Some previous \<Rightarrow>
          if lc_State previous = ''running'' then
            (if maximumEvents \<le> length (lc_Pending previous) then Inl LcBacklog
             else case fst (take_id ids) of
               None \<Rightarrow> Inl LcNoID
             | Some eventID \<Rightarrow> Inr (lc_Pending previous @ [new_incident eventID previous now]))
          else Inr (lc_Pending previous))"

definition lc_Begin :: "string \<Rightarrow> string \<Rightarrow> gotime \<Rightarrow> io list \<Rightarrow> id_supply \<Rightarrow> lc_disk \<Rightarrow>
    (lc_error + lc_doc) \<times> lc_disk" where
  "lc_Begin filename bootID now ios ids disk =
     (if filename = [] \<or> \<not> uuidRE bootID \<or> \<not> validUTC now then (Inl LcIdentity, disk)
      else let (r0, ios0) = take_io ios in
      if r0 \<noteq> IoOk then (Inl LcIO, disk)
      else let (l, ios1) = lc_load ios0 disk in
      case l of
        Inl e \<Rightarrow> (Inl e, disk)
      | Inr found \<Rightarrow>
          (case carry_pending ids now found of
             Inl e \<Rightarrow> (Inl e, disk)
           | Inr pending \<Rightarrow>
               (let d = \<lparr>lc_Version = lc_version, lc_State = ''running'', lc_BootID = bootID,
                         lc_StartedAt = to_utc now, lc_CleanExitAt = None, lc_Pending = pending\<rparr>;
                    (e, disk') = lc_persist ios1 d disk
                in (case e of None \<Rightarrow> Inr d | Some e \<Rightarrow> Inl e, disk'))))"

definition queued_for :: "string \<Rightarrow> incident \<Rightarrow> bool" where
  "queued_for domain i \<longleftrightarrow>
     \<not> (domain = DomainWebsite \<and> \<not> WebsiteQueued i \<or> domain = DomainMonitor \<and> \<not> MonitoringQueued i)"

text \<open>The receiver of the next two may be a nil session.\<close>

definition lc_Pending_for :: "string \<Rightarrow> lc_doc option \<Rightarrow> incident list" where
  "lc_Pending_for domain s =
     (case s of None \<Rightarrow> [] | Some d \<Rightarrow> filter (\<lambda>i. \<not> queued_for domain i) (lc_Pending d))"

definition mark_incident :: "string \<Rightarrow> incident \<Rightarrow> incident" where
  "mark_incident domain i =
     (let i1 = (if domain = DomainWebsite \<and> \<not> WebsiteQueued i then i\<lparr>WebsiteQueued := True\<rparr> else i)
      in if domain = DomainMonitor \<and> \<not> MonitoringQueued i1 then i1\<lparr>MonitoringQueued := True\<rparr> else i1)"

text \<open>The two loops of \<open>MarkQueued\<close>: set the flag of the domain, keep what one domain still misses.\<close>

definition retain_unqueued :: "string \<Rightarrow> lc_doc \<Rightarrow> lc_doc" where
  "retain_unqueued domain d =
     d\<lparr>lc_Pending := filter (\<lambda>i. \<not> WebsiteQueued i \<or> \<not> MonitoringQueued i)
                      (map (mark_incident domain) (lc_Pending d))\<rparr>"

definition lc_MarkQueued :: "string \<Rightarrow> io list \<Rightarrow> lc_doc option \<Rightarrow> lc_disk \<Rightarrow>
    lc_error option \<times> lc_doc option \<times> lc_disk" where
  "lc_MarkQueued domain ios s disk =
     (case s of
        None \<Rightarrow> (Some LcDomain, s, disk)
      | Some d \<Rightarrow>
          if domain \<noteq> DomainWebsite \<and> domain \<noteq> DomainMonitor then (Some LcDomain, s, disk)
          else if list_all (queued_for domain) (lc_Pending d) then (None, s, disk)
          else
            (let d' = retain_unqueued domain d; (e, disk') = lc_persist ios d' disk
             in (e, Some d', disk')))"

definition lc_MarkClean :: "gotime \<Rightarrow> io list \<Rightarrow> lc_doc option \<Rightarrow> lc_disk \<Rightarrow>
    lc_error option \<times> lc_doc option \<times> lc_disk" where
  "lc_MarkClean now ios s disk =
     (case s of
        None \<Rightarrow> (Some LcIdentity, s, disk)
      | Some d \<Rightarrow>
          if \<not> validUTC now then (Some LcIdentity, s, disk)
          else
            (let d' = d\<lparr>lc_State := ''clean'', lc_CleanExitAt := Some (to_utc now)\<rparr>;
                 (e, disk') = lc_persist ios d' disk
             in (e, Some d', disk')))"

subsection \<open>Runs with restarts\<close>

datatype lc_op = LcBegin string gotime "io list" id_supply | LcMark string "io list"
  | LcClean gotime "io list"

record lc_sys =
  ls_session :: "lc_doc option"
  ls_disk :: lc_disk

fun lc_step :: "string \<Rightarrow> lc_op \<Rightarrow> lc_sys \<Rightarrow> lc_sys" where
  "lc_step fn (LcBegin boot now ios ids) s =
     (let (r, disk) = lc_Begin fn boot now ios ids (ls_disk s)
      in \<lparr>ls_session = (case r of Inl _ \<Rightarrow> None | Inr d \<Rightarrow> Some d), ls_disk = disk\<rparr>)"
| "lc_step fn (LcMark domain ios) s =
     (let (e, m, disk) = lc_MarkQueued domain ios (ls_session s) (ls_disk s)
      in \<lparr>ls_session = m, ls_disk = disk\<rparr>)"
| "lc_step fn (LcClean now ios) s =
     (let (e, m, disk) = lc_MarkClean now ios (ls_session s) (ls_disk s)
      in \<lparr>ls_session = m, ls_disk = disk\<rparr>)"

fun lc_run :: "string \<Rightarrow> lc_op list \<Rightarrow> lc_sys \<Rightarrow> lc_sys" where
  "lc_run fn [] s = s"
| "lc_run fn (a # as) s = lc_run fn as (lc_step fn a s)"

text \<open>The document a restart would find.\<close>

definition on_disk :: "lc_disk \<Rightarrow> lc_doc option" where
  "on_disk disk = (case disk of None \<Rightarrow> None | Some (n, v) \<Rightarrow> v)"

text \<open>What the code itself writes: a valid document, at the length it encodes to.\<close>

definition disk_ok :: "lc_disk \<Rightarrow> bool" where
  "disk_ok disk \<longleftrightarrow>
     (case disk of None \<Rightarrow> True
      | Some (n, v) \<Rightarrow> (case v of None \<Rightarrow> False
         | Some d \<Rightarrow> lc_validate d \<and> doc_len d = Some (n - 1) \<and> n \<noteq> 0 \<and> n \<le> maximumBytes))"

subsection \<open>Every valid document fits the file\<close>

lemma fraction_digits_le: "fraction_digits k n \<le> k"
  by (induction k n rule: fraction_digits.induct) auto

lemma time_len_le:
  assumes "time_len t = Some n" "validUTC t"
  shows "n \<le> 32"
  using assms fraction_digits_le [of 9 "instant t mod second"]
  by (auto simp: time_len_def validUTC_def Let_def split: if_splits)

lemma incident_len_le:
  assumes "incident_len i = Some n" "valid_incident i"
  shows "n \<le> 252"
  using assms time_len_le [of "PreviousStartedAt i"] time_len_le [of "ObservedAt i"]
    uuidRE_length [of "EventID i"] uuidRE_length [of "PreviousBootID i"]
  by (fastforce simp: incident_len_def valid_incident_def bool_len_def split: option.splits if_splits)

lemma valid_incidents_all: "valid_incidents seen is \<Longrightarrow> list_all valid_incident is"
  by (induction seen "is" rule: valid_incidents.induct) auto

lemma valid_incidents_iff:
  "valid_incidents seen is \<longleftrightarrow>
     list_all valid_incident is \<and> distinct (map EventID is) \<and> set seen \<inter> EventID ` set is = {}"
  by (induction seen "is" rule: valid_incidents.induct) auto

lemma incidents_len_le:
  "incidents_len is = Some n \<Longrightarrow> list_all valid_incident is \<Longrightarrow> n \<le> 253 * length is"
proof (induction "is" arbitrary: n)
  case (Cons i "is")
  then obtain a b where ab: "incident_len i = Some a" "incidents_len is = Some b" "n = a + 1 + b"
    by (auto split: option.splits)
  have "a \<le> 252" using ab(1) Cons.prems(2) incident_len_le by simp
  moreover have "b \<le> 253 * length is" using Cons.IH ab(2) Cons.prems(2) by simp
  ultimately show ?case using ab(3) by simp
qed simp

lemma incidents_len_append:
  "incidents_len (xs @ ys) =
     (case (incidents_len xs, incidents_len ys) of (Some a, Some b) \<Rightarrow> Some (a + b) | _ \<Rightarrow> None)"
  by (induction xs) (auto split: option.splits)

lemma doc_len_Some:
  assumes "doc_len d = Some n"
  obtains a b c where "time_len (lc_StartedAt d) = Some a" "incidents_len (lc_Pending d) = Some c"
    "n = 62 + length (lc_State d) + length (lc_BootID d) + a + b + (c - 1)"
    "case lc_CleanExitAt d of None \<Rightarrow> b = 0 | Some t \<Rightarrow> \<exists>k. time_len t = Some k \<and> b = 15 + k"
  using assms that by (fastforce simp: doc_len_def split: option.splits prod.splits)

lemma doc_len_fits:
  assumes "lc_validate d" "doc_len d = Some n"
  shows "n < maximumBytes"
proof -
  obtain a b c where len: "time_len (lc_StartedAt d) = Some a" "incidents_len (lc_Pending d) = Some c"
    "n = 62 + length (lc_State d) + length (lc_BootID d) + a + b + (c - 1)"
    and b: "case lc_CleanExitAt d of None \<Rightarrow> b = 0 | Some t \<Rightarrow> \<exists>k. time_len t = Some k \<and> b = 15 + k"
    using doc_len_Some [OF assms(2)] by blast
  have "a \<le> 32" using time_len_le [OF len(1)] assms(1) by (simp add: lc_validate_def)
  moreover have "b \<le> 47"
    using b assms(1) by (auto simp: lc_validate_def split: option.splits dest!: time_len_le)
  moreover have "c \<le> 253 * 4096"
    using incidents_len_le [OF len(2)] valid_incidents_all assms(1)
    by (fastforce simp: lc_validate_def maximumEvents_def)
  moreover have "length (lc_State d) \<le> 7" "length (lc_BootID d) = 36"
    using assms(1) uuidRE_length by (auto simp: lc_validate_def)
  ultimately show ?thesis using len(3) by (simp add: maximumBytes_def)
qed

subsection \<open>Writes and reads\<close>

lemma persist_cases:
  assumes "lc_persist ios d disk = (e, disk')"
  obtains (old) "disk' = disk" "e \<noteq> None"
    | (new) n where "disk' = Some (n, Some d)" "disk_ok disk'"
proof -
  show ?thesis
  proof (cases "disk' = disk \<and> e \<noteq> None")
    case False
    then obtain n where n: "lc_validate d" "doc_len d = Some n" "disk' = Some (n + 1, Some d)"
      using assms by (auto simp: lc_persist_def split: if_splits option.splits io.splits)
    then show ?thesis using new [of "n + 1"] doc_len_fits [OF n(1,2)] by (auto simp: disk_ok_def)
  qed (use old in auto)
qed

lemma persist_ok:
  "lc_validate d \<Longrightarrow> doc_len d \<noteq> None \<Longrightarrow> fst (take_io ios) = IoOk \<Longrightarrow> fst (lc_persist ios d disk) = None"
  using doc_len_fits by (fastforce simp: lc_persist_def)

lemma load_on_disk:
  "lc_load ios disk = (Inr found, ios') \<Longrightarrow> found = on_disk disk"
  by (auto simp: lc_load_def on_disk_def Let_def split: option.splits prod.splits if_splits)

lemma load_ok:
  assumes "disk_ok disk" "set ios \<subseteq> {IoOk}"
  shows "\<exists>ios'. lc_load ios disk = (Inr (on_disk disk), ios') \<and> set ios' \<subseteq> {IoOk}"
proof (cases disk)
  case None
  then show ?thesis using assms(2) by (simp add: lc_load_def on_disk_def)
next
  case (Some f)
  then obtain n d where f: "disk = Some (n, Some d)" "lc_validate d" "n \<le> maximumBytes"
    using assms(1) by (cases f) (auto simp: disk_ok_def split: option.splits)
  let ?i1 = "snd (take_io ios)" and ?i2 = "snd (take_io (snd (take_io ios)))"
  have i1: "set ?i1 \<subseteq> {IoOk}" using set_snd_take_io assms(2) by blast
  then have "set ?i2 \<subseteq> {IoOk}" using set_snd_take_io by blast
  then show ?thesis using f fst_take_io_ok [OF assms(2)] fst_take_io_ok [OF i1]
    by (auto simp: lc_load_def on_disk_def Let_def split: prod.splits)
qed

lemma Begin_ok:
  assumes "lc_Begin fn boot now ios ids disk = (Inr d, disk')"
  shows "\<exists>n. carry_pending ids now (on_disk disk) = Inr (lc_Pending d) \<and>
    d = \<lparr>lc_Version = lc_version, lc_State = ''running'', lc_BootID = boot, lc_StartedAt = to_utc now,
         lc_CleanExitAt = None, lc_Pending = lc_Pending d\<rparr> \<and> disk' = Some (n, Some d)"
  using assms
  by (auto simp: lc_Begin_def Let_def split: if_splits prod.splits sum.splits option.splits
      dest!: load_on_disk elim!: persist_cases)

lemma Begin_error:
  assumes "lc_Begin fn boot now ios ids disk = (Inl e, disk')"
  shows "disk' = disk \<or> (\<exists>n d. disk' = Some (n, Some d) \<and> disk_ok disk' \<and>
    carry_pending ids now (on_disk disk) = Inr (lc_Pending d))"
  using assms
  by (auto simp: lc_Begin_def Let_def split: if_splits prod.splits sum.splits option.splits
      dest!: load_on_disk elim!: persist_cases)

lemma Begin_disk_ok: "disk_ok disk \<Longrightarrow> disk_ok (snd (lc_Begin fn boot now ios ids disk))"
  by (auto simp: lc_Begin_def Let_def split: prod.splits sum.splits elim!: persist_cases)

lemma MarkQueued_cases:
  assumes "lc_MarkQueued dm ios (Some d) disk = (e, m, disk')"
  obtains (same) "m = Some d" "disk' = disk"
    | (marked) d' where "m = Some d'"
        "d' = retain_unqueued dm d"
        "lc_persist ios d' disk = (e, disk')"
  using assms by (auto simp: lc_MarkQueued_def Let_def split: if_splits prod.splits)

lemma MarkClean_cases:
  assumes "lc_MarkClean now ios (Some d) disk = (e, m, disk')"
  obtains (same) "m = Some d" "disk' = disk" "e \<noteq> None"
    | (marked) d' where "m = Some d'" "d' = d\<lparr>lc_State := ''clean'', lc_CleanExitAt := Some (to_utc now)\<rparr>"
        "lc_persist ios d' disk = (e, disk')"
  using assms by (auto simp: lc_MarkClean_def Let_def split: if_splits prod.splits)

lemma nil_session [simp]:
  "lc_MarkQueued dm ios None disk = (Some LcDomain, None, disk)"
  "lc_MarkClean now ios None disk = (Some LcIdentity, None, disk)"
  by (auto simp: lc_MarkQueued_def lc_MarkClean_def)

lemma step_disk_ok:
  assumes "disk_ok (ls_disk s)"
  shows "disk_ok (ls_disk (lc_step fn a s))"
proof (cases a)
  case (LcBegin boot now ios ids)
  then show ?thesis using Begin_disk_ok [OF assms, of fn boot now ios ids]
    by (auto split: prod.splits)
next
  case (LcMark dm ios)
  then show ?thesis using assms
    by (cases "ls_session s") (auto split: prod.splits elim!: MarkQueued_cases persist_cases)
next
  case (LcClean now ios)
  then show ?thesis using assms
    by (cases "ls_session s") (auto split: prod.splits elim!: MarkClean_cases persist_cases)
qed

lemma run_disk_ok: "disk_ok (ls_disk s) \<Longrightarrow> disk_ok (ls_disk (lc_run fn as s))"
  by (induction as arbitrary: s) (auto simp: step_disk_ok)

subsection \<open>Incidents are kept\<close>

definition holds_incident :: "string \<Rightarrow> string \<Rightarrow> lc_doc \<Rightarrow> bool" where
  "holds_incident dm e d \<longleftrightarrow> list_ex (\<lambda>i. EventID i = e \<and> \<not> queued_for dm i) (lc_Pending d)"

definition keeps_incident :: "string \<Rightarrow> string \<Rightarrow> lc_sys \<Rightarrow> bool" where
  "keeps_incident dm e s \<longleftrightarrow>
     (case on_disk (ls_disk s) of None \<Rightarrow> False | Some d \<Rightarrow> holds_incident dm e d) \<and>
     (case ls_session s of None \<Rightarrow> True | Some d \<Rightarrow> holds_incident dm e d)"

lemma domains_differ [simp]: "DomainWebsite \<noteq> DomainMonitor" "DomainMonitor \<noteq> DomainWebsite"
  by (auto simp: DomainWebsite_def DomainMonitor_def)

lemma mark_other_domain:
  "dm' \<noteq> dm \<Longrightarrow> queued_for dm (mark_incident dm' i) = queued_for dm i"
  by (auto simp: queued_for_def mark_incident_def Let_def)

lemma mark_EventID [simp]: "EventID (mark_incident dm i) = EventID i"
  by (auto simp: mark_incident_def Let_def)

lemma unqueued_retained: "\<not> queued_for dm i \<Longrightarrow> \<not> WebsiteQueued i \<or> \<not> MonitoringQueued i"
  by (auto simp: queued_for_def)

lemma holds_marked:
  assumes "holds_incident dm e d" "dm' \<noteq> dm"
  shows "holds_incident dm e (retain_unqueued dm' d)"
proof -
  obtain i where i: "i \<in> set (lc_Pending d)" "EventID i = e" "\<not> queued_for dm i"
    using assms(1) by (auto simp: holds_incident_def list_ex_iff)
  then have "\<not> queued_for dm (mark_incident dm' i)" using assms(2) mark_other_domain by simp
  then show ?thesis using i unqueued_retained [of dm "mark_incident dm' i"]
    by (auto simp: holds_incident_def retain_unqueued_def list_ex_iff image_iff intro!: bexI [of _ i] exI [of _ "mark_incident dm' i"])
qed

lemma holds_carried:
  assumes "carry_pending ids now (Some p) = Inr (lc_Pending d)" "holds_incident dm e p"
  shows "holds_incident dm e d"
proof -
  have "\<exists>ys. lc_Pending p @ ys = lc_Pending d"
    using assms(1) by (auto simp: carry_pending_def split: if_splits option.splits)
  then show ?thesis using assms(2) unfolding holds_incident_def by (metis list_ex_append)
qed

lemma step_keeps:
  assumes "keeps_incident dm e s" "\<And>ios. a \<noteq> LcMark dm ios"
  shows "keeps_incident dm e (lc_step fn a s)"
proof -
  obtain p where p: "on_disk (ls_disk s) = Some p" "holds_incident dm e p"
    using assms(1) by (auto simp: keeps_incident_def split: option.splits)
  show ?thesis
  proof (cases a)
    case (LcBegin boot now ios ids)
    obtain r disk where b: "lc_Begin fn boot now ios ids (ls_disk s) = (r, disk)" by fastforce
    show ?thesis
    proof (cases r)
      case (Inl x)
      then show ?thesis using LcBegin b p Begin_error [of fn boot now ios ids "ls_disk s" x disk]
        by (auto simp: keeps_incident_def on_disk_def dest: holds_carried)
    next
      case (Inr d)
      then show ?thesis using LcBegin b p Begin_ok [of fn boot now ios ids "ls_disk s" d disk]
        by (auto simp: keeps_incident_def on_disk_def dest: holds_carried)
    qed
  next
    case (LcMark dm' ios)
    then have "dm' \<noteq> dm" using assms(2) by auto
    then show ?thesis using LcMark assms(1) p
      by (cases "ls_session s")
         (auto simp: keeps_incident_def holds_marked on_disk_def split: prod.splits
           elim!: MarkQueued_cases persist_cases)
  next
    case (LcClean now ios)
    then show ?thesis using assms(1) p
      by (cases "ls_session s")
         (auto simp: keeps_incident_def holds_incident_def on_disk_def split: prod.splits
           elim!: MarkClean_cases persist_cases)
  qed
qed

lemma run_keeps:
  assumes "keeps_incident dm e s" "list_all (\<lambda>a. \<forall>ios. a \<noteq> LcMark dm ios) as"
  shows "keeps_incident dm e (lc_run fn as s)"
  using assms by (induction as arbitrary: s) (auto simp: step_keeps)

subsection \<open>The end of a session\<close>

definition session_runs :: "lc_doc \<Rightarrow> lc_sys \<Rightarrow> bool" where
  "session_runs d0 s \<longleftrightarrow>
     (\<exists>d n d1. ls_session s = Some d \<and> ls_disk s = Some (n, Some d1) \<and>
       (\<forall>x \<in> {d, d1}. lc_State x = ''running'' \<and> lc_BootID x = lc_BootID d0 \<and>
         lc_StartedAt x = lc_StartedAt d0))"

lemma retain_fields [simp]:
  "lc_State (retain_unqueued dm d) = lc_State d" "lc_BootID (retain_unqueued dm d) = lc_BootID d"
  "lc_StartedAt (retain_unqueued dm d) = lc_StartedAt d"
  by (simp_all add: retain_unqueued_def)

lemma mark_session_runs:
  assumes "session_runs d0 s"
  shows "session_runs d0 (lc_step fn (LcMark dm ios) s)"
proof -
  obtain d n d1 where s: "ls_session s = Some d" "ls_disk s = Some (n, Some d1)"
    and r: "\<forall>x \<in> {d, d1}. lc_State x = ''running'' \<and> lc_BootID x = lc_BootID d0 \<and>
      lc_StartedAt x = lc_StartedAt d0"
    using assms by (auto simp: session_runs_def)
  obtain e m disk where q: "lc_MarkQueued dm ios (Some d) (Some (n, Some d1)) = (e, m, disk)"
    by (metis prod_cases3)
  from q show ?thesis
    by (rule MarkQueued_cases) (use s r q in \<open>auto simp: session_runs_def elim: persist_cases\<close>)
qed

lemma marks_session_runs:
  assumes "session_runs d0 s" "list_all (\<lambda>a. \<exists>dm ios. a = LcMark dm ios) as"
  shows "session_runs d0 (lc_run fn as s)"
  using assms by (induction as arbitrary: s) (auto simp: mark_session_runs simp del: lc_step.simps)

subsection \<open>A concrete session\<close>

definition ex_boot1 :: string where
  "ex_boot1 = ''11111111-1111-1111-1111-111111111111''"

definition ex_boot2 :: string where
  "ex_boot2 = ''22222222-2222-2222-2222-222222222222''"

definition ex_event :: string where
  "ex_event = ''eeeeeeee-eeee-eeee-eeee-eeeeeeeeeeee''"

definition ex_now :: gotime where
  "ex_now = GoTime 63000000000000000005 UTC"

definition ex_doc :: lc_doc where
  "ex_doc = \<lparr>lc_Version = 1, lc_State = ''running'', lc_BootID = ex_boot1, lc_StartedAt = ex_now,
    lc_CleanExitAt = None, lc_Pending = []\<rparr>"

definition ex_incident :: incident where
  "ex_incident = \<lparr>EventID = ex_event, PreviousBootID = ex_boot1, PreviousStartedAt = ex_now,
    ObservedAt = ex_now, WebsiteQueued = False, MonitoringQueued = False\<rparr>"

definition ex_doc2 :: lc_doc where
  "ex_doc2 = ex_doc\<lparr>lc_BootID := ex_boot2, lc_Pending := [ex_incident]\<rparr>"

lemma ex_ids [simp]: "uuidRE ex_boot1" "uuidRE ex_boot2" "uuidRE ex_event"
  "length ex_boot1 = 36" "length ex_boot2 = 36" "length ex_event = 36"
  by code_simp+

lemma ex_times [simp]: "time_len ex_now = Some 32" "validUTC ex_now" "to_utc ex_now = ex_now"
  by code_simp+

lemma ex_incident_len [simp]: "incident_len ex_incident = Some 252" "valid_incident ex_incident"
  by (simp_all add: incident_len_def valid_incident_def ex_incident_def bool_len_def)

lemmas ex_session_defs = lc_Begin_def lc_load_def lc_persist_def carry_pending_def Let_def
  lc_validate_def doc_len_def ex_doc_def ex_doc2_def lc_version_def maximumBytes_def maximumEvents_def

lemma ex_begin: "lc_Begin ''f'' ex_boot1 ex_now [] [] None = (Inr ex_doc, Some (138, Some ex_doc))"
  by (simp add: ex_session_defs)

lemma ex_new_incident: "new_incident ex_event ex_doc ex_now = ex_incident"
  by (simp add: new_incident_def ex_incident_def ex_doc_def)

lemma ex_begin2:
  "lc_Begin ''f'' ex_boot2 ex_now [] [Some ex_event] (Some (138, Some ex_doc)) =
    (Inr ex_doc2, Some (390, Some ex_doc2))"
  using ex_new_incident by (simp add: ex_session_defs)

subsection \<open>Properties\<close>

text \<open>
  C37: A process that began a session and disappeared without \<open>MarkClean\<close>, whatever it queued and
  whichever of its writes failed, is found by the next successful \<open>Begin\<close>: the new session
  has an incident with the old boot identifier and start time that both domains still have to
  queue.
\<close>

theorem unclean_exit_reported:
  assumes begun: "lc_Begin fn boot now ios ids disk = (Inr d, disk1)"
    and only_marks: "list_all (\<lambda>a. \<exists>dm ios. a = LcMark dm ios) as"
    and restart: "lc_Begin fn boot2 now2 ios2 ids2
      (ls_disk (lc_run fn as \<lparr>ls_session = Some d, ls_disk = disk1\<rparr>)) = (Inr d2, disk2)"
  shows "\<exists>i. i \<in> set (lc_Pending_for DomainWebsite (Some d2)) \<and>
    i \<in> set (lc_Pending_for DomainMonitor (Some d2)) \<and>
    PreviousBootID i = boot \<and> PreviousStartedAt i = to_utc now \<and> ObservedAt i = to_utc now2 \<and>
    fst (take_id ids2) = Some (EventID i)"
proof -
  let ?s = "lc_run fn as \<lparr>ls_session = Some d, ls_disk = disk1\<rparr>"
  have b: "lc_State d = ''running''" "lc_BootID d = boot" "lc_StartedAt d = to_utc now"
    "\<exists>n. disk1 = Some (n, Some d)"
    using Begin_ok [OF begun] by (metis lc_doc.select_convs)+
  then have "session_runs d \<lparr>ls_session = Some d, ls_disk = disk1\<rparr>" by (auto simp: session_runs_def)
  then have "session_runs d ?s" using only_marks by (rule marks_session_runs)
  then obtain n d1 where d1: "ls_disk ?s = Some (n, Some d1)" "lc_State d1 = ''running''"
    "lc_BootID d1 = boot" "lc_StartedAt d1 = to_utc now"
    using b by (auto simp: session_runs_def)
  then have c: "carry_pending ids2 now2 (Some d1) = Inr (lc_Pending d2)"
    using Begin_ok [OF restart] by (auto simp: on_disk_def)
  then obtain e where "fst (take_id ids2) = Some e" "new_incident e d1 now2 \<in> set (lc_Pending d2)"
    using d1(2) by (auto simp: carry_pending_def split: if_splits option.splits)
      (metis in_set_conv_decomp)
  then show ?thesis using d1
    by (intro exI [of _ "new_incident e d1 now2"])
       (auto simp: lc_Pending_for_def queued_for_def new_incident_def)
qed

theorem unclean_exit_reported_witness:
  "\<exists>i. i \<in> set (lc_Pending_for DomainWebsite (Some ex_doc2)) \<and>
    i \<in> set (lc_Pending_for DomainMonitor (Some ex_doc2)) \<and>
    PreviousBootID i = ex_boot1 \<and> PreviousStartedAt i = to_utc ex_now \<and> ObservedAt i = to_utc ex_now \<and>
    fst (take_id [Some ex_event]) = Some (EventID i)"
proof -
  have "ls_disk (lc_run ''f'' [LcMark DomainWebsite [IoFail]]
      \<lparr>ls_session = Some ex_doc, ls_disk = Some (138, Some ex_doc)\<rparr>) = Some (138, Some ex_doc)"
    by (simp add: lc_MarkQueued_def ex_doc_def)
  with ex_begin2 show ?thesis
    by (intro unclean_exit_reported [OF ex_begin, of "[LcMark DomainWebsite [IoFail]]"]) auto
qed

text \<open>
  A session closed by a successful \<open>MarkClean\<close> adds no incident: the next successful \<open>Begin\<close>
  takes over exactly the incidents that were still pending.
\<close>

theorem clean_exit_adds_nothing:
  assumes "lc_MarkClean now ios (Some d) disk = (None, m, disk1)"
    and "lc_Begin fn boot2 now2 ios2 ids2 disk1 = (Inr d2, disk2)"
  shows "lc_Pending d2 = lc_Pending d"
proof -
  obtain n d' where d': "disk1 = Some (n, Some d')" "lc_State d' = ''clean''" "lc_Pending d' = lc_Pending d"
    using assms(1) by (auto elim!: MarkClean_cases persist_cases)
  then have "carry_pending ids2 now2 (Some d') = Inr (lc_Pending d2)"
    using Begin_ok [OF assms(2)] by (auto simp: on_disk_def)
  then show ?thesis using d' by (simp add: carry_pending_def)
qed

theorem clean_exit_adds_nothing_witness:
  "\<exists>d2 disk2. lc_Begin ''f'' ex_boot2 ex_now [] [] (snd (snd (lc_MarkClean ex_now [] (Some ex_doc) None)))
      = (Inr d2, disk2) \<and> lc_Pending d2 = lc_Pending ex_doc"
proof -
  let ?d = "ex_doc\<lparr>lc_State := ''clean'', lc_CleanExitAt := Some ex_now\<rparr>"
  have m: "lc_MarkClean ex_now [] (Some ex_doc) None = (None, Some ?d, Some (183, Some ?d))"
    by (simp add: lc_MarkClean_def before_def ex_session_defs)
  have b: "\<exists>d2 disk2. lc_Begin ''f'' ex_boot2 ex_now [] [] (Some (183, Some ?d)) = (Inr d2, disk2)"
    by (simp add: before_def ex_session_defs)
  then show ?thesis using clean_exit_adds_nothing [OF m] m by fastforce
qed

text \<open>
  An incident a domain has not queued stays in the file, and in every session opened on
  it, through any sequence of restarts, clean exits, failing writes and \<open>MarkQueued\<close> calls of the
  other domain: only \<open>MarkQueued\<close> of that domain retires it.
\<close>

theorem incident_kept_until_queued:
  assumes "on_disk disk = Some d" "i \<in> set (lc_Pending d)" "\<not> queued_for domain i"
    and "list_all (\<lambda>a. \<forall>ios. a \<noteq> LcMark domain ios) as"
  shows "case ls_session (lc_run fn as \<lparr>ls_session = None, ls_disk = disk\<rparr>) of
      None \<Rightarrow> True
    | Some d' \<Rightarrow> EventID i \<in> EventID ` set (lc_Pending_for domain (Some d'))"
proof -
  have "keeps_incident domain (EventID i) \<lparr>ls_session = None, ls_disk = disk\<rparr>"
    using assms(1-3) by (auto simp: keeps_incident_def holds_incident_def list_ex_iff)
  then have "keeps_incident domain (EventID i) (lc_run fn as \<lparr>ls_session = None, ls_disk = disk\<rparr>)"
    using assms(4) by (rule run_keeps)
  then show ?thesis
    by (fastforce simp: keeps_incident_def holds_incident_def lc_Pending_for_def list_ex_iff image_iff
        split: option.splits)
qed

theorem incident_kept_until_queued_witness:
  "case ls_session (lc_run ''f'' [LcBegin ex_boot2 ex_now [] [Some ex_event]]
      \<lparr>ls_session = None, ls_disk = Some (390, Some (ex_doc2\<lparr>lc_State := ''clean'', lc_CleanExitAt := Some ex_now\<rparr>))\<rparr>) of
      None \<Rightarrow> True
    | Some d' \<Rightarrow> EventID ex_incident \<in> EventID ` set (lc_Pending_for DomainWebsite (Some d'))"
  using incident_kept_until_queued [of "Some (390, Some (ex_doc2\<lparr>lc_State := ''clean'', lc_CleanExitAt := Some ex_now\<rparr>))"
      "ex_doc2\<lparr>lc_State := ''clean'', lc_CleanExitAt := Some ex_now\<rparr>" ex_incident DomainWebsite
      "[LcBegin ex_boot2 ex_now [] [Some ex_event]]" "''f''"]
  by (simp add: on_disk_def ex_doc2_def queued_for_def ex_incident_def del: lc_run.simps)

text \<open>
  The file never locks the agent out.  After any run from an empty directory, a restart
  whose file operations work, with a valid identity, a fresh event identifier and a
  representable time, opens a session as long as fewer than 4096 incidents are pending; in
  particular the size limit never refuses a document that the code wrote.
\<close>

theorem restart_always_possible:
  assumes s: "s = lc_run fn as \<lparr>ls_session = None, ls_disk = None\<rparr>"
    and backlog: "case on_disk (ls_disk s) of None \<Rightarrow> True | Some p \<Rightarrow>
      length (lc_Pending p) < maximumEvents \<and> eid \<notin> EventID ` set (lc_Pending p)"
    and inputs: "fn \<noteq> []" "uuidRE boot" "uuidRE eid" "validUTC now" "time_len (to_utc now) \<noteq> None"
  shows "\<exists>d. fst (lc_Begin fn boot now [] [Some eid] (ls_disk s)) = Inr d"
proof -
  have ok: "disk_ok (ls_disk s)"
    unfolding s by (rule run_disk_ok) (simp add: disk_ok_def)
  let ?p = "on_disk (ls_disk s)"
  obtain ios' where l: "lc_load [] (ls_disk s) = (Inr ?p, ios')" "set ios' \<subseteq> {IoOk}"
    using load_ok [OF ok, of "[]"] by auto
  have "\<exists>pending. carry_pending [Some eid] now ?p = Inr pending"
    using backlog by (cases ?p) (auto simp: carry_pending_def)
  then obtain pending where c: "carry_pending [Some eid] now ?p = Inr pending" by blast
  have utc: "validUTC (to_utc now)" using inputs(4) by (simp add: validUTC_def)
  have p: "valid_incidents [] pending \<and> length pending \<le> maximumEvents \<and> incidents_len pending \<noteq> None"
  proof (cases ?p)
    case None
    then show ?thesis using c by (auto simp: carry_pending_def)
  next
    case (Some q)
    then have q: "lc_validate q" "doc_len q \<noteq> None"
      using ok by (auto simp: disk_ok_def on_disk_def split: option.splits)
    then have ql: "incidents_len (lc_Pending q) \<noteq> None" "time_len (lc_StartedAt q) \<noteq> None"
      by (auto elim: doc_len_Some)
    have new: "valid_incident (new_incident eid q now)" "incident_len (new_incident eid q now) \<noteq> None"
      using q(1) utc inputs ql(2)
      by (auto simp: new_incident_def valid_incident_def lc_validate_def incident_len_def)
    show ?thesis
      using c Some backlog q(1) ql new
      by (auto simp: carry_pending_def valid_incidents_iff lc_validate_def new_incident_def
          incidents_len_append split: if_splits option.splits)
  qed
  let ?d = "\<lparr>lc_Version = lc_version, lc_State = ''running'', lc_BootID = boot,
    lc_StartedAt = to_utc now, lc_CleanExitAt = None, lc_Pending = pending\<rparr>"
  have "lc_validate ?d" using p inputs utc by (simp add: lc_validate_def)
  moreover have "doc_len ?d \<noteq> None" using p inputs(5) by (auto simp: doc_len_def)
  ultimately have "fst (lc_persist ios' ?d (ls_disk s)) = None"
    using persist_ok fst_take_io_ok [OF l(2)] by blast
  then show ?thesis using inputs l c by (auto simp: lc_Begin_def Let_def split: prod.splits)
qed

theorem restart_always_possible_witness:
  "\<exists>d. fst (lc_Begin ''f'' ex_boot2 ex_now [] [Some ex_event]
    (ls_disk (lc_run ''f'' [LcBegin ex_boot1 ex_now [] []] \<lparr>ls_session = None, ls_disk = None\<rparr>))) = Inr d"
proof (rule restart_always_possible [OF refl])
  show "case on_disk (ls_disk (lc_run ''f'' [LcBegin ex_boot1 ex_now [] []] \<lparr>ls_session = None, ls_disk = None\<rparr>)) of
      None \<Rightarrow> True | Some p \<Rightarrow> length (lc_Pending p) < maximumEvents \<and> ex_event \<notin> EventID ` set (lc_Pending p)"
    by (simp add: ex_begin on_disk_def ex_doc_def maximumEvents_def)
qed simp_all

end
