(* ===== verification/Inventory.thy ===== *)
theory Inventory
  imports Go_Text "HOL-Library.List_Lexorder" "HOL-Library.Char_ord"
begin

section \<open>Service assignments (\<open>internal/inventory/inventory.go\<close>)\<close>

text \<open>
  The website-issued mapping between a PVE guest and a billing service: its data, the checks
  of \<open>Validate\<close> in the order the code makes them, the metering capabilities and the in-memory
  \<open>Store\<close>.  A nil \<open>allowedActions\<close> differs from an empty one, so that field is an option.
  The decoder of \<open>Parse\<close> is a parameter: the bytes of a document either decode or do not.
\<close>

definition inv_SchemaVersion :: int where
  "inv_SchemaVersion = 1"

definition maxFileBytes :: nat where
  "maxFileBytes = 4194304"

definition maxAssignments :: nat where
  "maxAssignments = 100000"

record nic =
  nb_Interface :: string
  nb_Role :: string
  nb_Primary :: bool
  nb_Metered :: bool
  nb_Monitoring :: bool
  nb_ExpectedMAC :: string
  nb_Bridge :: string
  nb_VNet :: string
  nb_VLAN :: "int option"
  nb_MTU :: "int option"
  nb_IPFilterPolicy :: string

record assignment =
  as_ServiceRef :: string
  as_ClusterRef :: string
  as_NodeRef :: string
  as_VMID :: int
  as_Generation :: u64
  as_InstanceUUID :: string
  as_GuestType :: string
  as_BillingState :: string
  as_CutoverAt :: "gotime option"
  as_NICBindings :: "nic list"

record assignments =
  ad_SchemaVersion :: int
  ad_Revision :: string
  ad_IssuedAt :: gotime
  ad_AllowedActions :: "string list option"
  ad_Assignments :: "assignment list"

record capability =
  cap_Supported :: bool
  cap_Reason :: string
  cap_Source :: string

subsection \<open>Keys and capabilities\<close>

definition PVEKey :: "assignment \<Rightarrow> string" where
  "PVEKey a = as_ClusterRef a @ ''/'' @ as_GuestType a @ ''/'' @ dec_int (as_VMID a)"

definition Key :: "assignment \<Rightarrow> string" where
  "Key a = as_ClusterRef a @ ''/'' @ as_GuestType a @ ''/'' @ dec_int (as_VMID a) @ ''/'' @
     dec (unat (as_Generation a))"

definition AggregateMeteringCapability :: "assignment \<Rightarrow> capability" where
  "AggregateMeteringCapability a =
     (case as_NICBindings a of
        [] \<Rightarrow> \<lparr>cap_Supported = False, cap_Reason = ''nic_binding_required'', cap_Source = ''pve-guest-aggregate''\<rparr>
      | [b] \<Rightarrow>
          if nb_Role b \<noteq> ''public'' \<or> \<not> nb_Metered b
          then \<lparr>cap_Supported = False, cap_Reason = ''no_metered_public_nic'', cap_Source = ''pve-guest-aggregate''\<rparr>
          else \<lparr>cap_Supported = True, cap_Reason = '''', cap_Source = ''pve-guest-aggregate''\<rparr>
      | _ \<Rightarrow> \<lparr>cap_Supported = False, cap_Reason = ''multi_nic_pve_aggregate_only'', cap_Source = ''pve-guest-aggregate''\<rparr>)"

text \<open>The loop of \<open>PerNICMeteringCapability\<close>: the count of public metered interfaces, or a metered private one.\<close>

fun count_public :: "nat \<Rightarrow> nic list \<Rightarrow> nat option" where
  "count_public n [] = Some n"
| "count_public n (b # bs) =
     (let n' = (if nb_Role b = ''public'' \<and> nb_Metered b then Suc n else n) in
      if nb_Role b = ''private'' \<and> nb_Metered b then None else count_public n' bs)"

definition PerNICMeteringCapability :: "assignment \<Rightarrow> capability" where
  "PerNICMeteringCapability a =
     (if as_NICBindings a = []
      then \<lparr>cap_Supported = False, cap_Reason = ''nic_binding_required'', cap_Source = ''pve-host-netdev''\<rparr>
      else case count_public 0 (as_NICBindings a) of
        None \<Rightarrow> \<lparr>cap_Supported = False, cap_Reason = ''private_nic_must_not_be_metered'', cap_Source = ''pve-host-netdev''\<rparr>
      | Some n \<Rightarrow>
          if n = 0
          then \<lparr>cap_Supported = False, cap_Reason = ''public_metered_nic_required'', cap_Source = ''pve-host-netdev''\<rparr>
          else \<lparr>cap_Supported = True, cap_Reason = '''', cap_Source = ''pve-host-netdev''\<rparr>)"

subsection \<open>Validation\<close>

text \<open>\<open>^net(?:[0-9]|[12][0-9]|3[01])$\<close> and six groups of two hexadecimal digits joined by colons.\<close>

fun network_number :: "string \<Rightarrow> bool" where
  "network_number [c] = is_digit c"
| "network_number [c, d] =
     ((c = CHR ''1'' \<or> c = CHR ''2'') \<and> is_digit d \<or> c = CHR ''3'' \<and> (d = CHR ''0'' \<or> d = CHR ''1''))"
| "network_number _ = False"

definition networkRef :: "string \<Rightarrow> bool" where
  "networkRef s \<longleftrightarrow> take 3 s = ''net'' \<and> network_number (drop 3 s)"

definition canonicalMAC :: "string \<Rightarrow> bool" where
  "canonicalMAC s \<longleftrightarrow>
     (let ws = split_on CHR '':'' s in
      length ws = 6 \<and> list_all (\<lambda>w. length w = 2 \<and> list_all is_hex w) ws)"

definition validMAC :: "string \<Rightarrow> bool" where
  "validMAC s \<longleftrightarrow>
     canonicalMAC s \<and>
     (case parseMAC s of
        None \<Rightarrow> False
      | Some bs \<Rightarrow> length bs = 6 \<and> even (hd bs) \<and> \<not> list_all (\<lambda>x. x = 0) bs)"

datatype nic_fault = NicInterface | NicDuplicate | NicRole | NicPublicUnmetered | NicPrivateMetered
  | NicPrimaryPrivate | NicMAC | NicBothAttachments | NicNoAttachment | NicAttachment | NicVLAN
  | NicMTU | NicIPFilter

datatype nics_error = NicCount | NicAt nat nic_fault | NicPrimary | NicMonitoring

text \<open>One round of the loop of \<open>validateNICBindings\<close>: the first check that fails.\<close>

definition nic_check :: "string list \<Rightarrow> nic \<Rightarrow> nic_fault option" where
  "nic_check seen b =
     (if \<not> networkRef (nb_Interface b) then Some NicInterface
      else if nb_Interface b \<in> set seen then Some NicDuplicate
      else if nb_Role b \<noteq> ''public'' \<and> nb_Role b \<noteq> ''private'' then Some NicRole
      else if nb_Role b = ''public'' \<and> \<not> nb_Metered b then Some NicPublicUnmetered
      else if nb_Role b \<noteq> ''public'' \<and> nb_Metered b then Some NicPrivateMetered
      else if nb_Primary b \<and> nb_Role b \<noteq> ''public'' then Some NicPrimaryPrivate
      else if \<not> validMAC (nb_ExpectedMAC b) then Some NicMAC
      else if nb_Bridge b \<noteq> [] \<and> nb_VNet b \<noteq> [] then Some NicBothAttachments
      else if nb_Bridge b = [] \<and> nb_VNet b = [] then Some NicNoAttachment
      else if nb_Bridge b \<noteq> [] \<and> \<not> attachmentRef (nb_Bridge b) \<or> nb_VNet b \<noteq> [] \<and> \<not> attachmentRef (nb_VNet b)
        then Some NicAttachment
      else if (case nb_VLAN b of None \<Rightarrow> False | Some v \<Rightarrow> v < 0 \<or> v > 4094) then Some NicVLAN
      else if (case nb_MTU b of None \<Rightarrow> False | Some v \<Rightarrow> v < 576 \<or> v > 9216) then Some NicMTU
      else if nb_IPFilterPolicy b \<noteq> ''required'' \<and> nb_IPFilterPolicy b \<noteq> ''disabled'' then Some NicIPFilter
      else None)"

fun nic_loop :: "nat \<Rightarrow> string list \<Rightarrow> nat \<times> nat \<times> nat \<Rightarrow> nic list \<Rightarrow> nics_error + nat \<times> nat \<times> nat" where
  "nic_loop index seen counts [] = Inr counts"
| "nic_loop index seen (primary, monitoring, public) (b # bs) =
     (case nic_check seen b of
        Some e \<Rightarrow> Inl (NicAt index e)
      | None \<Rightarrow>
          nic_loop (Suc index) (nb_Interface b # seen)
            (primary + (if nb_Primary b then 1 else 0), monitoring + (if nb_Monitoring b then 1 else 0),
             public + (if nb_Role b = ''public'' then 1 else 0)) bs)"

definition validateNICBindings :: "nic list \<Rightarrow> nics_error option" where
  "validateNICBindings bs =
     (if length bs > 32 then Some NicCount
      else if bs = [] then None
      else case nic_loop 0 [] (0, 0, 0) bs of
        Inl e \<Rightarrow> Some e
      | Inr (primary, monitoring, public) \<Rightarrow>
          if primary \<noteq> 1 \<or> public = 0 then Some NicPrimary
          else if monitoring \<noteq> 1 then Some NicMonitoring else None)"

text \<open>The three references are checked in the order of a map range, so the error does not name one.\<close>

datatype asn_error = AsnRef | AsnCluster | AsnNode | AsnVMID | AsnGuestType | AsnBilling | AsnCutover
  | AsnNIC nics_error | AsnDuplicatePVE | AsnDuplicateService

definition asn_validate :: "string \<Rightarrow> assignment \<Rightarrow> asn_error option" where
  "asn_validate expectedClusterRef a =
     (if \<not> safeRef (as_ServiceRef a) \<or> \<not> safeRef (as_ClusterRef a) \<or> \<not> safeRef (as_InstanceUUID a) then Some AsnRef
      else if expectedClusterRef \<noteq> [] \<and> as_ClusterRef a \<noteq> expectedClusterRef then Some AsnCluster
      else if as_NodeRef a \<noteq> [] \<and> \<not> safeRef (as_NodeRef a) then Some AsnNode
      else if as_VMID a < 1 \<or> as_VMID a > 999999999 \<or> as_Generation a = 0 then Some AsnVMID
      else if as_GuestType a \<noteq> ''qemu'' \<and> as_GuestType a \<noteq> ''lxc'' then Some AsnGuestType
      else if as_BillingState a \<noteq> ''disabled'' \<and> as_BillingState a \<noteq> ''shadow'' \<and> as_BillingState a \<noteq> ''active''
        then Some AsnBilling
      else if as_BillingState a = ''active'' \<and> as_CutoverAt a = None then Some AsnCutover
      else map_option AsnNIC (validateNICBindings (as_NICBindings a)))"

datatype doc_error = DocSchema | DocRevision | DocIssuedAt | DocCount | DocActionCount
  | DocAction nat | DocActionDuplicate nat | DocAssignment nat asn_error

fun actions_loop :: "nat \<Rightarrow> string list \<Rightarrow> string list \<Rightarrow> doc_error option" where
  "actions_loop index seen [] = None"
| "actions_loop index seen (a # as) =
     (if \<not> actionRef a then Some (DocAction index)
      else if a \<in> set seen then Some (DocActionDuplicate index)
      else actions_loop (Suc index) (a # seen) as)"

definition service_generation :: "assignment \<Rightarrow> string" where
  "service_generation a = as_ServiceRef a @ ''/'' @ dec (unat (as_Generation a))"

fun assignments_loop :: "string \<Rightarrow> nat \<Rightarrow> string list \<Rightarrow> string list \<Rightarrow> assignment list \<Rightarrow> doc_error option" where
  "assignments_loop cluster index seenPVE seenService [] = None"
| "assignments_loop cluster index seenPVE seenService (a # as) =
     (case asn_validate cluster a of
        Some e \<Rightarrow> Some (DocAssignment index e)
      | None \<Rightarrow>
          if PVEKey a \<in> set seenPVE then Some (DocAssignment index AsnDuplicatePVE)
          else if service_generation a \<in> set seenService then Some (DocAssignment index AsnDuplicateService)
          else assignments_loop cluster (Suc index) (PVEKey a # seenPVE) (service_generation a # seenService) as)"

definition doc_Validate :: "string \<Rightarrow> assignments \<Rightarrow> doc_error option" where
  "doc_Validate cluster d =
     (if ad_SchemaVersion d \<noteq> inv_SchemaVersion then Some DocSchema
      else if \<not> safeRef (ad_Revision d) then Some DocRevision
      else if is_zero_time (ad_IssuedAt d) then Some DocIssuedAt
      else if length (ad_Assignments d) > maxAssignments then Some DocCount
      else case (case ad_AllowedActions d of
                   None \<Rightarrow> None
                 | Some as \<Rightarrow> if as = [] \<or> length as > 64 then Some DocActionCount else actions_loop 0 [] as) of
        Some e \<Rightarrow> Some e
      | None \<Rightarrow> assignments_loop cluster 0 [] [] (ad_Assignments d))"

text \<open>\<open>Parse\<close>, with the strict JSON decoder (which also rejects trailing values) as an argument.\<close>

datatype parse_error = ParseTooLarge | ParseDecode | ParseInvalid doc_error

definition Parse :: "(bytes \<Rightarrow> assignments option) \<Rightarrow> bytes \<Rightarrow> string \<Rightarrow> parse_error + assignments" where
  "Parse decode contents cluster =
     (if length contents > maxFileBytes then Inl ParseTooLarge
      else case decode contents of
        None \<Rightarrow> Inl ParseDecode
      | Some d \<Rightarrow> (case doc_Validate cluster d of Some e \<Rightarrow> Inl (ParseInvalid e) | None \<Rightarrow> Inr d))"

subsection \<open>The store\<close>

record asn_store =
  st_document :: assignments
  st_byPVE :: "string \<rightharpoonup> assignment"

fun index_assignments :: "assignment list \<Rightarrow> (string \<rightharpoonup> assignment) \<Rightarrow> (string \<rightharpoonup> assignment)" where
  "index_assignments [] ix = ix"
| "index_assignments (a # as) ix = index_assignments as (ix(PVEKey a \<mapsto> a))"

definition Replace :: "assignments \<Rightarrow> asn_store" where
  "Replace d = \<lparr>st_document = d, st_byPVE = index_assignments (ad_Assignments d) Map.empty\<rparr>"

definition Lookup :: "asn_store \<Rightarrow> string \<Rightarrow> string \<Rightarrow> int \<Rightarrow> assignment option" where
  "Lookup s clusterRef guestType vmid =
     st_byPVE s (clusterRef @ ''/'' @ guestType @ ''/'' @ dec_int vmid)"

text \<open>\<open>append([]string(nil), xs...)\<close> is nil when there is nothing to append.\<close>

definition copy_strings :: "string list option \<Rightarrow> string list option" where
  "copy_strings xs = (case xs of None \<Rightarrow> None | Some [] \<Rightarrow> None | Some (y # ys) \<Rightarrow> Some (y # ys))"

definition asn_Snapshot :: "asn_store \<Rightarrow> assignments" where
  "asn_Snapshot s =
     (st_document s)\<lparr>ad_AllowedActions := copy_strings (ad_AllowedActions (st_document s)),
       ad_Assignments := sort_key PVEKey (ad_Assignments (st_document s))\<rparr>"

subsection \<open>Keys determine identities\<close>

lemma key_inject:
  assumes eq: "A @ ''/'' @ G @ ''/'' @ dec_int n = c @ ''/'' @ g @ ''/'' @ dec_int m"
    and no: "CHR ''/'' \<notin> set A" "CHR ''/'' \<notin> set G"
  shows "A = c \<and> G = g \<and> n = m"
proof -
  have "count_list c CHR ''/'' + count_list g CHR ''/'' = 0"
    using arg_cong [OF eq, of "\<lambda>s. count_list s CHR ''/''"] no dec_int_no_slash
    by (simp add: count_list_0_iff [THEN iffD2])
  then have "CHR ''/'' \<notin> set c" "CHR ''/'' \<notin> set g" by (simp_all add: count_list_0_iff)
  then show ?thesis using eq no by (simp add: split_at_slash)
qed

lemma PVEKey_eq:
  assumes "asn_validate cl a = None"
  shows "PVEKey a = c @ ''/'' @ g @ ''/'' @ dec_int v \<longleftrightarrow>
    as_ClusterRef a = c \<and> as_GuestType a = g \<and> as_VMID a = v"
proof -
  have "CHR ''/'' \<notin> set (as_ClusterRef a)" "CHR ''/'' \<notin> set (as_GuestType a)"
    using assms safeRef_no_slash by (auto simp: asn_validate_def split: if_splits)
  then show ?thesis using key_inject unfolding PVEKey_def by blast
qed

lemma service_generation_eq:
  assumes "asn_validate cl a = None" "asn_validate cl b = None"
  shows "service_generation a = service_generation b \<longleftrightarrow>
    as_ServiceRef a = as_ServiceRef b \<and> as_Generation a = as_Generation b"
proof -
  have "CHR ''/'' \<notin> set (as_ServiceRef a)" "CHR ''/'' \<notin> set (as_ServiceRef b)"
    using assms safeRef_no_slash by (auto simp: asn_validate_def split: if_splits)
  then show ?thesis by (auto simp: service_generation_def split_at_slash word_unat_eq_iff)
qed

subsection \<open>What a valid document guarantees\<close>

lemma assignments_loop_ok:
  "assignments_loop cl index seenPVE seenService as = None \<longleftrightarrow>
     list_all (\<lambda>a. asn_validate cl a = None) as \<and>
     distinct (map PVEKey as) \<and> set seenPVE \<inter> PVEKey ` set as = {} \<and>
     distinct (map service_generation as) \<and> set seenService \<inter> service_generation ` set as = {}"
  by (induction cl index seenPVE seenService as rule: assignments_loop.induct)
     (auto split: option.splits)

lemma doc_Validate_assignments:
  assumes "doc_Validate cl d = None"
  shows "list_all (\<lambda>a. asn_validate cl a = None) (ad_Assignments d)"
    "distinct (map PVEKey (ad_Assignments d))" "distinct (map service_generation (ad_Assignments d))"
    "length (ad_Assignments d) \<le> maxAssignments"
  using assms by (auto simp: doc_Validate_def assignments_loop_ok split: if_splits option.splits)

lemma index_assignments_lookup:
  "distinct (map PVEKey as) \<Longrightarrow>
   index_assignments as ix k = Some a \<longleftrightarrow>
     a \<in> set as \<and> PVEKey a = k \<or> k \<notin> PVEKey ` set as \<and> ix k = Some a"
  by (induction as arbitrary: ix) (auto simp: image_iff)

lemma Lookup_Replace:
  assumes "doc_Validate cl d = None"
  shows "Lookup (Replace d) c g v = Some a \<longleftrightarrow>
    a \<in> set (ad_Assignments d) \<and> as_ClusterRef a = c \<and> as_GuestType a = g \<and> as_VMID a = v"
    (is "_ \<longleftrightarrow> ?r")
proof -
  let ?k = "c @ ''/'' @ g @ ''/'' @ dec_int v"
  note v = doc_Validate_assignments [OF assms]
  have "Lookup (Replace d) c g v = Some a \<longleftrightarrow> a \<in> set (ad_Assignments d) \<and> PVEKey a = ?k"
    using v(2) by (simp add: Lookup_def Replace_def index_assignments_lookup)
  also have "\<dots> \<longleftrightarrow> ?r" using PVEKey_eq v(1) by (auto simp: list_all_iff)
  finally show ?thesis .
qed

subsection \<open>Network interfaces\<close>

definition count_where :: "('a \<Rightarrow> bool) \<Rightarrow> 'a list \<Rightarrow> nat" where
  "count_where P xs = length (filter P xs)"

lemma count_where_simps [simp]:
  "count_where P [] = 0" "count_where P (x # xs) = (if P x then 1 else 0) + count_where P xs"
  by (simp_all add: count_where_def)

definition nic_rule :: "nic \<Rightarrow> bool" where
  "nic_rule b \<longleftrightarrow>
     networkRef (nb_Interface b) \<and> (nb_Role b = ''public'' \<or> nb_Role b = ''private'') \<and>
     (nb_Metered b \<longleftrightarrow> nb_Role b = ''public'') \<and> (nb_Primary b \<longrightarrow> nb_Role b = ''public'') \<and>
     validMAC (nb_ExpectedMAC b) \<and> (nb_Bridge b = [] \<longleftrightarrow> nb_VNet b \<noteq> [])"

lemma nic_check_ok: "nic_check seen b = None \<Longrightarrow> nic_rule b \<and> nb_Interface b \<notin> set seen"
  by (auto simp: nic_check_def nic_rule_def split: if_splits)

lemma nic_loop_ok:
  assumes "nic_loop index seen (p, m, u) bs = Inr (p', m', u')"
  shows "list_all nic_rule bs \<and> distinct (map nb_Interface bs) \<and> set seen \<inter> nb_Interface ` set bs = {} \<and>
    p' = p + count_where nb_Primary bs \<and> m' = m + count_where nb_Monitoring bs \<and>
    u' = u + count_where (\<lambda>b. nb_Role b = ''public'') bs"
  using assms
proof (induction bs arbitrary: index seen p m u)
  case (Cons b bs)
  then have c: "nic_check seen b = None" by (auto split: option.splits)
  then show ?case using Cons.prems Cons.IH nic_check_ok [OF c] by fastforce
qed simp

lemma validateNICBindings_ok:
  assumes "validateNICBindings bs = None" "bs \<noteq> []"
  shows "list_all nic_rule bs \<and> distinct (map nb_Interface bs) \<and> count_where nb_Primary bs = 1 \<and>
    count_where nb_Monitoring bs = 1 \<and> length bs \<le> 32"
  using assms
  by (auto simp: validateNICBindings_def split: if_splits sum.splits prod.splits dest!: nic_loop_ok)

lemma count_public_ok:
  "list_all nic_rule bs \<Longrightarrow> count_public n bs = Some (n + count_where nb_Metered bs)"
  by (induction bs arbitrary: n) (auto simp: nic_rule_def)

lemma primary_is_metered:
  "list_all nic_rule bs \<Longrightarrow> count_where nb_Primary bs \<le> count_where nb_Metered bs"
  by (induction bs) (auto simp: nic_rule_def)

lemma aggregate_supported:
  assumes "list_all nic_rule (as_NICBindings a)" "as_NICBindings a \<noteq> []"
    and "count_where nb_Primary (as_NICBindings a) = 1"
  shows "cap_Supported (AggregateMeteringCapability a) \<longleftrightarrow> length (as_NICBindings a) = 1"
proof -
  obtain b bs where b: "as_NICBindings a = b # bs" using assms(2) by (cases "as_NICBindings a") auto
  show ?thesis
  proof (cases bs)
    case Nil
    then have "nb_Primary b" using assms(3) b by (simp split: if_splits)
    then have "nb_Role b = ''public''" "nb_Metered b" using assms(1) b by (auto simp: nic_rule_def)
    then show ?thesis using Nil b by (simp add: AggregateMeteringCapability_def)
  next
    case (Cons b2 bs2)
    then show ?thesis using b by (simp add: AggregateMeteringCapability_def)
  qed
qed

lemma asn_validate_nics: "asn_validate cl a = None \<Longrightarrow> validateNICBindings (as_NICBindings a) = None"
  by (auto simp: asn_validate_def split: if_splits)

subsection \<open>A concrete document\<close>

definition ex_nic :: nic where
  "ex_nic = \<lparr>nb_Interface = ''net0'', nb_Role = ''public'', nb_Primary = True, nb_Metered = True,
    nb_Monitoring = True, nb_ExpectedMAC = ''02:00:00:00:00:01'', nb_Bridge = ''vmbr0'', nb_VNet = '''',
    nb_VLAN = None, nb_MTU = Some 1500, nb_IPFilterPolicy = ''required''\<rparr>"

definition ex_assignment :: assignment where
  "ex_assignment = \<lparr>as_ServiceRef = ''svc-1'', as_ClusterRef = ''cluster-a'', as_NodeRef = '''', as_VMID = 101,
    as_Generation = 3, as_InstanceUUID = ''inst-1'', as_GuestType = ''qemu'', as_BillingState = ''shadow'',
    as_CutoverAt = None, as_NICBindings = [ex_nic, ex_nic\<lparr>nb_Interface := ''net31'', nb_Role := ''private'',
      nb_Primary := False, nb_Metered := False, nb_Monitoring := False, nb_Bridge := '''', nb_VNet := ''vnet1''\<rparr>]\<rparr>"

definition ex_assignments :: assignments where
  "ex_assignments = \<lparr>ad_SchemaVersion = 1, ad_Revision = ''rev-1'', ad_IssuedAt = GoTime 5 UTC,
    ad_AllowedActions = Some [''vm.start''], ad_Assignments = [ex_assignment]\<rparr>"

lemma ex_assignment_valid: "asn_validate ''cluster-a'' ex_assignment = None"
  by code_simp

lemma ex_assignments_valid: "doc_Validate ''cluster-a'' ex_assignments = None"
  using ex_assignment_valid
  by (simp add: doc_Validate_def ex_assignments_def inv_SchemaVersion_def maxAssignments_def
      safeRef_def actionRef_def char_class_defs is_zero_time_def)

subsection \<open>Properties\<close>

text \<open>
  In a store filled from a validated document, \<open>Lookup\<close> of a cluster, guest type and VMID
  (any strings, slashes included) finds exactly the assignment with these three values, and a
  service generation belongs to at most one guest.
\<close>

theorem lookup_finds_assignment:
  assumes "doc_Validate cl d = None"
  shows "(Lookup (Replace d) c g v = Some a \<longleftrightarrow>
      a \<in> set (ad_Assignments d) \<and> as_ClusterRef a = c \<and> as_GuestType a = g \<and> as_VMID a = v) \<and>
    (a \<in> set (ad_Assignments d) \<and> b \<in> set (ad_Assignments d) \<and>
      as_ServiceRef a = as_ServiceRef b \<and> as_Generation a = as_Generation b \<longrightarrow> a = b)"
proof -
  note v = doc_Validate_assignments [OF assms]
  have "a = b" if "a \<in> set (ad_Assignments d)" "b \<in> set (ad_Assignments d)"
    "as_ServiceRef a = as_ServiceRef b" "as_Generation a = as_Generation b"
  proof -
    have "service_generation a = service_generation b" using that by (simp add: service_generation_def)
    then show ?thesis using v(3) that by (auto simp: distinct_map inj_on_def)
  qed
  then show ?thesis using Lookup_Replace [OF assms] by blast
qed

theorem lookup_finds_assignment_witness:
  "Lookup (Replace ex_assignments) ''cluster-a'' ''qemu'' 101 = Some ex_assignment"
proof -
  have "ex_assignment \<in> set (ad_Assignments ex_assignments)" by (simp add: ex_assignments_def)
  moreover have "as_ClusterRef ex_assignment = ''cluster-a''" "as_GuestType ex_assignment = ''qemu''"
    "as_VMID ex_assignment = 101" by (simp_all add: ex_assignment_def)
  ultimately show ?thesis using lookup_finds_assignment [OF ex_assignments_valid] by blast
qed

text \<open>
  The network policy of a validated assignment is safe to bill from.  Its interfaces are
  distinct, exactly one is primary and exactly one is monitored, an interface is metered exactly
  when it is public, and the primary one is public.  Host counters per interface are usable
  exactly when there are interfaces, the guest aggregate exactly when there is one.
\<close>

theorem validated_network_policy:
  assumes "asn_validate cl a = None"
  shows "(as_NICBindings a \<noteq> [] \<longrightarrow> count_where nb_Primary (as_NICBindings a) = 1 \<and>
      count_where nb_Monitoring (as_NICBindings a) = 1) \<and>
    distinct (map nb_Interface (as_NICBindings a)) \<and>
    list_all (\<lambda>b. (nb_Metered b \<longleftrightarrow> nb_Role b = ''public'') \<and> (nb_Primary b \<longrightarrow> nb_Role b = ''public'') \<and>
      validMAC (nb_ExpectedMAC b)) (as_NICBindings a) \<and>
    (cap_Supported (PerNICMeteringCapability a) \<longleftrightarrow> as_NICBindings a \<noteq> []) \<and>
    (cap_Supported (AggregateMeteringCapability a) \<longleftrightarrow> length (as_NICBindings a) = 1)"
proof (cases "as_NICBindings a = []")
  case True
  then show ?thesis by (simp add: PerNICMeteringCapability_def AggregateMeteringCapability_def)
next
  case False
  note ok = validateNICBindings_ok [OF asn_validate_nics [OF assms] False]
  have rules: "list_all nic_rule (as_NICBindings a)" using ok by blast
  have "cap_Supported (PerNICMeteringCapability a)"
    using False ok count_public_ok [OF rules, of 0] primary_is_metered [OF rules]
    by (simp add: PerNICMeteringCapability_def)
  moreover have "cap_Supported (AggregateMeteringCapability a) \<longleftrightarrow> length (as_NICBindings a) = 1"
    using aggregate_supported [OF rules False] ok by blast
  moreover have "list_all (\<lambda>b. (nb_Metered b \<longleftrightarrow> nb_Role b = ''public'') \<and>
      (nb_Primary b \<longrightarrow> nb_Role b = ''public'') \<and> validMAC (nb_ExpectedMAC b)) (as_NICBindings a)"
    by (rule list.pred_mono_strong [OF rules]) (simp add: nic_rule_def)
  ultimately show ?thesis using False ok by blast
qed

theorem validated_network_policy_witness:
  "cap_Supported (PerNICMeteringCapability ex_assignment) \<and>
   \<not> cap_Supported (AggregateMeteringCapability ex_assignment)"
  using validated_network_policy [OF ex_assignment_valid] by (simp add: ex_assignment_def)

end
