(* ===== verification/Protocol.thy ===== *)
theory Protocol
  imports Go_Text
begin

section \<open>The wire format (\<open>internal/protocol/protocol.go\<close>, \<open>signature.go\<close>)\<close>

text \<open>
  Counters, identifiers, usage batches and the signature of HTTP requests.  SHA-256 and HMAC
  are fields of \<open>crypto\<close>; no property assumes anything about them.  A request is what the
  signature reads of it: method, escaped path, raw query and the header fields.
\<close>

definition Version :: int where
  "Version = 1"

definition batch_kind_valid :: "string \<Rightarrow> bool" where
  "batch_kind_valid k \<longleftrightarrow> k = ''metering'' \<or> k = ''telemetry''"

subsection \<open>Counters\<close>

text \<open>
  A counter travels as a decimal JSON string.  \<open>UnmarshalJSON\<close> scans the decoded text and prints
  the value again, so every text but the canonical one is refused.
\<close>

definition counter_text :: "u64 \<Rightarrow> string" where
  "counter_text c = dec (unat c)"

definition counter_decode :: "string \<Rightarrow> u64 option" where
  "counter_decode txt =
     (case parse_uint txt of None \<Rightarrow> None | Some v \<Rightarrow> if counter_text v = txt then Some v else None)"

lemma counter_roundtrip: "counter_decode (counter_text c) = Some c"
  by (simp add: counter_decode_def counter_text_def parse_uint_dec)

lemma counter_canonical: "counter_decode txt = Some c \<Longrightarrow> txt = counter_text c"
  by (auto simp: counter_decode_def split: option.splits if_splits)

subsection \<open>Identifiers\<close>

text \<open>\<open>NewID\<close> on the sixteen random bytes, \<open>NewNonce\<close> on twenty-four.\<close>

definition NewID :: "8 word list \<Rightarrow> string" where
  "NewID raw0 =
     (let raw1 = raw0[6 := or (and (raw0 ! 6) 0x0f) 0x40]; raw = raw1[8 := or (and (raw1 ! 8) 0x3f) 0x80]
      in hex_encode (take 4 raw) @ ''-'' @ hex_encode (take 2 (drop 4 raw)) @ ''-'' @
         hex_encode (take 2 (drop 6 raw)) @ ''-'' @ hex_encode (take 2 (drop 8 raw)) @ ''-'' @
         hex_encode (drop 10 raw))"

definition NewNonce :: "8 word list \<Rightarrow> string" where
  "NewNonce raw = hex_encode raw"

subsection \<open>Usage batches\<close>

record usage =
  u_ServiceRef :: string
  u_ClusterRef :: string
  u_NodeRef :: string
  u_VMID :: int
  u_Generation :: u64
  u_InstanceUUID :: string
  u_GuestType :: string
  u_EventID :: string
  u_CounterEpoch :: string
  u_Sequence :: u64
  u_Source :: string
  u_InterfaceRef :: string
  u_CanonicalMAC :: string
  u_NetworkRole :: string
  u_Metered :: bool
  u_BillingState :: string
  u_CutoverAt :: "gotime option"
  u_ObservedAt :: gotime
  u_IngressBytes :: u64
  u_EgressBytes :: u64

record usage_batch =
  ub_SchemaVersion :: int
  ub_BatchID :: string
  ub_AgentRef :: string
  ub_CollectorRef :: string
  ub_SourceRef :: string
  ub_ClusterRef :: string
  ub_Mode :: string
  ub_Sequence :: u64
  ub_ObservedAt :: gotime
  ub_Events :: "usage list"

definition validUsageInterface :: "string \<Rightarrow> bool" where
  "validUsageInterface v \<longleftrightarrow>
     has_prefix ''net'' v \<and> 4 \<le> length v \<and> length v \<le> 5 \<and>
     (case atoi (trim_prefix ''net'' v) of
        None \<Rightarrow> False
      | Some index \<Rightarrow> 0 \<le> index \<and> index \<le> 31 \<and> v = ''net'' @ dec_int index)"

definition validUsageMAC :: "string \<Rightarrow> bool" where
  "validUsageMAC v \<longleftrightarrow>
     v \<noteq> [] \<and> v = to_upper v \<and>
     (case parseMAC v of
        None \<Rightarrow> False
      | Some bs \<Rightarrow> length bs = 6 \<and> even (hd bs) \<and> list_ex (\<lambda>b. b \<noteq> 0) bs)"

datatype usage_error = UsageBatchInvalid | UsageMode | UsageEvent | UsageActive | UsageInterface
  | UsagePartial | UsageSource

definition event_check :: "usage_batch \<Rightarrow> usage \<Rightarrow> usage_error option" where
  "event_check b e =
     (if u_ServiceRef e = [] \<or> u_ClusterRef e \<noteq> ub_ClusterRef b \<or> u_VMID e < 1 \<or> u_Generation e = 0 \<or>
         u_InstanceUUID e = [] \<or> u_EventID e = [] \<or> u_CounterEpoch e = [] \<or> u_Sequence e = 0 \<or>
         is_zero_time (u_ObservedAt e) \<or> (u_GuestType e \<noteq> ''qemu'' \<and> u_GuestType e \<noteq> ''lxc'') \<or>
         (u_BillingState e \<noteq> ''shadow'' \<and> u_BillingState e \<noteq> ''active'') then Some UsageEvent
      else if ub_Mode b \<noteq> ''production'' \<and> u_BillingState e = ''active'' then Some UsageActive
      else if u_InterfaceRef e \<noteq> [] then
        (if \<not> validUsageInterface (u_InterfaceRef e) \<or> \<not> validUsageMAC (u_CanonicalMAC e) \<or>
            u_NetworkRole e \<noteq> ''public'' \<or> \<not> u_Metered e \<or> u_Source e \<noteq> ''pve-host-netdev''
         then Some UsageInterface else None)
      else if u_CanonicalMAC e \<noteq> [] \<or> u_NetworkRole e \<noteq> [] \<or> u_Metered e then Some UsagePartial
      else if u_Source e \<noteq> ''pve-cluster-resources'' then Some UsageSource
      else None)"

fun first_error :: "('a \<Rightarrow> 'e option) \<Rightarrow> 'a list \<Rightarrow> 'e option" where
  "first_error f [] = None"
| "first_error f (x # xs) = (case f x of Some e \<Rightarrow> Some e | None \<Rightarrow> first_error f xs)"

definition UsageBatch_Validate :: "usage_batch \<Rightarrow> usage_error option" where
  "UsageBatch_Validate b =
     (if ub_SchemaVersion b \<noteq> Version \<or> ub_BatchID b = [] \<or> ub_AgentRef b = [] \<or> ub_CollectorRef b = [] \<or>
         ub_SourceRef b = [] \<or> ub_ClusterRef b = [] \<or> is_zero_time (ub_ObservedAt b) \<or> ub_Events b = []
      then Some UsageBatchInvalid
      else if ub_Mode b \<noteq> ''test'' \<and> ub_Mode b \<noteq> ''production'' then Some UsageMode
      else first_error (event_check b) (ub_Events b))"

lemma first_error_None [simp]: "first_error f xs = None \<longleftrightarrow> list_all (\<lambda>x. f x = None) xs"
  by (induction xs) (auto split: option.splits)

subsection \<open>Request signatures\<close>

record crypto =
  sha256 :: "bytes \<Rightarrow> 8 word list"
  hmac_sha256 :: "bytes \<Rightarrow> bytes \<Rightarrow> 8 word list"

record request =
  rq_Method :: string
  rq_EscapedPath :: string
  rq_RawQuery :: string
  rq_Header :: "string \<Rightarrow> string"

definition HeaderKeyID :: string where
  "HeaderKeyID = ''X-PPFlight-Key-Id''"

definition HeaderTimestamp :: string where
  "HeaderTimestamp = ''X-PPFlight-Timestamp''"

definition HeaderNonce :: string where
  "HeaderNonce = ''X-PPFlight-Nonce''"

definition HeaderBodyHash :: string where
  "HeaderBodyHash = ''X-PPFlight-Content-SHA256''"

definition HeaderSignature :: string where
  "HeaderSignature = ''X-PPFlight-Signature''"

definition BodyHash :: "crypto \<Rightarrow> bytes \<Rightarrow> string" where
  "BodyHash cr body = hex_encode (sha256 cr body)"

definition newline :: string where
  "newline = [CHR 0x0A]"

definition CanonicalRequest :: "string \<Rightarrow> string \<Rightarrow> string \<Rightarrow> string \<Rightarrow> string \<Rightarrow> string \<Rightarrow> string" where
  "CanonicalRequest method target keyID timestamp nonce bodyHash =
     to_upper method @ newline @ target @ newline @
     ''x-ppflight-key-id:'' @ keyID @ newline @
     ''x-ppflight-timestamp:'' @ timestamp @ newline @
     ''x-ppflight-nonce:'' @ nonce @ newline @
     ''x-ppflight-content-sha256:'' @ bodyHash"

definition SignCanonical :: "crypto \<Rightarrow> bytes \<Rightarrow> string \<Rightarrow> string" where
  "SignCanonical cr secret canonical = hex_encode (hmac_sha256 cr secret canonical)"

definition RequestTarget :: "request \<Rightarrow> string" where
  "RequestTarget r =
     (let target = (if rq_EscapedPath r = [] then ''/'' else rq_EscapedPath r)
      in if rq_RawQuery r \<noteq> [] then target @ ''?'' @ rq_RawQuery r else target)"

text \<open>
  Seconds since 1970 of an instant, and \<open>time.Unix\<close>, which adds the offset of the epoch in 64-bit
  arithmetic.
\<close>

definition unix_epoch :: int where
  "unix_epoch = 62135596800 * second"

definition time_unix :: "gotime \<Rightarrow> int" where
  "time_unix t = (instant t - unix_epoch) div second"

definition from_unix :: "int \<Rightarrow> gotime" where
  "from_unix s = GoTime (((s + 62135596800 + 2 ^ 63) mod 2 ^ 64 - 2 ^ 63) * second) UTC"

datatype sign_error = SignKey | SignNonce

definition SignRequest :: "crypto \<Rightarrow> request \<Rightarrow> bytes \<Rightarrow> string \<Rightarrow> bytes \<Rightarrow> gotime \<Rightarrow> string \<Rightarrow>
    8 word list option \<Rightarrow> sign_error + request" where
  "SignRequest cr r body keyID secret now nonce rnd =
     (if keyID = [] \<or> secret = [] then Inl SignKey
      else case (if nonce = [] then map_option NewNonce rnd else Some nonce) of
        None \<Rightarrow> Inl SignNonce
      | Some nonce \<Rightarrow>
          (let stamp = dec_int (time_unix (to_utc now)); hash = BodyHash cr body;
               sig = SignCanonical cr secret
                       (CanonicalRequest (rq_Method r) (RequestTarget r) keyID stamp nonce hash)
           in Inr (r\<lparr>rq_Header := (rq_Header r)(HeaderKeyID := keyID, HeaderTimestamp := stamp,
                  HeaderNonce := nonce, HeaderBodyHash := hash, HeaderSignature := sig)\<rparr>)))"

datatype verify_error = VfNoResolver | VfMissing | VfNonce | VfBody | VfTimestamp | VfSkew | VfKey | VfSignature

text \<open>\<open>resolve\<close> may be nil; \<open>clock\<close> is what \<open>time.Now\<close> returns when the options carry no time.\<close>

definition VerifyRequest :: "crypto \<Rightarrow> gotime \<Rightarrow> request \<Rightarrow> bytes \<Rightarrow> (string \<Rightarrow> bytes option) option \<Rightarrow>
    gotime \<Rightarrow> int \<Rightarrow> verify_error option" where
  "VerifyRequest cr clock r body resolve optNow optSkew =
     (case resolve of
        None \<Rightarrow> Some VfNoResolver
      | Some rslv \<Rightarrow>
          let keyID = rq_Header r HeaderKeyID; stamp = rq_Header r HeaderTimestamp;
              nonce = rq_Header r HeaderNonce; providedHash = rq_Header r HeaderBodyHash;
              signature = rq_Header r HeaderSignature in
          if keyID = [] \<or> stamp = [] \<or> nonce = [] \<or> providedHash = [] \<or> signature = [] then Some VfMissing
          else if length nonce < 16 \<or> length nonce > 256 then Some VfNonce
          else if providedHash \<noteq> BodyHash cr body then Some VfBody
          else case atoi stamp of
            None \<Rightarrow> Some VfTimestamp
          | Some seconds \<Rightarrow>
              let now = (if is_zero_time optNow then clock else optNow);
                  maxSkew = (if optSkew = 0 then 5 * minute else optSkew);
                  delta = time_sub now (from_unix seconds) in
              if delta > maxSkew \<or> delta < - maxSkew then Some VfSkew
              else case rslv keyID of
                None \<Rightarrow> Some VfKey
              | Some secret \<Rightarrow>
                  let expected = SignCanonical cr secret
                        (CanonicalRequest (rq_Method r) (RequestTarget r) keyID stamp nonce providedHash)
                  in if to_lower signature \<noteq> expected then Some VfSignature else None)"

subsection \<open>Identifiers are version-4 UUIDs\<close>

lemma match_hex_groups_append:
  "list_all is_lower_hex w \<Longrightarrow> match_hex_groups (length w # m # ns) (w @ CHR ''-'' # s) = match_hex_groups (m # ns) s"
  by (simp add: nth_append)

definition id_layout :: "8 word list \<Rightarrow> string" where
  "id_layout raw = hex_encode (take 4 raw) @ ''-'' @ hex_encode (take 2 (drop 4 raw)) @ ''-'' @
     hex_encode (take 2 (drop 6 raw)) @ ''-'' @ hex_encode (take 2 (drop 8 raw)) @ ''-'' @
     hex_encode (drop 10 raw)"

definition id_stamp :: "8 word list \<Rightarrow> 8 word list" where
  "id_stamp raw = raw[6 := or (and (raw ! 6) 0x0f) 0x40, 8 := or (and (raw ! 8) 0x3f) 0x80]"

lemma NewID_layout: "NewID raw = id_layout (id_stamp raw)"
  by (simp add: NewID_def id_layout_def id_stamp_def Let_def)

lemma id_layout_uuid:
  assumes "length raw = 16"
  shows "uuidRE (id_layout raw)"
proof -
  have "match_hex_groups [8, 4, 4, 4, 12] (id_layout raw)"
    using match_hex_groups_append [OF hex_encode_lower, of "take 4 raw" 4 "[4, 4, 12]"]
      match_hex_groups_append [OF hex_encode_lower, of "take 2 (drop 4 raw)" 4 "[4, 12]"]
      match_hex_groups_append [OF hex_encode_lower, of "take 2 (drop 6 raw)" 4 "[12]"]
      match_hex_groups_append [OF hex_encode_lower, of "take 2 (drop 8 raw)" 12 "[]"]
    by (simp add: id_layout_def assms hex_encode_lower del: match_hex_groups.simps(3))
  then show ?thesis by (simp add: uuidRE_def)
qed

lemma id_layout_inject:
  assumes "length xs = 16" "length ys = 16" "id_layout xs = id_layout ys"
  shows "xs = ys"
proof -
  have eq: "take 4 xs = take 4 ys" "take 2 (drop 4 xs) = take 2 (drop 4 ys)"
    "take 2 (drop 6 xs) = take 2 (drop 6 ys)" "take 2 (drop 8 xs) = take 2 (drop 8 ys)"
    "drop 10 xs = drop 10 ys"
    using assms(3) by (simp_all add: id_layout_def assms(1,2))
  have "take 6 zs = take 4 zs @ take 2 (drop 4 zs)" "take 8 zs = take 6 zs @ take 2 (drop 6 zs)"
    "take 10 zs = take 8 zs @ take 2 (drop 8 zs)" for zs :: "8 word list"
    using take_add [of 4 2 zs] take_add [of 6 2 zs] take_add [of 8 2 zs] by simp_all
  then have "take 10 xs = take 10 ys" using eq by simp
  then show ?thesis using eq(5) by (metis append_take_drop_id)
qed

lemma id_stamp_length [simp]: "length (id_stamp raw) = length raw"
  by (simp add: id_stamp_def)

lemma NewID_uuid: "length raw = 16 \<Longrightarrow> uuidRE (NewID raw)"
  by (simp add: NewID_layout id_layout_uuid)

lemma uuid_is_commandID:
  assumes "length raw = 16"
  shows "commandIDRE (NewID raw)"
proof -
  obtain b bs where raw: "raw = b # bs" using assms by (cases raw) auto
  have hx: "list_all (\<lambda>c. is_alnum c \<or> c \<in> set ''._:-'') (hex_encode xs)" for xs
    by (rule list.pred_mono_strong [OF hex_encode_lower]) (auto simp: char_class_defs)
  have "list_all (\<lambda>c. is_alnum c \<or> c \<in> set ''._:-'') (NewID raw)"
    by (simp add: NewID_layout id_layout_def hx del: set_simps) simp
  moreover have "length (NewID raw) = 36" using NewID_uuid [OF assms] by (rule uuidRE_length)
  moreover have "is_alnum (hd (NewID raw))"
    using byte_nibbles [of b]
    by (simp add: NewID_layout id_layout_def id_stamp_def raw hex_encode_def) (auto simp: hex_digit_def char_class_defs)
  ultimately show ?thesis by (cases "NewID raw") (auto simp: commandIDRE_def)
qed

lemma hex_digit_values:
  "hex_digit 4 = CHR ''4''" "hex_digit 8 = CHR ''8''" "hex_digit 9 = CHR ''9''" "hex_digit 10 = CHR ''a''"
  "hex_digit 11 = CHR ''b''"
  by code_simp+

lemma stamp_version: "unat (or (and x 0x0f) 0x40 :: 8 word) div 16 = 4"
proof -
  have "drop_bit 4 (or (and x 0x0f) 0x40) = (4 :: 8 word)"
    by (simp add: drop_bit_or drop_bit_and)
  then have "unat (drop_bit 4 (or (and x 0x0f) 0x40 :: 8 word)) = 4" by simp
  then show ?thesis by (simp add: drop_bit_eq_div unat_div)
qed

lemma stamp_variant: "unat (or (and x 0x3f) 0x80 :: 8 word) div 16 \<in> {8, 9, 10, 11}"
proof -
  have "drop_bit 6 (or (and x 0x3f) 0x80) = (2 :: 8 word)"
    by (simp add: drop_bit_or drop_bit_and)
  then have "unat (drop_bit 6 (or (and x 0x3f) 0x80 :: 8 word)) = 2" by simp
  then have "unat (or (and x 0x3f) 0x80 :: 8 word) div 64 = 2"
    by (simp add: drop_bit_eq_div unat_div)
  then show ?thesis by auto
qed

lemma stamp_bits:
  "or (and x 0x0f) 0x40 = (or (and y 0x0f) 0x40 :: 8 word) \<longleftrightarrow> and x 0x0f = and y 0x0f"
  "or (and x 0x3f) 0x80 = (or (and y 0x3f) 0x80 :: 8 word) \<longleftrightarrow> and x 0x3f = and y 0x3f"
proof -
  have "and (or (and x 0x0f) 0x40) 0x0f = and x (0x0f :: 8 word)"
    "and (or (and x 0x3f) 0x80) 0x3f = and x (0x3f :: 8 word)" for x
    by (simp_all add: bit.conj_disj_distrib2 and.assoc)
  then show "or (and x 0x0f) 0x40 = (or (and y 0x0f) 0x40 :: 8 word) \<longleftrightarrow> and x 0x0f = and y 0x0f"
    "or (and x 0x3f) 0x80 = (or (and y 0x3f) 0x80 :: 8 word) \<longleftrightarrow> and x 0x3f = and y 0x3f"
    by metis+
qed

lemma hex_pair:
  assumes "Suc i < length xs"
  shows "hex_encode (take 2 (drop i xs)) = [hex_digit (unat (xs ! i) div 16), hex_digit (unat (xs ! i) mod 16),
    hex_digit (unat (xs ! Suc i) div 16), hex_digit (unat (xs ! Suc i) mod 16)]"
proof -
  have "take 2 (drop i xs) = [xs ! i, xs ! Suc i]"
    using assms by (simp add: numeral_2_eq_2 take_Suc_conv_app_nth)
  then show ?thesis by (simp add: hex_encode_def)
qed

lemma id_stamp_nth:
  assumes "length raw = 16" "i < 16"
  shows "id_stamp raw ! i = (if i = 6 then or (and (raw ! 6) 0x0f) 0x40
    else if i = 8 then or (and (raw ! 8) 0x3f) 0x80 else raw ! i)"
  using assms by (simp add: id_stamp_def nth_list_update)

lemma id_stamp_eq:
  assumes "length raw = 16" "length raw' = 16"
  shows "id_stamp raw = id_stamp raw' \<longleftrightarrow>
      list_all (\<lambda>i. i = 6 \<or> i = 8 \<or> raw ! i = raw' ! i) [0..<16] \<and>
      and (raw ! 6) 0x0f = and (raw' ! 6) 0x0f \<and> and (raw ! 8) 0x3f = and (raw' ! 8) 0x3f"
proof -
  have "id_stamp raw = id_stamp raw' \<longleftrightarrow> (\<forall>i<16. id_stamp raw ! i = id_stamp raw' ! i)"
    using assms by (simp add: list_eq_iff_nth_eq)
  also have "\<dots> \<longleftrightarrow> (\<forall>i<16. i = 6 \<or> i = 8 \<or> raw ! i = raw' ! i) \<and>
      id_stamp raw ! 6 = id_stamp raw' ! 6 \<and> id_stamp raw ! 8 = id_stamp raw' ! 8"
    using id_stamp_nth [OF assms(1)] id_stamp_nth [OF assms(2)] by (auto split: if_splits)
  also have "id_stamp raw ! 6 = id_stamp raw' ! 6 \<longleftrightarrow> and (raw ! 6) 0x0f = and (raw' ! 6) 0x0f"
    using id_stamp_nth [OF assms(1), of 6] id_stamp_nth [OF assms(2), of 6] by (simp add: stamp_bits)
  also have "id_stamp raw ! 8 = id_stamp raw' ! 8 \<longleftrightarrow> and (raw ! 8) 0x3f = and (raw' ! 8) 0x3f"
    using id_stamp_nth [OF assms(1), of 8] id_stamp_nth [OF assms(2), of 8] by (simp add: stamp_bits)
  finally show ?thesis by (simp add: list_all_iff Ball_def)
qed

subsection \<open>Signatures\<close>

lemma hex_encode_Nil [simp]: "hex_encode bs = [] \<longleftrightarrow> bs = []"
  by (cases bs) (auto simp: hex_encode_def)

lemma headers_differ [simp]:
  "HeaderKeyID \<noteq> HeaderTimestamp" "HeaderKeyID \<noteq> HeaderNonce" "HeaderKeyID \<noteq> HeaderBodyHash"
  "HeaderKeyID \<noteq> HeaderSignature" "HeaderTimestamp \<noteq> HeaderNonce" "HeaderTimestamp \<noteq> HeaderBodyHash"
  "HeaderTimestamp \<noteq> HeaderSignature" "HeaderNonce \<noteq> HeaderBodyHash" "HeaderNonce \<noteq> HeaderSignature"
  "HeaderBodyHash \<noteq> HeaderSignature"
  by (simp_all add: HeaderKeyID_def HeaderTimestamp_def HeaderNonce_def HeaderBodyHash_def HeaderSignature_def)

lemma RequestTarget_header [simp]: "RequestTarget (r\<lparr>rq_Header := h\<rparr>) = RequestTarget r"
  by (simp add: RequestTarget_def Let_def)

lemma from_unix_range:
  assumes "- (2 ^ 63) \<le> s + 62135596800" "s + 62135596800 < 2 ^ 63"
  shows "instant (from_unix s) = unix_epoch + s * second"
proof -
  have "(s + 62135596800 + 2 ^ 63) mod 2 ^ 64 = s + 62135596800 + 2 ^ 63"
    using assms by (intro mod_pos_pos_trivial) auto
  then show ?thesis by (simp add: from_unix_def unix_epoch_def algebra_simps)
qed

lemma second_pos [simp]: "0 < second" "second \<noteq> 0"
  by (simp_all add: second_def)

lemma unix_floor:
  "unix_epoch + time_unix t * second \<le> instant t" "instant t < unix_epoch + time_unix t * second + second"
proof -
  let ?d = "instant t - unix_epoch"
  have "?d div second * second + ?d mod second = ?d" by (rule div_mult_mod_eq)
  moreover have "0 \<le> ?d mod second" "?d mod second < second" by simp_all
  ultimately show "unix_epoch + time_unix t * second \<le> instant t"
    "instant t < unix_epoch + time_unix t * second + second" unfolding time_unix_def by linarith+
qed

lemma split_newline:
  assumes "CHR 0x0A \<notin> set a" "CHR 0x0A \<notin> set b"
  shows "a @ newline @ u = b @ newline @ v \<longleftrightarrow> a = b \<and> u = v"
  using split_at_slash [OF assms] by (simp add: newline_def)

lemma upper_char_newline: "to_upper_char c = CHR 0x0A \<longleftrightarrow> c = CHR 0x0A"
proof (cases "is_lower c")
  case True
  then have r: "97 \<le> code_of c" "code_of c \<le> 122" by (simp_all add: is_lower_def)
  then have "(code_of c - 32) mod 256 = code_of c - 32" by (intro mod_less) linarith
  then have "of_char (to_upper_char c) = code_of c - 32" using True by (simp add: to_upper_char_def)
  then have "of_char (to_upper_char c) \<noteq> (10 :: nat)" using r by linarith
  then have "to_upper_char c \<noteq> CHR 0x0A" by auto
  moreover have "c \<noteq> CHR 0x0A" using True by (auto simp: char_class_defs)
  ultimately show ?thesis by simp
qed (simp add: to_upper_char_def)

lemma upper_newline [simp]: "CHR 0x0A \<in> set (to_upper m) \<longleftrightarrow> CHR 0x0A \<in> set m"
proof (induction m)
  case (Cons c m)
  then show ?case using upper_char_newline [of c] by (auto simp: to_upper_def)
qed (simp add: to_upper_def)

subsection \<open>Properties\<close>

text \<open>
  \<open>NewID\<close> on any sixteen random bytes is a version-4 UUID that the identifier patterns of
  commands, receipts and lifecycle records accept, and two identifiers are equal exactly when
  their random bytes agree outside the six bits that the format fixes.
\<close>

theorem new_id_is_uuid4:
  assumes "length raw = 16" "length raw' = 16"
  shows "uuidRE (NewID raw) \<and> commandIDRE (NewID raw) \<and> NewID raw ! 14 = CHR ''4'' \<and>
    NewID raw ! 19 \<in> set ''89ab'' \<and>
    (NewID raw = NewID raw' \<longleftrightarrow>
      list_all (\<lambda>i. i = 6 \<or> i = 8 \<or> raw ! i = raw' ! i) [0..<16] \<and>
      and (raw ! 6) 0x0f = and (raw' ! 6) 0x0f \<and> and (raw ! 8) 0x3f = and (raw' ! 8) 0x3f)"
proof -
  have "NewID raw ! 14 = hex_digit (unat (id_stamp raw ! 6) div 16)"
    "NewID raw ! 19 = hex_digit (unat (id_stamp raw ! 8) div 16)"
    using assms(1)
    by (simp_all add: NewID_layout id_layout_def nth_append hex_pair)
  then have "NewID raw ! 14 = CHR ''4''" "NewID raw ! 19 \<in> set ''89ab''"
    using assms(1) stamp_version [of "raw ! 6"] stamp_variant [of "raw ! 8"]
    by (auto simp: id_stamp_def hex_digit_values)
  moreover have "NewID raw = NewID raw' \<longleftrightarrow> id_stamp raw = id_stamp raw'"
    using assms id_layout_inject [of "id_stamp raw" "id_stamp raw'"] by (auto simp: NewID_layout)
  moreover have "id_stamp raw = id_stamp raw' \<longleftrightarrow>
      list_all (\<lambda>i. i = 6 \<or> i = 8 \<or> raw ! i = raw' ! i) [0..<16] \<and>
      and (raw ! 6) 0x0f = and (raw' ! 6) 0x0f \<and> and (raw ! 8) 0x3f = and (raw' ! 8) 0x3f"
    using assms by (rule id_stamp_eq)
  ultimately show ?thesis using NewID_uuid uuid_is_commandID assms by blast
qed

theorem new_id_is_uuid4_witness:
  "uuidRE (NewID (replicate 16 0xff)) \<and> NewID (replicate 16 0xff) = NewID ((replicate 16 0xff)[6 := 0x0f])"
  using new_id_is_uuid4 [of "replicate 16 0xff" "(replicate 16 0xff)[6 := 0x0f]"]
  by (simp add: nth_list_update list_all_iff)

text \<open>
  A request signed by \<open>SignRequest\<close> is accepted by \<open>VerifyRequest\<close> under the same key with
  the default skew, from five minutes before the signing time to four minutes and fifty-nine
  seconds after it, whether the nonce was given (16 to 256 bytes) or generated.
\<close>

theorem signed_request_verifies:
  assumes sign: "SignRequest cr r body keyID secret now nonce (Some rnd) = Inr r'"
    and hash: "sha256 cr body \<noteq> []" and mac: "\<And>m. hmac_sha256 cr secret m \<noteq> []"
    and nonce: "nonce = [] \<and> length rnd = 24 \<or> 16 \<le> length nonce \<and> length nonce \<le> 256"
    and key: "resolve keyID = Some secret"
    and range: "- (2 ^ 63) \<le> time_unix now" "time_unix now + 62135596800 < 2 ^ 63"
    and time: "instant now - 5 * minute \<le> instant later" "instant later \<le> instant now + 5 * minute - second"
    and set: "\<not> is_zero_time later"
  shows "VerifyRequest cr clock r' body (Some resolve) later 0 = None"
proof -
  define n where "n = (if nonce = [] then NewNonce rnd else nonce)"
  let ?stamp = "dec_int (time_unix now)" and ?hash = "BodyHash cr body"
  let ?sig = "SignCanonical cr secret (CanonicalRequest (rq_Method r) (RequestTarget r) keyID ?stamp n ?hash)"
  have r': "r' = r\<lparr>rq_Header := (rq_Header r)(HeaderKeyID := keyID, HeaderTimestamp := ?stamp,
      HeaderNonce := n, HeaderBodyHash := ?hash, HeaderSignature := ?sig)\<rparr>" and k: "keyID \<noteq> []"
    using sign by (auto simp: SignRequest_def n_def Let_def time_unix_def split: if_splits)
  have n: "16 \<le> length n" "length n \<le> 256" using nonce by (auto simp: n_def NewNonce_def)
  have made: "?hash \<noteq> []" "?sig \<noteq> []" "to_lower ?sig = ?sig" "?stamp \<noteq> []"
    using hash mac
    by (auto simp: BodyHash_def SignCanonical_def to_lower_hex hex_encode_lower dec_int_def)
  have at: "atoi ?stamp = Some (time_unix now)" using range by (intro atoi_dec_int) auto
  have d: "instant (from_unix (time_unix now)) = unix_epoch + time_unix now * second"
    using range by (intro from_unix_range) auto
  have "- (5 * minute) \<le> time_sub later (from_unix (time_unix now))"
    "time_sub later (from_unix (time_unix now)) \<le> 5 * minute"
    using d unix_floor [of now] time
    by (auto simp: time_sub_def minute_def second_def min_duration_def max_duration_def)
  then show ?thesis using k n made at key set
    by (auto simp: VerifyRequest_def Let_def r')
qed

definition ex_crypto :: crypto where
  "ex_crypto = \<lparr>sha256 = (\<lambda>b. [of_nat (length b)]), hmac_sha256 = (\<lambda>k m. [of_nat (length k + length m)])\<rparr>"

definition ex_request :: request where
  "ex_request = \<lparr>rq_Method = ''post'', rq_EscapedPath = ''/v1'', rq_RawQuery = '''', rq_Header = (\<lambda>_. '''')\<rparr>"

definition ex_signing_time :: gotime where
  "ex_signing_time = GoTime (63 * 10 ^ 18) UTC"

theorem signed_request_verifies_witness:
  "\<exists>r'. SignRequest ex_crypto ex_request ''body'' ''key'' ''secret'' ex_signing_time ''0123456789abcdef'' (Some []) = Inr r' \<and>
     VerifyRequest ex_crypto zero_time r' ''body'' (Some [''key'' \<mapsto> ''secret'']) ex_signing_time 0 = None"
proof -
  obtain r' where s: "SignRequest ex_crypto ex_request ''body'' ''key'' ''secret'' ex_signing_time
      ''0123456789abcdef'' (Some []) = Inr r'"
    by (auto simp: SignRequest_def Let_def)
  moreover have "VerifyRequest ex_crypto zero_time r' ''body'' (Some [''key'' \<mapsto> ''secret'']) ex_signing_time 0 = None"
    by (rule signed_request_verifies [OF s])
       (simp_all add: ex_crypto_def ex_signing_time_def time_unix_def unix_epoch_def second_def minute_def
         is_zero_time_def)
  ultimately show ?thesis by blast
qed

text \<open>
  C33: The string that is signed is unambiguous: two requests whose method, target, key, time
  stamp and nonce contain no newline (no HTTP request line or header can) have the same
  canonical form exactly when they agree on the upper-cased method, the target, the three
  header values and the body hash, so a signature cannot be moved between them.
\<close>

theorem canonical_request_unambiguous:
  assumes "CHR 0x0A \<notin> set (m @ t @ k @ s @ n)" "CHR 0x0A \<notin> set (m' @ t' @ k' @ s' @ n')"
  shows "CanonicalRequest m t k s n h = CanonicalRequest m' t' k' s' n' h' \<longleftrightarrow>
    to_upper m = to_upper m' \<and> t = t' \<and> k = k' \<and> s = s' \<and> n = n' \<and> h = h'"
proof -
  have part: "(a @ x) @ newline @ u = (a @ y) @ newline @ v \<longleftrightarrow> x = y \<and> u = v"
    if "CHR 0x0A \<notin> set (a @ x)" "CHR 0x0A \<notin> set (a @ y)" for a x y u v
    using split_newline [OF that] by simp
  show ?thesis
    using assms part [of "''x-ppflight-key-id:''" k k'] part [of "''x-ppflight-timestamp:''" s s']
      part [of "''x-ppflight-nonce:''" n n']
    by (simp add: CanonicalRequest_def split_newline)
qed

theorem canonical_request_unambiguous_witness:
  "CanonicalRequest ''GET'' ''/a'' ''k'' ''1'' ''n'' ''h'' \<noteq> CanonicalRequest ''GET'' ''/a'' ''k'' ''1'' ''n'' ''g''"
  using canonical_request_unambiguous [of "''GET''" "''/a''" "''k''" "''1''" "''n''" "''GET''" "''/a''" "''k''" "''1''" "''n''"
      "''h''" "''g''"] by simp

end
