(* ===== verification/Command_Types.thy ===== *)
theory Command_Types
  imports Inventory Protocol
begin

section \<open>Signed commands and receipts (\<open>internal/control/types.go\<close>)\<close>

text \<open>
  The command envelope, the protocol registry of actions, \<open>Verify\<close> with its error categories, and
  receipts.  Ed25519, JSON validity and the JSON encoder of the canonical body are fields of
  \<open>command_crypto\<close>; the per-action parameter schemas (\<open>validateParameters\<close> of \<open>executor.go\<close>)
  are an argument of \<open>Verify\<close>, so what is proved holds for every schema.
\<close>

definition SchemaVersion :: int where
  "SchemaVersion = 1"

definition ScopeCluster :: string where
  "ScopeCluster = ''cluster''"

definition ScopeNode :: string where
  "ScopeNode = ''node''"

definition ScopeVM :: string where
  "ScopeVM = ''vm''"

subsection \<open>The action registry\<close>

text \<open>Each action with its scopes and whether it only reads.\<close>

definition protocolActions :: "(string \<times> string list \<times> bool) list" where
  "protocolActions =
     [(''pve.discover'', [ScopeCluster, ScopeNode], True),
      (''task.status'', [ScopeNode], True),
      (''vm.start'', [ScopeVM], False),
      (''vm.shutdown'', [ScopeVM], False),
      (''vm.stop'', [ScopeVM], False),
      (''vm.reboot'', [ScopeVM], False),
      (''vm.create'', [ScopeVM], False),
      (''vm.clone'', [ScopeVM], False),
      (''vm.set-initial-resources'', [ScopeVM], False),
      (''vm.migrate-legacy-journal'', [ScopeVM], False),
      (''vm.reinstall'', [ScopeVM], False),
      (''vm.set-resources'', [ScopeVM], False),
      (''vm.resize'', [ScopeVM], False),
      (''vm.set-disk-io'', [ScopeVM], False),
      (''vm.set-network'', [ScopeVM], False),
      (''vm.set-rate'', [ScopeVM], False),
      (''vm.verify-rate'', [ScopeVM], True),
      (''vm.set-cloud-init'', [ScopeVM], False),
      (''vm.cloud-init-snippet.delete'', [ScopeVM], False),
      (''vm.set-timezone'', [ScopeVM], False),
      (''vm.inspect-timezone'', [ScopeVM], True),
      (''vm.verify-delivery'', [ScopeVM], True),
      (''vm.delete'', [ScopeVM], False),
      (''vm.reset-password'', [ScopeVM], False),
      (''vm.suspend'', [ScopeVM], False),
      (''vm.resume'', [ScopeVM], False),
      (''vm.console.create-session'', [ScopeVM], False),
      (''vm.console.revoke-session'', [ScopeVM], False),
      (''snapshot.create'', [ScopeVM], False),
      (''snapshot.delete'', [ScopeVM], False),
      (''snapshot.rollback'', [ScopeVM], False),
      (''snapshot.list'', [ScopeVM], True),
      (''snapshot.get'', [ScopeVM], True),
      (''backup.create'', [ScopeVM], False),
      (''backup.delete'', [ScopeVM], False),
      (''backup.restore'', [ScopeVM], False),
      (''backup.list'', [ScopeVM], True),
      (''backup.get'', [ScopeVM], True),
      (''firewall.cluster.set-options'', [ScopeCluster], False),
      (''firewall.node.set-options'', [ScopeNode], False),
      (''firewall.guest.set-options'', [ScopeVM], False),
      (''firewall.guest.verify-ipfilter'', [ScopeVM], True),
      (''firewall.guest.verify-ipfilter-sets'', [ScopeVM], True),
      (''firewall.guest.rules.list'', [ScopeVM], True),
      (''firewall.guest.rules.get'', [ScopeVM], True),
      (''firewall.guest.rules.verify'', [ScopeVM], True),
      (''firewall.rule.create'', [ScopeVM], False),
      (''firewall.rule.update'', [ScopeVM], False),
      (''firewall.rule.delete'', [ScopeVM], False),
      (''firewall.ipset.create'', [ScopeVM], False),
      (''firewall.ipset.update'', [ScopeVM], False),
      (''firewall.ipset.delete'', [ScopeVM], False),
      (''firewall.ipset.entry.create'', [ScopeVM], False),
      (''firewall.ipset.entry.update'', [ScopeVM], False),
      (''firewall.ipset.entry.delete'', [ScopeVM], False),
      (''agent.upgrade'', [ScopeNode], False)]"

definition action_spec :: "string \<Rightarrow> (string list \<times> bool) option" where
  "action_spec action = map_of protocolActions action"

definition KnownAction :: "string \<Rightarrow> bool" where
  "KnownAction action \<longleftrightarrow> action_spec action \<noteq> None"

definition validActionScope :: "string \<Rightarrow> string \<Rightarrow> bool" where
  "validActionScope action scope =
     (case action_spec action of None \<Rightarrow> False | Some (scopes, _) \<Rightarrow> scope \<in> set scopes)"

definition requiresApproval :: "string \<Rightarrow> bool" where
  "requiresApproval action =
     (case action_spec action of None \<Rightarrow> True | Some (_, readOnly) \<Rightarrow> \<not> readOnly)"

definition AllowedSet :: "string list \<Rightarrow> string \<Rightarrow> bool" where
  "AllowedSet actions action \<longleftrightarrow> action \<in> set actions"

subsection \<open>Commands\<close>

record identity =
  id_ServiceRef :: string
  id_ClusterRef :: string
  id_NodeRef :: string
  id_VMID :: int
  id_Generation :: u64
  id_InstanceUUID :: string
  id_GuestType :: string

record command =
  c_SchemaVersion :: int
  c_CommandID :: string
  c_OperationID :: string
  c_IdempotencyKey :: string
  c_AgentRef :: string
  c_BindingID :: string
  c_DeviceID :: string
  c_CredentialEpoch :: u64
  c_AssignmentRevision :: u64
  c_SigningKeyID :: string
  c_Scope :: string
  c_IssuedAt :: gotime
  c_ExpiresAt :: gotime
  c_Identity :: identity
  c_Action :: string
  c_Parameters :: bytes
  c_OperatorRef :: string
  c_ApprovalRef :: string
  c_BodySHA256 :: string
  c_Signature :: string

text \<open>The canonical body has every field of the command but the signature, with times in UTC.\<close>

definition canonical_fields :: "command \<Rightarrow> command" where
  "canonical_fields c =
     c\<lparr>c_IssuedAt := to_utc (c_IssuedAt c), c_ExpiresAt := to_utc (c_ExpiresAt c), c_Signature := []\<rparr>"

record command_crypto = crypto +
  json_valid :: "bytes \<Rightarrow> bool"
  marshal_body :: "command \<Rightarrow> bytes option"
  ed25519_verify :: "bytes \<Rightarrow> bytes \<Rightarrow> 8 word list \<Rightarrow> bool"

definition CanonicalCommandBody :: "command_crypto \<Rightarrow> command \<Rightarrow> bytes option" where
  "CanonicalCommandBody cr c =
     (if c_Parameters c = [] \<or> \<not> json_valid cr (c_Parameters c) then None
      else marshal_body cr (canonical_fields c))"

definition Digest :: "command_crypto \<Rightarrow> command \<Rightarrow> string" where
  "Digest cr c =
     (case CanonicalCommandBody cr c of None \<Rightarrow> [] | Some raw \<Rightarrow> hex_encode (sha256 (crypto.truncate cr) raw))"

definition SignCommand :: "command_crypto \<Rightarrow> command \<Rightarrow> bytes \<Rightarrow> string" where
  "SignCommand cr c secret =
     (case CanonicalCommandBody cr c of
        None \<Rightarrow> [] | Some canonical \<Rightarrow> hex_encode (hmac_sha256 (crypto.truncate cr) secret canonical))"

subsection \<open>Verification\<close>

record verify_config =
  vc_AgentRef :: string
  vc_ClusterRef :: string
  vc_BindingID :: string
  vc_DeviceID :: string
  vc_CredentialEpoch :: u64
  vc_AssignmentRevision :: "u64 option"
  vc_SigningKeyID :: string
  vc_PublicKey :: bytes
  vc_Mode :: string
  vc_Secret :: bytes
  vc_Allowed :: "string \<Rightarrow> bool"
  vc_Assignments :: "asn_store option"
  vc_Now :: gotime
  vc_MaxClockSkew :: int
  vc_MaxLifetime :: int

datatype policy_error = EnvelopeInvalid | ActionNotAllowed | CommandExpired | AuthorityMismatch
  | ScopeInvalid | InventoryUnavailable | IdentityMismatch | ParametersInvalid | ApprovalMissing

datatype command_error = BodyHashInvalid | SigningKeyMismatch | SignatureInvalid
  | AuthenticatedPolicy policy_error

definition PublicKeySize :: nat where
  "PublicKeySize = 32"

definition SignatureSize :: nat where
  "SignatureSize = 64"

definition verifySignature :: "command_crypto \<Rightarrow> command \<Rightarrow> verify_config \<Rightarrow> command_error option" where
  "verifySignature cr c cfg =
     (if vc_Mode cfg = ''test'' \<and> vc_PublicKey cfg = [] then
        (if vc_Secret cfg = [] then Some SigningKeyMismatch
         else case hex_decode (c_Signature c) of
           None \<Rightarrow> Some SignatureInvalid
         | Some provided \<Rightarrow>
             if hex_encode provided \<noteq> c_Signature c then Some SignatureInvalid
             else if provided \<noteq> (case hex_decode (SignCommand cr c (vc_Secret cfg)) of None \<Rightarrow> [] | Some e \<Rightarrow> e)
               then Some SignatureInvalid
             else None)
      else if vc_SigningKeyID cfg = [] \<or> c_SigningKeyID c \<noteq> vc_SigningKeyID cfg \<or>
              length (vc_PublicKey cfg) \<noteq> PublicKeySize then Some SigningKeyMismatch
      else case base64_decode (c_Signature c) of
        None \<Rightarrow> Some SignatureInvalid
      | Some provided \<Rightarrow>
          if base64_encode provided \<noteq> c_Signature c \<or> length provided \<noteq> SignatureSize then Some SignatureInvalid
          else case CanonicalCommandBody cr c of
            None \<Rightarrow> Some SignatureInvalid
          | Some payload \<Rightarrow>
              if ed25519_verify cr (vc_PublicKey cfg) payload provided then None else Some SignatureInvalid)"

definition verifyAuthority :: "command \<Rightarrow> verify_config \<Rightarrow> policy_error option" where
  "verifyAuthority c cfg =
     (let configured = vc_BindingID cfg \<noteq> [] \<or> vc_DeviceID cfg \<noteq> [] \<or> vc_CredentialEpoch cfg \<noteq> 0 \<or>
            vc_AssignmentRevision cfg \<noteq> None in
      if vc_Mode cfg = ''test'' \<and> \<not> configured then None
      else if \<not> uuidRE (vc_BindingID cfg) \<or> \<not> commandIDRE (vc_DeviceID cfg) \<or> vc_CredentialEpoch cfg = 0
        then Some AuthorityMismatch
      else case vc_AssignmentRevision cfg of
        None \<Rightarrow> Some AuthorityMismatch
      | Some revision \<Rightarrow>
          if revision = 0 \<or> c_BindingID c \<noteq> vc_BindingID cfg \<or> c_DeviceID c \<noteq> vc_DeviceID cfg \<or>
             c_CredentialEpoch c \<noteq> vc_CredentialEpoch cfg \<or> c_AssignmentRevision c \<noteq> revision
          then Some AuthorityMismatch else None)"

text \<open>An identity that names no guest.\<close>

definition no_guest :: "identity \<Rightarrow> bool" where
  "no_guest i \<longleftrightarrow> id_VMID i = 0 \<and> id_Generation i = 0 \<and> id_ServiceRef i = [] \<and>
     id_InstanceUUID i = [] \<and> id_GuestType i = []"

definition verifyScope :: "command \<Rightarrow> verify_config \<Rightarrow> policy_error option" where
  "verifyScope c cfg =
     (let i = c_Identity c in
      if id_ClusterRef i \<noteq> vc_ClusterRef cfg then Some ScopeInvalid
      else if c_Scope c = ScopeCluster then
        (if \<not> validActionScope (c_Action c) (c_Scope c) \<or> id_NodeRef i \<noteq> [] \<or> \<not> no_guest i
         then Some ScopeInvalid else None)
      else if c_Scope c = ScopeNode then
        (if \<not> validActionScope (c_Action c) (c_Scope c) \<or> \<not> nodeRE (id_NodeRef i) \<or> \<not> no_guest i
         then Some ScopeInvalid else None)
      else if c_Scope c = ScopeVM then
        (if \<not> validActionScope (c_Action c) (c_Scope c) \<or> id_VMID i < 1 \<or> id_Generation i = 0 \<or>
            (id_GuestType i \<noteq> ''qemu'' \<and> id_GuestType i \<noteq> ''lxc'') \<or> \<not> nodeRE (id_NodeRef i) \<or>
            \<not> commandIDRE (id_ServiceRef i) \<or> \<not> commandIDRE (id_InstanceUUID i) then Some ScopeInvalid
         else case vc_Assignments cfg of
           None \<Rightarrow> Some InventoryUnavailable
         | Some st \<Rightarrow>
             (case Lookup st (id_ClusterRef i) (id_GuestType i) (id_VMID i) of
                None \<Rightarrow> Some IdentityMismatch
              | Some a \<Rightarrow>
                  if as_ServiceRef a \<noteq> id_ServiceRef i \<or> as_InstanceUUID a \<noteq> id_InstanceUUID i \<or>
                     as_Generation a \<noteq> id_Generation i \<or> (as_NodeRef a \<noteq> [] \<and> as_NodeRef a \<noteq> id_NodeRef i)
                  then Some IdentityMismatch else None))
      else Some ScopeInvalid)"

definition authority_present :: "command \<Rightarrow> bool" where
  "authority_present c \<longleftrightarrow> c_BindingID c \<noteq> [] \<or> c_DeviceID c \<noteq> [] \<or> c_CredentialEpoch c \<noteq> 0 \<or>
     c_AssignmentRevision c \<noteq> 0 \<or> c_IdempotencyKey c \<noteq> []"

text \<open>The timing rule of \<open>Verify\<close>, with its defaults of five and fifteen minutes.\<close>

definition timing_ok :: "gotime \<Rightarrow> int \<Rightarrow> int \<Rightarrow> command \<Rightarrow> bool" where
  "timing_ok now skew lifetime c \<longleftrightarrow>
     \<not> (is_zero_time (c_IssuedAt c) \<or> is_zero_time (c_ExpiresAt c) \<or> \<not> after (c_ExpiresAt c) (c_IssuedAt c) \<or>
        after (c_IssuedAt c) (time_add now skew) \<or> before (c_IssuedAt c) (time_add now (- lifetime)) \<or>
        \<not> after (c_ExpiresAt c) now \<or> time_sub (c_ExpiresAt c) (c_IssuedAt c) > lifetime)"

text \<open>Everything after the signature; \<open>clock\<close> is \<open>time.Now\<close>.\<close>

definition verifyPolicy :: "(command \<Rightarrow> bool) \<Rightarrow> gotime \<Rightarrow> command \<Rightarrow> verify_config \<Rightarrow> policy_error option" where
  "verifyPolicy validParameters clock c cfg =
     (if c_SchemaVersion c \<noteq> SchemaVersion \<or> \<not> commandIDRE (c_CommandID c) \<or> \<not> commandIDRE (c_OperationID c) \<or>
         c_AgentRef c \<noteq> vc_AgentRef cfg \<or> \<not> actionRE (c_Action c) \<or> \<not> commandIDRE (c_OperatorRef c)
        then Some EnvelopeInvalid
      else if authority_present c \<and> (\<not> uuidRE (c_BindingID c) \<or> \<not> commandIDRE (c_DeviceID c) \<or>
         c_CredentialEpoch c = 0 \<or> c_AssignmentRevision c = 0 \<or> \<not> commandIDRE (c_IdempotencyKey c))
        then Some EnvelopeInvalid
      else if vc_Mode cfg \<noteq> ''test'' \<and> \<not> authority_present c then Some EnvelopeInvalid
      else if c_SigningKeyID c \<noteq> [] \<and> \<not> commandIDRE (c_SigningKeyID c) then Some EnvelopeInvalid
      else if c_ApprovalRef c \<noteq> [] \<and> \<not> commandIDRE (c_ApprovalRef c) then Some EnvelopeInvalid
      else if action_spec (c_Action c) = None then Some ActionNotAllowed
      else if \<not> vc_Allowed cfg (c_Action c) then Some ActionNotAllowed
      else
        (let now = (if is_zero_time (to_utc (vc_Now cfg)) then to_utc clock else to_utc (vc_Now cfg));
             skew = (if vc_MaxClockSkew cfg = 0 then 5 * minute else vc_MaxClockSkew cfg);
             lifetime = (if vc_MaxLifetime cfg = 0 then 15 * minute else vc_MaxLifetime cfg) in
         if \<not> timing_ok now skew lifetime c then Some CommandExpired
         else case verifyAuthority c cfg of
           Some e \<Rightarrow> Some e
         | None \<Rightarrow>
             (case verifyScope c cfg of
                Some e \<Rightarrow> Some e
              | None \<Rightarrow>
                  if \<not> validParameters c then Some ParametersInvalid
                  else if requiresApproval (c_Action c) \<and> is_blank (c_ApprovalRef c) then Some ApprovalMissing
                  else None)))"

definition body_hash_ok :: "command_crypto \<Rightarrow> command \<Rightarrow> bool" where
  "body_hash_ok cr c \<longleftrightarrow>
     \<not> (c_Parameters c = [] \<or> \<not> json_valid cr (c_Parameters c) \<or> \<not> bodyHashRE (c_BodySHA256 c) \<or>
        BodyHash (crypto.truncate cr) (c_Parameters c) \<noteq> c_BodySHA256 c)"

definition Verify :: "command_crypto \<Rightarrow> (command \<Rightarrow> bool) \<Rightarrow> gotime \<Rightarrow> command \<Rightarrow> verify_config \<Rightarrow> command_error option" where
  "Verify cr validParameters clock c cfg =
     (if \<not> body_hash_ok cr c then Some BodyHashInvalid
      else case verifySignature cr c cfg of
        Some e \<Rightarrow> Some e
      | None \<Rightarrow> map_option AuthenticatedPolicy (verifyPolicy validParameters clock c cfg))"

subsection \<open>Receipts\<close>

record execution_error =
  ee_Source :: string
  ee_Stage :: string
  ee_Method :: string
  ee_Path :: string
  ee_HTTPStatus :: int
  ee_Reason :: string

record receipt =
  r_SchemaVersion :: int
  r_ReceiptID :: string
  r_CommandID :: string
  r_OperationID :: string
  r_AgentRef :: string
  r_State :: string
  r_Code :: string
  r_ExecutionMode :: string
  r_DryRun :: bool
  r_StartedAt :: gotime
  r_FinishedAt :: gotime
  r_PVETaskUPID :: string
  r_AgentUpgradeID :: string
  r_Accepted :: bool
  r_Asynchronous :: bool
  r_MutationMayHaveSucceeded :: bool
  r_OperatorRef :: string
  r_Result :: bytes
  r_Error :: "execution_error option"

definition empty_receipt :: receipt where
  "empty_receipt = \<lparr>r_SchemaVersion = 0, r_ReceiptID = '''', r_CommandID = '''', r_OperationID = '''', r_AgentRef = '''',
     r_State = '''', r_Code = '''', r_ExecutionMode = '''', r_DryRun = False, r_StartedAt = zero_time,
     r_FinishedAt = zero_time, r_PVETaskUPID = '''', r_AgentUpgradeID = '''', r_Accepted = False,
     r_Asynchronous = False, r_MutationMayHaveSucceeded = False, r_OperatorRef = '''', r_Result = [], r_Error = None\<rparr>"

definition SafeRejection :: "id_supply \<Rightarrow> command \<Rightarrow> string \<Rightarrow> gotime \<Rightarrow> string \<Rightarrow> receipt option" where
  "SafeRejection ids c code now mode =
     (case fst (take_id ids) of
        None \<Rightarrow> None
      | Some i \<Rightarrow>
          Some (empty_receipt\<lparr>r_SchemaVersion := SchemaVersion, r_ReceiptID := i, r_CommandID := c_CommandID c,
            r_OperationID := c_OperationID c, r_AgentRef := c_AgentRef c, r_State := ''rejected'', r_Code := code,
            r_ExecutionMode := mode, r_DryRun := mode \<noteq> ''production'', r_StartedAt := to_utc now,
            r_FinishedAt := to_utc now, r_OperatorRef := c_OperatorRef c\<rparr>))"

definition ApplyReceiptCompatibility :: "receipt \<Rightarrow> receipt" where
  "ApplyReceiptCompatibility r =
     (let task = r_PVETaskUPID r \<noteq> [] \<or> r_AgentUpgradeID r \<noteq> [];
          running = r_State r \<in> {''running'', ''submitted'', ''waiting''};
          accepted = running \<or> r_State r = ''succeeded'' \<or> r_State r = ''failed'' \<and> task
      in r\<lparr>r_Accepted := accepted, r_Asynchronous := running \<or> task \<and> accepted,
           r_MutationMayHaveSucceeded := r_State r = ''indeterminate''\<rparr>)"

datatype receipt_error = RcFields | RcIdentity | RcUPID | RcUpgradeID | RcTiming | RcErrorState | RcErrorFields
  | RcDryRun | RcTask | RcRunning | RcState

definition contains_any :: "string \<Rightarrow> nat list \<Rightarrow> bool" where
  "contains_any s codes \<longleftrightarrow> list_ex (\<lambda>c. code_of c \<in> set codes) s"

definition execution_error_ok :: "execution_error \<Rightarrow> bool" where
  "execution_error_ok e \<longleftrightarrow>
     \<not> ((ee_Source e \<noteq> ''pve'' \<and> ee_Source e \<noteq> ''qga'' \<and> ee_Source e \<noteq> ''agent'') \<or>
        \<not> errorStageRE (ee_Stage e) \<or>
        ee_Method e \<noteq> [] \<and> ee_Method e \<notin> {''GET'', ''POST'', ''PUT'', ''DELETE''} \<or>
        ee_Path e \<noteq> [] \<and> (length (ee_Path e) > 512 \<or> \<not> has_prefix ''/'' (ee_Path e) \<or>
          contains_any (ee_Path e) [0, 13, 10, 63, 35]) \<or>
        ee_HTTPStatus e \<noteq> 0 \<and> (ee_HTTPStatus e < 100 \<or> ee_HTTPStatus e > 599) \<or>
        is_blank (ee_Reason e) \<or> length (ee_Reason e) > 1024 \<or> contains_any (ee_Reason e) [0, 13, 10])"

definition Receipt_Validate :: "receipt \<Rightarrow> receipt_error option" where
  "Receipt_Validate r =
     (if r_SchemaVersion r \<noteq> SchemaVersion \<or> r_ReceiptID r = [] \<or> r_CommandID r = [] \<or> r_AgentRef r = [] \<or>
         r_State r = [] \<or> r_Code r = [] \<or> is_zero_time (r_StartedAt r) \<or> is_zero_time (r_FinishedAt r) then Some RcFields
      else if \<not> commandIDRE (r_ReceiptID r) \<or> \<not> commandIDRE (r_CommandID r) \<or>
         (r_OperationID r \<noteq> [] \<and> \<not> commandIDRE (r_OperationID r)) \<or>
         (r_State r \<noteq> ''rejected'' \<and> \<not> commandIDRE (r_OperationID r)) then Some RcIdentity
      else if r_PVETaskUPID r \<noteq> [] \<and> \<not> upidRE (r_PVETaskUPID r) then Some RcUPID
      else if r_AgentUpgradeID r \<noteq> [] \<and> \<not> commandIDRE (r_AgentUpgradeID r) then Some RcUpgradeID
      else if (r_ExecutionMode r \<noteq> ''test'' \<and> r_ExecutionMode r \<noteq> ''production'') \<or>
         before (r_FinishedAt r) (r_StartedAt r) then Some RcTiming
      else if r_Error r \<noteq> None \<and> r_State r \<noteq> ''failed'' \<and> r_State r \<noteq> ''indeterminate'' \<and> r_State r \<noteq> ''rejected''
        then Some RcErrorState
      else if (case r_Error r of None \<Rightarrow> False | Some e \<Rightarrow> \<not> execution_error_ok e) then Some RcErrorFields
      else if r_State r = ''dry_run'' then (if \<not> r_DryRun r then Some RcDryRun else None)
      else if r_State r = ''submitted'' \<or> r_State r = ''waiting'' then
        (if (r_PVETaskUPID r = []) = (r_AgentUpgradeID r = []) then Some RcTask else None)
      else if r_State r = ''running'' then
        (if \<not> r_Accepted r \<or> \<not> r_Asynchronous r \<or> r_DryRun r \<or> r_PVETaskUPID r \<noteq> [] \<or>
            r_AgentUpgradeID r \<noteq> [] \<or> r_Error r \<noteq> None then Some RcRunning else None)
      else if r_State r \<in> {''succeeded'', ''failed'', ''indeterminate'', ''rejected''} then None
      else Some RcState)"

text \<open>
  \<open>AuditReceiptDigest\<close> hashes the receipt without its result and error; \<open>marshal\<close> is the JSON
  encoder of that projection.
\<close>

definition audit_projection :: "receipt \<Rightarrow> receipt" where
  "audit_projection r =
     (let r1 = ApplyReceiptCompatibility r in
      r1\<lparr>r_StartedAt := to_utc (r_StartedAt r1), r_FinishedAt := to_utc (r_FinishedAt r1),
         r_Result := [], r_Error := None\<rparr>)"

definition AuditReceiptDigest :: "crypto \<Rightarrow> (receipt \<Rightarrow> bytes option) \<Rightarrow> receipt \<Rightarrow> string option" where
  "AuditReceiptDigest cr marshal r =
     map_option (\<lambda>raw. ''sha256:'' @ hex_encode (sha256 cr raw)) (marshal (audit_projection r))"

subsection \<open>What verification establishes\<close>

lemma verifySignature_production:
  assumes "verifySignature cr c cfg = None" "vc_Mode cfg \<noteq> ''test''"
  shows "c_SigningKeyID c = vc_SigningKeyID cfg \<and> vc_SigningKeyID cfg \<noteq> [] \<and>
    (\<exists>payload provided. CanonicalCommandBody cr c = Some payload \<and> base64_encode provided = c_Signature c \<and>
      ed25519_verify cr (vc_PublicKey cfg) payload provided)"
  using assms by (auto simp: verifySignature_def split: if_splits option.splits)

lemma verifyAuthority_production:
  assumes "verifyAuthority c cfg = None" "vc_Mode cfg \<noteq> ''test''"
  shows "c_BindingID c = vc_BindingID cfg \<and> c_DeviceID c = vc_DeviceID cfg \<and>
    c_CredentialEpoch c = vc_CredentialEpoch cfg \<and> vc_AssignmentRevision cfg = Some (c_AssignmentRevision c)"
  using assms by (auto simp: verifyAuthority_def Let_def split: if_splits option.splits)

lemma scopes_differ [simp]:
  "ScopeCluster \<noteq> ScopeNode" "ScopeCluster \<noteq> ScopeVM" "ScopeNode \<noteq> ScopeVM"
  "ScopeNode \<noteq> ScopeCluster" "ScopeVM \<noteq> ScopeCluster" "ScopeVM \<noteq> ScopeNode"
  by (simp_all add: ScopeCluster_def ScopeNode_def ScopeVM_def)

lemma verifyScope_action:
  "verifyScope c cfg = None \<Longrightarrow> validActionScope (c_Action c) (c_Scope c) \<and> id_ClusterRef (c_Identity c) = vc_ClusterRef cfg"
  by (auto simp: verifyScope_def Let_def split: if_splits)

definition assigned :: "assignment \<Rightarrow> identity \<Rightarrow> bool" where
  "assigned a i \<longleftrightarrow> as_ClusterRef a = id_ClusterRef i \<and> as_GuestType a = id_GuestType i \<and> as_VMID a = id_VMID i \<and>
     as_ServiceRef a = id_ServiceRef i \<and> as_InstanceUUID a = id_InstanceUUID i \<and>
     as_Generation a = id_Generation i \<and> (as_NodeRef a = [] \<or> as_NodeRef a = id_NodeRef i)"

lemma verifyScope_vm:
  assumes "verifyScope c cfg = None" "c_Scope c = ScopeVM" "vc_Assignments cfg = Some (Replace d)"
    and "doc_Validate cl d = None"
  shows "\<exists>a \<in> set (ad_Assignments d). assigned a (c_Identity c)"
proof -
  let ?i = "c_Identity c"
  obtain a where "Lookup (Replace d) (id_ClusterRef ?i) (id_GuestType ?i) (id_VMID ?i) = Some a"
    "as_ServiceRef a = id_ServiceRef ?i" "as_InstanceUUID a = id_InstanceUUID ?i"
    "as_Generation a = id_Generation ?i" "as_NodeRef a = [] \<or> as_NodeRef a = id_NodeRef ?i"
    using assms(1-3) by (auto simp: verifyScope_def Let_def split: if_splits option.splits)
  then show ?thesis using Lookup_Replace [OF assms(4)] by (auto simp: assigned_def)
qed

lemma verifyPolicy_ok:
  assumes "verifyPolicy vp clock c cfg = None"
  shows "vc_Allowed cfg (c_Action c) \<and> verifyAuthority c cfg = None \<and> verifyScope c cfg = None \<and> vp c \<and>
    (requiresApproval (c_Action c) \<longrightarrow> commandIDRE (c_ApprovalRef c)) \<and> commandIDRE (c_CommandID c) \<and>
    commandIDRE (c_OperationID c) \<and> (vc_Mode cfg \<noteq> ''test'' \<longrightarrow> commandIDRE (c_IdempotencyKey c)) \<and>
    timing_ok (if is_zero_time (vc_Now cfg) then to_utc clock else to_utc (vc_Now cfg))
      (if vc_MaxClockSkew cfg = 0 then 5 * minute else vc_MaxClockSkew cfg)
      (if vc_MaxLifetime cfg = 0 then 15 * minute else vc_MaxLifetime cfg) c"
proof -
  have "requiresApproval (c_Action c) \<longrightarrow> c_ApprovalRef c \<noteq> []"
    using assms by (auto simp: verifyPolicy_def Let_def split: if_splits option.splits)
  then show ?thesis
    using assms unfolding verifyPolicy_def Let_def
    by (simp split: if_split_asm option.split_asm) blast+
qed

lemma timing_ok_window:
  assumes "timing_ok now skew lifetime c" "lifetime < max_duration" "0 \<le> lifetime"
  shows "instant now < instant (c_ExpiresAt c)" "instant (c_IssuedAt c) \<le> instant now + skew"
    "instant now - lifetime \<le> instant (c_IssuedAt c)" "instant (c_ExpiresAt c) - instant (c_IssuedAt c) \<le> lifetime"
  using assms time_sub_le [of lifetime "c_ExpiresAt c" "c_IssuedAt c"]
  by (auto simp: timing_ok_def after_def before_def time_add_def min_duration_def)

lemma Verify_ok:
  "Verify cr vp clock c cfg = None \<longleftrightarrow>
     body_hash_ok cr c \<and> verifySignature cr c cfg = None \<and> verifyPolicy vp clock c cfg = None"
  by (auto simp: Verify_def split: option.splits)

lemma SafeRejection_fields:
  assumes "SafeRejection ids c code now mode = Some r"
  shows "r = empty_receipt\<lparr>r_SchemaVersion := SchemaVersion, r_ReceiptID := r_ReceiptID r, r_CommandID := c_CommandID c,
      r_OperationID := c_OperationID c, r_AgentRef := c_AgentRef c, r_State := ''rejected'', r_Code := code,
      r_ExecutionMode := mode, r_DryRun := mode \<noteq> ''production'', r_StartedAt := to_utc now,
      r_FinishedAt := to_utc now, r_OperatorRef := c_OperatorRef c\<rparr>"
    "fst (take_id ids) = Some (r_ReceiptID r)"
  using assms by (auto simp: SafeRejection_def split: option.splits)

lemma compat_idem: "ApplyReceiptCompatibility (ApplyReceiptCompatibility r) = ApplyReceiptCompatibility r"
  by (simp add: ApplyReceiptCompatibility_def Let_def)

lemma action_word_any: "match_action_word hi w \<Longrightarrow> match_action_word None w"
  by (cases w) auto

lemma actionRef_actionRE: "actionRef a \<Longrightarrow> actionRE a"
  using action_word_any by (auto simp: actionRef_def actionRE_def Let_def list_all_iff)

lemma registry_names: "list_all (actionRef \<circ> fst) protocolActions"
  by (simp add: protocolActions_def actionRef_def char_class_defs)

lemma registry_scopes:
  "list_all (\<lambda>(a, scopes, _). scopes \<noteq> [] \<and> (ScopeVM \<in> set scopes \<longrightarrow> scopes = [ScopeVM])) protocolActions"
  by (simp add: protocolActions_def ScopeVM_def ScopeNode_def ScopeCluster_def)
subsection \<open>A concrete command\<close>

definition ex_identity :: identity where
  "ex_identity = \<lparr>id_ServiceRef = ''svc-1'', id_ClusterRef = ''cluster-a'', id_NodeRef = ''pve1'', id_VMID = 101,
    id_Generation = 3, id_InstanceUUID = ''inst-1'', id_GuestType = ''qemu''\<rparr>"

definition ex_binding :: string where
  "ex_binding = ''bbbbbbbb-bbbb-bbbb-bbbb-bbbbbbbbbbbb''"

definition ex_issued :: gotime where
  "ex_issued = GoTime (63 * 10 ^ 18) UTC"

definition ex_hash :: "8 word list" where
  "ex_hash = replicate 32 0"

definition ex_command :: command where
  "ex_command = \<lparr>c_SchemaVersion = 1, c_CommandID = ''cmd-1'', c_OperationID = ''op-1'', c_IdempotencyKey = ''idem-1'',
    c_AgentRef = ''agent-1'', c_BindingID = ex_binding, c_DeviceID = ''dev-1'', c_CredentialEpoch = 1,
    c_AssignmentRevision = 7, c_SigningKeyID = ''key-1'', c_Scope = ScopeVM, c_IssuedAt = ex_issued,
    c_ExpiresAt = time_add ex_issued (5 * minute), c_Identity = ex_identity, c_Action = ''vm.start'',
    c_Parameters = ''{}'', c_OperatorRef = ''operator-1'', c_ApprovalRef = ''appr-1'',
    c_BodySHA256 = hex_encode ex_hash, c_Signature = base64_encode (replicate 64 1)\<rparr>"

definition ex_command_crypto :: command_crypto where
  "ex_command_crypto = \<lparr>sha256 = (\<lambda>b. ex_hash), hmac_sha256 = (\<lambda>k m. ex_hash), json_valid = (\<lambda>b. b = ''{}''),
    marshal_body = (\<lambda>c. Some (c_CommandID c)), ed25519_verify = (\<lambda>k m s. s = replicate 64 1)\<rparr>"

definition ex_config :: verify_config where
  "ex_config = \<lparr>vc_AgentRef = ''agent-1'', vc_ClusterRef = ''cluster-a'', vc_BindingID = ex_binding,
    vc_DeviceID = ''dev-1'', vc_CredentialEpoch = 1, vc_AssignmentRevision = Some 7, vc_SigningKeyID = ''key-1'',
    vc_PublicKey = replicate 32 CHR ''k'', vc_Mode = ''production'', vc_Secret = '''',
    vc_Allowed = AllowedSet [''vm.start''], vc_Assignments = Some (Replace ex_assignments), vc_Now = ex_issued,
    vc_MaxClockSkew = 0, vc_MaxLifetime = 0\<rparr>"

lemma ex_refs [simp]:
  "commandIDRE ''cmd-1''" "commandIDRE ''op-1''" "commandIDRE ''idem-1''" "commandIDRE ''dev-1''" "commandIDRE ''key-1''"
  "commandIDRE ''operator-1''" "commandIDRE ''appr-1''" "commandIDRE ''svc-1''" "commandIDRE ''inst-1''"
  "nodeRE ''pve1''" "actionRE ''vm.start''" "uuidRE ex_binding" "ex_binding \<noteq> []"
  by code_simp+

lemma ex_approval [simp]: "\<not> is_blank ''appr-1''"
  by (rule not_is_blank_head) (simp add: code_of_def)

lemma ex_spec [simp]: "action_spec ''vm.start'' = Some ([ScopeVM], False)"
  by code_simp

lemma ex_signature: "verifySignature ex_command_crypto ex_command ex_config = None"
  by (simp add: verifySignature_def ex_config_def ex_command_def base64_roundtrip PublicKeySize_def SignatureSize_def
      CanonicalCommandBody_def ex_command_crypto_def del: base64_encode.simps base64_decode.simps)

lemma ex_body: "body_hash_ok ex_command_crypto ex_command"
  using hex_encode_lower [of ex_hash]
  by (simp add: body_hash_ok_def BodyHash_def ex_command_def ex_command_crypto_def bodyHashRE_def crypto.defs ex_hash_def)

lemma ex_lookup: "Lookup (Replace ex_assignments) ''cluster-a'' ''qemu'' 101 = Some ex_assignment"
  using Lookup_Replace [OF ex_assignments_valid] by (simp add: ex_assignments_def) (simp add: ex_assignment_def)

lemma ex_scope: "verifyScope ex_command ex_config = None"
  by (simp add: verifyScope_def ex_command_def ex_config_def ex_identity_def validActionScope_def ex_lookup)
     (simp add: ex_assignment_def)

lemma ex_timing: "timing_ok ex_issued (5 * minute) (15 * minute) ex_command"
  by (simp add: timing_ok_def ex_command_def ex_issued_def is_zero_time_def after_def before_def time_add_def
      time_sub_def minute_def second_def min_duration_def max_duration_def)

lemma ex_command_fields:
  "c_SchemaVersion ex_command = SchemaVersion" "c_CommandID ex_command = ''cmd-1''" "c_OperationID ex_command = ''op-1''"
  "c_AgentRef ex_command = vc_AgentRef ex_config" "c_Action ex_command = ''vm.start''"
  "c_OperatorRef ex_command = ''operator-1''" "c_BindingID ex_command = ex_binding" "c_DeviceID ex_command = ''dev-1''"
  "c_CredentialEpoch ex_command \<noteq> 0" "c_AssignmentRevision ex_command \<noteq> 0" "c_IdempotencyKey ex_command = ''idem-1''"
  "c_SigningKeyID ex_command = ''key-1''" "c_ApprovalRef ex_command = ''appr-1''" "vc_Allowed ex_config ''vm.start''"
  "vc_Now ex_config = ex_issued" "vc_MaxClockSkew ex_config = 0" "vc_MaxLifetime ex_config = 0"
  "vc_Mode ex_config = ''production''" "vc_Assignments ex_config = Some (Replace ex_assignments)"
  "c_Scope ex_command = ScopeVM"
  by (simp_all add: ex_command_def ex_config_def SchemaVersion_def AllowedSet_def)

lemma ex_policy: "verifyPolicy (\<lambda>_. True) zero_time ex_command ex_config = None"
proof -
  have "verifyAuthority ex_command ex_config = None"
    by (simp add: verifyAuthority_def ex_command_def ex_config_def)
  moreover have "\<not> is_zero_time ex_issued" "to_utc ex_issued = ex_issued"
    by (simp_all add: ex_issued_def is_zero_time_def to_utc_def)
  ultimately show ?thesis
    using ex_scope ex_timing
    by (simp add: verifyPolicy_def ex_command_fields authority_present_def)
qed

subsection \<open>Properties\<close>

text \<open>
  C24: Outside test mode, a command that \<open>Verify\<close> accepts carries an Ed25519 signature of its
  canonical body under the configured key, its parameters have the signed hash, it is addressed
  to the active binding, device, credential epoch and assignment revision, its action is
  registered for its scope and allowed locally, it is not expired, a command that may change
  something names an approval, and a VM command names exactly a guest of the validated
  inventory: same cluster, type, VMID, service, instance and generation.
\<close>

theorem verified_command_authorized:
  assumes ok: "Verify cr vp clock c cfg = None" and mode: "vc_Mode cfg \<noteq> ''test''"
    and inv: "vc_Assignments cfg = Some (Replace d)" "doc_Validate cl d = None"
  shows "(\<exists>payload provided. CanonicalCommandBody cr c = Some payload \<and> base64_encode provided = c_Signature c \<and>
      ed25519_verify cr (vc_PublicKey cfg) payload provided) \<and> c_SigningKeyID c = vc_SigningKeyID cfg \<and>
    BodyHash (crypto.truncate cr) (c_Parameters c) = c_BodySHA256 c \<and>
    c_BindingID c = vc_BindingID cfg \<and> c_DeviceID c = vc_DeviceID cfg \<and>
    c_CredentialEpoch c = vc_CredentialEpoch cfg \<and> vc_AssignmentRevision cfg = Some (c_AssignmentRevision c) \<and>
    validActionScope (c_Action c) (c_Scope c) \<and> vc_Allowed cfg (c_Action c) \<and>
    (requiresApproval (c_Action c) \<longrightarrow> commandIDRE (c_ApprovalRef c)) \<and>
    (\<not> is_zero_time (vc_Now cfg) \<longrightarrow> instant (vc_Now cfg) < instant (c_ExpiresAt c)) \<and>
    (c_Scope c = ScopeVM \<longrightarrow> (\<exists>a \<in> set (ad_Assignments d). assigned a (c_Identity c)))"
proof -
  have parts: "body_hash_ok cr c" "verifySignature cr c cfg = None" "verifyPolicy vp clock c cfg = None"
    using ok by (simp_all add: Verify_ok)
  note pol = verifyPolicy_ok [OF parts(3)]
  have "BodyHash (crypto.truncate cr) (c_Parameters c) = c_BodySHA256 c"
    using parts(1) by (simp add: body_hash_ok_def)
  moreover have "\<not> is_zero_time (vc_Now cfg) \<longrightarrow> instant (vc_Now cfg) < instant (c_ExpiresAt c)"
    using pol by (auto simp: timing_ok_def after_def)
  moreover have "c_Scope c = ScopeVM \<longrightarrow> (\<exists>a \<in> set (ad_Assignments d). assigned a (c_Identity c))"
    using pol verifyScope_vm inv by blast
  ultimately show ?thesis
    using verifySignature_production [OF parts(2) mode] verifyAuthority_production [OF _ mode] pol
      verifyScope_action by blast
qed

theorem verified_command_authorized_witness:
  "(\<exists>a \<in> set (ad_Assignments ex_assignments). assigned a (c_Identity ex_command)) \<and>
   vc_AssignmentRevision ex_config = Some (c_AssignmentRevision ex_command)"
proof -
  have "Verify ex_command_crypto (\<lambda>_. True) zero_time ex_command ex_config = None"
    using ex_body ex_signature ex_policy by (simp add: Verify_ok)
  moreover have "vc_Mode ex_config \<noteq> ''test''" by (simp add: ex_command_fields)
  ultimately show ?thesis
    using verified_command_authorized [OF _ _ _ ex_assignments_valid] ex_command_fields by metis
qed

text \<open>
  The action registry is consistent: its 56 names are distinct, every one is a well-formed
  action for the envelope and for an assignment document, so one document can grant them all,
  every action has a scope, a VM action has no other scope, and an action that is not
  registered has no valid scope and counts as one that needs an approval.
\<close>

theorem action_registry_consistent:
  "distinct (map fst protocolActions) \<and> length protocolActions = 56 \<and>
   list_all (\<lambda>(a, scopes, _). actionRE a \<and> actionRef a \<and> scopes \<noteq> [] \<and>
     (ScopeVM \<in> set scopes \<longrightarrow> scopes = [ScopeVM])) protocolActions \<and>
   (\<forall>action scope. \<not> KnownAction action \<longrightarrow> \<not> validActionScope action scope \<and> requiresApproval action)"
proof -
  have "distinct (map fst protocolActions)" "length protocolActions = 56"
    by (simp_all add: protocolActions_def)
  moreover have "list_all (\<lambda>(a, scopes, _). actionRE a \<and> actionRef a \<and> scopes \<noteq> [] \<and>
     (ScopeVM \<in> set scopes \<longrightarrow> scopes = [ScopeVM])) protocolActions"
    using registry_names registry_scopes actionRef_actionRE by (auto simp: list_all_iff)
  moreover have "\<forall>action scope. \<not> KnownAction action \<longrightarrow> \<not> validActionScope action scope \<and> requiresApproval action"
    by (auto simp: KnownAction_def validActionScope_def requiresApproval_def split: option.splits)
  ultimately show ?thesis by blast
qed

theorem action_registry_consistent_witness:
  "\<not> validActionScope ''vm.format'' ScopeVM \<and> requiresApproval ''vm.format''"
proof -
  have "\<not> KnownAction ''vm.format''" by code_simp
  then show ?thesis using action_registry_consistent by blast
qed

text \<open>
  The rejection receipt of a command whose identifiers are well formed always passes
  \<open>Receipt.Validate\<close>, also after \<open>ApplyReceiptCompatibility\<close>, and reports neither acceptance nor
  a possible mutation.
\<close>

theorem safe_rejection_valid:
  assumes "length raw = 16" "SafeRejection [Some (NewID raw)] c code now mode = Some r"
    and "commandIDRE (c_CommandID c)" "c_OperationID c = [] \<or> commandIDRE (c_OperationID c)" "c_AgentRef c \<noteq> []"
    and "code \<noteq> []" "\<not> is_zero_time now" "mode = ''test'' \<or> mode = ''production''"
  shows "Receipt_Validate (ApplyReceiptCompatibility r) = None \<and> \<not> r_Accepted (ApplyReceiptCompatibility r) \<and>
    \<not> r_MutationMayHaveSucceeded (ApplyReceiptCompatibility r)"
proof -
  have i: "r_ReceiptID r = NewID raw" using SafeRejection_fields(2) [OF assms(2)] by simp
  have "commandIDRE (NewID raw)" "NewID raw \<noteq> []" "c_CommandID c \<noteq> []"
    using uuid_is_commandID [OF assms(1)] commandIDRE_nonempty assms(3) by auto
  moreover have "\<not> is_zero_time (to_utc now)" "\<not> before (to_utc now) (to_utc now)"
    using assms(7) by (simp_all add: before_def)
  ultimately show ?thesis
    using assms(3-8) SafeRejection_fields(1) [OF assms(2)] unfolding i
    by (auto simp: ApplyReceiptCompatibility_def Receipt_Validate_def Let_def empty_receipt_def)
qed

theorem safe_rejection_valid_witness:
  "\<exists>r. SafeRejection [Some (NewID (replicate 16 1))] ex_command ''command_expired'' ex_issued ''production'' = Some r \<and>
     Receipt_Validate (ApplyReceiptCompatibility r) = None"
proof -
  obtain r where r: "SafeRejection [Some (NewID (replicate 16 1))] ex_command ''command_expired'' ex_issued ''production'' = Some r"
    by (simp add: SafeRejection_def)
  have "Receipt_Validate (ApplyReceiptCompatibility r) = None"
    using safe_rejection_valid [OF _ r] by (simp add: ex_command_fields ex_issued_def is_zero_time_def ex_config_def)
  then show ?thesis using r by blast
qed

end
