(* ===== verification/Audit_Event.thy ===== *)
theory Audit_Event
  imports Command_Types
begin

section \<open>Audit events (\<open>internal/auditlog/types.go\<close>, audit part of \<open>internal/control/journal.go\<close>)\<close>

text \<open>
  The audit event that accompanies every terminal receipt, its validation, the immutable audit
  context that a claim stores, and the function that rebuilds an event from the context and a
  receipt.  The errors of these functions only carry a message, so validity is a truth value.
\<close>

subsection \<open>Events\<close>

record event_target =
  et_ClusterRef :: string
  et_NodeRef :: string
  et_GuestType :: string
  et_VMID :: int

record audit_event =
  ev_EventID :: string
  ev_AssignmentRevision :: u64
  ev_CommandID :: string
  ev_OperationID :: string
  ev_IdempotencyKey :: string
  ev_Action :: string
  ev_Scope :: string
  ev_TargetRef :: string
  ev_Target :: "event_target option"
  ev_WebsiteCommandKeyID :: string
  ev_ReceivedAt :: gotime
  ev_AcceptedAt :: "gotime option"
  ev_StartedAt :: "gotime option"
  ev_FinishedAt :: "gotime option"
  ev_Outcome :: string
  ev_ErrorCode :: string
  ev_FailureStage :: string
  ev_Error :: "execution_error option"
  ev_UPID :: string
  ev_ApprovalRef :: string
  ev_RequestedByRef :: string
  ev_PayloadDigest :: string
  ev_ResultDigest :: string
  ev_PolicyDecision :: string
  ev_AgentVersion :: string

text \<open>\<open>^[A-Z][A-Z0-9_]{0,127}$\<close> and \<open>^sha256:[0-9a-f]{64}$\<close>.\<close>

fun errorCodeRE :: "string \<Rightarrow> bool" where
  "errorCodeRE [] = False"
| "errorCodeRE (c # cs) =
     (is_upper c \<and> length cs \<le> 127 \<and> list_all (\<lambda>d. is_upper d \<or> is_digit d \<or> d = CHR ''_'') cs)"

definition digestRE :: "string \<Rightarrow> bool" where
  "digestRE s \<longleftrightarrow> take 7 s = ''sha256:'' \<and> bodyHashRE (drop 7 s)"

definition targetPartRE :: "string \<Rightarrow> bool" where
  "targetPartRE = match_ref ''._-'' 0 127"

definition validUTCTime :: "gotime \<Rightarrow> bool" where
  "validUTCTime t \<longleftrightarrow> \<not> is_zero_time t \<and> zone_offset (location t) = 0"

text \<open>A control character of the text is always a single byte, so the runes need not be decoded.\<close>

definition no_control :: "string \<Rightarrow> bool" where
  "no_control s \<longleftrightarrow> list_all (\<lambda>c. 32 \<le> code_of c \<and> code_of c \<noteq> 127) s"

definition validBoundedText :: "string \<Rightarrow> nat \<Rightarrow> bool \<Rightarrow> bool" where
  "validBoundedText value limit allowEmpty \<longleftrightarrow>
     length value \<le> limit \<and> (allowEmpty \<or> value \<noteq> []) \<and> is_trimmed value \<and> no_control value"

definition validOutcome :: "string \<Rightarrow> bool" where
  "validOutcome v \<longleftrightarrow> v \<in> {''dry_run'', ''submitted'', ''waiting'', ''succeeded'', ''failed'', ''rolled_back'',
     ''indeterminate'', ''rejected''}"

definition validTargetRef :: "string \<Rightarrow> string \<Rightarrow> bool" where
  "validTargetRef scope value \<longleftrightarrow>
     validBoundedText value 256 False \<and>
     (let parts = split_on CHR '':'' value in
      if scope = ''cluster'' then length parts = 2 \<and> parts ! 0 = ''cluster'' \<and> targetPartRE (parts ! 1)
      else if scope = ''node'' then
        length parts = 3 \<and> parts ! 0 = ''node'' \<and> targetPartRE (parts ! 1) \<and> targetPartRE (parts ! 2)
      else if scope = ''vm'' then
        length parts = 5 \<and> parts ! 0 = ''vm'' \<and> targetPartRE (parts ! 1) \<and>
        (parts ! 2 = ''qemu'' \<or> parts ! 2 = ''lxc'') \<and> targetPartRE (parts ! 3) \<and>
        (case parse_uint (parts ! 4) of
           None \<Rightarrow> False | Some generation \<Rightarrow> generation \<noteq> 0 \<and> dec (unat generation) = parts ! 4)
      else False)"

definition event_error_ok :: "execution_error \<Rightarrow> bool" where
  "event_error_ok e \<longleftrightarrow>
     (ee_Source e = ''pve'' \<or> ee_Source e = ''qga'' \<or> ee_Source e = ''agent'') \<and>
     errorStageRE (ee_Stage e) \<and>
     (ee_Method e = [] \<or> ee_Method e \<in> {''GET'', ''POST'', ''PUT'', ''DELETE''}) \<and>
     (ee_Path e = [] \<or> length (ee_Path e) \<le> 512 \<and> has_prefix ''/'' (ee_Path e) \<and>
       \<not> contains_any (ee_Path e) [0, 13, 10, 63, 35]) \<and>
     (ee_HTTPStatus e = 0 \<or> 100 \<le> ee_HTTPStatus e \<and> ee_HTTPStatus e \<le> 599) \<and>
     validBoundedText (ee_Reason e) 1024 False"

definition event_refs_ok :: "audit_event \<Rightarrow> bool" where
  "event_refs_ok e \<longleftrightarrow>
     commandIDRE (ev_CommandID e) \<and> commandIDRE (ev_IdempotencyKey e) \<and>
     (ev_OperationID e = [] \<or> commandIDRE (ev_OperationID e)) \<and> commandIDRE (ev_WebsiteCommandKeyID e) \<and>
     (ev_ApprovalRef e = [] \<or> commandIDRE (ev_ApprovalRef e)) \<and>
     (ev_RequestedByRef e = [] \<or> commandIDRE (ev_RequestedByRef e)) \<and> CHR ''@'' \<notin> set (ev_RequestedByRef e)"

definition event_target_ok :: "audit_event \<Rightarrow> bool" where
  "event_target_ok e \<longleftrightarrow>
     (case ev_Target e of
        None \<Rightarrow> True
      | Some t \<Rightarrow>
          ev_Scope e = ''vm'' \<and> targetPartRE (et_ClusterRef t) \<and> targetPartRE (et_NodeRef t) \<and>
          (et_GuestType t = ''qemu'' \<or> et_GuestType t = ''lxc'') \<and> 1 \<le> et_VMID t \<and>
          (let parts = split_on CHR '':'' (ev_TargetRef e) in
           length parts = 5 \<and> parts ! 1 = et_ClusterRef t \<and> parts ! 2 = et_GuestType t))"

text \<open>The acceptance or start of a command lies between its receipt and its end.\<close>

definition between_ok :: "audit_event \<Rightarrow> gotime option \<Rightarrow> bool" where
  "between_ok e t \<longleftrightarrow>
     (case t of
        None \<Rightarrow> True
      | Some a \<Rightarrow> validUTCTime a \<and> \<not> before a (ev_ReceivedAt e) \<and>
          (case ev_FinishedAt e of None \<Rightarrow> True | Some f \<Rightarrow> \<not> after a f))"

definition event_times_ok :: "audit_event \<Rightarrow> bool" where
  "event_times_ok e \<longleftrightarrow>
     validUTCTime (ev_ReceivedAt e) \<and>
     (case ev_FinishedAt e of None \<Rightarrow> True | Some f \<Rightarrow> validUTCTime f \<and> \<not> before f (ev_ReceivedAt e)) \<and>
     between_ok e (ev_AcceptedAt e) \<and> between_ok e (ev_StartedAt e)"

definition Event_Validate :: "audit_event \<Rightarrow> bool" where
  "Event_Validate e \<longleftrightarrow>
     uuidRE (ev_EventID e) \<and> ev_AssignmentRevision e \<noteq> 0 \<and> event_refs_ok e \<and>
     actionRE (ev_Action e) \<and> validTargetRef (ev_Scope e) (ev_TargetRef e) \<and> event_target_ok e \<and> event_times_ok e \<and>
     validOutcome (ev_Outcome e) \<and> (ev_ErrorCode e = [] \<or> errorCodeRE (ev_ErrorCode e)) \<and>
     (ev_FailureStage e = [] \<or> ev_FailureStage e \<in> {''admission'', ''policy'', ''execution'', ''receipt''}) \<and>
     (case ev_Error e of
        None \<Rightarrow> True
      | Some x \<Rightarrow> ev_Outcome e \<in> {''failed'', ''rolled_back'', ''indeterminate'', ''rejected''} \<and> event_error_ok x) \<and>
     (ev_UPID e = [] \<or> digestRE (ev_UPID e)) \<and> digestRE (ev_PayloadDigest e) \<and>
     (ev_ResultDigest e = [] \<or> digestRE (ev_ResultDigest e)) \<and>
     (ev_PolicyDecision e = ''allowed'' \<or> ev_PolicyDecision e = ''denied'') \<and>
     (ev_Outcome e = ''rejected'') = (ev_PolicyDecision e = ''denied'') \<and>
     validBoundedText (ev_AgentVersion e) 128 False"

subsection \<open>The audit context of a claim\<close>

record audit_context =
  ac_AssignmentRevision :: u64
  ac_CommandID :: string
  ac_IdempotencyKey :: string
  ac_OperationID :: string
  ac_Action :: string
  ac_Scope :: string
  ac_TargetRef :: string
  ac_Target :: "event_target option"
  ac_WebsiteCommandKeyID :: string
  ac_ReceivedAt :: gotime
  ac_AcceptedAt :: gotime
  ac_ApprovalRef :: string
  ac_RequestedByRef :: string
  ac_PayloadDigest :: string
  ac_AgentVersion :: string

definition validAuditText :: "string \<Rightarrow> nat \<Rightarrow> bool" where
  "validAuditText value limit \<longleftrightarrow> value \<noteq> [] \<and> length value \<le> limit \<and> is_trimmed value \<and> no_control value"

definition auditTargetRef :: "command \<Rightarrow> string option" where
  "auditTargetRef c =
     (let i = c_Identity c in
      if \<not> journalNodeRef (id_ClusterRef i) then None
      else case (if c_Scope c = ScopeCluster then Some (''cluster:'' @ id_ClusterRef i)
                 else if c_Scope c = ScopeNode then
                   (if journalNodeRef (id_NodeRef i) then Some (''node:'' @ id_ClusterRef i @ '':'' @ id_NodeRef i) else None)
                 else if c_Scope c = ScopeVM then
                   (if journalNodeRef (id_InstanceUUID i) \<and> (id_GuestType i = ''qemu'' \<or> id_GuestType i = ''lxc'') \<and>
                       id_Generation i \<noteq> 0
                    then Some (''vm:'' @ id_ClusterRef i @ '':'' @ id_GuestType i @ '':'' @ id_InstanceUUID i @ '':'' @
                           dec (unat (id_Generation i)))
                    else None)
                 else None) of
        None \<Rightarrow> None
      | Some result \<Rightarrow> if validAuditText result 256 then Some result else None)"

text \<open>The probe event with which \<open>validate\<close> checks the target.\<close>

definition probe_event :: "audit_context \<Rightarrow> audit_event" where
  "probe_event c = \<lparr>ev_EventID = ''11111111-1111-4111-8111-111111111111'', ev_AssignmentRevision = ac_AssignmentRevision c,
     ev_CommandID = ac_CommandID c, ev_OperationID = ac_OperationID c, ev_IdempotencyKey = ac_IdempotencyKey c,
     ev_Action = ac_Action c, ev_Scope = ac_Scope c, ev_TargetRef = ac_TargetRef c, ev_Target = ac_Target c,
     ev_WebsiteCommandKeyID = ac_WebsiteCommandKeyID c, ev_ReceivedAt = ac_ReceivedAt c, ev_AcceptedAt = None,
     ev_StartedAt = None, ev_FinishedAt = None, ev_Outcome = ''succeeded'', ev_ErrorCode = [], ev_FailureStage = [],
     ev_Error = None, ev_UPID = [], ev_ApprovalRef = [], ev_RequestedByRef = [], ev_PayloadDigest = ac_PayloadDigest c,
     ev_ResultDigest = [], ev_PolicyDecision = ''allowed'', ev_AgentVersion = ac_AgentVersion c\<rparr>"

definition context_validate :: "audit_context \<Rightarrow> bool" where
  "context_validate c \<longleftrightarrow>
     ac_AssignmentRevision c \<noteq> 0 \<and> commandIDRE (ac_CommandID c) \<and> commandIDRE (ac_IdempotencyKey c) \<and>
     commandIDRE (ac_OperationID c) \<and> actionRE (ac_Action c) \<and>
     (ac_Scope c = ScopeCluster \<or> ac_Scope c = ScopeNode \<or> ac_Scope c = ScopeVM) \<and>
     validAuditText (ac_TargetRef c) 256 \<and> commandIDRE (ac_WebsiteCommandKeyID c) \<and>
     \<not> is_zero_time (ac_ReceivedAt c) \<and> \<not> is_zero_time (ac_AcceptedAt c) \<and>
     \<not> before (ac_AcceptedAt c) (ac_ReceivedAt c) \<and>
     (ac_ApprovalRef c = [] \<or> commandIDRE (ac_ApprovalRef c)) \<and> commandIDRE (ac_RequestedByRef c) \<and>
     CHR ''@'' \<notin> set (ac_RequestedByRef c) \<and>
     take 7 (ac_PayloadDigest c) = ''sha256:'' \<and> bodyHashRE (drop 7 (ac_PayloadDigest c)) \<and>
     validAuditText (ac_AgentVersion c) 128 \<and>
     (ac_Target c \<noteq> None \<longrightarrow> Event_Validate (probe_event c))"

definition newAuditContext :: "command \<Rightarrow> gotime \<Rightarrow> string \<Rightarrow> audit_context option" where
  "newAuditContext c now agentVersion =
     (case auditTargetRef c of
        None \<Rightarrow> None
      | Some targetRef \<Rightarrow>
          (let r = \<lparr>ac_AssignmentRevision = c_AssignmentRevision c, ac_CommandID = c_CommandID c,
                 ac_IdempotencyKey = (if c_IdempotencyKey c = [] then c_CommandID c else c_IdempotencyKey c),
                 ac_OperationID = c_OperationID c, ac_Action = c_Action c, ac_Scope = c_Scope c, ac_TargetRef = targetRef,
                 ac_Target = (if c_Scope c = ScopeVM
                    then Some \<lparr>et_ClusterRef = id_ClusterRef (c_Identity c), et_NodeRef = id_NodeRef (c_Identity c),
                      et_GuestType = id_GuestType (c_Identity c), et_VMID = id_VMID (c_Identity c)\<rparr> else None),
                 ac_WebsiteCommandKeyID = c_SigningKeyID c, ac_ReceivedAt = to_utc now, ac_AcceptedAt = to_utc now,
                 ac_ApprovalRef = c_ApprovalRef c, ac_RequestedByRef = c_OperatorRef c,
                 ac_PayloadDigest = ''sha256:'' @ c_BodySHA256 c, ac_AgentVersion = agentVersion\<rparr>
           in if context_validate r then Some r else None))"

text \<open>\<open>sha\<close> is SHA-256 and \<open>marshal\<close> the JSON encoder of the receipt projection.\<close>

definition outcome_of :: "audit_context \<Rightarrow> receipt \<Rightarrow> string" where
  "outcome_of c r =
     (if ac_Action c = ''agent.upgrade'' then
        (if r_State r = ''waiting'' then ''submitted''
         else if r_State r = ''failed'' \<and> r_Code r = ''AGENT_UPGRADE_ROLLED_BACK'' then ''rolled_back''
         else r_State r)
      else r_State r)"

definition receipt_event :: "crypto \<Rightarrow> audit_context \<Rightarrow> receipt \<Rightarrow> string \<Rightarrow> audit_event" where
  "receipt_event cr c r resultDigest =
     (let policy = (if r_State r = ''rejected'' then ''denied'' else ''allowed''); outcome = outcome_of c r in
      \<lparr>ev_EventID = r_ReceiptID r, ev_AssignmentRevision = ac_AssignmentRevision c,
       ev_CommandID = ac_CommandID c, ev_OperationID = ac_OperationID c, ev_IdempotencyKey = ac_IdempotencyKey c,
       ev_Action = ac_Action c, ev_Scope = ac_Scope c, ev_TargetRef = ac_TargetRef c, ev_Target = ac_Target c,
       ev_WebsiteCommandKeyID = ac_WebsiteCommandKeyID c, ev_ReceivedAt = to_utc (ac_ReceivedAt c),
       ev_AcceptedAt = Some (to_utc (ac_AcceptedAt c)),
       ev_StartedAt = (if is_zero_time (r_StartedAt r) then None else Some (to_utc (r_StartedAt r))),
       ev_FinishedAt = (if is_zero_time (r_FinishedAt r) then None else Some (to_utc (r_FinishedAt r))),
       ev_Outcome = outcome, ev_ErrorCode = r_Code r,
       ev_FailureStage = (if policy = ''denied'' then ''policy''
          else if r_State r = ''failed'' \<or> outcome = ''rolled_back'' then ''execution''
          else if r_State r = ''indeterminate'' then ''receipt'' else []),
       ev_Error = r_Error r,
       ev_UPID = (if r_PVETaskUPID r = [] then [] else ''sha256:'' @ hex_encode (sha256 cr (r_PVETaskUPID r))),
       ev_ApprovalRef = ac_ApprovalRef c, ev_RequestedByRef = ac_RequestedByRef c,
       ev_PayloadDigest = ac_PayloadDigest c, ev_ResultDigest = resultDigest, ev_PolicyDecision = policy,
       ev_AgentVersion = ac_AgentVersion c\<rparr>)"

definition auditEventFromReceipt :: "crypto \<Rightarrow> (receipt \<Rightarrow> bytes option) \<Rightarrow> audit_context \<Rightarrow> receipt \<Rightarrow> audit_event option" where
  "auditEventFromReceipt cr marshal c r =
     (if \<not> context_validate c then None
      else case AuditReceiptDigest cr marshal r of
        None \<Rightarrow> None
      | Some resultDigest \<Rightarrow>
          (let e = receipt_event cr c r resultDigest in if Event_Validate e then Some e else None))"

lemma auditEvent_valid:
  assumes "auditEventFromReceipt cr marshal c r = Some e"
  shows "Event_Validate e" "\<exists>d. e = receipt_event cr c r d"
  using assms by (auto simp: auditEventFromReceipt_def Let_def split: if_splits option.splits)

lemma receipt_event_ids [simp]:
  "ev_EventID (receipt_event cr c r d) = r_ReceiptID r" "ev_CommandID (receipt_event cr c r d) = ac_CommandID c"
  by (simp_all add: receipt_event_def Let_def)

lemma newAuditContext_valid: "newAuditContext c now v = Some a \<Longrightarrow> context_validate a"
  by (auto simp: newAuditContext_def Let_def simp del: split_paired_Ex split: option.split_asm if_split_asm)

end
