(* ===== verification/Journal_Records.thy ===== *)
theory Journal_Records
  imports Audit_Event Durable_File
begin

section \<open>Journal records (\<open>internal/control/journal.go\<close>, markers of \<open>legacy_journal.go\<close>)\<close>

text \<open>
  The durable record of one command, when a file counts as a readable record, what a record says
  about the mutation it stands for, and when a retirement marker is backed by a completed
  migration.  JSON decoding of parameters and results is not modelled: the decoders are fields
  of \<open>jenv\<close>, one per Go type, \<open>None\<close> where \<open>strictParameters\<close> fails.
\<close>

record journal_record =
  jr_Version :: int
  jr_CommandID :: string
  jr_OperationID :: string
  jr_IdempotencyKey :: string
  jr_AgentRef :: string
  jr_BindingID :: string
  jr_DeviceID :: string
  jr_CredentialEpoch :: u64
  jr_AssignmentRevision :: u64
  jr_OperatorRef :: string
  jr_Scope :: string
  jr_Action :: string
  jr_ClusterRef :: string
  jr_ServiceRef :: string
  jr_InstanceUUID :: string
  jr_GuestType :: string
  jr_VMID :: int
  jr_Generation :: u64
  jr_SourceConfigSHA256 :: string
  jr_SourceTemplateRef :: string
  jr_SourceVMID :: int
  jr_MigratedByCommandID :: string
  jr_MigratedAt :: "gotime option"
  jr_RetiredByCommandID :: string
  jr_RetiredAt :: "gotime option"
  jr_Mutating :: bool
  jr_Digest :: string
  jr_ResourceKey :: string
  jr_NodeRef :: string
  jr_PVETaskUPID :: string
  jr_AgentUpgradeID :: string
  jr_SnippetDeletePhase :: string
  jr_SnippetStorageID :: string
  jr_SnippetVolumeSHA256 :: string
  jr_State :: string
  jr_ReceiptPending :: bool
  jr_CreatedAt :: gotime
  jr_UpdatedAt :: gotime
  jr_Receipt :: "receipt option"
  jr_AuditContext :: "audit_context option"
  jr_AuditPending :: "audit_event option"

type_synonym jdir = "journal_record dir"

subsection \<open>Typed results\<close>

record initial_result =
  ir_Configured :: bool
  ir_Verified :: bool
  ir_Cores :: int
  ir_Sockets :: int
  ir_MemoryMiB :: int
  ir_VMGeneration :: u64
  ir_TemplateRef :: string
  ir_SourceVMID :: int
  ir_TemplateConfigSHA256 :: string

record legacy_result =
  lr_Migrated :: bool
  lr_LegacyAssignmentRevision :: u64
  lr_LegacyCloneCommandID :: string
  lr_LegacyCloneOperationID :: string
  lr_TemplateRef :: string
  lr_SourceVMID :: int
  lr_SourceConfigSHA256 :: string
  lr_RetiredIDs :: "string list option"

record delete501_result =
  dr_Reconciled :: bool
  dr_RecoveryKind :: string
  dr_FailedCommandID :: string
  dr_FailedOperationID :: string
  dr_FailedCommandDigest :: string
  dr_FailedReceiptCode :: string
  dr_AffectedAgentVersion :: string
  dr_PVEVersion :: string
  dr_GuestType :: string
  dr_VMID :: int
  dr_Generation :: u64
  dr_GuestPresent :: bool
  dr_GuestStatus :: string

record ipfilter_result =
  fr_Reconciled :: bool
  fr_RecoveryKind :: string
  fr_LegacyAssignmentRevision :: u64
  fr_FailedCommandID :: string
  fr_FailedOperationID :: string
  fr_FailedCommandDigest :: string
  fr_FailedPayloadSHA256 :: string
  fr_FailedWireBodySHA256 :: string
  fr_FailedReceiptCode :: string
  fr_Name :: string
  fr_CIDR :: string
  fr_ProviderReadVerified :: bool
  fr_TargetPresent :: bool
  fr_ObservedCIDR :: string
  fr_JournalRecordRetired :: bool

datatype jerror = CommandConflict | OperationConflict | IdempotencyConflict | ResourceBusy
  | JournalNotExist | JournalCorrupt | JournalIO | ScopeKeyInvalid | CanonicalInvalid | IdentityInvalid
  | LineageInvalid | AuditInvalid | IDUnavailable | ReceiptMismatch | AuditNotQueued | ParametersInvalid
  | UnlistedActiveMutation string | ListedRecordNotEligible string | CloneJournalNotFound | CloneDigestMismatch
  | CloneResourceIdentityMismatch | CloneTerminalReceiptInvalid | CloneLegacyAuthorityMismatch | CloneAlreadyMigrated
  | MigrationAuthorityInvalid | ReadProofInvalid | IPFilterMismatch string

subsection \<open>Parameters of the journal migrations\<close>

record legacy_params =
  lp_LegacyAssignmentRevision :: u64
  lp_LegacyCloneCommandID :: string
  lp_LegacyCloneOperationID :: string
  lp_LegacyCloneDigest :: string
  lp_TemplateRef :: string
  lp_SourceVMID :: int
  lp_SourceConfigSHA256 :: string
  lp_RetireIDs :: "string list option"

record delete501_params =
  dp_RecoveryKind :: string
  dp_FailedCommandID :: string
  dp_FailedOperationID :: string
  dp_FailedCommandDigest :: string

record ipfilter_params =
  fp_RecoveryKind :: string
  fp_LegacyAssignmentRevision :: u64
  fp_FailedCommandID :: string
  fp_FailedOperationID :: string
  fp_FailedCommandDigest :: string
  fp_FailedPayloadSHA256 :: string
  fp_FailedWireBodySHA256 :: string
  fp_Name :: string
  fp_CIDR :: string

text \<open>
  The environment: hashes and encoders, the parameter and result decoders, Go's parsers of
  network addresses (\<open>net.ParseCIDR\<close> as address text and prefix length, \<open>net.ParseIP\<close> as
  address text and whether it is an IPv4 address), and the diagnostic and encoded result of an
  interrupted read-only command.
\<close>

record jenv =
  je_crypto :: command_crypto
  je_marshal_receipt :: "receipt \<Rightarrow> bytes option"
  je_clone :: "command \<Rightarrow> (string \<times> string \<times> int) option"
  je_initial :: "command \<Rightarrow> (string \<times> string \<times> int) option"
  je_initial_result :: "bytes \<Rightarrow> initial_result option"
  je_snippet_result :: "bytes \<Rightarrow> (bool \<times> bool) option"
  je_legacy_result :: "bytes \<Rightarrow> legacy_result option"
  je_delete501_result :: "bytes \<Rightarrow> delete501_result option"
  je_ipfilter_result :: "bytes \<Rightarrow> ipfilter_result option"
  je_legacy_params :: "bytes \<Rightarrow> legacy_params option"
  je_delete501_params :: "bytes \<Rightarrow> delete501_params option"
  je_ipfilter_params :: "bytes \<Rightarrow> ipfilter_params option"
  je_marshal_ipset :: "string \<Rightarrow> string \<Rightarrow> bytes option"
  je_parse_cidr :: "string \<Rightarrow> (string \<times> int) option"
  je_parse_ip :: "string \<Rightarrow> (string \<times> bool) option"
  je_interrupted_read :: "string \<Rightarrow> execution_error"
  je_delivery_failure :: "gotime \<Rightarrow> bytes"

definition je_event :: "jenv \<Rightarrow> audit_context \<Rightarrow> receipt \<Rightarrow> audit_event option" where
  "je_event env = auditEventFromReceipt (crypto.truncate (je_crypto env)) (je_marshal_receipt env)"

definition journal_path :: "jenv \<Rightarrow> string \<Rightarrow> string" where
  "journal_path env commandID = hex_encode (take 16 (sha256 (crypto.truncate (je_crypto env)) commandID)) @ ''.json''"

subsection \<open>Phases of a snippet deletion\<close>

definition snippetPhaseOrder :: "(string \<times> nat) list" where
  "snippetPhaseOrder = [('''', 0), (''validated'', 1), (''reference_proven'', 2), (''detached'', 3),
     (''delete_submitted'', 4), (''deleted'', 5), (''verified'', 6), (''succeeded'', 7)]"

text \<open>Indexing the Go map with an unknown phase yields 0.\<close>

definition phase_order :: "string \<Rightarrow> nat" where
  "phase_order p = (case map_of snippetPhaseOrder p of None \<Rightarrow> 0 | Some n \<Rightarrow> n)"

definition validSnippetJournalPhase :: "string \<Rightarrow> bool" where
  "validSnippetJournalPhase p \<longleftrightarrow> map_of snippetPhaseOrder p \<noteq> None \<and> p \<noteq> []"

definition validDirectSnippetPhase :: "string \<Rightarrow> bool" where
  "validDirectSnippetPhase p \<longleftrightarrow> p \<in> {''reference_proven'', ''detached'', ''deleted'', ''verified''}"

definition storageRE :: "string \<Rightarrow> bool" where
  "storageRE = match_ref ''._-'' 0 63"

definition nameRE :: "string \<Rightarrow> bool" where
  "nameRE = match_ref ''._-'' 0 127"

subsection \<open>Readable records\<close>

definition validJournalScope :: "string \<Rightarrow> string \<Rightarrow> bool" where
  "validJournalScope scope nodeRef =
     (if scope = ScopeCluster then nodeRef = []
      else if scope = ScopeNode \<or> scope = ScopeVM then journalNodeRef nodeRef else False)"

definition validSnippetJournalRecord :: "journal_record \<Rightarrow> bool" where
  "validSnippetJournalRecord r \<longleftrightarrow>
     jr_SnippetDeletePhase r = [] \<and> jr_SnippetStorageID r = [] \<and> jr_SnippetVolumeSHA256 r = [] \<or>
     jr_Action r = ''vm.cloud-init-snippet.delete'' \<and> validSnippetJournalPhase (jr_SnippetDeletePhase r) \<and>
     storageRE (jr_SnippetStorageID r) \<and> bodyHashRE (jr_SnippetVolumeSHA256 r) \<and> jr_GuestType r = ''qemu''"

definition validOptionalJournalLineage :: "journal_record \<Rightarrow> bool" where
  "validOptionalJournalLineage r =
     (if jr_BindingID r = [] \<and> jr_DeviceID r = [] \<and> jr_ClusterRef r = [] \<and> jr_ServiceRef r = [] \<and>
         jr_InstanceUUID r = [] \<and> jr_GuestType r = [] \<and> jr_VMID r = 0 \<and> jr_Generation r = 0 \<and>
         jr_CredentialEpoch r = 0 \<and> jr_AssignmentRevision r = 0 then True
      else if jr_BindingID r = [] \<and> jr_DeviceID r = [] \<and> jr_CredentialEpoch r = 0 \<and> jr_AssignmentRevision r = 0 then True
      else if jr_Scope r = ScopeVM then
        uuidRE (jr_BindingID r) \<and> commandIDRE (jr_DeviceID r) \<and> commandIDRE (jr_AgentRef r) \<and>
        commandIDRE (jr_ClusterRef r) \<and> commandIDRE (jr_ServiceRef r) \<and> commandIDRE (jr_InstanceUUID r) \<and>
        (jr_GuestType r = ''qemu'' \<or> jr_GuestType r = ''lxc'') \<and> jr_VMID r > 0 \<and> jr_Generation r \<noteq> 0 \<and>
        jr_CredentialEpoch r \<noteq> 0 \<and> jr_AssignmentRevision r \<noteq> 0
      else jr_ClusterRef r \<noteq> [] \<and> jr_ServiceRef r = [] \<and> jr_InstanceUUID r = [] \<and> jr_GuestType r = [] \<and>
        jr_VMID r = 0 \<and> jr_Generation r = 0)"

definition recordSucceeded :: "journal_record \<Rightarrow> bool" where
  "recordSucceeded r \<longleftrightarrow>
     jr_State r = ''succeeded'' \<and>
     (case jr_Receipt r of
        None \<Rightarrow> False
      | Some x \<Rightarrow> r_State x = ''succeeded'' \<and> r_Code x = ''SUCCEEDED'' \<and> r_CommandID x = jr_CommandID r \<and>
          r_OperationID x = jr_OperationID r)"

definition legacyIndeterminateReceiptCode :: "string \<Rightarrow> string \<Rightarrow> bool" where
  "legacyIndeterminateReceiptCode code action =
     (if code = ''EXECUTION_INDETERMINATE'' \<or> code = ''PVE_RESULT_INDETERMINATE'' then True
      else if code \<noteq> ''PVE_ACTION_INDETERMINATE'' then False
      else action \<in> {''vm.start'', ''vm.shutdown'', ''vm.stop'', ''vm.reboot'', ''vm.suspend'', ''vm.resume''})"

definition delete501CommandID :: string where
  "delete501CommandID = ''c864ed6d-3d43-4fc9-b966-edaf7066cbb0''"

definition delete501OperationID :: string where
  "delete501OperationID = ''f967235b-a593-42fa-ae2d-f42219204d59''"

definition delete501CommandDigest :: string where
  "delete501CommandDigest = ''c1ed3db0b581f7891f3f917fbf9b42d2ffb86251d0cdf4b2a00cb0c6d48ab830''"

definition knownDelete501RetirementShape :: "journal_record \<Rightarrow> bool" where
  "knownDelete501RetirementShape r \<longleftrightarrow>
     jr_Action r = ''vm.delete'' \<and> jr_Scope r = ScopeVM \<and> jr_GuestType r = ''qemu'' \<and>
     jr_CommandID r = delete501CommandID \<and> jr_OperationID r = delete501OperationID \<and>
     jr_Digest r = delete501CommandDigest \<and> jr_VMID r = 100 \<and> jr_Generation r = 1 \<and> jr_State r = ''indeterminate'' \<and>
     jr_PVETaskUPID r = [] \<and> jr_AgentUpgradeID r = [] \<and>
     (case (jr_Receipt r, jr_AuditContext r) of
        (Some x, Some a) \<Rightarrow>
          r_State x = ''indeterminate'' \<and> r_Code x = ''PVE_ACTION_INDETERMINATE'' \<and> r_CommandID x = jr_CommandID r \<and>
          r_OperationID x = jr_OperationID r \<and> r_AgentRef x = jr_AgentRef r \<and> \<not> r_Accepted x \<and> \<not> r_Asynchronous x \<and>
          r_MutationMayHaveSucceeded x \<and> r_PVETaskUPID x = [] \<and> r_AgentUpgradeID x = [] \<and>
          ac_AgentVersion a = ''0.1.1-rc.4'' \<and> ac_Action a = ''vm.delete'' \<and> ac_Scope a = ScopeVM \<and>
          ac_CommandID a = jr_CommandID r \<and> ac_OperationID a = jr_OperationID r \<and>
          ac_IdempotencyKey a = jr_IdempotencyKey r \<and> ac_AssignmentRevision a = jr_AssignmentRevision r \<and>
          ac_ApprovalRef a \<noteq> []
      | _ \<Rightarrow> False)"

definition utc_marker :: "gotime option \<Rightarrow> bool" where
  "utc_marker t \<longleftrightarrow> (case t of None \<Rightarrow> True | Some x \<Rightarrow> \<not> is_zero_time x \<and> location x = UTC)"

definition legacyRetirementShape :: "journal_record \<Rightarrow> bool" where
  "legacyRetirementShape r \<longleftrightarrow>
     jr_Action r \<noteq> ''vm.migrate-legacy-journal'' \<and> jr_State r = ''indeterminate'' \<and> jr_PVETaskUPID r = [] \<and>
     jr_AgentUpgradeID r = [] \<and>
     (case jr_Receipt r of
        None \<Rightarrow> False
      | Some x \<Rightarrow> r_State x = ''indeterminate'' \<and> legacyIndeterminateReceiptCode (r_Code x) (jr_Action r) \<and>
          r_PVETaskUPID x = [] \<and> r_AgentUpgradeID x = [])"

definition validJournalMigrationMarkers :: "journal_record \<Rightarrow> bool" where
  "validJournalMigrationMarkers r \<longleftrightarrow>
     (jr_MigratedByCommandID r = []) = (jr_MigratedAt r = None) \<and>
     (jr_RetiredByCommandID r = []) = (jr_RetiredAt r = None) \<and>
     (jr_MigratedByCommandID r = [] \<or> commandIDRE (jr_MigratedByCommandID r)) \<and>
     (jr_RetiredByCommandID r = [] \<or> commandIDRE (jr_RetiredByCommandID r)) \<and>
     jr_MigratedByCommandID r \<noteq> jr_CommandID r \<and> jr_RetiredByCommandID r \<noteq> jr_CommandID r \<and>
     (jr_MigratedByCommandID r = [] \<or> jr_RetiredByCommandID r = []) \<and>
     (jr_MigratedByCommandID r = [] \<or>
        jr_Action r = ''vm.clone'' \<and> jr_SourceTemplateRef r \<noteq> [] \<and> 100 \<le> jr_SourceVMID r \<and> recordSucceeded r) \<and>
     (jr_RetiredByCommandID r = [] \<or> legacyRetirementShape r \<or> knownDelete501RetirementShape r) \<and>
     utc_marker (jr_MigratedAt r) \<and> utc_marker (jr_RetiredAt r)"

definition record_ok :: "journal_record \<Rightarrow> bool" where
  "record_ok r \<longleftrightarrow>
     jr_Version r = SchemaVersion \<and> commandIDRE (jr_CommandID r) \<and> jr_Digest r \<noteq> [] \<and> jr_ResourceKey r \<noteq> [] \<and>
     validJournalScope (jr_Scope r) (jr_NodeRef r) \<and> (jr_Action r = [] \<or> actionRE (jr_Action r)) \<and>
     (jr_SourceConfigSHA256 r = [] \<or> bodyHashRE (jr_SourceConfigSHA256 r)) \<and>
     (jr_SourceTemplateRef r = [] \<or> nameRE (jr_SourceTemplateRef r)) \<and> 0 \<le> jr_SourceVMID r \<and>
     (jr_PVETaskUPID r = [] \<or> upidRE (jr_PVETaskUPID r)) \<and>
     (case jr_AuditContext r of None \<Rightarrow> True | Some a \<Rightarrow> context_validate a) \<and>
     (case jr_AuditPending r of None \<Rightarrow> True | Some e \<Rightarrow> Event_Validate e) \<and>
     validOptionalJournalLineage r \<and> validJournalMigrationMarkers r \<and> validSnippetJournalRecord r"

text \<open>
  A file that cannot be read and one whose bytes do not decode are both a missing value: the
  callers treat them alike.
\<close>

definition readJournal :: "jdir \<Rightarrow> string \<Rightarrow> jerror + journal_record" where
  "readJournal d p =
     (case dir_read d p of
        None \<Rightarrow> Inl JournalNotExist
      | Some None \<Rightarrow> Inl JournalCorrupt
      | Some (Some r) \<Rightarrow> if record_ok r then Inr r else Inl JournalCorrupt)"

lemma readJournal_Inr: "readJournal d p = Inr r \<longleftrightarrow> dir_read d p = Some (Some r) \<and> record_ok r"
  by (auto simp: readJournal_def split: option.splits if_splits)

lemma readJournal_NotExist: "readJournal d p = Inl JournalNotExist \<longleftrightarrow> dir_read d p = None"
  by (auto simp: readJournal_def split: option.splits if_splits)

subsection \<open>Scanning the directory\<close>

text \<open>
  Every scan walks the \<open>.json\<close> files in the order of \<open>os.ReadDir\<close> and stops at the first file it
  cannot read or the first record that decides it.
\<close>

definition json_files :: "jdir \<Rightarrow> string list" where
  "json_files d = filter (has_suffix ''.json'') (sort (map fst d))"

fun scan :: "(journal_record \<Rightarrow> jerror + 'a option) \<Rightarrow> jdir \<Rightarrow> string list \<Rightarrow> jerror + 'a option" where
  "scan f d [] = Inr None"
| "scan f d (n # ns) =
     (case readJournal d n of
        Inl e \<Rightarrow> Inl e
      | Inr r \<Rightarrow> (case f r of Inl e \<Rightarrow> Inl e | Inr (Some x) \<Rightarrow> Inr (Some x) | Inr None \<Rightarrow> scan f d ns))"

fun read_all :: "jdir \<Rightarrow> string list \<Rightarrow> jerror + journal_record list" where
  "read_all d [] = Inr []"
| "read_all d (n # ns) =
     (case readJournal d n of
        Inl e \<Rightarrow> Inl e
      | Inr r \<Rightarrow> (case read_all d ns of Inl e \<Rightarrow> Inl e | Inr rs \<Rightarrow> Inr (r # rs)))"

lemma scan_None:
  "scan f d ns = Inr None \<longleftrightarrow> list_all (\<lambda>n. \<exists>r. readJournal d n = Inr r \<and> f r = Inr None) ns"
  by (induction ns) (auto split: sum.splits option.splits)

lemma read_all_set:
  "read_all d ns = Inr rs \<Longrightarrow> r \<in> set rs \<longleftrightarrow> (\<exists>n \<in> set ns. readJournal d n = Inr r)"
  by (induction ns arbitrary: rs) (auto split: sum.splits)

lemma json_files_iff: "n \<in> set (json_files d) \<longleftrightarrow> dir_read d n \<noteq> None \<and> has_suffix ''.json'' n"
  by (auto simp: json_files_def dir_read_def map_of_eq_None_iff)

lemma journal_path_json [simp]: "has_suffix ''.json'' (journal_path env c)"
  by (simp add: journal_path_def)

subsection \<open>What a record says about its mutation\<close>

definition recordHasCompleteRetirementMarkers :: "journal_record \<Rightarrow> bool" where
  "recordHasCompleteRetirementMarkers r \<longleftrightarrow>
     jr_RetiredByCommandID r \<noteq> [] \<and> commandIDRE (jr_RetiredByCommandID r) \<and>
     (case jr_RetiredAt r of None \<Rightarrow> False | Some t \<Rightarrow> \<not> is_zero_time t \<and> location t = UTC) \<and>
     validJournalMigrationMarkers r"

definition recordMutationMayHaveHappened :: "journal_record \<Rightarrow> bool" where
  "recordMutationMayHaveHappened r =
     (if recordHasCompleteRetirementMarkers r then False
      else case jr_Receipt r of
        None \<Rightarrow> jr_State r \<in> {''received'', ''submitted'', ''waiting'', ''indeterminate''}
      | Some x \<Rightarrow> r_State x \<in> {''submitted'', ''waiting'', ''succeeded'', ''indeterminate''})"

definition optionalMatches :: "'a::zero \<Rightarrow> 'a \<Rightarrow> bool" where
  "optionalMatches v expected \<longleftrightarrow> v = 0 \<or> v = expected"

definition optionalStringMatches :: "string \<Rightarrow> string \<Rightarrow> bool" where
  "optionalStringMatches v expected \<longleftrightarrow> v = [] \<or> v = expected"

definition legacyRetirementAuthorityMatches :: "journal_record \<Rightarrow> journal_record \<Rightarrow> u64 \<Rightarrow> bool" where
  "legacyRetirementAuthorityMatches r migration revision =
     (case (jr_AuditContext r, jr_AuditContext migration) of
        (Some a, Some b) \<Rightarrow>
          jr_AgentRef r = jr_AgentRef migration \<and> jr_NodeRef r = jr_NodeRef migration \<and> jr_Scope r = ScopeVM \<and>
          ac_AssignmentRevision a = revision \<and> revision < jr_AssignmentRevision migration \<and>
          ac_WebsiteCommandKeyID a = ac_WebsiteCommandKeyID b \<and> ac_TargetRef a = ac_TargetRef b \<and>
          ac_CommandID a = jr_CommandID r \<and> ac_OperationID a = jr_OperationID r \<and> ac_Scope a = ScopeVM \<and>
          ac_ApprovalRef a \<noteq> [] \<and> ac_Action b = ''vm.migrate-legacy-journal'' \<and> ac_ApprovalRef b \<noteq> [] \<and>
          optionalStringMatches (jr_BindingID r) (jr_BindingID migration) \<and>
          optionalStringMatches (jr_DeviceID r) (jr_DeviceID migration) \<and>
          optionalMatches (jr_CredentialEpoch r) (jr_CredentialEpoch migration) \<and>
          optionalMatches (jr_AssignmentRevision r) revision \<and>
          optionalStringMatches (jr_ClusterRef r) (jr_ClusterRef migration) \<and>
          optionalStringMatches (jr_ServiceRef r) (jr_ServiceRef migration) \<and>
          optionalStringMatches (jr_InstanceUUID r) (jr_InstanceUUID migration) \<and>
          optionalStringMatches (jr_GuestType r) (jr_GuestType migration) \<and>
          optionalMatches (jr_VMID r) (jr_VMID migration) \<and> optionalMatches (jr_Generation r) (jr_Generation migration)
      | _ \<Rightarrow> False)"

definition validDelete501RecoveryJournalResult :: "jenv \<Rightarrow> journal_record \<Rightarrow> bytes \<Rightarrow> bool" where
  "validDelete501RecoveryJournalResult env r raw \<longleftrightarrow>
     jr_Action r = ''vm.migrate-legacy-journal'' \<and> raw \<noteq> [] \<and>
     (case je_delete501_result env raw of
        None \<Rightarrow> False
      | Some x \<Rightarrow>
          dr_Reconciled x \<and> dr_RecoveryKind x = ''pve-delete-form-body-501-v1'' \<and>
          dr_FailedCommandID x = delete501CommandID \<and> dr_FailedOperationID x = delete501OperationID \<and>
          dr_FailedCommandDigest x = delete501CommandDigest \<and> dr_FailedReceiptCode x = ''PVE_ACTION_INDETERMINATE'' \<and>
          dr_AffectedAgentVersion x = ''0.1.1-rc.4'' \<and> dr_PVEVersion x = ''8.4.0'' \<and> dr_GuestType x = ''qemu'' \<and>
          dr_VMID x = 100 \<and> dr_Generation x = 1 \<and> dr_GuestPresent x \<and> dr_GuestStatus x = ''stopped'')"

text \<open>Firewall addresses: a prefix in CIDR notation, or a reference to an address set.\<close>

definition validFirewallAddress :: "jenv \<Rightarrow> string \<Rightarrow> bool" where
  "validFirewallAddress env v \<longleftrightarrow>
     v = [] \<or> (has_prefix ''+'' v \<or> has_prefix ''-'' v) \<and> nameRE (drop 1 v) \<or> je_parse_cidr env v \<noteq> None"

definition validIPSetEntry :: "jenv \<Rightarrow> string \<Rightarrow> string \<Rightarrow> bool" where
  "validIPSetEntry env name cidr \<longleftrightarrow> nameRE name \<and> cidr \<noteq> [] \<and> validFirewallAddress env cidr"

definition canonicalFirewallCIDR :: "jenv \<Rightarrow> string \<Rightarrow> string option" where
  "canonicalFirewallCIDR env v0 =
     (let v = trim_space v0 in
      case je_parse_cidr env v of
        Some (ip, ones) \<Rightarrow> Some (ip @ ''/'' @ dec_int ones)
      | None \<Rightarrow> map_option (\<lambda>(ip, v4). ip @ (if v4 then ''/32'' else ''/128'')) (je_parse_ip env v))"

definition ipFilterDeletePayloadSHA256 :: "jenv \<Rightarrow> string \<Rightarrow> string \<Rightarrow> string" where
  "ipFilterDeletePayloadSHA256 env name cidr =
     (case je_marshal_ipset env name cidr of
        None \<Rightarrow> [] | Some raw \<Rightarrow> BodyHash (crypto.truncate (je_crypto env)) raw)"

definition ipFilterDeleteRecoveryKind :: string where
  "ipFilterDeleteRecoveryKind = ''ipfilter-delete-readback-v1''"

definition validIPFilterDeleteRecoveryJournalResult :: "jenv \<Rightarrow> journal_record \<Rightarrow> bytes \<Rightarrow> bool" where
  "validIPFilterDeleteRecoveryJournalResult env r raw \<longleftrightarrow>
     jr_Action r = ''vm.migrate-legacy-journal'' \<and> raw \<noteq> [] \<and>
     (case je_ipfilter_result env raw of
        None \<Rightarrow> False
      | Some x \<Rightarrow>
          fr_Reconciled x \<and> fr_RecoveryKind x = ipFilterDeleteRecoveryKind \<and>
          fr_LegacyAssignmentRevision x \<noteq> 0 \<and> fr_LegacyAssignmentRevision x < jr_AssignmentRevision r \<and>
          commandIDRE (fr_FailedCommandID x) \<and> commandIDRE (fr_FailedOperationID x) \<and>
          bodyHashRE (fr_FailedCommandDigest x) \<and> bodyHashRE (fr_FailedPayloadSHA256 x) \<and>
          bodyHashRE (fr_FailedWireBodySHA256 x) \<and> fr_FailedReceiptCode x = ''PVE_RESULT_INDETERMINATE'' \<and>
          fr_FailedPayloadSHA256 x = ipFilterDeletePayloadSHA256 env (fr_Name x) (fr_CIDR x) \<and>
          validIPSetEntry env (fr_Name x) (fr_CIDR x) \<and> fr_ProviderReadVerified x \<and> fr_JournalRecordRetired x \<and>
          (fr_TargetPresent x \<and> canonicalFirewallCIDR env (fr_CIDR x) \<noteq> None \<and>
             canonicalFirewallCIDR env (fr_CIDR x) = canonicalFirewallCIDR env (fr_ObservedCIDR x) \<or>
           \<not> fr_TargetPresent x \<and> fr_ObservedCIDR x = []))"

fun strictly_sorted_ids :: "string \<Rightarrow> string list \<Rightarrow> bool" where
  "strictly_sorted_ids previous [] = True"
| "strictly_sorted_ids previous (i # is) =
     (commandIDRE i \<and> (previous = [] \<or> previous < i) \<and> strictly_sorted_ids i is)"

definition validLegacyMigrationJournalResult :: "jenv \<Rightarrow> journal_record \<Rightarrow> bytes \<Rightarrow> bool" where
  "validLegacyMigrationJournalResult env r raw \<longleftrightarrow>
     raw \<noteq> [] \<and>
     (case je_legacy_result env raw of
        None \<Rightarrow> False
      | Some x \<Rightarrow>
          lr_Migrated x \<and> commandIDRE (lr_LegacyCloneCommandID x) \<and> commandIDRE (lr_LegacyCloneOperationID x) \<and>
          nameRE (lr_TemplateRef x) \<and> lr_LegacyAssignmentRevision x \<noteq> 0 \<and>
          lr_LegacyAssignmentRevision x < jr_AssignmentRevision r \<and>
          100 \<le> lr_SourceVMID x \<and> lr_SourceVMID x \<le> 999999999 \<and> bodyHashRE (lr_SourceConfigSHA256 x) \<and>
          (case lr_RetiredIDs x of None \<Rightarrow> False | Some ids \<Rightarrow> length ids \<le> 64 \<and> strictly_sorted_ids [] ids))"

text \<open>
  \<open>retirementCommittedLocked\<close>: the markers are complete, the migration that set them is in the
  journal, succeeded under the same authority with an approval, spans the time of the marker,
  and its typed result names this record.  The address-recovery case dereferences the record's
  audit context; \<open>ipFilterDeleteRecordEligible\<close> sets the marker only where there is one, and a
  record without one is not retired here.
\<close>

definition same_guest :: "journal_record \<Rightarrow> journal_record \<Rightarrow> bool" where
  "same_guest m r \<longleftrightarrow>
     jr_BindingID m = jr_BindingID r \<and> jr_DeviceID m = jr_DeviceID r \<and> jr_CredentialEpoch m = jr_CredentialEpoch r \<and>
     jr_AgentRef m = jr_AgentRef r \<and> jr_ClusterRef m = jr_ClusterRef r \<and> jr_NodeRef m = jr_NodeRef r \<and>
     jr_ServiceRef m = jr_ServiceRef r \<and> jr_InstanceUUID m = jr_InstanceUUID r \<and> jr_GuestType m = jr_GuestType r \<and>
     jr_VMID m = jr_VMID r \<and> jr_Generation m = jr_Generation r"

definition migration_result :: "journal_record \<Rightarrow> bytes" where
  "migration_result m = (case jr_Receipt m of None \<Rightarrow> [] | Some x \<Rightarrow> r_Result x)"

definition ipfilter_of :: "jenv \<Rightarrow> journal_record \<Rightarrow> ipfilter_result option" where
  "ipfilter_of env m =
     (case je_ipfilter_result env (migration_result m) of
        None \<Rightarrow> None | Some x \<Rightarrow> if fr_RecoveryKind x = ipFilterDeleteRecoveryKind then Some x else None)"

definition migrationAuthorityMatches :: "jenv \<Rightarrow> journal_record \<Rightarrow> journal_record \<Rightarrow> bool" where
  "migrationAuthorityMatches env m r \<longleftrightarrow>
     same_guest m r \<and>
     (jr_AssignmentRevision m = jr_AssignmentRevision r \<or>
      (case (ipfilter_of env m, jr_AuditContext r) of
         (Some x, Some a) \<Rightarrow>
           fr_LegacyAssignmentRevision x = ac_AssignmentRevision a \<and>
           jr_AssignmentRevision r = fr_LegacyAssignmentRevision x \<and> jr_AssignmentRevision r < jr_AssignmentRevision m
       | _ \<Rightarrow> False)) \<or>
     (case ipfilter_of env m of
        None \<Rightarrow> False | Some x \<Rightarrow> legacyRetirementAuthorityMatches r m (fr_LegacyAssignmentRevision x))"

definition retirement_listed :: "jenv \<Rightarrow> journal_record \<Rightarrow> journal_record \<Rightarrow> bool" where
  "retirement_listed env m r =
     (let raw = migration_result m in
      if knownDelete501RetirementShape r then
        validDelete501RecoveryJournalResult env m raw \<and>
        (case (je_delete501_result env raw, jr_AuditContext m, jr_AuditContext r) of
           (Some x, Some b, Some a) \<Rightarrow>
             ac_WebsiteCommandKeyID b = ac_WebsiteCommandKeyID a \<and> ac_TargetRef b = ac_TargetRef a \<and>
             dr_FailedCommandID x = jr_CommandID r \<and> dr_FailedOperationID x = jr_OperationID r \<and>
             dr_FailedCommandDigest x = jr_Digest r
         | _ \<Rightarrow> False)
      else case ipfilter_of env m of
        Some x \<Rightarrow>
          validIPFilterDeleteRecoveryJournalResult env m raw \<and>
          (case jr_AuditContext r of
             None \<Rightarrow> False
           | Some a \<Rightarrow>
               fr_LegacyAssignmentRevision x = ac_AssignmentRevision a \<and> fr_FailedCommandID x = jr_CommandID r \<and>
               fr_FailedOperationID x = jr_OperationID r \<and> fr_FailedCommandDigest x = jr_Digest r \<and>
               ac_PayloadDigest a = ''sha256:'' @ fr_FailedWireBodySHA256 x)
      | None \<Rightarrow>
          validLegacyMigrationJournalResult env m raw \<and>
          (case je_legacy_result env raw of
             None \<Rightarrow> False
           | Some x \<Rightarrow> (case lr_RetiredIDs x of None \<Rightarrow> False | Some ids \<Rightarrow> jr_CommandID r \<in> set ids)))"

definition retirementCommittedLocked :: "jenv \<Rightarrow> jdir \<Rightarrow> journal_record \<Rightarrow> jerror + bool" where
  "retirementCommittedLocked env d r =
     (if \<not> recordHasCompleteRetirementMarkers r then Inr False
      else case readJournal d (journal_path env (jr_RetiredByCommandID r)) of
        Inl JournalNotExist \<Rightarrow> Inr False
      | Inl e \<Rightarrow> Inl e
      | Inr m \<Rightarrow>
          Inr (jr_CommandID m = jr_RetiredByCommandID r \<and> jr_Action m = ''vm.migrate-legacy-journal'' \<and>
               jr_ResourceKey m = jr_ResourceKey r \<and> recordSucceeded m \<and>
               (case jr_AuditContext m of None \<Rightarrow> False | Some a \<Rightarrow> ac_Action a = jr_Action m \<and> ac_ApprovalRef a \<noteq> []) \<and>
               migrationAuthorityMatches env m r \<and>
               \<not> is_zero_time (jr_CreatedAt m) \<and> \<not> is_zero_time (jr_UpdatedAt m) \<and>
               (case jr_RetiredAt r of
                  None \<Rightarrow> False | Some t \<Rightarrow> \<not> before t (jr_CreatedAt m) \<and> \<not> after t (jr_UpdatedAt m)) \<and>
               retirement_listed env m r))"

definition recordMutationMayHaveHappenedLocked :: "jenv \<Rightarrow> jdir \<Rightarrow> journal_record \<Rightarrow> jerror + bool" where
  "recordMutationMayHaveHappenedLocked env d r =
     (if recordHasCompleteRetirementMarkers r then
        (case retirementCommittedLocked env d r of Inl e \<Rightarrow> Inl e | Inr retired \<Rightarrow> Inr (\<not> retired))
      else Inr (recordMutationMayHaveHappened r))"

end
