(* ===== verification/Legacy_Journal.thy ===== *)
theory Legacy_Journal
  imports Journal_Records
begin

section \<open>Journal migrations (\<open>legacy_journal.go\<close>, \<open>delete_501_recovery.go\<close>, \<open>ipfilter_delete_recovery.go\<close>)\<close>

text \<open>
  The three signed repairs of a journal: adopting the clone record of an older agent and retiring
  listed indeterminate records, retiring one pinned failed deletion, and retiring a failed
  firewall entry deletion after a read of the platform.  Each has a claim check, which is the one
  exception to the lock on a resource, and an operation that appends markers to records.
\<close>

subsection \<open>Resource keys\<close>

definition journalResourceKey :: "command \<Rightarrow> string option" where
  "journalResourceKey c =
     (let i = c_Identity c in
      if \<not> commandIDRE (id_ClusterRef i) \<or> \<not> validActionScope (c_Action c) (c_Scope c) then None
      else if c_Scope c = ScopeCluster then Some (''cluster:'' @ id_ClusterRef i)
      else if c_Scope c = ScopeNode then
        (if journalNodeRef (id_NodeRef i) then Some (''node:'' @ id_ClusterRef i @ '':'' @ id_NodeRef i) else None)
      else if c_Scope c = ScopeVM then
        (if \<not> journalNodeRef (id_NodeRef i) \<or> id_VMID i < 1 \<or> id_Generation i = 0 \<or>
            (id_GuestType i \<noteq> ''qemu'' \<and> id_GuestType i \<noteq> ''lxc'') then None
         else Some (''vm:'' @ id_ClusterRef i @ '':'' @ id_GuestType i @ '':'' @ dec_int (id_VMID i) @ '':'' @
                dec (unat (id_Generation i))))
      else None)"

subsection \<open>Writing a record\<close>

definition save :: "io list \<Rightarrow> string \<Rightarrow> journal_record \<Rightarrow> jdir \<Rightarrow> bool \<times> jdir \<times> io list" where
  "save ios p r d =
     (let (oc, ios') = take_io ios; (ok, d') = dir_write oc p r d in (ok, d', ios'))"

subsection \<open>Authority of old records\<close>

text \<open>\<open>None\<close> where the code returns \<open>false\<close> beside the action.\<close>

definition legacyRecordAction :: "journal_record \<Rightarrow> string option" where
  "legacyRecordAction r =
     (case jr_AuditContext r of
        None \<Rightarrow> None
      | Some a \<Rightarrow>
          if ac_Action a = [] \<or> \<not> validActionScope (ac_Action a) ScopeVM \<or> \<not> requiresApproval (ac_Action a) then None
          else if jr_Action r \<noteq> [] \<and> jr_Action r \<noteq> ac_Action a then None
          else Some (ac_Action a))"

definition recordAuthorityEquals :: "journal_record \<Rightarrow> command \<Rightarrow> bool" where
  "recordAuthorityEquals r c \<longleftrightarrow>
     (let i = c_Identity c in
      jr_BindingID r = c_BindingID c \<and> jr_DeviceID r = c_DeviceID c \<and> jr_CredentialEpoch r = c_CredentialEpoch c \<and>
      jr_AssignmentRevision r = c_AssignmentRevision c \<and> jr_AgentRef r = c_AgentRef c \<and>
      jr_ClusterRef r = id_ClusterRef i \<and> jr_NodeRef r = id_NodeRef i \<and> jr_ServiceRef r = id_ServiceRef i \<and>
      jr_InstanceUUID r = id_InstanceUUID i \<and> jr_GuestType r = id_GuestType i \<and> jr_VMID r = id_VMID i \<and>
      jr_Generation r = id_Generation i)"

definition legacyRecordAuthorityMatches :: "journal_record \<Rightarrow> command \<Rightarrow> u64 \<Rightarrow> bool" where
  "legacyRecordAuthorityMatches r c revision \<longleftrightarrow>
     (let i = c_Identity c in
      (case jr_AuditContext r of
         None \<Rightarrow> False
       | Some a \<Rightarrow>
           jr_AgentRef r = c_AgentRef c \<and> jr_NodeRef r = id_NodeRef i \<and> legacyRecordAction r \<noteq> None \<and>
           jr_Scope r = ScopeVM \<and> ac_AssignmentRevision a = revision \<and> ac_CommandID a = jr_CommandID r \<and>
           ac_OperationID a = jr_OperationID r \<and> ac_Scope a = ScopeVM \<and> ac_WebsiteCommandKeyID a = c_SigningKeyID c \<and>
           ac_ApprovalRef a \<noteq> [] \<and> auditTargetRef c = Some (ac_TargetRef a) \<and>
           optionalStringMatches (jr_BindingID r) (c_BindingID c) \<and>
           optionalStringMatches (jr_DeviceID r) (c_DeviceID c) \<and>
           optionalMatches (jr_CredentialEpoch r) (c_CredentialEpoch c) \<and>
           optionalMatches (jr_AssignmentRevision r) revision \<and>
           optionalStringMatches (jr_ClusterRef r) (id_ClusterRef i) \<and>
           optionalStringMatches (jr_ServiceRef r) (id_ServiceRef i) \<and>
           optionalStringMatches (jr_InstanceUUID r) (id_InstanceUUID i) \<and>
           optionalStringMatches (jr_GuestType r) (id_GuestType i) \<and>
           optionalMatches (jr_VMID r) (id_VMID i) \<and> optionalMatches (jr_Generation r) (id_Generation i)))"

definition legacySourceIdentityMatches :: "journal_record \<Rightarrow> legacy_params \<Rightarrow> bool" where
  "legacySourceIdentityMatches r p \<longleftrightarrow>
     (jr_SourceTemplateRef r = [] \<or> jr_SourceTemplateRef r = lp_TemplateRef p) \<and>
     (jr_SourceVMID r = 0 \<or> jr_SourceVMID r = lp_SourceVMID p) \<and>
     (jr_SourceTemplateRef r = [] \<and> jr_SourceVMID r = 0 \<or> jr_SourceTemplateRef r \<noteq> [] \<and> jr_SourceVMID r \<noteq> 0)"

definition migratedCloneAuthorityMatches :: "journal_record \<Rightarrow> command \<Rightarrow> u64 \<Rightarrow> bool" where
  "migratedCloneAuthorityMatches r c revision \<longleftrightarrow>
     (let i = c_Identity c in
      (case jr_MigratedAt r of None \<Rightarrow> False | Some t \<Rightarrow> \<not> is_zero_time t) \<and>
      0 < jr_AssignmentRevision r \<and> jr_AssignmentRevision r \<le> revision \<and> revision < c_AssignmentRevision c \<and>
      jr_BindingID r = c_BindingID c \<and> jr_DeviceID r = c_DeviceID c \<and> jr_CredentialEpoch r = c_CredentialEpoch c \<and>
      jr_AgentRef r = c_AgentRef c \<and> jr_ClusterRef r = id_ClusterRef i \<and> jr_NodeRef r = id_NodeRef i \<and>
      jr_ServiceRef r = id_ServiceRef i \<and> jr_InstanceUUID r = id_InstanceUUID i \<and> jr_GuestType r = id_GuestType i \<and>
      jr_VMID r = id_VMID i \<and> 0 < jr_Generation r \<and> jr_Generation r \<le> id_Generation i)"

definition migratedCloneAncestorIdentityMatches :: "journal_record \<Rightarrow> command \<Rightarrow> bool" where
  "migratedCloneAncestorIdentityMatches r c \<longleftrightarrow>
     (let i = c_Identity c in
      (case jr_MigratedAt r of None \<Rightarrow> False | Some t \<Rightarrow> \<not> is_zero_time t) \<and> jr_MigratedByCommandID r \<noteq> [] \<and>
      jr_ClusterRef r = id_ClusterRef i \<and> jr_NodeRef r = id_NodeRef i \<and> jr_ServiceRef r = id_ServiceRef i \<and>
      jr_InstanceUUID r = id_InstanceUUID i \<and> jr_GuestType r = id_GuestType i \<and> jr_VMID r = id_VMID i \<and>
      0 < jr_Generation r \<and> jr_Generation r < id_Generation i)"

definition receipt_agent :: "journal_record \<Rightarrow> string option" where
  "receipt_agent r = map_option r_AgentRef (jr_Receipt r)"

definition legacyCloneEligibilityError :: "journal_record \<Rightarrow> command \<Rightarrow> legacy_params \<Rightarrow> string \<Rightarrow> jerror option" where
  "legacyCloneEligibilityError r c p key =
     (if jr_CommandID r \<noteq> lp_LegacyCloneCommandID p \<or> jr_OperationID r \<noteq> lp_LegacyCloneOperationID p \<or>
         (jr_ResourceKey r \<noteq> key \<and> \<not> migratedCloneAncestorIdentityMatches r c) then Some CloneResourceIdentityMismatch
      else if legacyRecordAction r \<noteq> Some ''vm.clone'' then Some CloneResourceIdentityMismatch
      else if jr_Digest r \<noteq> lp_LegacyCloneDigest p \<or>
         (jr_SourceConfigSHA256 r \<noteq> [] \<and> jr_SourceConfigSHA256 r \<noteq> lp_SourceConfigSHA256 p) then Some CloneDigestMismatch
      else if \<not> recordSucceeded r \<or> receipt_agent r \<noteq> Some (jr_AgentRef r) then Some CloneTerminalReceiptInvalid
      else if jr_MigratedByCommandID r \<noteq> [] then
        (let same_source = jr_SourceConfigSHA256 r = lp_SourceConfigSHA256 p \<and> jr_SourceTemplateRef r = lp_TemplateRef p \<and>
               jr_SourceVMID r = lp_SourceVMID p in
         if jr_MigratedByCommandID r = c_CommandID c \<and> same_source \<and> recordAuthorityEquals r c then None
         else if same_source \<and> migratedCloneAuthorityMatches r c (lp_LegacyAssignmentRevision p) then None
         else Some CloneAlreadyMigrated)
      else if \<not> legacySourceIdentityMatches r p then Some CloneResourceIdentityMismatch
      else if \<not> legacyRecordAuthorityMatches r c (lp_LegacyAssignmentRevision p) then Some CloneLegacyAuthorityMismatch
      else None)"

definition legacyIndeterminateEligible :: "journal_record \<Rightarrow> command \<Rightarrow> u64 \<Rightarrow> string \<Rightarrow> string \<Rightarrow> bool" where
  "legacyIndeterminateEligible r c revision key commandID =
     (case (legacyRecordAction r, jr_Receipt r) of
        (Some action, Some x) \<Rightarrow>
          if jr_CommandID r \<noteq> commandID \<or> jr_ResourceKey r \<noteq> key \<or> \<not> jr_Mutating r \<or>
             action = ''vm.migrate-legacy-journal'' \<or> jr_State r \<noteq> ''indeterminate'' \<or> jr_PVETaskUPID r \<noteq> [] \<or>
             jr_AgentUpgradeID r \<noteq> [] \<or> r_State x \<noteq> ''indeterminate'' \<or>
             \<not> legacyIndeterminateReceiptCode (r_Code x) action \<or> r_CommandID x \<noteq> jr_CommandID r \<or>
             r_OperationID x \<noteq> jr_OperationID r \<or> r_AgentRef x \<noteq> jr_AgentRef r \<or> r_PVETaskUPID x \<noteq> [] \<or>
             r_AgentUpgradeID x \<noteq> [] then False
          else if jr_RetiredByCommandID r \<noteq> [] then jr_RetiredByCommandID r = c_CommandID c \<and> recordAuthorityEquals r c
          else legacyRecordAuthorityMatches r c revision
      | _ \<Rightarrow> False)"

definition validInitialLineageCommand :: "command \<Rightarrow> bool" where
  "validInitialLineageCommand c \<longleftrightarrow>
     (let i = c_Identity c in
      uuidRE (c_BindingID c) \<and> commandIDRE (c_DeviceID c) \<and> commandIDRE (c_AgentRef c) \<and> c_CredentialEpoch c \<noteq> 0 \<and>
      c_AssignmentRevision c \<noteq> 0 \<and> commandIDRE (id_ClusterRef i) \<and> journalNodeRef (id_NodeRef i) \<and>
      commandIDRE (id_ServiceRef i) \<and> commandIDRE (id_InstanceUUID i) \<and>
      (id_GuestType i = ''qemu'' \<or> id_GuestType i = ''lxc'') \<and> id_VMID i > 0 \<and> id_Generation i \<noteq> 0)"

subsection \<open>Adopting a clone and retiring listed records\<close>

definition maxLegacyJournalRetirements :: nat where
  "maxLegacyJournalRetirements = 64"

fun retire_ids_ok :: "string \<Rightarrow> string \<Rightarrow> string \<Rightarrow> string list \<Rightarrow> bool" where
  "retire_ids_ok cmd clone previous [] = True"
| "retire_ids_ok cmd clone previous (i # is) =
     (commandIDRE i \<and> i \<noteq> cmd \<and> i \<noteq> clone \<and> (previous = [] \<or> previous < i) \<and> retire_ids_ok cmd clone i is)"

definition validLegacyJournalMigration :: "command \<Rightarrow> legacy_params \<Rightarrow> bool" where
  "validLegacyJournalMigration c p \<longleftrightarrow>
     id_GuestType (c_Identity c) = ''qemu'' \<and> lp_LegacyAssignmentRevision p \<noteq> 0 \<and>
     (0 < c_AssignmentRevision c \<longrightarrow> lp_LegacyAssignmentRevision p < c_AssignmentRevision c) \<and>
     commandIDRE (lp_LegacyCloneCommandID p) \<and> commandIDRE (lp_LegacyCloneOperationID p) \<and>
     lp_LegacyCloneCommandID p \<noteq> c_CommandID c \<and> lp_LegacyCloneOperationID p \<noteq> c_OperationID c \<and>
     bodyHashRE (lp_LegacyCloneDigest p) \<and> nameRE (lp_TemplateRef p) \<and> 100 \<le> lp_SourceVMID p \<and>
     lp_SourceVMID p \<le> 999999999 \<and> bodyHashRE (lp_SourceConfigSHA256 p) \<and>
     (case lp_RetireIDs p of
        None \<Rightarrow> False
      | Some ids \<Rightarrow> length ids \<le> maxLegacyJournalRetirements \<and>
          retire_ids_ok (c_CommandID c) (lp_LegacyCloneCommandID p) [] ids)"

definition retire_ids :: "legacy_params \<Rightarrow> string list" where
  "retire_ids p = (case lp_RetireIDs p of None \<Rightarrow> [] | Some ids \<Rightarrow> ids)"

text \<open>
  \<open>backfillLegacyAuthority\<close> reads the audit context; every caller has checked that there is one.
\<close>

definition backfillLegacyAuthority :: "command \<Rightarrow> journal_record \<Rightarrow> journal_record" where
  "backfillLegacyAuthority c r =
     (case jr_AuditContext r of
        None \<Rightarrow> r
      | Some a \<Rightarrow>
          r\<lparr>jr_Action := (if jr_Action r = [] then ac_Action a else jr_Action r), jr_IdempotencyKey := ac_IdempotencyKey a,
            jr_BindingID := c_BindingID c, jr_DeviceID := c_DeviceID c, jr_CredentialEpoch := c_CredentialEpoch c,
            jr_AssignmentRevision := c_AssignmentRevision c, jr_ClusterRef := id_ClusterRef (c_Identity c),
            jr_NodeRef := id_NodeRef (c_Identity c), jr_ServiceRef := id_ServiceRef (c_Identity c),
            jr_InstanceUUID := id_InstanceUUID (c_Identity c), jr_GuestType := id_GuestType (c_Identity c),
            jr_VMID := id_VMID (c_Identity c), jr_Generation := id_Generation (c_Identity c)\<rparr>)"

definition migrated_clone :: "command \<Rightarrow> legacy_params \<Rightarrow> gotime \<Rightarrow> journal_record \<Rightarrow> journal_record" where
  "migrated_clone c p now r =
     (backfillLegacyAuthority c r)\<lparr>jr_SourceConfigSHA256 := lp_SourceConfigSHA256 p, jr_SourceTemplateRef := lp_TemplateRef p,
       jr_SourceVMID := lp_SourceVMID p, jr_MigratedByCommandID := c_CommandID c, jr_MigratedAt := Some (to_utc now)\<rparr>"

definition retired_record :: "command \<Rightarrow> gotime \<Rightarrow> journal_record \<Rightarrow> journal_record" where
  "retired_record c now r =
     (backfillLegacyAuthority c r)\<lparr>jr_RetiredByCommandID := c_CommandID c, jr_RetiredAt := Some (to_utc now)\<rparr>"

text \<open>The listed records, all read and checked before the first write.\<close>

fun read_retirements :: "jenv \<Rightarrow> jdir \<Rightarrow> command \<Rightarrow> u64 \<Rightarrow> string \<Rightarrow> string list \<Rightarrow> jerror + (string \<times> journal_record) list" where
  "read_retirements env d c revision key [] = Inr []"
| "read_retirements env d c revision key (i # is) =
     (case readJournal d (journal_path env i) of
        Inl e \<Rightarrow> Inl (ListedRecordNotEligible i)
      | Inr r \<Rightarrow>
          if \<not> legacyIndeterminateEligible r c revision key i then Inl (ListedRecordNotEligible i)
          else (case read_retirements env d c revision key is of
                  Inl e \<Rightarrow> Inl e | Inr rs \<Rightarrow> Inr ((journal_path env i, r) # rs)))"

fun write_retirements :: "command \<Rightarrow> gotime \<Rightarrow> (string \<times> journal_record) list \<Rightarrow> io list \<Rightarrow> jdir \<Rightarrow> bool \<times> jdir" where
  "write_retirements c now [] ios d = (True, d)"
| "write_retirements c now ((p, r) # rs) ios d =
     (let (ok, d', ios') = save ios p (retired_record c now r) d
      in if ok then write_retirements c now rs ios' d' else (False, d'))"

definition legacy_migration_result :: "legacy_params \<Rightarrow> legacy_result" where
  "legacy_migration_result p =
     \<lparr>lr_Migrated = True, lr_LegacyAssignmentRevision = lp_LegacyAssignmentRevision p,
      lr_LegacyCloneCommandID = lp_LegacyCloneCommandID p, lr_LegacyCloneOperationID = lp_LegacyCloneOperationID p,
      lr_TemplateRef = lp_TemplateRef p, lr_SourceVMID = lp_SourceVMID p, lr_SourceConfigSHA256 = lp_SourceConfigSHA256 p,
      lr_RetiredIDs = (if retire_ids p = [] then None else Some (retire_ids p))\<rparr>"

definition MigrateLegacyVMJournal :: "jenv \<Rightarrow> command \<Rightarrow> legacy_params \<Rightarrow> gotime \<Rightarrow> io list \<Rightarrow> jdir \<Rightarrow>
    (jerror + legacy_result) \<times> jdir" where
  "MigrateLegacyVMJournal env c p now ios d =
     (if \<not> validLegacyJournalMigration c p \<or> c_Scope c \<noteq> ScopeVM \<or> c_ApprovalRef c = [] \<or> \<not> validInitialLineageCommand c
      then (Inl MigrationAuthorityInvalid, d)
      else case journalResourceKey c of
        None \<Rightarrow> (Inl ScopeKeyInvalid, d)
      | Some key \<Rightarrow>
          let clonePath = journal_path env (lp_LegacyCloneCommandID p) in
          (case readJournal d clonePath of
             Inl JournalNotExist \<Rightarrow> (Inl CloneJournalNotFound, d)
           | Inl e \<Rightarrow> (Inl e, d)
           | Inr clone \<Rightarrow>
               (case legacyCloneEligibilityError clone c p key of
                  Some e \<Rightarrow> (Inl e, d)
                | None \<Rightarrow>
                    (case read_retirements env d c (lp_LegacyAssignmentRevision p) key (retire_ids p) of
                       Inl e \<Rightarrow> (Inl e, d)
                     | Inr rs \<Rightarrow>
                         (let (ok, d1, ios1) =
                            (if jr_MigratedByCommandID clone = [] then save ios clonePath (migrated_clone c p now clone) d
                             else (True, d, ios))
                          in if \<not> ok then (Inl JournalIO, d1)
                             else (let (done, d2) = write_retirements c now rs ios1 d1
                                   in (if done then Inr (legacy_migration_result p) else Inl JournalIO, d2)))))))"

text \<open>
  The claim check: the clone and every listed record are eligible, and no other mutation of the
  resource is open.  The states are those of the code, which leaves out \<open>running\<close>.
\<close>

definition claim_states :: "string set" where
  "claim_states = {''received'', ''submitted'', ''waiting'', ''indeterminate''}"

definition open_on :: "string \<Rightarrow> journal_record \<Rightarrow> bool" where
  "open_on key r \<longleftrightarrow> jr_Mutating r \<and> jr_ResourceKey r = key \<and> jr_RetiredByCommandID r = [] \<and> jr_State r \<in> claim_states"

definition no_other_open :: "jdir \<Rightarrow> string \<Rightarrow> string \<Rightarrow> jerror option" where
  "no_other_open d key failedID =
     (case scan (\<lambda>r. if open_on key r \<and> jr_CommandID r \<noteq> failedID then Inl (UnlistedActiveMutation (jr_CommandID r))
                 else Inr (None :: unit option)) d (json_files d) of
        Inl e \<Rightarrow> Some e | Inr _ \<Rightarrow> None)"

definition validateLegacyMigrationClaimLocked :: "jenv \<Rightarrow> jdir \<Rightarrow> command \<Rightarrow> legacy_params \<Rightarrow> jerror option" where
  "validateLegacyMigrationClaimLocked env d c p =
     (case journalResourceKey c of
        None \<Rightarrow> Some ScopeKeyInvalid
      | Some key \<Rightarrow>
          (case readJournal d (journal_path env (lp_LegacyCloneCommandID p)) of
             Inl JournalNotExist \<Rightarrow> Some CloneJournalNotFound
           | Inl e \<Rightarrow> Some e
           | Inr clone \<Rightarrow>
               (case legacyCloneEligibilityError clone c p key of
                  Some e \<Rightarrow> Some e
                | None \<Rightarrow>
                    (case read_retirements env d c (lp_LegacyAssignmentRevision p) key (retire_ids p) of
                       Inl e \<Rightarrow> Some e
                     | Inr rs \<Rightarrow>
                         (case scan (\<lambda>r. if \<not> open_on key r then Inr (None :: unit option)
                                     else if jr_CommandID r \<notin> set (retire_ids p) then Inl (UnlistedActiveMutation (jr_CommandID r))
                                     else if \<not> legacyIndeterminateEligible r c (lp_LegacyAssignmentRevision p) key (jr_CommandID r)
                                       then Inl (ListedRecordNotEligible (jr_CommandID r))
                                     else Inr None) d (json_files d) of
                            Inl e \<Rightarrow> Some e | Inr _ \<Rightarrow> None)))))"

subsection \<open>The pinned failed deletion\<close>

definition delete501RecoveryKind :: string where
  "delete501RecoveryKind = ''pve-delete-form-body-501-v1''"

definition validDelete501Recovery :: "command \<Rightarrow> delete501_params \<Rightarrow> bool" where
  "validDelete501Recovery c p \<longleftrightarrow>
     c_Action c = ''vm.migrate-legacy-journal'' \<and> c_Scope c = ScopeVM \<and> c_ApprovalRef c \<noteq> [] \<and>
     id_GuestType (c_Identity c) = ''qemu'' \<and> id_VMID (c_Identity c) = 100 \<and> id_Generation (c_Identity c) = 1 \<and>
     dp_RecoveryKind p = delete501RecoveryKind \<and> dp_FailedCommandID p = delete501CommandID \<and>
     dp_FailedOperationID p = delete501OperationID \<and> dp_FailedCommandDigest p = delete501CommandDigest \<and>
     c_CommandID c \<noteq> dp_FailedCommandID p \<and> c_OperationID c \<noteq> dp_FailedOperationID p"

definition decodeDelete501Recovery :: "jenv \<Rightarrow> command \<Rightarrow> delete501_params option" where
  "decodeDelete501Recovery env c =
     (case je_delete501_params env (c_Parameters c) of
        None \<Rightarrow> None
      | Some p \<Rightarrow> if dp_RecoveryKind p = delete501RecoveryKind \<and> validDelete501Recovery c p then Some p else None)"

text \<open>An indeterminate receipt of the record itself, without a task.\<close>

definition indeterminate_receipt :: "journal_record \<Rightarrow> string \<Rightarrow> bool" where
  "indeterminate_receipt r code \<longleftrightarrow>
     (case jr_Receipt r of
        None \<Rightarrow> False
      | Some x \<Rightarrow>
          r_State x = ''indeterminate'' \<and> r_Code x = code \<and> r_CommandID x = jr_CommandID r \<and>
          r_OperationID x = jr_OperationID r \<and> r_AgentRef x = jr_AgentRef r \<and> \<not> r_Accepted x \<and> \<not> r_Asynchronous x \<and>
          r_MutationMayHaveSucceeded x \<and> r_PVETaskUPID x = [] \<and> r_AgentUpgradeID x = [])"

definition delete501RecordEligible :: "journal_record \<Rightarrow> command \<Rightarrow> delete501_params \<Rightarrow> string \<Rightarrow> bool" where
  "delete501RecordEligible r c p key \<longleftrightarrow>
     validDelete501Recovery c p \<and> jr_CommandID r = dp_FailedCommandID p \<and> jr_OperationID r = dp_FailedOperationID p \<and>
     jr_Digest r = dp_FailedCommandDigest p \<and> jr_ResourceKey r = key \<and> jr_Action r = ''vm.delete'' \<and> jr_Mutating r \<and>
     jr_Scope r = ScopeVM \<and> jr_GuestType r = ''qemu'' \<and> jr_VMID r = 100 \<and> jr_Generation r = 1 \<and>
     jr_State r = ''indeterminate'' \<and> jr_PVETaskUPID r = [] \<and> jr_AgentUpgradeID r = [] \<and>
     indeterminate_receipt r ''PVE_ACTION_INDETERMINATE'' \<and>
     (case jr_AuditContext r of
        None \<Rightarrow> False
      | Some a \<Rightarrow>
          ac_AgentVersion a = ''0.1.1-rc.4'' \<and> ac_Action a = ''vm.delete'' \<and> ac_CommandID a = jr_CommandID r \<and>
          ac_OperationID a = jr_OperationID r \<and> ac_IdempotencyKey a = jr_IdempotencyKey r \<and>
          ac_AssignmentRevision a = jr_AssignmentRevision r \<and> ac_Scope a = ScopeVM \<and>
          ac_WebsiteCommandKeyID a = c_SigningKeyID c \<and> ac_ApprovalRef a \<noteq> [] \<and>
          auditTargetRef c = Some (ac_TargetRef a)) \<and>
     recordAuthorityEquals r c \<and>
     (jr_RetiredByCommandID r = [] \<and> jr_RetiredAt r = None \<or>
      jr_RetiredByCommandID r = c_CommandID c \<and> jr_RetiredAt r \<noteq> None)"

definition validateDelete501RecoveryClaimLocked :: "jenv \<Rightarrow> jdir \<Rightarrow> command \<Rightarrow> delete501_params \<Rightarrow> jerror option" where
  "validateDelete501RecoveryClaimLocked env d c p =
     (case journalResourceKey c of
        None \<Rightarrow> Some ScopeKeyInvalid
      | Some key \<Rightarrow>
          (case readJournal d (journal_path env (dp_FailedCommandID p)) of
             Inl e \<Rightarrow> Some (ListedRecordNotEligible (dp_FailedCommandID p))
           | Inr r \<Rightarrow>
               if \<not> delete501RecordEligible r c p key then Some (ListedRecordNotEligible (dp_FailedCommandID p))
               else no_other_open d key (dp_FailedCommandID p)))"

text \<open>The retirement of one record; a repeated call keeps the first marker.\<close>

definition retire_once :: "io list \<Rightarrow> string \<Rightarrow> command \<Rightarrow> gotime \<Rightarrow> journal_record \<Rightarrow> jdir \<Rightarrow> bool \<times> jdir" where
  "retire_once ios p c now r d =
     (if jr_RetiredAt r \<noteq> None then (True, d)
      else (let (ok, d', _) = save ios p (r\<lparr>jr_RetiredByCommandID := c_CommandID c, jr_RetiredAt := Some (to_utc now)\<rparr>) d
            in (ok, d')))"

definition ReconcileDelete501 :: "jenv \<Rightarrow> command \<Rightarrow> delete501_params \<Rightarrow> string \<Rightarrow> string \<Rightarrow> gotime \<Rightarrow> io list \<Rightarrow> jdir \<Rightarrow>
    (jerror + delete501_result) \<times> jdir" where
  "ReconcileDelete501 env c p pveVersion guestStatus now ios d =
     (if pveVersion \<noteq> ''8.4.0'' \<or> guestStatus \<noteq> ''stopped'' then (Inl ReadProofInvalid, d)
      else case journalResourceKey c of
        None \<Rightarrow> (Inl ScopeKeyInvalid, d)
      | Some key \<Rightarrow>
          let filename = journal_path env (dp_FailedCommandID p) in
          (case readJournal d filename of
             Inl JournalNotExist \<Rightarrow> (Inl (ListedRecordNotEligible []), d)
           | Inl e \<Rightarrow> (Inl e, d)
           | Inr r \<Rightarrow>
               if \<not> delete501RecordEligible r c p key then (Inl (ListedRecordNotEligible []), d)
               else (let (ok, d') = retire_once ios filename c now r d in
                 (if \<not> ok then Inl JournalIO
                  else Inr \<lparr>dr_Reconciled = True, dr_RecoveryKind = delete501RecoveryKind,
                    dr_FailedCommandID = dp_FailedCommandID p, dr_FailedOperationID = dp_FailedOperationID p,
                    dr_FailedCommandDigest = dp_FailedCommandDigest p, dr_FailedReceiptCode = ''PVE_ACTION_INDETERMINATE'',
                    dr_AffectedAgentVersion = ''0.1.1-rc.4'', dr_PVEVersion = pveVersion, dr_GuestType = ''qemu'',
                    dr_VMID = 100, dr_Generation = 1, dr_GuestPresent = True, dr_GuestStatus = guestStatus\<rparr>, d'))))"

subsection \<open>The failed firewall entry deletion\<close>

definition validIPFilterDeleteRecovery :: "jenv \<Rightarrow> command \<Rightarrow> ipfilter_params \<Rightarrow> bool" where
  "validIPFilterDeleteRecovery env c p \<longleftrightarrow>
     c_Action c = ''vm.migrate-legacy-journal'' \<and> c_Scope c = ScopeVM \<and> c_ApprovalRef c \<noteq> [] \<and>
     (id_GuestType (c_Identity c) = ''qemu'' \<or> id_GuestType (c_Identity c) = ''lxc'') \<and>
     fp_RecoveryKind p = ipFilterDeleteRecoveryKind \<and> 0 < fp_LegacyAssignmentRevision p \<and>
     (c_AssignmentRevision c = 0 \<or> fp_LegacyAssignmentRevision p < c_AssignmentRevision c) \<and>
     commandIDRE (fp_FailedCommandID p) \<and> commandIDRE (fp_FailedOperationID p) \<and>
     bodyHashRE (fp_FailedCommandDigest p) \<and> bodyHashRE (fp_FailedPayloadSHA256 p) \<and>
     bodyHashRE (fp_FailedWireBodySHA256 p) \<and>
     fp_FailedPayloadSHA256 p = ipFilterDeletePayloadSHA256 env (fp_Name p) (fp_CIDR p) \<and>
     validIPSetEntry env (fp_Name p) (fp_CIDR p) \<and>
     c_CommandID c \<noteq> fp_FailedCommandID p \<and> c_OperationID c \<noteq> fp_FailedOperationID p"

definition decodeIPFilterDeleteRecovery :: "jenv \<Rightarrow> command \<Rightarrow> ipfilter_params option" where
  "decodeIPFilterDeleteRecovery env c =
     (case je_ipfilter_params env (c_Parameters c) of
        None \<Rightarrow> None
      | Some p \<Rightarrow>
          if fp_RecoveryKind p = ipFilterDeleteRecoveryKind \<and> validIPFilterDeleteRecovery env c p then Some p else None)"

definition ipFilterDeleteRecordEligibility :: "jenv \<Rightarrow> journal_record \<Rightarrow> command \<Rightarrow> ipfilter_params \<Rightarrow> string \<Rightarrow> jerror option" where
  "ipFilterDeleteRecordEligibility env r c p key =
     (if \<not> validIPFilterDeleteRecovery env c p then Some (IPFilterMismatch ''request'')
      else if jr_CommandID r \<noteq> fp_FailedCommandID p \<or> jr_OperationID r \<noteq> fp_FailedOperationID p \<or>
         jr_Digest r \<noteq> fp_FailedCommandDigest p \<or> jr_ResourceKey r \<noteq> key \<or>
         legacyRecordAction r \<noteq> Some ''firewall.ipset.entry.delete'' \<or> \<not> jr_Mutating r \<or> jr_Scope r \<noteq> ScopeVM \<or>
         jr_State r \<noteq> ''indeterminate'' \<or> jr_PVETaskUPID r \<noteq> [] \<or> jr_AgentUpgradeID r \<noteq> []
        then Some (IPFilterMismatch ''identity'')
      else if \<not> indeterminate_receipt r ''PVE_RESULT_INDETERMINATE'' then Some (IPFilterMismatch ''receipt'')
      else case jr_AuditContext r of
        None \<Rightarrow> Some (IPFilterMismatch ''audit'')
      | Some a \<Rightarrow>
          if ac_Action a \<noteq> ''firewall.ipset.entry.delete'' \<or> ac_CommandID a \<noteq> jr_CommandID r \<or>
             ac_OperationID a \<noteq> jr_OperationID r \<or>
             (jr_IdempotencyKey r \<noteq> [] \<and> ac_IdempotencyKey a \<noteq> jr_IdempotencyKey r) \<or>
             ac_AssignmentRevision a \<noteq> fp_LegacyAssignmentRevision p \<or> ac_Scope a \<noteq> ScopeVM \<or>
             ac_WebsiteCommandKeyID a \<noteq> c_SigningKeyID c \<or> ac_ApprovalRef a = [] \<or>
             ac_PayloadDigest a \<noteq> ''sha256:'' @ fp_FailedWireBodySHA256 p then Some (IPFilterMismatch ''audit'')
          else if auditTargetRef c \<noteq> Some (ac_TargetRef a) then Some (IPFilterMismatch ''target'')
          else if \<not> (jr_RetiredByCommandID r = [] \<and> jr_RetiredAt r = None) \<and>
             (jr_RetiredByCommandID r \<noteq> c_CommandID c \<or> jr_RetiredAt r = None) then Some (IPFilterMismatch ''retirement'')
          else if \<not> legacyRecordAuthorityMatches r c (fp_LegacyAssignmentRevision p) then Some (IPFilterMismatch ''authority'')
          else None)"

definition validateIPFilterDeleteRecoveryClaimLocked :: "jenv \<Rightarrow> jdir \<Rightarrow> command \<Rightarrow> ipfilter_params \<Rightarrow> jerror option" where
  "validateIPFilterDeleteRecoveryClaimLocked env d c p =
     (case journalResourceKey c of
        None \<Rightarrow> Some ScopeKeyInvalid
      | Some key \<Rightarrow>
          (case readJournal d (journal_path env (fp_FailedCommandID p)) of
             Inl e \<Rightarrow> Some (ListedRecordNotEligible (fp_FailedCommandID p))
           | Inr r \<Rightarrow>
               (case ipFilterDeleteRecordEligibility env r c p key of
                  Some e \<Rightarrow> Some e
                | None \<Rightarrow> no_other_open d key (fp_FailedCommandID p))))"

definition ReconcileIPFilterDelete :: "jenv \<Rightarrow> command \<Rightarrow> ipfilter_params \<Rightarrow> bool \<Rightarrow> string \<Rightarrow> gotime \<Rightarrow> io list \<Rightarrow> jdir \<Rightarrow>
    (jerror + ipfilter_result) \<times> jdir" where
  "ReconcileIPFilterDelete env c p targetPresent observedCIDR now ios d =
     (let expected = canonicalFirewallCIDR env (fp_CIDR p); observed = canonicalFirewallCIDR env observedCIDR in
      if \<not> validIPFilterDeleteRecovery env c p \<or> expected = None \<or>
         (targetPresent \<and> (observed = None \<or> observed \<noteq> expected)) \<or> (\<not> targetPresent \<and> observedCIDR \<noteq> [])
      then (Inl ReadProofInvalid, d)
      else case journalResourceKey c of
        None \<Rightarrow> (Inl ScopeKeyInvalid, d)
      | Some key \<Rightarrow>
          let filename = journal_path env (fp_FailedCommandID p) in
          (case readJournal d filename of
             Inl JournalNotExist \<Rightarrow> (Inl (ListedRecordNotEligible []), d)
           | Inl e \<Rightarrow> (Inl e, d)
           | Inr r \<Rightarrow>
               if ipFilterDeleteRecordEligibility env r c p key \<noteq> None then (Inl (ListedRecordNotEligible []), d)
               else (let (ok, d') = retire_once ios filename c now r d in
                 (if \<not> ok then Inl JournalIO
                  else Inr \<lparr>fr_Reconciled = True, fr_RecoveryKind = ipFilterDeleteRecoveryKind,
                    fr_LegacyAssignmentRevision = fp_LegacyAssignmentRevision p,
                    fr_FailedCommandID = fp_FailedCommandID p, fr_FailedOperationID = fp_FailedOperationID p,
                    fr_FailedCommandDigest = fp_FailedCommandDigest p, fr_FailedPayloadSHA256 = fp_FailedPayloadSHA256 p,
                    fr_FailedWireBodySHA256 = fp_FailedWireBodySHA256 p, fr_FailedReceiptCode = ''PVE_RESULT_INDETERMINATE'',
                    fr_Name = fp_Name p, fr_CIDR = fp_CIDR p, fr_ProviderReadVerified = True,
                    fr_TargetPresent = targetPresent, fr_ObservedCIDR = observedCIDR, fr_JournalRecordRetired = True\<rparr>, d'))))"

subsection \<open>The claim check of a migration command\<close>

definition migration_claim :: "jenv \<Rightarrow> jdir \<Rightarrow> command \<Rightarrow> jerror option" where
  "migration_claim env d c =
     (case decodeIPFilterDeleteRecovery env c of
        Some p \<Rightarrow> validateIPFilterDeleteRecoveryClaimLocked env d c p
      | None \<Rightarrow>
          (case decodeDelete501Recovery env c of
             Some p \<Rightarrow> validateDelete501RecoveryClaimLocked env d c p
           | None \<Rightarrow>
               (case je_legacy_params env (c_Parameters c) of
                  None \<Rightarrow> Some ParametersInvalid
                | Some p \<Rightarrow> validateLegacyMigrationClaimLocked env d c p)))"

end
