(* ===== verification/Journal.thy ===== *)
theory Journal
  imports Legacy_Journal
begin

section \<open>The command journal (\<open>internal/control/journal.go\<close>)\<close>

text \<open>
  The write-ahead record of every command, one file each.  An operation takes the directory, the
  outcomes of its writes and the identifiers the random source yields, and returns its result
  and the directory afterwards.  The mutex makes operations atomic with respect to each other;
  a crash is a point between two of them, because every write replaces one file atomically.
\<close>

subsection \<open>Scans\<close>

definition busy_states :: "string set" where
  "busy_states = {''received'', ''running'', ''submitted'', ''waiting'', ''indeterminate''}"

definition identityUsedLocked :: "jdir \<Rightarrow> string \<Rightarrow> string \<Rightarrow> string \<Rightarrow> jerror + bool \<times> bool" where
  "identityUsedLocked d operationID idempotencyKey commandID =
     (if \<not> commandIDRE operationID \<or> \<not> commandIDRE idempotencyKey \<or> \<not> commandIDRE commandID then Inl IdentityInvalid
      else case scan (\<lambda>r. Inr (if jr_OperationID r = operationID \<and> jr_CommandID r \<noteq> commandID then Some (True, False)
                 else if jr_IdempotencyKey r \<noteq> [] \<and> jr_IdempotencyKey r = idempotencyKey \<and> jr_CommandID r \<noteq> commandID
                   then Some (False, True) else None)) d (json_files d) of
        Inl e \<Rightarrow> Inl e
      | Inr None \<Rightarrow> Inr (False, False)
      | Inr (Some x) \<Rightarrow> Inr x)"

definition resourceBusyLocked :: "jenv \<Rightarrow> jdir \<Rightarrow> string \<Rightarrow> jerror + bool" where
  "resourceBusyLocked env d resourceKey =
     (case scan (\<lambda>r. if jr_Mutating r \<and> jr_ResourceKey r = resourceKey \<and> jr_State r \<in> busy_states
                 then (case retirementCommittedLocked env d r of
                         Inl e \<Rightarrow> Inl e | Inr retired \<Rightarrow> Inr (if retired then None else Some True))
                 else Inr None) d (json_files d) of
        Inl e \<Rightarrow> Inl e
      | Inr None \<Rightarrow> Inr False
      | Inr (Some b) \<Rightarrow> Inr b)"

subsection \<open>Claims\<close>

datatype claimed = Execute | Replay receipt

definition journalIndeterminate :: "id_supply \<Rightarrow> command \<Rightarrow> gotime \<Rightarrow> receipt option" where
  "journalIndeterminate ids c now =
     (case fst (take_id ids) of
        None \<Rightarrow> None
      | Some i \<Rightarrow>
          Some (ApplyReceiptCompatibility (empty_receipt\<lparr>r_SchemaVersion := SchemaVersion, r_ReceiptID := i,
            r_CommandID := c_CommandID c, r_OperationID := c_OperationID c, r_AgentRef := c_AgentRef c,
            r_State := ''indeterminate'', r_Code := ''EXECUTION_INDETERMINATE'', r_ExecutionMode := ''production'',
            r_StartedAt := to_utc now, r_FinishedAt := to_utc now, r_OperatorRef := c_OperatorRef c\<rparr>)))"

text \<open>The event of a receipt, where the record has a context: \<open>None\<close> if it is refused.\<close>

definition with_event :: "jenv \<Rightarrow> receipt \<Rightarrow> journal_record \<Rightarrow> journal_record option" where
  "with_event env x r =
     (case jr_AuditContext r of
        None \<Rightarrow> Some r
      | Some a \<Rightarrow> (case je_event env a x of None \<Rightarrow> None | Some e \<Rightarrow> Some (r\<lparr>jr_AuditPending := Some e\<rparr>)))"

definition resumable :: "journal_record \<Rightarrow> bool" where
  "resumable r \<longleftrightarrow>
     jr_Action r = ''vm.migrate-legacy-journal'' \<or> jr_Action r = ''vm.cloud-init-snippet.delete'' \<or> \<not> jr_Mutating r"

text \<open>A redelivered command: the context is added if it is missing, then the record decides.\<close>

definition claim_decide :: "jenv \<Rightarrow> string \<Rightarrow> command \<Rightarrow> gotime \<Rightarrow> io list \<Rightarrow> id_supply \<Rightarrow> journal_record \<Rightarrow> jdir \<Rightarrow>
    (jerror + claimed) \<times> jdir" where
  "claim_decide env p c now ios ids r d =
     (case jr_Receipt r of
        Some x \<Rightarrow> (Inr (Replay x), d)
      | None \<Rightarrow>
          if resumable r then
            (let (ok, d', _) = save ios p (r\<lparr>jr_UpdatedAt := to_utc now\<rparr>) d
             in (if ok then Inr Execute else Inl JournalIO, d'))
          else case journalIndeterminate ids c now of
            None \<Rightarrow> (Inl IDUnavailable, d)
          | Some x \<Rightarrow>
              (case with_event env x (r\<lparr>jr_State := r_State x, jr_UpdatedAt := to_utc now, jr_Receipt := Some x,
                     jr_ReceiptPending := True\<rparr>) of
                 None \<Rightarrow> (Inl AuditInvalid, d)
               | Some r' \<Rightarrow> (let (ok, d', _) = save ios p r' d in (if ok then Inr (Replay x) else Inl JournalIO, d'))))"

definition claim_existing :: "jenv \<Rightarrow> string \<Rightarrow> string \<Rightarrow> command \<Rightarrow> gotime \<Rightarrow> audit_context option \<Rightarrow> io list \<Rightarrow> id_supply \<Rightarrow>
    journal_record \<Rightarrow> jdir \<Rightarrow> (jerror + claimed) \<times> jdir" where
  "claim_existing env p digest c now audit ios ids r d =
     (if jr_Digest r \<noteq> digest then (Inl CommandConflict, d)
      else if audit \<noteq> None \<and> jr_AuditContext r = None then
        (let r1 = r\<lparr>jr_AuditContext := audit\<rparr> in
         case (case jr_Receipt r of None \<Rightarrow> Some r1 | Some x \<Rightarrow> with_event env x r1) of
           None \<Rightarrow> (Inl AuditInvalid, d)
         | Some r2 \<Rightarrow>
             (let (ok, d', ios') = save ios p r2 d in
              if ok then claim_decide env p c now ios' ids r2 d' else (Inl JournalIO, d')))
      else claim_decide env p c now ios ids r d)"

text \<open>The record of a new command; clones and initial resources also store their template lineage.\<close>

definition new_record :: "command \<Rightarrow> gotime \<Rightarrow> audit_context option \<Rightarrow> string \<Rightarrow> string \<Rightarrow> journal_record" where
  "new_record c now audit digest resourceKey =
     \<lparr>jr_Version = SchemaVersion, jr_CommandID = c_CommandID c, jr_OperationID = c_OperationID c,
      jr_IdempotencyKey = c_IdempotencyKey c, jr_AgentRef = c_AgentRef c, jr_BindingID = c_BindingID c,
      jr_DeviceID = c_DeviceID c, jr_CredentialEpoch = c_CredentialEpoch c, jr_AssignmentRevision = c_AssignmentRevision c,
      jr_OperatorRef = c_OperatorRef c, jr_Scope = c_Scope c, jr_Action = c_Action c,
      jr_ClusterRef = id_ClusterRef (c_Identity c), jr_ServiceRef = id_ServiceRef (c_Identity c),
      jr_InstanceUUID = id_InstanceUUID (c_Identity c), jr_GuestType = id_GuestType (c_Identity c),
      jr_VMID = id_VMID (c_Identity c), jr_Generation = id_Generation (c_Identity c), jr_SourceConfigSHA256 = [],
      jr_SourceTemplateRef = [], jr_SourceVMID = 0, jr_MigratedByCommandID = [], jr_MigratedAt = None,
      jr_RetiredByCommandID = [], jr_RetiredAt = None, jr_Mutating = requiresApproval (c_Action c), jr_Digest = digest,
      jr_ResourceKey = resourceKey, jr_NodeRef = id_NodeRef (c_Identity c), jr_PVETaskUPID = [], jr_AgentUpgradeID = [],
      jr_SnippetDeletePhase = [], jr_SnippetStorageID = [], jr_SnippetVolumeSHA256 = [], jr_State = ''received'',
      jr_ReceiptPending = False, jr_CreatedAt = to_utc now, jr_UpdatedAt = to_utc now, jr_Receipt = None,
      jr_AuditContext = audit, jr_AuditPending = None\<rparr>"

definition with_lineage :: "jenv \<Rightarrow> command \<Rightarrow> journal_record \<Rightarrow> journal_record option" where
  "with_lineage env c r =
     (let store = (\<lambda>(sha, template, vmid). r\<lparr>jr_SourceConfigSHA256 := sha, jr_SourceTemplateRef := template,
            jr_SourceVMID := vmid\<rparr>) in
      if c_Action c = ''vm.clone'' then
        (case je_clone env c of
           None \<Rightarrow> None | Some (sha, t, v) \<Rightarrow> if bodyHashRE sha then Some (store (sha, t, v)) else None)
      else if c_Action c = ''vm.set-initial-resources'' then map_option store (je_initial env c)
      else Some r)"

definition claim_new :: "jenv \<Rightarrow> string \<Rightarrow> string \<Rightarrow> string \<Rightarrow> command \<Rightarrow> gotime \<Rightarrow> audit_context option \<Rightarrow> io list \<Rightarrow> jdir \<Rightarrow>
    (jerror + claimed) \<times> jdir" where
  "claim_new env p digest resourceKey c now audit ios d =
     (case identityUsedLocked d (c_OperationID c) (c_IdempotencyKey c) (c_CommandID c) of
        Inl e \<Rightarrow> (Inl e, d)
      | Inr (operationUsed, idempotencyUsed) \<Rightarrow>
          if operationUsed then (Inl OperationConflict, d)
          else if idempotencyUsed then (Inl IdempotencyConflict, d)
          else case (if \<not> requiresApproval (c_Action c) then None
                     else if c_Action c = ''vm.migrate-legacy-journal'' then migration_claim env d c
                     else (case resourceBusyLocked env d resourceKey of
                             Inl e \<Rightarrow> Some e | Inr busy \<Rightarrow> if busy then Some ResourceBusy else None)) of
            Some e \<Rightarrow> (Inl e, d)
          | None \<Rightarrow>
              (case with_lineage env c (new_record c now audit digest resourceKey) of
                 None \<Rightarrow> (Inl LineageInvalid, d)
               | Some r \<Rightarrow> (let (ok, d', _) = save ios p r d in (if ok then Inr Execute else Inl JournalIO, d'))))"

definition claim :: "jenv \<Rightarrow> command \<Rightarrow> gotime \<Rightarrow> audit_context option \<Rightarrow> io list \<Rightarrow> id_supply \<Rightarrow> jdir \<Rightarrow>
    (jerror + claimed) \<times> jdir" where
  "claim env c now audit ios ids d =
     (case journalResourceKey c of
        None \<Rightarrow> (Inl ScopeKeyInvalid, d)
      | Some resourceKey \<Rightarrow>
          let digest = Digest (je_crypto env) c; p = journal_path env (c_CommandID c) in
          if digest = [] then (Inl CanonicalInvalid, d)
          else case readJournal d p of
            Inr r \<Rightarrow> claim_existing env p digest c now audit ios ids r d
          | Inl JournalNotExist \<Rightarrow> claim_new env p digest resourceKey c now audit ios d
          | Inl e \<Rightarrow> (Inl e, d))"

definition ClaimWithAudit :: "jenv \<Rightarrow> command \<Rightarrow> gotime \<Rightarrow> string \<Rightarrow> io list \<Rightarrow> id_supply \<Rightarrow> jdir \<Rightarrow>
    (jerror + claimed) \<times> jdir" where
  "ClaimWithAudit env c now agentVersion ios ids d =
     (case newAuditContext c now agentVersion of
        None \<Rightarrow> (Inl AuditInvalid, d) | Some a \<Rightarrow> claim env c now (Some a) ios ids d)"

subsection \<open>Updates of one record\<close>

text \<open>
  Most operations read one record, check it, and write it back changed.  An update function
  gives the new record, or an error, or \<open>Inr None\<close> when there is nothing to write.
\<close>

type_synonym record_update = "journal_record \<Rightarrow> jerror + journal_record option"

definition update_record :: "io list \<Rightarrow> string \<Rightarrow> record_update \<Rightarrow> jdir \<Rightarrow> jerror option \<times> jdir" where
  "update_record ios p upd d =
     (case readJournal d p of
        Inl e \<Rightarrow> (Some e, d)
      | Inr r \<Rightarrow>
          (case upd r of
             Inl e \<Rightarrow> (Some e, d)
           | Inr None \<Rightarrow> (None, d)
           | Inr (Some r') \<Rightarrow> (let (ok, d', _) = save ios p r' d in (if ok then None else Some JournalIO, d'))))"

text \<open>Which results may be stored: typed, free of secrets, and consistent with the record.\<close>

definition validInitialResourcesJournalResult :: "jenv \<Rightarrow> journal_record \<Rightarrow> bytes \<Rightarrow> bool" where
  "validInitialResourcesJournalResult env r raw \<longleftrightarrow>
     raw \<noteq> [] \<and>
     (case je_initial_result env raw of
        None \<Rightarrow> False
      | Some x \<Rightarrow>
          ir_Configured x \<and> ir_Verified x \<and> 1 \<le> ir_Cores x \<and> ir_Cores x \<le> 128 \<and> 1 \<le> ir_Sockets x \<and>
          ir_Sockets x \<le> 16 \<and> 128 \<le> ir_MemoryMiB x \<and> ir_MemoryMiB x \<le> 4194304 \<and>
          ir_VMGeneration x = jr_Generation r \<and> ir_TemplateRef x = jr_SourceTemplateRef r \<and>
          ir_SourceVMID x = jr_SourceVMID r \<and> ir_TemplateConfigSHA256 x = jr_SourceConfigSHA256 r)"

definition validSnippetDeleteJournalResult :: "jenv \<Rightarrow> journal_record \<Rightarrow> bytes \<Rightarrow> bool" where
  "validSnippetDeleteJournalResult env r raw \<longleftrightarrow>
     jr_SnippetDeletePhase r = ''verified'' \<and>
     (case je_snippet_result env raw of None \<Rightarrow> False | Some (detached, deleted) \<Rightarrow> detached \<and> deleted)"

definition safeReplayResult :: "jenv \<Rightarrow> journal_record \<Rightarrow> bytes \<Rightarrow> bool" where
  "safeReplayResult env r raw \<longleftrightarrow>
     jr_Action r = ''vm.set-initial-resources'' \<and> validInitialResourcesJournalResult env r raw \<or>
     jr_Action r = ''vm.migrate-legacy-journal'' \<and>
       (validLegacyMigrationJournalResult env r raw \<or> validDelete501RecoveryJournalResult env r raw \<or>
        validIPFilterDeleteRecoveryJournalResult env r raw) \<or>
     jr_Action r = ''vm.cloud-init-snippet.delete'' \<and> validSnippetDeleteJournalResult env r raw"

definition shouldQueueReceiptAudit :: "journal_record \<Rightarrow> receipt \<Rightarrow> bool" where
  "shouldQueueReceiptAudit r x \<longleftrightarrow> jr_Action r \<noteq> ''agent.upgrade'' \<or> r_State x \<noteq> ''waiting''"

definition fill_operation :: "journal_record \<Rightarrow> receipt \<Rightarrow> receipt" where
  "fill_operation r x = (if r_OperationID x = [] then x\<lparr>r_OperationID := jr_OperationID r\<rparr> else x)"

definition safe_receipt :: "jenv \<Rightarrow> receipt \<Rightarrow> journal_record \<Rightarrow> bool" where
  "safe_receipt env x r \<longleftrightarrow>
     r_State x = ''succeeded'' \<and> r_Code x = ''SUCCEEDED'' \<and> safeReplayResult env r (r_Result x)"

text \<open>The record with the outcome of a receipt; an unsafe result is dropped.\<close>

definition completed_record :: "jenv \<Rightarrow> receipt \<Rightarrow> journal_record \<Rightarrow> journal_record" where
  "completed_record env x r =
     r\<lparr>jr_State := r_State x, jr_UpdatedAt := to_utc (r_FinishedAt x),
       jr_Receipt := Some (if safe_receipt env x r then x else x\<lparr>r_Result := []\<rparr>), jr_ReceiptPending := True,
       jr_SnippetDeletePhase :=
         (if jr_Action r = ''vm.cloud-init-snippet.delete'' \<and> safe_receipt env x r then ''succeeded''
          else jr_SnippetDeletePhase r),
       jr_PVETaskUPID := (if r_PVETaskUPID x \<noteq> [] then r_PVETaskUPID x else jr_PVETaskUPID r),
       jr_AgentUpgradeID := (if r_AgentUpgradeID x \<noteq> [] then r_AgentUpgradeID x else jr_AgentUpgradeID r)\<rparr>"

definition completeLocked :: "jenv \<Rightarrow> receipt \<Rightarrow> record_update" where
  "completeLocked env x0 r =
     (if r_CommandID x0 \<noteq> jr_CommandID r then Inl ReceiptMismatch
      else
        (let x = ApplyReceiptCompatibility (fill_operation r x0); r1 = completed_record env x r
         in if shouldQueueReceiptAudit r1 x
            then (case with_event env x r1 of None \<Rightarrow> Inl AuditInvalid | Some r2 \<Rightarrow> Inr (Some r2))
            else Inr (Some r1)))"

definition Complete :: "jenv \<Rightarrow> command \<Rightarrow> receipt \<Rightarrow> record_update" where
  "Complete env c x r =
     (if jr_Digest r \<noteq> Digest (je_crypto env) c then Inl CommandConflict else completeLocked env x r)"

definition BeginRunning :: "jenv \<Rightarrow> command \<Rightarrow> receipt \<Rightarrow> record_update" where
  "BeginRunning env c x0 r =
     (if jr_Digest r \<noteq> Digest (je_crypto env) c then Inl CommandConflict
      else case jr_Receipt r of
        Some y \<Rightarrow> if jr_State r = ''running'' \<and> r_State y = ''running'' then Inr None else Inl CommandConflict
      | None \<Rightarrow>
          if r_CommandID x0 \<noteq> jr_CommandID r then Inl ReceiptMismatch
          else
            (let x = ApplyReceiptCompatibility (fill_operation r x0)
             in Inr (Some (r\<lparr>jr_State := ''running'', jr_UpdatedAt := to_utc (r_FinishedAt x), jr_Receipt := Some x,
                  jr_ReceiptPending := True\<rparr>))))"

text \<open>Snippet deletion: the exact volume is bound once, then the phase only advances.\<close>

definition snippet_authority :: "jenv \<Rightarrow> command \<Rightarrow> journal_record \<Rightarrow> bool" where
  "snippet_authority env c r \<longleftrightarrow>
     jr_Action r = ''vm.cloud-init-snippet.delete'' \<and> jr_Digest r = Digest (je_crypto env) c \<and>
     jr_BindingID r = c_BindingID c \<and> jr_DeviceID r = c_DeviceID c \<and> jr_CredentialEpoch r = c_CredentialEpoch c \<and>
     jr_AssignmentRevision r = c_AssignmentRevision c \<and> jr_AgentRef r = c_AgentRef c \<and>
     jr_ClusterRef r = id_ClusterRef (c_Identity c) \<and> jr_NodeRef r = id_NodeRef (c_Identity c) \<and>
     jr_ServiceRef r = id_ServiceRef (c_Identity c) \<and> jr_InstanceUUID r = id_InstanceUUID (c_Identity c) \<and>
     jr_GuestType r = ''qemu'' \<and> jr_VMID r = id_VMID (c_Identity c) \<and> jr_Generation r = id_Generation (c_Identity c)"

definition BeginCloudInitSnippetDelete :: "jenv \<Rightarrow> command \<Rightarrow> string \<Rightarrow> string \<Rightarrow> gotime \<Rightarrow> record_update" where
  "BeginCloudInitSnippetDelete env c storage volumeSHA256 now r =
     (if \<not> snippet_authority env c r \<or> \<not> storageRE storage \<or> \<not> bodyHashRE volumeSHA256 then Inl CommandConflict
      else if jr_SnippetDeletePhase r = [] then
        Inr (Some (r\<lparr>jr_SnippetDeletePhase := ''validated'', jr_SnippetStorageID := storage,
          jr_SnippetVolumeSHA256 := volumeSHA256, jr_UpdatedAt := to_utc now\<rparr>))
      else if jr_SnippetStorageID r \<noteq> storage \<or> jr_SnippetVolumeSHA256 r \<noteq> volumeSHA256 then Inl CommandConflict
      else Inr (Some (r\<lparr>jr_UpdatedAt := to_utc now\<rparr>)))"

definition AdvanceCloudInitSnippetDelete :: "jenv \<Rightarrow> command \<Rightarrow> string \<Rightarrow> gotime \<Rightarrow> record_update" where
  "AdvanceCloudInitSnippetDelete env c phase now r =
     (if jr_Action r \<noteq> ''vm.cloud-init-snippet.delete'' \<or> jr_Digest r \<noteq> Digest (je_crypto env) c \<or>
         \<not> validDirectSnippetPhase phase \<or> phase_order phase < phase_order (jr_SnippetDeletePhase r) \<or>
         jr_SnippetStorageID r = [] \<or> jr_SnippetVolumeSHA256 r = [] then Inl CommandConflict
      else Inr (Some (r\<lparr>jr_SnippetDeletePhase := phase, jr_UpdatedAt := to_utc now\<rparr>)))"

definition RecordCloudInitSnippetDeleteSubmitted :: "jenv \<Rightarrow> command \<Rightarrow> receipt \<Rightarrow> string \<Rightarrow> gotime \<Rightarrow> record_update" where
  "RecordCloudInitSnippetDeleteSubmitted env c x upid now r =
     (if jr_Action r \<noteq> ''vm.cloud-init-snippet.delete'' \<or> jr_Digest r \<noteq> Digest (je_crypto env) c \<or> \<not> upidRE upid \<or>
         jr_SnippetDeletePhase r \<noteq> ''detached'' \<or> r_CommandID x \<noteq> c_CommandID c \<or> r_PVETaskUPID x \<noteq> []
      then Inl CommandConflict
      else completeLocked env x (r\<lparr>jr_PVETaskUPID := upid, jr_SnippetDeletePhase := ''delete_submitted'',
             jr_UpdatedAt := to_utc now\<rparr>))"

text \<open>What reconciliation remembers of an asynchronous command.\<close>

record submitted_task =
  tk_CommandID :: string
  tk_OperationID :: string
  tk_Digest :: string
  tk_ResourceKey :: string
  tk_NodeRef :: string
  tk_PVETaskUPID :: string
  tk_AgentUpgradeID :: string
  tk_Receipt :: receipt
  tk_Action :: string
  tk_GuestType :: string
  tk_VMID :: int
  tk_SnippetDeletePhase :: string
  tk_SnippetStorageID :: string
  tk_SnippetVolumeSHA256 :: string
  tk_BindingID :: string
  tk_DeviceID :: string
  tk_CredentialEpoch :: u64
  tk_AssignmentRevision :: u64
  tk_AgentRef :: string
  tk_ClusterRef :: string
  tk_ServiceRef :: string
  tk_InstanceUUID :: string
  tk_Generation :: u64

definition AdvanceSubmittedSnippetDelete :: "submitted_task \<Rightarrow> string \<Rightarrow> gotime \<Rightarrow> record_update" where
  "AdvanceSubmittedSnippetDelete t phase now r =
     (if tk_Action t \<noteq> ''vm.cloud-init-snippet.delete'' \<or> jr_Action r \<noteq> tk_Action t \<or> jr_Digest r \<noteq> tk_Digest t \<or>
         jr_PVETaskUPID r \<noteq> tk_PVETaskUPID t \<or> (phase \<noteq> ''deleted'' \<and> phase \<noteq> ''verified'') \<or>
         phase_order phase < phase_order (jr_SnippetDeletePhase r) then Inl CommandConflict
      else Inr (Some (r\<lparr>jr_SnippetDeletePhase := phase, jr_UpdatedAt := to_utc now\<rparr>)))"

definition CompleteSubmitted :: "jenv \<Rightarrow> submitted_task \<Rightarrow> receipt \<Rightarrow> record_update" where
  "CompleteSubmitted env t x r =
     (if jr_Digest r \<noteq> tk_Digest t \<or> jr_PVETaskUPID r \<noteq> tk_PVETaskUPID t \<or> jr_AgentUpgradeID r \<noteq> tk_AgentUpgradeID t
      then Inl CommandConflict else completeLocked env x r)"

definition MarkAuditQueued :: "string \<Rightarrow> record_update" where
  "MarkAuditQueued eventID r =
     (case jr_AuditPending r of
        None \<Rightarrow> Inr None
      | Some e \<Rightarrow>
          (case jr_Receipt r of
             None \<Rightarrow> Inl ReceiptMismatch
           | Some x \<Rightarrow>
               if r_ReceiptID x \<noteq> eventID \<or> ev_EventID e \<noteq> eventID then Inl ReceiptMismatch
               else Inr (Some (r\<lparr>jr_AuditPending := None\<rparr>))))"

definition MarkReceiptQueued :: "string \<Rightarrow> record_update" where
  "MarkReceiptQueued receiptID r =
     (case jr_Receipt r of
        None \<Rightarrow> Inl ReceiptMismatch
      | Some x \<Rightarrow>
          if r_ReceiptID x \<noteq> receiptID then Inl ReceiptMismatch
          else if jr_AuditPending r \<noteq> None then Inl AuditNotQueued
          else if \<not> jr_ReceiptPending r then Inr None
          else Inr (Some (r\<lparr>jr_ReceiptPending := False\<rparr>)))"

text \<open>\<open>AuthorizeUpgrade\<close> only reads.\<close>

definition AuthorizeUpgrade :: "jenv \<Rightarrow> jdir \<Rightarrow> string \<Rightarrow> string \<Rightarrow> string \<Rightarrow> jerror option" where
  "AuthorizeUpgrade env d commandID digest upgradeID =
     (case readJournal d (journal_path env commandID) of
        Inl e \<Rightarrow> Some e
      | Inr r \<Rightarrow>
          (case jr_Receipt r of
             None \<Rightarrow> Some CommandConflict
           | Some x \<Rightarrow>
               if jr_Digest r \<noteq> digest \<or> jr_AgentUpgradeID r \<noteq> upgradeID \<or> r_AgentUpgradeID x \<noteq> upgradeID \<or>
                  jr_State r \<noteq> ''submitted'' then Some CommandConflict else None))"

subsection \<open>The outboxes\<close>

text \<open>Sorted by command, as the code sorts them.\<close>

definition list_records :: "(journal_record \<Rightarrow> 'a option) \<Rightarrow> jdir \<Rightarrow> jerror + 'a list" where
  "list_records f d =
     (case read_all d (json_files d) of
        Inl e \<Rightarrow> Inl e | Inr rs \<Rightarrow> Inr (List.map_filter f (sort_key jr_CommandID rs)))"

definition PendingReceipts :: "jdir \<Rightarrow> jerror + (string \<times> receipt) list" where
  "PendingReceipts =
     list_records (\<lambda>r. case jr_Receipt r of
        None \<Rightarrow> None | Some x \<Rightarrow> if jr_ReceiptPending r then Some (jr_CommandID r, x) else None)"

definition PendingAudits :: "jdir \<Rightarrow> jerror + (string \<times> audit_event) list" where
  "PendingAudits =
     list_records (\<lambda>r. case jr_AuditPending r of None \<Rightarrow> None | Some e \<Rightarrow> Some (jr_CommandID r, e))"

definition submitted_task_of :: "journal_record \<Rightarrow> receipt \<Rightarrow> submitted_task" where
  "submitted_task_of r x =
     \<lparr>tk_CommandID = jr_CommandID r, tk_OperationID = jr_OperationID r, tk_Digest = jr_Digest r,
      tk_ResourceKey = jr_ResourceKey r, tk_NodeRef = jr_NodeRef r, tk_PVETaskUPID = jr_PVETaskUPID r,
      tk_AgentUpgradeID = jr_AgentUpgradeID r, tk_Receipt = x, tk_Action = jr_Action r, tk_GuestType = jr_GuestType r,
      tk_VMID = jr_VMID r, tk_SnippetDeletePhase = jr_SnippetDeletePhase r, tk_SnippetStorageID = jr_SnippetStorageID r,
      tk_SnippetVolumeSHA256 = jr_SnippetVolumeSHA256 r, tk_BindingID = jr_BindingID r, tk_DeviceID = jr_DeviceID r,
      tk_CredentialEpoch = jr_CredentialEpoch r, tk_AssignmentRevision = jr_AssignmentRevision r,
      tk_AgentRef = jr_AgentRef r, tk_ClusterRef = jr_ClusterRef r, tk_ServiceRef = jr_ServiceRef r,
      tk_InstanceUUID = jr_InstanceUUID r, tk_Generation = jr_Generation r\<rparr>"

definition SubmittedWaiting :: "jdir \<Rightarrow> jerror + submitted_task list" where
  "SubmittedWaiting =
     list_records (\<lambda>r. case jr_Receipt r of
        None \<Rightarrow> None
      | Some x \<Rightarrow>
          if (jr_State r \<noteq> ''submitted'' \<and> jr_State r \<noteq> ''waiting'') \<or> (jr_PVETaskUPID r = []) = (jr_AgentUpgradeID r = [])
          then None else Some (submitted_task_of r x))"

definition PendingAuditForReceipt :: "jenv \<Rightarrow> jdir \<Rightarrow> string \<Rightarrow> string \<Rightarrow> jerror + audit_event option" where
  "PendingAuditForReceipt env d commandID receiptID =
     (case readJournal d (journal_path env commandID) of
        Inl e \<Rightarrow> Inl e
      | Inr r \<Rightarrow>
          (case jr_Receipt r of
             None \<Rightarrow> Inl ReceiptMismatch
           | Some x \<Rightarrow>
               if r_ReceiptID x \<noteq> receiptID then Inl ReceiptMismatch
               else (case jr_AuditPending r of
                 None \<Rightarrow> Inr None
               | Some e \<Rightarrow> if ev_EventID e \<noteq> receiptID then Inl ReceiptMismatch else Inr (Some e))))"

subsection \<open>Recovery after a crash\<close>

definition interrupted :: "(string \<Rightarrow> bool) \<Rightarrow> journal_record \<Rightarrow> bool" where
  "interrupted active r \<longleftrightarrow>
     (jr_State r = ''received'' \<and> jr_Receipt r = None \<or>
      jr_State r = ''running'' \<and> (case jr_Receipt r of None \<Rightarrow> False | Some x \<Rightarrow> r_State x = ''running'')) \<and>
     jr_Action r \<noteq> ''vm.cloud-init-snippet.delete'' \<and> \<not> active (jr_CommandID r) \<and>
     (jr_Mutating r \<or> jr_State r = ''running'')"

definition recovery_receipt :: "jenv \<Rightarrow> gotime \<Rightarrow> string \<Rightarrow> string \<Rightarrow> journal_record \<Rightarrow> receipt" where
  "recovery_receipt env now mode i r =
     (let x = empty_receipt\<lparr>r_SchemaVersion := SchemaVersion, r_ReceiptID := i, r_CommandID := jr_CommandID r,
            r_OperationID := jr_OperationID r, r_AgentRef := jr_AgentRef r, r_State := ''indeterminate'',
            r_Code := ''EXECUTION_INDETERMINATE'', r_ExecutionMode := mode, r_StartedAt := to_utc (jr_CreatedAt r),
            r_FinishedAt := to_utc now, r_OperatorRef := jr_OperatorRef r\<rparr>
      in ApplyReceiptCompatibility
        (if jr_Action r = ''agent.upgrade'' \<and> jr_State r = ''running'' \<and> jr_AgentUpgradeID r = [] then
           x\<lparr>r_State := ''failed'', r_Code := ''UPGRADE_PREPARE_FAILED'',
             r_Error := Some \<lparr>ee_Source = ''agent'', ee_Stage = ''upgrade_handoff'', ee_Method = [], ee_Path = [],
               ee_HTTPStatus = 0, ee_Reason = ''agent restarted before the upgrade handoff was durably submitted''\<rparr>\<rparr>
         else if \<not> jr_Mutating r then
           (let y = x\<lparr>r_State := ''failed'', r_Code := ''AGENT_EXECUTION_INTERRUPTED'',
                  r_Error := Some (je_interrupted_read env (jr_Action r))\<rparr>
            in if jr_Action r = ''vm.verify-delivery''
               then y\<lparr>r_Code := ''DELIVERY_NOT_READY'', r_Result := je_delivery_failure env now\<rparr> else y)
         else x))"

definition recover_record :: "jenv \<Rightarrow> gotime \<Rightarrow> string \<Rightarrow> string \<Rightarrow> journal_record \<Rightarrow> journal_record option" where
  "recover_record env now mode i r =
     (let x = recovery_receipt env now mode i r in
      with_event env x (r\<lparr>jr_State := r_State x, jr_UpdatedAt := to_utc now, jr_Receipt := Some x,
        jr_ReceiptPending := True\<rparr>))"

fun recover_loop :: "jenv \<Rightarrow> gotime \<Rightarrow> string \<Rightarrow> (string \<Rightarrow> bool) \<Rightarrow> string list \<Rightarrow> io list \<Rightarrow> id_supply \<Rightarrow> jdir \<Rightarrow>
    (jerror + receipt list) \<times> jdir" where
  "recover_loop env now mode active [] ios ids d = (Inr [], d)"
| "recover_loop env now mode active (n # ns) ios ids d =
     (case readJournal d n of
        Inl e \<Rightarrow> (Inl e, d)
      | Inr r \<Rightarrow>
          if \<not> interrupted active r then recover_loop env now mode active ns ios ids d
          else
            (let (i, ids') = take_id ids in
             case i of
               None \<Rightarrow> (Inl IDUnavailable, d)
             | Some i \<Rightarrow>
                 (case recover_record env now mode i r of
                    None \<Rightarrow> (Inl AuditInvalid, d)
                  | Some r' \<Rightarrow>
                      (let (ok, d', ios') = save ios n r' d in
                       if \<not> ok then (Inl JournalIO, d')
                       else (case recover_loop env now mode active ns ios' ids' d' of
                               (Inl e, d2) \<Rightarrow> (Inl e, d2)
                             | (Inr xs, d2) \<Rightarrow> (Inr (recovery_receipt env now mode i r # xs), d2))))))"

text \<open>\<open>RecoverIncomplete\<close> passes no active commands; the service passes those of its dispatcher.\<close>

definition recoverIncomplete :: "jenv \<Rightarrow> gotime \<Rightarrow> string \<Rightarrow> (string \<Rightarrow> bool) \<Rightarrow> io list \<Rightarrow> id_supply \<Rightarrow> jdir \<Rightarrow>
    (jerror + receipt list) \<times> jdir" where
  "recoverIncomplete env now mode active ios ids d = recover_loop env now mode active (json_files d) ios ids d"

subsection \<open>The one-time initial resources\<close>

definition sameLineageVM :: "journal_record \<Rightarrow> command \<Rightarrow> bool" where
  "sameLineageVM r c \<longleftrightarrow>
     (let i = c_Identity c in
      jr_BindingID r = c_BindingID c \<and> jr_DeviceID r = c_DeviceID c \<and> jr_AgentRef r = c_AgentRef c \<and>
      jr_ClusterRef r = id_ClusterRef i \<and> jr_NodeRef r = id_NodeRef i \<and> jr_ServiceRef r = id_ServiceRef i \<and>
      jr_InstanceUUID r = id_InstanceUUID i \<and> jr_GuestType r = id_GuestType i \<and> jr_VMID r = id_VMID i)"

definition recordMatchesInitialLineage :: "journal_record \<Rightarrow> command \<Rightarrow> string \<Rightarrow> int \<Rightarrow> string \<Rightarrow> bool" where
  "recordMatchesInitialLineage r c templateRef sourceVMID sha \<longleftrightarrow>
     sameLineageVM r c \<and> jr_Generation r = id_Generation (c_Identity c) \<and>
     jr_CredentialEpoch r = c_CredentialEpoch c \<and> jr_AssignmentRevision r = c_AssignmentRevision c \<and>
     jr_SourceTemplateRef r = templateRef \<and> jr_SourceVMID r = sourceVMID \<and> jr_SourceConfigSHA256 r = sha"

text \<open>The one clone record with the operation ID: ambiguous or foreign ones are refused.\<close>

fun find_clone :: "(journal_record \<Rightarrow> bool) \<Rightarrow> string \<Rightarrow> journal_record option \<Rightarrow> journal_record list \<Rightarrow>
    jerror + journal_record option" where
  "find_clone good op clone [] = Inr clone"
| "find_clone good op clone (r # rs) =
     (if jr_Action r \<noteq> ''vm.clone'' \<or> jr_OperationID r \<noteq> op then find_clone good op clone rs
      else if clone \<noteq> None \<or> \<not> good r then Inl LineageInvalid
      else find_clone good op (Some r) rs)"

definition blocks_initial :: "jenv \<Rightarrow> jdir \<Rightarrow> command \<Rightarrow> string \<Rightarrow> journal_record \<Rightarrow> journal_record \<Rightarrow> jerror option" where
  "blocks_initial env d c key clone r =
     (case recordMutationMayHaveHappenedLocked env d r of
        Inl e \<Rightarrow> Some e
      | Inr happened \<Rightarrow>
          if jr_ResourceKey r = key \<and> jr_Action r = ''vm.set-initial-resources'' \<and> jr_CommandID r \<noteq> c_CommandID c \<and> happened
            then Some LineageInvalid
          else if jr_ResourceKey r = key \<and> jr_Action r \<in> {''vm.start'', ''vm.verify-delivery'', ''vm.reinstall''} \<and> happened
            then Some LineageInvalid
          else if sameLineageVM r c \<and> jr_Generation r \<noteq> id_Generation (c_Identity c) \<and>
              \<not> before (jr_CreatedAt r) (jr_CreatedAt clone) \<and> happened then Some LineageInvalid
          else None)"

definition AuthorizeInitialResources :: "jenv \<Rightarrow> jdir \<Rightarrow> command \<Rightarrow> string \<Rightarrow> string \<Rightarrow> int \<Rightarrow> string \<Rightarrow> jerror option" where
  "AuthorizeInitialResources env d c cloneOperationID templateRef sourceVMID sha =
     (if c_Action c \<noteq> ''vm.set-initial-resources'' \<or> cloneOperationID = c_OperationID c \<or>
         \<not> commandIDRE cloneOperationID \<or> \<not> nameRE templateRef \<or> sourceVMID < 100 \<or> sourceVMID > 999999999 \<or>
         \<not> bodyHashRE sha \<or> \<not> validInitialLineageCommand c then Some LineageInvalid
      else case journalResourceKey c of
        None \<Rightarrow> Some ScopeKeyInvalid
      | Some key \<Rightarrow>
          (case read_all d (json_files d) of
             Inl e \<Rightarrow> Some e
           | Inr rs \<Rightarrow>
               (case find_clone (\<lambda>r. recordMatchesInitialLineage r c templateRef sourceVMID sha \<and> recordSucceeded r)
                       cloneOperationID None rs of
                  Inl e \<Rightarrow> Some e
                | Inr None \<Rightarrow> Some LineageInvalid
                | Inr (Some clone) \<Rightarrow> first_error (blocks_initial env d c key clone) rs)))"

end
