(* ===== verification/Journal_Safety.thy ===== *)
theory Journal_Safety
  imports Journal
begin

section \<open>Runs of the journal\<close>

text \<open>
  Sequences of journal operations, in any order, with failing writes and crashes between them,
  and what they preserve: the identity of every record, the lock on a resource, the receipt
  outbox and the phase of a snippet deletion.
\<close>

subsection \<open>Operations as steps\<close>

datatype update_op =
    UComplete command receipt
  | UBeginRunning command receipt
  | USnippetBegin command string string gotime
  | USnippetAdvance command string gotime
  | USnippetSubmitted command receipt string gotime
  | UTaskAdvance submitted_task string gotime
  | UTaskComplete submitted_task receipt
  | UAuditQueued string string
  | UReceiptQueued string string

fun update_fun :: "jenv \<Rightarrow> update_op \<Rightarrow> record_update" where
  "update_fun env (UComplete c x) = Complete env c x"
| "update_fun env (UBeginRunning c x) = BeginRunning env c x"
| "update_fun env (USnippetBegin c storage sha now) = BeginCloudInitSnippetDelete env c storage sha now"
| "update_fun env (USnippetAdvance c phase now) = AdvanceCloudInitSnippetDelete env c phase now"
| "update_fun env (USnippetSubmitted c x upid now) = RecordCloudInitSnippetDeleteSubmitted env c x upid now"
| "update_fun env (UTaskAdvance t phase now) = AdvanceSubmittedSnippetDelete t phase now"
| "update_fun env (UTaskComplete t x) = CompleteSubmitted env t x"
| "update_fun env (UAuditQueued i eventID) = MarkAuditQueued eventID"
| "update_fun env (UReceiptQueued i receiptID) = MarkReceiptQueued receiptID"

fun update_id :: "update_op \<Rightarrow> string" where
  "update_id (UComplete c x) = c_CommandID c"
| "update_id (UBeginRunning c x) = c_CommandID c"
| "update_id (USnippetBegin c storage sha now) = c_CommandID c"
| "update_id (USnippetAdvance c phase now) = c_CommandID c"
| "update_id (USnippetSubmitted c x upid now) = c_CommandID c"
| "update_id (UTaskAdvance t phase now) = tk_CommandID t"
| "update_id (UTaskComplete t x) = tk_CommandID t"
| "update_id (UAuditQueued i eventID) = i"
| "update_id (UReceiptQueued i receiptID) = i"

datatype journal_op =
    JClaim command gotime "audit_context option" "io list" id_supply
  | JUpdate update_op "io list"
  | JRecover gotime string "string \<Rightarrow> bool" "io list" id_supply

text \<open>A step and the commands it allowed to execute.\<close>

fun jstep :: "jenv \<Rightarrow> journal_op \<Rightarrow> jdir \<Rightarrow> command list \<times> jdir" where
  "jstep env (JClaim c now audit ios ids) d =
     (let (r, d') = claim env c now audit ios ids d in (if r = Inr Execute then [c] else [], d'))"
| "jstep env (JUpdate u ios) d = ([], snd (update_record ios (journal_path env (update_id u)) (update_fun env u) d))"
| "jstep env (JRecover now mode active ios ids) d = ([], snd (recoverIncomplete env now mode active ios ids d))"

fun jrun :: "jenv \<Rightarrow> journal_op list \<Rightarrow> jdir \<Rightarrow> command list \<times> jdir" where
  "jrun env [] d = ([], d)"
| "jrun env (a # as) d = (let (xs, d1) = jstep env a d; (ys, d2) = jrun env as d1 in (xs @ ys, d2))"

subsection \<open>What no operation changes\<close>

definition same_identity :: "journal_record \<Rightarrow> journal_record \<Rightarrow> bool" where
  "same_identity r r' \<longleftrightarrow>
     jr_CommandID r' = jr_CommandID r \<and> jr_OperationID r' = jr_OperationID r \<and>
     jr_IdempotencyKey r' = jr_IdempotencyKey r \<and> jr_Action r' = jr_Action r \<and> jr_Scope r' = jr_Scope r \<and>
     jr_Mutating r' = jr_Mutating r \<and> jr_Digest r' = jr_Digest r \<and> jr_ResourceKey r' = jr_ResourceKey r \<and>
     jr_RetiredByCommandID r' = jr_RetiredByCommandID r \<and> jr_RetiredAt r' = jr_RetiredAt r"

lemma same_identity_refl [simp]: "same_identity r r"
  by (simp add: same_identity_def)

lemma same_identity_trans: "same_identity r s \<Longrightarrow> same_identity s t \<Longrightarrow> same_identity r t"
  by (simp add: same_identity_def)

lemma with_event_fields:
  assumes "with_event env x r = Some r'"
  shows "\<exists>e. r' = r\<lparr>jr_AuditPending := e\<rparr>"
  using assms by (auto simp: with_event_def split: option.splits intro: exI [of _ "jr_AuditPending r"])

text \<open>
  The contract of a record update: it keeps the identity of the record, its execution state in
  the set of states the code knows, and the phase order; everything below about updates is
  proved from it.
\<close>

definition update_ok :: "journal_record \<Rightarrow> journal_record \<Rightarrow> bool" where
  "update_ok r r' \<longleftrightarrow> same_identity r r' \<and> phase_order (jr_SnippetDeletePhase r) \<le> phase_order (jr_SnippetDeletePhase r') \<and>
     (jr_SnippetDeletePhase r \<noteq> [] \<longrightarrow> jr_SnippetDeletePhase r' \<noteq> [] \<and>
       jr_SnippetStorageID r' = jr_SnippetStorageID r \<and> jr_SnippetVolumeSHA256 r' = jr_SnippetVolumeSHA256 r)"

lemma update_ok_refl [simp]: "update_ok r r"
  by (simp add: update_ok_def)

lemma update_ok_trans: "update_ok r s \<Longrightarrow> update_ok s t \<Longrightarrow> update_ok r t"
  by (auto simp: update_ok_def intro: same_identity_trans)

lemma phase_orders [simp]:
  "phase_order '''' = 0" "phase_order ''validated'' = 1" "phase_order ''detached'' = 3"
  "phase_order ''delete_submitted'' = 4" "phase_order ''verified'' = 6" "phase_order ''succeeded'' = 7"
  by (simp_all add: phase_order_def snippetPhaseOrder_def)

definition evolves :: "jdir \<Rightarrow> jdir \<Rightarrow> bool" where
  "evolves d d' \<longleftrightarrow>
     (\<forall>p r. dir_read d p = Some (Some r) \<longrightarrow> (\<exists>r'. dir_read d' p = Some (Some r') \<and> update_ok r r'))"

lemma evolves_refl [simp]: "evolves d d"
  by (auto simp: evolves_def)

lemma evolves_trans: "evolves d d1 \<Longrightarrow> evolves d1 d2 \<Longrightarrow> evolves d d2"
  unfolding evolves_def by (meson update_ok_trans)

lemma save_cases:
  assumes "save ios p r d = (ok, d', ios')"
  obtains "d' = d" "\<not> ok" | "d' = dir_put p (Some r) d"
  using assms by (cases "fst (take_io ios)") (auto simp: save_def Let_def split: prod.splits)

lemma save_ok: "save ios p r d = (True, d', ios') \<Longrightarrow> d' = dir_put p (Some r) d"
  by (cases "fst (take_io ios)") (auto simp: save_def Let_def split: prod.splits)

lemma save_evolves:
  assumes "save ios p r' d = (ok, d', ios')" "\<And>r. dir_read d p = Some (Some r) \<Longrightarrow> update_ok r r'"
  shows "evolves d d'"
  using assms(1) by (rule save_cases) (use assms(2) in \<open>auto simp: evolves_def\<close>)

locale record_op =
  fixes upd :: record_update
  assumes upd_ok: "upd r = Inr (Some r') \<Longrightarrow> update_ok r r'"
begin

lemma update_step:
  assumes "update_record ios p upd d = (e, d')"
  shows "d' = d \<or> (\<exists>r r'. dir_read d p = Some (Some r) \<and> record_ok r \<and> upd r = Inr (Some r') \<and>
    d' = dir_put p (Some r') d)"
proof (cases "readJournal d p")
  case (Inl x)
  then show ?thesis using assms by (simp add: update_record_def)
next
  case (Inr r)
  then show ?thesis
    using assms by (auto simp: update_record_def readJournal_Inr split: sum.splits option.splits prod.splits
        elim!: save_cases)
qed

lemma update_evolves:
  assumes "update_record ios p upd d = (e, d')"
  shows "evolves d d'"
  using update_step [OF assms] upd_ok by (auto simp: evolves_def)

end

lemma completeLocked_cases:
  assumes "completeLocked env x0 r = Inr (Some r')"
  shows "r_CommandID x0 = jr_CommandID r \<and>
    (\<exists>e. r' = (completed_record env (ApplyReceiptCompatibility (fill_operation r x0)) r)\<lparr>jr_AuditPending := e\<rparr>)"
proof -
  let ?x = "ApplyReceiptCompatibility (fill_operation r x0)"
  let ?r1 = "completed_record env ?x r"
  have "r_CommandID x0 = jr_CommandID r" "r' = ?r1 \<or> with_event env ?x ?r1 = Some r'"
    using assms by (auto simp: completeLocked_def Let_def split: if_splits option.splits)
  moreover have "r' = ?r1 \<Longrightarrow> r' = ?r1\<lparr>jr_AuditPending := jr_AuditPending ?r1\<rparr>" by simp
  ultimately show ?thesis using with_event_fields by blast
qed

lemma safe_snippet_verified:
  "jr_Action r = ''vm.cloud-init-snippet.delete'' \<Longrightarrow> safe_receipt env x r \<Longrightarrow> jr_SnippetDeletePhase r = ''verified''"
  by (auto simp: safe_receipt_def safeReplayResult_def validSnippetDeleteJournalResult_def)

lemma completed_record_ok: "update_ok r ((completed_record env x r)\<lparr>jr_AuditPending := e\<rparr>)"
  using safe_snippet_verified [of r env x]
  by (auto simp: update_ok_def same_identity_def completed_record_def)

lemma completeLocked_ok: "completeLocked env x0 r = Inr (Some r') \<Longrightarrow> update_ok r r'"
  using completeLocked_cases completed_record_ok by blast

interpretation complete: record_op "Complete env c x" for env c x
  by unfold_locales (auto simp: Complete_def completeLocked_ok split: if_splits)

interpretation begin_running: record_op "BeginRunning env c x" for env c x
  by unfold_locales
     (auto simp: BeginRunning_def Let_def update_ok_def same_identity_def split: if_splits option.splits)

interpretation snippet_begin: record_op "BeginCloudInitSnippetDelete env c storage sha now" for env c storage sha now
  by unfold_locales (auto simp: BeginCloudInitSnippetDelete_def update_ok_def same_identity_def split: if_splits)

interpretation snippet_advance: record_op "AdvanceCloudInitSnippetDelete env c phase now" for env c phase now
  by unfold_locales
     (auto simp: AdvanceCloudInitSnippetDelete_def validDirectSnippetPhase_def update_ok_def same_identity_def
       split: if_splits)

interpretation snippet_submitted: record_op "RecordCloudInitSnippetDeleteSubmitted env c x upid now" for env c x upid now
proof unfold_locales
  fix r r'
  assume a: "RecordCloudInitSnippetDeleteSubmitted env c x upid now r = Inr (Some r')"
  let ?r1 = "r\<lparr>jr_PVETaskUPID := upid, jr_SnippetDeletePhase := ''delete_submitted'', jr_UpdatedAt := to_utc now\<rparr>"
  have "jr_SnippetDeletePhase r = ''detached''" "completeLocked env x ?r1 = Inr (Some r')"
    using a by (auto simp: RecordCloudInitSnippetDeleteSubmitted_def split: if_splits)
  then have "update_ok r ?r1" by (simp add: update_ok_def same_identity_def)
  moreover have "update_ok ?r1 r'" using \<open>completeLocked env x ?r1 = _\<close> by (rule completeLocked_ok)
  ultimately show "update_ok r r'" by (rule update_ok_trans)
qed

interpretation task_advance: record_op "AdvanceSubmittedSnippetDelete t phase now" for t phase now
  by unfold_locales (auto simp: AdvanceSubmittedSnippetDelete_def update_ok_def same_identity_def split: if_splits)

interpretation task_complete: record_op "CompleteSubmitted env t x" for env t x
  by unfold_locales (auto simp: CompleteSubmitted_def completeLocked_ok split: if_splits)

interpretation audit_queued: record_op "MarkAuditQueued eventID" for eventID
  by unfold_locales
     (auto simp: MarkAuditQueued_def update_ok_def same_identity_def split: if_splits option.splits)

interpretation receipt_queued: record_op "MarkReceiptQueued receiptID" for receiptID
  by unfold_locales
     (auto simp: MarkReceiptQueued_def update_ok_def same_identity_def split: if_splits option.splits)

interpretation any_update: record_op "update_fun env u" for env u
proof unfold_locales
  fix r r'
  show "update_fun env u r = Inr (Some r') \<Longrightarrow> update_ok r r'"
    by (cases u)
       (simp_all add: complete.upd_ok begin_running.upd_ok snippet_begin.upd_ok snippet_advance.upd_ok
         snippet_submitted.upd_ok task_advance.upd_ok task_complete.upd_ok audit_queued.upd_ok receipt_queued.upd_ok)
qed

subsection \<open>Claims and recovery\<close>

lemma with_event_ok: "with_event env x r1 = Some r2 \<Longrightarrow> update_ok r r1 \<Longrightarrow> update_ok r r2"
  using with_event_fields [of env x r1 r2] by (auto simp: update_ok_def same_identity_def)

definition puts :: "string \<Rightarrow> journal_record \<Rightarrow> jdir \<Rightarrow> jdir \<Rightarrow> bool" where
  "puts p r d d' \<longleftrightarrow> (\<forall>q. dir_read d' q = (if q = p then Some (Some r) else dir_read d q))"

lemma puts_same: "dir_read d p = Some (Some r) \<Longrightarrow> puts p r d d"
  by (auto simp: puts_def)

lemma puts_put [simp]: "puts p r d (dir_put p (Some r) d)"
  by (simp add: puts_def)

lemma puts_trans: "puts p r d d1 \<Longrightarrow> puts p r' d1 d2 \<Longrightarrow> puts p r' d d2"
  by (auto simp: puts_def)

lemma puts_evolves:
  "puts p r' d d' \<Longrightarrow> (\<And>r. dir_read d p = Some (Some r) \<Longrightarrow> update_ok r r') \<Longrightarrow> evolves d d'"
  by (auto simp: puts_def evolves_def)

lemma save_puts:
  assumes "save ios p r' d = (ok, d', ios')" "dir_read d p = Some (Some r)"
  shows "puts p r' d d' \<or> puts p r d d' \<and> \<not> ok"
  using assms(1) by (rule save_cases) (use assms(2) puts_same in auto)

text \<open>
  How a claim may change the record it finds: it keeps state, receipt and outbox flag, or it
  turns an unanswered mutation into an indeterminate, pending receipt without a result.
\<close>

definition settles :: "journal_record \<Rightarrow> journal_record \<Rightarrow> bool" where
  "settles r r' \<longleftrightarrow> update_ok r r' \<and>
     (jr_State r' = jr_State r \<and> jr_Receipt r' = jr_Receipt r \<and> jr_ReceiptPending r' = jr_ReceiptPending r \<or>
      jr_Receipt r = None \<and> \<not> resumable r \<and> jr_State r' = ''indeterminate'' \<and> jr_ReceiptPending r' \<and>
      (\<exists>x. jr_Receipt r' = Some x \<and> r_State x = ''indeterminate'' \<and> r_Result x = []))"

lemma settles_refl [simp]: "settles r r"
  by (simp add: settles_def)

lemma no_change: "dir_read d p = Some (Some r) \<Longrightarrow> \<exists>r'. puts p r' d d \<and> settles r r'"
  using puts_same settles_refl by blast

lemma claim_decide_settles:
  assumes "claim_decide env p c now ios ids r d = (res, d')" "dir_read d p = Some (Some r)"
  shows "(\<exists>r'. puts p r' d d' \<and> settles r r') \<and> (res = Inr Execute \<longrightarrow> resumable r \<and> jr_Receipt r = None)"
proof (cases "jr_Receipt r")
  case (Some x)
  then show ?thesis using assms no_change by (auto simp: claim_decide_def)
next
  case None
  show ?thesis
  proof (cases "resumable r")
    case True
    let ?r' = "r\<lparr>jr_UpdatedAt := to_utc now\<rparr>"
    obtain okw d2 ios2 where s: "save ios p ?r' d = (okw, d2, ios2)" by (metis prod_cases3)
    have "d' = d2" using assms(1) None True s by (auto simp: claim_decide_def split: if_splits)
    moreover have "settles r ?r'" by (simp add: settles_def update_ok_def same_identity_def)
    ultimately show ?thesis using save_puts [OF s assms(2)] True None settles_refl by blast
  next
    case False
    show ?thesis
    proof (cases "journalIndeterminate ids c now")
      case None
      then show ?thesis using assms False \<open>jr_Receipt r = None\<close> no_change by (auto simp: claim_decide_def)
    next
      case (Some x)
      let ?r1 = "r\<lparr>jr_State := r_State x, jr_UpdatedAt := to_utc now, jr_Receipt := Some x, jr_ReceiptPending := True\<rparr>"
      have x: "r_State x = ''indeterminate''" "r_Result x = []"
        using Some by (auto simp: journalIndeterminate_def ApplyReceiptCompatibility_def empty_receipt_def Let_def
            split: option.splits)
      show ?thesis
      proof (cases "with_event env x ?r1")
        case None
        then show ?thesis using assms False \<open>jr_Receipt r = None\<close> Some no_change by (auto simp: claim_decide_def)
      next
        case (Some r')
        then obtain e where e: "r' = ?r1\<lparr>jr_AuditPending := e\<rparr>" using with_event_fields by blast
        have "update_ok r r'" unfolding e by (simp add: update_ok_def same_identity_def)
        then have ok: "settles r r'" using e x False \<open>jr_Receipt r = None\<close> by (simp add: settles_def)
        obtain okw d2 ios2 where s: "save ios p r' d = (okw, d2, ios2)" by (metis prod_cases3)
        have "d' = d2" "res \<noteq> Inr Execute"
          using assms False \<open>jr_Receipt r = None\<close> \<open>journalIndeterminate ids c now = Some x\<close> Some s
          by (auto simp: claim_decide_def split: if_splits)
        then show ?thesis using save_puts [OF s assms(2)] ok settles_refl by blast
      qed
    qed
  qed
qed

lemma settles_resumable: "settles r r' \<Longrightarrow> resumable r' = resumable r"
  by (auto simp: settles_def update_ok_def same_identity_def resumable_def)

lemma settles_after:
  assumes "update_ok r r2" "jr_Receipt r2 = jr_Receipt r" "jr_State r2 = jr_State r"
    and "jr_ReceiptPending r2 = jr_ReceiptPending r" "settles r2 r'"
  shows "settles r r'"
proof -
  have "resumable r2 = resumable r" using assms(1) by (simp add: update_ok_def same_identity_def resumable_def)
  moreover have "update_ok r r'" using assms(1,5) update_ok_trans unfolding settles_def by blast
  ultimately show ?thesis using assms(2-5) unfolding settles_def by simp
qed

lemma claim_existing_settles:
  assumes "claim_existing env p digest c now audit ios ids r d = (res, d')" "dir_read d p = Some (Some r)"
  shows "(\<exists>r'. puts p r' d d' \<and> settles r r') \<and>
    (res = Inr Execute \<longrightarrow> resumable r \<and> jr_Receipt r = None \<and> jr_Digest r = digest)"
proof (cases "jr_Digest r = digest \<and> audit \<noteq> None \<and> jr_AuditContext r = None")
  case False
  then show ?thesis
    using assms no_change claim_decide_settles
    by (auto simp: claim_existing_def split: if_splits)
next
  case True
  let ?r1 = "r\<lparr>jr_AuditContext := audit\<rparr>"
  show ?thesis
  proof (cases "case jr_Receipt r of None \<Rightarrow> Some ?r1 | Some x \<Rightarrow> with_event env x ?r1")
    case None
    then show ?thesis using assms True no_change by (auto simp: claim_existing_def)
  next
    case (Some r2)
    then obtain e where e: "r2 = ?r1\<lparr>jr_AuditPending := e\<rparr>"
      using with_event_fields [of env _ ?r1 r2] by (cases "jr_Receipt r") (auto intro: that [of "jr_AuditPending r"])
    have st: "settles r r2" unfolding e by (simp add: settles_def update_ok_def same_identity_def)
    have same: "jr_Receipt r2 = jr_Receipt r" "jr_State r2 = jr_State r" "jr_ReceiptPending r2 = jr_ReceiptPending r"
      unfolding e by simp_all
    obtain okw d2 ios2 where s: "save ios p r2 d = (okw, d2, ios2)" by (metis prod_cases3)
    show ?thesis
    proof (cases okw)
      case False
      then have "d' = d2" "res \<noteq> Inr Execute" using assms(1) True Some s by (auto simp: claim_existing_def)
      then show ?thesis using save_puts [OF s assms(2)] st settles_refl by blast
    next
      case ok: True
      then have d2: "d2 = dir_put p (Some r2) d" using s save_ok by simp
      have "claim_decide env p c now ios2 ids r2 d2 = (res, d')"
        using assms(1) True Some s ok by (auto simp: claim_existing_def)
      from claim_decide_settles [OF this] d2
      obtain r' where r': "puts p r' d2 d'" "settles r2 r'"
        and ex: "res = Inr Execute \<longrightarrow> resumable r2 \<and> jr_Receipt r2 = None" by auto
      have "puts p r' d d'" using r'(1) d2 puts_trans puts_put by blast
      moreover have "settles r r'"
        using settles_after [OF _ same r'(2)] st by (simp add: settles_def)
      ultimately show ?thesis using ex True settles_resumable [OF st] same(1) by auto
    qed
  qed
qed

definition fresh_record :: "command \<Rightarrow> string \<Rightarrow> string \<Rightarrow> journal_record \<Rightarrow> bool" where
  "fresh_record c key digest r \<longleftrightarrow>
     jr_CommandID r = c_CommandID c \<and> jr_OperationID r = c_OperationID c \<and> jr_IdempotencyKey r = c_IdempotencyKey c \<and>
     jr_Action r = c_Action c \<and> jr_Scope r = c_Scope c \<and> jr_Mutating r = requiresApproval (c_Action c) \<and>
     jr_Digest r = digest \<and> jr_ResourceKey r = key \<and> jr_RetiredByCommandID r = [] \<and> jr_State r = ''received'' \<and>
     jr_Receipt r = None \<and> \<not> jr_ReceiptPending r \<and> jr_SnippetDeletePhase r = [] \<and> jr_AuditPending r = None"

lemma with_lineage_fresh:
  assumes "with_lineage env c (new_record c now audit digest key) = Some r"
  shows "fresh_record c key digest r"
  using assms
  by (auto simp: with_lineage_def new_record_def fresh_record_def Let_def split: if_splits option.splits)

lemma claim_new_cases:
  assumes "claim_new env p digest key c now audit ios d = (res, d')"
  shows "d' = d \<and> res \<noteq> Inr Execute \<or>
    (\<exists>r. fresh_record c key digest r \<and> d' = dir_put p (Some r) d \<and>
      identityUsedLocked d (c_OperationID c) (c_IdempotencyKey c) (c_CommandID c) = Inr (False, False) \<and>
      (requiresApproval (c_Action c) \<and> c_Action c \<noteq> ''vm.migrate-legacy-journal'' \<longrightarrow>
        resourceBusyLocked env d key = Inr False))"
proof -
  let ?check = "if \<not> requiresApproval (c_Action c) then None
     else if c_Action c = ''vm.migrate-legacy-journal'' then migration_claim env d c
     else (case resourceBusyLocked env d key of
             Inl e \<Rightarrow> Some e | Inr busy \<Rightarrow> if busy then Some ResourceBusy else None)"
  show ?thesis
  proof (cases "identityUsedLocked d (c_OperationID c) (c_IdempotencyKey c) (c_CommandID c) = Inr (False, False) \<and>
      ?check = None")
    case False
    then show ?thesis using assms
      by (auto simp: claim_new_def split: sum.split_asm prod.split_asm option.split_asm if_split_asm)
  next
    case True
    show ?thesis
    proof (cases "with_lineage env c (new_record c now audit digest key)")
      case None
      then show ?thesis using assms True by (auto simp: claim_new_def)
    next
      case (Some r)
      obtain ok d2 ios2 where s: "save ios p r d = (ok, d2, ios2)" by (metis prod_cases3)
      have d2: "d' = d2" "\<not> ok \<Longrightarrow> res \<noteq> Inr Execute"
        using assms True Some s by (auto simp: claim_new_def split: if_splits)
      have busy: "requiresApproval (c_Action c) \<and> c_Action c \<noteq> ''vm.migrate-legacy-journal'' \<longrightarrow>
          resourceBusyLocked env d key = Inr False"
        using True by (auto split: sum.split_asm if_split_asm)
      from s show ?thesis
        by (rule save_cases) (use d2 busy True with_lineage_fresh [OF Some] in auto)
    qed
  qed
qed

lemma claim_cases:
  assumes "claim env c now audit ios ids d = (res, d')"
  obtains (refused) "d' = d" "res \<noteq> Inr Execute"
    | (existing) r r' where "readJournal d (journal_path env (c_CommandID c)) = Inr r"
        "puts (journal_path env (c_CommandID c)) r' d d'" "settles r r'"
        "res = Inr Execute \<Longrightarrow> resumable r \<and> jr_Receipt r = None \<and> jr_Digest r = Digest (je_crypto env) c"
    | (fresh) key r where "dir_read d (journal_path env (c_CommandID c)) = None"
        "journalResourceKey c = Some key" "fresh_record c key (Digest (je_crypto env) c) r"
        "Digest (je_crypto env) c \<noteq> []"
        "d' = dir_put (journal_path env (c_CommandID c)) (Some r) d"
        "identityUsedLocked d (c_OperationID c) (c_IdempotencyKey c) (c_CommandID c) = Inr (False, False)"
        "requiresApproval (c_Action c) \<and> c_Action c \<noteq> ''vm.migrate-legacy-journal'' \<Longrightarrow>
          resourceBusyLocked env d key = Inr False"
proof (cases "journalResourceKey c = None \<or> Digest (je_crypto env) c = []")
  case True
  then show ?thesis using assms refused by (auto simp: claim_def Let_def split: option.splits)
next
  case False
  then obtain key where key: "journalResourceKey c = Some key" and dg: "Digest (je_crypto env) c \<noteq> []" by auto
  let ?p = "journal_path env (c_CommandID c)" and ?dg = "Digest (je_crypto env) c"
  show ?thesis
  proof (cases "readJournal d ?p")
    case (Inr r)
    then have "claim_existing env ?p ?dg c now audit ios ids r d = (res, d')"
      using assms key dg by (simp add: claim_def Let_def)
    moreover have "dir_read d ?p = Some (Some r)" using Inr by (simp add: readJournal_Inr)
    ultimately show ?thesis using claim_existing_settles existing [OF Inr] by blast
  next
    case (Inl e)
    show ?thesis
    proof (cases "e = JournalNotExist")
      case True
      then have none: "dir_read d ?p = None" using Inl by (simp add: readJournal_NotExist)
      have "claim_new env ?p ?dg key c now audit ios d = (res, d')"
        using assms key dg Inl True by (simp add: claim_def Let_def)
      from claim_new_cases [OF this] show ?thesis using refused fresh [OF none key _ dg] by blast
    next
      case False
      then show ?thesis using assms key dg Inl refused by (cases e) (auto simp: claim_def Let_def)
    qed
  qed
qed

lemma recovery_receipt_fields:
  "r_ReceiptID (recovery_receipt env now mode i r) = i" "r_CommandID (recovery_receipt env now mode i r) = jr_CommandID r"
  "r_State (recovery_receipt env now mode i r) =
    (if jr_Action r = ''agent.upgrade'' \<and> jr_State r = ''running'' \<and> jr_AgentUpgradeID r = [] \<or> \<not> jr_Mutating r
     then ''failed'' else ''indeterminate'')"
  "r_Result (recovery_receipt env now mode i r) =
    (if \<not> jr_Mutating r \<and> jr_Action r = ''vm.verify-delivery'' then je_delivery_failure env now else [])"
  by (simp_all add: recovery_receipt_def ApplyReceiptCompatibility_def empty_receipt_def Let_def)

lemma recover_record_fields:
  assumes "recover_record env now mode i r = Some r'"
  shows "\<exists>e. r' = r\<lparr>jr_State := r_State (recovery_receipt env now mode i r), jr_UpdatedAt := to_utc now,
    jr_Receipt := Some (recovery_receipt env now mode i r), jr_ReceiptPending := True, jr_AuditPending := e\<rparr>"
  using assms with_event_fields by (fastforce simp: recover_record_def Let_def)

lemma recover_record_ok: "recover_record env now mode i r = Some r' \<Longrightarrow> update_ok r r'"
  using recover_record_fields by (fastforce simp: update_ok_def same_identity_def)

lemma recovered_not_interrupted: "recover_record env now mode i r = Some r' \<Longrightarrow> \<not> interrupted active r'"
  using recover_record_fields [of env now mode i r r'] by (auto simp: interrupted_def recovery_receipt_fields split: if_splits)

text \<open>What recovery does to one file: nothing, or the recovery of an interrupted record.\<close>

definition recovered :: "jenv \<Rightarrow> gotime \<Rightarrow> string \<Rightarrow> (string \<Rightarrow> bool) \<Rightarrow> jdir \<Rightarrow> jdir \<Rightarrow> string \<Rightarrow> bool" where
  "recovered env now mode active d d' p \<longleftrightarrow>
     dir_read d' p = dir_read d p \<or>
     (\<exists>r r' i. dir_read d p = Some (Some r) \<and> interrupted active r \<and> recover_record env now mode i r = Some r' \<and>
       dir_read d' p = Some (Some r'))"

lemma recovered_refl [simp]: "recovered env now mode active d d p"
  by (simp add: recovered_def)

lemma recovered_trans:
  assumes "recovered env now mode active d d1 p" "recovered env now mode active d1 d2 p"
  shows "recovered env now mode active d d2 p"
  using assms recovered_not_interrupted unfolding recovered_def by fastforce

text \<open>One round of the loop ends it, or leaves a directory on which the rest runs.\<close>

lemma recover_round:
  assumes "recover_loop env now mode active (n # ns) ios ids d = (res, d')"
  obtains (stop) "\<And>q. recovered env now mode active d d' q" "\<exists>e. res = Inl e"
    | (rest) d1 ios1 ids1 res1 where "\<And>q. recovered env now mode active d d1 q"
        "recover_loop env now mode active ns ios1 ids1 d1 = (res1, d')"
        "\<And>r. dir_read d1 n = Some (Some r) \<Longrightarrow> \<not> interrupted active r"
        "(\<exists>xs. res = Inr xs) \<longleftrightarrow> (\<exists>xs. res1 = Inr xs)"
proof (cases "\<exists>r. readJournal d n = Inr r \<and> interrupted active r")
  case False
  then show ?thesis
    using assms stop rest [of d ios ids res] by (cases "readJournal d n") (auto simp: readJournal_Inr)
next
  case True
  then obtain r where r: "readJournal d n = Inr r" "interrupted active r" "dir_read d n = Some (Some r)"
    by (auto simp: readJournal_Inr)
  show ?thesis
  proof (cases "\<exists>i r'. fst (take_id ids) = Some i \<and> recover_record env now mode i r = Some r'")
    case False
    then show ?thesis using assms r(1,2) stop by (auto split: prod.splits option.splits)
  next
    case True
    then obtain i r' where i: "fst (take_id ids) = Some i" and r': "recover_record env now mode i r = Some r'" by blast
    obtain ok d1 ios1 where s: "save ios n r' d = (ok, d1, ios1)" by (metis prod_cases3)
    have step: "recovered env now mode active d d1 q" for q
      using s by (rule save_cases) (use r r' in \<open>auto simp: recovered_def\<close>)
    show ?thesis
    proof (cases ok)
      case False
      then show ?thesis using assms r i r' s step stop by (auto split: prod.splits)
    next
      case True
      then have "d1 = dir_put n (Some r') d" using s save_ok by simp
      moreover obtain res2 where "recover_loop env now mode active ns ios1 (snd (take_id ids)) d1 = (res2, d')"
        "(\<exists>xs. res = Inr xs) \<longleftrightarrow> (\<exists>xs. res2 = Inr xs)"
        using assms r i r' s True by (auto split: prod.splits sum.splits)
      ultimately show ?thesis
        by (intro rest [of d1 ios1 "snd (take_id ids)" res2]) (use step recovered_not_interrupted [OF r'] in auto)
    qed
  qed
qed

lemma recover_loop_recovered:
  "recover_loop env now mode active ns ios ids d = (res, d') \<Longrightarrow> recovered env now mode active d d' p"
proof (induction ns arbitrary: ios ids d res)
  case (Cons n ns)
  from Cons.prems show ?case
    by (rule recover_round) (use Cons.IH recovered_trans in blast)+
qed simp

lemma recover_evolves:
  assumes "recoverIncomplete env now mode active ios ids d = (res, d')"
  shows "evolves d d'"
  using recover_loop_recovered [OF assms [unfolded recoverIncomplete_def]] recover_record_ok
  unfolding recovered_def evolves_def by (metis option.inject update_ok_refl)

lemma jstep_evolves: "jstep env a d = (xs, d') \<Longrightarrow> evolves d d'"
proof (cases a)
  case (JClaim c now audit ios ids)
  assume "jstep env a d = (xs, d')"
  then obtain res where "claim env c now audit ios ids d = (res, d')" using JClaim by (auto split: prod.splits)
  then show ?thesis
    by (rule claim_cases) (auto simp: readJournal_Inr settles_def evolves_def puts_def)
next
  case (JUpdate u ios)
  assume "jstep env a d = (xs, d')"
  then show ?thesis using JUpdate any_update.update_evolves by (metis jstep.simps(2) prod.inject prod.collapse)
next
  case (JRecover now mode active ios ids)
  assume "jstep env a d = (xs, d')"
  then show ?thesis using JRecover recover_evolves by (metis jstep.simps(3) prod.inject prod.collapse)
qed

lemma jrun_evolves: "jrun env as d = (xs, d') \<Longrightarrow> evolves d d'"
proof (induction as arbitrary: d xs)
  case (Cons a as)
  then show ?case using jstep_evolves evolves_trans by (fastforce split: prod.splits)
qed simp

subsection \<open>Where records come from\<close>

definition fresh_claim :: "jenv \<Rightarrow> journal_op \<Rightarrow> jdir \<Rightarrow> string \<Rightarrow> journal_record \<Rightarrow> bool" where
  "fresh_claim env a d p r \<longleftrightarrow>
     (\<exists>c now audit ios ids key. a = JClaim c now audit ios ids \<and> p = journal_path env (c_CommandID c) \<and>
       dir_read d p = None \<and> journalResourceKey c = Some key \<and> fresh_record c key (Digest (je_crypto env) c) r \<and>
       Digest (je_crypto env) c \<noteq> [] \<and>
       identityUsedLocked d (c_OperationID c) (c_IdempotencyKey c) (c_CommandID c) = Inr (False, False) \<and>
       (requiresApproval (c_Action c) \<and> c_Action c \<noteq> ''vm.migrate-legacy-journal'' \<longrightarrow>
         resourceBusyLocked env d key = Inr False))"

lemma jstep_origin:
  assumes "jstep env a d = (xs, d')" "dir_read d' p = Some (Some r')"
  shows "(\<exists>r. dir_read d p = Some (Some r) \<and> update_ok r r') \<or> fresh_claim env a d p r'"
proof (cases a)
  case (JClaim c now audit ios ids)
  then obtain res where "claim env c now audit ios ids d = (res, d')" using assms(1) by (auto split: prod.splits)
  then show ?thesis
  proof (cases rule: claim_cases)
    case refused
    then show ?thesis using assms(2) by auto
  next
    case (existing r r2)
    then show ?thesis using assms(2) by (auto simp: readJournal_Inr puts_def settles_def split: if_splits)
  next
    case (fresh key r)
    then show ?thesis using assms(2) JClaim by (fastforce simp: fresh_claim_def split: if_splits)
  qed
next
  case (JUpdate u ios)
  then obtain e where "update_record ios (journal_path env (update_id u)) (update_fun env u) d = (e, d')"
    using assms(1) by (metis jstep.simps(2) prod.inject prod.collapse)
  from any_update.update_step [OF this] show ?thesis
    using assms(2) any_update.upd_ok by (auto split: if_splits)
next
  case (JRecover now mode active ios ids)
  then obtain res where "recover_loop env now mode active (json_files d) ios ids d = (res, d')"
    using assms(1) by (metis jstep.simps(3) prod.inject prod.collapse recoverIncomplete_def)
  then have "recovered env now mode active d d' p" by (rule recover_loop_recovered)
  then show ?thesis using assms(2) recover_record_ok unfolding recovered_def by (metis option.inject update_ok_refl)
qed

lemma scan_Some: "scan f d ns = Inr (Some x) \<Longrightarrow> \<exists>r. f r = Inr (Some x)"
  by (induction ns) (auto split: sum.splits option.splits)

text \<open>
  A record and the command that created it.
\<close>

definition claimed_by :: "jenv \<Rightarrow> command \<Rightarrow> journal_record \<Rightarrow> bool" where
  "claimed_by env c r \<longleftrightarrow> jr_Digest r = Digest (je_crypto env) c \<and> jr_Digest r \<noteq> [] \<and> jr_Action r = c_Action c \<and>
     jr_Mutating r = requiresApproval (c_Action c)"

lemma identityUsed_fresh:
  assumes "identityUsedLocked d op idem cmd = Inr (False, False)" "dir_read d q = Some (Some s)"
    and "has_suffix ''.json'' q" "jr_CommandID s \<noteq> cmd"
  shows "jr_OperationID s \<noteq> op \<and> jr_IdempotencyKey s \<noteq> idem"
proof -
  let ?f = "\<lambda>r. if jr_OperationID r = op \<and> jr_CommandID r \<noteq> cmd then Some (True, False)
    else if jr_IdempotencyKey r \<noteq> [] \<and> jr_IdempotencyKey r = idem \<and> jr_CommandID r \<noteq> cmd then Some (False, True) else None"
  have ids: "commandIDRE idem" "scan (\<lambda>r. Inr (?f r)) d (json_files d) = Inr None"
    using assms(1) by (auto simp: identityUsedLocked_def split: if_splits sum.splits option.splits
        dest!: scan_Some)
  have "q \<in> set (json_files d)" using assms(2,3) by (simp add: json_files_iff)
  then obtain r where "readJournal d q = Inr r" "?f r = None"
    using ids(2) by (fastforce simp: scan_None list_all_iff)
  moreover have "r = s" using calculation(1) assms(2) by (simp add: readJournal_Inr)
  ultimately have "?f s = None" by blast
  then show ?thesis using assms(4) commandIDRE_nonempty [OF ids(1)] by (auto split: if_splits)
qed

end
