(* ===== verification/Journal_Guarantees.thy ===== *)
theory Journal_Guarantees
  imports Journal_Safety
begin

section \<open>What the journal guarantees\<close>

text \<open>
  Guarantees over whole runs of journal operations: commands execute at most once, identifiers
  are used once, a resource stays locked while a mutation on it is open, no receipt is lost, only
  typed results are stored, and recovery leaves no interrupted command behind.  Restarts, failed
  writes and writes reported as failed that reached the disk are part of every run.
\<close>

subsection \<open>Helper lemmas over runs\<close>

lemma jstep_Execute:
  assumes "jstep env a d = (xs, d')" "c \<in> set xs"
  obtains now audit ios ids where "a = JClaim c now audit ios ids" "claim env c now audit ios ids d = (Inr Execute, d')"
  using assms by (cases a) (auto split: prod.splits if_splits)

lemma jrun_Cons:
  assumes "jrun env (a # as) d = (xs, d')"
  obtains ys d1 zs where "jstep env a d = (ys, d1)" "jrun env as d1 = (zs, d')" "xs = ys @ zs"
  using assms by (auto split: prod.splits)

lemma update_ok_resumable: "update_ok r r' \<Longrightarrow> resumable r' = resumable r"
  by (simp add: update_ok_def same_identity_def resumable_def)

lemma Execute_resumable:
  assumes "claim env c now audit ios ids d = (Inr Execute, d')"
    and "dir_read d (journal_path env (c_CommandID c)) = Some (Some r)"
  shows "resumable r"
  using assms(1) by (rule claim_cases) (use assms(2) in \<open>auto simp: readJournal_Inr\<close>)

lemma settled_never_executes:
  assumes "jrun env as d = (xs, d')" "dir_read d p = Some (Some r)" "\<not> resumable r" "c \<in> set xs"
  shows "journal_path env (c_CommandID c) \<noteq> p"
  using assms
proof (induction as arbitrary: d r xs)
  case (Cons a as)
  from Cons.prems(1) obtain ys d1 zs where s: "jstep env a d = (ys, d1)" "jrun env as d1 = (zs, d')" "xs = ys @ zs"
    by (rule jrun_Cons)
  show ?case
  proof (cases "c \<in> set ys")
    case True
    from jstep_Execute [OF s(1) this] show ?thesis using Execute_resumable Cons.prems(2,3) by metis
  next
    case False
    obtain r1 where "dir_read d1 p = Some (Some r1)" "update_ok r r1"
      using jstep_evolves [OF s(1)] Cons.prems(2) unfolding evolves_def by blast
    then show ?thesis using Cons.IH [OF s(2)] Cons.prems(3,4) s(3) False update_ok_resumable by auto
  qed
qed simp

subsection \<open>At most one execution\<close>

definition once_only :: "command \<Rightarrow> bool" where
  "once_only c \<longleftrightarrow> requiresApproval (c_Action c) \<and>
     c_Action c \<noteq> ''vm.migrate-legacy-journal'' \<and> c_Action c \<noteq> ''vm.cloud-init-snippet.delete''"

fun claims :: "journal_op list \<Rightarrow> command set" where
  "claims [] = {}"
| "claims (JClaim c _ _ _ _ # as) = insert c (claims as)"
| "claims (_ # as) = claims as"

definition origin_inv :: "jenv \<Rightarrow> command set \<Rightarrow> jdir \<Rightarrow> bool" where
  "origin_inv env cs d \<longleftrightarrow>
     (\<forall>p r. dir_read d p = Some (Some r) \<longrightarrow> (\<exists>c \<in> cs. claimed_by env c r))"

lemma claimed_by_update: "claimed_by env c r \<Longrightarrow> update_ok r r' \<Longrightarrow> claimed_by env c r'"
  by (auto simp: claimed_by_def update_ok_def same_identity_def)

lemma fresh_claimed_by:
  "fresh_claim env a d p r \<Longrightarrow> \<exists>c now audit ios ids. a = JClaim c now audit ios ids \<and> claimed_by env c r"
  by (auto simp: fresh_claim_def fresh_record_def claimed_by_def)

lemma origin_inv_step:
  assumes "jstep env a d = (xs, d')" "origin_inv env cs d" "claims [a] \<subseteq> cs"
  shows "origin_inv env cs d'"
  unfolding origin_inv_def
proof (intro allI impI)
  fix p r' assume "dir_read d' p = Some (Some r')"
  from jstep_origin [OF assms(1) this] show "\<exists>c\<in>cs. claimed_by env c r'"
  proof (elim disjE exE conjE)
    fix r assume "dir_read d p = Some (Some r)" "update_ok r r'"
    then show ?thesis using assms(2) claimed_by_update unfolding origin_inv_def by blast
  next
    assume "fresh_claim env a d p r'"
    then show ?thesis using fresh_claimed_by assms(3) by fastforce
  qed
qed

lemma executed_recorded:
  assumes "claim env c now audit ios ids d = (Inr Execute, d')"
  shows "\<exists>r. dir_read d' (journal_path env (c_CommandID c)) = Some (Some r) \<and> jr_Digest r = Digest (je_crypto env) c"
  using assms
proof (cases rule: claim_cases)
  case (existing r r')
  then show ?thesis by (auto simp: puts_def settles_def update_ok_def same_identity_def)
next
  case (fresh key r)
  then show ?thesis by (simp add: fresh_record_def)
qed simp

lemma executions_distinct:
  assumes "jrun env as d = (xs, d')" "origin_inv env cs d" "claims as \<subseteq> cs"
    and "\<And>c c'. c \<in> cs \<Longrightarrow> c' \<in> cs \<Longrightarrow> Digest (je_crypto env) c = Digest (je_crypto env) c' \<Longrightarrow> c_Action c = c_Action c'"
  shows "distinct (map c_CommandID (filter once_only xs))"
  using assms(1-3)
proof (induction as arbitrary: d xs)
  case (Cons a as)
  from Cons.prems(1) obtain ys d1 zs where s: "jstep env a d = (ys, d1)" "jrun env as d1 = (zs, d')" "xs = ys @ zs"
    by (rule jrun_Cons)
  have sub: "claims [a] \<subseteq> cs" "claims as \<subseteq> cs" using Cons.prems(3) by (cases a; simp)+
  note inv1 = origin_inv_step [OF s(1) Cons.prems(2) sub(1)]
  have rest: "distinct (map c_CommandID (filter once_only zs))" using Cons.IH [OF s(2) inv1 sub(2)] .
  show ?case
  proof (cases "filter once_only ys")
    case Nil
    then show ?thesis using rest s(3) by simp
  next
    case (Cons c ys')
    then have "c \<in> set (filter once_only ys)" by simp
    then have c: "c \<in> set ys" "once_only c" by simp_all
    from jstep_Execute [OF s(1) c(1)] obtain now audit ios ids
      where a: "a = JClaim c now audit ios ids" "claim env c now audit ios ids d = (Inr Execute, d1)" .
    have ys: "ys = [c]" using s(1) a by simp
    obtain r where r: "dir_read d1 (journal_path env (c_CommandID c)) = Some (Some r)"
        "jr_Digest r = Digest (je_crypto env) c"
      using executed_recorded [OF a(2)] by blast
    obtain c0 where c0: "c0 \<in> cs" "claimed_by env c0 r" using inv1 r(1) unfolding origin_inv_def by blast
    have "c \<in> cs" using sub(1) a(1) by simp
    then have "c_Action c0 = c_Action c" using assms(4) [OF c0(1)] c0(2) r(2) by (simp add: claimed_by_def)
    then have "\<not> resumable r" using c0(2) c(2) by (simp add: claimed_by_def once_only_def resumable_def)
    then have "c_CommandID c \<notin> c_CommandID ` set zs"
      using settled_never_executes [OF s(2) r(1)] by (metis imageE)
    then show ?thesis using rest s(3) ys c(2) by auto
  qed
qed simp

text \<open>
  C5: At most once.  However often commands are delivered, in whatever order with completions,
  recoveries, failed and half-failed writes and restarts, starting from an empty journal each
  command that changes something is handed to the executor at most once.  Exempt are the two
  actions that check their own progress, journal migration and snippet deletion, and commands
  that only read.  The hypothesis is the one a digest is for: among the commands delivered,
  equal digests mean equal actions.
\<close>

theorem at_most_once:
  assumes "jrun env as [] = (xs, d)"
    and "\<And>c c'. c \<in> claims as \<Longrightarrow> c' \<in> claims as \<Longrightarrow>
      Digest (je_crypto env) c = Digest (je_crypto env) c' \<Longrightarrow> c_Action c = c_Action c'"
  shows "distinct (map c_CommandID (filter once_only xs))"
proof -
  have "origin_inv env (claims as) []" by (simp add: origin_inv_def)
  then show ?thesis using executions_distinct [OF assms(1) _ subset_refl] assms(2) by blast
qed

subsection \<open>Identifiers are used once\<close>

lemma fresh_claim_ids:
  assumes "fresh_claim env a d p r"
  shows "p = journal_path env (jr_CommandID r) \<and> dir_read d p = None \<and>
    identityUsedLocked d (jr_OperationID r) (jr_IdempotencyKey r) (jr_CommandID r) = Inr (False, False)"
  using assms by (auto simp: fresh_claim_def fresh_record_def)

definition ids_inv :: "jenv \<Rightarrow> jdir \<Rightarrow> bool" where
  "ids_inv env d \<longleftrightarrow>
     (\<forall>p r. dir_read d p = Some (Some r) \<longrightarrow> p = journal_path env (jr_CommandID r)) \<and>
     (\<forall>p q r s. dir_read d p = Some (Some r) \<and> dir_read d q = Some (Some s) \<and> p \<noteq> q \<longrightarrow>
       jr_OperationID r \<noteq> jr_OperationID s \<and> jr_IdempotencyKey r \<noteq> jr_IdempotencyKey s)"

lemma fresh_claim_new_ids:
  assumes "fresh_claim env a d p r" "dir_read d q = Some (Some s)" "ids_inv env d"
  shows "jr_OperationID s \<noteq> jr_OperationID r \<and> jr_IdempotencyKey s \<noteq> jr_IdempotencyKey r"
proof -
  have q: "q = journal_path env (jr_CommandID s)" using assms(2,3) by (auto simp: ids_inv_def)
  then have "jr_CommandID s \<noteq> jr_CommandID r" using fresh_claim_ids [OF assms(1)] assms(2) by auto
  then show ?thesis
    using identityUsed_fresh [OF _ assms(2)] fresh_claim_ids [OF assms(1)] q journal_path_json by metis
qed

lemma fresh_claim_unique: "fresh_claim env a d p r \<Longrightarrow> fresh_claim env a d q s \<Longrightarrow> p = q"
  by (auto simp: fresh_claim_def)

lemma ids_inv_step:
  assumes "jstep env a d = (xs, d')" "ids_inv env d"
  shows "ids_inv env d'"
proof -
  have origin: "\<And>p r'. dir_read d' p = Some (Some r') \<Longrightarrow>
      (\<exists>r. dir_read d p = Some (Some r) \<and> jr_CommandID r = jr_CommandID r' \<and> jr_OperationID r = jr_OperationID r' \<and>
        jr_IdempotencyKey r = jr_IdempotencyKey r') \<or> fresh_claim env a d p r'"
    using jstep_origin [OF assms(1)] unfolding update_ok_def same_identity_def by metis
  have "p = journal_path env (jr_CommandID r)" if "dir_read d' p = Some (Some r)" for p r
    using origin [OF that] assms(2) fresh_claim_ids unfolding ids_inv_def by metis
  moreover have "jr_OperationID r \<noteq> jr_OperationID s \<and> jr_IdempotencyKey r \<noteq> jr_IdempotencyKey s"
    if r: "dir_read d' p = Some (Some r)" and s: "dir_read d' q = Some (Some s)" and "p \<noteq> q" for p q r s
    using origin [OF r] origin [OF s]
  proof (elim disjE)
    assume "fresh_claim env a d p r" "fresh_claim env a d q s"
    then show ?thesis using fresh_claim_unique \<open>p \<noteq> q\<close> by blast
  qed (use assms(2) \<open>p \<noteq> q\<close> fresh_claim_new_ids [OF _ _ assms(2)] in \<open>unfold ids_inv_def, metis\<close>)+
  ultimately show ?thesis unfolding ids_inv_def by blast
qed

lemma jrun_keeps:
  assumes "jrun env as d = (xs, d')" "P d" "\<And>a d xs d'. a \<in> set as \<Longrightarrow> jstep env a d = (xs, d') \<Longrightarrow> P d \<Longrightarrow> P d'"
  shows "P d'"
  using assms
proof (induction as arbitrary: d xs)
  case (Cons a as)
  from Cons.prems(1) obtain ys d1 zs where "jstep env a d = (ys, d1)" "jrun env as d1 = (zs, d')" by (rule jrun_Cons)
  then show ?case using Cons.IH [of d1 zs] Cons.prems(2,3) by (meson list.set_intros)
qed simp

text \<open>
  In a journal that started empty every record stands in the file of its command, and no
  two records share an operation ID or an idempotency key: a second command that reuses either
  is refused, whatever happened in between.
\<close>

theorem identifiers_unique:
  assumes "jrun env as [] = (xs, d)" "dir_read d p = Some (Some r)" "dir_read d q = Some (Some s)" "p \<noteq> q"
  shows "p = journal_path env (jr_CommandID r) \<and> jr_CommandID r \<noteq> jr_CommandID s \<and>
    jr_OperationID r \<noteq> jr_OperationID s \<and> jr_IdempotencyKey r \<noteq> jr_IdempotencyKey s"
proof -
  have "ids_inv env d" by (rule jrun_keeps [OF assms(1)]) (simp add: ids_inv_def, rule ids_inv_step)
  then show ?thesis using assms(2-4) unfolding ids_inv_def by metis
qed


subsection \<open>A resource stays locked while its mutation is open\<close>

fun completion_state :: "update_op \<Rightarrow> string option" where
  "completion_state (UComplete c x) = Some (r_State x)"
| "completion_state (USnippetSubmitted c x upid now) = Some (r_State x)"
| "completion_state (UTaskComplete t x) = Some (r_State x)"
| "completion_state u = None"

fun keeps_open :: "jenv \<Rightarrow> string \<Rightarrow> journal_op \<Rightarrow> bool" where
  "keeps_open env p (JUpdate u ios) =
     (journal_path env (update_id u) = p \<longrightarrow>
       (case completion_state u of None \<Rightarrow> True | Some s \<Rightarrow> s \<in> busy_states))"
| "keeps_open env p a = True"

definition locks :: "string \<Rightarrow> journal_record \<Rightarrow> bool" where
  "locks key r \<longleftrightarrow> jr_Mutating r \<and> jr_ResourceKey r = key \<and> jr_State r \<in> busy_states \<and>
     jr_RetiredByCommandID r = [] \<and> jr_Action r \<noteq> ''agent.upgrade''"

lemma update_ok_locks: "locks key r \<Longrightarrow> update_ok r r' \<Longrightarrow> jr_State r' \<in> busy_states \<Longrightarrow> locks key r'"
  by (simp add: locks_def update_ok_def same_identity_def)

lemma completeLocked_state: "completeLocked env x r = Inr (Some r') \<Longrightarrow> jr_State r' = r_State x"
  using completeLocked_cases [of env x r r']
  by (auto simp: completed_record_def ApplyReceiptCompatibility_def fill_operation_def Let_def)

lemma update_state:
  assumes "update_fun env u r = Inr (Some r')"
  shows "jr_State r' = jr_State r \<or> jr_State r' = ''running'' \<or> completion_state u = Some (jr_State r')"
  using assms
  by (cases u)
     (auto simp: Complete_def BeginRunning_def BeginCloudInitSnippetDelete_def AdvanceCloudInitSnippetDelete_def
       RecordCloudInitSnippetDeleteSubmitted_def AdvanceSubmittedSnippetDelete_def CompleteSubmitted_def
       MarkAuditQueued_def MarkReceiptQueued_def Let_def dest!: completeLocked_state split: if_splits option.splits)

lemma jstep_locks:
  assumes "jstep env a d = (xs, d')" "dir_read d p = Some (Some r)" "locks key r" "keeps_open env p a"
  shows "\<exists>r'. dir_read d' p = Some (Some r') \<and> locks key r'"
proof (cases a)
  case (JClaim c now audit ios ids)
  then obtain res where "claim env c now audit ios ids d = (res, d')" using assms(1) by (auto split: prod.splits)
  then show ?thesis
  proof (cases rule: claim_cases)
    case (existing s s')
    show ?thesis
    proof (cases "p = journal_path env (c_CommandID c)")
      case True
      then have "s = r" using existing(1) assms(2) by (simp add: readJournal_Inr)
      then have "locks key s'"
        using existing(3) assms(3) update_ok_locks [of key r s'] by (auto simp: settles_def locks_def busy_states_def)
      then show ?thesis using existing(2) True by (simp add: puts_def)
    qed (use existing(2) assms(2,3) in \<open>auto simp: puts_def\<close>)
  qed (use assms(2,3) in auto)
next
  case (JUpdate u ios)
  then obtain e where "update_record ios (journal_path env (update_id u)) (update_fun env u) d = (e, d')"
    using assms(1) by (metis jstep.simps(2) prod.inject prod.collapse)
  from any_update.update_step [OF this] show ?thesis
  proof (elim disjE exE conjE)
    fix s s' assume s: "dir_read d (journal_path env (update_id u)) = Some (Some s)" "update_fun env u s = Inr (Some s')"
      "d' = dir_put (journal_path env (update_id u)) (Some s') d"
    show ?thesis
    proof (cases "p = journal_path env (update_id u)")
      case True
      then have "s = r" using s(1) assms(2) by simp
      moreover have "jr_State s' \<in> busy_states"
        using update_state [OF s(2)] assms(3,4) True JUpdate \<open>s = r\<close> by (auto simp: locks_def busy_states_def)
      ultimately show ?thesis using update_ok_locks [OF assms(3)] any_update.upd_ok [OF s(2)] s(3) True by simp
    qed (use s(3) assms(2,3) in simp)
  qed (use assms(2,3) in auto)
next
  case (JRecover now mode active ios ids)
  then obtain res where "recover_loop env now mode active (json_files d) ios ids d = (res, d')"
    using assms(1) by (metis jstep.simps(3) prod.inject prod.collapse recoverIncomplete_def)
  then have "recovered env now mode active d d' p" by (rule recover_loop_recovered)
  then consider "dir_read d' p = Some (Some r)"
    | s' i where "recover_record env now mode i r = Some s'" "dir_read d' p = Some (Some s')"
    using assms(2) unfolding recovered_def by force
  then show ?thesis
  proof cases
    case 2
    have "jr_State s' \<in> busy_states"
      using recover_record_fields [OF 2(1)] assms(3)
      by (auto simp: recovery_receipt_fields locks_def busy_states_def)
    then show ?thesis using update_ok_locks [OF assms(3) recover_record_ok [OF 2(1)]] 2(2) by blast
  qed (use assms(3) in blast)
qed

text \<open>What a free resource says about every record of it.\<close>

lemma free_resource:
  assumes "resourceBusyLocked env d key = Inr False" "dir_read d p = Some (Some r)" "has_suffix ''.json'' p"
    and "jr_Mutating r" "jr_ResourceKey r = key" "jr_State r \<in> busy_states"
  shows "retirementCommittedLocked env d r = Inr True"
proof -
  let ?f = "\<lambda>r. if jr_Mutating r \<and> jr_ResourceKey r = key \<and> jr_State r \<in> busy_states
     then (case retirementCommittedLocked env d r of Inl e \<Rightarrow> Inl e | Inr retired \<Rightarrow> Inr (if retired then None else Some True))
     else Inr None"
  have "scan ?f d (json_files d) = Inr None \<or> scan ?f d (json_files d) = Inr (Some False)"
    using assms(1) by (auto simp: resourceBusyLocked_def split: sum.splits option.splits)
  moreover have "scan ?f d (json_files d) \<noteq> Inr (Some False)"
    by (rule notI, drule scan_Some) (auto split: if_splits sum.splits)
  ultimately have "list_all (\<lambda>n. \<exists>r. readJournal d n = Inr r \<and> ?f r = Inr None) (json_files d)"
    by (simp add: scan_None)
  moreover have "p \<in> set (json_files d)" using assms(2,3) by (simp add: json_files_iff)
  ultimately obtain s where s: "readJournal d p = Inr s" "?f s = Inr None" by (auto simp: list_all_iff)
  then have "s = r" using assms(2) by (simp add: readJournal_Inr)
  then show ?thesis using s(2) assms(4-6) by (auto split: sum.splits if_splits)
qed

lemma locked_not_free:
  assumes "dir_read d p = Some (Some r)" "locks key r" "has_suffix ''.json'' p"
  shows "resourceBusyLocked env d key \<noteq> Inr False"
proof
  assume "resourceBusyLocked env d key = Inr False"
  then have "retirementCommittedLocked env d r = Inr True"
    using free_resource [OF _ assms(1,3)] assms(2) by (simp add: locks_def)
  then show False
    using assms(2) by (simp add: retirementCommittedLocked_def recordHasCompleteRetirementMarkers_def locks_def)
qed

lemma jrun_locks:
  assumes "jrun env as d = (xs, d')" "\<exists>r. dir_read d p = Some (Some r) \<and> locks key r"
    and "\<And>a. a \<in> set as \<Longrightarrow> keeps_open env p a"
  shows "\<exists>r. dir_read d' p = Some (Some r) \<and> locks key r"
  by (rule jrun_keeps [OF assms(1), where P = "\<lambda>d. \<exists>r. dir_read d p = Some (Some r) \<and> locks key r"])
     (use assms(2,3) jstep_locks in blast)+



subsection \<open>Receipts\<close>

text \<open>How a step may change the receipt of a record that was there before.\<close>

definition delivered :: "jenv \<Rightarrow> string \<Rightarrow> receipt \<Rightarrow> journal_op \<Rightarrow> bool" where
  "delivered env p x a \<longleftrightarrow>
     (\<exists>i ios. a = JUpdate (UReceiptQueued i (r_ReceiptID x)) ios \<and> journal_path env i = p)"

definition outbox_step :: "journal_record \<Rightarrow> journal_record \<Rightarrow> bool" where
  "outbox_step r r' \<longleftrightarrow> jr_Receipt r' = jr_Receipt r \<and> jr_ReceiptPending r' = jr_ReceiptPending r \<or> jr_ReceiptPending r'"

lemma completeLocked_pending: "completeLocked env x r = Inr (Some r') \<Longrightarrow> jr_ReceiptPending r'"
  using completeLocked_cases [of env x r r'] by (auto simp: completed_record_def)

lemma update_outbox:
  assumes "update_fun env u r = Inr (Some r')"
  shows "outbox_step r r' \<or>
    (\<exists>i x. u = UReceiptQueued i (r_ReceiptID x) \<and> jr_Receipt r = Some x \<and> jr_AuditPending r = None \<and>
      r' = r\<lparr>jr_ReceiptPending := False\<rparr>)"
  using assms
  by (cases u)
     (auto simp: outbox_step_def Complete_def BeginRunning_def BeginCloudInitSnippetDelete_def
       AdvanceCloudInitSnippetDelete_def RecordCloudInitSnippetDeleteSubmitted_def AdvanceSubmittedSnippetDelete_def
       CompleteSubmitted_def MarkAuditQueued_def MarkReceiptQueued_def Let_def
       dest!: completeLocked_pending split: if_splits option.splits)

lemma jstep_outbox:
  assumes "jstep env a d = (xs, d')" "dir_read d' p = Some (Some r')" "jr_Receipt r' = Some x" "\<not> jr_ReceiptPending r'"
  shows "(\<exists>r. dir_read d p = Some (Some r) \<and> jr_Receipt r = Some x \<and>
    (\<not> jr_ReceiptPending r \<or> delivered env p x a \<and> jr_AuditPending r = None))"
proof (cases a)
  case (JClaim c now audit ios ids)
  then obtain res where "claim env c now audit ios ids d = (res, d')" using assms(1) by (auto split: prod.splits)
  then show ?thesis
  proof (cases rule: claim_cases)
    case (existing s s')
    then show ?thesis using assms(2-4)
      by (cases "p = journal_path env (c_CommandID c)") (auto simp: puts_def settles_def readJournal_Inr)
  next
    case (fresh key s)
    then show ?thesis using assms(2-4) by (auto simp: fresh_record_def split: if_splits)
  qed (use assms(2-4) in auto)
next
  case (JUpdate u ios)
  let ?q = "journal_path env (update_id u)"
  obtain e where "update_record ios ?q (update_fun env u) d = (e, d')"
    using assms(1) JUpdate by (metis jstep.simps(2) prod.inject prod.collapse)
  from any_update.update_step [OF this] show ?thesis
  proof (elim disjE exE conjE)
    fix s s' assume s: "dir_read d ?q = Some (Some s)" "update_fun env u s = Inr (Some s')" "d' = dir_put ?q (Some s') d"
    show ?thesis
    proof (cases "p = ?q")
      case True
      then show ?thesis
        using update_outbox [OF s(2)] s(1,3) assms(2-4) JUpdate
        by (auto simp: outbox_step_def delivered_def)
    qed (use s(3) assms(2-4) in auto)
  qed (use assms(2-4) in auto)
next
  case (JRecover now mode active ios ids)
  then obtain res where "recover_loop env now mode active (json_files d) ios ids d = (res, d')"
    using assms(1) by (metis jstep.simps(3) prod.inject prod.collapse recoverIncomplete_def)
  then have "recovered env now mode active d d' p" by (rule recover_loop_recovered)
  then show ?thesis using assms(2-4) recover_record_fields unfolding recovered_def by fastforce
qed

text \<open>
  C26: No receipt is lost.  In a journal that started empty, a stored receipt that is not pending
  any more was marked as queued for delivery under its own receipt ID: no other operation,
  failure or restart takes a receipt out of the outbox.
\<close>

theorem no_receipt_lost:
  assumes "jrun env as [] = (xs, d)" "dir_read d p = Some (Some r)" "jr_Receipt r = Some x" "\<not> jr_ReceiptPending r"
  shows "\<exists>a \<in> set as. delivered env p x a"
proof -
  let ?P = "\<lambda>d. \<forall>r. dir_read d p = Some (Some r) \<and> jr_Receipt r = Some x \<and> \<not> jr_ReceiptPending r \<longrightarrow>
    (\<exists>a \<in> set as. delivered env p x a)"
  have "?P d" by (rule jrun_keeps [OF assms(1), of ?P]) (auto dest: jstep_outbox)
  then show ?thesis using assms(2-4) by blast
qed

text \<open>
  The audit event goes first.  A record leaves the receipt outbox only in a step at which
  it has no audit event waiting, and marking a receipt while its event waits is refused.
\<close>

theorem audit_before_receipt:
  assumes "jstep env a d = (xs, d')" "dir_read d p = Some (Some r)" "jr_ReceiptPending r"
    and "dir_read d' p = Some (Some r')" "jr_Receipt r' = Some x" "\<not> jr_ReceiptPending r'"
  shows "jr_AuditPending r = None \<and> jr_Receipt r = Some x \<and> MarkReceiptQueued (r_ReceiptID x) r = Inr (Some r') \<and>
    (\<forall>e. MarkReceiptQueued (r_ReceiptID x) (r\<lparr>jr_AuditPending := Some e\<rparr>) = Inl AuditNotQueued)"
proof -
  have d: "delivered env p x a" "jr_AuditPending r = None" "jr_Receipt r = Some x"
    using jstep_outbox [OF assms(1,4-6)] assms(2,3) by auto
  then obtain i ios where a: "a = JUpdate (UReceiptQueued i (r_ReceiptID x)) ios" "journal_path env i = p"
    by (auto simp: delivered_def)
  then obtain e where "update_record ios p (MarkReceiptQueued (r_ReceiptID x)) d = (e, d')"
    using assms(1) by (metis jstep.simps(2) prod.inject prod.collapse update_fun.simps(9) update_id.simps(9))
  from receipt_queued.update_step [OF this] have "MarkReceiptQueued (r_ReceiptID x) r = Inr (Some r')"
    using assms(2-4,6) by auto
  then show ?thesis using d by (simp add: MarkReceiptQueued_def)
qed

subsection \<open>Stored results\<close>

definition stored_result_ok :: "jenv \<Rightarrow> string \<Rightarrow> receipt \<Rightarrow> bool" where
  "stored_result_ok env action x \<longleftrightarrow>
     r_Result x = [] \<or>
     (\<exists>r0. jr_Action r0 = action \<and> r_State x = ''succeeded'' \<and> r_Code x = ''SUCCEEDED'' \<and>
       safeReplayResult env r0 (r_Result x)) \<or>
     action = ''vm.verify-delivery'' \<and> (\<exists>now. r_Result x = je_delivery_failure env now)"

definition result_ok :: "jenv \<Rightarrow> journal_record \<Rightarrow> bool" where
  "result_ok env r \<longleftrightarrow> (\<forall>x. jr_Receipt r = Some x \<longrightarrow> stored_result_ok env (jr_Action r) x)"

fun running_without_result :: "journal_op \<Rightarrow> bool" where
  "running_without_result (JUpdate (UBeginRunning c x) ios) = (r_Result x = [])"
| "running_without_result a = True"

lemma completeLocked_result:
  assumes "completeLocked env x0 r = Inr (Some r')"
  shows "result_ok env r'"
proof -
  let ?x = "ApplyReceiptCompatibility (fill_operation r x0)"
  obtain e where r': "r' = (completed_record env ?x r)\<lparr>jr_AuditPending := e\<rparr>" using completeLocked_cases [OF assms] by blast
  have "jr_Receipt r' = Some (if safe_receipt env ?x r then ?x else ?x\<lparr>r_Result := []\<rparr>)" "jr_Action r' = jr_Action r"
    unfolding r' by (simp_all add: completed_record_def)
  moreover have "safe_receipt env ?x r \<Longrightarrow> stored_result_ok env (jr_Action r) ?x"
    unfolding safe_receipt_def stored_result_ok_def by blast
  moreover have "stored_result_ok env (jr_Action r) (?x\<lparr>r_Result := []\<rparr>)" by (simp add: stored_result_ok_def)
  ultimately show ?thesis by (simp add: result_ok_def)
qed

lemma update_receipt:
  assumes "update_fun env u r = Inr (Some r')"
  shows "jr_Receipt r' = jr_Receipt r \<or> (\<exists>x r1. completeLocked env x r1 = Inr (Some r')) \<or>
    (\<exists>c x. u = UBeginRunning c x \<and> jr_Receipt r' = Some (ApplyReceiptCompatibility (fill_operation r x)))"
  using assms
  by (cases u)
     (auto simp: Complete_def BeginRunning_def BeginCloudInitSnippetDelete_def AdvanceCloudInitSnippetDelete_def
       RecordCloudInitSnippetDeleteSubmitted_def AdvanceSubmittedSnippetDelete_def CompleteSubmitted_def
       MarkAuditQueued_def MarkReceiptQueued_def Let_def split: if_splits option.splits)

lemma update_result:
  assumes "update_fun env u r = Inr (Some r')" "result_ok env r" "running_without_result (JUpdate u ios)"
  shows "result_ok env r'"
proof -
  have act: "jr_Action r' = jr_Action r"
    using any_update.upd_ok [OF assms(1)] by (simp add: update_ok_def same_identity_def)
  from update_receipt [OF assms(1)] show ?thesis
  proof (elim disjE exE conjE)
    fix c x assume u: "u = UBeginRunning c x" "jr_Receipt r' = Some (ApplyReceiptCompatibility (fill_operation r x))"
    then have "r_Result (ApplyReceiptCompatibility (fill_operation r x)) = []"
      using assms(3) by (simp add: ApplyReceiptCompatibility_def fill_operation_def Let_def)
    then show ?thesis using u(2) by (simp add: result_ok_def stored_result_ok_def)
  next
    assume "jr_Receipt r' = jr_Receipt r"
    then show ?thesis using assms(2) act by (simp add: result_ok_def)
  qed (rule completeLocked_result)
qed

definition results_inv :: "jenv \<Rightarrow> jdir \<Rightarrow> bool" where
  "results_inv env d \<longleftrightarrow> (\<forall>p r. dir_read d p = Some (Some r) \<longrightarrow> result_ok env r)"

lemma recover_record_result: "recover_record env now mode i r = Some r' \<Longrightarrow> result_ok env r'"
  using recover_record_fields [of env now mode i r r']
  by (fastforce simp: result_ok_def stored_result_ok_def recovery_receipt_fields)

lemma jstep_results:
  assumes "jstep env a d = (xs, d')" "results_inv env d" "running_without_result a"
  shows "results_inv env d'"
  unfolding results_inv_def
proof (intro allI impI)
  fix p r' assume r': "dir_read d' p = Some (Some r')"
  have old: "result_ok env r" if "dir_read d q = Some (Some r)" for q r using assms(2) that by (simp add: results_inv_def)
  show "result_ok env r'"
  proof (cases a)
    case (JClaim c now audit ios ids)
    then obtain res where "claim env c now audit ios ids d = (res, d')" using assms(1) by (auto split: prod.splits)
    then show ?thesis
    proof (cases rule: claim_cases)
      case (existing s s')
      have "result_ok env s" using existing(1) old by (auto simp: readJournal_Inr)
      then have "result_ok env s'"
        using existing(3) by (auto simp: settles_def result_ok_def stored_result_ok_def update_ok_def same_identity_def)
      then show ?thesis using existing(2) old r' by (auto simp: puts_def split: if_splits)
    qed (use r' old in \<open>auto simp: fresh_record_def result_ok_def split: if_splits\<close>)
  next
    case (JUpdate u ios)
    then obtain e where "update_record ios (journal_path env (update_id u)) (update_fun env u) d = (e, d')"
      using assms(1) by (metis jstep.simps(2) prod.inject prod.collapse)
    from any_update.update_step [OF this] show ?thesis
      using r' old update_result assms(3) JUpdate by (auto split: if_splits)
  next
    case (JRecover now mode active ios ids)
    then obtain res where "recover_loop env now mode active (json_files d) ios ids d = (res, d')"
      using assms(1) by (metis jstep.simps(3) prod.inject prod.collapse recoverIncomplete_def)
    then have "recovered env now mode active d d' p" by (rule recover_loop_recovered)
    then show ?thesis using r' old recover_record_result unfolding recovered_def by (metis option.inject)
  qed
qed

text \<open>
  Only typed results reach the disk.  In a journal that started empty, with running receipts
  that carry no result, every stored result belongs to a succeeded command of one of the three
  actions with a typed, checked result, or is the failure report of an interrupted delivery
  verification; console tickets and whatever else the platform returns are never written.
\<close>

theorem only_typed_results_stored:
  assumes "jrun env as [] = (xs, d)" "\<And>a. a \<in> set as \<Longrightarrow> running_without_result a"
    and "dir_read d p = Some (Some r)" "jr_Receipt r = Some x" "r_Result x \<noteq> []"
  shows "r_State x = ''succeeded'' \<and>
      jr_Action r \<in> {''vm.set-initial-resources'', ''vm.migrate-legacy-journal'', ''vm.cloud-init-snippet.delete''} \<and>
      (\<exists>r0. jr_Action r0 = jr_Action r \<and> safeReplayResult env r0 (r_Result x)) \<or>
    jr_Action r = ''vm.verify-delivery'' \<and> (\<exists>now. r_Result x = je_delivery_failure env now)"
proof -
  have "results_inv env d"
    by (rule jrun_keeps [OF assms(1), of "results_inv env"])
       (simp add: results_inv_def, rule jstep_results, use assms(2) in auto)
  then have "stored_result_ok env (jr_Action r) x" using assms(3,4) by (simp add: results_inv_def result_ok_def)
  moreover have "jr_Action r \<in> {''vm.set-initial-resources'', ''vm.migrate-legacy-journal'', ''vm.cloud-init-snippet.delete''}"
    if "jr_Action r0 = jr_Action r" "safeReplayResult env r0 raw" for r0 raw
    using that unfolding safeReplayResult_def by auto
  ultimately show ?thesis using assms(5) unfolding stored_result_ok_def by blast
qed

subsection \<open>Recovery and snippet deletion\<close>

lemma recover_loop_done:
  assumes "recover_loop env now mode active ns ios ids d = (Inr xs, d')" "n \<in> set ns" "dir_read d' n = Some (Some r)"
  shows "\<not> interrupted active r"
  using assms(1,2)
proof (induction ns arbitrary: ios ids d xs)
  case (Cons m ns)
  from Cons.prems(1) show ?case
  proof (cases rule: recover_round)
    case (rest d1 ios1 ids1 res1)
    then obtain ys where ys: "recover_loop env now mode active ns ios1 ids1 d1 = (Inr ys, d')" by blast
    show ?thesis
    proof (cases "n \<in> set ns")
      case False
      then have "n = m" using Cons.prems(2) by simp
      have "recovered env now mode active d1 d' n" by (rule recover_loop_recovered [OF ys])
      then show ?thesis
        using assms(3) rest(3) \<open>n = m\<close> recovered_not_interrupted unfolding recovered_def by (metis option.inject)
    qed (use Cons.IH ys in blast)
  qed simp
qed simp

text \<open>
  When recovery succeeds, no command is left interrupted: every record that was received or
  running without an owner now has a pending receipt, and it says indeterminate for a mutation
  that may have happened, failed only for commands that change nothing or for an upgrade that
  was never handed off.  All other records are untouched.
\<close>

theorem recovery_settles_interrupted:
  assumes "recoverIncomplete env now mode active ios ids d = (Inr xs, d')"
    and "dir_read d p = Some (Some r)" "has_suffix ''.json'' p"
  shows "\<exists>r'. dir_read d' p = Some (Some r') \<and>
    (if interrupted active r
     then jr_ReceiptPending r' \<and> (\<exists>x. jr_Receipt r' = Some x \<and> r_CommandID x = jr_CommandID r \<and>
       r_State x = jr_State r' \<and>
       jr_State r' = (if jr_Mutating r \<and> \<not> (jr_Action r = ''agent.upgrade'' \<and> jr_State r = ''running'' \<and> jr_AgentUpgradeID r = [])
         then ''indeterminate'' else ''failed''))
     else r' = r)"
proof -
  note loop = assms(1) [unfolded recoverIncomplete_def]
  have rec: "recovered env now mode active d d' p" by (rule recover_loop_recovered [OF loop])
  have n: "p \<in> set (json_files d)" using assms(2,3) by (simp add: json_files_iff)
  show ?thesis
  proof (cases "interrupted active r")
    case False
    then show ?thesis using rec assms(2) unfolding recovered_def by auto
  next
    case True
    then have "dir_read d' p \<noteq> dir_read d p" using recover_loop_done [OF loop n] assms(2) by auto
    then obtain i r' where r': "recover_record env now mode i r = Some r'" "dir_read d' p = Some (Some r')"
      using rec assms(2) unfolding recovered_def by force
    then show ?thesis using True recover_record_fields [OF r'(1)] by (auto simp: recovery_receipt_fields)
  qed
qed

text \<open>
  Snippet deletion never goes back.  Through any run of journal operations the record of a
  command survives with its identity, its deletion phase never decreases, and once a volume is
  bound it is the volume of every later phase.
\<close>

theorem snippet_phase_monotone:
  assumes "jrun env as d = (xs, d')" "dir_read d p = Some (Some r)"
  shows "\<exists>r'. dir_read d' p = Some (Some r') \<and> same_identity r r' \<and>
    phase_order (jr_SnippetDeletePhase r) \<le> phase_order (jr_SnippetDeletePhase r') \<and>
    (jr_SnippetDeletePhase r \<noteq> [] \<longrightarrow>
      jr_SnippetStorageID r' = jr_SnippetStorageID r \<and> jr_SnippetVolumeSHA256 r' = jr_SnippetVolumeSHA256 r)"
  using jrun_evolves [OF assms(1)] assms(2) unfolding evolves_def update_ok_def by blast

subsection \<open>A concrete journal\<close>

definition ex_jenv :: jenv where
  "ex_jenv = \<lparr>je_crypto = \<lparr>sha256 = (\<lambda>b. replicate 32 (word_of_nat (length b))), hmac_sha256 = (\<lambda>k m. []),
       json_valid = (\<lambda>b. True), marshal_body = (\<lambda>c. Some (c_CommandID c)), ed25519_verify = (\<lambda>k m s. True)\<rparr>,
     je_marshal_receipt = (\<lambda>x. Some []), je_clone = (\<lambda>c. None),
     je_initial = (\<lambda>c. Some (replicate 64 CHR ''a'', ''tpl-1'', 900)),
     je_initial_result = (\<lambda>b. Some \<lparr>ir_Configured = True, ir_Verified = True, ir_Cores = 2, ir_Sockets = 1,
       ir_MemoryMiB = 2048, ir_VMGeneration = id_Generation ex_identity, ir_TemplateRef = ''tpl-1'', ir_SourceVMID = 900,
       ir_TemplateConfigSHA256 = replicate 64 CHR ''a''\<rparr>),
     je_snippet_result = (\<lambda>b. None), je_legacy_result = (\<lambda>b. None), je_delete501_result = (\<lambda>b. None),
     je_ipfilter_result = (\<lambda>b. None), je_legacy_params = (\<lambda>b. None), je_delete501_params = (\<lambda>b. None),
     je_ipfilter_params = (\<lambda>b. None), je_marshal_ipset = (\<lambda>n a. None), je_parse_cidr = (\<lambda>a. None), je_parse_ip = (\<lambda>a. None),
     je_interrupted_read = (\<lambda>a. \<lparr>ee_Source = ''agent'', ee_Stage = ''read'', ee_Method = [], ee_Path = [],
       ee_HTTPStatus = 0, ee_Reason = ''interrupted''\<rparr>), je_delivery_failure = (\<lambda>t. ''{}'')\<rparr>"

lemma ex_path_iff: "journal_path ex_jenv a = journal_path ex_jenv b \<longleftrightarrow> (word_of_nat (length a) :: 8 word) = word_of_nat (length b)"
  by (simp add: journal_path_def ex_jenv_def crypto.defs)

lemma ex_digest: "c_Parameters c \<noteq> [] \<Longrightarrow> Digest (je_crypto ex_jenv) c = hex_encode (replicate 32 (word_of_nat (length (c_CommandID c))))"
  by (simp add: Digest_def CanonicalCommandBody_def ex_jenv_def crypto.defs canonical_fields_def)

definition ex_op :: "string \<Rightarrow> string \<Rightarrow> string \<Rightarrow> string \<Rightarrow> int \<Rightarrow> command" where
  "ex_op action cmd op idem vmid = ex_command\<lparr>c_Action := action, c_CommandID := cmd, c_OperationID := op,
     c_IdempotencyKey := idem, c_Identity := ex_identity\<lparr>id_VMID := vmid\<rparr>\<rparr>"

lemma ex_op_fields [simp]:
  "c_Action (ex_op action cmd op idem vmid) = action" "c_CommandID (ex_op action cmd op idem vmid) = cmd"
  "c_OperationID (ex_op action cmd op idem vmid) = op" "c_IdempotencyKey (ex_op action cmd op idem vmid) = idem"
  "c_Identity (ex_op action cmd op idem vmid) = ex_identity\<lparr>id_VMID := vmid\<rparr>" "c_Scope (ex_op action cmd op idem vmid) = ScopeVM"
  "c_Parameters (ex_op action cmd op idem vmid) = ''{}''" "c_BindingID (ex_op action cmd op idem vmid) = ex_binding"
  "c_DeviceID (ex_op action cmd op idem vmid) = ''dev-1''" "c_CredentialEpoch (ex_op action cmd op idem vmid) = 1"
  "c_AssignmentRevision (ex_op action cmd op idem vmid) = 7" "c_AgentRef (ex_op action cmd op idem vmid) = ''agent-1''"
  "c_OperatorRef (ex_op action cmd op idem vmid) = ''operator-1''"
  by (simp_all add: ex_op_def ex_command_def)

lemma ex_identity_fields [simp]:
  "id_ServiceRef ex_identity = ''svc-1''" "id_ClusterRef ex_identity = ''cluster-a''" "id_NodeRef ex_identity = ''pve1''"
  "id_Generation ex_identity = 3" "id_InstanceUUID ex_identity = ''inst-1''" "id_GuestType ex_identity = ''qemu''"
  by (simp_all add: ex_identity_def)

lemma ex_names [simp]:
  "commandIDRE ''cluster-a''" "commandIDRE ''agent-1''" "journalNodeRef ''pve1''" "commandIDRE ''cmd-20''"
  "commandIDRE ''op-2''" "commandIDRE ''idem-2''" "actionRE ''vm.set-initial-resources''"
  "actionRE ''vm.cloud-init-snippet.delete''"
  "bodyHashRE (replicate 64 CHR ''a'')" "nameRE ''tpl-1''" "storageRE ''local''"
  by code_simp+

lemma ex_specs [simp]:
  "action_spec ''vm.set-initial-resources'' = Some ([ScopeVM], False)"
  "action_spec ''vm.cloud-init-snippet.delete'' = Some ([ScopeVM], False)"
  by code_simp+

definition ex_actions :: "string set" where
  "ex_actions = {''vm.start'', ''vm.set-initial-resources'', ''vm.cloud-init-snippet.delete''}"

lemma ex_action_facts:
  assumes "action \<in> ex_actions"
  shows "requiresApproval action" "validActionScope action ScopeVM" "actionRE action" "action \<noteq> ''vm.clone''"
    "action \<noteq> ''vm.migrate-legacy-journal''"
  using assms by (auto simp: ex_actions_def requiresApproval_def validActionScope_def)

definition ex_key :: "int \<Rightarrow> string" where
  "ex_key vmid = ''vm:cluster-a:qemu:'' @ dec_int vmid @ '':'' @ dec 3"

lemma scopes_distinct [simp]: "ScopeVM \<noteq> ScopeCluster" "ScopeVM \<noteq> ScopeNode"
  by (simp_all add: ScopeVM_def ScopeNode_def ScopeCluster_def)

lemma ex_resource_key:
  "action \<in> ex_actions \<Longrightarrow> 1 \<le> vmid \<Longrightarrow> journalResourceKey (ex_op action cmd op idem vmid) = Some (ex_key vmid)"
  by (simp add: journalResourceKey_def Let_def ex_action_facts ex_key_def)

definition ex_record :: "string \<Rightarrow> string \<Rightarrow> string \<Rightarrow> string \<Rightarrow> int \<Rightarrow> journal_record" where
  "ex_record action cmd op idem vmid =
     (let r = new_record (ex_op action cmd op idem vmid) ex_issued None
            (hex_encode (replicate 32 (word_of_nat (length cmd)))) (ex_key vmid)
      in if action = ''vm.set-initial-resources''
         then r\<lparr>jr_SourceConfigSHA256 := replicate 64 CHR ''a'', jr_SourceTemplateRef := ''tpl-1'', jr_SourceVMID := 900\<rparr>
         else r)"

lemma ex_claim:
  assumes "action \<in> ex_actions" "1 \<le> vmid" "dir_read d (journal_path ex_jenv cmd) = None"
    and "identityUsedLocked d op idem cmd = Inr (False, False)" "resourceBusyLocked ex_jenv d (ex_key vmid) = Inr False"
  shows "claim ex_jenv (ex_op action cmd op idem vmid) ex_issued None [] ids d =
    (Inr Execute, dir_put (journal_path ex_jenv cmd) (Some (ex_record action cmd op idem vmid)) d)"
proof -
  let ?c = "ex_op action cmd op idem vmid"
  have dg: "Digest (je_crypto ex_jenv) ?c = hex_encode (replicate 32 (word_of_nat (length cmd)))" by (simp add: ex_digest)
  have lin: "with_lineage ex_jenv ?c (new_record ?c ex_issued None (hex_encode (replicate 32 (word_of_nat (length cmd)))) (ex_key vmid)) =
      Some (ex_record action cmd op idem vmid)"
    using ex_action_facts(4) [OF assms(1)] by (simp add: with_lineage_def ex_record_def Let_def ex_jenv_def)
  have "claim ex_jenv ?c ex_issued None [] ids d =
      claim_new ex_jenv (journal_path ex_jenv cmd) (hex_encode (replicate 32 (word_of_nat (length cmd)))) (ex_key vmid) ?c ex_issued None [] d"
    using ex_resource_key [OF assms(1,2)] assms(3) dg by (simp add: claim_def Let_def readJournal_def)
  also have "\<dots> = (Inr Execute, dir_put (journal_path ex_jenv cmd) (Some (ex_record action cmd op idem vmid)) d)"
    using assms(4,5) lin ex_action_facts(5) [OF assms(1)] by (simp add: claim_new_def save_def)
  finally show ?thesis .
qed

lemma ex_record_ok:
  assumes "action \<in> ex_actions" "1 \<le> vmid" "commandIDRE cmd"
  shows "record_ok (ex_record action cmd op idem vmid)"
  using assms ex_action_facts(3) [OF assms(1)] commandIDRE_nonempty [OF assms(3)]
  by (auto simp: record_ok_def ex_record_def Let_def new_record_def validJournalScope_def ScopeVM_def ScopeNode_def
      ScopeCluster_def ex_key_def validOptionalJournalLineage_def validJournalMigrationMarkers_def utc_marker_def
      validSnippetJournalRecord_def split: if_splits)

abbreviation ex_path :: string where
  "ex_path \<equiv> journal_path ex_jenv ''cmd-1''"

abbreviation ex_first :: "string \<Rightarrow> command" where
  "ex_first action \<equiv> ex_op action ''cmd-1'' ''op-1'' ''idem-1'' 101"

abbreviation ex_first_record :: "string \<Rightarrow> journal_record" where
  "ex_first_record action \<equiv> ex_record action ''cmd-1'' ''op-1'' ''idem-1'' 101"

lemma ex_first_claim:
  assumes "action \<in> ex_actions"
  shows "claim ex_jenv (ex_first action) ex_issued None [] ids [] = (Inr Execute, [(ex_path, Some (ex_first_record action))])"
  using ex_claim [OF assms, of 101 "[]" "''cmd-1''" "''op-1''" "''idem-1''" ids]
  by (simp add: identityUsedLocked_def resourceBusyLocked_def json_files_def dir_put_def)

lemma ex_first_read:
  assumes "action \<in> ex_actions"
  shows "readJournal [(ex_path, Some (ex_first_record action))] ex_path = Inr (ex_first_record action)"
  using ex_record_ok [OF assms, of 101 "''cmd-1''"] by (simp add: readJournal_Inr dir_read_def)

lemma ex_json_files: "json_files [(ex_path, v)] = [ex_path]"
  by (simp add: json_files_def)

theorem at_most_once_witness:
  "\<exists>xs d. jrun ex_jenv [JClaim (ex_first ''vm.start'') ex_issued None [] [],
      JRecover ex_issued ''production'' (\<lambda>_. False) [] [Some ''r-1''],
      JClaim (ex_first ''vm.start'') ex_issued None [] []] [] = (xs, d) \<and>
    ex_first ''vm.start'' \<in> set xs \<and> distinct (map c_CommandID (filter once_only xs))"
proof -
  let ?as = "[JClaim (ex_first ''vm.start'') ex_issued None [] [],
    JRecover ex_issued ''production'' (\<lambda>_. False) [] [Some ''r-1''], JClaim (ex_first ''vm.start'') ex_issued None [] []]"
  obtain xs d where run: "jrun ex_jenv ?as [] = (xs, d)" by fastforce
  have "ex_first ''vm.start'' \<in> set xs"
    using run ex_first_claim [of "''vm.start''" "[]"] by (auto simp: ex_actions_def split: prod.splits)
  moreover have "distinct (map c_CommandID (filter once_only xs))" by (rule at_most_once [OF run]) simp
  ultimately show ?thesis using run by blast
qed

lemma ex_second_claim:
  "claim ex_jenv (ex_op ''vm.start'' ''cmd-20'' ''op-2'' ''idem-2'' 102) ex_issued None [] []
     [(ex_path, Some (ex_first_record ''vm.start''))] =
   (Inr Execute, [(ex_path, Some (ex_first_record ''vm.start'')),
     (journal_path ex_jenv ''cmd-20'', Some (ex_record ''vm.start'' ''cmd-20'' ''op-2'' ''idem-2'' 102))])"
proof -
  let ?d = "[(ex_path, Some (ex_first_record ''vm.start''))]" and ?r = "ex_first_record ''vm.start''"
  have r: "jr_OperationID ?r = ''op-1''" "jr_IdempotencyKey ?r = ''idem-1''" "jr_ResourceKey ?r = ex_key 101"
    by (simp_all add: ex_record_def new_record_def)
  have p: "ex_path \<noteq> journal_path ex_jenv ''cmd-20''" by (simp add: ex_path_iff)
  have k: "ex_key 101 \<noteq> ex_key 102" by code_simp
  have rd: "readJournal ?d ex_path = Inr ?r" by (rule ex_first_read) (simp add: ex_actions_def)
  have "identityUsedLocked ?d ''op-2'' ''idem-2'' ''cmd-20'' = Inr (False, False)"
    using r rd by (simp add: identityUsedLocked_def ex_json_files)
  moreover have "resourceBusyLocked ex_jenv ?d (ex_key 102) = Inr False"
    using r rd k by (simp add: resourceBusyLocked_def ex_json_files)
  ultimately show ?thesis
    using ex_claim [of "''vm.start''" 102 ?d "''cmd-20''" "''op-2''" "''idem-2''" "[]"] p
    by (simp add: ex_actions_def dir_read_def dir_put_def)
qed

theorem identifiers_unique_witness:
  "\<exists>xs d r s. jrun ex_jenv [JClaim (ex_first ''vm.start'') ex_issued None [] [],
      JClaim (ex_op ''vm.start'' ''cmd-20'' ''op-2'' ''idem-2'' 102) ex_issued None [] []] [] = (xs, d) \<and>
    length xs = 2 \<and> jr_OperationID r \<noteq> jr_OperationID s \<and>
    dir_read d ex_path = Some (Some r) \<and> dir_read d (journal_path ex_jenv ''cmd-20'') = Some (Some s)"
proof -
  let ?r = "ex_first_record ''vm.start''" and ?s = "ex_record ''vm.start'' ''cmd-20'' ''op-2'' ''idem-2'' 102"
  let ?c = "ex_first ''vm.start''" and ?c2 = "ex_op ''vm.start'' ''cmd-20'' ''op-2'' ''idem-2'' 102"
  let ?d = "[(ex_path, Some ?r), (journal_path ex_jenv ''cmd-20'', Some ?s)]"
  have run: "jrun ex_jenv [JClaim ?c ex_issued None [] [], JClaim ?c2 ex_issued None [] []] [] = ([?c, ?c2], ?d)"
    using ex_first_claim [of "''vm.start''" "[]"] ex_second_claim by (simp add: ex_actions_def)
  have p: "ex_path \<noteq> journal_path ex_jenv ''cmd-20''" by (simp add: ex_path_iff)
  have reads: "dir_read ?d ex_path = Some (Some ?r)" "dir_read ?d (journal_path ex_jenv ''cmd-20'') = Some (Some ?s)"
    using p by (simp_all add: dir_read_def)
  then show ?thesis using identifiers_unique [OF run reads p] run by (metis length_Cons list.size(3) numeral_2_eq_2)
qed


definition ex_receipt :: "bytes \<Rightarrow> receipt" where
  "ex_receipt result = empty_receipt\<lparr>r_SchemaVersion := SchemaVersion, r_ReceiptID := ''r-1'', r_CommandID := ''cmd-1'',
     r_OperationID := ''op-1'', r_AgentRef := ''agent-1'', r_State := ''succeeded'', r_Code := ''SUCCEEDED'',
     r_ExecutionMode := ''production'', r_StartedAt := ex_issued, r_FinishedAt := ex_issued, r_Result := result\<rparr>"

lemma ex_receipt_fields:
  "r_CommandID (ex_receipt b) = ''cmd-1''" "r_ReceiptID (ApplyReceiptCompatibility (ex_receipt b)) = ''r-1''"
  "r_OperationID (ex_receipt b) = ''op-1''" "r_State (ApplyReceiptCompatibility (ex_receipt b)) = ''succeeded''"
  "r_Code (ApplyReceiptCompatibility (ex_receipt b)) = ''SUCCEEDED''"
  "r_Result (ApplyReceiptCompatibility (ex_receipt b)) = b" "r_PVETaskUPID (ApplyReceiptCompatibility (ex_receipt b)) = []"
  "r_AgentUpgradeID (ApplyReceiptCompatibility (ex_receipt b)) = []"
  by (simp_all add: ex_receipt_def ApplyReceiptCompatibility_def Let_def empty_receipt_def)

definition ex_completed :: "string \<Rightarrow> bytes \<Rightarrow> journal_record" where
  "ex_completed action b = completed_record ex_jenv (ApplyReceiptCompatibility (ex_receipt b)) (ex_first_record action)"

lemma ex_first_fields:
  "jr_CommandID (ex_first_record action) = ''cmd-1''" "jr_AuditContext (ex_first_record action) = None"
  "jr_AuditPending (ex_first_record action) = None" "jr_Action (ex_first_record action) = action"
  "jr_Receipt (ex_first_record action) = None" "jr_State (ex_first_record action) = ''received''"
  "jr_SnippetDeletePhase (ex_first_record action) = []" "jr_Mutating (ex_first_record action) = requiresApproval action"
  "jr_Digest (ex_first_record action) = hex_encode (replicate 32 (word_of_nat 5))"
  by (simp_all add: ex_record_def new_record_def Let_def)

lemma ex_complete:
  assumes "action \<in> ex_actions"
  shows "update_record [] ex_path (Complete ex_jenv (ex_first action) (ex_receipt b)) [(ex_path, Some (ex_first_record action))] =
    (None, [(ex_path, Some (ex_completed action b))])"
proof -
  have "Complete ex_jenv (ex_first action) (ex_receipt b) (ex_first_record action) = Inr (Some (ex_completed action b))"
    by (simp add: Complete_def ex_digest ex_first_fields completeLocked_def Let_def fill_operation_def ex_receipt_fields
        with_event_def ex_completed_def completed_record_def)
  then show ?thesis using ex_first_read [OF assms] by (simp add: update_record_def save_def dir_put_def)
qed

lemma completed_record_readable:
  assumes "record_ok r" "jr_MigratedByCommandID r = []" "jr_RetiredByCommandID r = []" "r_PVETaskUPID x = []"
    and "jr_Action r \<noteq> ''vm.cloud-init-snippet.delete''"
  shows "record_ok (completed_record env x r)"
proof -
  let ?r = "completed_record env x r"
  have "validOptionalJournalLineage ?r = validOptionalJournalLineage r" "validSnippetJournalRecord ?r = validSnippetJournalRecord r"
    using assms(5) by (simp_all add: validOptionalJournalLineage_def validSnippetJournalRecord_def completed_record_def)
  moreover have "validJournalMigrationMarkers r \<Longrightarrow> validJournalMigrationMarkers ?r"
    using assms(2,3) by (simp add: validJournalMigrationMarkers_def completed_record_def utc_marker_def)
  ultimately show ?thesis using assms(1,4) unfolding record_ok_def by (simp add: completed_record_def)
qed

lemma ex_completed_read:
  assumes "action \<in> ex_actions" "action \<noteq> ''vm.cloud-init-snippet.delete''"
  shows "readJournal [(ex_path, Some (ex_completed action b))] ex_path = Inr (ex_completed action b)"
proof -
  have "jr_MigratedByCommandID (ex_first_record action) = []" "jr_RetiredByCommandID (ex_first_record action) = []"
    by (simp_all add: ex_record_def new_record_def Let_def)
  then have "record_ok (ex_completed action b)"
    unfolding ex_completed_def
    by (intro completed_record_readable ex_record_ok) (simp_all add: assms ex_receipt_fields ex_first_fields)
  then show ?thesis by (simp add: readJournal_Inr dir_read_def)
qed

lemma ex_completed_fields:
  "jr_Receipt (ex_completed ''vm.start'' b) = Some ((ApplyReceiptCompatibility (ex_receipt b))\<lparr>r_Result := []\<rparr>)"
  "jr_ReceiptPending (ex_completed action b)" "jr_AuditPending (ex_completed action b) = None"
  "jr_Action (ex_completed action b) = action"
  by (simp_all add: ex_completed_def completed_record_def ex_first_fields safe_receipt_def safeReplayResult_def)

lemma ex_mark:
  "update_record [] ex_path (MarkReceiptQueued ''r-1'') [(ex_path, Some (ex_completed ''vm.start'' b))] =
     (None, [(ex_path, Some ((ex_completed ''vm.start'' b)\<lparr>jr_ReceiptPending := False\<rparr>))])"
  using ex_completed_read [of "''vm.start''" b]
  by (simp add: ex_actions_def update_record_def MarkReceiptQueued_def ex_completed_fields ex_receipt_fields save_def dir_put_def)

theorem no_receipt_lost_witness:
  "\<exists>d r x. jrun ex_jenv [JClaim (ex_first ''vm.start'') ex_issued None [] [],
      JUpdate (UComplete (ex_first ''vm.start'') (ex_receipt [])) [], JUpdate (UReceiptQueued ''cmd-1'' ''r-1'') []] [] =
     ([ex_first ''vm.start''], d) \<and>
    dir_read d ex_path = Some (Some r) \<and> jr_Receipt r = Some x \<and> \<not> jr_ReceiptPending r \<and> r_ReceiptID x = ''r-1''"
proof -
  let ?as = "[JClaim (ex_first ''vm.start'') ex_issued None [] [],
      JUpdate (UComplete (ex_first ''vm.start'') (ex_receipt [])) [], JUpdate (UReceiptQueued ''cmd-1'' ''r-1'') []]"
  let ?r = "(ex_completed ''vm.start'' [])\<lparr>jr_ReceiptPending := False\<rparr>"
  have run: "jrun ex_jenv ?as [] = ([ex_first ''vm.start''], [(ex_path, Some ?r)])"
    using ex_first_claim [of "''vm.start''" "[]"] ex_complete [of "''vm.start''" "[]"] ex_mark by (simp add: ex_actions_def)
  have r: "dir_read [(ex_path, Some ?r)] ex_path = Some (Some ?r)" by (simp add: dir_read_def)
  obtain x where x: "jr_Receipt ?r = Some x" by (simp add: ex_completed_fields)
  have "\<exists>a \<in> set ?as. delivered ex_jenv ex_path x a" by (rule no_receipt_lost [OF run r x]) simp
  then have "r_ReceiptID x = ''r-1''" by (auto simp: delivered_def)
  then show ?thesis using run r x by fastforce
qed

theorem audit_before_receipt_witness:
  "\<forall>e. MarkReceiptQueued ''r-1'' ((ex_completed ''vm.start'' [])\<lparr>jr_AuditPending := Some e\<rparr>) = Inl AuditNotQueued"
proof -
  let ?r = "ex_completed ''vm.start'' []"
  let ?x = "(ApplyReceiptCompatibility (ex_receipt []))\<lparr>r_Result := []\<rparr>"
  have step: "jstep ex_jenv (JUpdate (UReceiptQueued ''cmd-1'' ''r-1'') []) [(ex_path, Some ?r)] =
      ([], [(ex_path, Some (?r\<lparr>jr_ReceiptPending := False\<rparr>))])"
    using ex_mark by simp
  have "\<forall>e. MarkReceiptQueued (r_ReceiptID ?x) (?r\<lparr>jr_AuditPending := Some e\<rparr>) = Inl AuditNotQueued"
    using audit_before_receipt [OF step, of ex_path ?r "?r\<lparr>jr_ReceiptPending := False\<rparr>" ?x]
    by (simp add: dir_read_def ex_completed_fields)
  then show ?thesis by (simp add: ex_receipt_fields)
qed

theorem only_typed_results_stored_witness:
  "\<exists>d r x. jrun ex_jenv [JClaim (ex_first ''vm.set-initial-resources'') ex_issued None [] [],
      JUpdate (UComplete (ex_first ''vm.set-initial-resources'') (ex_receipt ''{}'')) []] [] =
     ([ex_first ''vm.set-initial-resources''], d) \<and> dir_read d ex_path = Some (Some r) \<and> jr_Receipt r = Some x \<and>
    r_Result x = ''{}'' \<and> r_State x = ''succeeded''"
proof -
  let ?a = "''vm.set-initial-resources''"
  let ?as = "[JClaim (ex_first ?a) ex_issued None [] [], JUpdate (UComplete (ex_first ?a) (ex_receipt ''{}'')) []]"
  let ?r = "ex_completed ?a ''{}''" and ?x = "ApplyReceiptCompatibility (ex_receipt ''{}'')"
  have run: "jrun ex_jenv ?as [] = ([ex_first ?a], [(ex_path, Some ?r)])"
    using ex_first_claim [of ?a "[]"] ex_complete [of ?a "''{}''"] by (simp add: ex_actions_def)
  have "safe_receipt ex_jenv ?x (ex_first_record ?a)"
    by (simp add: safe_receipt_def ex_receipt_fields safeReplayResult_def ex_first_fields
        validInitialResourcesJournalResult_def ex_jenv_def) (simp add: ex_record_def new_record_def)
  then have x: "jr_Receipt ?r = Some ?x" by (simp add: ex_completed_def completed_record_def)
  have r: "dir_read [(ex_path, Some ?r)] ex_path = Some (Some ?r)" by (simp add: dir_read_def)
  have "r_State ?x = ''succeeded''"
    using only_typed_results_stored [OF run _ r x] by (auto simp: ex_receipt_fields ex_completed_fields)
  then show ?thesis using run r x ex_receipt_fields(6) by blast
qed

theorem recovery_settles_interrupted_witness:
  "\<exists>xs d' r' x. recoverIncomplete ex_jenv ex_issued ''production'' (\<lambda>_. False) [] [Some ''r-1'']
      [(ex_path, Some (ex_first_record ''vm.start''))] = (Inr xs, d') \<and>
    dir_read d' ex_path = Some (Some r') \<and> jr_ReceiptPending r' \<and> jr_Receipt r' = Some x \<and> r_State x = ''indeterminate''"
proof -
  let ?r = "ex_first_record ''vm.start''" and ?d = "[(ex_path, Some (ex_first_record ''vm.start''))]"
  have i: "interrupted (\<lambda>_. False) ?r"
    using ex_action_facts(1) [of "''vm.start''"] by (simp add: interrupted_def ex_first_fields ex_actions_def)
  obtain xs d' where run: "recoverIncomplete ex_jenv ex_issued ''production'' (\<lambda>_. False) [] [Some ''r-1''] ?d = (Inr xs, d')"
    using ex_first_read [of "''vm.start''"] i
    by (simp add: recoverIncomplete_def ex_json_files ex_actions_def recover_record_def with_event_def ex_first_fields
        Let_def save_def)
  have "dir_read ?d ex_path = Some (Some ?r)" by (simp add: dir_read_def)
  from recovery_settles_interrupted [OF run this] i show ?thesis
    using run by (auto simp: ex_first_fields requiresApproval_def)
qed

theorem snippet_phase_monotone_witness:
  "\<exists>d r'. jrun ex_jenv [JUpdate (USnippetBegin (ex_first ''vm.cloud-init-snippet.delete'') ''local'' (replicate 64 CHR ''a'') ex_issued) []]
      [(ex_path, Some (ex_first_record ''vm.cloud-init-snippet.delete''))] = ([], d) \<and>
    dir_read d ex_path = Some (Some r') \<and> jr_SnippetDeletePhase r' = ''validated'' \<and>
    same_identity (ex_first_record ''vm.cloud-init-snippet.delete'') r'"
proof -
  let ?a = "''vm.cloud-init-snippet.delete''"
  let ?r = "ex_first_record ?a" and ?d = "[(ex_path, Some (ex_first_record ?a))]" and ?h = "replicate 64 CHR ''a''"
  let ?r' = "?r\<lparr>jr_SnippetDeletePhase := ''validated'', jr_SnippetStorageID := ''local'',
          jr_SnippetVolumeSHA256 := ?h, jr_UpdatedAt := to_utc ex_issued\<rparr>"
  have "snippet_authority ex_jenv (ex_first ?a) ?r"
    by (simp add: snippet_authority_def ex_digest ex_first_fields) (simp add: ex_record_def new_record_def)
  then have "BeginCloudInitSnippetDelete ex_jenv (ex_first ?a) ''local'' ?h ex_issued ?r = Inr (Some ?r')"
    unfolding BeginCloudInitSnippetDelete_def by (simp only: ex_names ex_first_fields) simp
  then have run: "jrun ex_jenv [JUpdate (USnippetBegin (ex_first ?a) ''local'' ?h ex_issued) []] ?d = ([], [(ex_path, Some ?r')])"
    using ex_first_read [of ?a] by (simp add: ex_actions_def update_record_def save_def dir_put_def)
  have "dir_read ?d ex_path = Some (Some ?r)" by (simp add: dir_read_def)
  from snippet_phase_monotone [OF run this] have "same_identity ?r ?r'" by (simp add: dir_read_def)
  then show ?thesis using run by (fastforce simp: dir_read_def)
qed

end
