(* ===== verification/Migration_Safety.thy ===== *)
theory Migration_Safety
  imports Journal_Guarantees
begin

section \<open>What a journal migration guarantees\<close>

text \<open>
  A migration writes several files, any of which may fail.  Whatever prefix of the writes
  happened, only listed, eligible records carry new markers, the resource stays locked until the
  migration command itself has succeeded, a repetition finishes the work, and a finished
  migration releases exactly the records it lists.
\<close>

subsection \<open>Frame\<close>

definition kept :: "journal_record \<Rightarrow> journal_record \<Rightarrow> bool" where
  "kept r r' \<longleftrightarrow>
     jr_Version r' = jr_Version r \<and> jr_CommandID r' = jr_CommandID r \<and> jr_OperationID r' = jr_OperationID r \<and>
     jr_AgentRef r' = jr_AgentRef r \<and>
     jr_Scope r' = jr_Scope r \<and> jr_Mutating r' = jr_Mutating r \<and> jr_Digest r' = jr_Digest r \<and>
     jr_ResourceKey r' = jr_ResourceKey r \<and> jr_State r' = jr_State r \<and> jr_Receipt r' = jr_Receipt r \<and>
     jr_ReceiptPending r' = jr_ReceiptPending r \<and> jr_AuditContext r' = jr_AuditContext r \<and>
     jr_AuditPending r' = jr_AuditPending r \<and> jr_PVETaskUPID r' = jr_PVETaskUPID r \<and>
     jr_AgentUpgradeID r' = jr_AgentUpgradeID r \<and> jr_CreatedAt r' = jr_CreatedAt r \<and> jr_UpdatedAt r' = jr_UpdatedAt r"

lemma kept_refl [simp]: "kept r r"
  by (simp add: kept_def)

lemma kept_backfill: "kept r (backfillLegacyAuthority c r)"
  by (simp add: kept_def backfillLegacyAuthority_def split: option.split)

lemma kept_retired: "kept r (retired_record c now r)"
  using kept_backfill [of r c] by (simp add: retired_record_def kept_def)

lemma kept_migrated: "kept r (migrated_clone c p now r)"
  using kept_backfill [of r c] by (simp add: migrated_clone_def kept_def)

lemma backfill_markers [simp]:
  "jr_RetiredByCommandID (backfillLegacyAuthority c r) = jr_RetiredByCommandID r"
  "jr_RetiredAt (backfillLegacyAuthority c r) = jr_RetiredAt r"
  "jr_MigratedByCommandID (backfillLegacyAuthority c r) = jr_MigratedByCommandID r"
  "jr_MigratedAt (backfillLegacyAuthority c r) = jr_MigratedAt r"
  by (simp_all add: backfillLegacyAuthority_def split: option.split)

lemma read_retirements_paths:
  "read_retirements env d c revision key ids = Inr rs \<Longrightarrow> map fst rs = map (journal_path env) ids"
  by (induction ids arbitrary: rs) (auto split: sum.splits if_splits)

lemma read_retirements_eligible:
  assumes "read_retirements env d c revision key ids = Inr rs" "(q, r) \<in> set rs"
  shows "\<exists>i \<in> set ids. q = journal_path env i \<and> readJournal d q = Inr r \<and> legacyIndeterminateEligible r c revision key i"
  using assms by (induction ids arbitrary: rs) (auto split: sum.splits if_splits)

lemma read_retirements_listed:
  assumes "read_retirements env d c revision key ids = Inr rs" "i \<in> set ids"
  shows "\<exists>r. (journal_path env i, r) \<in> set rs \<and> readJournal d (journal_path env i) = Inr r \<and>
    legacyIndeterminateEligible r c revision key i"
  using assms by (induction ids arbitrary: rs) (auto split: sum.splits if_splits)

lemma eligible_id: "legacyIndeterminateEligible r c revision key i \<Longrightarrow> jr_CommandID r = i"
  by (auto simp: legacyIndeterminateEligible_def split: option.splits if_splits)

lemma write_retirements_frame:
  "write_retirements c now rs ios d = (ok, d') \<Longrightarrow>
   dir_read d' q = dir_read d q \<or> (\<exists>r. (q, r) \<in> set rs \<and> dir_read d' q = Some (Some (retired_record c now r)))"
proof (induction rs arbitrary: ios d)
  case (Cons x rs)
  obtain p r where x: "x = (p, r)" by (cases x)
  obtain okw d1 ios1 where s: "save ios p (retired_record c now r) d = (okw, d1, ios1)" by (metis prod_cases3)
  have step: "dir_read d1 q = dir_read d q \<or> q = p \<and> dir_read d1 q = Some (Some (retired_record c now r))"
    using s by (rule save_cases) auto
  show ?case
  proof (cases okw)
    case True
    then have "write_retirements c now rs ios1 d1 = (ok, d')" using Cons.prems x s by simp
    from Cons.IH [OF this] show ?thesis using step x by auto
  next
    case False
    then show ?thesis using Cons.prems x s step by auto
  qed
qed simp

lemma write_retirements_done:
  assumes "write_retirements c now rs ios d = (True, d')" "distinct (map fst rs)" "(q, r) \<in> set rs"
  shows "dir_read d' q = Some (Some (retired_record c now r))"
  using assms
proof (induction rs arbitrary: ios d)
  case (Cons x rs)
  obtain p s where x: "x = (p, s)" by (cases x)
  obtain okw d1 ios1 where sv: "save ios p (retired_record c now s) d = (okw, d1, ios1)" by (metis prod_cases3)
  have okw: "okw" and rest: "write_retirements c now rs ios1 d1 = (True, d')"
    using Cons.prems(1) x sv by (auto split: if_splits)
  have d1: "d1 = dir_put p (Some (retired_record c now s)) d" using sv okw save_ok by simp
  show ?case
  proof (cases "(q, r) \<in> set rs")
    case True
    then show ?thesis using Cons.IH [OF rest] Cons.prems(2) x by simp
  next
    case False
    then have qr: "q = p" "r = s" using Cons.prems(3) x by auto
    have "(p, r') \<notin> set rs" for r' using Cons.prems(2) x by (metis distinct.simps(2) fst_conv image_eqI list.set_map list.simps(9))
    then show ?thesis using write_retirements_frame [OF rest, of q] qr d1 by auto
  qed
qed simp

lemma save_all_ok:
  assumes "set ios \<subseteq> {IoOk}"
  obtains ios' where "save ios p r d = (True, dir_put p (Some r) d, ios')" "set ios' \<subseteq> {IoOk}"
proof -
  obtain oc ios' where io: "take_io ios = (oc, ios')" by fastforce
  have "oc = IoOk" using fst_take_io_ok [OF assms] io by simp
  moreover have "set ios' \<subseteq> {IoOk}" using set_snd_take_io [of ios] assms io by auto
  ultimately show ?thesis using that io by (simp add: save_def)
qed

lemma write_retirements_all_ok:
  "set ios \<subseteq> {IoOk} \<Longrightarrow> fst (write_retirements c now rs ios d)"
proof (induction rs arbitrary: ios d)
  case (Cons x rs)
  obtain q r where x: "x = (q, r)" by (cases x)
  obtain ios' where "save ios q (retired_record c now r) d = (True, dir_put q (Some (retired_record c now r)) d, ios')"
    "set ios' \<subseteq> {IoOk}" using save_all_ok [OF Cons.prems] .
  then show ?case using Cons.IH x by simp
qed simp

lemma readJournal_error: "readJournal d q = Inl e \<Longrightarrow> e \<noteq> JournalIO"
  by (auto simp: readJournal_def split: option.splits if_splits)

lemma read_retirements_error: "read_retirements env d c revision key ids = Inl e \<Longrightarrow> e \<noteq> JournalIO"
  by (induction ids) (auto split: sum.splits if_splits)

lemma clone_error: "legacyCloneEligibilityError r c p key = Some e \<Longrightarrow> e \<noteq> JournalIO"
  by (auto simp: legacyCloneEligibilityError_def Let_def split: if_splits)

text \<open>A migration that gets past its checks, and what it found there.\<close>

lemma migrate_cases:
  assumes "MigrateLegacyVMJournal env c p now ios d = (res, d')"
  obtains (refused) "d' = d" "\<exists>e. res = Inl e \<and> e \<noteq> JournalIO"
    | (written) key clone rs d1 ios1 ok where "journalResourceKey c = Some key" "validLegacyJournalMigration c p"
        "validInitialLineageCommand c" "c_Scope c = ScopeVM" "c_ApprovalRef c \<noteq> []"
        "readJournal d (journal_path env (lp_LegacyCloneCommandID p)) = Inr clone"
        "legacyCloneEligibilityError clone c p key = None"
        "read_retirements env d c (lp_LegacyAssignmentRevision p) key (retire_ids p) = Inr rs"
        "(ok, d1, ios1) = (if jr_MigratedByCommandID clone = []
           then save ios (journal_path env (lp_LegacyCloneCommandID p)) (migrated_clone c p now clone) d else (True, d, ios))"
        "if ok then (\<exists>done. write_retirements c now rs ios1 d1 = (done, d') \<and>
             res = (if done then Inr (legacy_migration_result p) else Inl JournalIO))
         else d' = d1 \<and> res = Inl JournalIO"
proof (cases "\<not> validLegacyJournalMigration c p \<or> c_Scope c \<noteq> ScopeVM \<or> c_ApprovalRef c = [] \<or> \<not> validInitialLineageCommand c")
  case True
  then show ?thesis using assms refused by (auto simp: MigrateLegacyVMJournal_def)
next
  case valid: False
  let ?cp = "journal_path env (lp_LegacyCloneCommandID p)"
  show ?thesis
  proof (cases "\<exists>key clone rs. journalResourceKey c = Some key \<and> readJournal d ?cp = Inr clone \<and>
      legacyCloneEligibilityError clone c p key = None \<and>
      read_retirements env d c (lp_LegacyAssignmentRevision p) key (retire_ids p) = Inr rs")
    case False
    then have "d' = d \<and> (\<exists>e. res = Inl e \<and> e \<noteq> JournalIO)"
      using assms valid
      by (auto simp: MigrateLegacyVMJournal_def Let_def dest: readJournal_error read_retirements_error clone_error
          split: option.split_asm sum.split_asm jerror.split_asm)
    then show ?thesis using refused by blast
  next
    case True
    then obtain key clone rs where k: "journalResourceKey c = Some key" "readJournal d ?cp = Inr clone"
      "legacyCloneEligibilityError clone c p key = None"
      "read_retirements env d c (lp_LegacyAssignmentRevision p) key (retire_ids p) = Inr rs" by blast
    obtain ok d1 ios1 where s: "(ok, d1, ios1) = (if jr_MigratedByCommandID clone = []
       then save ios ?cp (migrated_clone c p now clone) d else (True, d, ios))" by (metis prod_cases3)
    have "MigrateLegacyVMJournal env c p now ios d =
       (if \<not> ok then (Inl JournalIO, d1)
        else (let (done, d2) = write_retirements c now rs ios1 d1
              in (if done then Inr (legacy_migration_result p) else Inl JournalIO, d2)))"
      using valid k s [symmetric] by (simp add: MigrateLegacyVMJournal_def Let_def)
    then have "if ok then (\<exists>done. write_retirements c now rs ios1 d1 = (done, d') \<and>
             res = (if done then Inr (legacy_migration_result p) else Inl JournalIO))
         else d' = d1 \<and> res = Inl JournalIO"
      using assms by (auto split: prod.splits if_splits)
    then show ?thesis using written [OF k(1) _ _ _ _ k(2-4) s] valid by blast
  qed
qed

lemma migrate_frame:
  assumes "MigrateLegacyVMJournal env c p now ios d = (res, d')"
  shows "dir_read d' q = dir_read d q \<or>
    (\<exists>r. dir_read d q = Some (Some r) \<and> record_ok r \<and>
      (q = journal_path env (lp_LegacyCloneCommandID p) \<and> jr_MigratedByCommandID r = [] \<and> recordSucceeded r \<and>
         jr_CommandID r = lp_LegacyCloneCommandID p \<and> dir_read d' q = Some (Some (migrated_clone c p now r)) \<or>
       (\<exists>i \<in> set (retire_ids p). \<exists>key. q = journal_path env i \<and> journalResourceKey c = Some key \<and>
         legacyIndeterminateEligible r c (lp_LegacyAssignmentRevision p) key i \<and>
         dir_read d' q = Some (Some (retired_record c now r)))))"
  using assms
proof (cases rule: migrate_cases)
  case (written key clone rs d1 ios1 ok)
  let ?cp = "journal_path env (lp_LegacyCloneCommandID p)"
  have clone: "dir_read d ?cp = Some (Some clone)" "record_ok clone" using written(6) by (simp_all add: readJournal_Inr)
  have el: "recordSucceeded clone" "jr_CommandID clone = lp_LegacyCloneCommandID p"
    using written(7) by (auto simp: legacyCloneEligibilityError_def split: if_splits)
  have first: "dir_read d1 q = dir_read d q \<or> q = ?cp \<and> jr_MigratedByCommandID clone = [] \<and>
      dir_read d1 q = Some (Some (migrated_clone c p now clone))"
  proof (cases "jr_MigratedByCommandID clone = []")
    case True
    then have "save ios ?cp (migrated_clone c p now clone) d = (ok, d1, ios1)" using written(9) by simp
    then show ?thesis by (rule save_cases) (use True in auto)
  qed (use written(9) in simp)
  show ?thesis
  proof (cases "dir_read d' q = dir_read d1 q")
    case True
    then show ?thesis using first clone el by auto
  next
    case False
    then obtain dn where "write_retirements c now rs ios1 d1 = (dn, d')" using written(10) by (auto split: if_splits)
    from write_retirements_frame [OF this, of q] False obtain r
      where r: "(q, r) \<in> set rs" "dir_read d' q = Some (Some (retired_record c now r))" by blast
    from read_retirements_eligible [OF written(8) r(1)] show ?thesis
      using r(2) written(1) by (auto simp: readJournal_Inr)
  qed
qed simp

lemma migration_frame_kept:
  assumes "MigrateLegacyVMJournal env c p now ios d = (res, d')" "dir_read d q = Some (Some r)"
  shows "\<exists>r'. dir_read d' q = Some (Some r') \<and> kept r r'"
  using migrate_frame [OF assms(1), of q] assms(2) kept_retired kept_migrated kept_refl by (metis option.inject)

text \<open>
  A migration touches only what its signed parameters name.  Whatever writes fail, every
  record keeps its command, operation, digest, resource, state, receipt and audit context; a
  record that changes at all is the named clone, succeeded and not migrated before, or a listed
  record that is an indeterminate mutation of this very resource without a task.
\<close>

theorem migration_touches_only_listed:
  assumes "MigrateLegacyVMJournal env c p now ios d = (res, d')" "dir_read d q = Some (Some r)"
  shows "\<exists>r'. dir_read d' q = Some (Some r') \<and> kept r r' \<and>
    (r' \<noteq> r \<longrightarrow> q = journal_path env (lp_LegacyCloneCommandID p) \<and> recordSucceeded r \<and> jr_MigratedByCommandID r = [] \<or>
      (\<exists>i \<in> set (retire_ids p). jr_CommandID r = i \<and> q = journal_path env i \<and> jr_State r = ''indeterminate'' \<and>
        jr_PVETaskUPID r = [] \<and> jr_Mutating r \<and> journalResourceKey c = Some (jr_ResourceKey r)))"
proof -
  have el: "jr_CommandID s = i \<and> jr_State s = ''indeterminate'' \<and> jr_PVETaskUPID s = [] \<and> jr_Mutating s \<and> jr_ResourceKey s = key"
    if "legacyIndeterminateEligible s c revision key i" for s revision key i
    using that by (auto simp: legacyIndeterminateEligible_def split: option.splits if_splits)
  from migrate_frame [OF assms(1), of q] show ?thesis
  proof (elim disjE exE conjE bexE)
    fix s assume "dir_read d q = Some (Some s)" "q = journal_path env (lp_LegacyCloneCommandID p)" "jr_MigratedByCommandID s = []"
      "recordSucceeded s" "dir_read d' q = Some (Some (migrated_clone c p now s))"
    then show ?thesis using assms(2) kept_migrated by auto
  next
    fix s i key assume "dir_read d q = Some (Some s)" "i \<in> set (retire_ids p)" "q = journal_path env i"
      "journalResourceKey c = Some key" "legacyIndeterminateEligible s c (lp_LegacyAssignmentRevision p) key i"
      "dir_read d' q = Some (Some (retired_record c now s))"
    then show ?thesis using assms(2) kept_retired el by fastforce
  qed (use assms(2) in auto)
qed

subsection \<open>The lock during a migration\<close>

text \<open>
  C25: A migration that stops halfway does not open the resource.  Markers alone retire nothing:
  as long as the record of the migration command has not succeeded, a record that locked the
  resource before the migration still locks it, so no new command can claim the resource.
\<close>

theorem partial_migration_keeps_lock:
  assumes "MigrateLegacyVMJournal env c p now ios d = (res, d')"
    and "\<And>m. dir_read d' (journal_path env (c_CommandID c)) = Some (Some m) \<Longrightarrow> \<not> recordSucceeded m"
    and "dir_read d q = Some (Some r)" "has_suffix ''.json'' q" "jr_Mutating r" "jr_State r \<in> busy_states"
    and "jr_RetiredByCommandID r = [] \<or> jr_RetiredByCommandID r = c_CommandID c"
  shows "resourceBusyLocked env d' (jr_ResourceKey r) \<noteq> Inr False"
proof
  assume "resourceBusyLocked env d' (jr_ResourceKey r) = Inr False"
  obtain r' where r': "dir_read d' q = Some (Some r')" "kept r r'"
    using migration_frame_kept [OF assms(1,3)] by blast
  have marks: "jr_RetiredByCommandID r' = [] \<or> jr_RetiredByCommandID r' = c_CommandID c"
    using migrate_frame [OF assms(1), of q] r'(1) assms(3,7)
    by (auto simp: migrated_clone_def retired_record_def)
  have "retirementCommittedLocked env d' r' = Inr False \<or> (\<exists>e. retirementCommittedLocked env d' r' = Inl e)"
    using marks assms(2)
    by (auto simp: retirementCommittedLocked_def recordHasCompleteRetirementMarkers_def readJournal_Inr
        split: sum.split jerror.split)
  then show False
    using free_resource [OF \<open>resourceBusyLocked _ _ _ = _\<close> r'(1) assms(4)] r'(2) assms(5,6) by (auto simp: kept_def)
qed

subsection \<open>Resuming a migration\<close>

lemma known_action_pattern: "validActionScope a scope \<Longrightarrow> actionRE a"
  using registry_names actionRef_actionRE
  by (fastforce simp: validActionScope_def action_spec_def list_all_iff dest!: map_of_SomeD split: option.splits)

lemma eligible_facts:
  assumes "legacyIndeterminateEligible r c revision key i"
  shows "\<exists>a x. legacyRecordAction r = Some a \<and> jr_Receipt r = Some x \<and> jr_CommandID r = i \<and> jr_ResourceKey r = key \<and>
    jr_Mutating r \<and> a \<noteq> ''vm.migrate-legacy-journal'' \<and> jr_State r = ''indeterminate'' \<and> jr_PVETaskUPID r = [] \<and>
    jr_AgentUpgradeID r = [] \<and> r_State x = ''indeterminate'' \<and> legacyIndeterminateReceiptCode (r_Code x) a \<and>
    r_CommandID x = i \<and> r_OperationID x = jr_OperationID r \<and> r_AgentRef x = jr_AgentRef r \<and> r_PVETaskUPID x = [] \<and> r_AgentUpgradeID x = [] \<and> jr_AgentRef r = c_AgentRef c \<and>
    jr_NodeRef r = id_NodeRef (c_Identity c) \<and>
    (jr_RetiredByCommandID r = [] \<longrightarrow> jr_Scope r = ScopeVM) \<and>
    (jr_RetiredByCommandID r \<noteq> [] \<longrightarrow> recordAuthorityEquals r c)"
  using assms
  by (auto simp: legacyIndeterminateEligible_def legacyRecordAuthorityMatches_def recordAuthorityEquals_def Let_def
      split: option.splits if_splits)

lemma legacyRecordAction_cong:
  "jr_AuditContext r = jr_AuditContext s \<Longrightarrow> jr_Action r = jr_Action s \<Longrightarrow> legacyRecordAction r = legacyRecordAction s"
  by (cases "jr_AuditContext s") (simp_all add: legacyRecordAction_def)

lemma authority_cong:
  "legacyRecordAction (retired_record c now r) = legacyRecordAction (backfillLegacyAuthority c r)"
  "legacyRecordAction (migrated_clone c p now r) = legacyRecordAction (backfillLegacyAuthority c r)"
  by (rule legacyRecordAction_cong; simp add: retired_record_def migrated_clone_def)+

lemma backfill_fields:
  assumes "legacyRecordAction r = Some a"
  shows "jr_Action (backfillLegacyAuthority c r) = a" "legacyRecordAction (backfillLegacyAuthority c r) = Some a"
    "jr_AgentRef r = c_AgentRef c \<Longrightarrow> recordAuthorityEquals (backfillLegacyAuthority c r) c"
    "jr_GuestType (backfillLegacyAuthority c r) = id_GuestType (c_Identity c)"
    "jr_NodeRef (backfillLegacyAuthority c r) = id_NodeRef (c_Identity c)"
    "jr_SnippetDeletePhase (backfillLegacyAuthority c r) = jr_SnippetDeletePhase r"
    "jr_SnippetStorageID (backfillLegacyAuthority c r) = jr_SnippetStorageID r"
    "jr_SnippetVolumeSHA256 (backfillLegacyAuthority c r) = jr_SnippetVolumeSHA256 r"
    "jr_SourceConfigSHA256 (backfillLegacyAuthority c r) = jr_SourceConfigSHA256 r"
    "jr_SourceTemplateRef (backfillLegacyAuthority c r) = jr_SourceTemplateRef r"
    "jr_SourceVMID (backfillLegacyAuthority c r) = jr_SourceVMID r"
  using assms by (auto simp: legacyRecordAction_def backfillLegacyAuthority_def recordAuthorityEquals_def Let_def
      split: option.splits if_splits)

lemma authority_lineage:
  assumes "recordAuthorityEquals r c" "validInitialLineageCommand c" "jr_Scope r = ScopeVM"
  shows "validOptionalJournalLineage r" "validJournalScope (jr_Scope r) (jr_NodeRef r)"
proof -
  have "jr_BindingID r \<noteq> []" using assms(1,2) by (auto simp: recordAuthorityEquals_def validInitialLineageCommand_def Let_def uuidRE_def)
  then show "validOptionalJournalLineage r"
    using assms by (simp add: recordAuthorityEquals_def validInitialLineageCommand_def validOptionalJournalLineage_def Let_def)
  show "validJournalScope (jr_Scope r) (jr_NodeRef r)"
    using assms by (simp add: recordAuthorityEquals_def validInitialLineageCommand_def validJournalScope_def Let_def)
qed

text \<open>The markers of a readable record fit its state.\<close>

lemma record_ok_unmigrated: "record_ok r \<Longrightarrow> jr_State r \<noteq> ''succeeded'' \<Longrightarrow> jr_MigratedByCommandID r = [] \<and> jr_MigratedAt r = None"
  by (auto simp: record_ok_def validJournalMigrationMarkers_def recordSucceeded_def)

lemma record_ok_unretired: "record_ok r \<Longrightarrow> jr_State r \<noteq> ''indeterminate'' \<Longrightarrow> jr_RetiredByCommandID r = [] \<and> jr_RetiredAt r = None"
  by (auto simp: record_ok_def validJournalMigrationMarkers_def legacyRetirementShape_def knownDelete501RetirementShape_def)

lemma record_ok_kept:
  assumes "record_ok r" "kept r r'" "actionRE (jr_Action r')" "validOptionalJournalLineage r'" "validJournalMigrationMarkers r'"
    and "validSnippetJournalRecord r'" "validJournalScope (jr_Scope r') (jr_NodeRef r')"
    and "jr_SourceConfigSHA256 r' = [] \<or> bodyHashRE (jr_SourceConfigSHA256 r')"
    and "jr_SourceTemplateRef r' = [] \<or> nameRE (jr_SourceTemplateRef r')" "0 \<le> jr_SourceVMID r'"
  shows "record_ok r'"
  using assms by (simp add: record_ok_def kept_def)

lemma retired_snippet:
  assumes "record_ok r" "legacyRecordAction r = Some a" "id_GuestType (c_Identity c) = ''qemu''"
  shows "validSnippetJournalRecord (retired_record c now r)"
proof -
  have act: "jr_Action r \<noteq> [] \<Longrightarrow> a = jr_Action r"
    using assms(2) by (auto simp: legacyRecordAction_def split: option.splits if_splits)
  have "validSnippetJournalRecord r" using assms(1) by (simp add: record_ok_def)
  then show ?thesis
    using act assms(3) backfill_fields [OF assms(2), of c]
    by (auto simp: validSnippetJournalRecord_def retired_record_def)
qed

lemma retired_lineage:
  assumes "record_ok r" "legacyIndeterminateEligible r c revision key i" "validInitialLineageCommand c"
  shows "validOptionalJournalLineage (retired_record c now r)"
    "validJournalScope (jr_Scope (retired_record c now r)) (jr_NodeRef (retired_record c now r))"
proof -
  from assms(2) obtain a where a: "legacyRecordAction r = Some a" "jr_AgentRef r = c_AgentRef c"
      "jr_NodeRef r = id_NodeRef (c_Identity c)" "jr_RetiredByCommandID r = [] \<Longrightarrow> jr_Scope r = ScopeVM"
      "jr_RetiredByCommandID r \<noteq> [] \<Longrightarrow> recordAuthorityEquals r c"
    using eligible_facts by blast
  let ?r = "retired_record c now r"
  have eq: "recordAuthorityEquals ?r c" using backfill_fields(3) [OF a(1,2)] by (simp add: retired_record_def recordAuthorityEquals_def)
  have scope: "jr_Scope ?r = jr_Scope r" using kept_retired [of r c now] by (simp add: kept_def)
  show "validJournalScope (jr_Scope ?r) (jr_NodeRef ?r)"
    using assms(1) scope a(3) backfill_fields(5) [OF a(1), of c] by (simp add: record_ok_def retired_record_def)
  show "validOptionalJournalLineage ?r"
  proof (cases "jr_RetiredByCommandID r = []")
    case True
    then show ?thesis using authority_lineage(1) [OF eq assms(3)] scope a(4) by simp
  next
    case False
    then have "validOptionalJournalLineage ?r = validOptionalJournalLineage r"
      using a(5) eq scope unfolding validOptionalJournalLineage_def recordAuthorityEquals_def Let_def by simp
    then show ?thesis using assms(1) by (simp add: record_ok_def)
  qed
qed

lemma retired_again:
  assumes "record_ok r" "legacyIndeterminateEligible r c revision key i" "validLegacyJournalMigration c p"
    and "validInitialLineageCommand c" "i \<noteq> c_CommandID c" "commandIDRE (c_CommandID c)" "\<not> is_zero_time now"
  shows "record_ok (retired_record c now r) \<and> legacyIndeterminateEligible (retired_record c now r) c revision key i"
proof -
  let ?r = "retired_record c now r"
  from assms(2) obtain a x where a: "legacyRecordAction r = Some a" "jr_Receipt r = Some x" "jr_CommandID r = i"
    "jr_ResourceKey r = key" "jr_Mutating r" "a \<noteq> ''vm.migrate-legacy-journal''" "jr_State r = ''indeterminate''"
    "jr_PVETaskUPID r = []" "jr_AgentUpgradeID r = []" "r_State x = ''indeterminate''"
    "legacyIndeterminateReceiptCode (r_Code x) a" "r_PVETaskUPID x = []" "r_AgentUpgradeID x = []" "jr_AgentRef r = c_AgentRef c"
    "r_CommandID x = i" "r_OperationID x = jr_OperationID r" "r_AgentRef x = jr_AgentRef r"
    using eligible_facts by blast
  have k: "kept r ?r" by (rule kept_retired)
  have act: "jr_Action ?r = a" "legacyRecordAction ?r = Some a"
    using backfill_fields(1,2) [OF a(1), of c] by (simp_all add: authority_cong) (simp add: retired_record_def)
  have pat: "actionRE a" using a(1) known_action_pattern by (auto simp: legacyRecordAction_def split: option.splits if_splits)
  have qemu: "id_GuestType (c_Identity c) = ''qemu''" using assms(3) by (simp add: validLegacyJournalMigration_def)
  have "i \<noteq> []" using assms(1) a(3) commandIDRE_nonempty by (auto simp: record_ok_def)
  have "legacyRetirementShape ?r"
    using k act(1) a by (simp add: legacyRetirementShape_def kept_def)
  then have marks: "validJournalMigrationMarkers ?r"
    using record_ok_unmigrated [OF assms(1)] a(3,7) assms(5-7) commandIDRE_nonempty [OF assms(6)] k \<open>i \<noteq> []\<close>
    by (simp add: validJournalMigrationMarkers_def utc_marker_def retired_record_def kept_def is_zero_time_def)
  have ok: "record_ok ?r"
    by (rule record_ok_kept [OF assms(1) k])
       (use pat act marks retired_snippet [OF assms(1) a(1) qemu] retired_lineage [OF assms(1,2,4)] assms(1)
          backfill_fields [OF a(1), of c] in \<open>auto simp: record_ok_def retired_record_def\<close>)
  have "recordAuthorityEquals ?r c"
    using backfill_fields(3) [OF a(1,14)] by (simp add: retired_record_def recordAuthorityEquals_def)
  moreover have "jr_RetiredByCommandID ?r = c_CommandID c" by (simp add: retired_record_def)
  ultimately have "legacyIndeterminateEligible ?r c revision key i"
    using act(2) a k commandIDRE_nonempty [OF assms(6)] by (simp add: legacyIndeterminateEligible_def kept_def)
  then show ?thesis using ok by blast
qed

lemma clone_facts:
  assumes "legacyCloneEligibilityError r c p key = None" "jr_MigratedByCommandID r = []"
  shows "jr_CommandID r = lp_LegacyCloneCommandID p" "jr_OperationID r = lp_LegacyCloneOperationID p" "jr_ResourceKey r = key"
    "legacyRecordAction r = Some ''vm.clone''" "jr_Digest r = lp_LegacyCloneDigest p" "recordSucceeded r"
    "receipt_agent r = Some (jr_AgentRef r)" "legacyRecordAuthorityMatches r c (lp_LegacyAssignmentRevision p)"
  using assms by (auto simp: legacyCloneEligibilityError_def migratedCloneAncestorIdentityMatches_def Let_def split: if_splits)

lemma authority_scope:
  "legacyRecordAuthorityMatches r c revision \<Longrightarrow> jr_Scope r = ScopeVM \<and> jr_AgentRef r = c_AgentRef c"
  by (auto simp: legacyRecordAuthorityMatches_def Let_def split: option.splits)

lemma clone_action: "actionRE ''vm.clone''"
  by code_simp

lemma migrated_again:
  assumes "record_ok r" "legacyCloneEligibilityError r c p key = None" "jr_MigratedByCommandID r = []"
    and "validLegacyJournalMigration c p" "validInitialLineageCommand c" "commandIDRE (c_CommandID c)" "\<not> is_zero_time now"
  shows "record_ok (migrated_clone c p now r) \<and> legacyCloneEligibilityError (migrated_clone c p now r) c p key = None"
proof -
  let ?r = "migrated_clone c p now r"
  note cf = clone_facts [OF assms(2,3)]
  have par: "nameRE (lp_TemplateRef p)" "lp_TemplateRef p \<noteq> []" "100 \<le> lp_SourceVMID p" "bodyHashRE (lp_SourceConfigSHA256 p)"
    "lp_LegacyCloneCommandID p \<noteq> c_CommandID c"
    using assms(4) by (auto simp: validLegacyJournalMigration_def nameRE_def)
  have k: "kept r ?r" by (rule kept_migrated)
  have act: "jr_Action ?r = ''vm.clone''" "legacyRecordAction ?r = Some ''vm.clone''"
    using backfill_fields(1,2) [OF cf(4), of c] by (simp_all add: authority_cong) (simp add: migrated_clone_def)
  have sc: "jr_Scope ?r = ScopeVM" "jr_AgentRef r = c_AgentRef c" using authority_scope [OF cf(8)] k by (simp_all add: kept_def)
  have eq: "recordAuthorityEquals ?r c"
    using backfill_fields(3) [OF cf(4) sc(2)] by (simp add: migrated_clone_def recordAuthorityEquals_def)
  have succ: "recordSucceeded ?r" using cf(6) k by (auto simp: recordSucceeded_def kept_def split: option.splits)
  have "jr_State r = ''succeeded''" using cf(6) by (simp add: recordSucceeded_def)
  then have unretired: "jr_RetiredByCommandID ?r = []" "jr_RetiredAt ?r = None"
    using record_ok_unretired [OF assms(1)] by (simp_all add: migrated_clone_def)
  have "jr_CommandID ?r \<noteq> []" using assms(1) k commandIDRE_nonempty by (auto simp: record_ok_def kept_def)
  moreover have fields: "jr_MigratedByCommandID ?r = c_CommandID c" "jr_MigratedAt ?r = Some (to_utc now)"
    "jr_SourceTemplateRef ?r = lp_TemplateRef p" "jr_SourceVMID ?r = lp_SourceVMID p"
    "jr_SourceConfigSHA256 ?r = lp_SourceConfigSHA256 p" "jr_CommandID ?r = lp_LegacyCloneCommandID p"
    using k cf(1) by (simp_all add: migrated_clone_def kept_def)
  ultimately have marks: "validJournalMigrationMarkers ?r"
    using unretired succ act(1) par assms(6,7) commandIDRE_nonempty [OF assms(6)]
    by (simp add: validJournalMigrationMarkers_def utc_marker_def is_zero_time_def)
  have old: "jr_Action r = [] \<or> jr_Action r = ''vm.clone''"
    using cf(4) by (auto simp: legacyRecordAction_def split: option.splits if_splits)
  have "validSnippetJournalRecord r" using assms(1) by (simp add: record_ok_def)
  then have snip: "validSnippetJournalRecord ?r"
    using old backfill_fields(6-8) [OF cf(4), of c] by (auto simp: validSnippetJournalRecord_def migrated_clone_def)
  have "record_ok ?r"
    by (rule record_ok_kept [OF assms(1) k])
       (use marks snip act authority_lineage [OF eq assms(5) sc(1)] par fields in \<open>simp_all add: clone_action\<close>)
  moreover have "receipt_agent ?r = Some (jr_AgentRef ?r)" using cf(7) k by (simp add: receipt_agent_def kept_def)
  then have "legacyCloneEligibilityError ?r c p key = None"
    using cf k act(2) succ fields eq commandIDRE_nonempty [OF assms(6)]
    by (simp add: legacyCloneEligibilityError_def kept_def)
  ultimately show ?thesis by blast
qed

lemma retire_ids_facts:
  "retire_ids_ok cmd clone prev ids \<Longrightarrow> i \<in> set ids \<Longrightarrow> i \<noteq> cmd \<and> i \<noteq> clone"
  by (induction ids arbitrary: prev) auto

lemma migration_ids:
  assumes "validLegacyJournalMigration c p" "i \<in> set (retire_ids p)"
  shows "i \<noteq> c_CommandID c \<and> i \<noteq> lp_LegacyCloneCommandID p"
proof -
  obtain ids where "lp_RetireIDs p = Some ids" "retire_ids_ok (c_CommandID c) (lp_LegacyCloneCommandID p) [] ids"
    using assms(1) by (auto simp: validLegacyJournalMigration_def split: option.splits)
  then show ?thesis using retire_ids_facts assms(2) by (simp add: retire_ids_def)
qed

lemma read_retirements_ok:
  assumes "\<And>i. i \<in> set ids \<Longrightarrow> \<exists>r. readJournal d (journal_path env i) = Inr r \<and> legacyIndeterminateEligible r c revision key i"
  shows "\<exists>rs. read_retirements env d c revision key ids = Inr rs"
  using assms
proof (induction ids)
  case (Cons i ids)
  obtain r where "readJournal d (journal_path env i) = Inr r" "legacyIndeterminateEligible r c revision key i"
    using Cons.prems by auto
  moreover obtain rs where "read_retirements env d c revision key ids = Inr rs" using Cons by auto
  ultimately show ?case by auto
qed simp

lemma migrate_completes:
  assumes "journalResourceKey c = Some key" "validLegacyJournalMigration c p" "validInitialLineageCommand c"
    and "c_Scope c = ScopeVM" "c_ApprovalRef c \<noteq> []"
    and "readJournal d (journal_path env (lp_LegacyCloneCommandID p)) = Inr clone"
    and "legacyCloneEligibilityError clone c p key = None"
    and "read_retirements env d c (lp_LegacyAssignmentRevision p) key (retire_ids p) = Inr rs"
    and "set ios \<subseteq> {IoOk}"
  shows "\<exists>d'. MigrateLegacyVMJournal env c p now ios d = (Inr (legacy_migration_result p), d')"
proof -
  let ?cp = "journal_path env (lp_LegacyCloneCommandID p)"
  obtain d1 ios1 where s: "(if jr_MigratedByCommandID clone = []
       then save ios ?cp (migrated_clone c p now clone) d else (True, d, ios)) = (True, d1, ios1)" "set ios1 \<subseteq> {IoOk}"
  proof (cases "jr_MigratedByCommandID clone = []")
    case True
    obtain ios' where "save ios ?cp (migrated_clone c p now clone) d = (True, dir_put ?cp (Some (migrated_clone c p now clone)) d, ios')"
      "set ios' \<subseteq> {IoOk}" using save_all_ok [OF assms(9)] .
    then show ?thesis using that True by simp
  qed (use that assms(9) in simp)
  obtain dn d2 where w: "write_retirements c now rs ios1 d1 = (dn, d2)" by fastforce
  have dn using write_retirements_all_ok [OF s(2), of c now rs d1] w by simp
  then show ?thesis using assms(1-8) s(1) w by (simp add: MigrateLegacyVMJournal_def Let_def)
qed

lemma resume_records:
  assumes run: "MigrateLegacyVMJournal env c p now ios d = (res, d')"
    and key: "journalResourceKey c = Some key" and valid: "validLegacyJournalMigration c p" "validInitialLineageCommand c"
    and id: "commandIDRE (c_CommandID c)" and now: "\<not> is_zero_time now"
    and clone: "readJournal d (journal_path env (lp_LegacyCloneCommandID p)) = Inr clone"
      "legacyCloneEligibilityError clone c p key = None"
    and rs: "read_retirements env d c (lp_LegacyAssignmentRevision p) key (retire_ids p) = Inr rs"
  shows "\<exists>clone'. readJournal d' (journal_path env (lp_LegacyCloneCommandID p)) = Inr clone' \<and>
      legacyCloneEligibilityError clone' c p key = None"
    and "\<exists>rs'. read_retirements env d' c (lp_LegacyAssignmentRevision p) key (retire_ids p) = Inr rs'"
proof -
  let ?cp = "journal_path env (lp_LegacyCloneCommandID p)"
  have cid: "jr_CommandID clone = lp_LegacyCloneCommandID p"
    using clone(2) by (auto simp: legacyCloneEligibilityError_def split: if_splits)
  have c: "dir_read d ?cp = Some (Some clone)" "record_ok clone" using clone(1) by (simp_all add: readJournal_Inr)
  have "dir_read d' ?cp = Some (Some clone) \<or>
      jr_MigratedByCommandID clone = [] \<and> dir_read d' ?cp = Some (Some (migrated_clone c p now clone))"
    using migrate_frame [OF run, of ?cp] c(1) cid migration_ids [OF valid(1)] eligible_id by (metis option.inject)
  then show "\<exists>clone'. readJournal d' ?cp = Inr clone' \<and> legacyCloneEligibilityError clone' c p key = None"
    using clone(2) c(2) migrated_again [OF c(2) clone(2) _ valid id now] by (auto simp: readJournal_Inr)
  show "\<exists>rs'. read_retirements env d' c (lp_LegacyAssignmentRevision p) key (retire_ids p) = Inr rs'"
  proof (rule read_retirements_ok)
    fix i assume i: "i \<in> set (retire_ids p)"
    let ?q = "journal_path env i"
    obtain r where r: "readJournal d ?q = Inr r" "legacyIndeterminateEligible r c (lp_LegacyAssignmentRevision p) key i"
      using read_retirements_listed [OF rs i] by blast
    then have rd: "dir_read d ?q = Some (Some r)" "record_ok r" by (simp_all add: readJournal_Inr)
    have ids: "i \<noteq> c_CommandID c" "i \<noteq> lp_LegacyCloneCommandID p" using migration_ids [OF valid(1) i] by auto
    have "dir_read d' ?q = Some (Some r) \<or> dir_read d' ?q = Some (Some (retired_record c now r))"
      using migrate_frame [OF run, of ?q] rd(1) eligible_id [OF r(2)] ids(2) by (metis option.inject)
    then show "\<exists>r. readJournal d' ?q = Inr r \<and> legacyIndeterminateEligible r c (lp_LegacyAssignmentRevision p) key i"
      using r(2) rd(2) retired_again [OF rd(2) r(2) valid ids(1) id now] by (auto simp: readJournal_Inr)
  qed
qed

text \<open>
  C34: An interrupted migration can be finished.  If a migration passed its checks and one of
  its writes failed, at whichever file and whether or not that file reached the disk, the same
  command run again over the directory it left succeeds once the writes do.
\<close>

theorem migration_resumes:
  assumes "MigrateLegacyVMJournal env c p now ios d = (Inl JournalIO, d')" "set ios' \<subseteq> {IoOk}"
    and "commandIDRE (c_CommandID c)" "\<not> is_zero_time now"
  shows "\<exists>d''. MigrateLegacyVMJournal env c p now' ios' d' = (Inr (legacy_migration_result p), d'')"
  using assms(1)
proof (cases rule: migrate_cases)
  case (written key clone rs d1 ios1 ok)
  note rec = resume_records [OF assms(1) written(1-3) assms(3,4) written(6-8)]
  obtain clone' rs' where c: "readJournal d' (journal_path env (lp_LegacyCloneCommandID p)) = Inr clone'"
      "legacyCloneEligibilityError clone' c p key = None"
      "read_retirements env d' c (lp_LegacyAssignmentRevision p) key (retire_ids p) = Inr rs'"
    using rec by blast
  show ?thesis by (rule migrate_completes [OF written(1-5) c assms(2)])
qed simp

subsection \<open>A finished migration\<close>

lemma sorted_ids_less: "strictly_sorted_ids prev ids \<Longrightarrow> prev \<noteq> [] \<Longrightarrow> i \<in> set ids \<Longrightarrow> prev < i"
proof (induction ids arbitrary: prev)
  case (Cons j ids)
  then have "prev < j" "j \<noteq> []" using commandIDRE_nonempty by auto
  then show ?case using Cons by (auto intro: less_trans)
qed simp

lemma sorted_ids_distinct: "strictly_sorted_ids prev ids \<Longrightarrow> distinct ids"
proof (induction ids arbitrary: prev)
  case (Cons i ids)
  then have "i \<noteq> []" "strictly_sorted_ids i ids" using commandIDRE_nonempty by auto
  then show ?case using Cons.IH sorted_ids_less by fastforce
qed simp

lemma read_retirements_frame:
  "read_retirements env d c revision key ids = Inr rs \<Longrightarrow> dir_read d q = None \<Longrightarrow>
   read_retirements env (dir_put q v d) c revision key ids = Inr rs"
proof (induction ids arbitrary: rs)
  case (Cons i ids)
  then obtain r where r: "readJournal d (journal_path env i) = Inr r" by (auto split: sum.splits)
  then have "journal_path env i \<noteq> q" using Cons.prems(2) by (auto simp: readJournal_Inr)
  then have "readJournal (dir_put q v d) (journal_path env i) = Inr r" using r by (simp add: readJournal_def)
  then show ?case using Cons r by (auto split: sum.splits if_splits)
qed simp

lemma retire_ids_sorted: "retire_ids_ok cmd clone prev ids \<Longrightarrow> strictly_sorted_ids prev ids"
  by (induction ids arbitrary: prev) auto

lemma migration_result_valid:
  assumes "validLegacyJournalMigration c p" "0 < c_AssignmentRevision c" "jr_AssignmentRevision m = c_AssignmentRevision c"
    and "retire_ids p \<noteq> []" "raw \<noteq> []" "je_legacy_result env raw = Some (legacy_migration_result p)"
  shows "validLegacyMigrationJournalResult env m raw"
proof -
  obtain ids where "lp_RetireIDs p = Some ids" "length ids \<le> maxLegacyJournalRetirements" "strictly_sorted_ids [] ids"
    using assms(1) retire_ids_sorted by (auto simp: validLegacyJournalMigration_def split: option.splits)
  then show ?thesis
    using assms
    by (simp add: validLegacyMigrationJournalResult_def legacy_migration_result_def validLegacyJournalMigration_def
        retire_ids_def maxLegacyJournalRetirements_def)
qed

lemma eligible_not_501: "legacyIndeterminateEligible r c revision key i \<Longrightarrow> kept r r' \<Longrightarrow> \<not> knownDelete501RetirementShape r'"
proof
  assume e: "legacyIndeterminateEligible r c revision key i" "kept r r'" "knownDelete501RetirementShape r'"
  obtain a x where "legacyRecordAction r = Some a" "jr_Receipt r = Some x" "legacyIndeterminateReceiptCode (r_Code x) a"
    using eligible_facts [OF e(1)] by blast
  moreover obtain y where "jr_Receipt r' = Some y" "r_Code y = ''PVE_ACTION_INDETERMINATE''" "\<exists>b. jr_AuditContext r' = Some b \<and> ac_Action b = ''vm.delete''"
    using e(3) by (auto simp: knownDelete501RetirementShape_def split: option.splits)
  ultimately show False
    using e(2) by (auto simp: kept_def legacyRecordAction_def legacyIndeterminateReceiptCode_def split: option.splits if_splits)
qed

text \<open>The record of a migration command that has been completed with the result \<open>raw\<close>.\<close>

definition finished_migration :: "jenv \<Rightarrow> command \<Rightarrow> legacy_params \<Rightarrow> gotime \<Rightarrow> journal_record \<Rightarrow> bool" where
  "finished_migration env c p now m \<longleftrightarrow>
     record_ok m \<and> jr_CommandID m = c_CommandID c \<and> jr_Action m = ''vm.migrate-legacy-journal'' \<and>
     journalResourceKey c = Some (jr_ResourceKey m) \<and> recordSucceeded m \<and> recordAuthorityEquals m c \<and>
     (case jr_AuditContext m of None \<Rightarrow> False | Some a \<Rightarrow> ac_Action a = jr_Action m \<and> ac_ApprovalRef a \<noteq> []) \<and>
     \<not> is_zero_time (jr_CreatedAt m) \<and> \<not> is_zero_time (jr_UpdatedAt m) \<and>
     \<not> before (to_utc now) (jr_CreatedAt m) \<and> \<not> after (to_utc now) (jr_UpdatedAt m) \<and> migration_result m \<noteq> [] \<and>
     je_legacy_result env (migration_result m) = Some (legacy_migration_result p) \<and>
     je_ipfilter_result env (migration_result m) = None"

text \<open>
  A finished migration releases what it lists.  Once the migration has written its markers
  and the record of its command has succeeded with the typed result (which no other result type
  decodes), every listed record is committed as retired and locks the resource no more.
\<close>

theorem finished_migration_releases:
  assumes "MigrateLegacyVMJournal env c p now ios d = (Inr result, d')"
    and "finished_migration env c p now m" "dir_read d' (journal_path env (c_CommandID c)) = Some (Some m0)"
    and "jr_CommandID m0 = c_CommandID c" "i \<in> set (retire_ids p)" "commandIDRE (c_CommandID c)" "\<not> is_zero_time now"
  shows "\<exists>r. dir_read (dir_put (journal_path env (c_CommandID c)) (Some m) d') (journal_path env i) = Some (Some r) \<and>
    jr_CommandID r = i \<and> retirementCommittedLocked env (dir_put (journal_path env (c_CommandID c)) (Some m) d') r = Inr True"
  using assms(1)
proof (cases rule: migrate_cases)
  case (written key clone rs d1 ios1 ok)
  let ?q = "journal_path env i" and ?cp = "journal_path env (c_CommandID c)"
  have w: "write_retirements c now rs ios1 d1 = (True, d')" using written(10) by (auto split: if_splits)
  obtain r where r: "(?q, r) \<in> set rs" "readJournal d ?q = Inr r"
      "legacyIndeterminateEligible r c (lp_LegacyAssignmentRevision p) key i"
    using read_retirements_listed [OF written(8) assms(5)] by blast
  have uniq: "distinct (map fst rs)"
  proof -
    have "distinct (retire_ids p)" using written(2) sorted_ids_distinct
      by (auto simp: validLegacyJournalMigration_def retire_ids_def dest: retire_ids_sorted split: option.splits)
    moreover have "inj_on (journal_path env) (set (retire_ids p))"
      using read_retirements_listed [OF written(8)] eligible_id by (metis (no_types, lifting) Inr_inject inj_onI)
    ultimately show ?thesis using read_retirements_paths [OF written(8)] by (simp add: distinct_map)
  qed
  let ?r = "retired_record c now r"
  have rd: "dir_read d' ?q = Some (Some ?r)" by (rule write_retirements_done [OF w uniq r(1)])
  have ids: "i \<noteq> c_CommandID c" using migration_ids [OF written(2) assms(5)] by blast
  have k: "kept r ?r" by (rule kept_retired)
  have cid: "jr_CommandID ?r = i" using k eligible_id [OF r(3)] by (simp add: kept_def)
  then have pq: "?q \<noteq> ?cp" using rd assms(3,4) ids by auto
  have "record_ok r" using r(2) by (simp add: readJournal_Inr)
  from retired_again [OF this r(3) written(2,3) ids assms(6,7)] have ok: "record_ok ?r" by blast
  obtain a where a: "legacyRecordAction r = Some a" "jr_AgentRef r = c_AgentRef c" "jr_ResourceKey r = key"
    using eligible_facts [OF r(3)] by blast
  have eq: "recordAuthorityEquals ?r c"
    using backfill_fields(3) [OF a(1,2)] by (simp add: retired_record_def recordAuthorityEquals_def)
  have by_c: "jr_RetiredByCommandID ?r = c_CommandID c" "jr_RetiredAt ?r = Some (to_utc now)" by (simp_all add: retired_record_def)
  have complete: "recordHasCompleteRetirementMarkers ?r"
    using ok by_c assms(6,7) commandIDRE_nonempty [OF assms(6)]
    by (simp add: recordHasCompleteRetirementMarkers_def record_ok_def is_zero_time_def)
  have auth: "migrationAuthorityMatches env m ?r"
    using assms(2) eq by (simp add: migrationAuthorityMatches_def same_guest_def finished_migration_def recordAuthorityEquals_def Let_def)
  have "0 < c_AssignmentRevision c" using written(3) by (simp add: validInitialLineageCommand_def Let_def word_neq_0_conv)
  then have "validLegacyMigrationJournalResult env m (migration_result m)"
    using assms(2,5) written(2)
    by (intro migration_result_valid) (auto simp: finished_migration_def recordAuthorityEquals_def Let_def)
  then have listed: "retirement_listed env m ?r"
    using assms(2,5) cid eligible_not_501 [OF r(3) k]
    by (auto simp: retirement_listed_def Let_def ipfilter_of_def finished_migration_def legacy_migration_result_def)
  let ?d = "dir_put ?cp (Some m) d'"
  have m: "readJournal ?d ?cp = Inr m" using assms(2) by (simp add: readJournal_Inr finished_migration_def)
  have "retirementCommittedLocked env ?d ?r = Inr True"
    using complete m auth listed assms(2) by_c k a(3) written(1)
    by (simp add: retirementCommittedLocked_def finished_migration_def kept_def)
  then show ?thesis using rd pq cid by auto
qed simp

text \<open>
  A migration with nothing to retire copies the empty list of its parameters into a nil slice,
  so its encoded result carries no list and is not accepted as a typed result: it is dropped
  when the command completes.
\<close>

lemma empty_migration_result_dropped:
  assumes "retire_ids p = []" "jr_Action r = ''vm.migrate-legacy-journal''"
    and "je_legacy_result env (r_Result x) = Some (legacy_migration_result p)"
    and "je_delete501_result env (r_Result x) = None" "je_ipfilter_result env (r_Result x) = None"
  shows "\<exists>y. jr_Receipt (completed_record env x r) = Some y \<and> r_Result y = []"
  using assms
  by (simp add: completed_record_def safe_receipt_def safeReplayResult_def validLegacyMigrationJournalResult_def
      validDelete501RecoveryJournalResult_def validIPFilterDeleteRecoveryJournalResult_def legacy_migration_result_def)

text \<open>
  The claim check of a migration does not look at running mutations, which lock the resource for
  every other command: a readable running record of the same resource is passed over.
\<close>

lemma running_mutation_passes_migration_claim:
  assumes "validateLegacyMigrationClaimLocked env d c p = None" "dir_read d q = None" "has_suffix ''.json'' q"
    and "record_ok r" "jr_State r = ''running''"
  shows "validateLegacyMigrationClaimLocked env (dir_put q (Some r) d) c p = None"
proof -
  let ?d = "dir_put q (Some r) d"
  let ?rev = "lp_LegacyAssignmentRevision p" and ?cp = "journal_path env (lp_LegacyCloneCommandID p)"
  let ?f = "\<lambda>key r. if \<not> open_on key r then Inr (None :: unit option)
     else if jr_CommandID r \<notin> set (retire_ids p) then Inl (UnlistedActiveMutation (jr_CommandID r))
     else if \<not> legacyIndeterminateEligible r c ?rev key (jr_CommandID r) then Inl (ListedRecordNotEligible (jr_CommandID r))
     else Inr None"
  obtain key clone rs where k: "journalResourceKey c = Some key" "readJournal d ?cp = Inr clone"
      "legacyCloneEligibilityError clone c p key = None" "read_retirements env d c ?rev key (retire_ids p) = Inr rs"
      "\<exists>x. scan (?f key) d (json_files d) = Inr x"
    using assms(1) by (auto simp: validateLegacyMigrationClaimLocked_def split: option.split_asm sum.split_asm jerror.split_asm)
  have old: "readJournal ?d n = readJournal d n" if "n \<noteq> q" for n using that by (simp add: readJournal_def)
  have never: "?f key s \<noteq> Inr (Some x)" for s x by auto
  obtain x where x: "scan (?f key) d (json_files d) = Inr x" using k(5) by blast
  have "x = None"
  proof (cases x)
    case (Some y)
    then show ?thesis using scan_Some [of "?f key" d _ y] x never by blast
  qed
  then have all: "\<And>n. n \<in> set (json_files d) \<Longrightarrow> \<exists>s. readJournal d n = Inr s \<and> ?f key s = Inr None"
    using x by (auto simp: scan_None list_all_iff)
  have "\<exists>s. readJournal ?d n = Inr s \<and> ?f key s = Inr None" if "n \<in> set (json_files ?d)" for n
  proof (cases "n = q")
    case True
    then show ?thesis using assms(4,5) by (auto simp: readJournal_Inr open_on_def claim_states_def)
  next
    case False
    then show ?thesis using all [of n] that old by (auto simp: json_files_iff)
  qed
  then have sc: "scan (?f key) ?d (json_files ?d) = Inr None" by (auto simp: scan_None list_all_iff)
  have "?cp \<noteq> q" using k(2) assms(2) by (auto simp: readJournal_Inr)
  then have cl: "readJournal ?d ?cp = Inr clone" using k(2) old by simp
  have rr: "read_retirements env ?d c ?rev key (retire_ids p) = Inr rs" by (rule read_retirements_frame [OF k(4) assms(2)])
  show ?thesis
    by (simp only: validateLegacyMigrationClaimLocked_def k(1) cl k(3) rr sc option.case sum.case)
qed

subsection \<open>A concrete migration\<close>

definition ex_params :: legacy_params where
  "ex_params = \<lparr>lp_LegacyAssignmentRevision = 3, lp_LegacyCloneCommandID = ''cmd-20'', lp_LegacyCloneOperationID = ''op-2'',
     lp_LegacyCloneDigest = replicate 64 CHR ''a'', lp_TemplateRef = ''tpl-1'', lp_SourceVMID = 900,
     lp_SourceConfigSHA256 = replicate 64 CHR ''a'', lp_RetireIDs = Some [''cmd-300'']\<rparr>"

definition ex_menv :: jenv where
  "ex_menv = ex_jenv\<lparr>je_legacy_result := (\<lambda>b. Some (legacy_migration_result ex_params))\<rparr>"

definition ex_migration :: command where
  "ex_migration = ex_op ''vm.migrate-legacy-journal'' ''cmd-1'' ''op-1'' ''idem-1'' 101"

definition ex_context :: "u64 \<Rightarrow> string \<Rightarrow> string \<Rightarrow> string \<Rightarrow> audit_context" where
  "ex_context revision cmd op action = \<lparr>ac_AssignmentRevision = revision, ac_CommandID = cmd, ac_IdempotencyKey = ''idem-2'',
     ac_OperationID = op, ac_Action = action, ac_Scope = ScopeVM, ac_TargetRef = ''vm:cluster-a:qemu:inst-1:3'', ac_Target = None,
     ac_WebsiteCommandKeyID = ''key-1'', ac_ReceivedAt = ex_issued, ac_AcceptedAt = ex_issued, ac_ApprovalRef = ''appr-1'',
     ac_RequestedByRef = ''operator-1'', ac_PayloadDigest = ''sha256:'' @ replicate 64 CHR ''a'', ac_AgentVersion = ''1.0''\<rparr>"

definition ex_old :: "string \<Rightarrow> string \<Rightarrow> string \<Rightarrow> string \<Rightarrow> string \<Rightarrow> journal_record" where
  "ex_old action cmd op state code =
     (new_record (ex_op action cmd op ''idem-2'' 101) ex_issued (Some (ex_context 3 cmd op action)) (replicate 64 CHR ''a'') (ex_key 101))
       \<lparr>jr_BindingID := [], jr_DeviceID := [], jr_CredentialEpoch := 0, jr_AssignmentRevision := 0, jr_ClusterRef := [],
        jr_ServiceRef := [], jr_InstanceUUID := [], jr_GuestType := [], jr_VMID := 0, jr_Generation := 0,
        jr_State := state,
        jr_Receipt := Some (empty_receipt\<lparr>r_CommandID := cmd, r_OperationID := op, r_AgentRef := ''agent-1'', r_State := state,
          r_Code := code\<rparr>)\<rparr>"

abbreviation ex_clone :: journal_record where
  "ex_clone \<equiv> ex_old ''vm.clone'' ''cmd-20'' ''op-2'' ''succeeded'' ''SUCCEEDED''"

abbreviation ex_stuck :: journal_record where
  "ex_stuck \<equiv> ex_old ''vm.start'' ''cmd-300'' ''op-3'' ''indeterminate'' ''PVE_ACTION_INDETERMINATE''"

lemma ex_menv_path [simp]: "journal_path ex_menv = journal_path ex_jenv"
  by (rule ext) (simp add: ex_menv_def journal_path_def)

lemma ex_more_names [simp]:
  "commandIDRE ''cmd-300''" "commandIDRE ''op-3''" "actionRE ''vm.clone''" "actionRE ''vm.migrate-legacy-journal''"
  "validActionScope ''vm.clone'' ScopeVM" "requiresApproval ''vm.clone''" "validActionScope ''vm.start'' ScopeVM"
  "requiresApproval ''vm.start''" "validActionScope ''vm.migrate-legacy-journal'' ScopeVM"
  "requiresApproval ''vm.migrate-legacy-journal''" "journalNodeRef ''cluster-a''" "journalNodeRef ''inst-1''"
  "validAuditText ''vm:cluster-a:qemu:inst-1:3'' 256" "validAuditText ''1.0'' 128"
  by code_simp+

lemma ex_context_valid:
  "revision \<noteq> 0 \<Longrightarrow> commandIDRE cmd \<Longrightarrow> commandIDRE op \<Longrightarrow> actionRE action \<Longrightarrow> context_validate (ex_context revision cmd op action)"
  using ex_names(9)
  by (simp add: context_validate_def ex_context_def ex_issued_def is_zero_time_def before_def del: ex_names(9))

lemma ex_dec3: "dec 3 = ''3''"
  by code_simp

lemma ex_target: "auditTargetRef ex_migration = Some ''vm:cluster-a:qemu:inst-1:3''"
  by (simp add: auditTargetRef_def ex_migration_def Let_def ex_dec3)

lemma ex_migration_key: "journalResourceKey ex_migration = Some (ex_key 101)"
  by (simp add: journalResourceKey_def ex_migration_def Let_def ex_key_def)

lemma ex_old_fields:
  "jr_CommandID (ex_old action cmd op state code) = cmd" "jr_OperationID (ex_old action cmd op state code) = op"
  "jr_ResourceKey (ex_old action cmd op state code) = ex_key 101" "jr_Digest (ex_old action cmd op state code) = replicate 64 CHR ''a''"
  "jr_State (ex_old action cmd op state code) = state" "jr_Action (ex_old action cmd op state code) = action"
  "jr_AuditContext (ex_old action cmd op state code) = Some (ex_context 3 cmd op action)"
  "jr_Receipt (ex_old action cmd op state code) = Some (empty_receipt\<lparr>r_CommandID := cmd, r_OperationID := op,
     r_AgentRef := ''agent-1'', r_State := state, r_Code := code\<rparr>)"
  "jr_AgentRef (ex_old action cmd op state code) = ''agent-1''" "jr_MigratedByCommandID (ex_old action cmd op state code) = []"
  "jr_RetiredByCommandID (ex_old action cmd op state code) = []" "jr_RetiredAt (ex_old action cmd op state code) = None"
  "jr_MigratedAt (ex_old action cmd op state code) = None" "jr_Mutating (ex_old action cmd op state code) = requiresApproval action"
  "jr_PVETaskUPID (ex_old action cmd op state code) = []" "jr_AgentUpgradeID (ex_old action cmd op state code) = []"
  "jr_Scope (ex_old action cmd op state code) = ScopeVM" "jr_NodeRef (ex_old action cmd op state code) = ''pve1''"
  "jr_BindingID (ex_old action cmd op state code) = []" "jr_DeviceID (ex_old action cmd op state code) = []"
  "jr_CredentialEpoch (ex_old action cmd op state code) = 0" "jr_AssignmentRevision (ex_old action cmd op state code) = 0"
  "jr_ClusterRef (ex_old action cmd op state code) = []" "jr_ServiceRef (ex_old action cmd op state code) = []"
  "jr_InstanceUUID (ex_old action cmd op state code) = []" "jr_GuestType (ex_old action cmd op state code) = []"
  "jr_VMID (ex_old action cmd op state code) = 0" "jr_Generation (ex_old action cmd op state code) = 0"
  "jr_SourceTemplateRef (ex_old action cmd op state code) = []" "jr_SourceVMID (ex_old action cmd op state code) = 0"
  "jr_SourceConfigSHA256 (ex_old action cmd op state code) = []" "jr_SnippetDeletePhase (ex_old action cmd op state code) = []"
  "jr_SnippetStorageID (ex_old action cmd op state code) = []" "jr_SnippetVolumeSHA256 (ex_old action cmd op state code) = []"
  "jr_AuditPending (ex_old action cmd op state code) = None" "jr_Version (ex_old action cmd op state code) = SchemaVersion"
  by (simp_all add: ex_old_def new_record_def)

lemma ex_context_fields:
  "ac_Action (ex_context v cmd op action) = action" "ac_AssignmentRevision (ex_context v cmd op action) = v"
  "ac_CommandID (ex_context v cmd op action) = cmd" "ac_OperationID (ex_context v cmd op action) = op"
  "ac_Scope (ex_context v cmd op action) = ScopeVM" "ac_WebsiteCommandKeyID (ex_context v cmd op action) = ''key-1''"
  "ac_ApprovalRef (ex_context v cmd op action) = ''appr-1''"
  "ac_TargetRef (ex_context v cmd op action) = ''vm:cluster-a:qemu:inst-1:3''"
  by (simp_all add: ex_context_def)

lemma ex_old_ok:
  assumes "commandIDRE cmd" "commandIDRE op" "actionRE action"
  shows "record_ok (ex_old action cmd op state code)"
  using ex_context_valid [OF _ assms] assms commandIDRE_nonempty [OF assms(1)]
  by (simp add: record_ok_def ex_old_fields ex_key_def validJournalScope_def validOptionalJournalLineage_def
      validJournalMigrationMarkers_def utc_marker_def validSnippetJournalRecord_def)

lemma ex_migration_fields:
  "c_CommandID ex_migration = ''cmd-1''" "c_OperationID ex_migration = ''op-1''" "c_SigningKeyID ex_migration = ''key-1''"
  "c_AgentRef ex_migration = ''agent-1''" "c_Scope ex_migration = ScopeVM" "c_ApprovalRef ex_migration = ''appr-1''"
  "c_AssignmentRevision ex_migration = 7" "c_Identity ex_migration = ex_identity\<lparr>id_VMID := 101\<rparr>"
  "c_BindingID ex_migration = ex_binding" "c_DeviceID ex_migration = ''dev-1''" "c_CredentialEpoch ex_migration = 1"
  "c_Action ex_migration = ''vm.migrate-legacy-journal''"
  by (simp_all add: ex_migration_def) (simp_all add: ex_op_def ex_command_def)

lemma ex_authority: "action \<noteq> [] \<Longrightarrow> validActionScope action ScopeVM \<Longrightarrow> requiresApproval action \<Longrightarrow>
    legacyRecordAction (ex_old action cmd op state code) = Some action \<and>
    legacyRecordAuthorityMatches (ex_old action cmd op state code) ex_migration 3"
  using ex_target
  by (simp add: legacyRecordAction_def legacyRecordAuthorityMatches_def ex_old_fields ex_context_fields Let_def
      ex_migration_fields optionalStringMatches_def optionalMatches_def)

lemma ex_clone_eligible: "legacyCloneEligibilityError ex_clone ex_migration ex_params (ex_key 101) = None"
  using ex_authority [of "''vm.clone''" "''cmd-20''" "''op-2''" "''succeeded''" "''SUCCEEDED''"]
  by (simp add: legacyCloneEligibilityError_def ex_old_fields ex_params_def recordSucceeded_def receipt_agent_def
      legacySourceIdentityMatches_def empty_receipt_def)

lemma ex_stuck_eligible: "legacyIndeterminateEligible ex_stuck ex_migration 3 (ex_key 101) ''cmd-300''"
  using ex_authority [of "''vm.start''" "''cmd-300''" "''op-3''" "''indeterminate''" "''PVE_ACTION_INDETERMINATE''"]
  by (simp add: legacyIndeterminateEligible_def ex_old_fields empty_receipt_def legacyIndeterminateReceiptCode_def)

lemma ex_params_valid: "validLegacyJournalMigration ex_migration ex_params" "validInitialLineageCommand ex_migration"
  using ex_names(9)
  by (simp_all add: validLegacyJournalMigration_def ex_params_def ex_migration_fields maxLegacyJournalRetirements_def
      validInitialLineageCommand_def Let_def del: ex_names(9))

abbreviation ex_clone_path :: string where
  "ex_clone_path \<equiv> journal_path ex_jenv ''cmd-20''"

abbreviation ex_stuck_path :: string where
  "ex_stuck_path \<equiv> journal_path ex_jenv ''cmd-300''"

lemma ex_three_paths: "ex_path \<noteq> ex_clone_path" "ex_path \<noteq> ex_stuck_path" "ex_clone_path \<noteq> ex_stuck_path"
  by (simp_all add: ex_path_iff)

lemma ex_migrate:
  assumes "readJournal d ex_clone_path = Inr ex_clone" "readJournal d ex_stuck_path = Inr ex_stuck"
  shows "MigrateLegacyVMJournal ex_menv ex_migration ex_params now (a # b # ios) d =
    (let (ok, d1) = dir_write a ex_clone_path (migrated_clone ex_migration ex_params now ex_clone) d
     in if \<not> ok then (Inl JournalIO, d1)
        else (let (ok2, d2) = dir_write b ex_stuck_path (retired_record ex_migration now ex_stuck) d1
              in (if ok2 then Inr (legacy_migration_result ex_params) else Inl JournalIO, d2)))"
proof -
  have p: "lp_LegacyCloneCommandID ex_params = ''cmd-20''" "lp_LegacyAssignmentRevision ex_params = 3"
    "retire_ids ex_params = [''cmd-300'']"
    by (simp_all add: ex_params_def retire_ids_def)
  have "read_retirements ex_menv d ex_migration 3 (ex_key 101) [''cmd-300''] = Inr [(ex_stuck_path, ex_stuck)]"
    using assms(2) ex_stuck_eligible by simp
  then show ?thesis
    using assms(1) ex_params_valid ex_clone_eligible ex_migration_key p
    by (simp add: MigrateLegacyVMJournal_def Let_def ex_migration_fields ex_old_fields save_def split: prod.split)
qed

definition ex_mdir :: jdir where
  "ex_mdir = [(ex_clone_path, Some ex_clone), (ex_stuck_path, Some ex_stuck)]"

lemma ex_mdir_reads:
  "dir_read ex_mdir ex_clone_path = Some (Some ex_clone)" "dir_read ex_mdir ex_stuck_path = Some (Some ex_stuck)"
  "dir_read ex_mdir ex_path = None"
  using ex_three_paths by (simp_all add: ex_mdir_def dir_read_def)

lemma ex_half_migration:
  "MigrateLegacyVMJournal ex_menv ex_migration ex_params ex_issued [IoOk, IoLate] ex_mdir =
     (Inl JournalIO, dir_put ex_stuck_path (Some (retired_record ex_migration ex_issued ex_stuck))
        (dir_put ex_clone_path (Some (migrated_clone ex_migration ex_params ex_issued ex_clone)) ex_mdir))"
  using ex_migrate [of ex_mdir ex_issued IoOk IoLate "[]"] ex_mdir_reads ex_old_ok
  by (simp add: readJournal_Inr)

theorem migration_touches_only_listed_witness:
  "\<exists>r'. dir_read (snd (MigrateLegacyVMJournal ex_menv ex_migration ex_params ex_issued [IoOk, IoLate] ex_mdir)) ex_stuck_path =
     Some (Some r') \<and> kept ex_stuck r'"
  using migration_touches_only_listed [OF ex_half_migration ex_mdir_reads(2)] ex_half_migration by auto

theorem partial_migration_keeps_lock_witness:
  "resourceBusyLocked ex_menv (snd (MigrateLegacyVMJournal ex_menv ex_migration ex_params ex_issued [IoOk, IoLate] ex_mdir))
     (ex_key 101) \<noteq> Inr False"
proof -
  let ?d = "snd (MigrateLegacyVMJournal ex_menv ex_migration ex_params ex_issued [IoOk, IoLate] ex_mdir)"
  have "dir_read ?d (journal_path ex_menv (c_CommandID ex_migration)) = None"
    using ex_mdir_reads(3) ex_three_paths ex_half_migration by (simp add: ex_migration_fields)
  then show ?thesis
    using partial_migration_keeps_lock [OF ex_half_migration _ ex_mdir_reads(2)] ex_half_migration
    by (simp add: ex_old_fields busy_states_def)
qed

theorem migration_resumes_witness:
  "\<exists>d. MigrateLegacyVMJournal ex_menv ex_migration ex_params ex_issued []
      (snd (MigrateLegacyVMJournal ex_menv ex_migration ex_params ex_issued [IoOk, IoLate] ex_mdir)) =
     (Inr (legacy_migration_result ex_params), d)"
  using migration_resumes [OF ex_half_migration, of "[]" ex_issued] ex_half_migration
  by (simp add: ex_migration_fields ex_issued_def is_zero_time_def)

definition ex_finished :: journal_record where
  "ex_finished = (new_record ex_migration ex_issued (Some (ex_context 7 ''cmd-1'' ''op-1'' ''vm.migrate-legacy-journal''))
       (replicate 64 CHR ''a'') (ex_key 101))\<lparr>jr_State := ''succeeded'',
     jr_Receipt := Some (empty_receipt\<lparr>r_CommandID := ''cmd-1'', r_OperationID := ''op-1'', r_State := ''succeeded'',
       r_Code := ''SUCCEEDED'', r_Result := ''{}''\<rparr>)\<rparr>"

lemma ex_finished_ok: "record_ok ex_finished"
  using ex_context_valid [of 7 "''cmd-1''" "''op-1''" "''vm.migrate-legacy-journal''"]
  by (simp add: record_ok_def ex_finished_def new_record_def ex_migration_fields ex_key_def validJournalScope_def
      validOptionalJournalLineage_def validJournalMigrationMarkers_def utc_marker_def validSnippetJournalRecord_def)

lemma ex_finished_migration: "finished_migration ex_menv ex_migration ex_params ex_issued ex_finished"
proof -
  have "jr_CommandID ex_finished = ''cmd-1''" "jr_Action ex_finished = ''vm.migrate-legacy-journal''"
    "jr_ResourceKey ex_finished = ex_key 101" "recordSucceeded ex_finished" "recordAuthorityEquals ex_finished ex_migration"
    "jr_CreatedAt ex_finished = to_utc ex_issued" "jr_UpdatedAt ex_finished = to_utc ex_issued" "migration_result ex_finished = ''{}''"
    "jr_AuditContext ex_finished = Some (ex_context 7 ''cmd-1'' ''op-1'' ''vm.migrate-legacy-journal'')"
    by (simp_all add: ex_finished_def new_record_def ex_migration_fields recordSucceeded_def empty_receipt_def
        recordAuthorityEquals_def Let_def migration_result_def)
  then show ?thesis
    using ex_finished_ok ex_migration_key
    by (simp add: finished_migration_def ex_migration_fields ex_context_fields before_def after_def is_zero_time_def)
       (simp add: ex_menv_def ex_jenv_def ex_issued_def)
qed

theorem finished_migration_releases_witness:
  "\<exists>d r. MigrateLegacyVMJournal ex_menv ex_migration ex_params ex_issued [IoOk, IoOk] ((ex_path, Some ex_finished) # ex_mdir) =
      (Inr (legacy_migration_result ex_params), d) \<and>
    dir_read (dir_put ex_path (Some ex_finished) d) ex_stuck_path = Some (Some r) \<and>
    retirementCommittedLocked ex_menv (dir_put ex_path (Some ex_finished) d) r = Inr True"
proof -
  let ?d0 = "(ex_path, Some ex_finished) # ex_mdir"
  have "readJournal ?d0 ex_clone_path = Inr ex_clone" "readJournal ?d0 ex_stuck_path = Inr ex_stuck"
    using ex_mdir_reads ex_three_paths ex_old_ok by (auto simp: readJournal_Inr dir_read_def)
  from ex_migrate [OF this, of ex_issued IoOk IoOk "[]"]
  obtain d where run: "MigrateLegacyVMJournal ex_menv ex_migration ex_params ex_issued [IoOk, IoOk] ?d0 =
      (Inr (legacy_migration_result ex_params), d)"
    and d: "d = dir_put ex_stuck_path (Some (retired_record ex_migration ex_issued ex_stuck))
        (dir_put ex_clone_path (Some (migrated_clone ex_migration ex_params ex_issued ex_clone)) ?d0)" by simp
  have m0: "dir_read d (journal_path ex_menv (c_CommandID ex_migration)) = Some (Some ex_finished)"
    using d ex_three_paths by (simp add: ex_migration_fields) (simp add: dir_read_def)
  have "jr_CommandID ex_finished = c_CommandID ex_migration" using ex_finished_migration by (simp add: finished_migration_def)
  from finished_migration_releases [OF run ex_finished_migration m0 this, of "''cmd-300''"] run show ?thesis
    by (auto simp: ex_migration_fields retire_ids_def ex_params_def ex_issued_def is_zero_time_def)
qed

end
