(* ===== verification/Exporter_Value.thy ===== *)
theory Exporter_Value
  imports Go_Text
begin

section \<open>Exact exporter values (\<open>internal/exporter/normalize.go\<close>)\<close>

text \<open>
  \<open>CanonicalUnsignedInteger\<close> turns the text of a Prometheus sample, with optional sign, fraction
  and exponent, into the decimal digits of an unsigned 64-bit integer without going through
  floating point.  The first half of the function splits the text, the second shifts the
  decimal point.  The specification says which number a split text denotes.
\<close>

subsection \<open>The function\<close>

definition parse_int32 :: "string \<Rightarrow> int option" where
  "parse_int32 s = (case atoi s of None \<Rightarrow> None | Some i \<Rightarrow> if - (2 ^ 31) \<le> i \<and> i < 2 ^ 31 then Some i else None)"

definition is_exp :: "char \<Rightarrow> bool" where
  "is_exp c \<longleftrightarrow> c = CHR ''e'' \<or> c = CHR ''E''"

text \<open>\<open>IndexAny(s, "eE")\<close> with the texts around it, \<open>IndexByte(s, '.')\<close> likewise.\<close>

definition strip_sign :: "string \<Rightarrow> string option" where
  "strip_sign s =
     (case s of [] \<Rightarrow> None
      | c # cs \<Rightarrow> if c = CHR ''+'' then (if cs = [] then None else Some cs) else if c = CHR ''-'' then None else Some s)"

definition split_exponent :: "string \<Rightarrow> (string \<times> int) option" where
  "split_exponent s =
     (case dropWhile (\<lambda>c. \<not> is_exp c) s of
        [] \<Rightarrow> Some (s, 0)
      | _ # e \<Rightarrow> if list_ex is_exp e then None else map_option (Pair (takeWhile (\<lambda>c. \<not> is_exp c) s)) (parse_int32 e))"

definition split_point :: "string \<Rightarrow> (string \<times> string) option" where
  "split_point s =
     (case dropWhile (\<lambda>c. c \<noteq> CHR ''.'') s of
        [] \<Rightarrow> Some (s, [])
      | _ # f \<Rightarrow> if CHR ''.'' \<in> set f then None else Some (takeWhile (\<lambda>c. c \<noteq> CHR ''.'') s, f))"

definition split_decimal :: "string \<Rightarrow> (string \<times> string \<times> int) option" where
  "split_decimal raw =
     (case strip_sign (trim_space raw) of
        None \<Rightarrow> None
      | Some s \<Rightarrow>
          (case split_exponent s of
             None \<Rightarrow> None
           | Some (mantissa, exponent) \<Rightarrow>
               (case split_point mantissa of
                  None \<Rightarrow> None
                | Some (integerPart, fractionalPart) \<Rightarrow>
                    if integerPart @ fractionalPart = [] \<or> \<not> list_all is_digit (integerPart @ fractionalPart) then None
                    else Some (integerPart, fractionalPart, exponent))))"

definition trim_zeros :: "string \<Rightarrow> string" where
  "trim_zeros s = dropWhile (\<lambda>c. c = CHR ''0'') s"

definition all_zeros :: "string \<Rightarrow> bool" where
  "all_zeros s \<longleftrightarrow> list_all (\<lambda>c. c = CHR ''0'') s"

definition shift_digits :: "string \<Rightarrow> int \<Rightarrow> string option" where
  "shift_digits digits shift =
     (if all_zeros digits then Some ''0''
      else
        (case (if 0 \<le> shift then
                 (let ds = trim_zeros digits in
                  if shift > 20 \<or> int (length ds) + shift > 20 then None
                  else Some (ds @ replicate (nat shift) CHR ''0''))
               else
                 (if - shift > int (length digits) then None
                  else (let cut = length digits - nat (- shift) in
                    if \<not> all_zeros (drop cut digits) then None
                    else (let ds = trim_zeros (take cut digits) in Some (if ds = [] then ''0'' else ds))))) of
           None \<Rightarrow> None
         | Some ds \<Rightarrow> if parse_uint ds = None then None else Some ds))"

definition CanonicalUnsignedInteger :: "string \<Rightarrow> string option" where
  "CanonicalUnsignedInteger raw =
     (case split_decimal raw of
        None \<Rightarrow> None
      | Some (integerPart, fractionalPart, exponent) \<Rightarrow>
          shift_digits (integerPart @ fractionalPart) (exponent - int (length fractionalPart)))"

text \<open>
  A \<open>Value\<close>: whether the exporter emitted a sample (the pointer to the float is not nil; the
  float itself is never read here) and the exact text.  \<open>number\<close> keeps the canonical digits when
  there are any.
\<close>

record exp_value =
  v_present :: bool
  v_Raw :: string

definition number :: "string option \<Rightarrow> exp_value" where
  "number raw =
     \<lparr>v_present = True,
      v_Raw = (case raw of
                 None \<Rightarrow> []
               | Some r \<Rightarrow>
                   (case CanonicalUnsignedInteger (trim_space r) of None \<Rightarrow> trim_space r | Some c \<Rightarrow> c))\<rparr>"

definition CounterText :: "exp_value \<Rightarrow> string option" where
  "CounterText v = (if \<not> v_present v then None else CanonicalUnsignedInteger (v_Raw v))"

subsection \<open>Decimal arithmetic on texts\<close>

lemma parse_dec_trim: "parse_dec (trim_zeros s) = parse_dec s"
  by (induction s) (simp_all add: trim_zeros_def parse_dec_Cons digit_val_def code_of_def)

lemma parse_dec_all_zeros: "list_all is_digit s \<Longrightarrow> all_zeros s \<longleftrightarrow> parse_dec s = 0"
  by (induction s) (auto simp: all_zeros_def parse_dec_Cons digit_val_zero)

lemma trim_zeros_digits: "list_all is_digit s \<Longrightarrow> list_all is_digit (trim_zeros s)"
  by (auto simp: trim_zeros_def list_all_iff dest: set_dropWhileD)

lemma trim_zeros_head: "trim_zeros s \<noteq> [] \<Longrightarrow> hd (trim_zeros s) \<noteq> CHR ''0''"
  unfolding trim_zeros_def by (rule hd_dropWhile)

lemma trim_zeros_Nil: "trim_zeros s = [] \<longleftrightarrow> all_zeros s"
  by (simp add: trim_zeros_def all_zeros_def list_all_iff dropWhile_eq_Nil_conv)

subsection \<open>Which number a text denotes\<close>

text \<open>
  \<open>scaled m shift n\<close>: \<open>n = m \<cdot> 10 ^ shift\<close>, without leaving the natural numbers.
\<close>

definition scaled :: "nat \<Rightarrow> int \<Rightarrow> nat \<Rightarrow> bool" where
  "scaled m shift n \<longleftrightarrow> n * 10 ^ nat (- shift) = m * 10 ^ nat shift"

definition denotes :: "string \<Rightarrow> nat \<Rightarrow> bool" where
  "denotes raw n \<longleftrightarrow>
     (case split_decimal raw of
        None \<Rightarrow> False
      | Some (i, f, e) \<Rightarrow> scaled (parse_dec (i @ f)) (e - int (length f)) n)"

lemma parse_uint_digits:
  "list_all is_digit s \<Longrightarrow> s \<noteq> [] \<Longrightarrow> parse_uint s = None \<longleftrightarrow> \<not> parse_dec s < 2 ^ 64"
  by (simp add: parse_uint_def)

lemma length_bound:
  assumes "list_all is_digit s" "s \<noteq> []" "hd s \<noteq> CHR ''0''" "parse_dec s < 2 ^ 64"
  shows "length s \<le> 20"
proof (rule ccontr)
  assume "\<not> length s \<le> 20"
  then have "10 ^ 20 \<le> (10 :: nat) ^ (length s - 1)" by (intro power_increasing) auto
  also have "\<dots> \<le> parse_dec s" using assms by (intro parse_dec_ge) auto
  finally show False using assms(4) by simp
qed

lemma shift_up:
  assumes "list_all is_digit s" "\<not> all_zeros s" "0 \<le> shift"
  shows "shift_digits s shift = Some t \<longleftrightarrow> parse_dec s * 10 ^ nat shift < 2 ^ 64 \<and> t = dec (parse_dec s * 10 ^ nat shift)"
proof -
  let ?ds = "trim_zeros s @ replicate (nat shift) CHR ''0''"
  have d: "list_all is_digit ?ds" "?ds \<noteq> []" "hd ?ds \<noteq> CHR ''0''"
    using trim_zeros_digits [OF assms(1)] trim_zeros_head [of s] assms(2)
    by (auto simp: trim_zeros_Nil [symmetric] list_all_iff char_class_defs)
  have v: "parse_dec ?ds = parse_dec s * 10 ^ nat shift"
    using parse_dec_zeros [of "nat shift" "[]"] by (simp add: parse_dec_append parse_dec_trim)
  have l: "int (length ?ds) = int (length (trim_zeros s)) + shift" using assms(3) by simp
  have "shift_digits s shift = (if int (length ?ds) > 20 \<or> parse_uint ?ds = None then None else Some ?ds)"
    using assms l by (auto simp: shift_digits_def Let_def)
  then show ?thesis
    using length_bound [OF d] parse_uint_digits [OF d(1,2)] dec_parse_dec [OF d] unfolding v by auto
qed

lemma shift_down:
  assumes "list_all is_digit s" "\<not> all_zeros s" "shift < 0"
  shows "shift_digits s shift = Some t \<longleftrightarrow> (\<exists>n. n * 10 ^ nat (- shift) = parse_dec s \<and> n < 2 ^ 64 \<and> t = dec n)"
proof (cases "nat (- shift) \<le> length s")
  case False
  have "parse_dec s \<noteq> 0" using assms parse_dec_all_zeros by auto
  moreover have "parse_dec s < 10 ^ nat (- shift)"
    using parse_dec_less [OF assms(1)] False power_increasing [of "length s" "nat (- shift)" "10 :: nat"]
    by linarith
  ultimately have "n * 10 ^ nat (- shift) \<noteq> parse_dec s" for n by (cases n) auto
  moreover have "- shift > int (length s)" using False assms(3) by linarith
  ultimately show ?thesis using assms by (simp add: shift_digits_def)
next
  case True
  let ?r = "nat (- shift)" and ?cut = "length s - nat (- shift)"
  let ?a = "take ?cut s" and ?b = "drop ?cut s"
  have dig: "list_all is_digit ?a" "list_all is_digit ?b"
    using assms(1) by (auto simp: list_all_iff dest: in_set_takeD in_set_dropD)
  have v: "parse_dec s = parse_dec ?a * 10 ^ ?r + parse_dec ?b"
    using parse_dec_append [of ?a ?b] True by simp
  have b: "parse_dec ?b < 10 ^ ?r" using parse_dec_less [OF dig(2)] True by simp
  have ex: "n * 10 ^ ?r = parse_dec s \<longleftrightarrow> parse_dec ?b = 0 \<and> n = parse_dec ?a" for n
  proof
    assume "n * 10 ^ ?r = parse_dec s"
    then have e: "n * 10 ^ ?r = parse_dec ?a * 10 ^ ?r + parse_dec ?b" unfolding v .
    from arg_cong [OF e, of "\<lambda>x. x mod 10 ^ ?r"] b have "parse_dec ?b = 0" by simp
    with e show "parse_dec ?b = 0 \<and> n = parse_dec ?a" by simp
  qed (simp add: v)
  let ?ds = "if trim_zeros ?a = [] then ''0'' else trim_zeros ?a"
  have val: "dec (parse_dec ?a) = ?ds"
  proof (cases "trim_zeros ?a = []")
    case False
    then have "dec (parse_dec (trim_zeros ?a)) = trim_zeros ?a"
      using dig(1) trim_zeros_head trim_zeros_digits by (intro dec_parse_dec) auto
    then show ?thesis using False by (simp add: parse_dec_trim)
  next
    case t: True
    then have "parse_dec ?a = 0" using dig(1) by (simp add: trim_zeros_Nil parse_dec_all_zeros)
    then show ?thesis using t dec_zero by simp
  qed
  have u: "parse_uint ?ds = None \<longleftrightarrow> \<not> parse_dec ?a < 2 ^ 64"
    unfolding val [symmetric] using parse_uint_digits [OF dec_digits dec_nonempty, of "parse_dec ?a"] by simp
  have "shift_digits s shift = (if parse_dec ?b \<noteq> 0 \<or> parse_uint ?ds = None then None else Some ?ds)"
    using assms True parse_dec_all_zeros [OF dig(2)] by (auto simp: shift_digits_def Let_def)
  then show ?thesis using u unfolding ex val [symmetric] by auto
qed

lemma shift_digits_scaled:
  assumes "list_all is_digit s" "s \<noteq> []"
  shows "shift_digits s shift = Some t \<longleftrightarrow> (\<exists>n. scaled (parse_dec s) shift n \<and> n < 2 ^ 64 \<and> t = dec n)"
proof (cases "all_zeros s")
  case True
  show ?thesis using dec_zero True parse_dec_all_zeros [OF assms(1)] by (auto simp: shift_digits_def scaled_def)
next
  case False
  show ?thesis
  proof (cases "0 \<le> shift")
    case True
    then show ?thesis using shift_up [OF assms(1) False True] by (auto simp: scaled_def)
  next
    case neg: False
    then show ?thesis using shift_down [OF assms(1) False] by (auto simp: scaled_def)
  qed
qed

lemma split_decimal_digits:
  "split_decimal raw = Some (i, f, e) \<Longrightarrow> list_all is_digit (i @ f) \<and> i @ f \<noteq> []"
  by (auto simp: split_decimal_def split: option.splits if_splits)

lemma canonical_unsigned_iff:
  "CanonicalUnsignedInteger raw = Some t \<longleftrightarrow> (\<exists>n. denotes raw n \<and> n < 2 ^ 64 \<and> t = dec n)"
proof (cases "split_decimal raw")
  case (Some p)
  obtain i f e where p: "p = (i, f, e)" by (cases p) auto
  show ?thesis
    using shift_digits_scaled [of "i @ f" "e - int (length f)" t] split_decimal_digits [of raw i f e] Some p
    by (simp add: CanonicalUnsignedInteger_def denotes_def)
qed (simp add: CanonicalUnsignedInteger_def denotes_def)


end
