(* ===== verification/Meter.thy ===== *)
theory Meter
  imports Exporter_Value Inventory Protocol Outbox "HOL-Library.Product_Lexorder"
begin

section \<open>The usage meter (\<open>internal/meter/meter.go\<close>)\<close>

text \<open>
  The meter turns a snapshot of cumulative counters into a batch of usage records.  It keeps the
  next sequence numbers and the last counter of every metered interface, in memory and in
  \<open>state.json\<close>.  A batch becomes eligible for delivery in a transaction of four file operations:
  write \<open>pending-transaction.json\<close> with the batch and the new state, enqueue the batch, write
  \<open>state.json\<close>, remove the transaction.  An interrupted transaction is completed by the next
  \<open>Recover\<close> or \<open>Observe\<close>.

  The fields of a snapshot, of a guest and of a network that the meter does not read are left out.
  The queue is the meter's \<open>Queue\<close> interface, an argument \<open>enq\<close> with its environment; so is
  the JSON text of a batch, \<open>marshal\<close>.
\<close>

subsection \<open>What the collector observed\<close>

record network =
  nw_Index :: int
  nw_Interface :: string
  nw_MAC :: string

record guest =
  g_VMID :: int
  g_GuestType :: string
  g_Node :: string
  g_Template :: bool
  g_Available :: bool
  g_IngressBytes :: "u64 option"
  g_EgressBytes :: "u64 option"
  g_Networks :: "network list"

record interface_obs =
  if_Device :: string
  if_ReceiveBytes :: exp_value
  if_TransmitBytes :: exp_value

record snapshot =
  sn_ObservedAt :: gotime
  sn_Guests :: "guest list"
  sn_Host :: "interface_obs list option"

subsection \<open>State, transaction, configuration\<close>

record counter_state =
  cs_ServiceRef :: string
  cs_Generation :: u64
  cs_InstanceUUID :: string
  cs_InterfaceRef :: string
  cs_CanonicalMAC :: string
  cs_Source :: string
  cs_CounterEpoch :: string
  cs_Ingress :: u64
  cs_Egress :: u64
  cs_ObservedAt :: gotime

text \<open>A nil counter map, which a decoded file may have, is \<open>None\<close>.\<close>

record meter_state =
  ms_Version :: int
  ms_NextBatchSequence :: u64
  ms_NextEventSequence :: u64
  ms_Counters :: "(string \<rightharpoonup> counter_state) option"

record transaction =
  tx_Version :: int
  tx_Batch :: usage_batch
  tx_NewState :: meter_state

record meter_config =
  mc_Directory :: string
  mc_Mode :: string
  mc_AgentRef :: string
  mc_CollectorRef :: string
  mc_SourceRef :: string
  mc_ClusterRef :: string

text \<open>The manager: its state in memory and its two files (absent, undecodable, or a value).\<close>

record meter =
  mt_state :: meter_state
  mt_state_file :: "meter_state option option"
  mt_txn_file :: "transaction option option"

datatype meter_error = MeterConfigInvalid | MeterModeInvalid | MeterIO | MeterStateCorrupt | MeterTxnCorrupt
  | MeterMarshal | MeterEnqueue | MeterNoID | MeterBatchInvalid usage_error

definition stateVersion :: int where
  "stateVersion = 1"

text \<open>\<open>atomicJSON\<close> on one of the two files, by the outcome of its system calls.\<close>

fun atomicJSON :: "io \<Rightarrow> 'c \<Rightarrow> 'c option option \<Rightarrow> bool \<times> 'c option option" where
  "atomicJSON IoOk v f = (True, Some (Some v))"
| "atomicJSON IoFail v f = (False, f)"
| "atomicJSON IoLate v f = (False, Some (Some v))"

text \<open>\<open>Open\<close> and \<open>load\<close>: the private directory, the state file, a fresh state where there is none.\<close>

definition fresh_state :: meter_state where
  "fresh_state = \<lparr>ms_Version = stateVersion, ms_NextBatchSequence = 0, ms_NextEventSequence = 0,
     ms_Counters = Some Map.empty\<rparr>"

definition meter_load :: "io list \<Rightarrow> meter \<Rightarrow> meter_error option \<times> meter" where
  "meter_load ios m =
     (let (r, ios1) = take_io ios in
      case mt_state_file m of
        None \<Rightarrow>
          (let (ok, file) = atomicJSON (fst (take_io ios1)) (mt_state m) None in
           (if ok then None else Some MeterIO, m\<lparr>mt_state_file := file\<rparr>))
      | Some c \<Rightarrow>
          if r \<noteq> IoOk then (Some MeterIO, m)
          else (case c of
                  None \<Rightarrow> (Some MeterStateCorrupt, m)
                | Some st \<Rightarrow>
                    if ms_Version st \<noteq> stateVersion \<or> ms_Counters st = None then (Some MeterStateCorrupt, m)
                    else (None, m\<lparr>mt_state := st\<rparr>)))"

definition meter_Open :: "meter_config \<Rightarrow> io list \<Rightarrow> meter \<Rightarrow> meter_error option \<times> meter" where
  "meter_Open cfg ios m =
     (if mc_Directory cfg = [] \<or> mc_AgentRef cfg = [] \<or> mc_CollectorRef cfg = [] \<or> mc_SourceRef cfg = [] \<or>
         mc_ClusterRef cfg = [] then (Some MeterConfigInvalid, m)
      else if mc_Mode cfg \<noteq> ''test'' \<and> mc_Mode cfg \<noteq> ''production'' then (Some MeterModeInvalid, m)
      else let (r, ios1) = take_io ios in
      if r \<noteq> IoOk then (Some MeterIO, m)
      else meter_load ios1 (m\<lparr>mt_state := fresh_state\<rparr>))"

definition cloneState :: "meter_state \<Rightarrow> meter_state" where
  "cloneState st = st\<lparr>ms_Counters := Some (case ms_Counters st of None \<Rightarrow> Map.empty | Some cs \<Rightarrow> cs)\<rparr>"

subsection \<open>Per-interface counters\<close>

record nic_counter =
  nc_InterfaceRef :: string
  nc_CanonicalMAC :: string
  nc_Role :: string
  nc_Source :: string
  nc_Ingress :: u64
  nc_Egress :: u64

text \<open>The maps \<open>observed\<close> and \<open>host\<close>: a later entry of the same name replaces an earlier one.\<close>

fun last_entry :: "('a \<Rightarrow> string) \<Rightarrow> 'a list \<Rightarrow> string \<Rightarrow> 'a option" where
  "last_entry f [] k = None"
| "last_entry f (x # xs) k =
     (case last_entry f xs k of Some y \<Rightarrow> Some y | None \<Rightarrow> if f x = k then Some x else None)"

definition device_name :: "guest \<Rightarrow> int \<Rightarrow> string" where
  "device_name g index =
     (if g_GuestType g = ''lxc'' then ''veth'' @ dec_int (g_VMID g) @ ''i'' @ dec_int index
      else ''tap'' @ dec_int (g_VMID g) @ ''i'' @ dec_int index)"

definition parse_counter :: "exp_value \<Rightarrow> u64 option" where
  "parse_counter v = (case CounterText v of None \<Rightarrow> None | Some t \<Rightarrow> parse_uint t)"

text \<open>One round of the loop on a metered binding.\<close>

definition resolve_binding :: "interface_obs list \<Rightarrow> guest \<Rightarrow> nic \<Rightarrow> nic_counter option" where
  "resolve_binding host g b =
     (case last_entry nw_Interface (g_Networks g) (nb_Interface b) of
        None \<Rightarrow> None
      | Some network \<Rightarrow>
          if \<not> equal_fold (nw_MAC network) (nb_ExpectedMAC b) then None
          else (case atoi (trim_prefix ''net'' (nb_Interface b)) of
            None \<Rightarrow> None
          | Some index \<Rightarrow>
              if index \<noteq> nw_Index network then None
              else (case last_entry if_Device host (device_name g index) of
                None \<Rightarrow> None
              | Some item \<Rightarrow>
                  (case (parse_counter (if_ReceiveBytes item), parse_counter (if_TransmitBytes item)) of
                     (Some receive, Some transmit) \<Rightarrow>
                       Some \<lparr>nc_InterfaceRef = nb_Interface b, nc_CanonicalMAC = to_upper (nb_ExpectedMAC b),
                         nc_Role = nb_Role b, nc_Source = ''pve-host-netdev'', nc_Ingress = transmit,
                         nc_Egress = receive\<rparr>
                   | _ \<Rightarrow> None))))"

fun resolve_bindings :: "interface_obs list \<Rightarrow> guest \<Rightarrow> nic list \<Rightarrow> nic_counter list option" where
  "resolve_bindings host g [] = Some []"
| "resolve_bindings host g (b # bs) =
     (if \<not> nb_Metered b then resolve_bindings host g bs
      else (case resolve_binding host g b of
              None \<Rightarrow> None
            | Some c \<Rightarrow> map_option (Cons c) (resolve_bindings host g bs)))"

definition resolvePerNICCounters :: "snapshot \<Rightarrow> guest \<Rightarrow> assignment \<Rightarrow> nic_counter list option" where
  "resolvePerNICCounters sn g a =
     (case sn_Host sn of
        None \<Rightarrow> None
      | Some host \<Rightarrow> if as_NICBindings a = [] then None else resolve_bindings host g (as_NICBindings a))"

subsection \<open>Usage records\<close>

type_synonym collect = "usage list \<times> meter_state \<times> id_supply"

definition counter_key :: "assignment \<Rightarrow> nic_counter \<Rightarrow> string" where
  "counter_key a c = Key a @ (if nc_InterfaceRef c \<noteq> [] then ''/'' @ nc_InterfaceRef c else [])"

text \<open>The condition on which a new epoch starts.\<close>

definition new_epoch :: "counter_state option \<Rightarrow> assignment \<Rightarrow> nic_counter \<Rightarrow> bool" where
  "new_epoch prev a c =
     (case prev of
        None \<Rightarrow> True
      | Some p \<Rightarrow>
          cs_ServiceRef p \<noteq> as_ServiceRef a \<or> cs_InstanceUUID p \<noteq> as_InstanceUUID a \<or>
          cs_Generation p \<noteq> as_Generation a \<or> cs_InterfaceRef p \<noteq> nc_InterfaceRef c \<or>
          cs_CanonicalMAC p \<noteq> nc_CanonicalMAC c \<or> cs_Source p \<noteq> nc_Source c \<or>
          nc_Ingress c < cs_Ingress p \<or> nc_Egress c < cs_Egress p)"

definition state_counters :: "meter_state \<Rightarrow> string \<rightharpoonup> counter_state" where
  "state_counters st = (case ms_Counters st of None \<Rightarrow> Map.empty | Some cs \<Rightarrow> cs)"

definition usage_record ::
  "assignment \<Rightarrow> string \<Rightarrow> gotime \<Rightarrow> string \<Rightarrow> nic_counter \<Rightarrow> string \<Rightarrow> string \<Rightarrow> u64 \<Rightarrow> usage" where
  "usage_record a nodeRef observedAt billingState c epoch eventID seq =
     \<lparr>u_ServiceRef = as_ServiceRef a, u_ClusterRef = as_ClusterRef a, u_NodeRef = nodeRef,
      u_VMID = as_VMID a, u_Generation = as_Generation a, u_InstanceUUID = as_InstanceUUID a,
      u_GuestType = as_GuestType a, u_EventID = eventID, u_CounterEpoch = epoch, u_Sequence = seq,
      u_Source = nc_Source c, u_InterfaceRef = nc_InterfaceRef c, u_CanonicalMAC = nc_CanonicalMAC c,
      u_NetworkRole = nc_Role c, u_Metered = (nc_InterfaceRef c \<noteq> []), u_BillingState = billingState,
      u_CutoverAt = as_CutoverAt a, u_ObservedAt = observedAt, u_IngressBytes = nc_Ingress c,
      u_EgressBytes = nc_Egress c\<rparr>"

definition counter_record :: "assignment \<Rightarrow> gotime \<Rightarrow> nic_counter \<Rightarrow> string \<Rightarrow> counter_state" where
  "counter_record a observedAt c epoch =
     \<lparr>cs_ServiceRef = as_ServiceRef a, cs_Generation = as_Generation a, cs_InstanceUUID = as_InstanceUUID a,
      cs_InterfaceRef = nc_InterfaceRef c, cs_CanonicalMAC = nc_CanonicalMAC c, cs_Source = nc_Source c,
      cs_CounterEpoch = epoch, cs_Ingress = nc_Ingress c, cs_Egress = nc_Egress c, cs_ObservedAt = observedAt\<rparr>"

definition appendUsageRecord ::
  "assignment \<Rightarrow> string \<Rightarrow> gotime \<Rightarrow> string \<Rightarrow> nic_counter \<Rightarrow> collect \<Rightarrow> meter_error + collect" where
  "appendUsageRecord a nodeRef observedAt billingState c = (\<lambda>(records, st, ids).
     let key = counter_key a c; previous = state_counters st key;
         (epoch, ids1) = (if new_epoch previous a c then take_id ids
                          else (map_option cs_CounterEpoch previous, ids));
         (event, ids2) = take_id ids1
     in case epoch of
          None \<Rightarrow> Inl MeterNoID
        | Some ep \<Rightarrow>
            (case event of
               None \<Rightarrow> Inl MeterNoID
             | Some ev \<Rightarrow>
                 Inr (records @ [usage_record a nodeRef observedAt billingState c ep ev (ms_NextEventSequence st + 1)],
                   st\<lparr>ms_NextEventSequence := ms_NextEventSequence st + 1,
                      ms_Counters := Some ((state_counters st)(key \<mapsto> counter_record a observedAt c ep))\<rparr>,
                   ids2)))"

fun append_counters ::
  "assignment \<Rightarrow> string \<Rightarrow> gotime \<Rightarrow> string \<Rightarrow> nic_counter list \<Rightarrow> collect \<Rightarrow> meter_error + collect" where
  "append_counters a nodeRef observedAt billingState [] w = Inr w"
| "append_counters a nodeRef observedAt billingState (c # cs) w =
     (case appendUsageRecord a nodeRef observedAt billingState c w of
        Inl e \<Rightarrow> Inl e
      | Inr w' \<Rightarrow> append_counters a nodeRef observedAt billingState cs w')"

subsection \<open>One observation\<close>

definition billing_state :: "meter_config \<Rightarrow> snapshot \<Rightarrow> assignment \<Rightarrow> string" where
  "billing_state cfg sn a =
     (if mc_Mode cfg \<noteq> ''production'' then ''shadow''
      else (case as_CutoverAt a of
              None \<Rightarrow> ''shadow''
            | Some t \<Rightarrow> if before (sn_ObservedAt sn) t then ''shadow'' else as_BillingState a))"

text \<open>The counters of one guest with the billing state of their records.\<close>

definition guest_counters :: "meter_config \<Rightarrow> snapshot \<Rightarrow> guest \<Rightarrow> assignment \<Rightarrow> string \<times> nic_counter list" where
  "guest_counters cfg sn g a =
     (case resolvePerNICCounters sn g a of
        Some perNIC \<Rightarrow> (billing_state cfg sn a, perNIC)
      | None \<Rightarrow>
          (case (g_IngressBytes g, g_EgressBytes g) of
             (Some ingress, Some egress) \<Rightarrow>
               if \<not> g_Available g then (billing_state cfg sn a, [])
               else (if \<not> cap_Supported (AggregateMeteringCapability a) then ''shadow'' else billing_state cfg sn a,
                     [\<lparr>nc_InterfaceRef = [], nc_CanonicalMAC = [], nc_Role = [], nc_Source = ''pve-cluster-resources'',
                       nc_Ingress = ingress, nc_Egress = egress\<rparr>])
           | _ \<Rightarrow> (billing_state cfg sn a, [])))"

definition observe_guest :: "meter_config \<Rightarrow> snapshot \<Rightarrow> asn_store \<Rightarrow> guest \<Rightarrow> collect \<Rightarrow> meter_error + collect" where
  "observe_guest cfg sn assignments g w =
     (if g_Template g then Inr w
      else (case Lookup assignments (mc_ClusterRef cfg) (g_GuestType g) (g_VMID g) of
              None \<Rightarrow> Inr w
            | Some a \<Rightarrow>
                if as_BillingState a = ''disabled'' then Inr w
                else (case guest_counters cfg sn g a of
                        (billing, cs) \<Rightarrow>
                          append_counters a (if as_NodeRef a = [] then g_Node g else as_NodeRef a)
                            (sn_ObservedAt sn) billing cs w)))"

fun observe_guests :: "meter_config \<Rightarrow> snapshot \<Rightarrow> asn_store \<Rightarrow> guest list \<Rightarrow> collect \<Rightarrow> meter_error + collect" where
  "observe_guests cfg sn assignments [] w = Inr w"
| "observe_guests cfg sn assignments (g # gs) w =
     (case observe_guest cfg sn assignments g w of
        Inl e \<Rightarrow> Inl e
      | Inr w' \<Rightarrow> observe_guests cfg sn assignments gs w')"

text \<open>
  \<open>sort.Slice\<close> by guest type, then VMID.  Guests that agree in both may come out in either order;
  the model keeps their order in the snapshot.
\<close>

definition sorted_guests :: "snapshot \<Rightarrow> guest list" where
  "sorted_guests sn = sort_key (\<lambda>g. (g_GuestType g, g_VMID g)) (sn_Guests sn)"

definition make_batch :: "meter_config \<Rightarrow> snapshot \<Rightarrow> string \<Rightarrow> u64 \<Rightarrow> usage list \<Rightarrow> usage_batch" where
  "make_batch cfg sn batchID seq records =
     \<lparr>ub_SchemaVersion = Version, ub_BatchID = batchID, ub_AgentRef = mc_AgentRef cfg,
      ub_CollectorRef = mc_CollectorRef cfg, ub_SourceRef = mc_SourceRef cfg, ub_ClusterRef = mc_ClusterRef cfg,
      ub_Mode = mc_Mode cfg, ub_Sequence = seq, ub_ObservedAt = sn_ObservedAt sn, ub_Events = records\<rparr>"

text \<open>
  The part of \<open>Observe\<close> before the transaction: the batch and the state after it, or nothing when
  no record was collected.
\<close>

definition observe_batch ::
  "meter_config \<Rightarrow> snapshot \<Rightarrow> asn_store \<Rightarrow> id_supply \<Rightarrow> meter_state \<Rightarrow>
     meter_error + (usage_batch \<times> meter_state) option" where
  "observe_batch cfg sn assignments ids st =
     (let new = cloneState st;
          new1 = new\<lparr>ms_NextBatchSequence := ms_NextBatchSequence new + 1\<rparr>
      in case observe_guests cfg sn assignments (sorted_guests sn) ([], new1, ids) of
           Inl e \<Rightarrow> Inl e
         | Inr (records, new2, ids2) \<Rightarrow>
             if records = [] then Inr None
             else (case fst (take_id ids2) of
                     None \<Rightarrow> Inl MeterNoID
                   | Some batchID \<Rightarrow>
                       (let batch = make_batch cfg sn batchID (ms_NextBatchSequence new2) records in
                        case UsageBatch_Validate batch of
                          Some e \<Rightarrow> Inl (MeterBatchInvalid e)
                        | None \<Rightarrow> Inr (Some (batch, new2)))))"

subsection \<open>The transaction\<close>

text \<open>
  The end of a transaction, the same in \<open>recoverLocked\<close> and \<open>Observe\<close>: write the state file, take
  the state over, remove the transaction, sync the directory.  The two differ only in tolerating a
  transaction file that is already gone, which it is not.
\<close>

definition finish_txn :: "io list \<Rightarrow> meter_state \<Rightarrow> meter \<Rightarrow> meter_error option \<times> io list \<times> meter" where
  "finish_txn ios new m =
     (let (r1, ios1) = take_io ios; (r2, ios2) = take_io ios1; (r3, ios3) = take_io ios2;
          (ok, file) = atomicJSON r1 new (mt_state_file m);
          m1 = m\<lparr>mt_state_file := file\<rparr>
      in if \<not> ok then (Some MeterIO, ios1, m1)
         else let m2 = m1\<lparr>mt_state := new\<rparr> in
         if r2 \<noteq> IoOk then (Some MeterIO, ios2, m2)
         else let m3 = m2\<lparr>mt_txn_file := None\<rparr> in
         if r3 \<noteq> IoOk then (Some MeterIO, ios3, m3) else (None, ios3, m3))"

text \<open>Marshal and enqueue a batch, then finish.\<close>

definition enqueue_batch ::
  "(usage_batch \<Rightarrow> bytes option) \<Rightarrow> ('env \<Rightarrow> string \<Rightarrow> bytes \<Rightarrow> 'q \<Rightarrow> ('e + 'i \<times> bool) \<times> 'q) \<Rightarrow> 'env \<Rightarrow>
     io list \<Rightarrow> usage_batch \<Rightarrow> meter_state \<Rightarrow> meter \<times> 'q \<Rightarrow>
     meter_error option \<times> usage_batch list \<times> io list \<times> meter \<times> 'q" where
  "enqueue_batch marshal enq e ios batch new = (\<lambda>(m, q).
     case marshal batch of
       None \<Rightarrow> (Some MeterMarshal, [], ios, m, q)
     | Some payload \<Rightarrow>
         (case enq e (ub_BatchID batch) payload q of
            (Inl _, q') \<Rightarrow> (Some MeterEnqueue, [], ios, m, q')
          | (Inr _, q') \<Rightarrow>
              (case finish_txn ios new m of (err, ios', m') \<Rightarrow> (err, [batch], ios', m', q'))))"

text \<open>
  The results name the batches that were handed to the queue and accepted, for the history of the
  queue; they are no output of the code.
\<close>

definition recoverLocked ::
  "(usage_batch \<Rightarrow> bytes option) \<Rightarrow> ('env \<Rightarrow> string \<Rightarrow> bytes \<Rightarrow> 'q \<Rightarrow> ('e + 'i \<times> bool) \<times> 'q) \<Rightarrow> 'env \<Rightarrow>
     io list \<Rightarrow> meter \<times> 'q \<Rightarrow> meter_error option \<times> usage_batch list \<times> io list \<times> meter \<times> 'q" where
  "recoverLocked marshal enq e ios = (\<lambda>(m, q).
     case take_io ios of (r0, ios0) \<Rightarrow>
       (case mt_txn_file m of
          None \<Rightarrow> (None, [], ios0, m, q)
        | Some c \<Rightarrow>
            if r0 \<noteq> IoOk then (Some MeterIO, [], ios0, m, q)
            else (case c of
                    None \<Rightarrow> (Some MeterTxnCorrupt, [], ios0, m, q)
                  | Some txn \<Rightarrow>
                      if tx_Version txn \<noteq> stateVersion \<or> ms_Counters (tx_NewState txn) = None \<or>
                         UsageBatch_Validate (tx_Batch txn) \<noteq> None then (Some MeterTxnCorrupt, [], ios0, m, q)
                      else enqueue_batch marshal enq e ios0 (tx_Batch txn) (tx_NewState txn) (m, q))))"

text \<open>\<open>Observe\<close> from the transaction file on.\<close>

definition commit_batch ::
  "(usage_batch \<Rightarrow> bytes option) \<Rightarrow> ('env \<Rightarrow> string \<Rightarrow> bytes \<Rightarrow> 'q \<Rightarrow> ('e + 'i \<times> bool) \<times> 'q) \<Rightarrow> 'env \<Rightarrow>
     io list \<Rightarrow> usage_batch \<Rightarrow> meter_state \<Rightarrow> meter \<times> 'q \<Rightarrow>
     meter_error option \<times> usage_batch list \<times> io list \<times> meter \<times> 'q" where
  "commit_batch marshal enq e ios batch new = (\<lambda>(m, q).
     let (r1, ios1) = take_io ios;
         txn = \<lparr>tx_Version = stateVersion, tx_Batch = batch, tx_NewState = new\<rparr>;
         (ok, file) = atomicJSON r1 txn (mt_txn_file m);
         m1 = m\<lparr>mt_txn_file := file\<rparr>
     in if \<not> ok then (Some MeterIO, [], ios1, m1, q)
        else enqueue_batch marshal enq e ios1 batch new (m1, q))"

definition meter_Observe ::
  "(usage_batch \<Rightarrow> bytes option) \<Rightarrow> ('env \<Rightarrow> string \<Rightarrow> bytes \<Rightarrow> 'q \<Rightarrow> ('e + 'i \<times> bool) \<times> 'q) \<Rightarrow>
     meter_config \<Rightarrow> snapshot \<Rightarrow> asn_store \<Rightarrow> 'env \<Rightarrow> 'env \<Rightarrow> io list \<Rightarrow> id_supply \<Rightarrow> meter \<times> 'q \<Rightarrow>
     (meter_error + usage_batch option) \<times> usage_batch list \<times> meter \<times> 'q" where
  "meter_Observe marshal enq cfg sn assignments e e' ios ids s =
     (case recoverLocked marshal enq e ios s of
        (Some err, out, ios0, m, q) \<Rightarrow> (Inl err, out, m, q)
      | (None, out, ios0, m, q) \<Rightarrow>
          (case observe_batch cfg sn assignments ids (mt_state m) of
             Inl err \<Rightarrow> (Inl err, out, m, q)
           | Inr None \<Rightarrow> (Inr None, out, m, q)
           | Inr (Some (batch, new)) \<Rightarrow>
               (case commit_batch marshal enq e' ios0 batch new (m, q) of
                  (Some err, out', ios1, m', q') \<Rightarrow> (Inl err, out @ out', m', q')
                | (None, out', ios1, m', q') \<Rightarrow> (Inr (Some batch), out @ out', m', q'))))"

end
