(* ===== verification/Meter_Ledger.thy ===== *)
theory Meter_Ledger
  imports Meter Queue_Recovery "HOL-Library.Sublist"
begin

section \<open>The meter against its specification\<close>

text \<open>
  The specification of the meter is a ledger: a process that never crashes and hands every batch
  to the queue once, or again as long as no newer batch exists.  The main theorem shows that every
  history of the real meter, with failures of any file operation, of the queue and of the process,
  is a history of the ledger.  What the consumer of the queue relies on (no gap in the sequence
  numbers, counters that only grow within an epoch) is then proved of the ledger.
\<close>

subsection \<open>The specification\<close>

definition drawn :: "id_supply \<Rightarrow> string list" where
  "drawn ids = map the (filter (\<lambda>x. x \<noteq> None) ids)"

text \<open>Batches handed out, identifiers used for them, state, last batch.\<close>

inductive ledger :: "meter_config \<Rightarrow> usage_batch list \<Rightarrow> string list \<Rightarrow> meter_state \<Rightarrow> usage_batch option \<Rightarrow> bool"
  for cfg where
  ledger_start: "ledger cfg [] [] fresh_state None"
| ledger_repeat: "ledger cfg log used st (Some b) \<Longrightarrow> ledger cfg (log @ [b]) used st (Some b)"
| ledger_new: "ledger cfg log used st prev \<Longrightarrow> observe_batch cfg sn assignments ids st = Inr (Some (b, st')) \<Longrightarrow>
    ledger cfg (log @ [b]) (used @ drawn ids) st' (Some b)"

subsection \<open>Histories of the meter\<close>

datatype 'env meter_op =
    MRestart "io list"
  | MRecover 'env "io list"
  | MObserve snapshot asn_store 'env 'env "io list" id_supply

text \<open>A process is running after a successful \<open>Open\<close>; \<open>MRestart\<close> may follow a crash at any time.\<close>

record 'q meter_sys =
  sys_up :: bool
  sys_meter :: meter
  sys_queue :: 'q

fun meter_step ::
  "(usage_batch \<Rightarrow> bytes option) \<Rightarrow> ('env \<Rightarrow> string \<Rightarrow> bytes \<Rightarrow> 'q \<Rightarrow> ('e + 'i \<times> bool) \<times> 'q) \<Rightarrow> meter_config \<Rightarrow>
     'env meter_op \<Rightarrow> 'q meter_sys \<Rightarrow> usage_batch list \<times> 'q meter_sys" where
  "meter_step marshal enq cfg (MRestart ios) s =
     (case meter_Open cfg ios (sys_meter s) of
        (err, m) \<Rightarrow> ([], s\<lparr>sys_up := (err = None), sys_meter := m\<rparr>))"
| "meter_step marshal enq cfg (MRecover e ios) s =
     (if \<not> sys_up s then ([], s)
      else (case recoverLocked marshal enq e ios (sys_meter s, sys_queue s) of
              (err, out, ios', m, q) \<Rightarrow> (out, s\<lparr>sys_meter := m, sys_queue := q\<rparr>)))"
| "meter_step marshal enq cfg (MObserve sn assignments e e' ios ids) s =
     (if \<not> sys_up s then ([], s)
      else (case meter_Observe marshal enq cfg sn assignments e e' ios ids (sys_meter s, sys_queue s) of
              (r, out, m, q) \<Rightarrow> (out, s\<lparr>sys_meter := m, sys_queue := q\<rparr>)))"

fun meter_run ::
  "(usage_batch \<Rightarrow> bytes option) \<Rightarrow> ('env \<Rightarrow> string \<Rightarrow> bytes \<Rightarrow> 'q \<Rightarrow> ('e + 'i \<times> bool) \<times> 'q) \<Rightarrow> meter_config \<Rightarrow>
     'env meter_op list \<Rightarrow> 'q meter_sys \<Rightarrow> usage_batch list \<times> 'q meter_sys" where
  "meter_run marshal enq cfg [] s = ([], s)"
| "meter_run marshal enq cfg (a # as) s =
     (case meter_step marshal enq cfg a s of
        (out, s1) \<Rightarrow> (case meter_run marshal enq cfg as s1 of (outs, s2) \<Rightarrow> (out @ outs, s2)))"

fun op_ids :: "'env meter_op \<Rightarrow> string list" where
  "op_ids (MObserve sn assignments e e' ios ids) = drawn ids"
| "op_ids _ = []"

definition first_boot :: "'q \<Rightarrow> 'q meter_sys" where
  "first_boot q = \<lparr>sys_up = False,
     sys_meter = \<lparr>mt_state = fresh_state, mt_state_file = None, mt_txn_file = None\<rparr>, sys_queue = q\<rparr>"

subsection \<open>The simulation\<close>

definition state_ok :: "meter_state \<Rightarrow> bool" where
  "state_ok st \<longleftrightarrow> ms_Version st = stateVersion \<and> ms_Counters st \<noteq> None"

definition txn_ok :: "transaction \<Rightarrow> bool" where
  "txn_ok txn \<longleftrightarrow> tx_Version txn = stateVersion \<and> state_ok (tx_NewState txn) \<and> UsageBatch_Validate (tx_Batch txn) = None"

text \<open>
  \<open>pending cfg txn st prev ids\<close>: the transaction on disk is the next step of the ledger, with the
  identifiers \<open>ids\<close>, or its last one.
\<close>

definition pending :: "meter_config \<Rightarrow> transaction \<Rightarrow> meter_state \<Rightarrow> string list \<Rightarrow> bool" where
  "pending cfg txn st us \<longleftrightarrow>
     (\<exists>sn assignments ids. observe_batch cfg sn assignments ids st = Inr (Some (tx_Batch txn, tx_NewState txn)) \<and> us = drawn ids)"

definition settled :: "bool \<Rightarrow> meter \<Rightarrow> meter_state \<Rightarrow> bool" where
  "settled up m st \<longleftrightarrow> (mt_state_file m = Some (Some st) \<or> mt_state_file m = None \<and> \<not> up \<and> st = fresh_state) \<and>
     (up \<longrightarrow> mt_state m = st)"

definition file_ok :: "meter \<Rightarrow> bool" where
  "file_ok m \<longleftrightarrow> (\<forall>c. mt_state_file m = Some c \<longrightarrow> (\<exists>st. c = Some st \<and> state_ok st))"

definition linked :: "meter_config \<Rightarrow> bool \<Rightarrow> meter \<Rightarrow> meter_state \<Rightarrow> usage_batch option \<Rightarrow> string list \<Rightarrow> bool" where
  "linked cfg up m st prev us \<longleftrightarrow> state_ok st \<and> file_ok m \<and>
     (case mt_txn_file m of
        None \<Rightarrow> settled up m st \<and> us = []
      | Some c \<Rightarrow>
          (\<exists>txn. c = Some txn \<and> txn_ok txn \<and> mt_state_file m \<noteq> None \<and>
             (settled up m st \<and> pending cfg txn st us \<or> st = tx_NewState txn \<and> prev = Some (tx_Batch txn) \<and> us = [])))"

text \<open>
  \<open>follows cfg log ds s\<close>: the batches handed out so far are a history of the ledger, whose state
  the files record; \<open>ds\<close> are the identifiers drawn so far.
\<close>

definition follows :: "meter_config \<Rightarrow> usage_batch list \<Rightarrow> string list \<Rightarrow> bool \<Rightarrow> meter \<Rightarrow> bool" where
  "follows cfg log ds up m \<longleftrightarrow>
     (\<exists>used st prev us. ledger cfg log used st prev \<and> linked cfg up m st prev us \<and> subseq (used @ us) ds)"

lemma followsI:
  "ledger cfg log used st prev \<Longrightarrow> linked cfg up m st prev us \<Longrightarrow> subseq (used @ us) ds \<Longrightarrow> follows cfg log ds up m"
  unfolding follows_def by blast

lemma state_ok_fresh [simp]: "state_ok fresh_state"
  by (simp add: state_ok_def fresh_state_def)

lemma appendUsageRecord_frame:
  assumes "appendUsageRecord a n t b c (records, st, ids) = Inr (records', st', ids')"
  shows "ms_Version st' = ms_Version st" "ms_NextBatchSequence st' = ms_NextBatchSequence st"
    "ms_Counters st' \<noteq> None"
  using assms by (auto simp: appendUsageRecord_def Let_def split: option.splits prod.splits if_splits)

text \<open>The guest, its assignment, the billing state and the counter that lead to one record.\<close>

definition meters :: "meter_config \<Rightarrow> snapshot \<Rightarrow> asn_store \<Rightarrow> guest list \<Rightarrow> guest \<Rightarrow> assignment \<Rightarrow> string \<Rightarrow> nic_counter \<Rightarrow> bool" where
  "meters cfg sn as gs g a b c \<longleftrightarrow>
     g \<in> set gs \<and> \<not> g_Template g \<and> Lookup as (mc_ClusterRef cfg) (g_GuestType g) (g_VMID g) = Some a \<and>
     as_BillingState a \<noteq> ''disabled'' \<and> b = fst (guest_counters cfg sn g a) \<and> c \<in> set (snd (guest_counters cfg sn g a))"

text \<open>
  Whatever one record keeps, a whole observation keeps: the induction over the bindings of a guest
  and over the guests, done once.
\<close>

lemma append_counters_keeps:
  assumes "\<And>c w w'. c \<in> set cs \<Longrightarrow> P w \<Longrightarrow> appendUsageRecord a n t b c w = Inr w' \<Longrightarrow> P w'"
  shows "append_counters a n t b cs w = Inr w' \<Longrightarrow> P w \<Longrightarrow> P w'"
  using assms
proof (induction cs arbitrary: w)
  case (Cons c cs)
  then obtain w1 where w1: "appendUsageRecord a n t b c w = Inr w1" "append_counters a n t b cs w1 = Inr w'"
    by (cases "appendUsageRecord a n t b c w") auto
  have "P w1" by (rule Cons.prems(3) [OF _ Cons.prems(2) w1(1)]) simp
  then show ?case by (rule Cons.IH [OF w1(2)]) (rule Cons.prems(3), simp_all)
qed simp

lemma observe_guest_keeps:
  assumes "observe_guest cfg sn as g w = Inr w'" "P w" "g \<in> set gs"
    and step: "\<And>g a n t b c w w'. meters cfg sn as gs g a b c \<Longrightarrow> P w \<Longrightarrow> appendUsageRecord a n t b c w = Inr w' \<Longrightarrow> P w'"
  shows "P w'"
proof (cases "g_Template g \<or> Lookup as (mc_ClusterRef cfg) (g_GuestType g) (g_VMID g) = None")
  case True
  then have "observe_guest cfg sn as g w = Inr w" by (cases "g_Template g") (simp_all add: observe_guest_def)
  then show ?thesis using assms(1,2) by simp
next
  case False
  then obtain a where a: "Lookup as (mc_ClusterRef cfg) (g_GuestType g) (g_VMID g) = Some a" by auto
  show ?thesis
  proof (cases "as_BillingState a = ''disabled''")
    case True
    then show ?thesis using assms(1,2) False a by (simp add: observe_guest_def)
  next
    case nd: False
    obtain b cs where bc: "guest_counters cfg sn g a = (b, cs)" by fastforce
    then have "append_counters a (if as_NodeRef a = [] then g_Node g else as_NodeRef a) (sn_ObservedAt sn) b cs w = Inr w'"
      using assms(1) False a nd by (simp add: observe_guest_def)
    then show ?thesis
    proof (rule append_counters_keeps [rotated])
      show "P w'" if "c \<in> set cs" "P w"
        "appendUsageRecord a (if as_NodeRef a = [] then g_Node g else as_NodeRef a) (sn_ObservedAt sn) b c w = Inr w'" for c w w'
        by (rule step [OF _ that(2,3), of g]) (use False a nd bc that(1) assms(3) in \<open>simp add: meters_def\<close>)
    qed (rule assms(2))
  qed
qed

lemma observe_guests_keeps:
  assumes "\<And>g a n t b c w w'. meters cfg sn as gs g a b c \<Longrightarrow> P w \<Longrightarrow> appendUsageRecord a n t b c w = Inr w' \<Longrightarrow> P w'"
  shows "observe_guests cfg sn as gs w = Inr w' \<Longrightarrow> P w \<Longrightarrow> P w'"
proof -
  have "observe_guests cfg sn as hs w = Inr w' \<Longrightarrow> P w \<Longrightarrow> set hs \<subseteq> set gs \<Longrightarrow> P w'" for hs
  proof (induction hs arbitrary: w)
    case (Cons h hs)
    then obtain w1 where w1: "observe_guest cfg sn as h w = Inr w1" "observe_guests cfg sn as hs w1 = Inr w'"
      by (cases "observe_guest cfg sn as h w") auto
    have "P w1"
      by (rule observe_guest_keeps [where P = P, OF w1(1) Cons.prems(2) _ assms]) (use Cons.prems(3) in auto)
    then show ?case by (rule Cons.IH [OF w1(2)]) (use Cons.prems(3) in auto)
  qed simp
  then show "observe_guests cfg sn as gs w = Inr w' \<Longrightarrow> P w \<Longrightarrow> P w'" by blast
qed

lemma observe_batchE:
  assumes "observe_batch cfg sn as ids st = Inr (Some (b, st'))"
  obtains records ids2 batchID where
    "observe_guests cfg sn as (sorted_guests sn)
       ([], (cloneState st)\<lparr>ms_NextBatchSequence := ms_NextBatchSequence st + 1\<rparr>, ids) = Inr (records, st', ids2)"
    "records \<noteq> []" "fst (take_id ids2) = Some batchID"
    "b = make_batch cfg sn batchID (ms_NextBatchSequence st') records" "UsageBatch_Validate b = None"
  using assms
  by (auto simp: observe_batch_def Let_def cloneState_def split: sum.splits prod.splits if_splits option.splits)

lemma observe_batch_ok:
  assumes "observe_batch cfg sn as ids st = Inr (Some (b, st'))" "state_ok st"
  shows "state_ok st'" "UsageBatch_Validate b = None"
    "ms_NextBatchSequence st' = ms_NextBatchSequence st + 1" "ub_Sequence b = ms_NextBatchSequence st'"
    "ub_Events b \<noteq> []"
proof -
  obtain records ids2 batchID where o:
    "observe_guests cfg sn as (sorted_guests sn)
       ([], (cloneState st)\<lparr>ms_NextBatchSequence := ms_NextBatchSequence st + 1\<rparr>, ids) = Inr (records, st', ids2)"
    "records \<noteq> []" "b = make_batch cfg sn batchID (ms_NextBatchSequence st') records" "UsageBatch_Validate b = None"
    using observe_batchE [OF assms(1)] by metis
  have "(\<lambda>(r, s, i). state_ok s \<and> ms_NextBatchSequence s = ms_NextBatchSequence st + 1) (records, st', ids2)"
    by (rule observe_guests_keeps [OF _ o(1)])
      (use assms(2) appendUsageRecord_frame in \<open>force simp: state_ok_def cloneState_def\<close>)+
  then show "state_ok st'" "ms_NextBatchSequence st' = ms_NextBatchSequence st + 1" by auto
  show "UsageBatch_Validate b = None" "ub_Sequence b = ms_NextBatchSequence st'" "ub_Events b \<noteq> []"
    using o by (simp_all add: make_batch_def)
qed

text \<open>What the steps of a transaction leave: the state file old or new, the transaction kept or gone.\<close>

definition commit_state :: "meter \<Rightarrow> meter_state \<Rightarrow> meter \<Rightarrow> bool" where
  "commit_state m new m' \<longleftrightarrow>
     mt_state m' = mt_state m \<and> mt_txn_file m' = mt_txn_file m \<and>
       (mt_state_file m' = mt_state_file m \<or> mt_state_file m' = Some (Some new)) \<or>
     mt_state m' = new \<and> mt_state_file m' = Some (Some new) \<and>
       (mt_txn_file m' = mt_txn_file m \<or> mt_txn_file m' = None)"

lemma atomicJSON_cases:
  "atomicJSON r v f = (ok, f') \<Longrightarrow> (f' = f \<and> \<not> ok) \<or> f' = Some (Some v)"
  by (cases r) auto

lemma finish_txn_commits:
  assumes "finish_txn ios new m = (err, ios', m')"
  shows "commit_state m new m' \<and> (err = None \<longrightarrow> mt_txn_file m' = None \<and> mt_state m' = new)"
  using assms
  by (auto simp: finish_txn_def Let_def commit_state_def split: if_splits prod.splits dest: atomicJSON_cases)

lemma enqueue_batch_cases:
  assumes "enqueue_batch marshal enq e ios b new (m, q) = (err, out, ios', m', q')"
  shows "out = [] \<and> m' = m \<and> err \<noteq> None \<or>
    out = [b] \<and> commit_state m new m' \<and> (err = None \<longrightarrow> mt_txn_file m' = None \<and> mt_state m' = new)"
  using assms finish_txn_commits
  by (fastforce simp: enqueue_batch_def split: option.splits prod.splits sum.splits)

lemma recoverLocked_cases:
  assumes "recoverLocked marshal enq e ios (m, q) = (err, out, ios', m', q')"
  shows "out = [] \<and> m' = m \<and> (err = None \<longrightarrow> mt_txn_file m = None) \<or>
    (\<exists>txn. mt_txn_file m = Some (Some txn) \<and> out = [tx_Batch txn] \<and> commit_state m (tx_NewState txn) m' \<and>
       (err = None \<longrightarrow> mt_txn_file m' = None \<and> mt_state m' = tx_NewState txn))"
  using assms
  by (auto simp: recoverLocked_def split: option.splits if_splits prod.splits dest: enqueue_batch_cases)

lemma commit_batch_cases:
  assumes "commit_batch marshal enq e ios b new (m, q) = (err, out, ios', m', q')"
    and "txn = \<lparr>tx_Version = stateVersion, tx_Batch = b, tx_NewState = new\<rparr>"
  shows "out = [] \<and> err \<noteq> None \<and> (m' = m \<or> m' = m\<lparr>mt_txn_file := Some (Some txn)\<rparr>) \<or>
    out = [b] \<and> commit_state (m\<lparr>mt_txn_file := Some (Some txn)\<rparr>) new m' \<and>
      (err = None \<longrightarrow> mt_txn_file m' = None \<and> mt_state m' = new)"
proof -
  obtain r1 ios1 where io: "take_io ios = (r1, ios1)" by fastforce
  show ?thesis
  proof (cases r1)
    case IoOk
    then have "enqueue_batch marshal enq e ios1 b new (m\<lparr>mt_txn_file := Some (Some txn)\<rparr>, q) = (err, out, ios', m', q')"
      using assms io by (simp add: commit_batch_def)
    from enqueue_batch_cases [OF this] show ?thesis by blast
  qed (use assms io in \<open>auto simp: commit_batch_def Let_def\<close>)
qed

lemma meter_Observe_cases:
  assumes "meter_Observe marshal enq cfg sn as e e' ios ids (m, q) = (r, out, m', q')"
  shows "\<exists>err out0 ios0 m0 q0. recoverLocked marshal enq e ios (m, q) = (err, out0, ios0, m0, q0) \<and>
    (out = out0 \<and> m' = m0 \<or>
     err = None \<and> (\<exists>b new err' out' ios'. observe_batch cfg sn as ids (mt_state m0) = Inr (Some (b, new)) \<and>
       commit_batch marshal enq e' ios0 b new (m0, q0) = (err', out', ios', m', q') \<and> out = out0 @ out'))"
  using assms unfolding meter_Observe_def
  by (auto split: prod.splits option.splits sum.splits)

lemma follows_restart:
  assumes "follows cfg log ds up m" "meter_Open cfg ios m = (err, m')"
  shows "follows cfg log ds (err = None) m'"
proof -
  obtain used st prev us where f: "ledger cfg log used st prev" "linked cfg up m st prev us" "subseq (used @ us) ds"
    using assms(1) by (auto simp: follows_def)
  have "linked cfg (err = None) m' st prev us"
  proof (cases "mt_state_file m")
    case None
    then have "mt_txn_file m = None" "st = fresh_state" "us = []"
      using f(2) by (auto simp: linked_def settled_def split: option.splits)
    then show ?thesis
      using assms(2) None
      by (auto simp: meter_Open_def meter_load_def linked_def settled_def file_ok_def Let_def
          split: if_splits prod.splits dest!: atomicJSON_cases)
  next
    case (Some c)
    then obtain st0 where c: "c = Some st0" "state_ok st0" using f(2) by (auto simp: linked_def file_ok_def)
    then have "mt_state_file m' = mt_state_file m \<and> mt_txn_file m' = mt_txn_file m \<and> (err = None \<longrightarrow> mt_state m' = st0)"
      using assms(2) Some by (auto simp: meter_Open_def meter_load_def state_ok_def Let_def split: if_splits prod.splits)
    then show ?thesis
      using f(2) Some c by (auto simp: linked_def settled_def file_ok_def split: option.splits)
  qed
  then show ?thesis using f by (intro followsI)
qed

text \<open>A finished or interrupted transaction, seen from the ledger.\<close>

lemma linked_commit:
  assumes "commit_state m (tx_NewState txn) m'" "mt_txn_file m = Some (Some txn)" "txn_ok txn" "file_ok m"
    and "mt_state_file m \<noteq> None"
  shows "linked cfg True m' (tx_NewState txn) (Some (tx_Batch txn)) []"
  using assms by (auto simp: commit_state_def linked_def settled_def file_ok_def txn_ok_def)

lemma ledger_pending:
  assumes "ledger cfg log used st prev" "pending cfg txn st us"
  shows "ledger cfg (log @ [tx_Batch txn]) (used @ us) (tx_NewState txn) (Some (tx_Batch txn))"
proof -
  obtain sn as ids where "observe_batch cfg sn as ids st = Inr (Some (tx_Batch txn, tx_NewState txn))" "us = drawn ids"
    using assms(2) by (auto simp: pending_def)
  then show ?thesis using ledger_new [OF assms(1)] by simp
qed

lemma follows_recover:
  assumes "follows cfg log ds True m" "recoverLocked marshal enq e ios (m, q) = (err, out, ios', m', q')"
  shows "follows cfg (log @ out) ds True m' \<and> (err = None \<longrightarrow> mt_txn_file m' = None)"
proof -
  obtain used st prev us where f: "ledger cfg log used st prev" "linked cfg True m st prev us" "subseq (used @ us) ds"
    using assms(1) by (auto simp: follows_def)
  from recoverLocked_cases [OF assms(2)] show ?thesis
  proof (elim disjE exE conjE)
    assume "out = []" "m' = m" "err = None \<longrightarrow> mt_txn_file m = None"
    then show ?thesis using assms(1) by simp
  next
    fix txn
    assume t: "mt_txn_file m = Some (Some txn)" "out = [tx_Batch txn]" "commit_state m (tx_NewState txn) m'"
      and e: "err = None \<longrightarrow> mt_txn_file m' = None \<and> mt_state m' = tx_NewState txn"
    have l: "txn_ok txn" "file_ok m" "mt_state_file m \<noteq> None"
      "pending cfg txn st us \<or> st = tx_NewState txn \<and> prev = Some (tx_Batch txn) \<and> us = []"
      using f(2) t(1) by (auto simp: linked_def)
    have "ledger cfg (log @ out) (used @ us) (tx_NewState txn) (Some (tx_Batch txn))"
      using l(4) ledger_pending [OF f(1)] ledger_repeat f(1) t(2) by fastforce
    moreover have "linked cfg True m' (tx_NewState txn) (Some (tx_Batch txn)) []"
      using linked_commit [OF t(3,1) l(1-3)] .
    ultimately have "follows cfg (log @ out) ds True m'" using followsI f(3) by fastforce
    then show ?thesis using e by simp
  qed
qed

lemma follows_commit:
  assumes "follows cfg log ds True m" "mt_txn_file m = None" "mt_state_file m \<noteq> None"
    and "observe_batch cfg sn as ids (mt_state m) = Inr (Some (b, new))"
    and "commit_batch marshal enq e ios b new (m, q) = (err, out, ios', m', q')"
  shows "follows cfg (log @ out) (ds @ drawn ids) True m'"
proof -
  obtain used st prev us where f: "ledger cfg log used st prev" "linked cfg True m st prev us" "subseq (used @ us) ds"
    using assms(1) by (auto simp: follows_def)
  define txn where "txn = \<lparr>tx_Version = stateVersion, tx_Batch = b, tx_NewState = new\<rparr>"
  have s: "settled True m st" "us = []" "state_ok st" "file_ok m" "mt_state m = st"
    using f(2) assms(2) by (auto simp: linked_def settled_def)
  have ok: "txn_ok txn"
    using observe_batch_ok [OF assms(4)] s by (simp add: txn_ok_def txn_def)
  have p: "pending cfg txn st (drawn ids)" using assms(4) s(5) by (auto simp: pending_def txn_def)
  have sub: "subseq (used @ drawn ids) (ds @ drawn ids)" "subseq used (ds @ drawn ids)"
    using f(3) s(2) by (auto intro: list_emb_append_mono subseq_order.trans)
  let ?m = "m\<lparr>mt_txn_file := Some (Some txn)\<rparr>"
  have lt: "linked cfg True ?m st prev (drawn ids)"
    using s ok p assms(3) by (auto simp: linked_def settled_def file_ok_def)
  from commit_batch_cases [OF assms(5) txn_def] show ?thesis
  proof (elim disjE conjE)
    assume "out = []" "m' = m"
    then show ?thesis using followsI [OF f(1,2), of "ds @ drawn ids"] s(2) sub by simp
  next
    assume "out = []" "m' = ?m"
    then show ?thesis using followsI [OF f(1) lt sub(1)] by simp
  next
    assume "out = [b]" and c: "commit_state ?m new m'"
    have "ledger cfg (log @ [tx_Batch txn]) (used @ drawn ids) (tx_NewState txn) (Some (tx_Batch txn))"
      using ledger_pending [OF f(1) p] .
    moreover have "linked cfg True m' (tx_NewState txn) (Some (tx_Batch txn)) []"
      by (rule linked_commit [of ?m]) (use c ok s assms(3) in \<open>auto simp: txn_def file_ok_def\<close>)
    ultimately have "follows cfg (log @ [tx_Batch txn]) (ds @ drawn ids) True m'"
      using sub by (intro followsI) auto
    then show ?thesis using \<open>out = [b]\<close> by (simp add: txn_def)
  qed
qed

lemma follows_weaken: "follows cfg log ds up m \<Longrightarrow> follows cfg log (ds @ es) up m"
  unfolding follows_def by (meson subseq_rev_drop_many)

lemma follows_up_file: "follows cfg log ds True m \<Longrightarrow> mt_state_file m \<noteq> None"
  by (auto simp: follows_def linked_def settled_def split: option.splits)

lemma follows_observe:
  assumes "follows cfg log ds True m"
    and "meter_Observe marshal enq cfg sn as e e' ios ids (m, q) = (r, out, m', q')"
  shows "follows cfg (log @ out) (ds @ drawn ids) True m'"
proof -
  obtain err out0 ios0 m0 q0 where rec: "recoverLocked marshal enq e ios (m, q) = (err, out0, ios0, m0, q0)"
    and rest: "out = out0 \<and> m' = m0 \<or>
     err = None \<and> (\<exists>b new err' out' ios'. observe_batch cfg sn as ids (mt_state m0) = Inr (Some (b, new)) \<and>
       commit_batch marshal enq e' ios0 b new (m0, q0) = (err', out', ios', m', q') \<and> out = out0 @ out')"
    using meter_Observe_cases [OF assms(2)] by blast
  have f: "follows cfg (log @ out0) ds True m0" "err = None \<longrightarrow> mt_txn_file m0 = None"
    using follows_recover [OF assms(1) rec] by auto
  from rest show ?thesis
  proof (elim disjE conjE exE)
    assume "out = out0" "m' = m0"
    then show ?thesis using f(1) follows_weaken by simp
  next
    fix b new err' out' ios'
    assume "err = None" and ob: "observe_batch cfg sn as ids (mt_state m0) = Inr (Some (b, new))"
      and cb: "commit_batch marshal enq e' ios0 b new (m0, q0) = (err', out', ios', m', q')" and "out = out0 @ out'"
    then show ?thesis
      using follows_commit [OF f(1) _ follows_up_file [OF f(1)] ob cb] f(2) by simp
  qed
qed

lemma follows_step:
  assumes "follows cfg log ds (sys_up s) (sys_meter s)" "meter_step marshal enq cfg a s = (out, s')"
  shows "follows cfg (log @ out) (ds @ op_ids a) (sys_up s') (sys_meter s')"
proof (cases a)
  case (MRestart ios)
  then show ?thesis using assms follows_restart by (auto split: prod.splits)
next
  case (MRecover e ios)
  then show ?thesis
    using assms follows_recover [of cfg log ds "sys_meter s" marshal enq e ios "sys_queue s"]
    by (cases "sys_up s") (auto split: prod.splits)
next
  case (MObserve sn as e e' ios ids)
  then show ?thesis
    using assms follows_observe [of cfg log ds "sys_meter s" marshal enq sn as e e' ios ids "sys_queue s"] follows_weaken
    by (cases "sys_up s") (auto split: prod.splits)
qed

lemma follows_run:
  assumes "follows cfg log ds (sys_up s) (sys_meter s)" "meter_run marshal enq cfg as s = (out, s')"
  shows "follows cfg (log @ out) (ds @ concat (map op_ids as)) (sys_up s') (sys_meter s')"
  using assms
proof (induction as arbitrary: s log ds out s')
  case (Cons a as)
  obtain out1 s1 where a: "meter_step marshal enq cfg a s = (out1, s1)" by fastforce
  obtain out2 s2 where r: "meter_run marshal enq cfg as s1 = (out2, s2)" by fastforce
  show ?case using Cons.IH [OF follows_step [OF Cons.prems(1) a] r] Cons.prems(2) a r by simp
qed simp

lemma follows_first_boot: "follows cfg [] [] (sys_up (first_boot q)) (sys_meter (first_boot q))"
  by (rule followsI [OF ledger_start, where us = "[]"]) (simp_all add: linked_def first_boot_def settled_def file_ok_def)

lemma follows_history:
  assumes "meter_run marshal enq cfg as (first_boot q) = (log, s)"
  shows "follows cfg log (concat (map op_ids as)) (sys_up s) (sys_meter s)"
  using follows_run [OF follows_first_boot assms] by simp


subsection \<open>Sequence numbers have no gap\<close>

definition count_from :: "u64 \<Rightarrow> nat \<Rightarrow> u64 list" where
  "count_from w n = map (\<lambda>i. w + 1 + of_nat i) [0 ..< n]"

lemma count_from_Suc: "count_from w (Suc n) = count_from w n @ [w + of_nat (Suc n)]"
  by (simp add: count_from_def)

lemma count_from_add: "count_from w (n + k) = count_from w n @ count_from (w + of_nat n) k"
  by (induction k) (simp_all add: count_from_Suc, simp_all add: count_from_def algebra_simps)

lemma appendUsageRecord_sequence:
  assumes "appendUsageRecord a n t b c (records, st, ids) = Inr (records', st', ids')"
  shows "\<exists>u. records' = records @ [u] \<and> u_Sequence u = ms_NextEventSequence st + 1 \<and>
    ms_NextEventSequence st' = ms_NextEventSequence st + 1"
  using assms
  by (auto simp: appendUsageRecord_def usage_record_def Let_def split: option.splits prod.splits if_splits)

definition events_from :: "u64 \<Rightarrow> collect \<Rightarrow> bool" where
  "events_from w = (\<lambda>(records, st, ids).
     map u_Sequence records = count_from w (length records) \<and> ms_NextEventSequence st = w + of_nat (length records))"

lemma events_from_append:
  assumes "events_from w (records, st, ids)" "appendUsageRecord a n t b c (records, st, ids) = Inr w'"
  shows "events_from w w'"
proof -
  obtain records' st' ids' where w': "w' = (records', st', ids')" by (cases w') auto
  then show ?thesis
    using assms(1) appendUsageRecord_sequence [OF assms(2) [unfolded w']]
    by (auto simp: events_from_def count_from_Suc algebra_simps)
qed

lemma observe_batch_events:
  assumes "observe_batch cfg sn as ids st = Inr (Some (b, st'))"
  shows "map u_Sequence (ub_Events b) = count_from (ms_NextEventSequence st) (length (ub_Events b))"
    "ms_NextEventSequence st' = ms_NextEventSequence st + of_nat (length (ub_Events b))"
proof -
  obtain records ids2 batchID where o:
    "observe_guests cfg sn as (sorted_guests sn)
       ([], (cloneState st)\<lparr>ms_NextBatchSequence := ms_NextBatchSequence st + 1\<rparr>, ids) = Inr (records, st', ids2)"
    "b = make_batch cfg sn batchID (ms_NextBatchSequence st') records"
    using observe_batchE [OF assms(1)] by metis
  have "events_from (ms_NextEventSequence st) (records, st', ids2)"
  proof (rule observe_guests_keeps [OF _ o(1)])
    show "events_from (ms_NextEventSequence st) w'"
      if "events_from (ms_NextEventSequence st) w" "appendUsageRecord a n t b c w = Inr w'" for a n t b c w w'
      using that by (cases w) (auto intro: events_from_append)
  qed (simp add: events_from_def cloneState_def count_from_def)
  then show "map u_Sequence (ub_Events b) = count_from (ms_NextEventSequence st) (length (ub_Events b))"
    "ms_NextEventSequence st' = ms_NextEventSequence st + of_nat (length (ub_Events b))"
    using o(2) by (auto simp: events_from_def make_batch_def)
qed

text \<open>The batches of a history without the repetitions, and their records.\<close>

definition batches :: "usage_batch list \<Rightarrow> usage_batch list" where
  "batches log = remdups_adj log"

definition events :: "usage_batch list \<Rightarrow> usage list" where
  "events log = concat (map ub_Events (batches log))"

lemma batches_snoc:
  "batches (log @ [b]) = batches log @ (if log \<noteq> [] \<and> last log = b then [] else [b])"
  by (cases log rule: rev_cases) (simp_all add: batches_def remdups_adj_append_two)

definition numbered :: "usage_batch list \<Rightarrow> meter_state \<Rightarrow> usage_batch option \<Rightarrow> bool" where
  "numbered log st prev \<longleftrightarrow> state_ok st \<and>
     prev = (if log = [] then None else Some (last log)) \<and>
     (\<forall>b. prev = Some b \<longrightarrow> ub_Sequence b = ms_NextBatchSequence st) \<and>
     map ub_Sequence (batches log) = count_from 0 (length (batches log)) \<and>
     ms_NextBatchSequence st = of_nat (length (batches log)) \<and>
     map u_Sequence (events log) = count_from 0 (length (events log)) \<and>
     ms_NextEventSequence st = of_nat (length (events log))"

lemma ledger_numbered: "ledger cfg log used st prev \<Longrightarrow> numbered log st prev"
proof (induction rule: ledger.induct)
  case ledger_start
  show ?case by (simp add: numbered_def batches_def events_def count_from_def fresh_state_def state_ok_def)
next
  case (ledger_repeat log used st b)
  then have "batches (log @ [b]) = batches log" by (auto simp: numbered_def batches_snoc split: if_splits)
  then show ?case using ledger_repeat by (auto simp: numbered_def events_def split: if_splits)
next
  case (ledger_new log used st prev sn as ids b st')
  have ok: "state_ok st" using ledger_new.IH by (simp add: numbered_def)
  note o = observe_batch_ok [OF ledger_new.hyps(2) ok] observe_batch_events [OF ledger_new.hyps(2)]
  have "\<not> (log \<noteq> [] \<and> last log = b)"
    using ledger_new.IH o(3,4) by (auto simp: numbered_def split: if_splits)
  then have bs: "batches (log @ [b]) = batches log @ [b]" by (auto simp: batches_snoc)
  then have ev: "events (log @ [b]) = events log @ ub_Events b" by (simp add: events_def)
  show ?case using ledger_new.IH o
    by (simp add: numbered_def bs ev count_from_Suc count_from_add add.commute)
qed

subsection \<open>Epochs\<close>

definition usage_key :: "usage \<Rightarrow> string" where
  "usage_key u = u_ClusterRef u @ ''/'' @ u_GuestType u @ ''/'' @ dec_int (u_VMID u) @ ''/'' @
     dec (unat (u_Generation u)) @ (if u_InterfaceRef u \<noteq> [] then ''/'' @ u_InterfaceRef u else [])"

text \<open>\<open>v\<close> continues the counter that \<open>u\<close> observed: the same service, instance, card and source, no smaller counters.\<close>

definition continues :: "usage \<Rightarrow> usage \<Rightarrow> bool" where
  "continues u v \<longleftrightarrow>
     u_ServiceRef u = u_ServiceRef v \<and> u_InstanceUUID u = u_InstanceUUID v \<and> u_Generation u = u_Generation v \<and>
     u_InterfaceRef u = u_InterfaceRef v \<and> u_CanonicalMAC u = u_CanonicalMAC v \<and> u_Source u = u_Source v \<and>
     u_IngressBytes u \<le> u_IngressBytes v \<and> u_EgressBytes u \<le> u_EgressBytes v"

definition covered :: "usage \<Rightarrow> counter_state \<Rightarrow> bool" where
  "covered u p \<longleftrightarrow>
     u_ServiceRef u = cs_ServiceRef p \<and> u_InstanceUUID u = cs_InstanceUUID p \<and> u_Generation u = cs_Generation p \<and>
     u_InterfaceRef u = cs_InterfaceRef p \<and> u_CanonicalMAC u = cs_CanonicalMAC p \<and> u_Source u = cs_Source p \<and>
     u_IngressBytes u \<le> cs_Ingress p \<and> u_EgressBytes u \<le> cs_Egress p"

definition epochs_ok :: "usage list \<Rightarrow> bool" where
  "epochs_ok us \<longleftrightarrow>
     sorted_wrt (\<lambda>u v. usage_key u = usage_key v \<and> u_CounterEpoch u = u_CounterEpoch v \<longrightarrow> continues u v) us"

definition tracked :: "string set \<Rightarrow> usage list \<Rightarrow> meter_state \<Rightarrow> bool" where
  "tracked E us st \<longleftrightarrow> epochs_ok us \<and>
     (\<forall>u \<in> set us. u_CounterEpoch u \<in> E \<and> (\<exists>p. state_counters st (usage_key u) = Some p \<and>
        (u_CounterEpoch u = cs_CounterEpoch p \<longrightarrow> covered u p))) \<and>
     (\<forall>k p. state_counters st k = Some p \<longrightarrow> cs_CounterEpoch p \<in> E)"

definition fresh_supply :: "string set \<Rightarrow> id_supply \<Rightarrow> bool" where
  "fresh_supply E ids \<longleftrightarrow> distinct (drawn ids) \<and> set (drawn ids) \<inter> E = {}"

lemma usage_key_record: "usage_key (usage_record a n t b c ep ev w) = counter_key a c"
  by (simp add: usage_key_def usage_record_def counter_key_def Key_def)

lemma fresh_supply_take:
  assumes "fresh_supply E ids" "take_id ids = (Some x, ids')"
  shows "x \<notin> E" "x \<in> set (drawn ids)" "fresh_supply (insert x E) ids'" "fresh_supply E ids'"
    "set (drawn ids') \<subseteq> set (drawn ids)"
  using assms by (cases ids; auto simp: fresh_supply_def drawn_def)+

text \<open>One more record with epoch \<open>ep\<close>: either the epoch is new, or the counter goes on.\<close>

lemma tracked_add:
  assumes t: "tracked E us st"
    and ep: "ep \<notin> E \<or> (\<exists>p. state_counters st (counter_key a c) = Some p \<and> ep = cs_CounterEpoch p \<and> \<not> new_epoch (Some p) a c)"
    and st': "state_counters st' = (state_counters st)(counter_key a c \<mapsto> counter_record a obs c ep)"
  shows "tracked (insert ep E) (us @ [usage_record a n t' b c ep ev w]) st'"
proof -
  let ?v = "usage_record a n t' b c ep ev w" and ?p = "counter_record a obs c ep"
  have cov: "continues u ?v \<and> covered u ?p"
    if u: "u \<in> set us" and k: "usage_key u = counter_key a c" and e: "u_CounterEpoch u = ep" for u
  proof -
    have "ep \<in> E" using t u e by (auto simp: tracked_def)
    then obtain p where p: "state_counters st (counter_key a c) = Some p" "ep = cs_CounterEpoch p" "\<not> new_epoch (Some p) a c"
      using ep by blast
    then have "covered u p" using t u k e by (auto simp: tracked_def)
    then show ?thesis using p(3)
      by (auto simp: covered_def continues_def new_epoch_def usage_record_def counter_record_def not_less)
  qed
  have self: "covered ?v ?p" "u_CounterEpoch ?v = ep" "cs_CounterEpoch ?p = ep"
    by (simp_all add: covered_def usage_record_def counter_record_def)
  have "epochs_ok (us @ [?v])"
    using t cov self(2) by (auto simp: epochs_ok_def tracked_def sorted_wrt_append usage_key_record)
  then show ?thesis
    using t cov self by (auto simp: tracked_def st' usage_key_record)
qed

lemma state_counters_update [simp]: "state_counters (st\<lparr>ms_NextEventSequence := w, ms_Counters := Some cs\<rparr>) = cs"
  by (simp add: state_counters_def)

lemma appendUsageRecord_shape:
  assumes "appendUsageRecord a n t b c (records, st, ids) = Inr (records', st', ids')"
  shows "\<exists>ep ids1 ev.
    (if new_epoch (state_counters st (counter_key a c)) a c then take_id ids
     else (map_option cs_CounterEpoch (state_counters st (counter_key a c)), ids)) = (Some ep, ids1) \<and>
    take_id ids1 = (Some ev, ids') \<and>
    records' = records @ [usage_record a n t b c ep ev (ms_NextEventSequence st + 1)] \<and>
    state_counters st' = (state_counters st)(counter_key a c \<mapsto> counter_record a t c ep)"
proof -
  define d where "d = (if new_epoch (state_counters st (counter_key a c)) a c then take_id ids
     else (map_option cs_CounterEpoch (state_counters st (counter_key a c)), ids))"
  obtain epo ids1 where d: "d = (epo, ids1)" by (cases d)
  obtain evo ids2 where v: "take_id ids1 = (evo, ids2)" by fastforce
  show ?thesis
    using assms d v unfolding appendUsageRecord_def Let_def split d_def [symmetric]
    by (auto simp: d v split: option.splits)
qed

lemma tracked_append:
  assumes "tracked E (us @ records) st" "fresh_supply E ids"
    and "appendUsageRecord a n t b c (records, st, ids) = Inr (records', st', ids')"
  shows "\<exists>E'. E' \<subseteq> E \<union> set (drawn ids) \<and> tracked E' (us @ records') st' \<and> fresh_supply E' ids' \<and>
    set (drawn ids') \<subseteq> set (drawn ids)"
proof -
  define prev where "prev = state_counters st (counter_key a c)"
  obtain ep ids1 ev where h:
    "(if new_epoch prev a c then take_id ids else (map_option cs_CounterEpoch prev, ids)) = (Some ep, ids1)"
    "take_id ids1 = (Some ev, ids')"
    "records' = records @ [usage_record a n t b c ep ev (ms_NextEventSequence st + 1)]"
    "state_counters st' = (state_counters st)(counter_key a c \<mapsto> counter_record a t c ep)"
    using appendUsageRecord_shape [OF assms(3)] unfolding prev_def by blast
  show ?thesis
  proof (cases "new_epoch prev a c")
    case True
    then have tk: "take_id ids = (Some ep, ids1)" using h(1) by simp
    note f = fresh_supply_take [OF assms(2) tk] fresh_supply_take [OF fresh_supply_take(3) [OF assms(2) tk] h(2)]
    have "tracked (insert ep E) ((us @ records) @ [usage_record a n t b c ep ev (ms_NextEventSequence st + 1)]) st'"
      using tracked_add [OF assms(1) _ h(4)] f(1) by blast
    then show ?thesis using f h(3) by (intro exI [of _ "insert ep E"]) auto
  next
    case False
    then obtain p where p: "prev = Some p" "ep = cs_CounterEpoch p" "ids1 = ids"
      using h(1) by (cases prev) (auto simp: new_epoch_def)
    then have "ep \<in> E" using assms(1) by (auto simp: tracked_def prev_def)
    then have "tracked E ((us @ records) @ [usage_record a n t b c ep ev (ms_NextEventSequence st + 1)]) st'"
      using tracked_add [OF assms(1) _ h(4)] p False by (auto simp: prev_def insert_absorb)
    then show ?thesis using fresh_supply_take [OF assms(2)] h(2,3) p(3) by (intro exI [of _ E]) auto
  qed
qed

definition supplied :: "string set \<Rightarrow> string set \<Rightarrow> usage list \<Rightarrow> usage list \<Rightarrow> meter_state \<Rightarrow> id_supply \<Rightarrow> bool" where
  "supplied E D us records st ids \<longleftrightarrow>
     (\<exists>E'. E' \<subseteq> E \<union> D \<and> tracked E' (us @ records) st \<and> fresh_supply E' ids \<and> set (drawn ids) \<subseteq> D)"

lemma supplied_append:
  assumes "supplied E D us records st ids"
    and "appendUsageRecord a n t b c (records, st, ids) = Inr (records', st', ids')"
  shows "supplied E D us records' st' ids'"
proof -
  obtain E' where E': "E' \<subseteq> E \<union> D" "tracked E' (us @ records) st" "fresh_supply E' ids" "set (drawn ids) \<subseteq> D"
    using assms(1) unfolding supplied_def by blast
  obtain E'' where "E'' \<subseteq> E' \<union> set (drawn ids)" "tracked E'' (us @ records') st'" "fresh_supply E'' ids'"
    "set (drawn ids') \<subseteq> set (drawn ids)"
    using tracked_append [OF E'(2,3) assms(2)] by blast
  then show ?thesis unfolding supplied_def using E'(1,4) by (intro exI [of _ E'']) auto
qed

lemma tracked_batch:
  assumes "observe_batch cfg sn as ids st = Inr (Some (b, st'))" "tracked E us st" "fresh_supply E ids"
  shows "\<exists>E'. E' \<subseteq> E \<union> set (drawn ids) \<and> tracked E' (us @ ub_Events b) st'"
proof -
  let ?P = "\<lambda>(records, st, ids'). supplied E (set (drawn ids)) us records st ids'"
  obtain records ids2 batchID where o:
    "observe_guests cfg sn as (sorted_guests sn)
       ([], (cloneState st)\<lparr>ms_NextBatchSequence := ms_NextBatchSequence st + 1\<rparr>, ids) = Inr (records, st', ids2)"
    "b = make_batch cfg sn batchID (ms_NextBatchSequence st') records"
    using observe_batchE [OF assms(1)] by metis
  have "?P (records, st', ids2)"
  proof (rule observe_guests_keeps [where P = ?P, OF _ o(1)])
    show "?P w'" if "?P w" "appendUsageRecord a n t b c w = Inr w'" for a n t b c w w'
      using that by (cases w; cases w') (auto intro: supplied_append)
    have "state_counters ((cloneState st)\<lparr>ms_NextBatchSequence := ms_NextBatchSequence st + 1\<rparr>) = state_counters st"
      by (auto simp: state_counters_def cloneState_def split: option.splits)
    then have "tracked E us ((cloneState st)\<lparr>ms_NextBatchSequence := ms_NextBatchSequence st + 1\<rparr>)"
      using assms(2) by (simp add: tracked_def)
    then show "?P ([], (cloneState st)\<lparr>ms_NextBatchSequence := ms_NextBatchSequence st + 1\<rparr>, ids)"
      using assms(3) by (auto simp: supplied_def)
  qed
  then show ?thesis using o(2) by (auto simp: supplied_def make_batch_def)
qed

lemma ledger_tracked:
  "ledger cfg log used st prev \<Longrightarrow> distinct used \<Longrightarrow> \<exists>E. E \<subseteq> set used \<and> tracked E (events log) st"
proof (induction rule: ledger.induct)
  case ledger_start
  show ?case by (simp add: tracked_def epochs_ok_def events_def batches_def state_counters_def fresh_state_def)
next
  case (ledger_repeat log used st b)
  have "batches (log @ [b]) = batches log"
    using ledger_numbered [OF ledger_repeat.hyps] by (auto simp: numbered_def batches_snoc split: if_splits)
  then show ?case using ledger_repeat by (simp add: events_def)
next
  case (ledger_new log used st prev sn as ids b st')
  obtain E where E: "E \<subseteq> set used" "tracked E (events log) st" using ledger_new by auto
  have "fresh_supply E ids" using ledger_new.prems E(1) by (auto simp: fresh_supply_def)
  then obtain E' where E': "E' \<subseteq> E \<union> set (drawn ids)" "tracked E' (events log @ ub_Events b) st'"
    using tracked_batch [OF ledger_new.hyps(2) E(2)] by blast
  have n: "numbered log st prev" using ledger_numbered [OF ledger_new.hyps(1)] .
  then have "\<not> (log \<noteq> [] \<and> last log = b)"
    using observe_batch_ok(3,4) [OF ledger_new.hyps(2)] by (auto simp: numbered_def split: if_splits)
  then have "events (log @ [b]) = events log @ ub_Events b" by (auto simp: events_def batches_snoc)
  then show ?case using E' E(1) by auto
qed

end
