(* ===== verification/Meter_Guarantees.thy ===== *)
theory Meter_Guarantees
  imports Meter_Ledger
begin

section \<open>What the consumer of usage batches can rely on\<close>

text \<open>
  The properties of the meter, each over every history of crashes and failures or over every
  observation: the histories are those of the ledger, sequence numbers have no gap, counters grow
  within an epoch, active billing follows the assignment, the counters are those of the host's
  interfaces, and an interrupted transaction is completed.
\<close>

subsection \<open>Counters of one guest\<close>

lemma CounterText_denotes:
  assumes "parse_counter v = Some w"
  shows "v_present v \<and> denotes (v_Raw v) (unat w)"
proof -
  obtain t where t: "CounterText v = Some t" "parse_uint t = Some w"
    using assms by (auto simp: parse_counter_def split: option.splits)
  then obtain n where n: "denotes (v_Raw v) n" "n < 2 ^ 64" "t = dec n"
    using canonical_unsigned_iff by (auto simp: CounterText_def split: if_splits)
  then have "w = of_nat n" using t(2) by (simp add: parse_uint_def dec_digits)
  then have "unat w = n" using n(2) by (simp add: unat_of_nat take_bit_nat_eq_self)
  then show ?thesis using n(1) t(1) by (auto simp: CounterText_def split: if_splits)
qed

text \<open>The counter of a metered binding: the card with the expected MAC, the host device of the guest, the exact texts.\<close>

definition nic_exact :: "interface_obs list \<Rightarrow> guest \<Rightarrow> nic \<Rightarrow> nic_counter \<Rightarrow> bool" where
  "nic_exact host g b c \<longleftrightarrow>
     nc_InterfaceRef c = nb_Interface b \<and> nc_CanonicalMAC c = to_upper (nb_ExpectedMAC b) \<and>
     nc_Role c = nb_Role b \<and> nc_Source c = ''pve-host-netdev'' \<and>
     (\<exists>network item.
        last_entry nw_Interface (g_Networks g) (nb_Interface b) = Some network \<and>
        equal_fold (nw_MAC network) (nb_ExpectedMAC b) \<and>
        last_entry if_Device host (device_name g (nw_Index network)) = Some item \<and>
        denotes (v_Raw (if_TransmitBytes item)) (unat (nc_Ingress c)) \<and>
        denotes (v_Raw (if_ReceiveBytes item)) (unat (nc_Egress c)))"

lemma resolve_binding_exact: "resolve_binding host g b = Some c \<Longrightarrow> nic_exact host g b c"
  by (auto simp: resolve_binding_def nic_exact_def split: option.splits if_splits dest!: CounterText_denotes)

lemma resolve_bindings_exact:
  "resolve_bindings host g bs = Some cs \<Longrightarrow> list_all2 (nic_exact host g) (filter nb_Metered bs) cs"
  by (induction bs arbitrary: cs) (auto split: if_splits option.splits dest: resolve_binding_exact)

lemma per_nic_source:
  assumes "resolvePerNICCounters sn g a = Some cs" "c \<in> set cs"
  shows "nc_Source c = ''pve-host-netdev''"
  using assms resolve_bindings_exact
  by (fastforce simp: resolvePerNICCounters_def nic_exact_def in_set_conv_nth list_all2_conv_all_nth
      split: option.splits if_splits)

lemma guest_counters_cases:
  assumes "c \<in> set (snd (guest_counters cfg sn g a))"
  shows "(\<exists>cs. resolvePerNICCounters sn g a = Some cs \<and> c \<in> set cs \<and> nc_Source c = ''pve-host-netdev'' \<and>
      fst (guest_counters cfg sn g a) = billing_state cfg sn a) \<or>
    resolvePerNICCounters sn g a = None \<and> g_IngressBytes g = Some (nc_Ingress c) \<and> g_EgressBytes g = Some (nc_Egress c) \<and>
      g_Available g \<and> nc_Source c = ''pve-cluster-resources'' \<and>
      fst (guest_counters cfg sn g a) =
        (if \<not> cap_Supported (AggregateMeteringCapability a) then ''shadow'' else billing_state cfg sn a)"
  using assms per_nic_source by (auto simp: guest_counters_def split: option.splits if_splits)

lemma billing_state_active:
  "billing_state cfg sn a = ''active'' \<longleftrightarrow>
     mc_Mode cfg = ''production'' \<and> as_BillingState a = ''active'' \<and>
     (\<exists>t. as_CutoverAt a = Some t \<and> \<not> before (sn_ObservedAt sn) t)"
  by (auto simp: billing_state_def split: option.splits)

text \<open>What one record says of the guest it was taken from.\<close>

definition billed_right :: "meter_config \<Rightarrow> snapshot \<Rightarrow> asn_store \<Rightarrow> usage \<Rightarrow> bool" where
  "billed_right cfg sn as u \<longleftrightarrow>
     (\<exists>g a. g \<in> set (sn_Guests sn) \<and> \<not> g_Template g \<and>
        Lookup as (mc_ClusterRef cfg) (g_GuestType g) (g_VMID g) = Some a \<and> as_BillingState a \<noteq> ''disabled'' \<and>
        u_ServiceRef u = as_ServiceRef a \<and> u_InstanceUUID u = as_InstanceUUID a \<and>
        u_Generation u = as_Generation a \<and> u_VMID u = as_VMID a \<and> u_GuestType u = as_GuestType a \<and>
        (u_BillingState u = ''active'' \<longleftrightarrow>
           mc_Mode cfg = ''production'' \<and> as_BillingState a = ''active'' \<and>
           (\<exists>t. as_CutoverAt a = Some t \<and> \<not> before (sn_ObservedAt sn) t) \<and>
           (u_Source u = ''pve-host-netdev'' \<or> cap_Supported (AggregateMeteringCapability a))) \<and>
        (case resolvePerNICCounters sn g a of
           Some cs \<Rightarrow> u_Source u = ''pve-host-netdev'' \<and>
             (u_InterfaceRef u, u_IngressBytes u, u_EgressBytes u) \<in> (\<lambda>c. (nc_InterfaceRef c, nc_Ingress c, nc_Egress c)) ` set cs
         | None \<Rightarrow> u_Source u = ''pve-cluster-resources'' \<and> g_Available g \<and>
             g_IngressBytes g = Some (u_IngressBytes u) \<and> g_EgressBytes g = Some (u_EgressBytes u)))"

lemma meters_billed_right:
  assumes m: "meters cfg sn as gs g a b c" and gs: "set gs = set (sn_Guests sn)"
  shows "billed_right cfg sn as (usage_record a n t b c ep ev w)"
proof -
  let ?u = "usage_record a n t b c ep ev w"
  have g: "g \<in> set (sn_Guests sn)" "\<not> g_Template g" "Lookup as (mc_ClusterRef cfg) (g_GuestType g) (g_VMID g) = Some a"
    "as_BillingState a \<noteq> ''disabled''" "b = fst (guest_counters cfg sn g a)" "c \<in> set (snd (guest_counters cfg sn g a))"
    using assms by (auto simp: meters_def)
  have "(u_BillingState ?u = ''active'' \<longleftrightarrow>
           mc_Mode cfg = ''production'' \<and> as_BillingState a = ''active'' \<and>
           (\<exists>t. as_CutoverAt a = Some t \<and> \<not> before (sn_ObservedAt sn) t) \<and>
           (u_Source ?u = ''pve-host-netdev'' \<or> cap_Supported (AggregateMeteringCapability a))) \<and>
        (case resolvePerNICCounters sn g a of
           Some cs \<Rightarrow> u_Source ?u = ''pve-host-netdev'' \<and>
             (u_InterfaceRef ?u, u_IngressBytes ?u, u_EgressBytes ?u) \<in> (\<lambda>c. (nc_InterfaceRef c, nc_Ingress c, nc_Egress c)) ` set cs
         | None \<Rightarrow> u_Source ?u = ''pve-cluster-resources'' \<and> g_Available g \<and>
             g_IngressBytes g = Some (u_IngressBytes ?u) \<and> g_EgressBytes g = Some (u_EgressBytes ?u))"
    using guest_counters_cases [OF g(6)]
    by (elim disjE exE conjE) (auto simp: usage_record_def g(5) billing_state_active split: if_splits)
  moreover have "u_ServiceRef ?u = as_ServiceRef a" "u_InstanceUUID ?u = as_InstanceUUID a"
    "u_Generation ?u = as_Generation a" "u_VMID ?u = as_VMID a" "u_GuestType ?u = as_GuestType a"
    by (simp_all add: usage_record_def)
  ultimately show ?thesis unfolding billed_right_def using g(1-4) by (intro exI [of _ g] exI [of _ a]) simp
qed


lemma observe_batch_billed_right:
  assumes "observe_batch cfg sn as ids st = Inr (Some (b, st'))" "u \<in> set (ub_Events b)"
  shows "billed_right cfg sn as u"
proof -
  let ?P = "\<lambda>(records, st, ids). \<forall>u \<in> set records. billed_right cfg sn as u"
  obtain records ids2 batchID where o:
    "observe_guests cfg sn as (sorted_guests sn)
       ([], (cloneState st)\<lparr>ms_NextBatchSequence := ms_NextBatchSequence st + 1\<rparr>, ids) = Inr (records, st', ids2)"
    "b = make_batch cfg sn batchID (ms_NextBatchSequence st') records"
    using observe_batchE [OF assms(1)] by metis
  have "?P (records, st', ids2)"
  proof (rule observe_guests_keeps [where P = ?P, OF _ o(1)])
    show "?P w'" if m: "meters cfg sn as (sorted_guests sn) g a b c" and p: "?P w" and ap: "appendUsageRecord a n t b c w = Inr w'"
      for g a n t b c w w'
    proof -
      obtain r s i where w: "w = (r, s, i)" by (cases w)
      obtain r' s' i' where w': "w' = (r', s', i')" by (cases w')
      obtain ep ev where "r' = r @ [usage_record a n t b c ep ev (ms_NextEventSequence s + 1)]"
        using appendUsageRecord_shape [of a n t b c r s i r' s' i'] ap w w' by blast
      then show ?thesis using p w w' meters_billed_right [OF m] by (auto simp: sorted_guests_def)
    qed
  qed simp
  then show ?thesis using assms(2) o(2) by (auto simp: make_batch_def)
qed

subsection \<open>Completion of a transaction through the outbox interface\<close>

lemma finish_txn_clean:
  "finish_txn [] new m = (None, [], m\<lparr>mt_state_file := Some (Some new), mt_state := new, mt_txn_file := None\<rparr>)"
  by (simp add: finish_txn_def)

context outbox
begin

lemma recover_settles:
  assumes "inv q" "txn_ok txn" "mt_txn_file m = Some (Some txn)"
    and "marshal (tx_Batch txn) = Some p" "enq e (ub_BatchID (tx_Batch txn)) p q = (Inr r, q')"
  shows "recoverLocked marshal enq e [] (m, q) =
      (None, [tx_Batch txn], [], m\<lparr>mt_state_file := Some (Some (tx_NewState txn)), mt_state := tx_NewState txn,
         mt_txn_file := None\<rparr>, q')"
    and "holds q' (ub_BatchID (tx_Batch txn))"
proof -
  show "recoverLocked marshal enq e [] (m, q) =
      (None, [tx_Batch txn], [], m\<lparr>mt_state_file := Some (Some (tx_NewState txn)), mt_state := tx_NewState txn,
         mt_txn_file := None\<rparr>, q')"
    using assms by (simp add: recoverLocked_def enqueue_batch_def finish_txn_clean txn_ok_def state_ok_def)
  obtain i f where "r = (i, f)" by (cases r)
  then show "holds q' (ub_BatchID (tx_Batch txn))" using enq_accepts [OF assms(1)] assms(5) by blast
qed

end

definition config_ok :: "meter_config \<Rightarrow> bool" where
  "config_ok cfg \<longleftrightarrow> mc_Directory cfg \<noteq> [] \<and> mc_AgentRef cfg \<noteq> [] \<and> mc_CollectorRef cfg \<noteq> [] \<and>
     mc_SourceRef cfg \<noteq> [] \<and> mc_ClusterRef cfg \<noteq> [] \<and> (mc_Mode cfg = ''test'' \<or> mc_Mode cfg = ''production'')"

lemma follows_open_clean:
  assumes "follows cfg log ds up m" "config_ok cfg"
  shows "\<exists>m'. meter_Open cfg [] m = (None, m') \<and> mt_txn_file m' = mt_txn_file m"
proof -
  have "file_ok m" using assms(1) by (auto simp: follows_def linked_def)
  then show ?thesis
    using assms(2)
    by (auto simp: meter_Open_def meter_load_def config_ok_def file_ok_def state_ok_def split: option.splits)
qed

lemma follows_txn_ok:
  "follows cfg log ds up m \<Longrightarrow> mt_txn_file m = Some c \<Longrightarrow> \<exists>txn. c = Some txn \<and> txn_ok txn"
  by (auto simp: follows_def linked_def)

lemma follows_settled:
  "follows cfg log ds True m \<Longrightarrow> mt_txn_file m = None \<Longrightarrow> mt_state_file m = Some (Some (mt_state m))"
  by (auto simp: follows_def linked_def settled_def)

text \<open>The meter on the persistent queue.\<close>

definition queue_enq :: "(string \<Rightarrow> string) \<Rightarrow> gotime \<times> io list \<Rightarrow> string \<Rightarrow> bytes \<Rightarrow> queue \<Rightarrow> (q_error + item \<times> bool) \<times> queue" where
  "queue_enq h = (\<lambda>(now, ios) b p q. Enqueue h now ios b p q)"

lemma queue_recover_settles:
  assumes "never_evicts q" "txn_ok txn" "mt_txn_file m = Some (Some txn)"
    and "marshal (tx_Batch txn) = Some p" "queue_enq h e (ub_BatchID (tx_Batch txn)) p q = (Inr r, q')"
  shows "recoverLocked marshal (queue_enq h) e [] (m, q) =
      (None, [tx_Batch txn], [], m\<lparr>mt_state_file := Some (Some (tx_NewState txn)), mt_state := tx_NewState txn,
         mt_txn_file := None\<rparr>, q') \<and> queue_holds q' (ub_BatchID (tx_Batch txn))"
  using mq.recover_settles [where q = q and txn = txn and m = m and marshal = marshal and p = p and h = h and e = e
      and r = r and q' = q'] assms
  unfolding queue_enq_def by blast

subsection \<open>An example\<close>

definition ex_card :: nic where
  "ex_card = \<lparr>nb_Interface = ''net0'', nb_Role = ''public'', nb_Primary = True, nb_Metered = True, nb_Monitoring = True,
     nb_ExpectedMAC = ''02:00:00:00:00:0a'', nb_Bridge = ''vmbr0'', nb_VNet = [], nb_VLAN = None, nb_MTU = None,
     nb_IPFilterPolicy = ''required''\<rparr>"

definition ex_metered :: assignment where
  "ex_metered = \<lparr>as_ServiceRef = ''svc-1'', as_ClusterRef = ''cl-1'', as_NodeRef = ''pve-1'', as_VMID = 101,
     as_Generation = 1, as_InstanceUUID = ''inst-1'', as_GuestType = ''qemu'', as_BillingState = ''active'',
     as_CutoverAt = Some (GoTime 5 UTC), as_NICBindings = [ex_card]\<rparr>"

definition ex_assigned :: asn_store where
  "ex_assigned = Replace \<lparr>ad_SchemaVersion = 1, ad_Revision = ''r1'', ad_IssuedAt = GoTime 1 UTC, ad_AllowedActions = None,
     ad_Assignments = [ex_metered]\<rparr>"

definition ex_config :: meter_config where
  "ex_config = \<lparr>mc_Directory = ''/var/meter'', mc_Mode = ''production'', mc_AgentRef = ''agent'', mc_CollectorRef = ''coll'',
     mc_SourceRef = ''src'', mc_ClusterRef = ''cl-1''\<rparr>"

definition ex_guest :: "u64 \<Rightarrow> u64 \<Rightarrow> guest" where
  "ex_guest i e = \<lparr>g_VMID = 101, g_GuestType = ''qemu'', g_Node = ''pve-1'', g_Template = False, g_Available = True,
     g_IngressBytes = Some i, g_EgressBytes = Some e, g_Networks = [\<lparr>nw_Index = 0, nw_Interface = ''net0'', nw_MAC = ''02:00:00:00:00:0A''\<rparr>]\<rparr>"

definition ex_snapshot :: "u64 \<Rightarrow> u64 \<Rightarrow> snapshot" where
  "ex_snapshot i e = \<lparr>sn_ObservedAt = GoTime 10 UTC, sn_Guests = [ex_guest i e], sn_Host = None\<rparr>"

definition ex_host :: "interface_obs list" where
  "ex_host = [\<lparr>if_Device = ''tap101i0'', if_ReceiveBytes = \<lparr>v_present = True, v_Raw = ''1.5e3''\<rparr>,
     if_TransmitBytes = \<lparr>v_present = True, v_Raw = ''42''\<rparr>\<rparr>]"

lemmas ex_meter_defs = ex_card_def ex_metered_def ex_assigned_def ex_config_def ex_guest_def ex_snapshot_def ex_host_def

lemma ex_assigned_lookup: "Lookup ex_assigned ''cl-1'' ''qemu'' 101 = Some ex_metered"
  by (simp add: Lookup_def ex_assigned_def Replace_def PVEKey_def) (simp add: ex_metered_def)

lemma ex_batch:
  "\<exists>b st'. observe_batch ex_config (ex_snapshot 7 9) ex_assigned [Some ''ep'', Some ''e1'', Some ''b1''] fresh_state = Inr (Some (b, st')) \<and>
     map u_BillingState (ub_Events b) = [''active''] \<and> map u_IngressBytes (ub_Events b) = [7]"
proof -
  have l: "Lookup ex_assigned (mc_ClusterRef ex_config) ''qemu'' 101 = Some ex_metered" using ex_assigned_lookup by (simp add: ex_config_def)
  have g: "guest_counters ex_config (ex_snapshot 7 9) (ex_guest 7 9) ex_metered =
      (''active'', [\<lparr>nc_InterfaceRef = [], nc_CanonicalMAC = [], nc_Role = [], nc_Source = ''pve-cluster-resources'',
         nc_Ingress = 7, nc_Egress = 9\<rparr>])"
    by (simp add: guest_counters_def resolvePerNICCounters_def ex_meter_defs billing_state_def before_def
        AggregateMeteringCapability_def)
  have o: "observe_guest ex_config (ex_snapshot 7 9) ex_assigned (ex_guest 7 9) w =
      append_counters ex_metered ''pve-1'' (GoTime 10 UTC) ''active''
        [\<lparr>nc_InterfaceRef = [], nc_CanonicalMAC = [], nc_Role = [], nc_Source = ''pve-cluster-resources'',
         nc_Ingress = 7, nc_Egress = 9\<rparr>] w" for w
  proof -
    have "g_GuestType (ex_guest 7 9) = ''qemu''" "g_VMID (ex_guest 7 9) = 101" "\<not> g_Template (ex_guest 7 9)"
      "as_BillingState ex_metered \<noteq> ''disabled''" "as_NodeRef ex_metered = ''pve-1''" "sn_ObservedAt (ex_snapshot 7 9) = GoTime 10 UTC"
      by (simp_all add: ex_guest_def ex_metered_def ex_snapshot_def)
    then show ?thesis using l g by (simp add: observe_guest_def)
  qed
  have "sorted_guests (ex_snapshot 7 9) = [ex_guest 7 9]" "sn_ObservedAt (ex_snapshot 7 9) = GoTime 10 UTC"
    by (simp_all add: sorted_guests_def ex_snapshot_def)
  then have "observe_guests ex_config (ex_snapshot 7 9) ex_assigned (sorted_guests (ex_snapshot 7 9)) w =
      append_counters ex_metered ''pve-1'' (GoTime 10 UTC) ''active''
        [\<lparr>nc_InterfaceRef = [], nc_CanonicalMAC = [], nc_Role = [], nc_Source = ''pve-cluster-resources'',
         nc_Ingress = 7, nc_Egress = 9\<rparr>] w" for w
    by (simp add: o split: sum.split)
  then show ?thesis
    unfolding observe_batch_def
    by (simp add: appendUsageRecord_def state_counters_def cloneState_def fresh_state_def new_epoch_def
       usage_record_def make_batch_def UsageBatch_Validate_def event_check_def ex_metered_def ex_config_def
       is_zero_time_def Version_def ex_snapshot_def)
qed

subsection \<open>Properties\<close>

text \<open>
  C6: Crash safety of the meter, as refinement.  For every sequence of restarts, recoveries and
  observations, with any file operation, any identifier and any call of the queue failing, the
  batches handed to the queue are a history of the ledger (each new batch is one fault-free
  observation from the state after the previous one; otherwise the last batch is repeated), and the
  files on disk hold the state of the ledger or its next transaction.
\<close>

theorem meter_refines_ledger:
  "\<exists>used st prev us.
     ledger cfg (fst (meter_run marshal enq cfg as (first_boot q))) used st prev \<and>
     linked cfg (sys_up (snd (meter_run marshal enq cfg as (first_boot q))))
       (sys_meter (snd (meter_run marshal enq cfg as (first_boot q)))) st prev us \<and>
     subseq (used @ us) (concat (map op_ids as))"
  using follows_history [of marshal enq cfg as q "fst (meter_run marshal enq cfg as (first_boot q))"
      "snd (meter_run marshal enq cfg as (first_boot q))"]
  by (simp add: follows_def)

text \<open>
  C27: Sequence numbers have no gap and no reuse.  In every history the batches (a repeated batch
  counted once) are numbered 1, 2, 3, ..., and so are the usage records across all batches; a
  failed or crashed observation uses no number up.
\<close>

theorem usage_sequences_contiguous:
  "let log = fst (meter_run marshal enq cfg as (first_boot q)) in
     map ub_Sequence (batches log) = count_from 0 (length (batches log)) \<and>
     map u_Sequence (events log) = count_from 0 (length (events log))"
proof -
  obtain used st prev us where "ledger cfg (fst (meter_run marshal enq cfg as (first_boot q))) used st prev"
    using follows_history [of marshal enq cfg as q] by (auto simp: follows_def) (metis prod.collapse)
  then show ?thesis using ledger_numbered by (auto simp: numbered_def Let_def)
qed

text \<open>
  C28: Within a counter epoch the counters only grow.  If the random source never repeats an
  identifier, any two records of a history with the same guest, generation, interface and epoch
  belong to the same service, instance, card and source, and the later one has no smaller byte
  counts, across restarts and batches.
\<close>

theorem counters_grow_within_epoch:
  assumes "distinct (concat (map op_ids as))"
  shows "epochs_ok (events (fst (meter_run marshal enq cfg as (first_boot q))))"
proof -
  obtain used st prev us where l: "ledger cfg (fst (meter_run marshal enq cfg as (first_boot q))) used st prev"
    "subseq (used @ us) (concat (map op_ids as))"
    using follows_history [of marshal enq cfg as q "fst (meter_run marshal enq cfg as (first_boot q))"
      "snd (meter_run marshal enq cfg as (first_boot q))"] by (auto simp: follows_def)
  then have "distinct (used @ us)" using assms by (auto simp: subseq_conv_nths simp del: distinct_append intro: distinct_nthsI)
  then have "distinct used" by simp
  then show ?thesis using ledger_tracked [OF l(1)] by (auto simp: tracked_def)
qed

theorem counters_grow_within_epoch_witness:
  "epochs_ok (events (fst (meter_run (\<lambda>b. Some ''json'') (queue_enq ex_hash) ex_config
     [MRestart [], MObserve (ex_snapshot 7 9) ex_assigned (ex_now, []) (ex_now, []) [] [Some ''ep'', Some ''e1'', Some ''b1''],
      MRestart [], MObserve (ex_snapshot 8 9) ex_assigned (ex_now, []) (ex_now, []) [] [Some ''e2'', Some ''b2'']]
     (first_boot (ex_empty Metering ex_policy)))))"
  by (rule counters_grow_within_epoch) (simp add: drawn_def)

text \<open>
  C29: Billing follows the assignment.  Every record of a batch stems from a guest of the snapshot
  that is no template and has an assignment that is not disabled, and carries its identity; it is
  billed as active exactly in production mode, after the cutover of an active assignment, and with
  the whole-guest aggregate only where the assignment allows it.  When the host's interfaces
  resolve all metered bindings, only their counters are recorded, never the aggregate.
\<close>

theorem usage_billed_by_assignment:
  assumes "observe_batch cfg sn assignments ids st = Inr (Some (b, st'))" "u \<in> set (ub_Events b)"
  shows "\<exists>g a. g \<in> set (sn_Guests sn) \<and> \<not> g_Template g \<and>
    Lookup assignments (mc_ClusterRef cfg) (g_GuestType g) (g_VMID g) = Some a \<and> as_BillingState a \<noteq> ''disabled'' \<and>
    u_ServiceRef u = as_ServiceRef a \<and> u_InstanceUUID u = as_InstanceUUID a \<and>
    u_Generation u = as_Generation a \<and> u_VMID u = as_VMID a \<and> u_GuestType u = as_GuestType a \<and>
    (u_BillingState u = ''active'' \<longleftrightarrow>
       mc_Mode cfg = ''production'' \<and> as_BillingState a = ''active'' \<and>
       (\<exists>t. as_CutoverAt a = Some t \<and> \<not> before (sn_ObservedAt sn) t) \<and>
       (u_Source u = ''pve-host-netdev'' \<or> cap_Supported (AggregateMeteringCapability a))) \<and>
    (case resolvePerNICCounters sn g a of
       Some cs \<Rightarrow> u_Source u = ''pve-host-netdev'' \<and>
         (u_InterfaceRef u, u_IngressBytes u, u_EgressBytes u) \<in> (\<lambda>c. (nc_InterfaceRef c, nc_Ingress c, nc_Egress c)) ` set cs
     | None \<Rightarrow> u_Source u = ''pve-cluster-resources'' \<and> g_Available g \<and>
         g_IngressBytes g = Some (u_IngressBytes u) \<and> g_EgressBytes g = Some (u_EgressBytes u))"
  using observe_batch_billed_right [OF assms] unfolding billed_right_def .

theorem usage_billed_by_assignment_witness:
  "\<exists>b st' u. observe_batch ex_config (ex_snapshot 7 9) ex_assigned [Some ''ep'', Some ''e1'', Some ''b1''] fresh_state = Inr (Some (b, st')) \<and>
     u \<in> set (ub_Events b) \<and>
     (\<exists>g a. g \<in> set (sn_Guests (ex_snapshot 7 9)) \<and> Lookup ex_assigned ''cl-1'' (g_GuestType g) (g_VMID g) = Some a \<and>
        u_ServiceRef u = as_ServiceRef a)"
proof -
  obtain b st' where b: "observe_batch ex_config (ex_snapshot 7 9) ex_assigned [Some ''ep'', Some ''e1'', Some ''b1''] fresh_state = Inr (Some (b, st'))"
    "map u_BillingState (ub_Events b) = [''active'']" using ex_batch by (elim exE conjE)
  then have u: "hd (ub_Events b) \<in> set (ub_Events b)" by (cases "ub_Events b") auto
  have "mc_ClusterRef ex_config = ''cl-1''" by (simp add: ex_config_def)
  then have "\<exists>g a. g \<in> set (sn_Guests (ex_snapshot 7 9)) \<and> Lookup ex_assigned ''cl-1'' (g_GuestType g) (g_VMID g) = Some a \<and>
      u_ServiceRef (hd (ub_Events b)) = as_ServiceRef a"
    using usage_billed_by_assignment [OF b(1) u] by metis
  with b(1) u show ?thesis by (intro exI [of _ b] exI [of _ st'] exI [of _ "hd (ub_Events b)"]) (rule conjI, assumption, rule conjI)
qed

text \<open>
  The counters of a guest resolved per interface are complete and exact: one counter for each
  metered binding, in order, from the host device of that card, with ingress the exact value of the
  device's transmit text and egress that of its receive text.
\<close>

theorem per_nic_counters_exact:
  assumes "resolvePerNICCounters sn g a = Some cs"
  shows "\<exists>host. sn_Host sn = Some host \<and> list_all2 (nic_exact host g) (filter nb_Metered (as_NICBindings a)) cs"
  using assms resolve_bindings_exact by (auto simp: resolvePerNICCounters_def split: option.splits if_splits)

lemma replicate_2: "replicate 2 x = [x, x]"
  by (simp add: numeral_2_eq_2)

lemma ex_parse_counter:
  "parse_counter \<lparr>v_present = True, v_Raw = ''1.5e3''\<rparr> = Some 1500" "parse_counter \<lparr>v_present = True, v_Raw = ''42''\<rparr> = Some 42"
  by (simp_all add: parse_counter_def CounterText_def CanonicalUnsignedInteger_def split_decimal_def trim_space_printable
      code_of_def strip_sign_def split_exponent_def is_exp_def parse_int32_def split_point_def char_class_defs
      shift_digits_def all_zeros_def trim_zeros_def parse_uint_def parse_dec_def digit_val_def replicate_2)

lemma char_of_code: "(of_char c :: nat) = n \<Longrightarrow> char_of n = c"
  by auto

lemma ex_per_nic:
  "resolvePerNICCounters ((ex_snapshot 7 9)\<lparr>sn_Host := Some ex_host\<rparr>) (ex_guest 7 9) ex_metered =
     Some [\<lparr>nc_InterfaceRef = ''net0'', nc_CanonicalMAC = ''02:00:00:00:00:0A'', nc_Role = ''public'',
       nc_Source = ''pve-host-netdev'', nc_Ingress = 42, nc_Egress = 1500\<rparr>]"
proof -
  have "digit_char 0 = CHR ''0''" "digit_char 1 = CHR ''1''"
    unfolding digit_char_def by (rule char_of_code, simp)+
  then have "device_name (ex_guest 7 9) 0 = ''tap101i0''"
    by (simp add: device_name_def ex_guest_def dec_int_def dec.simps [of 101] dec.simps [of 10] dec.simps [of "Suc 0"] dec_zero)
  moreover have u: "char_of (65 :: nat) = CHR ''A''" by (rule char_of_code) simp
  moreover from u have "equal_fold ''02:00:00:00:00:0A'' ''02:00:00:00:00:0a''" "to_upper ''02:00:00:00:00:0a'' = ''02:00:00:00:00:0A''"
    by (simp_all add: equal_fold_def to_upper_def to_upper_char_def char_class_defs)
  moreover have "atoi (trim_prefix ''net'' ''net0'') = Some 0"
    by (simp add: trim_prefix_def has_prefix_def char_class_defs parse_dec_def digit_val_def)
  ultimately show ?thesis
    by (simp add: resolvePerNICCounters_def resolve_binding_def ex_parse_counter ex_metered_def ex_card_def ex_host_def
        ex_snapshot_def) (simp add: ex_guest_def ex_parse_counter)
qed

theorem per_nic_counters_exact_witness:
  "\<exists>host. sn_Host ((ex_snapshot 7 9)\<lparr>sn_Host := Some ex_host\<rparr>) = Some host \<and>
     list_all2 (nic_exact host (ex_guest 7 9)) (filter nb_Metered (as_NICBindings ex_metered))
       [\<lparr>nc_InterfaceRef = ''net0'', nc_CanonicalMAC = ''02:00:00:00:00:0A'', nc_Role = ''public'',
         nc_Source = ''pve-host-netdev'', nc_Ingress = 42, nc_Egress = 1500\<rparr>]"
  by (rule per_nic_counters_exact [OF ex_per_nic])

text \<open>
  An interrupted transaction is always completed.  After any history on the persistent queue a
  restart without faults succeeds, and if the queue accepts the batch of a pending transaction, the
  following recovery leaves no transaction, memory and state file agree, and the queue holds the
  batch.
\<close>

theorem interrupted_transaction_completes:
  assumes "config_ok cfg" "snd (meter_run marshal (queue_enq h) cfg as (first_boot q)) = s" "never_evicts (sys_queue s)"
    and "\<And>txn. mt_txn_file (sys_meter s) = Some (Some txn) \<Longrightarrow>
      \<exists>p r q'. marshal (tx_Batch txn) = Some p \<and> queue_enq h e (ub_BatchID (tx_Batch txn)) p (sys_queue s) = (Inr r, q')"
  shows "\<exists>log s'. meter_run marshal (queue_enq h) cfg [MRestart [], MRecover e []] s = (log, s') \<and> sys_up s' \<and>
    mt_txn_file (sys_meter s') = None \<and> mt_state_file (sys_meter s') = Some (Some (mt_state (sys_meter s'))) \<and>
    (case mt_txn_file (sys_meter s) of
       None \<Rightarrow> log = [] | Some None \<Rightarrow> False
     | Some (Some txn) \<Rightarrow> log = [tx_Batch txn] \<and> queue_holds (sys_queue s') (ub_BatchID (tx_Batch txn)))"
proof -
  have f: "follows cfg (fst (meter_run marshal (queue_enq h) cfg as (first_boot q))) (concat (map op_ids as)) (sys_up s) (sys_meter s)"
    using follows_history assms(2) by (metis prod.collapse)
  obtain m' where o: "meter_Open cfg [] (sys_meter s) = (None, m')" "mt_txn_file m' = mt_txn_file (sys_meter s)"
    using follows_open_clean [OF f assms(1)] by blast
  have f': "follows cfg (fst (meter_run marshal (queue_enq h) cfg as (first_boot q))) (concat (map op_ids as)) True m'"
    using follows_restart [OF f o(1)] by simp
  show ?thesis
  proof (cases "mt_txn_file (sys_meter s)")
    case None
    then show ?thesis using o follows_settled [OF f'] by (simp add: recoverLocked_def)
  next
    case (Some c)
    then obtain txn where t: "c = Some txn" "txn_ok txn" using follows_txn_ok [OF f] by blast
    obtain p r q' where p: "marshal (tx_Batch txn) = Some p"
      "queue_enq h e (ub_BatchID (tx_Batch txn)) p (sys_queue s) = (Inr r, q')"
      using assms(4) Some t(1) by blast
    have "mt_txn_file m' = Some (Some txn)" using o(2) Some t(1) by simp
    from queue_recover_settles [where marshal = marshal, OF assms(3) t(2) this p] show ?thesis using o Some t(1) by simp
  qed
qed


theorem interrupted_transaction_completes_witness:
  "\<exists>log s'. meter_run (\<lambda>b. Some ''json'') (queue_enq ex_hash) ex_config [MRestart [], MRecover (ex_now, []) []]
      (snd (meter_run (\<lambda>b. Some ''json'') (queue_enq ex_hash) ex_config [MRestart [IoOk, IoFail]] (first_boot (ex_empty Metering ex_policy)))) =
        (log, s') \<and> sys_up s' \<and> mt_txn_file (sys_meter s') = None"
proof -
  let ?s = "snd (meter_run (\<lambda>b. Some ''json'') (queue_enq ex_hash) ex_config [MRestart [IoOk, IoFail]] (first_boot (ex_empty Metering ex_policy)))"
  have c: "config_ok ex_config" by (simp add: config_ok_def ex_config_def)
  have s: "sys_queue ?s = ex_empty Metering ex_policy" "mt_txn_file (sys_meter ?s) = None"
    by (simp_all add: first_boot_def ex_config_def meter_Open_def meter_load_def)
  have q: "never_evicts (sys_queue ?s)"
    unfolding s using ex_empty_ok by (simp add: never_evicts_def) (simp add: ex_empty_def kind_defs)
  show ?thesis
    using interrupted_transaction_completes [OF c refl q, of "(ex_now, [])"] s(2) by fastforce
qed

end
