(* ===== verification/Dispatcher.thy ===== *)
theory Dispatcher
  imports Command_Types "HOL-Library.Multiset"
begin

section \<open>The command dispatcher (\<open>internal/control/dispatcher.go\<close>)\<close>

text \<open>
  Four bounded channels with a fixed number of workers each.  A command is active from \<open>submit\<close>
  until its worker has executed it.  A worker's loop is two steps, taking a command off its channel
  and, after the execution, removing it from the active set; they interleave freely with the calls
  of the service and with each other.  The contexts are not cancelled: a stopping process is the
  end of the history.
\<close>

subsection \<open>State and operations\<close>

datatype lane = Console | Heavy | Critical | Normal

definition queueFor :: "command \<Rightarrow> lane" where
  "queueFor c =
     (if c_Action c \<in> {''vm.console.create-session'', ''vm.console.revoke-session''} then Console
      else if c_Action c \<in> {''vm.reinstall'', ''backup.restore'', ''vm.delete'', ''snapshot.rollback''} then Heavy
      else if c_Action c \<in> {''vm.create'', ''vm.clone'', ''vm.set-initial-resources'', ''vm.set-network'', ''vm.start'',
         ''vm.shutdown'', ''vm.stop'', ''vm.reboot'', ''vm.suspend'', ''vm.resume''} then Critical
      else Normal)"

fun lane_cap :: "lane \<Rightarrow> nat" where
  "lane_cap Console = 16"
| "lane_cap Heavy = 4"
| "lane_cap Critical = 16"
| "lane_cap Normal = 16"

fun lane_workers :: "lane \<Rightarrow> nat" where
  "lane_workers Console = 8"
| "lane_workers Heavy = 1"
| "lane_workers Critical = 2"
| "lane_workers Normal = 2"

text \<open>The buffers of the channels, the commands the workers of a lane hold, the active set.\<close>

record dispatcher =
  ds_active :: "string list"
  ds_queue :: "lane \<Rightarrow> command list"
  ds_running :: "lane \<Rightarrow> command list"

definition newCommandDispatcher :: dispatcher where
  "newCommandDispatcher = \<lparr>ds_active = [], ds_queue = (\<lambda>_. []), ds_running = (\<lambda>_. [])\<rparr>"

definition hasCapacity :: "command \<Rightarrow> dispatcher \<Rightarrow> bool" where
  "hasCapacity c d \<longleftrightarrow> c_CommandID c \<in> set (ds_active d) \<or> length (ds_queue d (queueFor c)) < lane_cap (queueFor c)"

definition submit :: "command \<Rightarrow> dispatcher \<Rightarrow> bool \<times> dispatcher" where
  "submit c d =
     (if c_CommandID c \<in> set (ds_active d) then (True, d)
      else let l = queueFor c in
      if length (ds_queue d l) < lane_cap l
      then (True, d\<lparr>ds_queue := (ds_queue d)(l := ds_queue d l @ [c]), ds_active := c_CommandID c # ds_active d\<rparr>)
      else (False, d))"

definition activeCommand :: "string \<Rightarrow> dispatcher \<Rightarrow> bool" where
  "activeCommand commandID d \<longleftrightarrow> commandID \<in> set (ds_active d)"

text \<open>A free worker of the lane receives the oldest command of its channel.\<close>

definition worker_take :: "lane \<Rightarrow> dispatcher \<Rightarrow> (command \<times> dispatcher) option" where
  "worker_take l d =
     (if length (ds_running d l) < lane_workers l
      then (case ds_queue d l of
              [] \<Rightarrow> None
            | c # cs \<Rightarrow> Some (c, d\<lparr>ds_queue := (ds_queue d)(l := cs), ds_running := (ds_running d)(l := c # ds_running d l)\<rparr>))
      else None)"

text \<open>The worker that holds the command has executed it.\<close>

definition worker_done :: "lane \<Rightarrow> command \<Rightarrow> dispatcher \<Rightarrow> dispatcher" where
  "worker_done l c d =
     d\<lparr>ds_running := (ds_running d)(l := remove1 c (ds_running d l)), ds_active := removeAll (c_CommandID c) (ds_active d)\<rparr>"

text \<open>
  The steps of a dispatcher, labelled with what they do: \<open>submit\<close> takes a command on, finds it
  active already, or refuses it.
\<close>

datatype d_event = Accepted command | Known command | Refused command | Started command | Finished command

inductive d_step :: "dispatcher \<Rightarrow> d_event \<Rightarrow> dispatcher \<Rightarrow> bool" where
  d_accept: "\<not> activeCommand (c_CommandID c) d \<Longrightarrow> submit c d = (True, d') \<Longrightarrow> d_step d (Accepted c) d'"
| d_known: "activeCommand (c_CommandID c) d \<Longrightarrow> submit c d = (True, d') \<Longrightarrow> d_step d (Known c) d'"
| d_refuse: "submit c d = (False, d') \<Longrightarrow> d_step d (Refused c) d'"
| d_take: "worker_take l d = Some (c, d') \<Longrightarrow> d_step d (Started c) d'"
| d_done: "c \<in> set (ds_running d l) \<Longrightarrow> d_step d (Finished c) (worker_done l c d)"

inductive d_steps :: "dispatcher \<Rightarrow> d_event list \<Rightarrow> dispatcher \<Rightarrow> bool" where
  d_nil: "d_steps d [] d"
| d_snoc: "d_steps d es d' \<Longrightarrow> d_step d' e d'' \<Longrightarrow> d_steps d (es @ [e]) d''"

inductive_cases d_stepE: "d_step d e d'"

fun is_worker :: "d_event \<Rightarrow> bool" where
  "is_worker (Started c) = True"
| "is_worker (Finished c) = True"
| "is_worker _ = False"

fun accepted :: "d_event \<Rightarrow> command list" where
  "accepted (Accepted c) = [c]"
| "accepted _ = []"

fun started :: "d_event \<Rightarrow> command list" where
  "started (Started c) = [c]"
| "started _ = []"

subsection \<open>The invariant\<close>

definition held :: "dispatcher \<Rightarrow> command multiset" where
  "held d = (\<Sum>l \<leftarrow> [Console, Heavy, Critical, Normal]. mset (ds_queue d l) + mset (ds_running d l))"

text \<open>
  The active set is exactly the commands queued or running, each once and in the lane of its
  action, and the buffers and the workers are within their bounds.
\<close>

definition dispatcher_ok :: "dispatcher \<Rightarrow> bool" where
  "dispatcher_ok d \<longleftrightarrow>
     distinct (ds_active d) \<and> mset (ds_active d) = image_mset c_CommandID (held d) \<and>
     (\<forall>l. length (ds_queue d l) \<le> lane_cap l \<and> length (ds_running d l) \<le> lane_workers l \<and>
        (\<forall>c \<in> set (ds_queue d l) \<union> set (ds_running d l). queueFor c = l))"

lemma dispatcher_ok_new: "dispatcher_ok newCommandDispatcher"
  by (simp add: dispatcher_ok_def newCommandDispatcher_def held_def)

lemma held_put:
  "held (d\<lparr>ds_queue := (ds_queue d)(l := ds_queue d l @ [c]), ds_active := a\<rparr>) = add_mset c (held d)"
  by (cases l) (simp_all add: held_def)

lemma held_take:
  "ds_queue d l = c # cs \<Longrightarrow>
   held (d\<lparr>ds_queue := (ds_queue d)(l := cs), ds_running := (ds_running d)(l := c # ds_running d l)\<rparr>) = held d"
  by (cases l) (simp_all add: held_def)

lemma held_done:
  assumes "c \<in> set (ds_running d l)"
  shows "add_mset c (held (worker_done l c d)) = held d"
proof -
  have "add_mset c (mset (remove1 c (ds_running d l))) = mset (ds_running d l)" using assms by simp
  then show ?thesis by (cases l) (simp_all add: held_def worker_done_def)
qed

lemma submit_ok: "dispatcher_ok d \<Longrightarrow> submit c d = (b, d') \<Longrightarrow> dispatcher_ok d'"
  by (auto simp: submit_def Let_def dispatcher_ok_def held_put split: if_splits)

lemma take_ok:
  assumes "dispatcher_ok d" "worker_take l d = Some (c, d')"
  shows "dispatcher_ok d'"
proof -
  obtain cs where q: "ds_queue d l = c # cs" "length (ds_running d l) < lane_workers l"
    "d' = d\<lparr>ds_queue := (ds_queue d)(l := cs), ds_running := (ds_running d)(l := c # ds_running d l)\<rparr>"
    using assms(2) by (auto simp: worker_take_def split: if_splits list.splits)
  have "length (ds_queue d l) \<le> lane_cap l" "\<forall>c \<in> set (ds_queue d l). queueFor c = l"
    using assms(1) by (auto simp: dispatcher_ok_def)
  then show ?thesis using assms(1) q held_take [OF q(1)] by (auto simp: dispatcher_ok_def)
qed

lemma done_ok:
  assumes "dispatcher_ok d" "c \<in> set (ds_running d l)"
  shows "dispatcher_ok (worker_done l c d)"
proof -
  have h: "add_mset c (held (worker_done l c d)) = held d" by (rule held_done [OF assms(2)])
  have "mset (removeAll (c_CommandID c) (ds_active d)) = mset (ds_active d) - {#c_CommandID c#}"
    using assms(1) by (simp add: dispatcher_ok_def distinct_remove1_removeAll [symmetric])
  also have "\<dots> = image_mset c_CommandID (held (worker_done l c d))"
    using assms(1) h [symmetric] by (simp add: dispatcher_ok_def)
  finally have "mset (ds_active (worker_done l c d)) = image_mset c_CommandID (held (worker_done l c d))"
    by (simp add: worker_done_def)
  moreover have "length (remove1 c (ds_running d l)) \<le> length (ds_running d l)" by (simp add: length_remove1)
  ultimately show ?thesis
    using assms(1) by (auto simp: dispatcher_ok_def worker_done_def distinct_removeAll dest: notin_set_remove1
        intro: le_trans)
qed

lemma d_step_ok: "d_step d e d' \<Longrightarrow> dispatcher_ok d \<Longrightarrow> dispatcher_ok d'"
  by (cases rule: d_step.cases) (auto intro: submit_ok take_ok done_ok)

lemma d_steps_ok: "d_steps d es d' \<Longrightarrow> dispatcher_ok d \<Longrightarrow> dispatcher_ok d'"
  by (induction rule: d_steps.induct) (auto intro: d_step_ok)

subsection \<open>First in, first out\<close>

definition in_lane :: "lane \<Rightarrow> command list \<Rightarrow> command list" where
  "in_lane l cs = filter (\<lambda>c. queueFor c = l) cs"

lemma d_step_fifo:
  assumes "d_step d e d'" "dispatcher_ok d"
  shows "in_lane l (started e) @ ds_queue d' l = ds_queue d l @ in_lane l (accepted e)"
  using assms
proof (cases rule: d_step.cases)
  case (d_take m c)
  then obtain cs where q: "ds_queue d m = c # cs" "ds_queue d' = (ds_queue d)(m := cs)"
    by (auto simp: worker_take_def split: if_splits list.splits)
  then have "queueFor c = m" using assms(2) by (auto simp: dispatcher_ok_def)
  then show ?thesis using d_take q by (auto simp: in_lane_def)
qed (auto simp: in_lane_def submit_def activeCommand_def worker_done_def Let_def split: if_splits)

lemma d_steps_fifo:
  "d_steps d es d' \<Longrightarrow> dispatcher_ok d \<Longrightarrow>
   in_lane l (concat (map started es)) @ ds_queue d' l = ds_queue d l @ in_lane l (concat (map accepted es))"
proof (induction rule: d_steps.induct)
  case (d_snoc d es d' e d'')
  then show ?case
    using d_step_fifo [OF d_snoc.hyps(2), of l] d_steps_ok [OF d_snoc.hyps(1)]
    by (simp add: in_lane_def)
qed (simp add: in_lane_def)

subsection \<open>Admission\<close>

lemma worker_step_drains:
  assumes "d_step d e d'" "is_worker e"
  shows "length (ds_queue d' l) \<le> length (ds_queue d l) \<and> set (ds_active d') \<subseteq> set (ds_active d)"
  using assms
  by (cases rule: d_step.cases) (auto simp: worker_take_def worker_done_def split: if_splits list.splits)

lemma worker_steps_drain:
  "d_steps d es d' \<Longrightarrow> list_all is_worker es \<Longrightarrow>
   length (ds_queue d' l) \<le> length (ds_queue d l) \<and> set (ds_active d') \<subseteq> set (ds_active d)"
proof (induction rule: d_steps.induct)
  case (d_snoc d es d' e d'')
  then show ?case using worker_step_drains [OF d_snoc.hyps(2), of l] by fastforce
qed simp

lemma preflight:
  assumes "hasCapacity c d" "\<not> activeCommand (c_CommandID c) d" "d_steps d es d'" "list_all is_worker es"
  shows "fst (submit c d')"
  using assms worker_steps_drain [OF assms(3,4), of "queueFor c"]
  by (auto simp: hasCapacity_def activeCommand_def submit_def Let_def)

text \<open>
  C7: The dispatcher refines four first-in first-out queues: in every history each lane starts its
  commands in the order \<open>submit\<close> accepted them, each accepted command once; the active set
  is exactly the queued and running commands, and no buffer or worker pool exceeds its bound.
\<close>

theorem lanes_are_fifo:
  assumes "d_steps newCommandDispatcher es d"
  shows "in_lane l (concat (map started es)) @ ds_queue d l = in_lane l (concat (map accepted es)) \<and>
    length (ds_queue d l) \<le> lane_cap l \<and> length (ds_running d l) \<le> lane_workers l \<and>
    mset (ds_active d) = image_mset c_CommandID (held d) \<and> distinct (ds_active d)"
proof -
  have "dispatcher_ok d" using d_steps_ok [OF assms dispatcher_ok_new] .
  then show ?thesis
    using d_steps_fifo [OF assms dispatcher_ok_new, of l] by (simp add: dispatcher_ok_def newCommandDispatcher_def)
qed

theorem lanes_are_fifo_witness:
  "\<exists>d. d_steps newCommandDispatcher
      ([] @ [Accepted ex_command] @ [Started ex_command]) d \<and> in_lane Critical [ex_command] @ ds_queue d Critical = [ex_command] \<and>
    ds_running d Critical = [ex_command] \<and> length (ds_running d Critical) \<le> 2"
proof -
  let ?d1 = "snd (submit ex_command newCommandDispatcher)"
  let ?d2 = "snd (the (worker_take Critical ?d1))"
  have q: "queueFor ex_command = Critical" by (simp add: queueFor_def ex_command_fields)
  have s1: "submit ex_command newCommandDispatcher = (True, ?d1)"
    using q by (simp add: submit_def newCommandDispatcher_def Let_def)
  have s2: "worker_take Critical ?d1 = Some (ex_command, ?d2)"
    using q by (simp add: submit_def newCommandDispatcher_def worker_take_def Let_def)
  have run: "d_steps newCommandDispatcher (([] @ [Accepted ex_command]) @ [Started ex_command]) ?d2"
    by (rule d_snoc [OF d_snoc [OF d_nil d_accept [OF _ s1]] d_take [OF s2]]) (simp add: activeCommand_def newCommandDispatcher_def)
  have "ds_running ?d2 Critical = [ex_command]"
    using q by (simp add: submit_def newCommandDispatcher_def worker_take_def Let_def)
  with lanes_are_fifo [OF run, of Critical] run q show ?thesis by (auto simp: in_lane_def)
qed

end
