(* ===== verification/Service.thy ===== *)
theory Service
  imports Journal_Safety Dispatcher
begin

section \<open>The control service (\<open>internal/control/service.go\<close>)\<close>

text \<open>
  The service polls the website for commands, verifies them, claims them in the journal, hands
  them to the dispatcher (or executes them at once outside production), reports receipts, and
  reconciles interrupted and asynchronous commands.

  The executor, the task and upgrade resolvers, the poller, the receipt queue and the audit sink
  are interfaces of the code; the model takes the outcome of each call as a script, one record per
  command (\<open>poll_env\<close>) or task (\<open>task_env\<close>), and keeps the receipts and events the queues accepted.
  The executor's own calls of the journal (the phases of a snippet deletion) are part of its
  outcome.  \<open>validParameters\<close> is the check of the parameters that \<open>Verify\<close> takes.
\<close>

subsection \<open>State and configuration\<close>

record service_config =
  sc_AgentRef :: string
  sc_ClusterRef :: string
  sc_BindingID :: string
  sc_DeviceID :: string
  sc_CredentialEpoch :: u64
  sc_AssignmentRevision :: bool
  sc_AgentVersion :: string
  sc_Mode :: string
  sc_CommandSecret :: bytes
  sc_CommandSigningKeyID :: string
  sc_CommandPublicKey :: bytes
  sc_ProductionExecution :: bool
  sc_AuditSink :: bool
  sc_TaskResolver :: bool
  sc_UpgradeResolver :: bool
  sc_ExecutorClient :: bool

text \<open>
  \<open>sc_AssignmentRevision\<close> and the last three fields say whether the function or interface is set;
  \<open>sv_external_revision\<close> is what the function returns at present.
\<close>

record service =
  sv_external_revision :: u64
  sv_revision :: u64
  sv_dynamic :: bool
  sv_allowed :: "string \<Rightarrow> bool"
  sv_assignments :: asn_store
  sv_cursor :: string
  sv_cursor_file :: "(int \<times> string) option option"
  sv_journal :: jdir
  sv_dispatcher :: dispatcher
  sv_receipts :: "receipt list"
  sv_events :: "audit_event list"

datatype svc_error = SvNoID | SvReceiptInvalid | SvMarshal | SvQueue | SvAuditSink | SvAuditInvalid
  | SvJournal jerror | SvLaneFull | SvExecutor | SvCursor | SvPoll | SvResolver | SvAuthority | SvProjection
  | SvConfig

subsection \<open>Receipts and their delivery\<close>

definition sv_rejection :: "service_config \<Rightarrow> string option \<Rightarrow> command \<Rightarrow> string \<Rightarrow> gotime \<Rightarrow> svc_error + receipt" where
  "sv_rejection cfg i c code now =
     (case i of
        None \<Rightarrow> Inl SvNoID
      | Some i \<Rightarrow>
          Inr (empty_receipt\<lparr>r_SchemaVersion := SchemaVersion, r_ReceiptID := i, r_CommandID := c_CommandID c,
            r_OperationID := c_OperationID c, r_AgentRef := sc_AgentRef cfg, r_State := ''rejected'', r_Code := code,
            r_ExecutionMode := sc_Mode cfg,
            r_DryRun := (sc_Mode cfg \<noteq> ''production'' \<or> \<not> sc_ProductionExecution cfg),
            r_StartedAt := now, r_FinishedAt := now, r_OperatorRef := c_OperatorRef c\<rparr>))"

definition runningReceipt :: "service_config \<Rightarrow> string option \<Rightarrow> command \<Rightarrow> gotime \<Rightarrow> svc_error + receipt" where
  "runningReceipt cfg i c now =
     (case i of
        None \<Rightarrow> Inl SvNoID
      | Some i \<Rightarrow>
          Inr (empty_receipt\<lparr>r_SchemaVersion := SchemaVersion, r_ReceiptID := i, r_CommandID := c_CommandID c,
            r_OperationID := c_OperationID c, r_AgentRef := sc_AgentRef cfg, r_State := ''running'',
            r_Code := ''COMMAND_STARTED'', r_ExecutionMode := sc_Mode cfg, r_Accepted := True, r_Asynchronous := True,
            r_StartedAt := now, r_FinishedAt := now, r_OperatorRef := c_OperatorRef c\<rparr>))"

text \<open>\<open>enqueue\<close>: \<open>ok\<close> is the outcome of the queue.\<close>

definition sv_enqueue :: "jenv \<Rightarrow> bool \<Rightarrow> receipt \<Rightarrow> service \<Rightarrow> svc_error option \<times> service" where
  "sv_enqueue env ok x0 s =
     (let x = ApplyReceiptCompatibility x0 in
      if Receipt_Validate x \<noteq> None then (Some SvReceiptInvalid, s)
      else if je_marshal_receipt env x = None then (Some SvMarshal, s)
      else if \<not> ok then (Some SvQueue, s)
      else (None, s\<lparr>sv_receipts := sv_receipts s @ [x]\<rparr>))"

text \<open>An update of one journal record by the service.\<close>

definition sv_update :: "jenv \<Rightarrow> update_op \<Rightarrow> io list \<Rightarrow> service \<Rightarrow> svc_error option \<times> service" where
  "sv_update env u ios s =
     (case update_record ios (journal_path env (update_id u)) (update_fun env u) (sv_journal s) of
        (None, d) \<Rightarrow> (None, s\<lparr>sv_journal := d\<rparr>)
      | (Some e, d) \<Rightarrow> (Some (SvJournal e), s\<lparr>sv_journal := d\<rparr>))"

text \<open>The outcomes one delivery of a journaled receipt meets.\<close>

record delivery_env =
  de_sink :: bool
  de_audit_ios :: "io list"
  de_queue :: bool
  de_mark_ios :: "io list"

definition deliver_audit :: "jenv \<Rightarrow> service_config \<Rightarrow> delivery_env \<Rightarrow> string \<Rightarrow> audit_event option \<Rightarrow> service \<Rightarrow>
    svc_error option \<times> service" where
  "deliver_audit env cfg de commandID pending s =
     (case pending of
        None \<Rightarrow> (None, s)
      | Some ev \<Rightarrow>
          if \<not> sc_AuditSink cfg \<or> \<not> de_sink de then (Some SvAuditSink, s)
          else sv_update env (UAuditQueued commandID (ev_EventID ev)) (de_audit_ios de)
                 (s\<lparr>sv_events := sv_events s @ [ev]\<rparr>))"

definition enqueueJournaled :: "jenv \<Rightarrow> service_config \<Rightarrow> delivery_env \<Rightarrow> string \<Rightarrow> receipt \<Rightarrow> service \<Rightarrow>
    svc_error option \<times> service" where
  "enqueueJournaled env cfg de commandID x s =
     (case PendingAuditForReceipt env (sv_journal s) commandID (r_ReceiptID x) of
        Inl e \<Rightarrow> (Some (SvJournal e), s)
      | Inr pending \<Rightarrow>
          (case deliver_audit env cfg de commandID pending s of
             (Some e, s1) \<Rightarrow> (Some e, s1)
           | (None, s1) \<Rightarrow>
               (case sv_enqueue env (de_queue de) x s1 of
                  (Some e, s2) \<Rightarrow> (Some e, s2)
                | (None, s2) \<Rightarrow> sv_update env (UReceiptQueued commandID (r_ReceiptID x)) (de_mark_ios de) s2)))"

definition enqueueDeniedAudit :: "jenv \<Rightarrow> service_config \<Rightarrow> delivery_env \<Rightarrow> command \<Rightarrow> receipt \<Rightarrow> gotime \<Rightarrow> service \<Rightarrow>
    svc_error option \<times> service" where
  "enqueueDeniedAudit env cfg de c x receivedAt s =
     (if \<not> sc_AuditSink cfg then (Some SvAuditSink, s)
      else case newAuditContext c receivedAt (sc_AgentVersion cfg) of
        None \<Rightarrow> (Some SvAuditInvalid, s)
      | Some ctx \<Rightarrow>
          (case je_event env ctx x of
             None \<Rightarrow> (Some SvAuditInvalid, s)
           | Some ev0 \<Rightarrow>
               (let ev = ev0\<lparr>ev_AcceptedAt := None, ev_StartedAt := None\<rparr> in
                if \<not> Event_Validate ev then (Some SvAuditInvalid, s)
                else if \<not> de_sink de then (Some SvAuditSink, s)
                else sv_enqueue env (de_queue de) x (s\<lparr>sv_events := sv_events s @ [ev]\<rparr>))))"

subsection \<open>Codes of rejections\<close>

fun verificationRejectionCode :: "command_error \<Rightarrow> string" where
  "verificationRejectionCode BodyHashInvalid = ''COMMAND_BODY_HASH_INVALID''"
| "verificationRejectionCode SigningKeyMismatch = ''COMMAND_SIGNING_KEY_MISMATCH''"
| "verificationRejectionCode SignatureInvalid = ''COMMAND_SIGNATURE_INVALID''"
| "verificationRejectionCode (AuthenticatedPolicy AuthorityMismatch) = ''COMMAND_AUTHORITY_MISMATCH''"
| "verificationRejectionCode (AuthenticatedPolicy ActionNotAllowed) = ''COMMAND_ACTION_NOT_ALLOWED''"
| "verificationRejectionCode (AuthenticatedPolicy CommandExpired) = ''COMMAND_EXPIRED''"
| "verificationRejectionCode (AuthenticatedPolicy InventoryUnavailable) = ''COMMAND_INVENTORY_UNAVAILABLE''"
| "verificationRejectionCode (AuthenticatedPolicy IdentityMismatch) = ''COMMAND_IDENTITY_MISMATCH''"
| "verificationRejectionCode (AuthenticatedPolicy ScopeInvalid) = ''COMMAND_SCOPE_INVALID''"
| "verificationRejectionCode (AuthenticatedPolicy policy_error.ParametersInvalid) = ''INVALID_PARAMETERS''"
| "verificationRejectionCode (AuthenticatedPolicy ApprovalMissing) = ''APPROVAL_REQUIRED''"
| "verificationRejectionCode (AuthenticatedPolicy EnvelopeInvalid) = ''COMMAND_ENVELOPE_INVALID''"


definition ipfilter_receiptCode :: "string \<Rightarrow> string" where
  "ipfilter_receiptCode reason =
     (if reason = ''request'' then ''IPFILTER_RECOVERY_REQUEST_MISMATCH''
      else if reason = ''identity'' then ''IPFILTER_RECOVERY_IDENTITY_MISMATCH''
      else if reason = ''receipt'' then ''IPFILTER_RECOVERY_RECEIPT_MISMATCH''
      else if reason = ''audit'' then ''IPFILTER_RECOVERY_AUDIT_MISMATCH''
      else if reason = ''target'' then ''IPFILTER_RECOVERY_TARGET_MISMATCH''
      else if reason = ''authority'' then ''IPFILTER_RECOVERY_AUTHORITY_MISMATCH''
      else if reason = ''retirement'' then ''IPFILTER_RECOVERY_RETIREMENT_MISMATCH''
      else ''LISTED_RECORD_NOT_ELIGIBLE'')"

definition claimRejectionCode :: "jerror \<Rightarrow> string" where
  "claimRejectionCode e =
     (case e of
        IPFilterMismatch reason \<Rightarrow> ipfilter_receiptCode reason
      | CommandConflict \<Rightarrow> ''COMMAND_ID_CONFLICT''
      | OperationConflict \<Rightarrow> ''OPERATION_ID_CONFLICT''
      | IdempotencyConflict \<Rightarrow> ''IDEMPOTENCY_KEY_CONFLICT''
      | ResourceBusy \<Rightarrow> ''RESOURCE_BUSY''
      | UnlistedActiveMutation i \<Rightarrow> ''UNLISTED_ACTIVE_MUTATION''
      | ListedRecordNotEligible i \<Rightarrow> ''LISTED_RECORD_NOT_ELIGIBLE''
      | CloneJournalNotFound \<Rightarrow> ''CLONE_JOURNAL_NOT_FOUND''
      | CloneDigestMismatch \<Rightarrow> ''CLONE_DIGEST_MISMATCH''
      | CloneResourceIdentityMismatch \<Rightarrow> ''CLONE_RESOURCE_IDENTITY_MISMATCH''
      | CloneTerminalReceiptInvalid \<Rightarrow> ''CLONE_TERMINAL_RECEIPT_INVALID''
      | CloneLegacyAuthorityMismatch \<Rightarrow> ''CLONE_LEGACY_AUTHORITY_MISMATCH''
      | CloneAlreadyMigrated \<Rightarrow> ''CLONE_ALREADY_MIGRATED''
      | _ \<Rightarrow> ''JOURNAL_UNAVAILABLE'')"

subsection \<open>Polling\<close>

text \<open>
  One call of the executor: the receipt it returned and whether with an error, or \<open>None\<close> for a
  panic, and the updates of the journal it made on the way.
\<close>

record exec_outcome =
  xo_result :: "(receipt \<times> bool) option"
  xo_updates :: "(update_op \<times> io list) list"

record poll_env =
  pe_now :: gotime
  pe_id :: "string option"
  pe_claim_ios :: "io list"
  pe_claim_ids :: id_supply
  pe_begin_ios :: "io list"
  pe_exec :: exec_outcome
  pe_complete_ios :: "io list"
  pe_delivery :: delivery_env

definition verify_config_of :: "service_config \<Rightarrow> service \<Rightarrow> gotime \<Rightarrow> verify_config" where
  "verify_config_of cfg s now =
     \<lparr>vc_AgentRef = sc_AgentRef cfg, vc_ClusterRef = sc_ClusterRef cfg, vc_BindingID = sc_BindingID cfg,
      vc_DeviceID = sc_DeviceID cfg, vc_CredentialEpoch = sc_CredentialEpoch cfg,
      vc_AssignmentRevision =
        (if sv_dynamic s then Some (sv_revision s)
         else if sc_AssignmentRevision cfg then Some (sv_external_revision s) else None),
      vc_SigningKeyID = sc_CommandSigningKeyID cfg, vc_PublicKey = sc_CommandPublicKey cfg, vc_Mode = sc_Mode cfg,
      vc_Secret = sc_CommandSecret cfg, vc_Allowed = sv_allowed s, vc_Assignments = Some (sv_assignments s),
      vc_Now = now, vc_MaxClockSkew = 0, vc_MaxLifetime = 0\<rparr>"

text \<open>A rejected command: its receipt, after the audit event where one is due.\<close>

definition reject :: "jenv \<Rightarrow> service_config \<Rightarrow> poll_env \<Rightarrow> command \<Rightarrow> string \<Rightarrow> bool \<Rightarrow> service \<Rightarrow> svc_error option \<times> service" where
  "reject env cfg pe c code audited s =
     (case sv_rejection cfg (pe_id pe) c code (to_utc (pe_now pe)) of
        Inl e \<Rightarrow> (Some e, s)
      | Inr x \<Rightarrow>
          if audited then enqueueDeniedAudit env cfg (pe_delivery pe) c x (to_utc (pe_now pe)) s
          else sv_enqueue env (de_queue (pe_delivery pe)) x s)"

fun apply_updates :: "jenv \<Rightarrow> (update_op \<times> io list) list \<Rightarrow> service \<Rightarrow> service" where
  "apply_updates env [] s = s"
| "apply_updates env ((u, ios) # us) s = apply_updates env us (snd (sv_update env u ios s))"

text \<open>What follows the executor: store the receipt and deliver it.\<close>

definition finish_command :: "jenv \<Rightarrow> service_config \<Rightarrow> command \<Rightarrow> receipt \<Rightarrow> bool \<Rightarrow> io list \<Rightarrow> delivery_env \<Rightarrow> service \<Rightarrow>
    svc_error option \<times> service" where
  "finish_command env cfg c x0 failed ios de s =
     (let x = ApplyReceiptCompatibility (x0\<lparr>r_OperationID := c_OperationID c\<rparr>) in
      case sv_update env (UComplete c x) ios s of
        (Some e, s1) \<Rightarrow> (Some e, s1)
      | (None, s1) \<Rightarrow>
          if failed \<and> r_ReceiptID x = [] then (Some SvExecutor, s1)
          else enqueueJournaled env cfg de (c_CommandID c) x s1)"

text \<open>
  Outside production the executor runs within the poll; a panic there ends the process, so the
  model stops.
\<close>

definition execute_now :: "jenv \<Rightarrow> service_config \<Rightarrow> poll_env \<Rightarrow> command \<Rightarrow> service \<Rightarrow> svc_error option \<times> service" where
  "execute_now env cfg pe c s =
     (let s1 = apply_updates env (xo_updates (pe_exec pe)) s in
      case xo_result (pe_exec pe) of
        None \<Rightarrow> (Some SvExecutor, s1)
      | Some (x, failed) \<Rightarrow> finish_command env cfg c x failed (pe_complete_ios pe) (pe_delivery pe) s1)"

definition start_command :: "jenv \<Rightarrow> service_config \<Rightarrow> poll_env \<Rightarrow> command \<Rightarrow> service \<Rightarrow> svc_error option \<times> service" where
  "start_command env cfg pe c s =
     (case runningReceipt cfg (pe_id pe) c (to_utc (pe_now pe)) of
        Inl e \<Rightarrow> (Some e, s)
      | Inr x \<Rightarrow>
          (case sv_update env (UBeginRunning c x) (pe_begin_ios pe) s of
             (Some e, s1) \<Rightarrow> (Some e, s1)
           | (None, s1) \<Rightarrow>
               (case enqueueJournaled env cfg (pe_delivery pe) (c_CommandID c) x s1 of
                  (Some e, s2) \<Rightarrow> (Some e, s2)
                | (None, s2) \<Rightarrow>
                    (case submit c (sv_dispatcher s2) of
                       (True, d) \<Rightarrow> (None, s2\<lparr>sv_dispatcher := d\<rparr>)
                     | (False, d) \<Rightarrow> (Some SvLaneFull, s2)))))"

definition production :: "service_config \<Rightarrow> bool" where
  "production cfg \<longleftrightarrow> sc_Mode cfg = ''production'' \<and> sc_ProductionExecution cfg"

definition sv_claim :: "jenv \<Rightarrow> service_config \<Rightarrow> poll_env \<Rightarrow> command \<Rightarrow> service \<Rightarrow> (jerror + claimed) \<times> jdir" where
  "sv_claim env cfg pe c s =
     (if requiresApproval (c_Action c) \<and> sc_AuditSink cfg
      then ClaimWithAudit env c (to_utc (pe_now pe)) (sc_AgentVersion cfg) (pe_claim_ios pe) (pe_claim_ids pe) (sv_journal s)
      else claim env c (to_utc (pe_now pe)) None (pe_claim_ios pe) (pe_claim_ids pe) (sv_journal s))"

text \<open>One round of the loop of \<open>PollOnce\<close>, with the commands it lets execute.\<close>

definition admit :: "jenv \<Rightarrow> service_config \<Rightarrow> poll_env \<Rightarrow> command \<Rightarrow> service \<Rightarrow> svc_error option \<times> command list \<times> service" where
  "admit env cfg pe c s =
     (if production cfg \<and> \<not> hasCapacity c (sv_dispatcher s) then (Some SvLaneFull, [], s)
      else case sv_claim env cfg pe c s of
        (Inl e, d) \<Rightarrow>
          (case reject env cfg pe c (claimRejectionCode e) (requiresApproval (c_Action c) \<and> sc_AuditSink cfg) (s\<lparr>sv_journal := d\<rparr>) of
             (err, s1) \<Rightarrow> (err, [], s1))
      | (Inr (Replay x), d) \<Rightarrow>
          (case enqueueJournaled env cfg (pe_delivery pe) (c_CommandID c) x (s\<lparr>sv_journal := d\<rparr>) of
             (err, s1) \<Rightarrow> (err, [], s1))
      | (Inr Execute, d) \<Rightarrow>
          (case (if production cfg then start_command else execute_now) env cfg pe c (s\<lparr>sv_journal := d\<rparr>) of
             (err, s1) \<Rightarrow> (err, [c], s1)))"

definition poll_command :: "jenv \<Rightarrow> (command \<Rightarrow> bool) \<Rightarrow> service_config \<Rightarrow> command \<Rightarrow> poll_env \<Rightarrow> service \<Rightarrow>
    svc_error option \<times> command list \<times> service" where
  "poll_command env validParameters cfg c pe s =
     (let now = to_utc (pe_now pe); auditable = requiresApproval (c_Action c) in
      case Verify (je_crypto env) validParameters now c (verify_config_of cfg s now) of
        Some e \<Rightarrow>
          (let policy = (case e of AuthenticatedPolicy _ \<Rightarrow> True | _ \<Rightarrow> False);
               code = (if policy \<and> auditable \<and> \<not> sc_AuditSink cfg then ''AUDIT_UNAVAILABLE'' else verificationRejectionCode e)
           in case reject env cfg pe c code (policy \<and> auditable \<and> sc_AuditSink cfg) s of (err, s1) \<Rightarrow> (err, [], s1))
      | None \<Rightarrow>
          if auditable \<and> \<not> sc_AuditSink cfg
          then (case reject env cfg pe c ''AUDIT_UNAVAILABLE'' False s of (err, s1) \<Rightarrow> (err, [], s1))
          else admit env cfg pe c s)"

fun poll_commands :: "jenv \<Rightarrow> (command \<Rightarrow> bool) \<Rightarrow> service_config \<Rightarrow> (command \<times> poll_env) list \<Rightarrow> service \<Rightarrow>
    svc_error option \<times> command list \<times> service" where
  "poll_commands env validParameters cfg [] s = (None, [], s)"
| "poll_commands env validParameters cfg ((c, pe) # cs) s =
     (case poll_command env validParameters cfg c pe s of
        (Some e, xs, s1) \<Rightarrow> (Some e, xs, s1)
      | (None, xs, s1) \<Rightarrow>
          (case poll_commands env validParameters cfg cs s1 of (err, ys, s2) \<Rightarrow> (err, xs @ ys, s2)))"

definition saveCursor :: "io list \<Rightarrow> string \<Rightarrow> service \<Rightarrow> svc_error option \<times> service" where
  "saveCursor ios cursor s =
     (if cursor = [] then (Some SvCursor, s)
      else let (r1, ios1) = take_io ios; (r2, ios2) = take_io ios1 in
      if r1 \<noteq> IoOk then (Some SvCursor, s)
      else (case r2 of
              IoOk \<Rightarrow> (None, s\<lparr>sv_cursor_file := Some (Some (SchemaVersion, cursor)), sv_cursor := cursor\<rparr>)
            | IoFail \<Rightarrow> (Some SvCursor, s)
            | IoLate \<Rightarrow> (Some SvCursor, s\<lparr>sv_cursor_file := Some (Some (SchemaVersion, cursor))\<rparr>)))"

definition loadCursor :: "io list \<Rightarrow> service \<Rightarrow> svc_error option \<times> service" where
  "loadCursor ios s =
     (case sv_cursor_file s of
        None \<Rightarrow> (None, s)
      | Some f \<Rightarrow>
          if fst (take_io ios) \<noteq> IoOk then (Some SvCursor, s)
          else (case f of
                  None \<Rightarrow> (Some SvCursor, s)
                | Some (v, cursor) \<Rightarrow> if v \<noteq> SchemaVersion then (Some SvCursor, s) else (None, s\<lparr>sv_cursor := cursor\<rparr>)))"

text \<open>The poller's response: the commands and the next cursor, or an error.\<close>

definition PollOnce :: "jenv \<Rightarrow> (command \<Rightarrow> bool) \<Rightarrow> service_config \<Rightarrow> ((command \<times> poll_env) list \<times> string) option \<Rightarrow> io list \<Rightarrow>
    service \<Rightarrow> svc_error option \<times> command list \<times> service" where
  "PollOnce env validParameters cfg response ios s =
     (case response of
        None \<Rightarrow> (Some SvPoll, [], s)
      | Some (cs, cursor) \<Rightarrow>
          (case poll_commands env validParameters cfg cs s of
             (Some e, xs, s1) \<Rightarrow> (Some e, xs, s1)
           | (None, xs, s1) \<Rightarrow> (case saveCursor ios cursor s1 of (err, s2) \<Rightarrow> (err, xs, s2))))"

subsection \<open>The assignment authority\<close>

fun validate_actions :: "string list \<Rightarrow> string list \<Rightarrow> bool" where
  "validate_actions seen [] = True"
| "validate_actions seen (a # as) = (KnownAction a \<and> a \<notin> set seen \<and> validate_actions (a # seen) as)"

definition validateAllowedActions :: "string list \<Rightarrow> bool \<Rightarrow> bool" where
  "validateAllowedActions actions requireNonEmpty \<longleftrightarrow>
     \<not> (requireNonEmpty \<and> actions = [] \<or> length actions > 64) \<and> validate_actions [] actions"

text \<open>
  A new service: the checks of the configuration, an empty dispatcher, the authority it was
  configured with and the cursor of the file.  The dependencies are present, and the task
  resolver is the configured one or the one of the executor's client.
\<close>

definition NewService :: "service_config \<Rightarrow> bool \<Rightarrow> string list \<Rightarrow> asn_store \<Rightarrow> io list \<Rightarrow> service \<Rightarrow> svc_error option \<times> service" where
  "NewService cfg dynamic actions assignments ios s =
     (let key = sc_CommandSigningKeyID cfg; pub = sc_CommandPublicKey cfg; mode = sc_Mode cfg in
      if sc_AgentRef cfg = [] \<or> sc_ClusterRef cfg = [] then (Some SvConfig, s)
      else if mode \<noteq> ''test'' \<and> mode \<noteq> ''production'' then (Some SvConfig, s)
      else if \<not> validateAllowedActions actions False then (Some SvConfig, s)
      else if mode = ''production'' \<and> (key = [] \<or> length pub \<noteq> PublicKeySize) then (Some SvConfig, s)
      else if mode = ''production'' \<and> (\<not> uuidRE (sc_BindingID cfg) \<or> \<not> commandIDRE (sc_DeviceID cfg) \<or>
          sc_CredentialEpoch cfg = 0 \<or> \<not> sc_AssignmentRevision cfg) then (Some SvConfig, s)
      else if sc_AuditSink cfg \<and> \<not> validAuditText (sc_AgentVersion cfg) 128 then (Some SvConfig, s)
      else if key \<noteq> [] \<and> \<not> commandIDRE key then (Some SvConfig, s)
      else if mode = ''test'' \<and> pub \<noteq> [] \<and> (key = [] \<or> length pub \<noteq> PublicKeySize) then (Some SvConfig, s)
      else loadCursor ios
        (s\<lparr>sv_dispatcher := newCommandDispatcher, sv_dynamic := dynamic,
           sv_revision := (if sc_AssignmentRevision cfg then sv_external_revision s else 0),
           sv_allowed := AllowedSet actions, sv_assignments := assignments, sv_cursor := []\<rparr>))"

text \<open>\<open>currentRevision\<close>, as the guard of an update and the check of a task compute it.\<close>

definition current_revision :: "service_config \<Rightarrow> service \<Rightarrow> u64" where
  "current_revision cfg s = (if \<not> sv_dynamic s \<and> sc_AssignmentRevision cfg then sv_external_revision s else sv_revision s)"

definition ApplyAssignmentAuthority :: "service_config \<Rightarrow> assignments \<Rightarrow> u64 \<Rightarrow> string list \<Rightarrow> service \<Rightarrow> svc_error option \<times> service" where
  "ApplyAssignmentAuthority cfg doc revision actions s =
     (if revision = 0 then (Some SvAuthority, s)
      else if doc_Validate (sc_ClusterRef cfg) doc \<noteq> None then (Some SvAuthority, s)
      else if \<not> validateAllowedActions actions True then (Some SvAuthority, s)
      else if (case ad_AllowedActions doc of None \<Rightarrow> [] | Some as \<Rightarrow> as) \<noteq> actions then (Some SvAuthority, s)
      else
        (if revision \<le> current_revision cfg s then (Some SvAuthority, s)
         else (None, s\<lparr>sv_assignments := Replace doc, sv_allowed := AllowedSet actions, sv_revision := revision,
                       sv_dynamic := True\<rparr>)))"

subsection \<open>Execution by the workers\<close>

text \<open>\<open>executionError\<close> of the executor is an argument, \<open>xerr action reason\<close>.\<close>

definition interruptedReceipt :: "jenv \<Rightarrow> (string \<Rightarrow> string \<Rightarrow> execution_error) \<Rightarrow> service_config \<Rightarrow> string option \<Rightarrow> gotime \<Rightarrow>
    command \<Rightarrow> gotime \<Rightarrow> bool \<Rightarrow> string \<Rightarrow> receipt \<times> bool" where
  "interruptedReceipt env xerr cfg i finished c startedAt readOnly reason =
     (case i of
        None \<Rightarrow> (empty_receipt, True)
      | Some i \<Rightarrow>
          let finishedAt = (if before (to_utc finished) startedAt then startedAt else to_utc finished);
              x = empty_receipt\<lparr>r_SchemaVersion := SchemaVersion, r_ReceiptID := i, r_CommandID := c_CommandID c,
                    r_OperationID := c_OperationID c, r_AgentRef := c_AgentRef c, r_State := ''indeterminate'',
                    r_Code := ''EXECUTION_INDETERMINATE'', r_ExecutionMode := sc_Mode cfg, r_StartedAt := startedAt,
                    r_FinishedAt := finishedAt, r_OperatorRef := c_OperatorRef c, r_Error := Some (xerr (c_Action c) reason)\<rparr>;
              y = (if readOnly then x\<lparr>r_State := ''failed'', r_Code := ''AGENT_EXECUTION_INTERRUPTED''\<rparr> else x);
              z = (if readOnly \<and> c_Action c = ''vm.verify-delivery''
                   then y\<lparr>r_Code := ''DELIVERY_NOT_READY'', r_Result := je_delivery_failure env finishedAt\<rparr> else y)
          in (ApplyReceiptCompatibility z, True))"

text \<open>
  The race of a read-only command against its deadline: the executor first, the deadline first, or
  the process's own context.  A mutating command is always waited for.
\<close>

datatype race = Completed | DeadlineExceeded | Interrupted

record work_env =
  we_now :: gotime
  we_finished :: gotime
  we_id :: "string option"
  we_race :: race
  we_exec :: exec_outcome
  we_complete_ios :: "io list"
  we_delivery :: delivery_env

definition executeDispatchedCommand :: "jenv \<Rightarrow> (string \<Rightarrow> string \<Rightarrow> execution_error) \<Rightarrow> service_config \<Rightarrow> work_env \<Rightarrow> command \<Rightarrow>
    receipt \<times> bool" where
  "executeDispatchedCommand env xerr cfg we c =
     (let stop = interruptedReceipt env xerr cfg (we_id we) (we_finished we) c (to_utc (we_now we)) in
      if requiresApproval (c_Action c) then
        (case xo_result (we_exec we) of
           None \<Rightarrow> stop False ''agent command executor stopped unexpectedly'' | Some r \<Rightarrow> r)
      else (case we_race we of
              Completed \<Rightarrow>
                (case xo_result (we_exec we) of
                   None \<Rightarrow> stop True ''agent read-only executor stopped unexpectedly'' | Some r \<Rightarrow> r)
            | DeadlineExceeded \<Rightarrow> stop True ''agent read-only command exceeded its execution deadline''
            | Interrupted \<Rightarrow> stop True ''agent read-only command execution was interrupted''))"

text \<open>Errors are only logged.\<close>

definition executeDispatched :: "jenv \<Rightarrow> (string \<Rightarrow> string \<Rightarrow> execution_error) \<Rightarrow> service_config \<Rightarrow> work_env \<Rightarrow> command \<Rightarrow>
    service \<Rightarrow> service" where
  "executeDispatched env xerr cfg we c s =
     (let s1 = apply_updates env (xo_updates (we_exec we)) s in
      case executeDispatchedCommand env xerr cfg we c of
        (x, failed) \<Rightarrow> snd (finish_command env cfg c x failed (we_complete_ios we) (we_delivery we) s1))"

subsection \<open>Reconciliation\<close>

record task_resolution =
  tr_Status :: string
  tr_ExitStatus :: string

record upgrade_resolution =
  ur_Status :: string
  ur_Code :: string
  ur_Error :: "execution_error option"

record task_env =
  te_now :: gotime
  te_id :: "string option"
  te_task :: "task_resolution option"
  te_upgrade :: "upgrade_resolution option"
  te_deleted_ios :: "io list"
  te_absent :: bool
  te_verified_ios :: "io list"
  te_complete_ios :: "io list"
  te_delivery :: delivery_env

text \<open>The part the reconciled receipts share: a new identifier and times in order.\<close>

definition renewed :: "submitted_task \<Rightarrow> string \<Rightarrow> gotime \<Rightarrow> receipt" where
  "renewed t i now =
     (let x = (tk_Receipt t)\<lparr>r_ReceiptID := i, r_OperationID := tk_OperationID t, r_FinishedAt := now\<rparr>;
          y = (if is_zero_time (r_StartedAt x) then x\<lparr>r_StartedAt := now\<rparr> else x)
      in if before (r_FinishedAt y) (r_StartedAt y) then y\<lparr>r_FinishedAt := r_StartedAt y\<rparr> else y)"

definition reconciledReceipt :: "submitted_task \<Rightarrow> task_env \<Rightarrow> gotime \<Rightarrow> svc_error + receipt" where
  "reconciledReceipt t te now =
     (case te_id te of
        None \<Rightarrow> Inl SvNoID
      | Some i \<Rightarrow>
          let x = (renewed t i now)\<lparr>r_PVETaskUPID := tk_PVETaskUPID t\<rparr> in
          Inr (ApplyReceiptCompatibility
            (case te_task te of
               None \<Rightarrow> x\<lparr>r_State := ''waiting'', r_Code := ''PVE_TASK_STATUS_INDETERMINATE''\<rparr>
             | Some res \<Rightarrow>
                 let status = to_lower (trim_space (tr_Status res)) in
                 if status = ''queued'' \<or> status = ''running'' then x\<lparr>r_State := ''waiting'', r_Code := ''PVE_TASK_WAITING''\<rparr>
                 else if status = ''stopped'' then
                   (if equal_fold (trim_space (tr_ExitStatus res)) ''OK''
                    then x\<lparr>r_State := ''succeeded'', r_Code := ''SUCCEEDED''\<rparr>
                    else x\<lparr>r_State := ''failed'', r_Code := ''PVE_TASK_FAILED'',
                           r_Error := Some \<lparr>ee_Source = ''pve'', ee_Stage = ''task_result'', ee_Method = [], ee_Path = [],
                             ee_HTTPStatus = 0,
                             ee_Reason = (let reason = trim_space (tr_ExitStatus res) in
                               if reason = [] then ''PVE task finished without a successful exit status''
                               else ''PVE task failed: '' @ reason)\<rparr>\<rparr>)
                 else x\<lparr>r_State := ''waiting'', r_Code := ''PVE_TASK_STATUS_INDETERMINATE''\<rparr>)))"

definition reconciledUpgradeReceipt :: "submitted_task \<Rightarrow> task_env \<Rightarrow> gotime \<Rightarrow> svc_error + receipt" where
  "reconciledUpgradeReceipt t te now =
     (case te_id te of
        None \<Rightarrow> Inl SvNoID
      | Some i \<Rightarrow>
          let x = (renewed t i now)\<lparr>r_AgentUpgradeID := tk_AgentUpgradeID t\<rparr>;
              unknown = x\<lparr>r_State := ''waiting'', r_Code := ''AGENT_UPGRADE_STATUS_INDETERMINATE''\<rparr> in
          Inr (ApplyReceiptCompatibility
            (case te_upgrade te of
               None \<Rightarrow> unknown
             | Some res \<Rightarrow>
                 let status = to_lower (trim_space (ur_Status res)) in
                 if status = ''pending'' \<or> status = ''running'' then x\<lparr>r_State := ''waiting'', r_Code := ''AGENT_UPGRADE_WAITING''\<rparr>
                 else if status = ''succeeded'' then
                   (if ur_Code res = ''AGENT_UPGRADE_SUCCEEDED'' \<or> ur_Code res = ''AGENT_UPGRADE_SUCCEEDED_HOST_FIREWALL_V1''
                    then x\<lparr>r_State := ''succeeded'', r_Code := ur_Code res\<rparr> else unknown)
                 else if status = ''rolled_back''
                   then x\<lparr>r_State := ''failed'', r_Code := ''AGENT_UPGRADE_ROLLED_BACK'', r_Error := ur_Error res\<rparr>
                 else if status = ''failed''
                   then x\<lparr>r_State := ''failed'', r_Code := ''AGENT_UPGRADE_FAILED'', r_Error := ur_Error res\<rparr>
                 else unknown)))"

definition snippet_authority_matches :: "service_config \<Rightarrow> service \<Rightarrow> submitted_task \<Rightarrow> bool" where
  "snippet_authority_matches cfg s t \<longleftrightarrow>
     tk_BindingID t = sc_BindingID cfg \<and> tk_DeviceID t = sc_DeviceID cfg \<and> tk_CredentialEpoch t = sc_CredentialEpoch cfg \<and>
     tk_AssignmentRevision t = current_revision cfg s \<and>
     tk_AgentRef t = sc_AgentRef cfg \<and> tk_ClusterRef t = sc_ClusterRef cfg \<and>
     (case Lookup (sv_assignments s) (tk_ClusterRef t) (tk_GuestType t) (tk_VMID t) of
        None \<Rightarrow> False
      | Some a \<Rightarrow> as_ServiceRef a = tk_ServiceRef t \<and> as_InstanceUUID a = tk_InstanceUUID t \<and>
          as_Generation a = tk_Generation t \<and> (as_NodeRef a = [] \<or> as_NodeRef a = tk_NodeRef t))"

text \<open>The encoded success result of a snippet deletion is an argument.\<close>

definition reconciledSnippetDeleteReceipt :: "jenv \<Rightarrow> bytes \<Rightarrow> service_config \<Rightarrow> submitted_task \<Rightarrow> task_env \<Rightarrow> gotime \<Rightarrow> service \<Rightarrow>
    (svc_error + receipt) \<times> service" where
  "reconciledSnippetDeleteReceipt env deletedResult cfg t te now s =
     (case reconciledReceipt t te now of
        Inl e \<Rightarrow> (Inl e, s)
      | Inr x \<Rightarrow>
          let settle = (\<lambda>st code y. ApplyReceiptCompatibility (y\<lparr>r_State := st, r_Code := code, r_PVETaskUPID := []\<rparr>));
              bare = x\<lparr>r_Result := []\<rparr> in
          if \<not> snippet_authority_matches cfg s t
            then (Inr (settle ''indeterminate'' ''CLOUD_INIT_SNIPPET_DELETE_INDETERMINATE'' bare), s)
          else case te_task te of
            None \<Rightarrow> (Inr (settle ''waiting'' ''CLOUD_INIT_SNIPPET_DELETE_INDETERMINATE'' x), s)
          | Some res \<Rightarrow>
              if to_lower (trim_space (tr_Status res)) \<noteq> ''stopped''
                then (Inr (ApplyReceiptCompatibility (x\<lparr>r_PVETaskUPID := []\<rparr>)), s)
              else if \<not> equal_fold (trim_space (tr_ExitStatus res)) ''OK''
                then (Inr (settle ''failed'' ''CLOUD_INIT_SNIPPET_DELETE_FAILED'' bare), s)
              else if \<not> sc_ExecutorClient cfg \<or> tk_GuestType t \<noteq> ''qemu'' \<or> tk_VMID t < 1 \<or> \<not> storageRE (tk_SnippetStorageID t) \<or>
                  \<not> bodyHashRE (tk_SnippetVolumeSHA256 t) then (Inl SvProjection, s)
              else (case sv_update env (UTaskAdvance t ''deleted'' now) (te_deleted_ios te) s of
                (Some e, s1) \<Rightarrow> (Inl e, s1)
              | (None, s1) \<Rightarrow>
                  if \<not> te_absent te then (Inr (settle ''waiting'' ''CLOUD_INIT_SNIPPET_VERIFY_FAILED'' bare), s1)
                  else (case sv_update env (UTaskAdvance t ''verified'' now) (te_verified_ios te) s1 of
                    (Some e, s2) \<Rightarrow> (Inl e, s2)
                  | (None, s2) \<Rightarrow> (Inr (settle ''succeeded'' ''SUCCEEDED'' (x\<lparr>r_Result := deletedResult\<rparr>)), s2))))"

definition task_receipt :: "jenv \<Rightarrow> bytes \<Rightarrow> service_config \<Rightarrow> submitted_task \<Rightarrow> task_env \<Rightarrow> service \<Rightarrow> (svc_error + receipt) \<times> service" where
  "task_receipt env deletedResult cfg t te s =
     (let now = to_utc (te_now te) in
      if tk_AgentUpgradeID t \<noteq> [] then
        (if \<not> sc_UpgradeResolver cfg then (Inl SvResolver, s) else (reconciledUpgradeReceipt t te now, s))
      else if \<not> sc_TaskResolver cfg then (Inl SvResolver, s)
      else if tk_Action t = ''vm.cloud-init-snippet.delete'' then reconciledSnippetDeleteReceipt env deletedResult cfg t te now s
      else (reconciledReceipt t te now, s))"

definition reconcile_task :: "jenv \<Rightarrow> bytes \<Rightarrow> service_config \<Rightarrow> submitted_task \<Rightarrow> task_env \<Rightarrow> service \<Rightarrow> svc_error option \<times> service" where
  "reconcile_task env deletedResult cfg t te s =
     (case task_receipt env deletedResult cfg t te s of
        (Inl e, s1) \<Rightarrow> (Some e, s1)
      | (Inr x, s1) \<Rightarrow>
          (case sv_update env (UTaskComplete t x) (te_complete_ios te) s1 of
             (Some e, s2) \<Rightarrow> (Some e, s2)
           | (None, s2) \<Rightarrow> enqueueJournaled env cfg (te_delivery te) (tk_CommandID t) x s2))"

text \<open>The loops: past the end of a script every call fails.\<close>

definition no_delivery :: delivery_env where
  "no_delivery = \<lparr>de_sink = False, de_audit_ios = [], de_queue = False, de_mark_ios = []\<rparr>"

fun deliver_all :: "jenv \<Rightarrow> service_config \<Rightarrow> (string \<times> receipt) list \<Rightarrow> delivery_env list \<Rightarrow> service \<Rightarrow> svc_error option \<times> service" where
  "deliver_all env cfg [] des s = (None, s)"
| "deliver_all env cfg ((i, x) # xs) des s =
     (case enqueueJournaled env cfg (case des of [] \<Rightarrow> no_delivery | de # _ \<Rightarrow> de) i x s of
        (Some e, s1) \<Rightarrow> (Some e, s1)
      | (None, s1) \<Rightarrow> deliver_all env cfg xs (tl des) s1)"

fun reconcile_tasks :: "jenv \<Rightarrow> bytes \<Rightarrow> service_config \<Rightarrow> submitted_task list \<Rightarrow> task_env list \<Rightarrow> service \<Rightarrow> svc_error option \<times> service" where
  "reconcile_tasks env deletedResult cfg [] tes s = (None, s)"
| "reconcile_tasks env deletedResult cfg (t # ts) [] s = (Some SvNoID, s)"
| "reconcile_tasks env deletedResult cfg (t # ts) (te # tes) s =
     (case reconcile_task env deletedResult cfg t te s of
        (Some e, s1) \<Rightarrow> (Some e, s1)
      | (None, s1) \<Rightarrow> reconcile_tasks env deletedResult cfg ts tes s1)"

record reconcile_env =
  re_now :: gotime
  re_recover_ios :: "io list"
  re_recover_ids :: id_supply
  re_interrupted :: "delivery_env list"
  re_pending :: "delivery_env list"
  re_tasks :: "task_env list"

definition ReconcileOnce :: "jenv \<Rightarrow> bytes \<Rightarrow> service_config \<Rightarrow> reconcile_env \<Rightarrow> service \<Rightarrow> svc_error option \<times> service" where
  "ReconcileOnce env deletedResult cfg re s =
     (case recoverIncomplete env (to_utc (re_now re)) (sc_Mode cfg) (\<lambda>i. activeCommand i (sv_dispatcher s))
             (re_recover_ios re) (re_recover_ids re) (sv_journal s) of
        (Inl e, d) \<Rightarrow> (Some (SvJournal e), s\<lparr>sv_journal := d\<rparr>)
      | (Inr xs, d) \<Rightarrow>
          (case deliver_all env cfg (map (\<lambda>x. (r_CommandID x, x)) xs) (re_interrupted re) (s\<lparr>sv_journal := d\<rparr>) of
             (Some e, s1) \<Rightarrow> (Some e, s1)
           | (None, s1) \<Rightarrow>
               (case PendingReceipts (sv_journal s1) of
                  Inl e \<Rightarrow> (Some (SvJournal e), s1)
                | Inr pending \<Rightarrow>
                    (case deliver_all env cfg pending (re_pending re) s1 of
                       (Some e, s2) \<Rightarrow> (Some e, s2)
                     | (None, s2) \<Rightarrow>
                         if pending \<noteq> [] then (None, s2)
                         else (case SubmittedWaiting (sv_journal s2) of
                                 Inl e \<Rightarrow> (Some (SvJournal e), s2)
                               | Inr ts \<Rightarrow> reconcile_tasks env deletedResult cfg ts (re_tasks re) s2)))))"

end
