(* ===== verification/Service_Safety.thy ===== *)
theory Service_Safety
  imports Service Journal_Guarantees
begin

section \<open>The service on top of journal and dispatcher\<close>

text \<open>
  Every operation of the service acts on the journal through journal operations, so what is proved
  of runs of the journal holds of the service.  On top of it: a history of the service executes
  each mutating command at most once, only verified commands start, the cursor moves only past
  answered commands (Service_Receipts), and a full lane leaves a command unclaimed.
\<close>

subsection \<open>The service as a client of the journal\<close>

definition acts :: "jenv \<Rightarrow> command set \<Rightarrow> service \<Rightarrow> command list \<Rightarrow> service \<Rightarrow> bool" where
  "acts env C s xs s' \<longleftrightarrow> (\<exists>as. jrun env as (sv_journal s) = (xs, sv_journal s') \<and> claims as \<subseteq> C)"

lemma jrun_append:
  "jrun env (as @ bs) d = (case jrun env as d of (xs, d1) \<Rightarrow> case jrun env bs d1 of (ys, d2) \<Rightarrow> (xs @ ys, d2))"
  by (induction as arbitrary: d) (auto split: prod.splits)

lemma claims_append: "claims (as @ bs) = claims as \<union> claims bs"
  by (induction as rule: claims.induct) auto

lemma acts_same: "sv_journal s' = sv_journal s \<Longrightarrow> acts env C s [] s'"
  unfolding acts_def by (rule exI [of _ "[]"]) simp

lemma acts_trans:
  assumes "acts env C s xs s1" "acts env C s1 ys s2"
  shows "acts env C s (xs @ ys) s2"
proof -
  obtain as bs where "jrun env as (sv_journal s) = (xs, sv_journal s1)" "claims as \<subseteq> C"
    "jrun env bs (sv_journal s1) = (ys, sv_journal s2)" "claims bs \<subseteq> C"
    using assms by (auto simp: acts_def)
  then show ?thesis
    unfolding acts_def by (intro exI [of _ "as @ bs"]) (simp add: jrun_append claims_append)
qed

lemma acts_trans_Nil: "acts env C s [] s1 \<Longrightarrow> acts env C s1 xs s2 \<Longrightarrow> acts env C s xs s2"
  using acts_trans [of env C s "[]" s1 xs s2] by simp

lemma acts_one: "jstep env a (sv_journal s) = (xs, sv_journal s') \<Longrightarrow> claims [a] \<subseteq> C \<Longrightarrow> acts env C s xs s'"
  unfolding acts_def by (intro exI [of _ "[a]"]) simp

lemma sv_update_acts: "sv_update env u ios s = (err, s') \<Longrightarrow> acts env C s [] s'"
  by (rule acts_one [where a = "JUpdate u ios"]) (auto simp: sv_update_def split: prod.splits option.splits)

text \<open>What an operation leaves alone: everything the verification of commands reads, and the cursor.\<close>

definition same_authority :: "service \<Rightarrow> service \<Rightarrow> bool" where
  "same_authority s s' \<longleftrightarrow>
     sv_external_revision s' = sv_external_revision s \<and> sv_revision s' = sv_revision s \<and> sv_dynamic s' = sv_dynamic s \<and>
     sv_allowed s' = sv_allowed s \<and> sv_assignments s' = sv_assignments s \<and>
     sv_cursor s' = sv_cursor s \<and> sv_cursor_file s' = sv_cursor_file s"

lemma same_authority_refl [simp]: "same_authority s s"
  by (simp add: same_authority_def)

lemma same_authority_trans: "same_authority s s1 \<Longrightarrow> same_authority s1 s2 \<Longrightarrow> same_authority s s2"
  by (simp add: same_authority_def)

lemma same_authority_config: "same_authority s s' \<Longrightarrow> verify_config_of cfg s' now = verify_config_of cfg s now"
  by (simp add: same_authority_def verify_config_of_def)

text \<open>
  The common shape of the operations below: journal operations, the authority kept, the
  dispatcher kept, and a number of receipts appended.
\<close>

definition works :: "jenv \<Rightarrow> service \<Rightarrow> nat \<Rightarrow> service \<Rightarrow> bool" where
  "works env s n s' \<longleftrightarrow> acts env {} s [] s' \<and> same_authority s s' \<and> sv_dispatcher s' = sv_dispatcher s \<and>
     (\<exists>rs. sv_receipts s' = sv_receipts s @ rs \<and> length rs = n)"

lemma works_refl [simp]: "works env s 0 s"
  by (simp add: works_def acts_same)

lemma works_trans: "works env s n s1 \<Longrightarrow> works env s1 k s2 \<Longrightarrow> works env s (n + k) s2"
  by (auto simp: works_def intro: acts_trans_Nil same_authority_trans)

lemma sv_update_works: "sv_update env u ios s = (err, s') \<Longrightarrow> works env s 0 s'"
  using sv_update_acts [of env u ios s err s' "{}"]
  by (auto simp: works_def sv_update_def same_authority_def split: prod.splits option.splits)

lemma sv_enqueue_works: "sv_enqueue env ok x s = (err, s') \<Longrightarrow> works env s (if err = None then 1 else 0) s'"
  by (auto simp: sv_enqueue_def works_def same_authority_def Let_def acts_same split: if_splits)

lemma works_events: "works env (s\<lparr>sv_events := es\<rparr>) n s' \<longleftrightarrow> works env s n s'"
  by (simp add: works_def acts_def same_authority_def)

lemma deliver_audit_works: "deliver_audit env cfg de i p s = (err, s') \<Longrightarrow> works env s 0 s'"
  by (auto simp: deliver_audit_def works_events split: option.splits if_splits dest!: sv_update_works)

text \<open>An operation that answers one command: one receipt when it succeeds.\<close>

definition answers :: "jenv \<Rightarrow> service \<Rightarrow> svc_error option \<Rightarrow> service \<Rightarrow> bool" where
  "answers env s err s' \<longleftrightarrow> (\<exists>n. works env s n s' \<and> (err = None \<longrightarrow> n = 1))"

lemma answers_error: "works env s n s' \<Longrightarrow> answers env s (Some e) s'"
  by (auto simp: answers_def)

lemma answers_same [simp]: "answers env s (Some e) s"
  by (rule answers_error [OF works_refl])

lemma answers_works: "works env s 0 s1 \<Longrightarrow> answers env s1 err s2 \<Longrightarrow> answers env s err s2"
  unfolding answers_def using works_trans [of env s 0 s1] by fastforce

lemma answers_then: "answers env s None s1 \<Longrightarrow> works env s1 0 s2 \<Longrightarrow> answers env s err s2"
  unfolding answers_def using works_trans [of env s 1 s1 0 s2] by fastforce

lemma sv_enqueue_answers: "sv_enqueue env ok x s = (err, s') \<Longrightarrow> answers env s err s'"
  unfolding answers_def using sv_enqueue_works [of env ok x s err s'] by (auto split: if_splits)

lemma answers_events: "answers env (s\<lparr>sv_events := es\<rparr>) err s' \<longleftrightarrow> answers env s err s'"
  by (simp add: answers_def works_events)

lemma enqueueJournaled_answers:
  assumes "enqueueJournaled env cfg de i x s = (err, s')"
  shows "answers env s err s'"
proof (cases "PendingAuditForReceipt env (sv_journal s) i (r_ReceiptID x)")
  case (Inl e)
  then show ?thesis using assms by (auto simp: enqueueJournaled_def)
next
  case (Inr p)
  obtain e1 s1 where d: "deliver_audit env cfg de i p s = (e1, s1)" by fastforce
  obtain e2 s2 where q: "sv_enqueue env (de_queue de) x s1 = (e2, s2)" by fastforce
  note w1 = deliver_audit_works [OF d] and w2 = sv_enqueue_answers [OF q]
  note w12 = answers_works [OF w1 w2]
  show ?thesis
  proof (cases "e1 = None \<and> e2 = None")
    case True
    then have u: "sv_update env (UReceiptQueued i (r_ReceiptID x)) (de_mark_ios de) s2 = (err, s')"
      using assms Inr d q by (simp add: enqueueJournaled_def)
    show ?thesis using answers_then [OF _ sv_update_works [OF u]] w12 True by blast
  next
    case False
    then show ?thesis
      using assms Inr d q w12 answers_error [OF w1] by (auto simp: enqueueJournaled_def split: option.splits)
  qed
qed

lemma enqueueDeniedAudit_answers:
  assumes "enqueueDeniedAudit env cfg de c x t s = (err, s')"
  shows "answers env s err s'"
proof -
  consider (same) e where "err = Some e" "s' = s"
    | (queue) es where "sv_enqueue env (de_queue de) x (s\<lparr>sv_events := es\<rparr>) = (err, s')"
    using assms unfolding enqueueDeniedAudit_def Let_def by (auto split: option.splits if_splits)
  then show ?thesis
  proof cases
    case queue
    show ?thesis using sv_enqueue_answers [OF queue] unfolding answers_events .
  qed simp
qed

lemma reject_answers: "reject env cfg pe c code audited s = (err, s') \<Longrightarrow> answers env s err s'"
  unfolding reject_def
  by (cases "sv_rejection cfg (pe_id pe) c code (to_utc (pe_now pe))"; cases audited)
    (auto intro: enqueueDeniedAudit_answers sv_enqueue_answers)

lemma apply_updates_works: "works env s 0 (apply_updates env us s)"
proof (induction us arbitrary: s)
  case (Cons u us)
  obtain v ios where u: "u = (v, ios)" by (cases u)
  have "works env s 0 (snd (sv_update env v ios s))" using sv_update_works [of env v ios s] by (metis prod.collapse)
  from works_trans [OF this Cons.IH] show ?case using u by simp
qed simp

lemma finish_command_answers:
  assumes "finish_command env cfg c x failed ios de s = (err, s')"
  shows "answers env s err s'"
proof -
  let ?x = "ApplyReceiptCompatibility (x\<lparr>r_OperationID := c_OperationID c\<rparr>)"
  obtain e1 s1 where u: "sv_update env (UComplete c ?x) ios s = (e1, s1)" by fastforce
  note w = sv_update_works [OF u]
  consider (stop) e where "err = Some e" "s' = s1" | (go) "enqueueJournaled env cfg de (c_CommandID c) ?x s1 = (err, s')"
    using assms u by (auto simp: finish_command_def Let_def split: option.splits if_splits)
  then show ?thesis
  proof cases
    case stop
    then show ?thesis using answers_error [OF w] by simp
  next
    case go
    show ?thesis by (rule answers_works [OF w enqueueJournaled_answers [OF go]])
  qed
qed

lemma execute_now_answers:
  assumes "execute_now env cfg pe c s = (err, s')"
  shows "answers env s err s'"
proof (cases "xo_result (pe_exec pe)")
  case None
  then show ?thesis
    using assms answers_error [OF apply_updates_works [of env s "xo_updates (pe_exec pe)"]]
    by (auto simp: execute_now_def Let_def)
next
  case (Some r)
  obtain x failed where r: "r = (x, failed)" by (cases r)
  have "finish_command env cfg c x failed (pe_complete_ios pe) (pe_delivery pe) (apply_updates env (xo_updates (pe_exec pe)) s) = (err, s')"
    using assms Some r by (simp add: execute_now_def Let_def)
  from answers_works [OF apply_updates_works finish_command_answers [OF this]] show ?thesis .
qed

text \<open>Starting a command also changes the dispatcher.\<close>

lemma start_command_cases:
  assumes "start_command env cfg pe c s = (err, s')"
  shows "answers env s err s' \<and> err \<noteq> None \<or>
    (\<exists>s2 d. answers env s None s2 \<and> submit c (sv_dispatcher s2) = (True, d) \<and> err = None \<and> s' = s2\<lparr>sv_dispatcher := d\<rparr>)"
proof (cases "runningReceipt cfg (pe_id pe) c (to_utc (pe_now pe))")
  case (Inl e)
  then show ?thesis using assms by (auto simp: start_command_def)
next
  case (Inr x)
  obtain e1 s1 where u: "sv_update env (UBeginRunning c x) (pe_begin_ios pe) s = (e1, s1)" by fastforce
  obtain e2 s2 where q: "enqueueJournaled env cfg (pe_delivery pe) (c_CommandID c) x s1 = (e2, s2)" by fastforce
  obtain b d where m: "submit c (sv_dispatcher s2) = (b, d)" by fastforce
  have w: "works env s 0 s1" "answers env s e2 s2"
    using sv_update_works [OF u] answers_works [OF sv_update_works [OF u] enqueueJournaled_answers [OF q]] by auto
  have r: "start_command env cfg pe c s =
      (if e1 \<noteq> None then (e1, s1) else if e2 \<noteq> None then (e2, s2)
       else if b then (None, s2\<lparr>sv_dispatcher := d\<rparr>) else (Some SvLaneFull, s2))"
    by (cases e1; cases e2; cases b) (simp_all add: start_command_def Inr u q m)
  show ?thesis
  proof (cases "e1 = None \<and> e2 = None \<and> b")
    case True
    then have "answers env s None s2" "submit c (sv_dispatcher s2) = (True, d)" "err = None" "s' = s2\<lparr>sv_dispatcher := d\<rparr>"
      using w(2) m assms unfolding r by simp_all
    then show ?thesis by blast
  next
    case False
    have "answers env s e1 s1" if "e1 \<noteq> None" using that answers_error [OF w(1)] by auto
    moreover have "answers env s (Some SvLaneFull) s2" using w(2) unfolding answers_def by auto
    ultimately have "answers env s err s' \<and> err \<noteq> None" using False w(2) assms unfolding r by (simp split: if_splits) blast+
    then show ?thesis ..
  qed
qed


subsection \<open>Admission of one command\<close>

lemma works_acts: "works env s n s' \<Longrightarrow> acts env C s [] s'"
  by (auto simp: works_def acts_def)

lemma answers_acts: "answers env s err s' \<Longrightarrow> acts env C s [] s' \<and> same_authority s s' \<and> sv_dispatcher s' = sv_dispatcher s"
  using works_acts by (auto simp: answers_def works_def)

lemma sv_claim_acts:
  assumes "sv_claim env cfg pe c s = (r, d)" "c \<in> C"
  shows "acts env C s (if r = Inr Execute then [c] else []) (s\<lparr>sv_journal := d\<rparr>)"
proof -
  consider (none) "d = sv_journal s" "r \<noteq> Inr Execute"
    | (claim) audit where "claim env c (to_utc (pe_now pe)) audit (pe_claim_ios pe) (pe_claim_ids pe) (sv_journal s) = (r, d)"
    using assms(1) by (auto simp: sv_claim_def ClaimWithAudit_def split: if_splits option.splits)
  then show ?thesis
  proof cases
    case none
    then show ?thesis using acts_same by simp
  next
    case (claim audit)
    then show ?thesis
      using assms(2) by (intro acts_one [where a = "JClaim c (to_utc (pe_now pe)) audit (pe_claim_ios pe) (pe_claim_ids pe)"]) auto
  qed
qed

text \<open>
  The three ends of an admission: nothing claimed and nothing changed, a receipt for a command
  that does not start, or a command that starts.
\<close>

definition accepts :: "command list \<Rightarrow> dispatcher \<Rightarrow> dispatcher \<Rightarrow> bool" where
  "accepts xs d d' \<longleftrightarrow> d' = d \<or> (\<exists>c. xs = [c] \<and> submit c d = (True, d'))"

lemma accepts_refl [simp]: "accepts xs d d"
  by (simp add: accepts_def)

definition admitted :: "jenv \<Rightarrow> command \<Rightarrow> service \<Rightarrow> svc_error option \<Rightarrow> command list \<Rightarrow> service \<Rightarrow> bool" where
  "admitted env c s err xs s' \<longleftrightarrow> acts env {c} s xs s' \<and> same_authority s s' \<and> set xs \<subseteq> {c} \<and>
     accepts xs (sv_dispatcher s) (sv_dispatcher s') \<and>
     (\<exists>rs. sv_receipts s' = sv_receipts s @ rs \<and> (err = None \<longrightarrow> length rs = 1))"

lemma answers_admitted:
  assumes "answers env s1 err s'" "acts env {c} s xs s1" "same_authority s s1" "sv_dispatcher s1 = sv_dispatcher s"
    "sv_receipts s1 = sv_receipts s" "set xs \<subseteq> {c}"
  shows "admitted env c s err xs s'"
  using assms answers_acts [OF assms(1), of "{c}"] acts_trans [OF assms(2), of "[]" s'] same_authority_trans [OF assms(3)]
  by (auto simp: admitted_def answers_def works_def)

lemma journal_only: "same_authority s (s\<lparr>sv_journal := d\<rparr>)"
  by (simp add: same_authority_def)

lemma admit_admitted:
  assumes "admit env cfg pe c s = (err, xs, s')"
  shows "admitted env c s err xs s'"
proof (cases "production cfg \<and> \<not> hasCapacity c (sv_dispatcher s)")
  case True
  then show ?thesis using assms by (auto simp: admit_def admitted_def acts_same)
next
  case False
  obtain r d where cl: "sv_claim env cfg pe c s = (r, d)" by fastforce
  let ?s = "s\<lparr>sv_journal := d\<rparr>"
  have a: "acts env {c} s (if r = Inr Execute then [c] else []) ?s" using sv_claim_acts [OF cl] by simp
  note base = answers_admitted [OF _ a journal_only]
  consider (refused) e where "r = Inl e" | (replay) x where "r = Inr (Replay x)" | (exec) "r = Inr Execute"
    by (metis claimed.exhaust sum.exhaust)
  then show ?thesis
  proof cases
    case (refused e)
    then show ?thesis
      using assms False cl reject_answers base by (auto simp: admit_def split: prod.splits)
  next
    case (replay x)
    then show ?thesis
      using assms False cl enqueueJournaled_answers base by (auto simp: admit_def split: prod.splits)
  next
    case exec
    show ?thesis
    proof (cases "production cfg")
      case False
      then have "execute_now env cfg pe c ?s = (err, s')" "xs = [c]"
        using assms cl exec by (auto simp: admit_def split: prod.splits)
      then show ?thesis using base [OF execute_now_answers] exec by simp
    next
      case prod: True
      then have st: "start_command env cfg pe c ?s = (err, s')" and xs: "xs = [c]"
        using assms cl exec False by (auto simp: admit_def split: prod.splits)
      from start_command_cases [OF st] show ?thesis
      proof (elim disjE exE conjE)
        assume "answers env ?s err s'"
        then show ?thesis using base exec xs by simp
      next
        fix s2 d2
        assume an: "answers env ?s None s2" and sub: "submit c (sv_dispatcher s2) = (True, d2)" "err = None"
          "s' = s2\<lparr>sv_dispatcher := d2\<rparr>"
        have "admitted env c s None [c] s2" using base [OF an] exec by simp
        moreover have "sv_dispatcher s2 = sv_dispatcher s" using answers_acts [OF an, of "{}"] by simp
        ultimately show ?thesis using sub xs by (auto simp: admitted_def acts_def same_authority_def accepts_def)
      qed
    qed
  qed
qed

lemma poll_command_admitted:
  assumes "poll_command env vp cfg c pe s = (err, xs, s')"
  shows "admitted env c s err xs s' \<and>
    (xs \<noteq> [] \<longrightarrow> Verify (je_crypto env) vp (to_utc (pe_now pe)) c (verify_config_of cfg s (to_utc (pe_now pe))) = None \<and>
       (requiresApproval (c_Action c) \<longrightarrow> sc_AuditSink cfg))"
proof -
  note rj = answers_admitted [OF reject_answers _ same_authority_refl refl refl, where xs = "[]", simplified]
  have "acts env {c} s [] s" by (rule acts_same) simp
  note rj = rj [OF _ this]
  show ?thesis
  proof (cases "Verify (je_crypto env) vp (to_utc (pe_now pe)) c (verify_config_of cfg s (to_utc (pe_now pe)))")
    case None
    then show ?thesis
      using assms admit_admitted rj by (auto simp: poll_command_def Let_def split: if_splits prod.splits)
  next
    case (Some e)
    then show ?thesis using assms rj by (auto simp: poll_command_def Let_def split: prod.splits)
  qed
qed

end
