(* ===== verification/Service_Guarantees.thy ===== *)
theory Service_Guarantees
  imports Service_Safety
begin

section \<open>What the control service guarantees\<close>

text \<open>
  Histories of the service: polls, workers that start and finish commands, reconciliations, new
  assignment authorities and restarts, in any order and with any failing call.
\<close>

subsection \<open>Histories\<close>

datatype svc_op =
    SPoll "((command \<times> poll_env) list \<times> string) option" "io list"
  | SStart lane
  | SFinish lane command work_env
  | SReconcile reconcile_env
  | SAuthority assignments u64 "string list"
  | SRevision u64
  | SRestart bool "string list" asn_store "io list"

record svc_context =
  cx_env :: jenv
  cx_validParameters :: "command \<Rightarrow> bool"
  cx_executionError :: "string \<Rightarrow> string \<Rightarrow> execution_error"
  cx_deletedResult :: bytes
  cx_config :: service_config

text \<open>One step: the commands the journal released, the commands that began to execute, the state.\<close>

fun svc_step :: "svc_context \<Rightarrow> svc_op \<Rightarrow> bool \<times> service \<Rightarrow> command list \<times> command list \<times> bool \<times> service" where
  "svc_step cx (SPoll response ios) (up, s) =
     (if \<not> up then ([], [], up, s)
      else (case PollOnce (cx_env cx) (cx_validParameters cx) (cx_config cx) response ios s of
              (err, xs, s') \<Rightarrow> (xs, if production (cx_config cx) then [] else xs, up, s')))"
| "svc_step cx (SStart l) (up, s) =
     (case worker_take l (sv_dispatcher s) of
        None \<Rightarrow> ([], [], up, s)
      | Some (c, d) \<Rightarrow> if up then ([], [c], up, s\<lparr>sv_dispatcher := d\<rparr>) else ([], [], up, s))"
| "svc_step cx (SFinish l c we) (up, s) =
     (if \<not> up \<or> c \<notin> set (ds_running (sv_dispatcher s) l) then ([], [], up, s)
      else let s1 = executeDispatched (cx_env cx) (cx_executionError cx) (cx_config cx) we c s
           in ([], [], up, s1\<lparr>sv_dispatcher := worker_done l c (sv_dispatcher s1)\<rparr>))"
| "svc_step cx (SReconcile re) (up, s) =
     (if \<not> up then ([], [], up, s)
      else ([], [], up, snd (ReconcileOnce (cx_env cx) (cx_deletedResult cx) (cx_config cx) re s)))"
| "svc_step cx (SAuthority doc revision actions) (up, s) =
     (if \<not> up then ([], [], up, s) else ([], [], up, snd (ApplyAssignmentAuthority (cx_config cx) doc revision actions s)))"
| "svc_step cx (SRevision w) (up, s) = ([], [], up, s\<lparr>sv_external_revision := w\<rparr>)"
| "svc_step cx (SRestart dynamic actions assignments ios) (up, s) =
     (case NewService (cx_config cx) dynamic actions assignments ios s of (err, s') \<Rightarrow> ([], [], err = None, s'))"

fun svc_run :: "svc_context \<Rightarrow> svc_op list \<Rightarrow> bool \<times> service \<Rightarrow> command list \<times> command list \<times> bool \<times> service" where
  "svc_run cx [] us = ([], [], us)"
| "svc_run cx (a # as) us =
     (case svc_step cx a us of
        (hs, xs, us1) \<Rightarrow> (case svc_run cx as us1 of (hs', xs', us2) \<Rightarrow> (hs @ hs', xs @ xs', us2)))"

fun polled :: "svc_op list \<Rightarrow> command set" where
  "polled [] = {}"
| "polled (SPoll (Some (cs, cursor)) ios # as) = fst ` set cs \<union> polled as"
| "polled (a # as) = polled as"

subsection \<open>Reconciliation and workers act through the journal\<close>

lemma works_answers_any: "answers env s err s' \<Longrightarrow> \<exists>n. works env s n s'"
  by (auto simp: answers_def)

lemma works_any: "\<exists>n. works env s n s"
  using works_refl by blast

lemma any_trans: "\<exists>n. works env s n s1 \<Longrightarrow> \<exists>n. works env s1 n s2 \<Longrightarrow> \<exists>n. works env s n s2"
  using works_trans by blast

lemma deliver_all_works: "deliver_all env cfg xs des s = (err, s') \<Longrightarrow> \<exists>n. works env s n s'"
proof (induction env cfg xs des s arbitrary: err s' rule: deliver_all.induct)
  case (2 env cfg i x xs des s)
  obtain e1 s1 where q: "enqueueJournaled env cfg (case des of [] \<Rightarrow> no_delivery | de # _ \<Rightarrow> de) i x s = (e1, s1)" by fastforce
  have w: "\<exists>n. works env s n s1" using works_answers_any [OF enqueueJournaled_answers [OF q]] .
  show ?case
  proof (cases e1)
    case None
    then have "\<exists>n. works env s1 n s'" using "2.IH" [OF q [symmetric] None] "2.prems" q by simp
    with w show ?thesis by (rule any_trans)
  next
    case (Some e)
    then show ?thesis using "2.prems" q w by simp
  qed
qed (auto intro: exI [of _ 0])

lemma snippet_receipt_works:
  "reconciledSnippetDeleteReceipt env dr cfg t te now s = (r, s') \<Longrightarrow> \<exists>n. works env s n s'"
proof -
  assume a: "reconciledSnippetDeleteReceipt env dr cfg t te now s = (r, s')"
  obtain e1 s1 where u: "sv_update env (UTaskAdvance t ''deleted'' now) (te_deleted_ios te) s = (e1, s1)" by fastforce
  obtain e2 s2 where v: "sv_update env (UTaskAdvance t ''verified'' now) (te_verified_ios te) s1 = (e2, s2)" by fastforce
  have "s' = s \<or> s' = s1 \<or> s' = s2"
    using a u v unfolding reconciledSnippetDeleteReceipt_def Let_def
    by (auto split: sum.splits option.splits if_splits)
  then show ?thesis
    using sv_update_works [OF u] works_trans [OF sv_update_works [OF u] sv_update_works [OF v]] works_refl by blast
qed

lemma task_receipt_works: "task_receipt env dr cfg t te s = (r, s') \<Longrightarrow> \<exists>n. works env s n s'"
  using snippet_receipt_works works_any by (auto simp: task_receipt_def Let_def split: if_splits)

lemma reconcile_task_works:
  assumes "reconcile_task env dr cfg t te s = (err, s')"
  shows "\<exists>n. works env s n s'"
proof -
  obtain r s1 where t: "task_receipt env dr cfg t te s = (r, s1)" by fastforce
  note w = task_receipt_works [OF t]
  show ?thesis
  proof (cases r)
    case (Inl e)
    then show ?thesis using assms t w by (auto simp: reconcile_task_def)
  next
    case (Inr x)
    obtain e2 s2 where u: "sv_update env (UTaskComplete t x) (te_complete_ios te) s1 = (e2, s2)" by fastforce
    have w2: "\<exists>n. works env s n s2" using any_trans [OF w] sv_update_works [OF u] by blast
    show ?thesis
    proof (cases e2)
      case None
      then have "enqueueJournaled env cfg (te_delivery te) (tk_CommandID t) x s2 = (err, s')"
        using assms t Inr u by (simp add: reconcile_task_def)
      then show ?thesis using any_trans [OF w2] works_answers_any enqueueJournaled_answers by blast
    next
      case (Some e)
      then show ?thesis using assms t Inr u w2 by (simp add: reconcile_task_def)
    qed
  qed
qed

lemma reconcile_tasks_works: "reconcile_tasks env dr cfg ts tes s = (err, s') \<Longrightarrow> \<exists>n. works env s n s'"
proof (induction env dr cfg ts tes s arbitrary: err s' rule: reconcile_tasks.induct)
  case (3 env dr cfg t ts te tes s)
  obtain e1 s1 where q: "reconcile_task env dr cfg t te s = (e1, s1)" by fastforce
  note w = reconcile_task_works [OF q]
  show ?case
  proof (cases e1)
    case None
    then have "\<exists>n. works env s1 n s'" using "3.IH" [OF q [symmetric] None] "3.prems" q by simp
    with w show ?thesis by (rule any_trans)
  next
    case (Some e)
    then show ?thesis using "3.prems" q w by simp
  qed
qed (auto intro: exI [of _ 0])

text \<open>What a reconciliation and a finished command leave: journal operations, the same dispatcher.\<close>

definition keeps :: "jenv \<Rightarrow> service \<Rightarrow> service \<Rightarrow> bool" where
  "keeps env s s' \<longleftrightarrow> acts env {} s [] s' \<and> same_authority s s' \<and> sv_dispatcher s' = sv_dispatcher s"

lemma works_keeps: "works env s n s' \<Longrightarrow> keeps env s s'"
  by (simp add: works_def keeps_def)

lemma keeps_trans: "keeps env s s1 \<Longrightarrow> keeps env s1 s2 \<Longrightarrow> keeps env s s2"
  by (auto simp: keeps_def intro: acts_trans_Nil same_authority_trans)

lemma ReconcileOnce_keeps:
  assumes "ReconcileOnce env dr cfg re s = (err, s')"
  shows "keeps env s s'"
proof -
  let ?a = "\<lambda>i. activeCommand i (sv_dispatcher s)"
  obtain r d where rec: "recoverIncomplete env (to_utc (re_now re)) (sc_Mode cfg) ?a (re_recover_ios re) (re_recover_ids re) (sv_journal s) = (r, d)"
    by fastforce
  have k0: "keeps env s (s\<lparr>sv_journal := d\<rparr>)"
    unfolding keeps_def using rec
    by (auto simp: same_authority_def intro!: acts_one [where a = "JRecover (to_utc (re_now re)) (sc_Mode cfg) ?a (re_recover_ios re) (re_recover_ids re)"])
  show ?thesis
  proof (cases r)
    case (Inl e)
    then show ?thesis using assms rec k0 by (simp add: ReconcileOnce_def)
  next
    case (Inr xs)
    obtain e1 s1 where d1: "deliver_all env cfg (map (\<lambda>x. (r_CommandID x, x)) xs) (re_interrupted re) (s\<lparr>sv_journal := d\<rparr>) = (e1, s1)"
      by fastforce
    have k1: "keeps env s s1" using keeps_trans [OF k0] works_keeps deliver_all_works [OF d1] by blast
    have k2: "keeps env s s2" if "deliver_all env cfg ps (re_pending re) s1 = (e2, s2)" for ps e2 s2
      using keeps_trans [OF k1] works_keeps deliver_all_works [OF that] by blast
    have k3: "keeps env s s3" if "deliver_all env cfg ps (re_pending re) s1 = (e2, s2)"
      "reconcile_tasks env dr cfg ts (re_tasks re) s2 = (e3, s3)" for ps e2 s2 ts e3 s3
      using keeps_trans [OF k2 [OF that(1)]] works_keeps reconcile_tasks_works [OF that(2)] by blast
    have k4: "keeps env s s3" if "reconcile_tasks env dr cfg ts (re_tasks re) s1 = (e3, s3)" for ts e3 s3
      using keeps_trans [OF k1] works_keeps reconcile_tasks_works [OF that] by blast
    show ?thesis
      using assms rec Inr d1 k1 k2 k3 k4 unfolding ReconcileOnce_def
      by (auto split: option.splits sum.splits if_splits prod.splits)
  qed
qed

lemma executeDispatched_keeps: "keeps env s (executeDispatched env xerr cfg we c s)"
proof -
  let ?s = "apply_updates env (xo_updates (we_exec we)) s"
  obtain x failed where x: "executeDispatchedCommand env xerr cfg we c = (x, failed)" by fastforce
  obtain err s' where f: "finish_command env cfg c x failed (we_complete_ios we) (we_delivery we) ?s = (err, s')" by fastforce
  have "keeps env s ?s" using works_keeps [OF apply_updates_works] .
  moreover have "keeps env ?s s'" using works_keeps works_answers_any [OF finish_command_answers [OF f]] by blast
  ultimately show ?thesis using keeps_trans x f by (simp add: executeDispatched_def Let_def)
qed


subsection \<open>Polls\<close>

definition queued :: "dispatcher \<Rightarrow> command multiset" where
  "queued d = (\<Sum>l \<leftarrow> [Console, Heavy, Critical, Normal]. mset (ds_queue d l))"

lemma submit_queued: "submit c d = (b, d') \<Longrightarrow> queued d' \<subseteq># queued d + {#c#}"
  by (cases "queueFor c") (auto simp: submit_def queued_def Let_def split: if_splits)

lemma accepts_queued: "accepts xs d d' \<Longrightarrow> queued d' \<subseteq># queued d + mset xs"
  using submit_queued by (auto simp: accepts_def)

lemma take_queued: "worker_take l d = Some (c, d') \<Longrightarrow> queued d = add_mset c (queued d')"
  by (cases l) (auto simp: worker_take_def queued_def split: if_splits list.splits)

lemma acts_mono: "acts env C s xs s' \<Longrightarrow> C \<subseteq> D \<Longrightarrow> acts env D s xs s'"
  by (auto simp: acts_def)

text \<open>What a whole response leaves behind.\<close>

definition polls :: "svc_context \<Rightarrow> (command \<times> poll_env) list \<Rightarrow> service \<Rightarrow> svc_error option \<Rightarrow> command list \<Rightarrow> service \<Rightarrow> bool" where
  "polls cx cs s err xs s' \<longleftrightarrow>
     acts (cx_env cx) (fst ` set cs) s xs s' \<and> same_authority s s' \<and>
     queued (sv_dispatcher s') \<subseteq># queued (sv_dispatcher s) + mset xs \<and>
     (\<exists>rs. sv_receipts s' = sv_receipts s @ rs \<and> (err = None \<longrightarrow> length rs = length cs)) \<and>
     (\<forall>c \<in> set xs. \<exists>pe. (c, pe) \<in> set cs \<and>
        Verify (je_crypto (cx_env cx)) (cx_validParameters cx) (to_utc (pe_now pe)) c
          (verify_config_of (cx_config cx) s (to_utc (pe_now pe))) = None \<and>
        (requiresApproval (c_Action c) \<longrightarrow> sc_AuditSink (cx_config cx)))"

lemma poll_command_polls:
  assumes "poll_command (cx_env cx) (cx_validParameters cx) (cx_config cx) c pe s = (err, xs, s')"
  shows "polls cx [(c, pe)] s err xs s'"
  using poll_command_admitted [OF assms]
  unfolding polls_def admitted_def by (auto dest: accepts_queued)

lemma polls_trans:
  assumes "polls cx cs s None xs s1" "polls cx cs' s1 err ys s2"
  shows "polls cx (cs @ cs') s err (xs @ ys) s2"
proof -
  have "acts (cx_env cx) (fst ` set (cs @ cs')) s (xs @ ys) s2"
    using assms by (intro acts_trans [where ?s1.0 = s1]) (auto simp: polls_def elim: acts_mono)
  moreover have "same_authority s s2" using assms by (auto simp: polls_def intro: same_authority_trans)
  moreover have "queued (sv_dispatcher s2) \<subseteq># queued (sv_dispatcher s) + mset (xs @ ys)"
    using assms subset_mset.order_trans [of "queued (sv_dispatcher s2)" "queued (sv_dispatcher s1) + mset ys"]
    by (simp add: polls_def subset_mset.add_right_mono add.assoc [symmetric])
  moreover have "\<exists>rs. sv_receipts s2 = sv_receipts s @ rs \<and> (err = None \<longrightarrow> length rs = length (cs @ cs'))"
    using assms unfolding polls_def by fastforce
  moreover have "verify_config_of (cx_config cx) s1 t = verify_config_of (cx_config cx) s t" for t
    using assms(1) same_authority_config by (auto simp: polls_def)
  ultimately show ?thesis using assms unfolding polls_def by fastforce
qed

lemma polls_more: "polls cx cs s (Some e) xs s' \<Longrightarrow> polls cx (cs @ cs') s (Some e) xs s'"
  unfolding polls_def by (fastforce elim: acts_mono)

lemma poll_commands_polls:
  "poll_commands (cx_env cx) (cx_validParameters cx) (cx_config cx) cs s = (err, xs, s') \<Longrightarrow> polls cx cs s err xs s'"
proof (induction cs arbitrary: s err xs s')
  case Nil
  then show ?case by (simp add: polls_def acts_same)
next
  case (Cons cp cs)
  obtain c pe where cp: "cp = (c, pe)" by (cases cp)
  obtain e1 xs1 s1 where p: "poll_command (cx_env cx) (cx_validParameters cx) (cx_config cx) c pe s = (e1, xs1, s1)"
    by (metis prod_cases3)
  note one = poll_command_polls [OF p]
  show ?case
  proof (cases e1)
    case None
    obtain e2 xs2 s2 where r: "poll_commands (cx_env cx) (cx_validParameters cx) (cx_config cx) cs s1 = (e2, xs2, s2)"
      by (metis prod_cases3)
    have "polls cx ([(c, pe)] @ cs) s e2 (xs1 @ xs2) s2" using polls_trans [OF _ Cons.IH [OF r]] one None by blast
    then show ?thesis using Cons.prems cp p r None by simp
  next
    case (Some e)
    then show ?thesis using polls_more [of cx "[(c, pe)]" s e xs1 s1 cs] Cons.prems cp p one by simp
  qed
qed

lemma PollOnce_cases:
  assumes "PollOnce (cx_env cx) (cx_validParameters cx) (cx_config cx) response ios s = (err, xs, s')"
  shows "response = None \<and> xs = [] \<and> s' = s \<and> err \<noteq> None \<or>
    (\<exists>cs cursor e1 s1. response = Some (cs, cursor) \<and> polls cx cs s e1 xs s1 \<and>
       (e1 \<noteq> None \<and> err = e1 \<and> s' = s1 \<or> e1 = None \<and> saveCursor ios cursor s1 = (err, s')))"
  using assms poll_commands_polls unfolding PollOnce_def
  by (fastforce split: option.splits prod.splits)

lemma saveCursor_frame:
  assumes "saveCursor ios cursor s = (err, s')"
  shows "sv_journal s' = sv_journal s" "sv_dispatcher s' = sv_dispatcher s" "sv_receipts s' = sv_receipts s"
    "err \<noteq> None \<Longrightarrow> sv_cursor s' = sv_cursor s"
    "err = None \<Longrightarrow> sv_cursor s' = cursor \<and> sv_cursor_file s' = Some (Some (SchemaVersion, cursor))"
  using assms by (auto simp: saveCursor_def Let_def split: if_splits prod.splits io.splits)

lemma saveCursor_config: "saveCursor ios cursor s = (err, s') \<Longrightarrow> verify_config_of cfg s' t = verify_config_of cfg s t"
  by (auto simp: saveCursor_def Let_def verify_config_of_def split: if_splits prod.splits io.splits)

subsection \<open>A full lane\<close>

lemma sv_enqueue_not_full: "sv_enqueue env ok x s = (err, s') \<Longrightarrow> err \<noteq> Some SvLaneFull"
  by (auto simp: sv_enqueue_def Let_def split: if_splits)

lemma sv_update_not_full: "sv_update env u ios s = (err, s') \<Longrightarrow> err \<noteq> Some SvLaneFull"
  by (auto simp: sv_update_def split: prod.splits option.splits)

lemma deliver_audit_not_full: "deliver_audit env cfg de i p s = (err, s') \<Longrightarrow> err \<noteq> Some SvLaneFull"
  by (auto simp: deliver_audit_def split: option.splits if_splits dest: sv_update_not_full)

lemma enqueueJournaled_not_full: "enqueueJournaled env cfg de i x s = (err, s') \<Longrightarrow> err \<noteq> Some SvLaneFull"
  by (auto simp: enqueueJournaled_def split: sum.splits prod.splits option.splits
      dest: deliver_audit_not_full sv_enqueue_not_full sv_update_not_full)

lemma reject_not_full: "reject env cfg pe c code audited s = (err, s') \<Longrightarrow> err \<noteq> Some SvLaneFull"
  by (auto simp: reject_def enqueueDeniedAudit_def sv_rejection_def Let_def split: sum.splits option.splits if_splits
      dest: sv_enqueue_not_full)

lemma execute_now_not_full: "execute_now env cfg pe c s = (err, s') \<Longrightarrow> err \<noteq> Some SvLaneFull"
  by (auto simp: execute_now_def finish_command_def Let_def split: option.splits prod.splits if_splits
      dest: sv_update_not_full enqueueJournaled_not_full)

lemma submit_with_room: "hasCapacity c d \<Longrightarrow> fst (submit c d)"
  by (auto simp: hasCapacity_def submit_def Let_def)

lemma start_command_not_full:
  assumes "start_command env cfg pe c s = (err, s')" "hasCapacity c (sv_dispatcher s)"
  shows "err \<noteq> Some SvLaneFull"
proof (cases "runningReceipt cfg (pe_id pe) c (to_utc (pe_now pe))")
  case (Inl e)
  then have "e \<noteq> SvLaneFull" by (auto simp: runningReceipt_def split: option.splits)
  then show ?thesis using assms(1) Inl by (auto simp: start_command_def)
next
  case (Inr x)
  obtain e1 s1 where u: "sv_update env (UBeginRunning c x) (pe_begin_ios pe) s = (e1, s1)" by fastforce
  obtain e2 s2 where q: "enqueueJournaled env cfg (pe_delivery pe) (c_CommandID c) x s1 = (e2, s2)" by fastforce
  have "sv_dispatcher s2 = sv_dispatcher s"
    using answers_acts [OF enqueueJournaled_answers [OF q], of "{}"] sv_update_works [OF u] by (simp add: works_def)
  then obtain d where m: "submit c (sv_dispatcher s2) = (True, d)"
    using submit_with_room [OF assms(2)] by (metis (full_types) prod.collapse)
  have "start_command env cfg pe c s =
      (if e1 \<noteq> None then (e1, s1) else if e2 \<noteq> None then (e2, s2) else (None, s2\<lparr>sv_dispatcher := d\<rparr>))"
    by (cases e1; cases e2) (simp_all add: start_command_def Inr u q m)
  then have "err = e1 \<or> err = e2 \<or> err = None" using assms(1) by (auto split: if_splits)
  then show ?thesis using sv_update_not_full [OF u] enqueueJournaled_not_full [OF q] by auto
qed

lemma admit_full:
  assumes "admit env cfg pe c s = (Some SvLaneFull, xs, s')"
  shows "production cfg \<and> \<not> hasCapacity c (sv_dispatcher s) \<and> xs = [] \<and> s' = s"
proof (rule ccontr)
  assume a: "\<not> ?thesis"
  have room: "\<not> (production cfg \<and> \<not> hasCapacity c (sv_dispatcher s))"
  proof
    assume p: "production cfg \<and> \<not> hasCapacity c (sv_dispatcher s)"
    then have "admit env cfg pe c s = (Some SvLaneFull, [], s)" by (simp add: admit_def)
    then show False using a p assms by simp
  qed
  obtain r d where cl: "sv_claim env cfg pe c s = (r, d)" by fastforce
  let ?s = "s\<lparr>sv_journal := d\<rparr>"
  have room2: "hasCapacity c (sv_dispatcher ?s)" if "production cfg" using that room by simp
  consider (refused) e where "r = Inl e" | (replay) x where "r = Inr (Replay x)" | (exec) "r = Inr Execute"
    by (metis claimed.exhaust sum.exhaust)
  then show False
  proof cases
    case (refused e)
    then have "fst (reject env cfg pe c (claimRejectionCode e) (requiresApproval (c_Action c) \<and> sc_AuditSink cfg) ?s) = Some SvLaneFull"
      using assms room cl by (auto simp: admit_def split: prod.splits)
    then show False using reject_not_full by (metis prod.collapse)
  next
    case (replay x)
    then have "fst (enqueueJournaled env cfg (pe_delivery pe) (c_CommandID c) x ?s) = Some SvLaneFull"
      using assms room cl by (auto simp: admit_def split: prod.splits)
    then show False using enqueueJournaled_not_full by (metis prod.collapse)
  next
    case exec
    then have "fst ((if production cfg then start_command else execute_now) env cfg pe c ?s) = Some SvLaneFull"
      using assms room cl by (auto simp: admit_def split: prod.splits)
    then show False
      using start_command_not_full [OF _ room2] execute_now_not_full by (cases "production cfg") (simp_all, (metis prod.collapse)+)
  qed
qed

lemma poll_command_full:
  assumes "poll_command env vp cfg c pe s = (Some SvLaneFull, xs, s')"
  shows "production cfg \<and> \<not> hasCapacity c (sv_dispatcher s) \<and> xs = [] \<and> s' = s"
  using assms reject_not_full admit_full unfolding poll_command_def Let_def
  by (auto split: option.splits if_splits prod.splits)

subsection \<open>One execution per command\<close>

lemma admit_simulated:
  assumes "\<not> production cfg" "admit env cfg pe c s = (err, xs, s')"
  shows "sv_dispatcher s' = sv_dispatcher s"
proof -
  obtain r d where cl: "sv_claim env cfg pe c s = (r, d)" by fastforce
  have same: "sv_dispatcher s1 = sv_dispatcher s" if "answers env (s\<lparr>sv_journal := d\<rparr>) e s1" for e s1
    using answers_acts [OF that, of "{}"] by simp
  show ?thesis
    using assms cl same reject_answers enqueueJournaled_answers execute_now_answers unfolding admit_def
    by (fastforce split: sum.splits claimed.splits prod.splits)
qed

lemma poll_command_simulated:
  assumes "\<not> production cfg" "poll_command env vp cfg c pe s = (err, xs, s')"
  shows "sv_dispatcher s' = sv_dispatcher s"
proof -
  have same: "sv_dispatcher s1 = sv_dispatcher s" if "reject env cfg pe c code audited s = (e, s1)" for code audited e s1
    using answers_acts [OF reject_answers [OF that], of "{}"] by simp
  show ?thesis
    using assms admit_simulated same unfolding poll_command_def Let_def
    by (auto split: option.splits if_splits prod.splits)
qed

lemma poll_commands_simulated:
  "\<not> production cfg \<Longrightarrow> poll_commands env vp cfg cs s = (err, xs, s') \<Longrightarrow> sv_dispatcher s' = sv_dispatcher s"
proof (induction cs arbitrary: s err xs s')
  case (Cons cp cs)
  obtain c pe where cp: "cp = (c, pe)" by (cases cp)
  obtain e1 xs1 s1 where p: "poll_command env vp cfg c pe s = (e1, xs1, s1)" by (metis prod_cases3)
  note one = poll_command_simulated [OF Cons.prems(1) p]
  obtain e2 xs2 s2 where r: "poll_commands env vp cfg cs s1 = (e2, xs2, s2)" by (metis prod_cases3)
  show ?case using Cons.prems(2) cp p r one Cons.IH [OF Cons.prems(1) r] by (cases e1) simp_all
qed simp

lemma PollOnce_simulated:
  assumes "\<not> production cfg" "PollOnce env vp cfg response ios s = (err, xs, s')"
  shows "sv_dispatcher s' = sv_dispatcher s"
  using assms poll_commands_simulated saveCursor_frame(2) unfolding PollOnce_def
  by (fastforce split: option.splits prod.splits)

text \<open>One step: what it executes and leaves queued was queued before or is released by the journal.\<close>

definition step_ok :: "svc_context \<Rightarrow> command set \<Rightarrow> service \<Rightarrow> command list \<Rightarrow> command list \<Rightarrow> service \<Rightarrow> bool" where
  "step_ok cx C s hs xs s' \<longleftrightarrow> acts (cx_env cx) C s hs s' \<and>
     mset xs + queued (sv_dispatcher s') \<subseteq># mset hs + queued (sv_dispatcher s)"

lemma step_ok_refl [simp]: "step_ok cx C s [] [] s"
  by (simp add: step_ok_def acts_same)

lemma step_ok_trans:
  assumes "step_ok cx C s hs xs s1" "step_ok cx C s1 hs' xs' s2"
  shows "step_ok cx C s (hs @ hs') (xs @ xs') s2"
proof -
  have "mset xs + (mset xs' + queued (sv_dispatcher s2)) \<subseteq># mset xs + (mset hs' + queued (sv_dispatcher s1))"
    using assms(2) by (simp add: step_ok_def)
  also have "\<dots> = mset hs' + (mset xs + queued (sv_dispatcher s1))" by (simp add: ac_simps)
  also have "\<dots> \<subseteq># mset hs' + (mset hs + queued (sv_dispatcher s))" using assms(1) by (simp add: step_ok_def)
  finally have "mset (xs @ xs') + queued (sv_dispatcher s2) \<subseteq># mset (hs @ hs') + queued (sv_dispatcher s)"
    by (simp add: ac_simps)
  then show ?thesis using assms acts_trans by (auto simp: step_ok_def)
qed

lemma step_ok_mono: "step_ok cx C s hs xs s' \<Longrightarrow> C \<subseteq> D \<Longrightarrow> step_ok cx D s hs xs s'"
  by (auto simp: step_ok_def elim: acts_mono)

lemma keeps_step: "keeps (cx_env cx) s s' \<Longrightarrow> step_ok cx C s [] [] s'"
  by (auto simp: step_ok_def keeps_def elim: acts_mono)

lemma polls_parts:
  assumes "polls cx cs s err xs s'"
  shows "acts (cx_env cx) (fst ` set cs) s xs s'" "set xs \<subseteq> fst ` set cs"
    "queued (sv_dispatcher s') \<subseteq># queued (sv_dispatcher s) + mset xs"
  using assms unfolding polls_def by force+

lemma poll_step:
  assumes "PollOnce (cx_env cx) (cx_validParameters cx) (cx_config cx) response ios s = (err, xs, s')"
  shows "step_ok cx (polled [SPoll response ios]) s xs (if production (cx_config cx) then [] else xs) s' \<and>
    set xs \<subseteq> polled [SPoll response ios]"
proof -
  have "acts (cx_env cx) (polled [SPoll response ios]) s xs s' \<and> set xs \<subseteq> polled [SPoll response ios] \<and>
      queued (sv_dispatcher s') \<subseteq># queued (sv_dispatcher s) + mset xs"
    using PollOnce_cases [OF assms]
  proof (elim disjE exE conjE)
    fix cs cursor e1 s1
    assume r: "response = Some (cs, cursor)" and p: "polls cx cs s e1 xs s1" and sv: "saveCursor ios cursor s1 = (err, s')"
    show ?thesis
      using r polls_parts [OF p] saveCursor_frame(1,2) [OF sv] by (simp add: acts_def)
  next
    fix cs cursor e1 s1
    assume r: "response = Some (cs, cursor)" and p: "polls cx cs s e1 xs s1" and "s' = s1"
    then show ?thesis using polls_parts [OF p] by simp
  qed (simp add: acts_same)
  then show ?thesis
    using PollOnce_simulated [OF _ assms] by (auto simp: step_ok_def ac_simps)
qed

lemma NewService_frame:
  "NewService cfg dynamic actions assignments ios s = (err, s') \<Longrightarrow>
   sv_journal s' = sv_journal s \<and> (sv_dispatcher s' = sv_dispatcher s \<or> sv_dispatcher s' = newCommandDispatcher)"
  by (auto simp: NewService_def Let_def loadCursor_def split: if_splits option.splits prod.splits)

lemma step_ok_frame:
  "sv_journal s' = sv_journal s \<and> (sv_dispatcher s' = sv_dispatcher s \<or> sv_dispatcher s' = newCommandDispatcher) \<Longrightarrow>
   step_ok cx C s [] [] s'"
  by (auto simp: step_ok_def acts_same queued_def newCommandDispatcher_def)

lemma svc_step_ok:
  "svc_step cx a (up, s) = (hs, xs, up', s') \<Longrightarrow> step_ok cx (polled [a]) s hs xs s' \<and> set hs \<subseteq> polled [a]"
proof (induction cx a "(up, s)" rule: svc_step.induct)
  case (1 cx response ios)
  then show ?case
    using poll_step [of cx response ios s] by (auto split: if_splits prod.splits)
next
  case (2 cx l)
  then show ?case
    using take_queued [of l "sv_dispatcher s"]
    by (auto simp: step_ok_def acts_same split: if_splits option.splits prod.splits)
next
  case (3 cx l c we)
  let ?s1 = "executeDispatched (cx_env cx) (cx_executionError cx) (cx_config cx) we c s"
  have "keeps (cx_env cx) s ?s1" by (rule executeDispatched_keeps)
  then have "step_ok cx {} s [] [] (?s1\<lparr>sv_dispatcher := worker_done l c (sv_dispatcher ?s1)\<rparr>)"
    by (auto simp: step_ok_def keeps_def acts_def queued_def worker_done_def)
  then show ?case using 3 by (auto simp: Let_def split: if_splits)
next
  case (4 cx re)
  then show ?case using keeps_step [OF ReconcileOnce_keeps] by (auto split: if_splits prod.splits) (metis prod.collapse)
next
  case (5 cx doc revision actions)
  then show ?case
    by (auto simp: step_ok_def acts_def ApplyAssignmentAuthority_def Let_def intro!: exI [of _ "[]"] split: if_splits)
next
  case (6 cx w)
  then show ?case by (auto simp: step_ok_def acts_same)
next
  case (7 cx dynamic actions assignments ios)
  then obtain err where n: "NewService (cx_config cx) dynamic actions assignments ios s = (err, s')" "hs = []" "xs = []"
    by (cases "NewService (cx_config cx) dynamic actions assignments ios s") simp
  then show ?case using step_ok_frame [OF NewService_frame [OF n(1)]] by simp
qed

lemma polled_Cons: "polled (a # as) = polled [a] \<union> polled as"
  by (cases a) (auto split: prod.splits option.splits intro: polled.cases [of "a # as"])

lemma svc_run_ok:
  "svc_run cx as (up, s) = (hs, xs, up', s') \<Longrightarrow> step_ok cx (polled as) s hs xs s' \<and> set hs \<subseteq> polled as"
proof (induction as arbitrary: up s hs xs)
  case (Cons a as)
  obtain hs1 xs1 up1 s1 where st: "svc_step cx a (up, s) = (hs1, xs1, up1, s1)" by (metis prod_cases4)
  obtain hs2 xs2 up2 s2 where r2: "svc_run cx as (up1, s1) = (hs2, xs2, up2, s2)" by (metis prod_cases4)
  then have eq: "hs = hs1 @ hs2" "xs = xs1 @ xs2" and r: "svc_run cx as (up1, s1) = (hs2, xs2, up', s')"
    using Cons.prems st by simp_all
  have "step_ok cx (polled (a # as)) s hs1 xs1 s1" "step_ok cx (polled (a # as)) s1 hs2 xs2 s'"
    using step_ok_mono [OF conjunct1 [OF svc_step_ok [OF st]]] step_ok_mono [OF conjunct1 [OF Cons.IH [OF r]]]
    unfolding polled_Cons [of a as] by blast+
  from step_ok_trans [OF this] have "step_ok cx (polled (a # as)) s hs xs s'" by (simp only: eq)
  moreover have "set hs \<subseteq> polled (a # as)"
    using svc_step_ok [OF st] Cons.IH [OF r] unfolding eq polled_Cons [of a as] by auto
  ultimately show ?case by blast
qed simp

lemma distinct_subseteq: "mset xs \<subseteq># mset ys \<Longrightarrow> distinct ys \<Longrightarrow> distinct xs"
proof -
  assume a: "mset xs \<subseteq># mset ys" "distinct ys"
  obtain zs where "mset zs = mset ys - mset xs" using ex_mset by blast
  then have "mset (xs @ zs) = mset ys" using a(1) by simp
  then show ?thesis using a(2) mset_eq_imp_distinct_iff by (metis distinct_append)
qed

text \<open>
  C1: At most once, end to end.  In every history of the service from a fresh installation, polls
  that deliver any commands any number of times, workers, reconciliations, changes of the
  authority, failing writes and restarts, each command that changes something begins to execute
  at most once, and nothing executes that was not polled.  Exempt are the two changing actions that
  check their own progress and are run again after an interruption, \<open>vm.migrate-legacy-journal\<close> and
  \<open>vm.cloud-init-snippet.delete\<close>, and the actions that only read (\<open>once_only\<close>).  The hypothesis says
  that among the polled commands equal digests mean equal actions.
\<close>

theorem service_executes_once:
  fixes cx :: svc_context
  assumes "svc_run cx as (up, s) = (hs, xs, up', s')"
    and "sv_journal s = []" "sv_dispatcher s = newCommandDispatcher"
    and "\<And>c c'. c \<in> polled as \<Longrightarrow> c' \<in> polled as \<Longrightarrow>
      Digest (je_crypto (cx_env cx)) c = Digest (je_crypto (cx_env cx)) c' \<Longrightarrow> c_Action c = c_Action c'"
  shows "distinct (map c_CommandID (filter once_only xs)) \<and> set xs \<subseteq> polled as"
proof -
  have ok: "step_ok cx (polled as) s hs xs s'" "set hs \<subseteq> polled as" using svc_run_ok [OF assms(1)] by simp_all
  then obtain js where js: "jrun (cx_env cx) js [] = (hs, sv_journal s')" "claims js \<subseteq> polled as"
    using assms(2) by (auto simp: step_ok_def acts_def)
  have "origin_inv (cx_env cx) (polled as) []" by (simp add: origin_inv_def)
  then have d: "distinct (map c_CommandID (filter once_only hs))"
    using executions_distinct [OF js(1) _ js(2)] assms(4) by blast
  have "mset xs \<subseteq># mset hs"
    using ok(1) assms(3) subset_mset.order_trans [OF mset_subset_eq_add_left]
    by (fastforce simp: step_ok_def queued_def newCommandDispatcher_def)
  then have "mset (map c_CommandID (filter once_only xs)) \<subseteq># mset (map c_CommandID (filter once_only hs))"
    by (simp add: mset_filter image_mset_subseteq_mono multiset_filter_mono)
  then have "distinct (map c_CommandID (filter once_only xs))" using d by (rule distinct_subseteq)
  moreover have "set xs \<subseteq> set hs" using set_mset_mono [OF \<open>mset xs \<subseteq># mset hs\<close>] by simp
  ultimately show ?thesis using ok(2) by blast
qed

subsection \<open>What a poll promises\<close>

text \<open>
  C2: Only verified commands start.  A command a poll lets execute was in the response and passed
  \<open>Verify\<close> under the authority the service held (bindings, revision, allowed actions, assignments)
  when the poll began; one that needs an approval starts only with an audit sink.  A poll never
  changes that authority.
\<close>

theorem only_verified_commands_start:
  fixes cx :: svc_context
  assumes "PollOnce (cx_env cx) (cx_validParameters cx) (cx_config cx) response ios s = (err, xs, s')" "c \<in> set xs"
  shows "\<exists>cs cursor pe. response = Some (cs, cursor) \<and> (c, pe) \<in> set cs \<and>
    Verify (je_crypto (cx_env cx)) (cx_validParameters cx) (to_utc (pe_now pe)) c
      (verify_config_of (cx_config cx) s (to_utc (pe_now pe))) = None \<and>
    (requiresApproval (c_Action c) \<longrightarrow> sc_AuditSink (cx_config cx)) \<and>
    verify_config_of (cx_config cx) s' (to_utc (pe_now pe)) = verify_config_of (cx_config cx) s (to_utc (pe_now pe))"
  using PollOnce_cases [OF assms(1)]
proof (elim disjE exE conjE)
  fix cs cursor e1 s1
  assume r: "response = Some (cs, cursor)" and p: "polls cx cs s e1 xs s1" and "s' = s1"
  then have "verify_config_of (cx_config cx) s' t = verify_config_of (cx_config cx) s t" for t
    using same_authority_config by (auto simp: polls_def)
  then show ?thesis using p assms(2) r unfolding polls_def by blast
next
  fix cs cursor e1 s1
  assume r: "response = Some (cs, cursor)" and p: "polls cx cs s e1 xs s1" and sv: "saveCursor ios cursor s1 = (err, s')"
  have "verify_config_of (cx_config cx) s1 t = verify_config_of (cx_config cx) s t" for t
    using p same_authority_config by (auto simp: polls_def)
  then have "verify_config_of (cx_config cx) s' t = verify_config_of (cx_config cx) s t" for t
    using saveCursor_config [OF sv] by simp
  then show ?thesis using p assms(2) r unfolding polls_def by blast
qed (use assms(2) in simp)

lemma poll_commands_stop:
  "poll_commands env vp cfg cs s0 = (None, xs, s) \<Longrightarrow> poll_command env vp cfg c pe s = (Some e, [], s1) \<Longrightarrow>
   poll_commands env vp cfg (cs @ (c, pe) # rest) s0 = (Some e, xs, s1)"
proof (induction cs arbitrary: s0 xs)
  case (Cons cp cs)
  obtain c0 pe0 where cp: "cp = (c0, pe0)" by (cases cp)
  obtain e1 xs1 s2 where p: "poll_command env vp cfg c0 pe0 s0 = (e1, xs1, s2)" by (metis prod_cases3)
  obtain ys where r: "e1 = None" "poll_commands env vp cfg cs s2 = (None, ys, s)" "xs = xs1 @ ys"
    using Cons.prems(1) cp p by (cases e1) (auto split: prod.splits)
  then show ?case using Cons.IH [OF r(2) Cons.prems(2)] cp p by simp
qed simp

text \<open>
  C8: A full lane leaves no trace.  When the lane of a verified command has no room for it, the poll
  ends there with the error of a full lane, before the claim: journal, queues, dispatcher and
  cursor are as the commands before it left them and the commands after it are not looked at, so all
  of these are delivered again.  With room, or outside production, a command never ends a poll that
  way: the submission after the claim cannot find the lane full.
\<close>

theorem full_lane_leaves_unclaimed:
  assumes "Verify (je_crypto env) validParameters (to_utc (pe_now pe)) c (verify_config_of cfg s (to_utc (pe_now pe))) = None"
    and "requiresApproval (c_Action c) \<Longrightarrow> sc_AuditSink cfg"
  shows "if production cfg \<and> \<not> activeCommand (c_CommandID c) (sv_dispatcher s) \<and>
      lane_cap (queueFor c) \<le> length (ds_queue (sv_dispatcher s) (queueFor c))
    then poll_command env validParameters cfg c pe s = (Some SvLaneFull, [], s) \<and>
      (\<forall>ahead s0 xs behind cursor ios. poll_commands env validParameters cfg ahead s0 = (None, xs, s) \<longrightarrow>
         PollOnce env validParameters cfg (Some (ahead @ (c, pe) # behind, cursor)) ios s0 = (Some SvLaneFull, xs, s))
    else fst (poll_command env validParameters cfg c pe s) \<noteq> Some SvLaneFull"
proof (cases "production cfg \<and> \<not> hasCapacity c (sv_dispatcher s)")
  case True
  then have p: "poll_command env validParameters cfg c pe s = (Some SvLaneFull, [], s)"
    using assms by (auto simp: poll_command_def admit_def Let_def)
  then show ?thesis using True poll_commands_stop [OF _ p] by (auto simp: PollOnce_def hasCapacity_def activeCommand_def)
next
  case False
  then have "fst (poll_command env validParameters cfg c pe s) \<noteq> Some SvLaneFull"
    using poll_command_full by (metis prod.collapse)
  then show ?thesis using False by (auto simp: hasCapacity_def activeCommand_def)
qed

text \<open>
  The authority only advances.  Accepting an assignment document replaces the assignments and
  the allowed actions together, and its revision is above every revision in force; a refused
  document changes nothing.
\<close>

theorem authority_only_advances:
  assumes "ApplyAssignmentAuthority cfg doc revision actions s = (err, s')"
  shows "if err = None
    then sv_dynamic s' \<and> sv_revision s' = revision \<and> current_revision cfg s < revision \<and> 0 < revision \<and>
      current_revision cfg s' = revision \<and>
      sv_allowed s' = AllowedSet actions \<and> (\<forall>a. sv_allowed s' a \<longrightarrow> KnownAction a) \<and>
      sv_assignments s' = Replace doc \<and> doc_Validate (sc_ClusterRef cfg) doc = None
    else s' = s"
proof -
  have known: "validate_actions seen as \<Longrightarrow> a \<in> set as \<Longrightarrow> KnownAction a" for seen as a
    by (induction seen as rule: validate_actions.induct) auto
  show ?thesis
    using assms known [of "[]" actions]
    by (auto simp: ApplyAssignmentAuthority_def Let_def current_revision_def validateAllowedActions_def AllowedSet_def
        word_gt_0 not_le split: if_splits)
qed

subsection \<open>Concrete polls\<close>

definition ex_cx :: "bool \<Rightarrow> svc_context" where
  "ex_cx live = \<lparr>cx_env = ex_jenv\<lparr>je_crypto := ex_command_crypto\<rparr>, cx_validParameters = (\<lambda>_. True),
     cx_executionError = (\<lambda>a r. \<lparr>ee_Source = ''agent'', ee_Stage = a, ee_Method = [], ee_Path = [], ee_HTTPStatus = 0, ee_Reason = r\<rparr>),
     cx_deletedResult = ''{}'',
     cx_config = \<lparr>sc_AgentRef = ''agent-1'', sc_ClusterRef = ''cluster-a'', sc_BindingID = ex_binding, sc_DeviceID = ''dev-1'',
       sc_CredentialEpoch = 1, sc_AssignmentRevision = True, sc_AgentVersion = ''1.0'', sc_Mode = ''production'',
       sc_CommandSecret = [], sc_CommandSigningKeyID = ''key-1'', sc_CommandPublicKey = replicate 32 CHR ''k'',
       sc_ProductionExecution = live, sc_AuditSink = True, sc_TaskResolver = True, sc_UpgradeResolver = True,
       sc_ExecutorClient = True\<rparr>\<rparr>"

definition ex_service :: service where
  "ex_service = \<lparr>sv_external_revision = 7, sv_revision = 7, sv_dynamic = False, sv_allowed = AllowedSet [''vm.start''],
     sv_assignments = Replace ex_assignments, sv_cursor = [], sv_cursor_file = None, sv_journal = [],
     sv_dispatcher = newCommandDispatcher, sv_receipts = [], sv_events = []\<rparr>"

definition ex_poll :: poll_env where
  "ex_poll = \<lparr>pe_now = ex_issued, pe_id = Some ''r-1'', pe_claim_ios = [], pe_claim_ids = [], pe_begin_ios = [],
     pe_exec = \<lparr>xo_result = None, xo_updates = []\<rparr>, pe_complete_ios = [],
     pe_delivery = \<lparr>de_sink = True, de_audit_ios = [], de_queue = True, de_mark_ios = []\<rparr>\<rparr>"

lemma ex_cx_fields [simp]:
  "je_crypto (cx_env (ex_cx live)) = ex_command_crypto" "cx_validParameters (ex_cx live) = (\<lambda>_. True)"
  "sc_AuditSink (cx_config (ex_cx live))" "production (cx_config (ex_cx live)) = live"
  "pe_now ex_poll = ex_issued" "to_utc ex_issued = ex_issued"
  by (simp_all add: ex_cx_def production_def ex_poll_def ex_issued_def to_utc_def)

lemma ex_verify_config: "verify_config_of (cx_config (ex_cx live)) ex_service ex_issued = ex_config"
  by (simp add: verify_config_of_def ex_cx_def ex_service_def ex_config_def)

lemma ex_Verify: "Verify ex_command_crypto (\<lambda>_. True) ex_issued ex_command ex_config = None"
proof -
  have "verifyPolicy (\<lambda>_. True) ex_issued ex_command ex_config = verifyPolicy (\<lambda>_. True) zero_time ex_command ex_config"
    by (simp add: verifyPolicy_def ex_command_fields) (simp add: ex_issued_def is_zero_time_def to_utc_def)
  then show ?thesis using ex_body ex_signature ex_policy by (simp add: Verify_ok)
qed

subsection \<open>Texts\<close>

lemma ex_audit_texts [simp]:
  "validAuditText ''vm:cluster-a:qemu:inst-1:3'' 256" "validAuditText ''1.0'' 128"
  "validBoundedText ''vm:cluster-a:qemu:inst-1:3'' 256 False" "validBoundedText ''1.0'' 128 False"
  by (simp_all add: validAuditText_def validBoundedText_def trimmed_ends printable_def no_control_def code_of_def)

lemma ex_hash_text [simp]: "bodyHashRE (hex_encode ex_hash)" "digestRE (''sha256:'' @ hex_encode ex_hash)"
  using hex_encode_lower [of ex_hash] by (simp_all add: digestRE_def bodyHashRE_def ex_hash_def)

lemmas ex_digest_text [simp] = ex_hash_text(2) [simplified]

lemma ex_target_parts [simp]:
  "journalNodeRef ''cluster-a''" "journalNodeRef ''inst-1''" "targetPartRE ''cluster-a''" "targetPartRE ''pve1''"
  "targetPartRE ''inst-1''" "commandIDRE ''r-1''" "uuidRE ''11111111-1111-4111-8111-111111111111''"
  "split_on CHR '':'' ''vm:cluster-a:qemu:inst-1:3'' = [''vm'', ''cluster-a'', ''qemu'', ''inst-1'', ''3'']"
  "dec 3 = ''3''"
  by code_simp+

lemma ex_audit_times [simp]: "validUTCTime ex_issued" "\<not> is_zero_time ex_issued" "\<not> before ex_issued ex_issued"
  by (simp_all add: ex_issued_def validUTCTime_def is_zero_time_def before_def)

lemma ex_target_ref: "validTargetRef ''vm'' ''vm:cluster-a:qemu:inst-1:3''"
proof -
  have "parse_uint ''3'' = Some 3"
    by (simp add: parse_uint_def parse_dec_def digit_val_def is_digit_def code_of_def)
  then show ?thesis by (simp add: validTargetRef_def Let_def)
qed

lemma ex_audit_context: "\<exists>a. newAuditContext ex_command ex_issued ''1.0'' = Some a"
proof -
  have t: "auditTargetRef ex_command = Some ''vm:cluster-a:qemu:inst-1:3''"
    by (simp add: auditTargetRef_def ex_command_def ex_identity_def Let_def)
  show ?thesis
    using ex_target_ref t unfolding newAuditContext_def
    by (simp add: context_validate_def Event_Validate_def probe_event_def event_refs_ok_def event_target_ok_def
        event_times_ok_def between_ok_def validOutcome_def Let_def ex_command_def ex_identity_def ScopeVM_def)
qed

subsection \<open>The first poll\<close>

lemma ex_claim_first:
  "\<exists>d. claim (cx_env (ex_cx live)) ex_command ex_issued audit [] ids [] = (Inr Execute, d)"
proof -
  have k: "journalResourceKey ex_command = Some (ex_key 101)"
    using ex_resource_key [of "''vm.start''" 101 "''cmd-1''" "''op-1''" "''idem-1''"]
    by (simp add: ex_actions_def ex_op_def ex_command_def ex_identity_def)
  have g: "Digest ex_command_crypto ex_command \<noteq> []"
    by (simp add: Digest_def CanonicalCommandBody_def ex_command_crypto_def ex_command_def crypto.defs canonical_fields_def ex_hash_def hex_encode_def)
  have m: "with_lineage (cx_env (ex_cx live)) ex_command r = Some r" for r
    by (simp add: with_lineage_def ex_command_def)
  show ?thesis using k g m
    by (simp add: claim_def claim_new_def readJournal_def dir_read_def identityUsedLocked_def resourceBusyLocked_def json_files_def
        save_def ex_command_fields Let_def)
qed

lemma ex_admitted_with:
  assumes "verify_config_of (cx_config (ex_cx live)) s ex_issued = ex_config" "sv_journal s = []"
    "sv_dispatcher s = newCommandDispatcher"
  shows "\<exists>err s'. poll_command (cx_env (ex_cx live)) (\<lambda>_. True) (cx_config (ex_cx live)) ex_command ex_poll s = (err, [ex_command], s')"
proof -
  let ?cfg = "cx_config (ex_cx live)" and ?env = "cx_env (ex_cx live)"
  obtain a where a: "newAuditContext ex_command ex_issued ''1.0'' = Some a" using ex_audit_context by blast
  obtain d where d: "claim ?env ex_command ex_issued (Some a) [] [] [] = (Inr Execute, d)" using ex_claim_first by blast
  have "sv_claim ?env ?cfg ex_poll ex_command s = (Inr Execute, d)"
    using a d assms(2) by (simp add: sv_claim_def ClaimWithAudit_def ex_poll_def)
      (simp add: ex_cx_def requiresApproval_def ex_command_fields)
  moreover have "hasCapacity ex_command (sv_dispatcher s)"
    by (cases "queueFor ex_command") (simp_all add: hasCapacity_def assms(3) newCommandDispatcher_def)
  moreover have "requiresApproval (c_Action ex_command)" by (simp add: requiresApproval_def ex_command_fields)
  ultimately show ?thesis
    by (simp add: poll_command_def admit_def assms(1) ex_Verify split: prod.splits)
qed

lemma ex_admitted:
  "\<exists>err s'. poll_command (cx_env (ex_cx live)) (\<lambda>_. True) (cx_config (ex_cx live)) ex_command ex_poll ex_service = (err, [ex_command], s')"
  by (rule ex_admitted_with) (simp_all add: ex_verify_config, simp_all add: ex_service_def)

subsection \<open>The theorems applied\<close>

abbreviation ex_delivery :: svc_op where
  "ex_delivery \<equiv> SPoll (Some ([(ex_command, ex_poll)], ''c-1'')) []"

lemma ex_PollOnce:
  "\<exists>err s'. PollOnce (cx_env (ex_cx live)) (cx_validParameters (ex_cx live)) (cx_config (ex_cx live))
      (Some ([(ex_command, ex_poll)], ''c-1'')) [] ex_service = (err, [ex_command], s')"
proof -
  obtain e s1 where p: "poll_command (cx_env (ex_cx live)) (\<lambda>_. True) (cx_config (ex_cx live)) ex_command ex_poll ex_service =
      (e, [ex_command], s1)"
    using ex_admitted by blast
  then show ?thesis by (cases e) (simp_all add: PollOnce_def split: prod.splits)
qed

theorem service_executes_once_witness:
  "\<exists>hs xs up s'. svc_run (ex_cx False) [ex_delivery, ex_delivery, SRestart False [''vm.start''] (Replace ex_assignments) [], ex_delivery]
      (True, ex_service) = (hs, xs, up, s') \<and>
    ex_command \<in> set xs \<and> distinct (map c_CommandID (filter once_only xs)) \<and> once_only ex_command"
proof -
  let ?as = "[ex_delivery, ex_delivery, SRestart False [''vm.start''] (Replace ex_assignments) [], ex_delivery]"
  obtain hs xs up s' where run: "svc_run (ex_cx False) ?as (True, ex_service) = (hs, xs, up, s')" by (metis prod_cases4)
  obtain err s1 where p: "PollOnce (cx_env (ex_cx False)) (\<lambda>_. True) (cx_config (ex_cx False))
      (Some ([(ex_command, ex_poll)], ''c-1'')) [] ex_service = (err, [ex_command], s1)"
    using ex_PollOnce [of False] by auto
  have "ex_command \<in> set xs" using run p by (auto split: prod.splits)
  moreover have "distinct (map c_CommandID (filter once_only xs)) \<and> set xs \<subseteq> polled ?as"
    by (rule service_executes_once [OF run]) (simp_all add: ex_service_def)
  moreover have "once_only ex_command" by (simp add: once_only_def ex_command_fields requiresApproval_def)
  ultimately show ?thesis using run by blast
qed

theorem only_verified_commands_start_witness:
  "\<exists>err s'. PollOnce (cx_env (ex_cx True)) (cx_validParameters (ex_cx True)) (cx_config (ex_cx True))
      (Some ([(ex_command, ex_poll)], ''c-1'')) [] ex_service = (err, [ex_command], s') \<and>
    Verify ex_command_crypto (\<lambda>_. True) ex_issued ex_command (verify_config_of (cx_config (ex_cx True)) ex_service ex_issued) = None"
proof -
  obtain err s' where p: "PollOnce (cx_env (ex_cx True)) (cx_validParameters (ex_cx True)) (cx_config (ex_cx True))
      (Some ([(ex_command, ex_poll)], ''c-1'')) [] ex_service = (err, [ex_command], s')"
    using ex_PollOnce by blast
  then show ?thesis using only_verified_commands_start [OF p, of ex_command] by auto
qed

lemma ex_rejected:
  "\<exists>s'. poll_command (cx_env (ex_cx True)) (\<lambda>_. True) (cx_config (ex_cx True)) (ex_command\<lparr>c_Parameters := []\<rparr>) ex_poll ex_service =
    (None, [], s')"
proof -
  let ?c = "ex_command\<lparr>c_Parameters := []\<rparr>"
  have "Verify ex_command_crypto (\<lambda>_. True) ex_issued ?c ex_config = Some BodyHashInvalid"
    by (simp add: Verify_def body_hash_ok_def)
  then show ?thesis
    by (simp add: poll_command_def ex_verify_config reject_def sv_rejection_def sv_enqueue_def Let_def ex_poll_def split: prod.splits)
      (simp add: ex_cx_def ex_jenv_def ex_command_def ApplyReceiptCompatibility_def Receipt_Validate_def empty_receipt_def Let_def)
qed

theorem full_lane_leaves_unclaimed_witness:
  "PollOnce (cx_env (ex_cx True)) (\<lambda>_. True) (cx_config (ex_cx True)) (Some ([(ex_command, ex_poll)], ''c-1'')) []
      (ex_service\<lparr>sv_dispatcher := newCommandDispatcher\<lparr>ds_queue := (\<lambda>_. replicate 16 ex_command)\<rparr>\<rparr>) =
    (Some SvLaneFull, [], ex_service\<lparr>sv_dispatcher := newCommandDispatcher\<lparr>ds_queue := (\<lambda>_. replicate 16 ex_command)\<rparr>\<rparr>) \<and>
   fst (poll_command (cx_env (ex_cx True)) (\<lambda>_. True) (cx_config (ex_cx True)) ex_command ex_poll ex_service) \<noteq> Some SvLaneFull"
proof -
  let ?s = "ex_service\<lparr>sv_dispatcher := newCommandDispatcher\<lparr>ds_queue := (\<lambda>_. replicate 16 ex_command)\<rparr>\<rparr>"
  have v: "verify_config_of (cx_config (ex_cx True)) ?s ex_issued = ex_config"
    using same_authority_config [of ex_service ?s] ex_verify_config [of True] by (simp add: same_authority_def)
  have full: "\<not> activeCommand (c_CommandID ex_command) (sv_dispatcher ?s)"
    "lane_cap (queueFor ex_command) \<le> length (ds_queue (sv_dispatcher ?s) (queueFor ex_command))"
    by (cases "queueFor ex_command"; simp add: activeCommand_def newCommandDispatcher_def)+
  have room: "\<not> lane_cap (queueFor ex_command) \<le> length (ds_queue (sv_dispatcher ex_service) (queueFor ex_command))"
    by (cases "queueFor ex_command") (simp_all add: ex_service_def newCommandDispatcher_def)
  show ?thesis
    using full_lane_leaves_unclaimed [where c = ex_command and pe = ex_poll and s = ?s and cfg = "cx_config (ex_cx True)"
        and env = "cx_env (ex_cx True)" and validParameters = "\<lambda>_. True"] full
      full_lane_leaves_unclaimed [where c = ex_command and pe = ex_poll and s = ex_service and cfg = "cx_config (ex_cx True)"
        and env = "cx_env (ex_cx True)" and validParameters = "\<lambda>_. True"] room
    by (simp add: v ex_verify_config ex_Verify) (metis append_Nil poll_commands.simps(1))
qed

theorem authority_only_advances_witness:
  "\<exists>s'. ApplyAssignmentAuthority (cx_config (ex_cx True)) ex_assignments 8 [''vm.start''] ex_service = (None, s') \<and>
     sv_revision s' = 8 \<and> sv_assignments s' = Replace ex_assignments"
proof -
  let ?r = "ApplyAssignmentAuthority (cx_config (ex_cx True)) ex_assignments 8 [''vm.start''] ex_service"
  have "KnownAction ''vm.start''" by code_simp
  then have ok: "fst ?r = None"
    using ex_assignments_valid
    by (simp add: ApplyAssignmentAuthority_def ex_cx_def validateAllowedActions_def current_revision_def ex_service_def Let_def)
      (simp add: ex_assignments_def)
  then have e: "?r = (None, snd ?r)" by (metis prod.collapse)
  from authority_only_advances [OF e] show ?thesis using e by auto
qed

end
