(* ===== verification/Service_Receipts.thy ===== *)
theory Service_Receipts
  imports Service_Guarantees
begin

section \<open>Every polled command is answered\<close>

text \<open>
  The cursor of the service moves only past commands that were answered.  The receipt that
  answers a command is a rejection, the running marker, what the executor returned, or what the
  journal stored for the command; that it names the command rests on an invariant of the
  journal: a stored receipt carries the command ID of its record, and every record the ID and the
  digest of a command that was claimed.
\<close>

subsection \<open>Receipts of the journal name their command\<close>

lemma id_of_journalIndeterminate: "journalIndeterminate ids c now = Some x \<Longrightarrow> r_CommandID x = c_CommandID c"
  by (auto simp: journalIndeterminate_def ApplyReceiptCompatibility_def Let_def split: option.splits)

lemma id_of_compatible [simp]: "r_CommandID (ApplyReceiptCompatibility x) = r_CommandID x"
  by (simp add: ApplyReceiptCompatibility_def Let_def)

definition receipt_kept :: "command \<Rightarrow> journal_record \<Rightarrow> receipt option \<Rightarrow> bool" where
  "receipt_kept c r y \<longleftrightarrow> y = jr_Receipt r \<or> (\<exists>x. y = Some x \<and> r_CommandID x = c_CommandID c)"

lemma receipt_kept_refl [simp]: "receipt_kept c r (jr_Receipt r)"
  by (simp add: receipt_kept_def)

lemma claim_decide_receipt:
  assumes "claim_decide env p c now ios ids r d = (res, d')" "dir_read d p = Some (Some r)"
  shows "(\<forall>r'. dir_read d' p = Some (Some r') \<longrightarrow> receipt_kept c r (jr_Receipt r')) \<and>
    (\<forall>x. res = Inr (Replay x) \<longrightarrow> receipt_kept c r (Some x))"
proof (cases "jr_Receipt r")
  case (Some x)
  then show ?thesis using assms by (auto simp: claim_decide_def receipt_kept_def)
next
  case None
  have saved: "\<forall>r'. dir_read d1 p = Some (Some r') \<longrightarrow> receipt_kept c r (jr_Receipt r')"
    if "save ios p s d = (okw, d1, ios1)" "receipt_kept c r (jr_Receipt s)" for s okw d1 ios1
    using that(1) by (rule save_cases) (use that(2) assms(2) in auto)
  show ?thesis
  proof (cases "resumable r")
    case True
    obtain okw d1 ios1 where s: "save ios p (r\<lparr>jr_UpdatedAt := to_utc now\<rparr>) d = (okw, d1, ios1)" by (metis prod_cases3)
    then have "d' = d1" "\<forall>x. res \<noteq> Inr (Replay x)" using assms(1) None True by (auto simp: claim_decide_def split: if_splits)
    then show ?thesis using saved [OF s] by (simp add: receipt_kept_def)
  next
    case False
    show ?thesis
    proof (cases "journalIndeterminate ids c now")
      case None
      then show ?thesis using assms False \<open>jr_Receipt r = None\<close> by (auto simp: claim_decide_def)
    next
      case x: (Some x)
      note i = id_of_journalIndeterminate [OF x]
      let ?r1 = "r\<lparr>jr_State := r_State x, jr_UpdatedAt := to_utc now, jr_Receipt := Some x, jr_ReceiptPending := True\<rparr>"
      show ?thesis
      proof (cases "with_event env x ?r1")
        case None
        then show ?thesis using assms False \<open>jr_Receipt r = None\<close> x by (auto simp: claim_decide_def)
      next
        case (Some r')
        then have k: "receipt_kept c r (jr_Receipt r')" using with_event_fields [OF Some] i by (auto simp: receipt_kept_def)
        obtain okw d1 ios1 where s: "save ios p r' d = (okw, d1, ios1)" by (metis prod_cases3)
        have "d' = d1" "\<forall>y. res = Inr (Replay y) \<longrightarrow> y = x"
          using assms(1) False \<open>jr_Receipt r = None\<close> x Some s by (auto simp: claim_decide_def split: if_splits)
        then show ?thesis using saved [OF s k] i by (auto simp: receipt_kept_def)
      qed
    qed
  qed
qed

lemma claim_existing_receipt:
  assumes "claim_existing env p digest c now audit ios ids r d = (res, d')" "dir_read d p = Some (Some r)"
  shows "(\<forall>r'. dir_read d' p = Some (Some r') \<longrightarrow> jr_Receipt r' = jr_Receipt r \<or> jr_Digest r = digest \<and> receipt_kept c r (jr_Receipt r')) \<and>
    (\<forall>x. res = Inr (Replay x) \<longrightarrow> jr_Digest r = digest \<and> receipt_kept c r (Some x))"
proof (cases "jr_Digest r = digest")
  case False
  then show ?thesis using assms by (auto simp: claim_existing_def)
next
  case dg: True
  show ?thesis
  proof (cases "audit \<noteq> None \<and> jr_AuditContext r = None")
    case False
    then have "claim_decide env p c now ios ids r d = (res, d')" using assms(1) dg by (auto simp: claim_existing_def)
    from claim_decide_receipt [OF this assms(2)] dg show ?thesis by simp
  next
    case True
    let ?r1 = "r\<lparr>jr_AuditContext := audit\<rparr>"
    show ?thesis
    proof (cases "case jr_Receipt r of None \<Rightarrow> Some ?r1 | Some x \<Rightarrow> with_event env x ?r1")
      case None
      then show ?thesis using assms True dg by (auto simp: claim_existing_def)
    next
      case (Some r2)
      then have same: "jr_Receipt r2 = jr_Receipt r"
        by (cases "jr_Receipt r") (auto dest!: with_event_fields)
      obtain okw d2 ios2 where s: "save ios p r2 d = (okw, d2, ios2)" by (metis prod_cases3)
      show ?thesis
      proof (cases okw)
        case False
        then have e: "d' = d2" "\<forall>x. res \<noteq> Inr (Replay x)" using assms(1) True dg Some s by (auto simp: claim_existing_def)
        show ?thesis using s by (rule save_cases) (use e same assms(2) in auto)
      next
        case ok: True
        then have d2: "d2 = dir_put p (Some r2) d" using s save_ok by simp
        have "claim_decide env p c now ios2 ids r2 d2 = (res, d')"
          using assms(1) True dg Some s ok by (auto simp: claim_existing_def)
        from claim_decide_receipt [OF this] d2 same dg show ?thesis by (auto simp: receipt_kept_def)
      qed
    qed
  qed
qed

lemma claim_receipt:
  assumes "claim env c now audit ios ids d = (res, d')"
  shows "res = Inr (Replay x) \<Longrightarrow> \<exists>r. dir_read d (journal_path env (c_CommandID c)) = Some (Some r) \<and>
      jr_Digest r = Digest (je_crypto env) c \<and> receipt_kept c r (Some x)"
    and "dir_read d' q = Some (Some r') \<Longrightarrow> jr_Receipt r' = Some y \<Longrightarrow>
      (\<exists>r. dir_read d q = Some (Some r) \<and> jr_Receipt r = Some y) \<or>
      jr_Digest r' = Digest (je_crypto env) c \<and> r_CommandID y = c_CommandID c"
proof -
  let ?p = "journal_path env (c_CommandID c)"
  have existing: "(\<exists>r. dir_read d ?p = Some (Some r) \<and> claim_existing env ?p (Digest (je_crypto env) c) c now audit ios ids r d = (res, d')) \<or>
      (\<forall>x. res \<noteq> Inr (Replay x))"
    using assms by (auto simp: claim_def claim_new_def Let_def readJournal_Inr split: option.splits sum.splits jerror.splits prod.splits if_splits)
  show "res = Inr (Replay x) \<Longrightarrow> \<exists>r. dir_read d ?p = Some (Some r) \<and> jr_Digest r = Digest (je_crypto env) c \<and> receipt_kept c r (Some x)"
    using existing claim_existing_receipt by blast
  assume q: "dir_read d' q = Some (Some r')" "jr_Receipt r' = Some y"
  show "(\<exists>r. dir_read d q = Some (Some r) \<and> jr_Receipt r = Some y) \<or> jr_Digest r' = Digest (je_crypto env) c \<and> r_CommandID y = c_CommandID c"
    using assms
  proof (cases rule: claim_cases)
    case refused
    then show ?thesis using q by auto
  next
    case (existing r s)
    show ?thesis
    proof (cases "q = ?p")
      case False
      then show ?thesis using existing(2) q by (auto simp: puts_def)
    next
      case True
      then have s: "r' = s" "jr_Digest s = jr_Digest r"
        using existing(2, 3) q(1) by (auto simp: puts_def settles_def update_ok_def same_identity_def)
      have "claim_existing env ?p (Digest (je_crypto env) c) c now audit ios ids r d = (res, d') \<or> d' = d"
        using assms existing(1) by (auto simp: claim_def Let_def split: option.splits if_splits)
      then show ?thesis
      proof
        assume "claim_existing env ?p (Digest (je_crypto env) c) c now audit ios ids r d = (res, d')"
        from claim_existing_receipt [OF this] existing(1) True q s show ?thesis
          by (auto simp: receipt_kept_def readJournal_Inr)
      qed (use q in auto)
    qed
  next
    case (fresh key r)
    then show ?thesis using q by (cases "q = ?p") (auto simp: fresh_record_def)
  qed
qed

lemma completed_receipt_id:
  "completeLocked env x0 r = Inr (Some r') \<Longrightarrow> \<exists>x. jr_Receipt r' = Some x \<and> r_CommandID x = jr_CommandID r"
  using completeLocked_cases [of env x0 r r'] by (auto simp: completed_record_def fill_operation_def)

lemma update_receipt_name:
  assumes "update_fun env u r = Inr (Some r')" "jr_Receipt r' = Some y"
  shows "jr_Receipt r = Some y \<or> r_CommandID y = jr_CommandID r"
  using assms
  by (cases u)
     (auto simp: Complete_def BeginRunning_def BeginCloudInitSnippetDelete_def AdvanceCloudInitSnippetDelete_def
       RecordCloudInitSnippetDeleteSubmitted_def AdvanceSubmittedSnippetDelete_def CompleteSubmitted_def
       MarkAuditQueued_def MarkReceiptQueued_def fill_operation_def Let_def dest!: completed_receipt_id split: if_splits option.splits)

definition named_inv :: "jenv \<Rightarrow> command set \<Rightarrow> jdir \<Rightarrow> bool" where
  "named_inv env C d \<longleftrightarrow>
     (\<forall>p r. dir_read d p = Some (Some r) \<longrightarrow>
        (\<exists>c \<in> C. jr_Digest r = Digest (je_crypto env) c \<and> jr_CommandID r = c_CommandID c) \<and>
        (\<forall>x. jr_Receipt r = Some x \<longrightarrow> r_CommandID x = jr_CommandID r))"

text \<open>Among the commands of \<open>C\<close> equal digests mean equal command IDs.\<close>

definition digests_name :: "jenv \<Rightarrow> command set \<Rightarrow> bool" where
  "digests_name env C \<longleftrightarrow>
     (\<forall>c \<in> C. \<forall>c' \<in> C. Digest (je_crypto env) c = Digest (je_crypto env) c' \<longrightarrow> c_CommandID c = c_CommandID c')"

lemma named_digest:
  "named_inv env C d \<Longrightarrow> digests_name env C \<Longrightarrow> c \<in> C \<Longrightarrow> dir_read d p = Some (Some r) \<Longrightarrow>
   jr_Digest r = Digest (je_crypto env) c \<Longrightarrow> jr_CommandID r = c_CommandID c"
  unfolding named_inv_def digests_name_def by metis

lemma step_receipt:
  assumes "jstep env a d = (xs, d')" "dir_read d' q = Some (Some r')" "jr_Receipt r' = Some y"
  shows "(\<exists>r. dir_read d q = Some (Some r) \<and> jr_CommandID r = jr_CommandID r' \<and>
      (jr_Receipt r = Some y \<or> r_CommandID y = jr_CommandID r)) \<or>
    (\<exists>c \<in> claims [a]. jr_Digest r' = Digest (je_crypto env) c \<and> r_CommandID y = c_CommandID c)"
proof (cases a)
  case (JClaim c now audit ios ids)
  then obtain res where cl: "claim env c now audit ios ids d = (res, d')" using assms(1) by (auto split: prod.splits)
  have "jr_CommandID s = jr_CommandID r'" if "dir_read d q = Some (Some s)" for s
    using jstep_evolves [OF assms(1)] that assms(2) unfolding evolves_def update_ok_def same_identity_def by fastforce
  then show ?thesis using claim_receipt(2) [OF cl assms(2,3)] JClaim by auto
next
  case (JUpdate u ios)
  then obtain e where "update_record ios (journal_path env (update_id u)) (update_fun env u) d = (e, d')"
    using assms(1) by (metis jstep.simps(2) prod.inject prod.collapse)
  from any_update.update_step [OF this] show ?thesis
  proof (elim disjE exE conjE)
    fix s s' assume s: "dir_read d (journal_path env (update_id u)) = Some (Some s)" "update_fun env u s = Inr (Some s')"
      "d' = dir_put (journal_path env (update_id u)) (Some s') d"
    show ?thesis
    proof (cases "q = journal_path env (update_id u)")
      case True
      then have "r' = s'" using s(3) assms(2) by simp
      moreover have "jr_CommandID s' = jr_CommandID s"
        using any_update.upd_ok [OF s(2)] by (simp add: update_ok_def same_identity_def)
      ultimately show ?thesis using s(1) True update_receipt_name [OF s(2)] assms(3) by auto
    qed (use s(3) assms(2,3) in auto)
  qed (use assms(2,3) in auto)
next
  case (JRecover now mode active ios ids)
  then obtain res where "recover_loop env now mode active (json_files d) ios ids d = (res, d')"
    using assms(1) by (metis jstep.simps(3) prod.inject prod.collapse recoverIncomplete_def)
  then have "recovered env now mode active d d' q" by (rule recover_loop_recovered)
  then consider "dir_read d q = Some (Some r')"
    | s s' i where "dir_read d q = Some (Some s)" "recover_record env now mode i s = Some s'" "s' = r'"
    using assms(2) unfolding recovered_def by force
  then show ?thesis
  proof cases
    case 2
    then have "r_CommandID y = jr_CommandID s" "jr_CommandID r' = jr_CommandID s"
      using recover_record_fields [OF 2(2)] assms(3) by (auto simp: recovery_receipt_fields)
    then show ?thesis using 2(1) by auto
  qed (use assms(3) in auto)
qed

lemma named_step:
  assumes "jstep env a d = (xs, d')" "named_inv env C d" "digests_name env C" "claims [a] \<subseteq> C"
  shows "named_inv env C d'"
  unfolding named_inv_def
proof (intro allI impI)
  fix p r' assume r': "dir_read d' p = Some (Some r')"
  have c: "\<exists>c \<in> C. jr_Digest r' = Digest (je_crypto env) c \<and> jr_CommandID r' = c_CommandID c"
    using jstep_origin [OF assms(1) r']
  proof (elim disjE exE conjE)
    fix r assume "dir_read d p = Some (Some r)" "update_ok r r'"
    then show ?thesis using assms(2) unfolding named_inv_def update_ok_def same_identity_def by metis
  next
    assume "fresh_claim env a d p r'"
    then show ?thesis using assms(4) by (fastforce simp: fresh_claim_def fresh_record_def)
  qed
  have "r_CommandID x = jr_CommandID r'" if x: "jr_Receipt r' = Some x" for x
    using step_receipt [OF assms(1) r' x]
  proof (elim disjE exE bexE conjE)
    fix r assume "dir_read d p = Some (Some r)" "jr_CommandID r = jr_CommandID r'" "jr_Receipt r = Some x"
    then show ?thesis using assms(2) unfolding named_inv_def by metis
  next
    fix c0 assume "c0 \<in> claims [a]" "jr_Digest r' = Digest (je_crypto env) c0" "r_CommandID x = c_CommandID c0"
    then show ?thesis using c assms(3, 4) unfolding digests_name_def by (metis subsetD)
  qed simp
  then show "(\<exists>c \<in> C. jr_Digest r' = Digest (je_crypto env) c \<and> jr_CommandID r' = c_CommandID c) \<and>
    (\<forall>x. jr_Receipt r' = Some x \<longrightarrow> r_CommandID x = jr_CommandID r')" using c by blast
qed

lemma named_run:
  "jrun env as d = (xs, d') \<Longrightarrow> named_inv env C d \<Longrightarrow> digests_name env C \<Longrightarrow> claims as \<subseteq> C \<Longrightarrow> named_inv env C d'"
proof (induction as arbitrary: d xs)
  case (Cons a as)
  from Cons.prems(1) obtain ys d1 zs where s: "jstep env a d = (ys, d1)" "jrun env as d1 = (zs, d')" by (rule jrun_Cons)
  have sub: "claims [a] \<subseteq> C" "claims as \<subseteq> C" using Cons.prems(4) by (cases a; simp)+
  show ?case using Cons.IH [OF s(2) named_step [OF s(1) Cons.prems(2,3) sub(1)] Cons.prems(3) sub(2)] .
qed simp

lemma acts_named:
  "acts env C s xs s' \<Longrightarrow> C \<subseteq> D \<Longrightarrow> named_inv env D (sv_journal s) \<Longrightarrow> digests_name env D \<Longrightarrow> named_inv env D (sv_journal s')"
  unfolding acts_def using named_run by blast

subsection \<open>The receipt that answers a command\<close>

definition answered_by :: "string \<Rightarrow> service \<Rightarrow> service \<Rightarrow> bool" where
  "answered_by i s s' \<longleftrightarrow> (\<exists>x. sv_receipts s' = sv_receipts s @ [x] \<and> r_CommandID x = i)"

lemma sv_update_receipts: "sv_update env u ios s = (err, s') \<Longrightarrow> sv_receipts s' = sv_receipts s"
  by (auto simp: sv_update_def split: prod.splits option.splits)

lemma sv_enqueue_answered: "sv_enqueue env ok x s = (None, s') \<Longrightarrow> r_CommandID x = i \<Longrightarrow> answered_by i s s'"
  by (auto simp: sv_enqueue_def answered_by_def Let_def split: if_splits)

lemma deliver_audit_receipts: "deliver_audit env cfg de i p s = (err, s') \<Longrightarrow> sv_receipts s' = sv_receipts s"
  by (auto simp: deliver_audit_def split: option.splits if_splits dest!: sv_update_receipts)

lemma enqueueJournaled_answered:
  assumes "enqueueJournaled env cfg de j x s = (None, s')" "r_CommandID x = i"
  shows "answered_by i s s'"
proof -
  obtain p where p: "PendingAuditForReceipt env (sv_journal s) j (r_ReceiptID x) = Inr p"
    using assms(1) by (cases "PendingAuditForReceipt env (sv_journal s) j (r_ReceiptID x)") (auto simp: enqueueJournaled_def)
  obtain e1 s1 where d: "deliver_audit env cfg de j p s = (e1, s1)" by fastforce
  obtain e2 s2 where q: "sv_enqueue env (de_queue de) x s1 = (e2, s2)" by fastforce
  have "e1 = None" using assms(1) p d by (cases e1) (simp_all add: enqueueJournaled_def)
  moreover have "e2 = None" using assms(1) p d q calculation by (cases e2) (simp_all add: enqueueJournaled_def)
  ultimately have u: "sv_update env (UReceiptQueued j (r_ReceiptID x)) (de_mark_ios de) s2 = (None, s')" and q: "sv_enqueue env (de_queue de) x s1 = (None, s2)"
    using assms(1) p d q by (simp_all add: enqueueJournaled_def)
  show ?thesis
    using sv_enqueue_answered [OF q assms(2)] deliver_audit_receipts [OF d] sv_update_receipts [OF u] by (simp add: answered_by_def)
qed

lemma reject_answered:
  assumes "reject env cfg pe c code audited s = (None, s')"
  shows "answered_by (c_CommandID c) s s'"
proof -
  obtain x where x: "sv_rejection cfg (pe_id pe) c code (to_utc (pe_now pe)) = Inr x"
    using assms by (cases "sv_rejection cfg (pe_id pe) c code (to_utc (pe_now pe))") (auto simp: reject_def)
  then have i: "r_CommandID x = c_CommandID c" by (auto simp: sv_rejection_def split: option.splits)
  show ?thesis
  proof (cases audited)
    case True
    then obtain es where "sv_enqueue env (de_queue (pe_delivery pe)) x (s\<lparr>sv_events := es\<rparr>) = (None, s')"
      using assms x by (auto simp: reject_def enqueueDeniedAudit_def Let_def split: option.splits if_splits)
    from sv_enqueue_answered [OF this i] show ?thesis by (simp add: answered_by_def)
  next
    case False
    then show ?thesis using assms x i sv_enqueue_answered by (simp add: reject_def)
  qed
qed

lemma sv_update_record:
  assumes "sv_update env u ios s = (None, s')"
  obtains r where "dir_read (sv_journal s) (journal_path env (update_id u)) = Some (Some r)" "\<exists>y. update_fun env u r = Inr y"
proof -
  obtain d where "update_record ios (journal_path env (update_id u)) (update_fun env u) (sv_journal s) = (None, d)"
    using assms by (auto simp: sv_update_def split: prod.splits option.splits)
  then show ?thesis using that by (auto simp: update_record_def readJournal_Inr split: sum.splits)
qed

lemma apply_updates_receipts: "sv_receipts (apply_updates env us s) = sv_receipts s"
  using apply_updates_works [of env s us] by (auto simp: works_def)

lemma finish_command_answered:
  assumes "finish_command env cfg c x failed ios de s = (None, s')" "named_inv env C (sv_journal s)" "digests_name env C" "c \<in> C"
  shows "answered_by (c_CommandID c) s s'"
proof -
  let ?x = "ApplyReceiptCompatibility (x\<lparr>r_OperationID := c_OperationID c\<rparr>)"
  obtain e1 s1 where u: "sv_update env (UComplete c ?x) ios s = (e1, s1)" by fastforce
  then have e1: "e1 = None" using assms(1) by (cases e1) (simp_all add: finish_command_def Let_def)
  then have q: "enqueueJournaled env cfg de (c_CommandID c) ?x s1 = (None, s')"
    using assms(1) u by (auto simp: finish_command_def Let_def split: if_splits)
  obtain r y where r: "dir_read (sv_journal s) (journal_path env (c_CommandID c)) = Some (Some r)" "Complete env c ?x r = Inr y"
    using u e1 by (auto elim: sv_update_record)
  then have "jr_Digest r = Digest (je_crypto env) c" "r_CommandID x = jr_CommandID r"
    by (auto simp: Complete_def completeLocked_def split: if_splits)
  then have "r_CommandID ?x = c_CommandID c" using named_digest [OF assms(2-4) r(1)] by simp
  from enqueueJournaled_answered [OF q this] show ?thesis using sv_update_receipts [OF u] by (simp add: answered_by_def)
qed

lemma execute_now_answered:
  assumes "execute_now env cfg pe c s = (None, s')" "named_inv env C (sv_journal s)" "digests_name env C" "c \<in> C"
  shows "answered_by (c_CommandID c) s s'"
proof -
  let ?s = "apply_updates env (xo_updates (pe_exec pe)) s"
  obtain x failed where f: "finish_command env cfg c x failed (pe_complete_ios pe) (pe_delivery pe) ?s = (None, s')"
    using assms(1) by (auto simp: execute_now_def Let_def split: option.splits prod.splits)
  have "named_inv env C (sv_journal ?s)"
    using acts_named [OF works_acts [OF apply_updates_works] subset_refl assms(2,3)] .
  from finish_command_answered [OF f this assms(3,4)] show ?thesis by (simp add: answered_by_def apply_updates_receipts)
qed

lemma start_command_answered:
  assumes "start_command env cfg pe c s = (None, s')"
  shows "answered_by (c_CommandID c) s s'"
proof -
  obtain x where x: "runningReceipt cfg (pe_id pe) c (to_utc (pe_now pe)) = Inr x"
    using assms by (cases "runningReceipt cfg (pe_id pe) c (to_utc (pe_now pe))") (auto simp: start_command_def)
  then have i: "r_CommandID x = c_CommandID c" by (auto simp: runningReceipt_def split: option.splits)
  obtain e1 s1 where u: "sv_update env (UBeginRunning c x) (pe_begin_ios pe) s = (e1, s1)" by fastforce
  have e1: "e1 = None" using assms x u by (cases e1) (simp_all add: start_command_def)
  obtain e2 s2 where q: "enqueueJournaled env cfg (pe_delivery pe) (c_CommandID c) x s1 = (e2, s2)" by fastforce
  have e2: "e2 = None" using assms x u e1 q by (cases e2) (simp_all add: start_command_def)
  have "sv_receipts s' = sv_receipts s2" using assms x u e1 q e2 by (auto simp: start_command_def split: prod.splits bool.splits)
  then show ?thesis
    using enqueueJournaled_answered [OF _ i] q e2 sv_update_receipts [OF u] by (fastforce simp: answered_by_def)
qed

lemma sv_claim_replay:
  assumes "sv_claim env cfg pe c s = (Inr (Replay x), d)" "named_inv env C (sv_journal s)" "digests_name env C" "c \<in> C"
  shows "r_CommandID x = c_CommandID c"
proof -
  obtain audit where cl: "claim env c (to_utc (pe_now pe)) audit (pe_claim_ios pe) (pe_claim_ids pe) (sv_journal s) = (Inr (Replay x), d)"
    using assms(1) by (auto simp: sv_claim_def ClaimWithAudit_def split: if_splits option.splits)
  obtain r where r: "dir_read (sv_journal s) (journal_path env (c_CommandID c)) = Some (Some r)"
      "jr_Digest r = Digest (je_crypto env) c" "receipt_kept c r (Some x)"
    using claim_receipt(1) [OF cl refl] by blast
  show ?thesis
    using r(3) named_digest [OF assms(2-4) r(1,2)] assms(2) r(1) unfolding receipt_kept_def named_inv_def by (metis option.inject)
qed

lemma admit_answered:
  assumes "admit env cfg pe c s = (None, xs, s')" "named_inv env C (sv_journal s)" "digests_name env C" "c \<in> C"
  shows "answered_by (c_CommandID c) s s'"
proof -
  obtain r d where cl: "sv_claim env cfg pe c s = (r, d)" by fastforce
  let ?s = "s\<lparr>sv_journal := d\<rparr>"
  have j: "named_inv env C (sv_journal ?s)"
    using acts_named [OF sv_claim_acts [OF cl assms(4)] subset_refl assms(2,3)] by simp
  have s: "answered_by (c_CommandID c) ?s s' \<Longrightarrow> answered_by (c_CommandID c) s s'" by (simp add: answered_by_def)
  consider (refused) e where "r = Inl e" | (replay) x where "r = Inr (Replay x)" | (exec) "r = Inr Execute"
    by (metis claimed.exhaust sum.exhaust)
  then show ?thesis
  proof cases
    case (refused e)
    then show ?thesis using assms(1) cl reject_answered s by (auto simp: admit_def split: prod.splits if_splits)
  next
    case (replay x)
    then show ?thesis
      using assms(1) cl s enqueueJournaled_answered [OF _ sv_claim_replay [OF cl [unfolded replay] assms(2-4)]]
      by (auto simp: admit_def split: prod.splits if_splits)
  next
    case exec
    then show ?thesis
      using assms(1) cl s start_command_answered execute_now_answered [OF _ j assms(3,4)]
      by (auto simp: admit_def split: prod.splits if_splits)
  qed
qed

lemma poll_command_answered:
  assumes "poll_command env vp cfg c pe s = (None, xs, s')" "named_inv env C (sv_journal s)" "digests_name env C" "c \<in> C"
  shows "answered_by (c_CommandID c) s s'"
  using assms reject_answered admit_answered unfolding poll_command_def Let_def
  by (auto split: option.splits if_splits prod.splits)

text \<open>The receipts of a response, one for each command and in the order of the commands.\<close>

definition answers_all :: "(command \<times> poll_env) list \<Rightarrow> receipt list \<Rightarrow> bool" where
  "answers_all cs rs \<longleftrightarrow> list_all2 (\<lambda>(c, pe) x. r_CommandID x = c_CommandID c) cs rs"

lemma poll_commands_answered:
  "poll_commands env vp cfg cs s = (None, xs, s') \<Longrightarrow> named_inv env C (sv_journal s) \<Longrightarrow> digests_name env C \<Longrightarrow>
   fst ` set cs \<subseteq> C \<Longrightarrow> \<exists>rs. sv_receipts s' = sv_receipts s @ rs \<and> answers_all cs rs"
proof (induction cs arbitrary: s xs)
  case Nil
  then show ?case by (simp add: answers_all_def)
next
  case (Cons cp cs)
  obtain c pe where cp: "cp = (c, pe)" by (cases cp)
  obtain e1 xs1 s1 where p: "poll_command env vp cfg c pe s = (e1, xs1, s1)" by (metis prod_cases3)
  have e1: "e1 = None" using Cons.prems(1) cp p by (cases e1) simp_all
  have r: "\<exists>ys. poll_commands env vp cfg cs s1 = (None, ys, s')"
    using Cons.prems(1) cp p e1 by (auto split: prod.splits)
  have c: "c \<in> C" "fst ` set cs \<subseteq> C" using Cons.prems(4) cp by auto
  have "acts env {c} s xs1 s1" using poll_command_admitted [OF p] by (simp add: admitted_def)
  from acts_named [OF this _ Cons.prems(2,3)] have j: "named_inv env C (sv_journal s1)" using c by simp
  obtain rs where rs: "sv_receipts s' = sv_receipts s1 @ rs" "answers_all cs rs"
    using Cons.IH [OF _ j Cons.prems(3) c(2)] r by blast
  obtain x where "sv_receipts s1 = sv_receipts s @ [x]" "r_CommandID x = c_CommandID c"
    using poll_command_answered [OF p [unfolded e1] Cons.prems(2,3) c(1)] unfolding answered_by_def by blast
  then show ?case using rs cp by (intro exI [of _ "x # rs"]) (simp add: answers_all_def)
qed

lemma polled_append: "polled (as @ bs) = polled as \<union> polled bs"
proof (induction as)
  case (Cons a as)
  then show ?case using polled_Cons [of a "as @ bs"] polled_Cons [of a as] by auto
qed simp

lemma svc_run_named:
  assumes "svc_run cx as (up0, s0) = (hs, zs, up, s)" "sv_journal s0 = []" "polled as \<subseteq> C" "digests_name (cx_env cx) C"
  shows "named_inv (cx_env cx) C (sv_journal s)"
proof -
  have "acts (cx_env cx) (polled as) s0 hs s" using svc_run_ok [OF assms(1)] by (simp add: step_ok_def)
  from acts_named [OF this assms(3) _ assms(4)] show ?thesis using assms(2) by (simp add: named_inv_def)
qed

subsection \<open>The cursor\<close>

lemma saveCursor_file:
  "saveCursor ios cursor s = (err, s') \<Longrightarrow>
   sv_cursor_file s' = sv_cursor_file s \<or> sv_cursor_file s' = Some (Some (SchemaVersion, cursor))"
  by (auto simp: saveCursor_def Let_def split: if_splits prod.splits io.splits)

text \<open>
  C9: The cursor moves past answered commands only.  After any history of the service from an
  empty journal, a poll that succeeds has handed the queue one receipt for each command of the
  response, in their order and each with the command's own ID, and the cursor in memory and in the
  file is the response's.  A poll that fails leaves the cursor in memory, so this process asks for the
  same commands again; the file then holds the old cursor, or that of the response when its write failed
  late, and in that case too every command of the response was answered.  The hypothesis is the
  one a digest is for: among the commands delivered, equal digests mean equal command IDs.
\<close>

theorem cursor_moves_past_answered:
  fixes cx :: svc_context
  assumes "svc_run cx as (up0, s0) = (hs, zs, up, s)" "sv_journal s0 = []"
    and "PollOnce (cx_env cx) (cx_validParameters cx) (cx_config cx) response ios s = (err, xs, s')"
    and "digests_name (cx_env cx) (polled (as @ [SPoll response ios]))"
  shows "\<exists>rs. sv_receipts s' = sv_receipts s @ rs \<and>
    (if err = None
     then \<exists>cs cursor. response = Some (cs, cursor) \<and> answers_all cs rs \<and> sv_cursor s' = cursor \<and>
       sv_cursor_file s' = Some (Some (SchemaVersion, cursor))
     else sv_cursor s' = sv_cursor s \<and>
       (sv_cursor_file s' = sv_cursor_file s \<or>
        (\<exists>cs cursor. response = Some (cs, cursor) \<and> answers_all cs rs \<and>
           sv_cursor_file s' = Some (Some (SchemaVersion, cursor)))))"
proof -
  let ?C = "polled (as @ [SPoll response ios])"
  have j: "named_inv (cx_env cx) ?C (sv_journal s)"
    by (rule svc_run_named [OF assms(1,2) _ assms(4)]) (simp add: polled_append)
  show ?thesis
  proof (cases response)
    case None
    then show ?thesis using assms(3) by (auto simp: PollOnce_def)
  next
    case (Some r)
    then obtain cs cursor where r: "response = Some (cs, cursor)" by (cases r) auto
    obtain e1 ys s1 where p: "poll_commands (cx_env cx) (cx_validParameters cx) (cx_config cx) cs s = (e1, ys, s1)"
      by (metis prod_cases3)
    from poll_commands_polls [OF p] obtain rs1 where one: "sv_receipts s1 = sv_receipts s @ rs1" "same_authority s s1"
      by (auto simp: polls_def)
    show ?thesis
    proof (cases e1)
      case (Some e)
      then have "err = Some e" "s' = s1" using assms(3) r p by (simp_all add: PollOnce_def)
      then show ?thesis using one by (auto simp: same_authority_def)
    next
      case None
      have sub: "fst ` set cs \<subseteq> ?C" using r by (auto simp: polled_append)
      obtain rs where rs: "sv_receipts s1 = sv_receipts s @ rs" "answers_all cs rs"
        using poll_commands_answered [OF p [unfolded None] j assms(4) sub] by blast
      have sv: "saveCursor ios cursor s1 = (err, s')"
        using assms(3) r p None by (auto simp: PollOnce_def split: prod.splits)
      note f = saveCursor_frame(3,4,5) [OF sv] saveCursor_file [OF sv]
      show ?thesis
        using f r rs one(2) by (intro exI [of _ rs]) (auto simp: same_authority_def)
    qed
  qed
qed

lemma ex_rejected_once:
  "\<exists>s'. PollOnce (cx_env (ex_cx True)) (cx_validParameters (ex_cx True)) (cx_config (ex_cx True))
      (Some ([(ex_command\<lparr>c_Parameters := []\<rparr>, ex_poll)], ''c-1'')) [] ex_service = (None, [], s')"
proof -
  obtain s1 where p: "poll_command (cx_env (ex_cx True)) (\<lambda>_. True) (cx_config (ex_cx True)) (ex_command\<lparr>c_Parameters := []\<rparr>) ex_poll ex_service =
    (None, [], s1)"
    using ex_rejected by blast
  have "PollOnce (cx_env (ex_cx True)) (cx_validParameters (ex_cx True)) (cx_config (ex_cx True))
      (Some ([(ex_command\<lparr>c_Parameters := []\<rparr>, ex_poll)], ''c-1'')) [] ex_service = (None, [], snd (saveCursor [] ''c-1'' s1))"
    using p by (simp add: PollOnce_def saveCursor_def split: prod.splits)
  then show ?thesis by blast
qed

theorem cursor_moves_past_answered_witness:
  "\<exists>s' x. PollOnce (cx_env (ex_cx True)) (cx_validParameters (ex_cx True)) (cx_config (ex_cx True))
      (Some ([(ex_command\<lparr>c_Parameters := []\<rparr>, ex_poll)], ''c-1'')) [] ex_service = (None, [], s') \<and>
    sv_receipts s' = [x] \<and> r_CommandID x = c_CommandID ex_command \<and> sv_cursor s' = ''c-1''"
proof -
  let ?r = "Some ([(ex_command\<lparr>c_Parameters := []\<rparr>, ex_poll)], ''c-1'')"
  obtain s' where s': "PollOnce (cx_env (ex_cx True)) (cx_validParameters (ex_cx True)) (cx_config (ex_cx True)) ?r [] ex_service = (None, [], s')"
    using ex_rejected_once by blast
  have run: "svc_run (ex_cx True) [] (True, ex_service) = ([], [], True, ex_service)" by simp
  have f: "sv_journal ex_service = []" "sv_receipts ex_service = []" by (simp_all add: ex_service_def)
  have d: "digests_name (cx_env (ex_cx True)) (polled ([] @ [SPoll ?r []]))" by (simp add: digests_name_def)
  from cursor_moves_past_answered [OF run f(1) s' d] s' f(2) show ?thesis
    by (auto simp: answers_all_def list_all2_Cons1)
qed

end
