(* ===== verification/Uploader.thy ===== *)
theory Uploader
  imports Store_Queue Protocol Go_Utf8
begin

section \<open>Delivery of queued batches (\<open>internal/uploader/uploader.go\<close>)\<close>

text \<open>
  One destination owns one persistent queue.  \<open>DeliverOne\<close> makes at most one request for the
  oldest due batch and then acknowledges it, schedules a retry or moves it to the dead letters;
  a refused credential blocks the destination until a newer one is installed.

  The HTTP exchange is an argument: the client returns an error or a response of which the code
  reads the status, the \<open>Retry-After\<close> field and the body.  gzip, the JSON decoder, the parser of
  HTTP dates, the random delay and the texts of the library's errors are the fields of
  \<open>uploader_lib\<close>.  Errors are kept as the texts the queue records.
\<close>

subsection \<open>Data\<close>

datatype auth_mode = AuthHMACSHA256 | AuthBearer | AuthNone

record destination =
  dt_ID :: string
  dt_Endpoint :: string
  dt_AuthMode :: auth_mode
  dt_KeyID :: string
  dt_Secret :: bytes
  dt_BearerToken :: string
  dt_CredentialEpoch :: u64
  dt_Compression :: string

record uploader =
  up_destination :: destination
  up_authBlocked :: bool
  up_maxResponseBytes :: int
  up_maxCompressedBytes :: int
  up_maxUncompressedBytes :: int
  up_baseDelay :: int
  up_maxDelay :: int
  up_tlsDelay :: int

record api_response =
  ap_Code :: string
  ap_ErrorCode :: string
  ap_ErrorMessage :: string
  ap_Message :: string

record uploader_lib =
  ul_gzip :: "bytes \<Rightarrow> string + bytes"
  ul_unmarshal :: "bytes \<Rightarrow> string + api_response"
  ul_parse_time :: "string \<Rightarrow> gotime option"
  ul_jitter :: "int \<Rightarrow> int"
  ul_crypto :: crypto
  ul_sign_text :: "sign_error \<Rightarrow> string"

record http_response =
  hr_StatusCode :: int
  hr_RetryAfter :: string
  hr_Body :: "string + bytes"

text \<open>A failed exchange: the text of the error and whether it is an unknown certificate authority.\<close>

datatype http_outcome = HttpFailed string bool | HttpResponse http_response

text \<open>
  One call: the clock at its four readings, the request that \<open>http.NewRequest\<close> builds for the
  endpoint or its error, the random bytes of a nonce, the exchange, the outcomes of the queue's
  file operations.
\<close>

record deliver_env =
  dv_now :: gotime
  dv_sign_now :: gotime
  dv_after_now :: gotime
  dv_retry_now :: gotime
  dv_request :: "string + request"
  dv_nonce :: "8 word list option"
  dv_http :: http_outcome
  dv_ios :: "io list"

datatype u_error = AuthBlocked | Because string | QueueFailed q_error | RetryStateFailed string q_error
  | DeadLetterFailed string q_error

record u_result =
  rs_Delivered :: bool
  rs_Pending :: bool
  rs_BatchID :: string
  rs_StatusCode :: int
  rs_RetryAt :: gotime
  rs_AuthBlocked :: bool
  rs_Err :: "u_error option"

definition no_result :: u_result where
  "no_result = \<lparr>rs_Delivered = False, rs_Pending = False, rs_BatchID = [], rs_StatusCode = 0, rs_RetryAt = zero_time,
     rs_AuthBlocked = False, rs_Err = None\<rparr>"

subsection \<open>Construction\<close>

definition defaultMaxResponseBytes :: int where
  "defaultMaxResponseBytes = 2 * 2 ^ 20"

definition maxResponseBytesLimit :: int where
  "maxResponseBytesLimit = 8 * 2 ^ 20"

definition or_default :: "int \<Rightarrow> int \<Rightarrow> int" where
  "or_default fallback v = (if v \<le> 0 then fallback else v)"

text \<open>
  \<open>New\<close> without the HTTP client, whose transport belongs to the library; \<open>endpointOk\<close> is the
  answer of \<open>url.Parse\<close> and \<open>netpolicy.ValidateIPv4URL\<close>.  The argument carries the
  configuration as it was given.
\<close>

definition New_uploader :: "bool \<Rightarrow> uploader \<Rightarrow> string + uploader" where
  "New_uploader endpointOk cfg =
     (let d = up_destination cfg;
          compression = (if dt_Compression d = [] then ''none'' else dt_Compression d);
          response = or_default defaultMaxResponseBytes (up_maxResponseBytes cfg);
          compressed = or_default (64 * 2 ^ 20) (up_maxCompressedBytes cfg);
          uncompressed = or_default (256 * 2 ^ 20) (up_maxUncompressedBytes cfg) in
      if dt_ID d = [] \<or> dt_Endpoint d = [] then Inl ''destination ID, endpoint and queue are required''
      else if \<not> endpointOk then Inl ''destination endpoint must have an IPv4-capable host''
      else if dt_AuthMode d = AuthHMACSHA256 \<and> (dt_KeyID d = [] \<or> dt_Secret d = []) then Inl ''HMAC key ID and secret are required''
      else if dt_AuthMode d = AuthBearer \<and> dt_BearerToken d = [] then Inl ''bearer token is required''
      else if compression \<noteq> ''none'' \<and> compression \<noteq> ''gzip'' then Inl ''unknown compression''
      else if response > maxResponseBytesLimit then Inl ''uploader max response size exceeds the limit''
      else if compressed > 64 * 2 ^ 20 \<or> uncompressed > 256 * 2 ^ 20 \<or> uncompressed < compressed
        then Inl ''uploader request size limits are invalid''
      else Inr (cfg\<lparr>up_destination := d\<lparr>dt_Compression := compression\<rparr>, up_authBlocked := False,
        up_maxResponseBytes := response, up_maxCompressedBytes := compressed, up_maxUncompressedBytes := uncompressed,
        up_baseDelay := or_default second (up_baseDelay cfg), up_maxDelay := or_default (5 * minute) (up_maxDelay cfg),
        up_tlsDelay := or_default (60 * minute) (up_tlsDelay cfg)\<rparr>))"

subsection \<open>Responses\<close>

definition isTLSError :: "string \<Rightarrow> bool \<Rightarrow> bool" where
  "isTLSError message unknownAuthority \<longleftrightarrow>
     unknownAuthority \<or> contains_text ''tls'' (to_lower message) \<or> contains_text ''x509'' (to_lower message)"

definition retryableStatus :: "int \<Rightarrow> bool" where
  "retryableStatus status \<longleftrightarrow> status = 408 \<or> status = 425 \<or> status = 429 \<or> status \<ge> 500"

text \<open>
  The code compares two codes by \<open>strings.EqualFold\<close>; its result only decides whether the code is
  \<open>DUPLICATE\<close>, so folding ASCII is enough.
\<close>

definition machineCode :: "api_response \<Rightarrow> string" where
  "machineCode r =
     (let flat = trim_space (ap_Code r); nested = trim_space (ap_ErrorCode r) in
      if flat \<noteq> [] \<and> nested \<noteq> [] \<and> \<not> equal_fold flat nested then []
      else if nested \<noteq> [] then nested else flat)"

definition api_message :: "api_response \<Rightarrow> int \<Rightarrow> string" where
  "api_message r status =
     (let nested = trim_space (ap_ErrorCode r);
          code = (if nested = [] then trim_space (ap_Code r) else nested);
          inner = trim_space (ap_ErrorMessage r);
          detail = (if inner = [] then trim_space (ap_Message r) else inner);
          http = ''HTTP '' @ dec_int status in
      if code \<noteq> [] \<and> detail \<noteq> [] then http @ '': '' @ code @ '': '' @ detail
      else if detail \<noteq> [] then http @ '': '' @ detail
      else if code \<noteq> [] then http @ '': '' @ code
      else http)"

definition empty_response :: api_response where
  "empty_response = \<lparr>ap_Code = [], ap_ErrorCode = [], ap_ErrorMessage = [], ap_Message = []\<rparr>"

definition parseAPIResponse :: "uploader_lib \<Rightarrow> int \<Rightarrow> string + bytes \<Rightarrow> string + api_response" where
  "parseAPIResponse lib maxBytes body =
     (case body of
        Inl e \<Rightarrow> Inl (''read API response: '' @ e)
      | Inr all \<Rightarrow>
          let raw = take (nat (maxBytes + 1)) all in
          if int (length raw) > maxBytes then Inl (''API response exceeds '' @ dec_int maxBytes @ '' bytes'')
          else if is_blank raw then Inr empty_response
          else (case ul_unmarshal lib raw of
                  Inl e \<Rightarrow> Inl (''invalid JSON API response: '' @ e) | Inr r \<Rightarrow> Inr r))"

subsection \<open>Retries\<close>

text \<open>The loop of \<open>backoff\<close> runs at most \<open>attempt - 1\<close> times; the delays are positive.\<close>

fun backoff_loop :: "nat \<Rightarrow> int \<Rightarrow> int \<Rightarrow> int" where
  "backoff_loop 0 delay maximum = delay"
| "backoff_loop (Suc n) delay maximum =
     (if delay < maximum then (if delay > maximum div 2 then maximum else backoff_loop n (delay * 2) maximum) else delay)"

definition backoff :: "int \<Rightarrow> int \<Rightarrow> int \<Rightarrow> int" where
  "backoff attempt base maximum =
     (let delay = backoff_loop (nat (max 1 attempt - 1)) base maximum in if delay > maximum then maximum else delay)"

text \<open>\<open>time.Duration(seconds) * time.Second\<close> is a 64-bit product.\<close>

definition wrap64 :: "int \<Rightarrow> int" where
  "wrap64 i = (i + 2 ^ 63) mod 2 ^ 64 - 2 ^ 63"

definition retryAfterAt :: "uploader_lib \<Rightarrow> string \<Rightarrow> gotime \<Rightarrow> gotime" where
  "retryAfterAt lib raw0 now =
     (let raw = trim_space raw0;
          as_date = (case ul_parse_time lib raw of Some t \<Rightarrow> t | None \<Rightarrow> zero_time) in
      if raw = [] then zero_time
      else (case atoi raw of
              Some seconds \<Rightarrow> if seconds \<ge> 0 then time_add now (wrap64 (seconds * second)) else as_date
            | None \<Rightarrow> as_date))"

definition retry_at :: "uploader_lib \<Rightarrow> uploader \<Rightarrow> item \<Rightarrow> gotime \<Rightarrow> gotime \<Rightarrow> bool \<Rightarrow> gotime" where
  "retry_at lib u x now retryAfter tlsFailure =
     (let d0 = ul_jitter lib (backoff (it_attempts x + 1) (up_baseDelay u) (up_maxDelay u));
          d1 = (if d0 < 0 then 0 else d0);
          d2 = (if tlsFailure \<and> d1 < up_tlsDelay u then up_tlsDelay u else d1);
          next = time_add now d2
      in if after retryAfter next then retryAfter else next)"

definition up_retry :: "(string \<Rightarrow> string) \<Rightarrow> uploader_lib \<Rightarrow> uploader \<Rightarrow> deliver_env \<Rightarrow> item \<Rightarrow> u_result \<Rightarrow> int \<Rightarrow> string \<Rightarrow>
    gotime \<Rightarrow> bool \<Rightarrow> queue \<Rightarrow> u_result \<times> queue" where
  "up_retry h lib u dv x result status cause retryAfter tlsFailure q =
     (let next = retry_at lib u x (dv_retry_now dv) retryAfter tlsFailure in
      case Nack h (dv_ios dv) (it_batch x) next cause q of
        (Some e, q1) \<Rightarrow> (result\<lparr>rs_Err := Some (RetryStateFailed cause e)\<rparr>, q1)
      | (None, q1) \<Rightarrow> (result\<lparr>rs_StatusCode := status, rs_RetryAt := next, rs_Err := Some (Because cause)\<rparr>, q1))"

definition up_quarantine :: "(string \<Rightarrow> string) \<Rightarrow> deliver_env \<Rightarrow> item \<Rightarrow> u_result \<Rightarrow> string \<Rightarrow> queue \<Rightarrow> u_result \<times> queue" where
  "up_quarantine h dv x result reason q =
     (case Quarantine h (dv_ios dv) (it_batch x) reason q of
        (Some e, q1) \<Rightarrow> (result\<lparr>rs_Err := Some (DeadLetterFailed reason e)\<rparr>, q1)
      | (None, q1) \<Rightarrow> (result\<lparr>rs_Pending := False, rs_Err := Some (Because reason)\<rparr>, q1))"

definition up_ack :: "(string \<Rightarrow> string) \<Rightarrow> deliver_env \<Rightarrow> item \<Rightarrow> u_result \<Rightarrow> queue \<Rightarrow> u_result \<times> queue" where
  "up_ack h dv x result q =
     (case Ack h (dv_ios dv) (it_batch x) q of
        (Some e, q1) \<Rightarrow> (result\<lparr>rs_Err := Some (QueueFailed e)\<rparr>, q1)
      | (None, q1) \<Rightarrow> (result\<lparr>rs_Delivered := True, rs_Pending := False\<rparr>, q1))"

subsection \<open>One delivery\<close>

definition encodePayload :: "uploader_lib \<Rightarrow> bytes \<Rightarrow> string \<Rightarrow> string + bytes" where
  "encodePayload lib payload compression = (if compression \<noteq> ''gzip'' then Inr payload else ul_gzip lib payload)"

definition with_header :: "string \<Rightarrow> string \<Rightarrow> request \<Rightarrow> request" where
  "with_header k v r = r\<lparr>rq_Header := (rq_Header r)(k := v)\<rparr>"

definition authenticate :: "uploader_lib \<Rightarrow> destination \<Rightarrow> deliver_env \<Rightarrow> bytes \<Rightarrow> request \<Rightarrow> string + request" where
  "authenticate lib d dv payload r =
     (case dt_AuthMode d of
        AuthHMACSHA256 \<Rightarrow>
          (case SignRequest (ul_crypto lib) r payload (dt_KeyID d) (dt_Secret d) (dv_sign_now dv) [] (dv_nonce dv) of
             Inl e \<Rightarrow> Inl (ul_sign_text lib e) | Inr r' \<Rightarrow> Inr r')
      | AuthBearer \<Rightarrow> Inr (with_header ''Authorization'' (''Bearer '' @ dt_BearerToken d) r)
      | AuthNone \<Rightarrow> Inr r)"

definition build_request :: "destination \<Rightarrow> item \<Rightarrow> request \<Rightarrow> request" where
  "build_request d x r0 =
     (let r1 = with_header ''Content-Type'' ''application/json'' r0;
          r2 = (if dt_Compression d = ''gzip'' then with_header ''Content-Encoding'' ''gzip'' r1 else r1)
      in with_header ''Idempotency-Key'' (it_batch x) r2)"

text \<open>What the response leads to.\<close>

definition handle_response :: "(string \<Rightarrow> string) \<Rightarrow> uploader_lib \<Rightarrow> deliver_env \<Rightarrow> item \<Rightarrow> u_result \<Rightarrow> http_response \<Rightarrow>
    uploader \<times> queue \<Rightarrow> u_result \<times> uploader \<times> queue" where
  "handle_response h lib dv x result0 rsp uq =
     (let (u, q) = uq; status = hr_StatusCode rsp; result = result0\<lparr>rs_StatusCode := status\<rparr>;
          later = retryAfterAt lib (hr_RetryAfter rsp) (dv_after_now dv);
          again = (\<lambda>cause. case up_retry h lib u dv x result status cause later False q of (r, q1) \<Rightarrow> (r, u, q1));
          bury = (\<lambda>reason. case up_quarantine h dv x result reason q of (r, q1) \<Rightarrow> (r, u, q1));
          done = (case up_ack h dv x result q of (r, q1) \<Rightarrow> (r, u, q1)) in
      if status = 401 \<or> status = 403
        then (result\<lparr>rs_AuthBlocked := True, rs_Err := Some AuthBlocked\<rparr>, u\<lparr>up_authBlocked := True\<rparr>, q)
      else if 200 \<le> status \<and> status < 300 then done
      else (case parseAPIResponse lib (up_maxResponseBytes u) (hr_Body rsp) of
              Inl e \<Rightarrow> if retryableStatus status then again e else bury e
            | Inr r \<Rightarrow>
                if status = 409 \<and> equal_fold (machineCode r) ''DUPLICATE'' then done
                else let message = api_message r status in
                if retryableStatus status then again message else bury message))"

text \<open>\<open>DeliverOne\<close>, with the request and the body it sent, if any.\<close>

definition DeliverOne :: "(string \<Rightarrow> string) \<Rightarrow> uploader_lib \<Rightarrow> deliver_env \<Rightarrow> uploader \<times> queue \<Rightarrow>
    u_result \<times> (request \<times> bytes) option \<times> uploader \<times> queue" where
  "DeliverOne h lib dv uq =
     (let (u, q) = uq; d = up_destination u in
      case Next (dv_now dv) q of
        None \<Rightarrow> (no_result, None, u, q)
      | Some x \<Rightarrow>
          let result = no_result\<lparr>rs_Pending := True, rs_BatchID := it_batch x\<rparr>;
              again = (\<lambda>cause tls. case up_retry h lib u dv x result 0 cause zero_time tls q of (r, q1) \<Rightarrow> (r, u, q1));
              bury = (\<lambda>reason. case up_quarantine h dv x result reason q of (r, q1) \<Rightarrow> (r, None, u, q1)) in
          if up_authBlocked u then (result\<lparr>rs_AuthBlocked := True, rs_Err := Some AuthBlocked\<rparr>, None, u, q)
          else if int (length (it_payload x)) > up_maxUncompressedBytes u then bury ''PAYLOAD_UNCOMPRESSED_TOO_LARGE''
          else (case encodePayload lib (it_payload x) (dt_Compression d) of
                  Inl e \<Rightarrow> (case again e False of (r, uq1) \<Rightarrow> (r, None, uq1))
                | Inr payload \<Rightarrow>
                    if int (length payload) > up_maxCompressedBytes u then bury ''PAYLOAD_COMPRESSED_TOO_LARGE''
                    else (case dv_request dv of
                            Inl e \<Rightarrow> (case again e False of (r, uq1) \<Rightarrow> (r, None, uq1))
                          | Inr r0 \<Rightarrow>
                              (case authenticate lib d dv payload (build_request d x r0) of
                                 Inl e \<Rightarrow> (case again e False of (r, uq1) \<Rightarrow> (r, None, uq1))
                               | Inr req \<Rightarrow>
                                   (case dv_http dv of
                                      HttpFailed e ca \<Rightarrow>
                                        (case again e (isTLSError e ca) of (r, uq1) \<Rightarrow> (r, Some (req, payload), uq1))
                                    | HttpResponse rsp \<Rightarrow>
                                        (case handle_response h lib dv x result rsp (u, q) of
                                           (r, uq1) \<Rightarrow> (r, Some (req, payload), uq1)))))))"

subsection \<open>Credentials\<close>

definition RotateCredentials :: "u64 \<Rightarrow> string \<Rightarrow> bytes \<Rightarrow> string \<Rightarrow> uploader \<Rightarrow> bool \<times> uploader" where
  "RotateCredentials epoch keyID secret bearer u =
     (let d = up_destination u;
          install = (\<lambda>d'. (True, u\<lparr>up_destination := d'\<lparr>dt_CredentialEpoch := epoch\<rparr>, up_authBlocked := False\<rparr>)) in
      if epoch = 0 \<or> epoch \<le> dt_CredentialEpoch d then (False, u)
      else (case dt_AuthMode d of
              AuthHMACSHA256 \<Rightarrow>
                if is_blank keyID \<or> secret = [] \<or> bearer \<noteq> [] then (False, u)
                else install (d\<lparr>dt_KeyID := keyID, dt_Secret := secret\<rparr>)
            | AuthBearer \<Rightarrow>
                if is_blank bearer \<or> keyID \<noteq> [] \<or> secret \<noteq> [] then (False, u)
                else install (d\<lparr>dt_BearerToken := bearer\<rparr>)
            | AuthNone \<Rightarrow> (False, u)))"

definition AuthenticationBlocked :: "uploader \<Rightarrow> bool" where
  "AuthenticationBlocked u \<longleftrightarrow> up_authBlocked u"

end
