(* ===== verification/Uploader_Guarantees.thy ===== *)
theory Uploader_Guarantees
  imports Uploader Queue_Recovery
begin

section \<open>What delivery guarantees\<close>

text \<open>
  Every call of the uploader acts on the queue by at most one queue operation on the oldest due
  item, so the guarantees of the queue carry over.  On top of it: a batch leaves the queue only
  after the server accepted a request that carries it or rejected it for good, a blocked
  credential stops all traffic, retries wait as long as they should, and a healthy destination
  receives everything, oldest first.
\<close>

subsection \<open>The delays\<close>

lemma backoff_loop_le: "delay \<le> maximum \<Longrightarrow> 0 < delay \<Longrightarrow> backoff_loop n delay maximum = min maximum (delay * 2 ^ n)"
proof (induction n delay maximum rule: backoff_loop.induct)
  case (2 n delay maximum)
  show ?case
  proof (cases "delay < maximum \<and> \<not> delay > maximum div 2")
    case True
    then have "delay * 2 \<le> maximum" by linarith
    then show ?thesis using True "2.IH" "2.prems" by (simp add: mult.assoc)
  next
    case False
    then have "maximum \<le> delay * 2" using "2.prems" by linarith
    moreover have "delay * 2 \<le> delay * 2 ^ Suc n" using "2.prems" by simp
    ultimately have "maximum \<le> delay * 2 ^ Suc n" by linarith
    then show ?thesis using False "2.prems" by auto
  qed
qed simp

lemma backoff_loop_above: "maximum < delay \<Longrightarrow> backoff_loop n delay maximum = delay"
  by (cases n) simp_all

lemma backoff_power: "0 < base \<Longrightarrow> backoff attempt base maximum = min maximum (base * 2 ^ nat (max 1 attempt - 1))"
proof -
  assume b: "0 < base"
  show ?thesis
  proof (cases "base \<le> maximum")
    case True
    then show ?thesis using backoff_loop_le [OF True b] by (simp add: backoff_def Let_def)
  next
    case False
    have "base * 1 \<le> base * 2 ^ nat (max 1 attempt - 1)" using b by (intro mult_left_mono) simp_all
    then show ?thesis using False backoff_loop_above [of maximum base] by (simp add: backoff_def Let_def)
  qed
qed

text \<open>
  The delay before the n-th retry is the base delay doubled n - 1 times, capped at the maximum:
  the loop that stops before it could overflow computes the power.
\<close>

theorem backoff_exact:
  assumes "0 < base"
  shows "backoff attempt base maximum = min maximum (base * 2 ^ nat (max 1 attempt - 1))"
  using backoff_power [OF assms] .

theorem backoff_exact_witness: "backoff 10 second (5 * minute) = 5 * minute \<and> backoff 4 second (5 * minute) = 8 * second"
  using backoff_exact [of second 10 "5 * minute"] backoff_exact [of second 4 "5 * minute"]
  by (simp add: second_def minute_def)

subsection \<open>What one delivery does to the queue\<close>

definition server_accepts :: "uploader_lib \<Rightarrow> uploader \<Rightarrow> http_response \<Rightarrow> bool" where
  "server_accepts lib u rsp \<longleftrightarrow> 200 \<le> hr_StatusCode rsp \<and> hr_StatusCode rsp < 300 \<or>
     hr_StatusCode rsp = 409 \<and>
     (\<exists>r. parseAPIResponse lib (up_maxResponseBytes u) (hr_Body rsp) = Inr r \<and> equal_fold (machineCode r) ''DUPLICATE'')"

definition server_rejects :: "uploader_lib \<Rightarrow> uploader \<Rightarrow> http_response \<Rightarrow> bool" where
  "server_rejects lib u rsp \<longleftrightarrow> hr_StatusCode rsp \<noteq> 401 \<and> hr_StatusCode rsp \<noteq> 403 \<and>
     \<not> retryableStatus (hr_StatusCode rsp) \<and> \<not> server_accepts lib u rsp"

definition carries :: "uploader_lib \<Rightarrow> uploader \<Rightarrow> item \<Rightarrow> request \<times> bytes \<Rightarrow> bool" where
  "carries lib u x sent \<longleftrightarrow>
     rq_Header (fst sent) ''Idempotency-Key'' = it_batch x \<and>
     encodePayload lib (it_payload x) (dt_Compression (up_destination u)) = Inr (snd sent)"

definition too_large :: "uploader_lib \<Rightarrow> uploader \<Rightarrow> item \<Rightarrow> bool" where
  "too_large lib u x \<longleftrightarrow> int (length (it_payload x)) > up_maxUncompressedBytes u \<or>
     (\<exists>body. encodePayload lib (it_payload x) (dt_Compression (up_destination u)) = Inr body \<and>
        int (length body) > up_maxCompressedBytes u)"

lemma authenticate_key:
  assumes "authenticate lib d dv payload (build_request d x r0) = Inr req"
  shows "rq_Header req ''Idempotency-Key'' = it_batch x"
  using assms
  by (auto simp: authenticate_def build_request_def with_header_def SignRequest_def HeaderKeyID_def HeaderTimestamp_def
      HeaderNonce_def HeaderBodyHash_def HeaderSignature_def Let_def split: auth_mode.splits sum.splits if_splits option.splits)

text \<open>The effects a call can have: none, or one operation on the item it read.\<close>

datatype effect = NoEffect | Acked | Retried gotime string | Buried string

fun effect_of :: "(string \<Rightarrow> string) \<Rightarrow> io list \<Rightarrow> string \<Rightarrow> effect \<Rightarrow> queue \<Rightarrow> queue" where
  "effect_of h ios b NoEffect q = q"
| "effect_of h ios b Acked q = snd (Ack h ios b q)"
| "effect_of h ios b (Retried t cause) q = snd (Nack h ios b t cause q)"
| "effect_of h ios b (Buried reason) q = snd (Quarantine h ios b reason q)"

lemma up_retry_effect: "snd (up_retry h lib u dv x r status cause later tls q) =
    effect_of h (dv_ios dv) (it_batch x) (Retried (retry_at lib u x (dv_retry_now dv) later tls) cause) q"
  by (simp add: up_retry_def Let_def split: prod.splits option.splits)

lemma up_quarantine_effect: "snd (up_quarantine h dv x r reason q) = effect_of h (dv_ios dv) (it_batch x) (Buried reason) q"
  by (simp add: up_quarantine_def split: prod.splits option.splits)

lemma up_ack_effect: "snd (up_ack h dv x r q) = effect_of h (dv_ios dv) (it_batch x) Acked q"
  by (simp add: up_ack_def split: prod.splits option.splits)

text \<open>Which effect a response has, and what became of the credential.\<close>

definition response_effect :: "uploader_lib \<Rightarrow> deliver_env \<Rightarrow> uploader \<Rightarrow> item \<Rightarrow> http_response \<Rightarrow> effect \<Rightarrow> bool" where
  "response_effect lib dv u x rsp e \<longleftrightarrow>
     (case e of
        NoEffect \<Rightarrow> hr_StatusCode rsp = 401 \<or> hr_StatusCode rsp = 403
      | Acked \<Rightarrow> server_accepts lib u rsp
      | Retried t cause \<Rightarrow> retryableStatus (hr_StatusCode rsp) \<and>
          t = retry_at lib u x (dv_retry_now dv) (retryAfterAt lib (hr_RetryAfter rsp) (dv_after_now dv)) False
      | Buried reason \<Rightarrow> server_rejects lib u rsp)"

definition responded :: "(string \<Rightarrow> string) \<Rightarrow> uploader_lib \<Rightarrow> deliver_env \<Rightarrow> item \<Rightarrow> http_response \<Rightarrow> uploader \<Rightarrow> queue \<Rightarrow>
    uploader \<Rightarrow> queue \<Rightarrow> bool" where
  "responded h lib dv x rsp u q u' q' \<longleftrightarrow>
     (\<exists>e. q' = effect_of h (dv_ios dv) (it_batch x) e q \<and> response_effect lib dv u x rsp e \<and>
        u' = (if e = NoEffect then u\<lparr>up_authBlocked := True\<rparr> else u))"

lemma respondedI:
  "q' = effect_of h (dv_ios dv) (it_batch x) e q \<Longrightarrow> response_effect lib dv u x rsp e \<Longrightarrow>
   u' = (if e = NoEffect then u\<lparr>up_authBlocked := True\<rparr> else u) \<Longrightarrow> responded h lib dv x rsp u q u' q'"
  by (auto simp: responded_def)

lemma handle_response_effect:
  assumes "handle_response h lib dv x r rsp (u, q) = (r', u', q')"
  shows "responded h lib dv x rsp u q u' q'"
proof -
  let ?st = "hr_StatusCode rsp"
  consider (auth) "?st = 401 \<or> ?st = 403"
    | (ok) "?st \<noteq> 401" "?st \<noteq> 403" "200 \<le> ?st" "?st < 300"
    | (other) "?st \<noteq> 401" "?st \<noteq> 403" "\<not> (200 \<le> ?st \<and> ?st < 300)" by blast
  then show ?thesis
  proof cases
    case auth
    then show ?thesis using assms by (intro respondedI [where e = NoEffect]) (auto simp: handle_response_def response_effect_def)
  next
    case ok
    then have "q' = snd (up_ack h dv x (r\<lparr>rs_StatusCode := ?st\<rparr>) q)" "u' = u"
      using assms by (auto simp: handle_response_def Let_def split: prod.splits)
    then show ?thesis using ok by (intro respondedI [where e = Acked]) (auto simp: up_ack_effect response_effect_def server_accepts_def)
  next
    case other
    let ?r = "r\<lparr>rs_StatusCode := ?st\<rparr>" and ?later = "retryAfterAt lib (hr_RetryAfter rsp) (dv_after_now dv)"
    let ?p = "parseAPIResponse lib (up_maxResponseBytes u) (hr_Body rsp)"
    have "handle_response h lib dv x r rsp (u, q) =
        (case ?p of
           Inl e \<Rightarrow> if retryableStatus ?st then (case up_retry h lib u dv x ?r ?st e ?later False q of (r, q1) \<Rightarrow> (r, u, q1))
                    else (case up_quarantine h dv x ?r e q of (r, q1) \<Rightarrow> (r, u, q1))
         | Inr a \<Rightarrow>
             if ?st = 409 \<and> equal_fold (machineCode a) ''DUPLICATE'' then (case up_ack h dv x ?r q of (r, q1) \<Rightarrow> (r, u, q1))
             else if retryableStatus ?st
               then (case up_retry h lib u dv x ?r ?st (api_message a ?st) ?later False q of (r, q1) \<Rightarrow> (r, u, q1))
             else (case up_quarantine h dv x ?r (api_message a ?st) q of (r, q1) \<Rightarrow> (r, u, q1)))"
      using other by (cases ?p) (auto simp: handle_response_def Let_def)
    note out = trans [OF assms [symmetric] this]
    have retried: ?thesis if "(r', u', q') = (case up_retry h lib u dv x ?r ?st c ?later False q of (r, q1) \<Rightarrow> (r, u, q1))"
      "retryableStatus ?st" for c
      using that up_retry_effect [of h lib u dv x ?r ?st c ?later False q]
      by (intro respondedI [where e = "Retried (retry_at lib u x (dv_retry_now dv) ?later False) c"])
        (auto simp: response_effect_def split: prod.splits)
    have buried: ?thesis if "(r', u', q') = (case up_quarantine h dv x ?r c q of (r, q1) \<Rightarrow> (r, u, q1))"
      "server_rejects lib u rsp" for c
      using that up_quarantine_effect [of h dv x ?r c q]
      by (intro respondedI [where e = "Buried c"]) (auto simp: response_effect_def split: prod.splits)
    have acked: ?thesis if "(r', u', q') = (case up_ack h dv x ?r q of (r, q1) \<Rightarrow> (r, u, q1))" "server_accepts lib u rsp"
      using that up_ack_effect [of h dv x ?r q]
      by (intro respondedI [where e = Acked]) (auto simp: response_effect_def split: prod.splits)
    show ?thesis
    proof (cases ?p)
      case (Inl e)
      then have "\<not> server_accepts lib u rsp" using other by (auto simp: server_accepts_def)
      then have "\<not> retryableStatus ?st \<Longrightarrow> server_rejects lib u rsp" using other by (simp add: server_rejects_def)
      then show ?thesis using out Inl retried [of e] buried [of e] by (cases "retryableStatus ?st") simp_all
    next
      case (Inr a)
      have rej: "\<not> retryableStatus ?st \<Longrightarrow> \<not> (?st = 409 \<and> equal_fold (machineCode a) ''DUPLICATE'') \<Longrightarrow> server_rejects lib u rsp"
        using other Inr by (auto simp: server_rejects_def server_accepts_def)
      have acc: "?st = 409 \<and> equal_fold (machineCode a) ''DUPLICATE'' \<Longrightarrow> server_accepts lib u rsp"
        using Inr by (auto simp: server_accepts_def)
      show ?thesis
        using out Inr retried [of "api_message a ?st"] buried [of "api_message a ?st"] acked rej acc
        by (simp split: if_splits)
    qed
  qed
qed

text \<open>One call, as an effect on the item it read.\<close>

definition called :: "uploader_lib \<Rightarrow> deliver_env \<Rightarrow> uploader \<Rightarrow> item \<Rightarrow> (request \<times> bytes) option \<Rightarrow> effect \<Rightarrow> bool" where
  "called lib dv u x sent e \<longleftrightarrow>
     (\<forall>s. sent = Some s \<longrightarrow> carries lib u x s) \<and>
     (case e of
        NoEffect \<Rightarrow> \<exists>s rsp. sent = Some s \<and> dv_http dv = HttpResponse rsp \<and> (hr_StatusCode rsp = 401 \<or> hr_StatusCode rsp = 403)
      | Acked \<Rightarrow> \<exists>s rsp. sent = Some s \<and> dv_http dv = HttpResponse rsp \<and> server_accepts lib u rsp
      | Retried t cause \<Rightarrow>
          (case (sent, dv_http dv) of
             (Some s, HttpResponse rsp) \<Rightarrow> response_effect lib dv u x rsp e
           | (Some s, HttpFailed m ca) \<Rightarrow> t = retry_at lib u x (dv_retry_now dv) zero_time (isTLSError m ca)
           | (None, _) \<Rightarrow> t = retry_at lib u x (dv_retry_now dv) zero_time False)
      | Buried reason \<Rightarrow>
          too_large lib u x \<and> sent = None \<or>
          (\<exists>s rsp. sent = Some s \<and> dv_http dv = HttpResponse rsp \<and> server_rejects lib u rsp))"

definition delivers :: "(string \<Rightarrow> string) \<Rightarrow> uploader_lib \<Rightarrow> deliver_env \<Rightarrow> uploader \<Rightarrow> queue \<Rightarrow> (request \<times> bytes) option \<Rightarrow>
    uploader \<Rightarrow> queue \<Rightarrow> bool" where
  "delivers h lib dv u q sent u' q' \<longleftrightarrow>
     (Next (dv_now dv) q = None \<or> up_authBlocked u) \<and> sent = None \<and> u' = u \<and> q' = q \<or>
     (\<exists>x e. Next (dv_now dv) q = Some x \<and> \<not> up_authBlocked u \<and> called lib dv u x sent e \<and>
        q' = effect_of h (dv_ios dv) (it_batch x) e q \<and> u' = (if e = NoEffect then u\<lparr>up_authBlocked := True\<rparr> else u))"

lemma deliversI:
  "Next (dv_now dv) q = Some x \<Longrightarrow> \<not> up_authBlocked u \<Longrightarrow> called lib dv u x sent e \<Longrightarrow>
   q' = effect_of h (dv_ios dv) (it_batch x) e q \<Longrightarrow> u' = (if e = NoEffect then u\<lparr>up_authBlocked := True\<rparr> else u) \<Longrightarrow>
   delivers h lib dv u q sent u' q'"
  unfolding delivers_def by blast

lemma DeliverOne_retry:
  assumes "Next (dv_now dv) q = Some x" "\<not> up_authBlocked u"
    and "(case up_retry h lib u dv x base 0 cause zero_time tls q of (r, q1) \<Rightarrow> (r, u, q1)) = (r, u', q')"
    and "\<forall>s. sent = Some s \<longrightarrow> carries lib u x s"
    and "sent = None \<and> \<not> tls \<or> sent \<noteq> None \<and> (\<exists>m ca. dv_http dv = HttpFailed m ca \<and> tls = isTLSError m ca)"
  shows "delivers h lib dv u q sent u' q'"
proof (rule deliversI [OF assms(1,2), where e = "Retried (retry_at lib u x (dv_retry_now dv) zero_time tls) cause"])
  show "called lib dv u x sent (Retried (retry_at lib u x (dv_retry_now dv) zero_time tls) cause)"
    using assms(4,5) by (cases sent) (auto simp: called_def)
qed (use assms(3) up_retry_effect [of h lib u dv x base 0 cause zero_time tls q] in \<open>auto split: prod.splits\<close>)

lemma DeliverOne_bury:
  assumes "Next (dv_now dv) q = Some x" "\<not> up_authBlocked u" "too_large lib u x"
    and "(case up_quarantine h dv x base reason q of (r, q1) \<Rightarrow> (r, None, u, q1)) = (r, sent, u', q')"
  shows "delivers h lib dv u q sent u' q'"
  using assms(4) up_quarantine_effect [of h dv x base reason q]
  by (intro deliversI [OF assms(1,2), where e = "Buried reason"]) (auto simp: called_def assms(3) split: prod.splits)

lemma DeliverOne_respond:
  assumes "Next (dv_now dv) q = Some x" "\<not> up_authBlocked u" "dv_http dv = HttpResponse rsp" "carries lib u x s"
    and "handle_response h lib dv x base rsp (u, q) = (r, u', q')"
  shows "delivers h lib dv u q (Some s) u' q'"
proof -
  obtain e where e: "q' = effect_of h (dv_ios dv) (it_batch x) e q" "response_effect lib dv u x rsp e"
      "u' = (if e = NoEffect then u\<lparr>up_authBlocked := True\<rparr> else u)"
    using handle_response_effect [OF assms(5)] by (auto simp: responded_def)
  have "called lib dv u x (Some s) e"
    using assms(3,4) e(2) by (auto simp: called_def response_effect_def split: effect.splits)
  then show ?thesis using e deliversI [OF assms(1,2)] by blast
qed

lemma DeliverOne_delivers:
  assumes "DeliverOne h lib dv (u, q) = (r, sent, u', q')"
  shows "delivers h lib dv u q sent u' q'"
proof (cases "Next (dv_now dv) q")
  case None
  then show ?thesis using assms by (simp add: DeliverOne_def delivers_def)
next
  case (Some x)
  let ?d = "up_destination u" and ?r = "no_result\<lparr>rs_Pending := True, rs_BatchID := it_batch x\<rparr>"
  show ?thesis
  proof (cases "up_authBlocked u")
    case True
    then show ?thesis using assms Some by (simp add: DeliverOne_def delivers_def Let_def)
  next
    case free: False
    note retry = DeliverOne_retry [OF Some free, where base = ?r]
    note bury = DeliverOne_bury [OF Some free, where base = ?r]
    show ?thesis
    proof (cases "int (length (it_payload x)) > up_maxUncompressedBytes u")
      case True
      then have "too_large lib u x" by (simp add: too_large_def)
      then show ?thesis using assms Some free True bury by (simp add: DeliverOne_def Let_def)
    next
      case small: False
      show ?thesis
      proof (cases "encodePayload lib (it_payload x) (dt_Compression ?d)")
        case (Inl e)
        then show ?thesis
          using assms Some free small retry [where sent = None and tls = False and cause = e]
          by (simp add: DeliverOne_def Let_def split: prod.splits)
      next
        case enc: (Inr payload)
        show ?thesis
        proof (cases "int (length payload) > up_maxCompressedBytes u")
          case True
          then have "too_large lib u x" using enc by (auto simp: too_large_def)
          then show ?thesis using assms Some free small enc True bury by (simp add: DeliverOne_def Let_def)
        next
          case fits: False
          show ?thesis
          proof (cases "dv_request dv")
            case (Inl e)
            then show ?thesis
              using assms Some free small enc fits retry [where sent = None and tls = False and cause = e]
              by (simp add: DeliverOne_def Let_def split: prod.splits)
          next
            case built: (Inr r0)
            show ?thesis
            proof (cases "authenticate lib ?d dv payload (build_request ?d x r0)")
              case (Inl e)
              then show ?thesis
                using assms Some free small enc fits built retry [where sent = None and tls = False and cause = e]
                by (simp add: DeliverOne_def Let_def split: prod.splits)
            next
              case (Inr req)
              then have c: "carries lib u x (req, payload)" using authenticate_key enc by (auto simp: carries_def)
              show ?thesis
              proof (cases "dv_http dv")
                case (HttpFailed m ca)
                then show ?thesis
                  using assms Some free small enc fits built Inr c
                    retry [where sent = "Some (req, payload)" and tls = "isTLSError m ca" and cause = m]
                  by (simp add: DeliverOne_def Let_def split: prod.splits)
              next
                case (HttpResponse rsp)
                then show ?thesis
                  using assms Some free small enc fits built Inr DeliverOne_respond [OF Some free HttpResponse c, where base = ?r]
                  by (simp add: DeliverOne_def Let_def split: prod.splits)
              qed
            qed
          qed
        qed
      qed
    qed
  qed
qed

subsection \<open>The queue as the uploader sees it\<close>

text \<open>
  \<open>uploader.Queue\<close>: the laws delivery relies on.  An operation on one batch leaves the others
  alone, and only an acknowledgement or a quarantine takes a batch away.
\<close>

fun removing :: "effect \<Rightarrow> bool" where
  "removing Acked = True"
| "removing (Buried reason) = True"
| "removing _ = False"

locale delivery_queue =
  fixes nxt :: "'t \<Rightarrow> 'q \<Rightarrow> 'i option"
    and act :: "'e \<Rightarrow> string \<Rightarrow> effect \<Rightarrow> 'q \<Rightarrow> 'q"
    and name :: "'i \<Rightarrow> string"
    and payload :: "'i \<Rightarrow> bytes"
    and holds :: "'q \<Rightarrow> string \<Rightarrow> bytes \<Rightarrow> bool"
    and ok :: "'q \<Rightarrow> bool"
  assumes act_ok: "ok q \<Longrightarrow> ok (act e b a q)"
    and nxt_payload: "ok q \<Longrightarrow> nxt t q = Some x \<Longrightarrow> holds q (name x) p \<Longrightarrow> payload x = p"
    and act_other: "ok q \<Longrightarrow> holds q b p \<Longrightarrow> c \<noteq> b \<Longrightarrow> holds (act e c a q) b p"
    and act_same: "ok q \<Longrightarrow> holds q b p \<Longrightarrow> \<not> removing a \<Longrightarrow> holds (act e b a q) b p"
begin

lemma act_keeps:
  assumes "ok q" "holds q b p" "nxt t q = Some x" "\<not> holds (act e (name x) a q) b p"
  shows "name x = b \<and> payload x = p \<and> removing a"
proof -
  have "name x = b" using act_other [OF assms(1,2), of "name x" e a] assms(4) by blast
  moreover from this have "payload x = p" using nxt_payload [OF assms(1,3)] assms(2) by blast
  moreover have "removing a" using act_same [OF assms(1,2), of a e] assms(4) \<open>name x = b\<close> by blast
  ultimately show ?thesis by blast
qed

end

lemma effect_touches: "queue_ok q \<Longrightarrow> touches h b q (effect_of h ios b e q)"
  using Ack_touches Nack_touches Quarantine_touches touches_refl by (cases e) auto

lemma Next_payload:
  assumes "queue_ok q" "Next now q = Some x" "durable h (it_batch x) p q"
  shows "it_payload x = p"
proof -
  have "x \<in> set (q_items q)" using Next_spec [where now = now and q = q] assms(2) by simp
  then show ?thesis using assms(1,3) queue_okD(1) [OF assms(1)] by (auto simp: durable_def)
qed

interpretation sq: delivery_queue Next "effect_of h" it_batch it_payload "\<lambda>q b p. durable h b p q" queue_ok for h
proof
  fix q e b a show "queue_ok q \<Longrightarrow> queue_ok (effect_of h e b a q)"
    using effect_touches by (auto simp: touches_def)
next
  fix q b p a e show "queue_ok q \<Longrightarrow> durable h b p q \<Longrightarrow> \<not> removing a \<Longrightarrow> durable h b p (effect_of h e b a q)"
    by (cases a) (auto intro: Nack_durable)
qed (auto intro: Next_payload touches_durable [OF effect_touches])

subsection \<open>Histories\<close>

text \<open>Deliveries, rotations of the credential and new batches in any order.\<close>

datatype u_op = UDeliver deliver_env | URotate u64 string bytes string | UEnqueue gotime "io list" string bytes

type_synonym u_log = "(uploader \<times> item option \<times> (request \<times> bytes) option \<times> deliver_env) list"

fun u_step :: "(string \<Rightarrow> string) \<Rightarrow> uploader_lib \<Rightarrow> u_op \<Rightarrow> uploader \<times> queue \<Rightarrow> u_log \<times> uploader \<times> queue" where
  "u_step h lib (UDeliver dv) (u, q) =
     (case DeliverOne h lib dv (u, q) of (r, sent, uq) \<Rightarrow> ([(u, Next (dv_now dv) q, sent, dv)], uq))"
| "u_step h lib (URotate epoch keyID secret bearer) (u, q) = ([], snd (RotateCredentials epoch keyID secret bearer u), q)"
| "u_step h lib (UEnqueue now ios b p) (u, q) = ([], u, snd (Enqueue h now ios b p q))"

fun u_run :: "(string \<Rightarrow> string) \<Rightarrow> uploader_lib \<Rightarrow> u_op list \<Rightarrow> uploader \<times> queue \<Rightarrow> u_log \<times> uploader \<times> queue" where
  "u_run h lib [] uq = ([], uq)"
| "u_run h lib (a # as) uq =
     (case u_step h lib a uq of (l, uq1) \<Rightarrow> case u_run h lib as uq1 of (l', uq2) \<Rightarrow> (l @ l', uq2))"

text \<open>The server has settled a batch: it accepted or rejected a request that carries it, or it cannot be sent.\<close>

definition settled_by :: "uploader_lib \<Rightarrow> string \<Rightarrow> bytes \<Rightarrow> uploader \<times> item option \<times> (request \<times> bytes) option \<times> deliver_env \<Rightarrow> bool" where
  "settled_by lib b p entry \<longleftrightarrow>
     (\<exists>u x sent dv. entry = (u, Some x, sent, dv) \<and> it_batch x = b \<and> it_payload x = p \<and>
        (too_large lib u x \<or>
         (\<exists>s rsp. sent = Some s \<and> carries lib u x s \<and> dv_http dv = HttpResponse rsp \<and>
            (server_accepts lib u rsp \<or> server_rejects lib u rsp))))"

lemma delivers_queue:
  assumes "delivers h lib dv u q sent u' q'" "queue_ok q"
  shows "queue_ok q' \<and> same_cfg q q'"
  using assms effect_touches [OF assms(2)] by (auto simp: delivers_def touches_def)

lemma delivers_settles:
  assumes "delivers h lib dv u q sent u' q'" "queue_ok q" "durable h b p q" "\<not> durable h b p q'"
  shows "settled_by lib b p (u, Next (dv_now dv) q, sent, dv)"
proof -
  obtain x e where x: "Next (dv_now dv) q = Some x" "called lib dv u x sent e"
      "q' = effect_of h (dv_ios dv) (it_batch x) e q"
    using assms by (auto simp: delivers_def)
  have "it_batch x = b \<and> it_payload x = p \<and> removing e"
    using sq.act_keeps [OF assms(2,3) x(1)] assms(4) x(3) by blast
  then show ?thesis using x(1,2) by (cases e) (auto simp: settled_by_def called_def)
qed

lemma u_step_settles:
  assumes "u_step h lib a (u, q) = (l, u', q')" "queue_ok q" "q_kind q \<noteq> Telemetry"
    and "unat (next_seq (q_stats q)) < 2 ^ 64 - 1"
  shows "queue_ok q' \<and> q_kind q' = q_kind q \<and> unat (next_seq (q_stats q')) \<le> Suc (unat (next_seq (q_stats q))) \<and>
    (durable h b p q \<longrightarrow> durable h b p q' \<or> (\<exists>entry \<in> set l. settled_by lib b p entry))"
proof (cases a)
  case (UDeliver dv)
  obtain r sent where d: "DeliverOne h lib dv (u, q) = (r, sent, u', q')" and l: "l = [(u, Next (dv_now dv) q, sent, dv)]"
    using assms(1) UDeliver by (auto split: prod.splits)
  note dd = DeliverOne_delivers [OF d]
  show ?thesis using delivers_queue [OF dd assms(2)] delivers_settles [OF dd assms(2)] l by (auto simp: same_cfg_def)
next
  case (UEnqueue now ios c p')
  then have q': "q' = q_step h (EnqueueOp now ios c p') q" using assms(1) by simp
  note n = u64_not_max [OF assms(4)]
  show ?thesis
    unfolding q'
    using q_step_ok [OF assms(2) n, of h "EnqueueOp now ios c p'"] q_step_seq [OF assms(2), of h "EnqueueOp now ios c p'"]
      q_step_unat_seq [OF assms(2,4), of h "EnqueueOp now ios c p'"]
      q_step_durable [OF assms(2,3) n, of h b p "EnqueueOp now ios c p'"] by simp
qed (use assms in auto)

lemma u_run_settles:
  "u_run h lib as (u, q) = (l, u', q') \<Longrightarrow> queue_ok q \<Longrightarrow> q_kind q \<noteq> Telemetry \<Longrightarrow>
   unat (next_seq (q_stats q)) + length as < 2 ^ 64 \<Longrightarrow> durable h b p q \<Longrightarrow>
   durable h b p q' \<or> (\<exists>entry \<in> set l. settled_by lib b p entry)"
proof (induction as arbitrary: u q l)
  case (Cons a as)
  obtain l1 u1 q1 where s: "u_step h lib a (u, q) = (l1, u1, q1)" by (metis prod_cases3)
  obtain l2 u2 q2 where r: "u_run h lib as (u1, q1) = (l2, u2, q2)" by (metis prod_cases3)
  have eq: "l = l1 @ l2" "u2 = u'" "q2 = q'" using Cons.prems(1) s r by simp_all
  have n: "unat (next_seq (q_stats q)) < 2 ^ 64 - 1" using Cons.prems(4) by simp
  note st = u_step_settles [OF s Cons.prems(2,3) n, of b p]
  show ?case
  proof (cases "durable h b p q1")
    case True
    have "unat (next_seq (q_stats q1)) + length as < 2 ^ 64" using st Cons.prems(4) by simp
    then show ?thesis using Cons.IH [of u1 q1 l2] r eq st True Cons.prems(3) by auto
  next
    case False
    then show ?thesis using st eq Cons.prems(5) by auto
  qed
qed simp

text \<open>
  C21: Nothing is lost between the queue and the server.  In every history of deliveries, failing
  requests, failing queue files, credential rotations and new batches, a stored metering or audit
  batch stays stored until the server accepted or finally rejected a request that carried exactly
  its payload under its batch ID, or the batch is too large to be sent.
\<close>

theorem batch_kept_until_settled:
  assumes "queue_ok q" "q_kind q \<noteq> Telemetry" "durable h b p q"
    and "u_run h lib as (u, q) = (l, u', q')" "unat (next_seq (q_stats q)) + length as < 2 ^ 64"
  shows "durable h b p q' \<or> (\<exists>entry \<in> set l. settled_by lib b p entry)"
  using u_run_settles [OF assms(4,1,2,5,3)] .

subsection \<open>A refused credential\<close>

fun newer_credential :: "u64 \<Rightarrow> u_op \<Rightarrow> bool" where
  "newer_credential epoch (URotate e keyID secret bearer) = (epoch < e)"
| "newer_credential epoch _ = False"

fun enqueues :: "u_op list \<Rightarrow> q_op list" where
  "enqueues [] = []"
| "enqueues (UEnqueue now ios b p # as) = EnqueueOp now ios b p # enqueues as"
| "enqueues (a # as) = enqueues as"

lemma blocked_step:
  assumes "up_authBlocked u" "\<not> newer_credential (dt_CredentialEpoch (up_destination u)) a" "u_step h lib a (u, q) = (l, u', q')"
  shows "u' = u \<and> q' = q_run h (enqueues [a]) q \<and> (\<forall>(v, x, sent, dv) \<in> set l. sent = None)"
proof (cases a)
  case (UDeliver dv)
  obtain r sent where d: "DeliverOne h lib dv (u, q) = (r, sent, u', q')" and l: "l = [(u, Next (dv_now dv) q, sent, dv)]"
    using assms(3) UDeliver by (auto split: prod.splits)
  show ?thesis using DeliverOne_delivers [OF d] assms(1) l UDeliver by (auto simp: delivers_def)
next
  case (URotate e keyID secret bearer)
  then have "e \<le> dt_CredentialEpoch (up_destination u)" using assms(2) by (simp add: not_less)
  then have "snd (RotateCredentials e keyID secret bearer u) = u" by (simp add: RotateCredentials_def Let_def)
  then show ?thesis using assms(3) URotate by auto
qed (use assms(3) in auto)

lemma q_run_append: "q_run h (as @ bs) q = q_run h bs (q_run h as q)"
  by (induction as arbitrary: q) auto

lemma enqueues_Cons: "enqueues (a # as) = enqueues [a] @ enqueues as"
  by (cases a) auto

lemma blocked_run:
  "up_authBlocked u \<Longrightarrow> \<not> list_ex (newer_credential (dt_CredentialEpoch (up_destination u))) as \<Longrightarrow>
   u_run h lib as (u, q) = (l, u', q') \<Longrightarrow>
   u' = u \<and> q' = q_run h (enqueues as) q \<and> (\<forall>(v, x, sent, dv) \<in> set l. sent = None)"
proof (induction as arbitrary: q l)
  case (Cons a as)
  obtain l1 u1 q1 where s: "u_step h lib a (u, q) = (l1, u1, q1)" by (metis prod_cases3)
  have st: "u1 = u" "q1 = q_run h (enqueues [a]) q" "\<forall>(v, x, sent, dv) \<in> set l1. sent = None"
    using blocked_step [OF Cons.prems(1) _ s] Cons.prems(2) by simp_all
  obtain l2 u2 q2 where r: "u_run h lib as (u1, q1) = (l2, u2, q2)" by (metis prod_cases3)
  have eq: "l = l1 @ l2" "u2 = u'" "q2 = q'" using Cons.prems(3) s r by simp_all
  have "u' = u \<and> q' = q_run h (enqueues as) q1 \<and> (\<forall>(v, x, sent, dv) \<in> set l2. sent = None)"
    using Cons.IH [of q1 l2] Cons.prems(1,2) r eq st(1) by simp
  then show ?case using st eq enqueues_Cons [of a as] by (auto simp: q_run_append)
qed simp

text \<open>
  A refused credential stops the destination.  A response 401 or 403 leaves the queue as it
  is, and from then on nothing is sent and only producers change the queue, whatever happens,
  until a credential with a greater epoch is offered.
\<close>

theorem refused_credential_stops_traffic:
  assumes "DeliverOne h lib dv (u0, q0) = (r, Some s, u, q)" "dv_http dv = HttpResponse rsp"
    and "hr_StatusCode rsp = 401 \<or> hr_StatusCode rsp = 403"
    and "u_run h lib as (u, q) = (l, u', q')" "\<not> list_ex (newer_credential (dt_CredentialEpoch (up_destination u0))) as"
  shows "q = q0 \<and> up_authBlocked u' \<and> q' = q_run h (enqueues as) q0 \<and> (\<forall>(v, x, sent, dv) \<in> set l. sent = None)"
proof -
  have auth: "\<not> server_accepts lib u0 rsp" "\<not> server_rejects lib u0 rsp" "\<not> retryableStatus (hr_StatusCode rsp)"
    using assms(3) by (auto simp: server_accepts_def server_rejects_def retryableStatus_def)
  obtain x e where x: "called lib dv u0 x (Some s) e" "q = effect_of h (dv_ios dv) (it_batch x) e q0"
      "u = (if e = NoEffect then u0\<lparr>up_authBlocked := True\<rparr> else u0)"
    using DeliverOne_delivers [OF assms(1)] by (auto simp: delivers_def)
  have "e = NoEffect" using x(1) assms(2) auth by (cases e) (auto simp: called_def response_effect_def)
  then have u: "up_authBlocked u" "up_destination u = up_destination u0" "q = q0" using x by simp_all
  then show ?thesis using blocked_run [OF u(1) _ assms(4)] assms(5) by auto
qed

subsection \<open>Retries wait\<close>

definition patient :: "uploader_lib \<Rightarrow> uploader \<Rightarrow> bool" where
  "patient lib u \<longleftrightarrow> 0 < up_baseDelay u \<and> 0 < up_maxDelay u \<and> 0 < up_tlsDelay u \<and>
     (\<forall>m > 0. 0 \<le> ul_jitter lib m \<and> ul_jitter lib m \<le> m)"

lemma retry_at_bounds:
  assumes "patient lib u" "t = retry_at lib u x now later tls" "0 \<le> it_attempts x"
  shows "instant now \<le> instant t" "instant later \<le> instant t"
    "instant t \<le> max (instant now + max (if tls then up_tlsDelay u else 0)
       (min (up_maxDelay u) (up_baseDelay u * 2 ^ nat (it_attempts x)))) (instant later)"
proof -
  let ?b = "backoff (it_attempts x + 1) (up_baseDelay u) (up_maxDelay u)"
  have b: "?b = min (up_maxDelay u) (up_baseDelay u * 2 ^ nat (it_attempts x))"
    using backoff_power [of "up_baseDelay u" "it_attempts x + 1"] assms(1,3) by (simp add: patient_def)
  have "0 < ?b" using assms(1) by (simp add: b patient_def)
  then have j: "0 \<le> ul_jitter lib ?b" "ul_jitter lib ?b \<le> ?b" using assms(1) by (auto simp: patient_def)
  then show "instant now \<le> instant t" "instant later \<le> instant t"
    using assms(1,2) by (auto simp: retry_at_def Let_def after_def time_add_def patient_def)
  show "instant t \<le> max (instant now + max (if tls then up_tlsDelay u else 0)
       (min (up_maxDelay u) (up_baseDelay u * 2 ^ nat (it_attempts x)))) (instant later)"
    using j assms(1,2) unfolding b [symmetric] by (auto simp: retry_at_def Let_def after_def time_add_def patient_def)
qed

lemma Nack_result:
  assumes "queue_ok q" "x \<in> set (q_items q)"
  shows "lookup_item (it_batch x) (q_items (snd (Nack h ios (it_batch x) t cause q))) =
    Some (if fst (take_io ios) = IoOk
      then x\<lparr>it_attempts := it_attempts x + 1, it_next := to_utc t, it_error := truncate_text cause 512\<rparr> else x)"
proof -
  have "lookup_item (it_batch x) (q_items q) = Some x" using assms lookup_item_mem by (simp add: queue_ok_def)
  then show ?thesis
    by (cases "fst (take_io ios)") (auto simp: Nack_def writeItem_def put_item_def lookup_item_def Let_def split: prod.splits)
qed

text \<open>
  C38: Retries wait.  After a response that asks for a retry, the batch is pending with its payload.
  When the write of its record succeeded it has one more attempt, and the queue does not offer it
  before its new time, which is at least the present and the time of the server's \<open>Retry-After\<close>, and
  at most the later of that time and the exponential delay for its number of attempts.  When the
  write failed the batch is pending as it was.
\<close>

theorem retry_waits:
  assumes "queue_ok q" "patient lib u" "Next (dv_now dv) q = Some x" "0 \<le> it_attempts x"
    and "DeliverOne h lib dv (u, q) = (r, Some s, u', q')"
    and "dv_http dv = HttpResponse rsp" "retryableStatus (hr_StatusCode rsp)"
  shows "\<exists>y. lookup_item (it_batch x) (q_items q') = Some y \<and> it_payload y = it_payload x \<and>
    (if fst (take_io (dv_ios dv)) = IoOk
     then it_attempts y = it_attempts x + 1 \<and> instant (dv_retry_now dv) \<le> instant (it_next y) \<and>
       instant (retryAfterAt lib (hr_RetryAfter rsp) (dv_after_now dv)) \<le> instant (it_next y) \<and>
       instant (it_next y) \<le> max (instant (dv_retry_now dv) + min (up_maxDelay u) (up_baseDelay u * 2 ^ nat (it_attempts x)))
         (instant (retryAfterAt lib (hr_RetryAfter rsp) (dv_after_now dv))) \<and>
       (\<forall>now. before now (it_next y) \<longrightarrow> Next now q' \<noteq> Some y)
     else y = x)"
proof -
  let ?later = "retryAfterAt lib (hr_RetryAfter rsp) (dv_after_now dv)"
  have nope: "\<not> server_accepts lib u rsp" "\<not> server_rejects lib u rsp" "hr_StatusCode rsp \<noteq> 401" "hr_StatusCode rsp \<noteq> 403"
    using assms(7) by (auto simp: server_accepts_def server_rejects_def retryableStatus_def)
  obtain e where e: "called lib dv u x (Some s) e" "q' = effect_of h (dv_ios dv) (it_batch x) e q"
    using DeliverOne_delivers [OF assms(5)] assms(3) by (auto simp: delivers_def)
  then obtain cause where cause: "e = Retried (retry_at lib u x (dv_retry_now dv) ?later False) cause"
    using nope assms(6) by (cases e) (auto simp: called_def response_effect_def)
  let ?t = "retry_at lib u x (dv_retry_now dv) ?later False"
  have x: "x \<in> set (q_items q)" using Next_spec [where now = "dv_now dv" and q = q] assms(3) by simp
  have n: "lookup_item (it_batch x) (q_items q') = Some (if fst (take_io (dv_ios dv)) = IoOk
      then x\<lparr>it_attempts := it_attempts x + 1, it_next := to_utc ?t, it_error := truncate_text cause 512\<rparr> else x)"
    using Nack_result [OF assms(1) x, of h "dv_ios dv" ?t cause] e(2) cause by simp
  have wait: "Next now q' \<noteq> Some y" if "before now (it_next y)" for now y
    using Next_spec [where now = now and q = q'] that by (auto simp: due_def after_def before_def split: option.splits)
  show ?thesis
  proof (cases "fst (take_io (dv_ios dv)) = IoOk")
    case True
    then show ?thesis
      using n wait retry_at_bounds [OF assms(2) refl assms(4), where now = "dv_retry_now dv" and later = ?later and tls = False] assms(2)
      by (auto simp: to_utc_def patient_def)
  qed (use n in simp)
qed

subsection \<open>A healthy destination\<close>

definition healthy :: "uploader_lib \<Rightarrow> uploader \<Rightarrow> item \<Rightarrow> gotime \<Rightarrow> deliver_env \<Rightarrow> bool" where
  "healthy lib u x now dv \<longleftrightarrow> dv_now dv = now \<and> dv_ios dv = [] \<and> \<not> too_large lib u x \<and>
     (\<exists>rsp. dv_http dv = HttpResponse rsp \<and> 200 \<le> hr_StatusCode rsp \<and> hr_StatusCode rsp < 300) \<and>
     (\<exists>r0 payload req. dv_request dv = Inr r0 \<and>
        encodePayload lib (it_payload x) (dt_Compression (up_destination u)) = Inr payload \<and>
        authenticate lib (up_destination u) dv payload (build_request (up_destination u) x r0) = Inr req)"

lemma Ack_clean:
  assumes "queue_ok q" "x \<in> set (q_items q)"
  shows "\<exists>q1. Ack h [] (it_batch x) q = (None, q1) \<and> q_items q1 = delete_item (it_batch x) (q_items q)"
proof -
  have "lookup_item (it_batch x) (q_items q) = Some x" using assms lookup_item_mem by (simp add: queue_ok_def)
  moreover obtain rm d where "dir_remove IoOk (itemPath h x) (q_wal q) = (rm, d)" by fastforce
  moreover have "rm \<noteq> RemoveError" using calculation(2) by (auto simp: dir_remove_def split: if_splits)
  ultimately show ?thesis by (simp add: Ack_def writeStats_def remove_pending_def)
qed

lemma healthy_call:
  assumes "queue_ok q" "Next now q = Some x" "healthy lib u x now dv" "\<not> up_authBlocked u"
  shows "\<exists>r s q'. DeliverOne h lib dv (u, q) = (r, Some s, u, q') \<and> carries lib u x s \<and> rs_Delivered r \<and>
    queue_ok q' \<and> q_items q' = delete_item (it_batch x) (q_items q)"
proof -
  have x: "x \<in> set (q_items q)" using Next_spec [where now = now and q = q] assms(2) by simp
  obtain rsp r0 payload req where ok: "dv_now dv = now" "dv_ios dv = []" "dv_http dv = HttpResponse rsp"
      "200 \<le> hr_StatusCode rsp" "hr_StatusCode rsp < 300" "dv_request dv = Inr r0" "\<not> too_large lib u x"
      "encodePayload lib (it_payload x) (dt_Compression (up_destination u)) = Inr payload"
      "authenticate lib (up_destination u) dv payload (build_request (up_destination u) x r0) = Inr req"
    using assms(3) by (auto simp: healthy_def)
  obtain q1 where q1: "Ack h [] (it_batch x) q = (None, q1)" "q_items q1 = delete_item (it_batch x) (q_items q)"
    using Ack_clean [OF assms(1) x] by blast
  have "carries lib u x (req, payload)" using ok(8) authenticate_key [OF ok(9)] by (simp add: carries_def)
  moreover have "queue_ok q1" using effect_touches [OF assms(1), of h "it_batch x" "[]" Acked] q1(1) by (simp add: touches_def)
  ultimately show ?thesis
    using assms(2,4) ok q1 by (simp add: DeliverOne_def handle_response_def up_ack_def too_large_def Let_def)
qed

definition sent_for :: "uploader_lib \<Rightarrow> uploader \<Rightarrow> item \<Rightarrow> uploader \<times> item option \<times> (request \<times> bytes) option \<times> deliver_env \<Rightarrow> bool" where
  "sent_for lib u x entry \<longleftrightarrow> (\<exists>v s dv. entry = (v, Some x, Some s, dv) \<and> carries lib u x s)"

definition due_items :: "gotime \<Rightarrow> queue \<Rightarrow> item set" where
  "due_items now q = {x \<in> set (q_items q). due now x}"

text \<open>
  A healthy destination receives everything, oldest first.  Once requests succeed and files can
  be written, as many calls as there are due batches send each of them once, with its payload, in
  the order in which they were queued, and none is left.
\<close>

theorem healthy_destination_drains:
  assumes "queue_ok q" "\<not> up_authBlocked u" "card (due_items now q) = length dvs"
    and "\<And>x dv. x \<in> due_items now q \<Longrightarrow> dv \<in> set dvs \<Longrightarrow> healthy lib u x now dv"
  shows "\<exists>xs l q'. u_run h lib (map UDeliver dvs) (u, q) = (l, u, q') \<and> due_items now q' = {} \<and>
    set xs = due_items now q \<and> sorted_wrt (\<lambda>x y. it_seq x < it_seq y) xs \<and>
    list_all2 (sent_for lib u) xs l"
  using assms
proof (induction dvs arbitrary: q)
  case Nil
  then have "due_items now q = {}" by (simp add: due_items_def)
  then show ?case by (intro exI [of _ "[]"]) simp
next
  case (Cons dv dvs)
  have "due_items now q \<noteq> {}" using Cons.prems(3) by auto
  then obtain x where x: "Next now q = Some x"
    using Next_spec [where now = now and q = q] by (cases "Next now q") (auto simp: due_items_def)
  have mem: "x \<in> due_items now q" and least: "\<And>y. y \<in> due_items now q \<Longrightarrow> it_seq x \<le> it_seq y"
    using Next_spec [where now = now and q = q] x by (auto simp: due_items_def)
  have hl: "healthy lib u x now dv" using Cons.prems(4) [OF mem] by simp
  obtain r s q1 where c: "DeliverOne h lib dv (u, q) = (r, Some s, u, q1)" "carries lib u x s" "queue_ok q1"
      "q_items q1 = delete_item (it_batch x) (q_items q)"
    using healthy_call [OF Cons.prems(1) x hl Cons.prems(2), of h] by blast
  have inq: "x \<in> set (q_items q)" using mem by (simp add: due_items_def)
  have due1: "due_items now q1 = due_items now q - {x}"
    using c(4) queue_okD(1) [OF Cons.prems(1)] inq by (auto simp: due_items_def)
  have "card (due_items now q1) = length dvs" using Cons.prems(3) mem due1 by simp
  then obtain xs l q' where ih: "u_run h lib (map UDeliver dvs) (u, q1) = (l, u, q')" "due_items now q' = {}"
      "set xs = due_items now q1" "sorted_wrt (\<lambda>x y. it_seq x < it_seq y) xs"
      "list_all2 (sent_for lib u) xs l"
    using Cons.IH [OF c(3) Cons.prems(2)] Cons.prems(4) due1 by fastforce
  have lt: "it_seq x < it_seq y" if "y \<in> due_items now q1" for y
  proof -
    have "y \<in> set (q_items q)" "y \<noteq> x" using that due1 by (auto simp: due_items_def)
    then have "it_seq y \<noteq> it_seq x" using queue_okD(2) [OF Cons.prems(1)] inq by metis
    then show ?thesis using least [of y] that due1 by auto
  qed
  have now: "dv_now dv = now" using Cons.prems(4) [OF mem, of dv] by (simp add: healthy_def)
  show ?case
  proof (intro exI conjI)
    show "u_run h lib (map UDeliver (dv # dvs)) (u, q) = ((u, Some x, Some s, dv) # l, u, q')"
      using c(1) ih(1) x now by simp
    show "sorted_wrt (\<lambda>x y. it_seq x < it_seq y) (x # xs)" using ih(3,4) lt by simp
    show "list_all2 (sent_for lib u) (x # xs) ((u, Some x, Some s, dv) # l)" using ih(5) c(2) by (simp add: sent_for_def)
  qed (use ih due1 mem in auto)
qed

subsection \<open>A concrete destination\<close>

definition ex_lib :: uploader_lib where
  "ex_lib = \<lparr>ul_gzip = (\<lambda>b. Inl ''no compressor''), ul_unmarshal = (\<lambda>b. Inr empty_response), ul_parse_time = (\<lambda>s. None),
     ul_jitter = (\<lambda>m. m), ul_crypto = \<lparr>sha256 = (\<lambda>b. []), hmac_sha256 = (\<lambda>k m. [])\<rparr>, ul_sign_text = (\<lambda>e. ''signing failed'')\<rparr>"

definition ex_uploader :: uploader where
  "ex_uploader = \<lparr>up_destination = \<lparr>dt_ID = ''site'', dt_Endpoint = ''https://site.test/v1'', dt_AuthMode = AuthBearer,
       dt_KeyID = [], dt_Secret = [], dt_BearerToken = ''token'', dt_CredentialEpoch = 3, dt_Compression = ''none''\<rparr>,
     up_authBlocked = False, up_maxResponseBytes = 100, up_maxCompressedBytes = 1000, up_maxUncompressedBytes = 1000,
     up_baseDelay = second, up_maxDelay = 5 * minute, up_tlsDelay = 60 * minute\<rparr>"

definition ex_answer :: "int \<Rightarrow> string \<Rightarrow> deliver_env" where
  "ex_answer status later = \<lparr>dv_now = ex_now, dv_sign_now = ex_now, dv_after_now = ex_now, dv_retry_now = ex_now,
     dv_request = Inr \<lparr>rq_Method = ''POST'', rq_EscapedPath = ''/v1'', rq_RawQuery = [], rq_Header = (\<lambda>_. [])\<rparr>,
     dv_nonce = None, dv_http = HttpResponse \<lparr>hr_StatusCode = status, hr_RetryAfter = later, hr_Body = Inr []\<rparr>, dv_ios = []\<rparr>"

definition ex_full :: queue where
  "ex_full = snd (Enqueue ex_hash ex_now [] ''b'' ''xy'' (ex_empty Metering ex_policy))"

lemma ex_full_items: "q_items ex_full = [new_item Metering ex_now ''b'' ''xy'' 1]"
  by (simp add: ex_full_def ex_queue_eval)

lemma ex_full_ok: "queue_ok ex_full" "q_kind ex_full = Metering" "unat (next_seq (q_stats ex_full)) = 1"
  and ex_full_durable: "durable ex_hash ''b'' ''xy'' ex_full"
proof -
  show "queue_ok ex_full"
    unfolding ex_full_def by (rule Enqueue_ok [OF ex_empty_ok]) (simp add: ex_empty_def zero_stats_def)
  show "q_kind ex_full = Metering" "unat (next_seq (q_stats ex_full)) = 1"
    by (simp_all add: ex_full_def ex_queue_eval)
  have "Enqueue ex_hash ex_now [] ''b'' ''xy'' (ex_empty Metering ex_policy) = (Inr (new_item Metering ex_now ''b'' ''xy'' 1, True), ex_full)"
    unfolding ex_full_def by (simp add: ex_queue_eval)
  then show "durable ex_hash ''b'' ''xy'' ex_full" using Enqueue_accepted_durable [OF ex_empty_ok] by blast
qed

lemma ex_full_next: "Next ex_now ex_full = Some (new_item Metering ex_now ''b'' ''xy'' 1)"
  by (simp add: Next_def ex_full_items) (simp add: new_item_def kind_defs after_def to_utc_def)

lemma ex_sent: "\<exists>r s u q. DeliverOne ex_hash ex_lib (ex_answer status later) (ex_uploader, ex_full) = (r, Some s, u, q)"
proof -
  let ?x = "new_item Metering ex_now ''b'' ''xy'' 1"
  have "it_payload ?x = ''xy''" by (simp add: new_item_def)
  then show ?thesis
    using ex_full_next
    by (simp add: DeliverOne_def ex_uploader_def ex_answer_def encodePayload_def authenticate_def Let_def split: prod.splits)
qed

theorem batch_kept_until_settled_witness:
  "\<exists>l u' q'. u_run ex_hash ex_lib [UDeliver (ex_answer 503 ''7''), UEnqueue ex_now [IoFail] ''c'' ''z'']
      (ex_uploader, ex_full) = (l, u', q') \<and>
    (durable ex_hash ''b'' ''xy'' q' \<or> (\<exists>entry \<in> set l. settled_by ex_lib ''b'' ''xy'' entry))"
proof -
  let ?as = "[UDeliver (ex_answer 503 ''7''), UEnqueue ex_now [IoFail] ''c'' ''z'']"
  obtain l u' q' where run: "u_run ex_hash ex_lib ?as (ex_uploader, ex_full) = (l, u', q')" by (metis prod_cases3)
  have "durable ex_hash ''b'' ''xy'' q' \<or> (\<exists>entry \<in> set l. settled_by ex_lib ''b'' ''xy'' entry)"
    by (rule batch_kept_until_settled [OF ex_full_ok(1) _ ex_full_durable run]) (simp_all add: ex_full_ok kind_defs)
  then show ?thesis using run by blast
qed

theorem refused_credential_stops_traffic_witness:
  "\<exists>r s u q l u' q'. DeliverOne ex_hash ex_lib (ex_answer 401 []) (ex_uploader, ex_full) = (r, Some s, u, q) \<and> q = ex_full \<and>
     u_run ex_hash ex_lib [URotate 3 [] [] ''stale'', UDeliver (ex_answer 200 [])] (u, q) = (l, u', q') \<and>
     length l = 1 \<and> q' = ex_full \<and> (\<forall>(v, x, sent, dv) \<in> set l. sent = None)"
proof -
  obtain r s u q where d: "DeliverOne ex_hash ex_lib (ex_answer 401 []) (ex_uploader, ex_full) = (r, Some s, u, q)"
    using ex_sent by blast
  obtain l u' q' where run: "u_run ex_hash ex_lib [URotate 3 [] [] ''stale'', UDeliver (ex_answer 200 [])] (u, q) = (l, u', q')"
    by (metis prod_cases3)
  have h: "dv_http (ex_answer 401 []) = HttpResponse \<lparr>hr_StatusCode = 401, hr_RetryAfter = [], hr_Body = Inr []\<rparr>"
    by (simp add: ex_answer_def)
  have "length l = 1" using run by (auto split: prod.splits)
  with refused_credential_stops_traffic [OF d h _ run] d run show ?thesis
    by (simp add: ex_uploader_def)
qed

theorem retry_waits_witness:
  "\<exists>r s u' q' y. DeliverOne ex_hash ex_lib (ex_answer 503 ''7'') (ex_uploader, ex_full) = (r, Some s, u', q') \<and>
     lookup_item ''b'' (q_items q') = Some y \<and> it_attempts y = 1 \<and> instant ex_now + 7 * second \<le> instant (it_next y)"
proof -
  obtain r s u q where d: "DeliverOne ex_hash ex_lib (ex_answer 503 ''7'') (ex_uploader, ex_full) = (r, Some s, u, q)"
    using ex_sent by blast
  have h: "dv_http (ex_answer 503 ''7'') = HttpResponse \<lparr>hr_StatusCode = 503, hr_RetryAfter = ''7'', hr_Body = Inr []\<rparr>"
    by (simp add: ex_answer_def)
  have p: "patient ex_lib ex_uploader" by (simp add: patient_def ex_lib_def ex_uploader_def second_def minute_def)
  have n: "Next (dv_now (ex_answer 503 ''7'')) ex_full = Some (new_item Metering ex_now ''b'' ''xy'' 1)"
    using ex_full_next by (simp add: ex_answer_def)
  have "trim_space ''7'' = ''7''" by (rule trim_space_printable) (simp add: code_of_def)
  moreover have "atoi ''7'' = Some 7" by (simp add: parse_dec_def digit_val_def is_digit_def code_of_def)
  ultimately have later: "instant (retryAfterAt ex_lib ''7'' ex_now) = instant ex_now + 7 * second"
    by (simp add: retryAfterAt_def Let_def time_add_def wrap64_def second_def)
  have f: "retryableStatus (hr_StatusCode \<lparr>hr_StatusCode = 503, hr_RetryAfter = ''7'', hr_Body = Inr []\<rparr>)"
    "0 \<le> it_attempts (new_item Metering ex_now ''b'' ''xy'' 1)" "fst (take_io (dv_ios (ex_answer 503 ''7''))) = IoOk"
    by (simp_all add: retryableStatus_def new_item_def ex_answer_def)
  obtain y where y: "lookup_item (it_batch (new_item Metering ex_now ''b'' ''xy'' 1)) (q_items q) = Some y"
      "it_attempts y = it_attempts (new_item Metering ex_now ''b'' ''xy'' 1) + 1"
      "instant (retryAfterAt ex_lib (hr_RetryAfter \<lparr>hr_StatusCode = 503, hr_RetryAfter = ''7'', hr_Body = Inr []\<rparr>)
         (dv_after_now (ex_answer 503 ''7''))) \<le> instant (it_next y)"
    using retry_waits [OF ex_full_ok(1) p n f(2) d h f(1)] unfolding f(3) if_P [OF refl] by (elim exE conjE)
  then have "lookup_item ''b'' (q_items q) = Some y" "it_attempts y = 1"
      "instant (retryAfterAt ex_lib ''7'' ex_now) \<le> instant (it_next y)"
    by (simp_all add: new_item_def ex_answer_def)
  with d later show ?thesis by (intro exI [of _ r] exI [of _ s] exI [of _ u] exI [of _ q] exI [of _ y]) simp
qed

theorem healthy_destination_drains_witness:
  "\<exists>xs l q'. u_run ex_hash ex_lib (map UDeliver [ex_answer 200 []]) (ex_uploader, ex_full) = (l, ex_uploader, q') \<and>
     due_items ex_now q' = {} \<and> set xs = {new_item Metering ex_now ''b'' ''xy'' 1} \<and> length l = 1"
proof -
  let ?x = "new_item Metering ex_now ''b'' ''xy'' 1"
  have d: "due_items ex_now ex_full = {?x}"
    by (simp add: due_items_def ex_full_items) (auto simp: due_def new_item_def kind_defs after_def to_utc_def)
  have "\<exists>xs l q'. u_run ex_hash ex_lib (map UDeliver [ex_answer 200 []]) (ex_uploader, ex_full) = (l, ex_uploader, q') \<and>
      due_items ex_now q' = {} \<and> set xs = due_items ex_now ex_full \<and> sorted_wrt (\<lambda>x y. it_seq x < it_seq y) xs \<and>
      list_all2 (sent_for ex_lib ex_uploader) xs l"
    by (rule healthy_destination_drains [OF ex_full_ok(1)])
      (auto simp: d ex_uploader_def healthy_def ex_answer_def too_large_def encodePayload_def authenticate_def new_item_def)
  then show ?thesis using d by (auto split: prod.splits)
qed

end
