(* ===== verification/Web_Address.thy ===== *)
theory Web_Address
  imports Go_Text
begin

section \<open>Addresses and endpoints (\<open>internal/netpolicy/ipv4.go\<close>, \<open>internal/enrollment/enrollment.go\<close>)\<close>

text \<open>
  The checks that every outbound endpoint passes: IPv4 addresses in canonical form, secure URLs,
  equality of origins.  A URL is the record of the parts the code reads; \<open>url.Parse\<close> and the
  IPv6 branch of \<open>net.ParseIP\<close> are the fields of \<open>web_lib\<close>.
\<close>

subsection \<open>IP addresses\<close>

text \<open>An IPv4-mapped IPv6 address counts as IPv4 (\<open>To4\<close>); other addresses carry their text.\<close>

datatype ip = IP4 nat nat nat nat | IP6 string

definition dotted :: "nat \<Rightarrow> nat \<Rightarrow> nat \<Rightarrow> nat \<Rightarrow> string" where
  "dotted a b c d = dec a @ ''.'' @ dec b @ ''.'' @ dec c @ ''.'' @ dec d"

fun ip_string :: "ip \<Rightarrow> string" where
  "ip_string (IP4 a b c d) = dotted a b c d"
| "ip_string (IP6 s) = s"

text \<open>One field of a dotted address: digits without a leading zero, at most 255.\<close>

definition octet :: "string \<Rightarrow> nat option" where
  "octet s =
     (if s \<noteq> [] \<and> list_all is_digit s \<and> \<not> (hd s = CHR ''0'' \<and> length s > 1) \<and> parse_dec s \<le> 255
      then Some (parse_dec s) else None)"

definition parse_ipv4 :: "string \<Rightarrow> ip option" where
  "parse_ipv4 s =
     (case map octet (split_on (CHR ''.'') s) of
        [Some a, Some b, Some c, Some d] \<Rightarrow> Some (IP4 a b c d)
      | _ \<Rightarrow> None)"

record url =
  u_Scheme :: string
  u_Opaque :: string
  u_User :: bool
  u_Host :: string
  u_Hostname :: string
  u_Port :: string
  u_Path :: string
  u_EscapedPath :: string
  u_ForceQuery :: bool
  u_RawQuery :: string
  u_Fragment :: string

record web_lib =
  wl_parse_url :: "string \<Rightarrow> url option"
  wl_parse_ipv6 :: "string \<Rightarrow> ip option"

text \<open>\<open>net.ParseIP\<close> decides by the first of the characters \<open>.\<close>, \<open>:\<close> and \<open>%\<close>.\<close>

definition parse_ip :: "web_lib \<Rightarrow> string \<Rightarrow> ip option" where
  "parse_ip lib s =
     (case find (\<lambda>c. c \<in> set ''.:%'') s of
        None \<Rightarrow> None
      | Some c \<Rightarrow>
          if c = CHR ''.'' then parse_ipv4 s else if c = CHR '':'' then wl_parse_ipv6 lib s else None)"

definition is_unspecified :: "nat \<Rightarrow> nat \<Rightarrow> nat \<Rightarrow> nat \<Rightarrow> bool" where
  "is_unspecified a b c d \<longleftrightarrow> a = 0 \<and> b = 0 \<and> c = 0 \<and> d = 0"

definition is_multicast :: "nat \<Rightarrow> bool" where
  "is_multicast a \<longleftrightarrow> 224 \<le> a \<and> a \<le> 239"

definition canonicalIPv4 :: "web_lib \<Rightarrow> string \<Rightarrow> bool" where
  "canonicalIPv4 lib v =
     (case parse_ip lib v of
        Some (IP4 a b c d) \<Rightarrow>
          ip_string (IP4 a b c d) = v \<and> \<not> is_unspecified a b c d \<and> \<not> is_multicast a \<and> v \<noteq> ''255.255.255.255''
      | _ \<Rightarrow> False)"

definition ValidateIPv4URL :: "web_lib \<Rightarrow> url \<Rightarrow> bool" where
  "ValidateIPv4URL lib u \<longleftrightarrow>
     u_Hostname u \<noteq> [] \<and> (case parse_ip lib (u_Hostname u) of Some (IP6 _) \<Rightarrow> False | _ \<Rightarrow> True)"

subsection \<open>Secure endpoints\<close>

definition isLoopback :: "web_lib \<Rightarrow> string \<Rightarrow> bool" where
  "isLoopback lib host \<longleftrightarrow>
     equal_fold host ''localhost'' \<or> (case parse_ip lib host of Some (IP4 a b c d) \<Rightarrow> a = 127 | _ \<Rightarrow> False)"

definition parseSecureURL :: "web_lib \<Rightarrow> string \<Rightarrow> url option" where
  "parseSecureURL lib v =
     (case wl_parse_url lib v of
        None \<Rightarrow> None
      | Some u \<Rightarrow>
          if u_Host u = [] \<or> u_User u \<or> u_Fragment u \<noteq> [] \<or> u_RawQuery u \<noteq> [] \<or> \<not> ValidateIPv4URL lib u then None
          else if u_Scheme u = ''https'' then Some u
          else if u_Scheme u = ''http'' \<and> isLoopback lib (u_Hostname u) then Some u
          else None)"

definition normalizedPort :: "url \<Rightarrow> string" where
  "normalizedPort u =
     (if u_Port u \<noteq> [] then u_Port u else if u_Scheme u = ''https'' then ''443'' else ''80'')"

definition sameOrigin :: "url \<Rightarrow> url \<Rightarrow> bool" where
  "sameOrigin a b \<longleftrightarrow>
     equal_fold (u_Scheme a) (u_Scheme b) \<and> equal_fold (u_Hostname a) (u_Hostname b) \<and> normalizedPort a = normalizedPort b"

subsection \<open>Canonical addresses\<close>

lemma split_on_digits: "list_all is_digit s \<Longrightarrow> split_on (CHR ''.'') (s @ CHR ''.'' # t) = s # split_on (CHR ''.'') t"
  by (induction s) (auto simp: char_class_defs)

lemma split_on_digits_end: "list_all is_digit s \<Longrightarrow> split_on (CHR ''.'') s = [s]"
  by (induction s) (auto simp: char_class_defs)

lemma dec_no_leading_zero: "hd (dec n) = CHR ''0'' \<Longrightarrow> length (dec n) \<le> 1"
proof (induction n rule: dec.induct)
  case (1 n)
  show ?case
  proof (cases "n < 10")
    case False
    have "n div 10 \<noteq> 0" using False by simp
    then have "dec (n div 10) \<noteq> ''0''" using dec_inject [of "n div 10" 0] dec_zero by simp
    moreover have "hd (dec (n div 10)) = CHR ''0''"
      using 1(2) False by (subst (asm) dec.simps) simp
    ultimately have "\<not> length (dec (n div 10)) \<le> 1"
      using dec_nonempty [of "n div 10"] by (cases "dec (n div 10)") auto
    then show ?thesis using 1 False \<open>hd (dec (n div 10)) = CHR ''0''\<close> by auto
  qed (subst dec.simps, simp)
qed

lemma octet_dec: "n \<le> 255 \<Longrightarrow> octet (dec n) = Some n"
  using dec_no_leading_zero [of n] by (auto simp: octet_def dec_digits)

lemma octet_dec_conv:
  assumes "octet s = Some n"
  shows "s = dec n \<and> n \<le> 255"
proof -
  have s: "s \<noteq> []" "list_all is_digit s" "\<not> (hd s = CHR ''0'' \<and> length s > 1)" "parse_dec s \<le> 255" "n = parse_dec s"
    using assms by (auto simp: octet_def split: if_splits)
  have "s = dec (parse_dec s)"
  proof (cases "hd s = CHR ''0''")
    case True
    then have "s = ''0''" using s(1,3) by (cases s) auto
    then show ?thesis using dec_zero by (simp add: parse_dec_def digit_val_def code_of_def)
  next
    case False
    then show ?thesis using dec_parse_dec s(1,2) by simp
  qed
  then show ?thesis using s by simp
qed

lemma split_dotted: "split_on (CHR ''.'') (dotted a b c d) = [dec a, dec b, dec c, dec d]"
  by (simp add: dotted_def split_on_digits split_on_digits_end dec_digits)

lemma parse_ipv4_dotted:
  "a \<le> 255 \<Longrightarrow> b \<le> 255 \<Longrightarrow> c \<le> 255 \<Longrightarrow> d \<le> 255 \<Longrightarrow> parse_ipv4 (dotted a b c d) = Some (IP4 a b c d)"
  by (simp add: parse_ipv4_def split_dotted octet_dec)

lemma split_on_join: "split_on d s \<noteq> [] \<and> concat (map (\<lambda>w. w @ [d]) (split_on d s)) = s @ [d]"
  by (induction d s rule: split_on.induct) (auto split: list.splits)

lemma parse_ipv4_conv:
  assumes "parse_ipv4 s = Some (IP4 a b c d)"
  shows "s = dotted a b c d \<and> a \<le> 255 \<and> b \<le> 255 \<and> c \<le> 255 \<and> d \<le> 255"
proof -
  from assms have o4: "map octet (split_on (CHR ''.'') s) = [Some a, Some b, Some c, Some d]"
    by (auto simp: parse_ipv4_def split: list.splits option.splits)
  then obtain p q r t where w: "split_on (CHR ''.'') s = [p, q, r, t]"
    "octet p = Some a" "octet q = Some b" "octet r = Some c" "octet t = Some d"
    by (auto simp: map_eq_Cons_conv)
  have "s @ ''.'' = p @ ''.'' @ q @ ''.'' @ r @ ''.'' @ t @ ''.''"
    using split_on_join [of "CHR ''.''" s] w(1) by simp
  then have "s = p @ ''.'' @ q @ ''.'' @ r @ ''.'' @ t"
    by (metis append_assoc append_same_eq)
  then show ?thesis using w(2-5) [THEN octet_dec_conv] by (simp add: dotted_def)
qed

lemma find_dot: "list_all is_digit s \<Longrightarrow> find (\<lambda>c. c \<in> set ''.:%'') (s @ CHR ''.'' # t) = Some (CHR ''.'')"
  by (induction s) (auto simp: char_class_defs)

text \<open>
  The accepted texts are exactly the canonical dotted addresses other than the unspecified
  address, multicast and the limited broadcast address, whatever the IPv6 parser answers.
\<close>

lemma canonicalIPv4_iff:
  "canonicalIPv4 lib v \<longleftrightarrow>
     (\<exists>a b c d. v = dotted a b c d \<and> a \<le> 255 \<and> b \<le> 255 \<and> c \<le> 255 \<and> d \<le> 255 \<and>
        \<not> is_unspecified a b c d \<and> \<not> is_multicast a \<and> v \<noteq> ''255.255.255.255'')"
  (is "?l \<longleftrightarrow> ?r")
proof
  have dots: "find (\<lambda>c. c \<in> set ''.:%'') (dotted a b c d) = Some (CHR ''.'')" for a b c d
    by (simp add: dotted_def find_dot dec_digits del: set_simps)
  {
    assume ?l
    then obtain a b c d where p: "parse_ip lib v = Some (IP4 a b c d)" "dotted a b c d = v"
        "\<not> is_unspecified a b c d" "\<not> is_multicast a" "v \<noteq> ''255.255.255.255''"
      by (auto simp: canonicalIPv4_def split: option.splits ip.splits)
    then have "parse_ipv4 v = Some (IP4 a b c d)"
      using dots [of a b c d] by (simp add: parse_ip_def)
    then show ?r using p parse_ipv4_conv by blast
  next
    assume ?r
    then obtain a b c d where p: "v = dotted a b c d" "a \<le> 255" "b \<le> 255" "c \<le> 255" "d \<le> 255"
        "\<not> is_unspecified a b c d" "\<not> is_multicast a" "v \<noteq> ''255.255.255.255''" by blast
    then have "parse_ip lib v = Some (IP4 a b c d)"
      using dots [of a b c d] by (simp add: parse_ip_def parse_ipv4_dotted)
    then show ?l using p by (simp add: canonicalIPv4_def)
  }
qed

end
