(* ===== verification/Enrollment.thy ===== *)
theory Enrollment
  imports Web_Address Go_Utf8
begin

section \<open>Enrollment with the two services (\<open>internal/enrollment\<close>, \<open>internal/monitorenrollment\<close>)\<close>

text \<open>
  Requests and responses of the website and of the monitoring service, their validation and the
  two \<open>Bind\<close> clients.  The HTTP exchange is an argument.  The JSON encoder and the strict
  decoders (one object, no duplicate or unknown keys) are fields of \<open>enroll_lib\<close>.
\<close>

subsection \<open>Patterns\<close>

definition safeID :: "string \<Rightarrow> bool" where
  "safeID = match_ref ''._:-'' 1 127"

definition bindingCode :: "string \<Rightarrow> bool" where
  "bindingCode = match_ref ''._-'' 7 127"

definition versionValue :: "string \<Rightarrow> bool" where
  "versionValue = match_ref ''._+:-'' 0 127"

definition actionValue :: "string \<Rightarrow> bool" where
  "actionValue = actionRef"

text \<open>Hexadecimal digits of either case, a version digit 1 to 5, a variant digit 8, 9, a or b.\<close>

definition uuidValue :: "string \<Rightarrow> bool" where
  "uuidValue s \<longleftrightarrow>
     length s = 36 \<and> (\<forall>i \<in> set [8, 13, 18, 23]. s ! i = CHR ''-'') \<and>
     (\<forall>i \<in> set [0 ..< 36]. i \<in> set [8, 13, 18, 23] \<or> is_hex (s ! i)) \<and>
     s ! 14 \<in> set ''12345'' \<and> s ! 19 \<in> set ''89abAB''"

fun hostname_label :: "string \<Rightarrow> bool" where
  "hostname_label w \<longleftrightarrow>
     w \<noteq> [] \<and> length w \<le> 63 \<and> hd w \<noteq> CHR ''-'' \<and> last w \<noteq> CHR ''-'' \<and> list_all (\<lambda>c. c = CHR ''-'' \<or> is_alnum c) w"

definition validHostname :: "string \<Rightarrow> bool" where
  "validHostname v \<longleftrightarrow>
     v \<noteq> [] \<and> length v \<le> 253 \<and>
     \<not> list_ex (\<lambda>c. code_of c \<in> set [32, 9, 13, 10, 47, 92]) v \<and> list_all hostname_label (split_on (CHR ''.'') v)"

definition validSecret :: "string \<Rightarrow> bool" where
  "validSecret v = (case base64_std v of None \<Rightarrow> False | Some k \<Rightarrow> 16 \<le> length k \<and> length k \<le> 4096)"

definition validEd25519Key :: "string \<Rightarrow> bool" where
  "validEd25519Key v = (case base64_std v of None \<Rightarrow> False | Some k \<Rightarrow> length k = 32)"

definition validateUniqueValues :: "string list \<Rightarrow> (string \<Rightarrow> bool) \<Rightarrow> bool" where
  "validateUniqueValues vs format \<longleftrightarrow> list_all format vs \<and> distinct vs"

definition isJSON :: "string \<Rightarrow> bool" where
  "isJSON contentType \<longleftrightarrow> to_lower (trim_space (hd (split_on (CHR '';'') contentType))) = ''application/json''"

subsection \<open>Website enrollment\<close>

record node_claim =
  nc_NodeRef :: string
  nc_PVEVersion :: string

record enroll_request =
  eq_SchemaVersion :: int
  eq_RequestID :: string
  eq_BindingCode :: string
  eq_DeviceID :: string
  eq_AgentVersion :: string
  eq_Hostname :: string
  eq_NodeClaim :: node_claim
  eq_Capabilities :: "string list"

record endpoints =
  ep_Metering :: string
  ep_Telemetry :: string
  ep_Assignments :: string
  ep_Commands :: string
  ep_Receipts :: string

record hmac_credential =
  hc_KeyID :: string
  hc_Secret :: string

record hmac_credentials =
  hs_Metering :: hmac_credential
  hs_Telemetry :: hmac_credential
  hs_Assignments :: hmac_credential
  hs_Commands :: hmac_credential
  hs_Receipts :: hmac_credential

record signing_credential =
  sg_KeyID :: string
  sg_Algorithm :: string
  sg_PublicKey :: string

record enroll_response =
  er_SchemaVersion :: int
  er_BindingID :: string
  er_DeviceID :: string
  er_AgentRef :: string
  er_CollectorRef :: string
  er_SourceRef :: string
  er_ClusterRef :: string
  er_NodeRef :: string
  er_Site :: string
  er_Endpoints :: endpoints
  er_HMACCredentials :: hmac_credentials
  er_CommandSigningCredential :: signing_credential
  er_AllowedActions :: "string list"
  er_AssignmentDocument :: bytes
  er_AgentObservedIPv4 :: string
  er_CredentialEpoch :: u64
  er_IssuedAt :: gotime

record monitor_credential =
  mc_Algorithm :: string
  mc_KeyID :: string
  mc_SecretEncoding :: string
  mc_Secret :: string

record telemetry_contract =
  tc_PayloadFormat :: string
  tc_Compression :: string
  tc_MaxCompressedBytes :: int
  tc_MaxUncompressedBytes :: int

record monitor_response =
  mr_SchemaVersion :: int
  mr_BindingID :: string
  mr_DeviceID :: string
  mr_MonitoringAgentRef :: string
  mr_IngestEndpoint :: string
  mr_HMACCredential :: monitor_credential
  mr_Telemetry :: telemetry_contract
  mr_AgentObservedIPv4 :: string
  mr_CredentialEpoch :: u64
  mr_IssuedAt :: gotime

text \<open>
  \<open>el_object\<close>: \<open>None\<close> for bytes that are no JSON value, otherwise whether the value is an object;
  \<open>el_url_string\<close> prints a URL.
\<close>

record enroll_lib = web_lib +
  el_object :: "bytes \<Rightarrow> bool option"
  el_marshal :: "enroll_request \<Rightarrow> bytes option"
  el_response :: "bytes \<Rightarrow> enroll_response option"
  el_monitor_response :: "bytes \<Rightarrow> monitor_response option"
  el_rejection :: "bytes \<Rightarrow> (string \<times> string) option"
  el_url_string :: "url \<Rightarrow> string"

definition MaxRequestBytes :: nat where
  "MaxRequestBytes = 64 * 2 ^ 10"

definition MaxResponseBytes :: nat where
  "MaxResponseBytes = 2 ^ 20"

definition request_fields_ok :: "nat \<Rightarrow> enroll_request \<Rightarrow> bool" where
  "request_fields_ok most r \<longleftrightarrow>
     eq_SchemaVersion r = 1 \<and> uuidValue (eq_RequestID r) \<and> bindingCode (eq_BindingCode r) \<and> safeID (eq_DeviceID r) \<and>
     versionValue (eq_AgentVersion r) \<and> validHostname (eq_Hostname r) \<and> safeID (nc_NodeRef (eq_NodeClaim r)) \<and>
     versionValue (nc_PVEVersion (eq_NodeClaim r)) \<and> eq_Capabilities r \<noteq> [] \<and> length (eq_Capabilities r) \<le> most \<and>
     validateUniqueValues (eq_Capabilities r) versionValue"

definition Request_Validate :: "enroll_request \<Rightarrow> bool" where
  "Request_Validate r \<longleftrightarrow> request_fields_ok 64 r"

definition Monitor_Request_Validate :: "enroll_request \<Rightarrow> bool" where
  "Monitor_Request_Validate r \<longleftrightarrow> request_fields_ok 32 r"

definition endpoint_list :: "endpoints \<Rightarrow> string list" where
  "endpoint_list e = [ep_Metering e, ep_Telemetry e, ep_Assignments e, ep_Commands e, ep_Receipts e]"

definition credential_list :: "hmac_credentials \<Rightarrow> hmac_credential list" where
  "credential_list h = [hs_Metering h, hs_Telemetry h, hs_Assignments h, hs_Commands h, hs_Receipts h]"

definition safe_endpoint :: "web_lib \<Rightarrow> url \<Rightarrow> string \<Rightarrow> bool" where
  "safe_endpoint lib bound e = (case parseSecureURL lib e of None \<Rightarrow> False | Some u \<Rightarrow> sameOrigin bound u)"

definition signing_ok :: "signing_credential \<Rightarrow> bool" where
  "signing_ok g \<longleftrightarrow> safeID (sg_KeyID g) \<and> sg_Algorithm g = ''ed25519'' \<and> validEd25519Key (sg_PublicKey g)"

definition Response_Validate :: "enroll_lib \<Rightarrow> enroll_response \<Rightarrow> url \<Rightarrow> bool" where
  "Response_Validate lib r bound \<longleftrightarrow>
     er_SchemaVersion r = 1 \<and> uuidValue (er_BindingID r) \<and>
     list_all safeID [er_DeviceID r, er_AgentRef r, er_CollectorRef r, er_SourceRef r, er_ClusterRef r, er_NodeRef r, er_Site r] \<and>
     er_CredentialEpoch r \<noteq> 0 \<and> \<not> is_zero_time (er_IssuedAt r) \<and> er_AssignmentDocument r \<noteq> [] \<and>
     canonicalIPv4 (web_lib.truncate lib) (er_AgentObservedIPv4 r) \<and> el_object lib (er_AssignmentDocument r) = Some True \<and>
     list_all (safe_endpoint (web_lib.truncate lib) bound) (endpoint_list (er_Endpoints r)) \<and>
     list_all (\<lambda>h. safeID (hc_KeyID h) \<and> validSecret (hc_Secret h)) (credential_list (er_HMACCredentials r)) \<and>
     signing_ok (er_CommandSigningCredential r) \<and>
     er_AllowedActions r \<noteq> [] \<and> length (er_AllowedActions r) \<le> 64 \<and> validateUniqueValues (er_AllowedActions r) actionValue"

datatype bind_error = BindError string | Rejection string int

datatype bind_exchange = BindFailed | BindReadFailed | BindAnswer int string bytes

definition parseDefinitiveRejection :: "enroll_lib \<Rightarrow> int \<Rightarrow> string \<Rightarrow> bytes \<Rightarrow> bind_error option" where
  "parseDefinitiveRejection lib status contentType body =
     (if \<not> isJSON contentType \<or> body = [] \<or> length body > MaxResponseBytes then None
      else case el_rejection lib body of
        None \<Rightarrow> None
      | Some (code, message) \<Rightarrow>
          if is_blank message \<or> length message > 1024 then None
          else if status = 409 \<and> code = ''binding_already_active'' \<or> status = 401 \<and> code = ''invalid_enrollment_code''
          then Some (Rejection code status) else None)"

text \<open>\<open>Bind\<close>, with the body it sent, if any.\<close>

definition Bind :: "enroll_lib \<Rightarrow> url \<Rightarrow> enroll_request \<Rightarrow> bind_exchange \<Rightarrow> (bind_error + enroll_response) \<times> bytes option" where
  "Bind lib endpoint request x =
     (if \<not> Request_Validate request then (Inl (BindError ''invalid binding request''), None)
      else case el_marshal lib request of
        None \<Rightarrow> (Inl (BindError ''binding request is invalid or too large''), None)
      | Some sent \<Rightarrow>
          if length sent > MaxRequestBytes then (Inl (BindError ''binding request is invalid or too large''), None)
          else ((case x of
             BindFailed \<Rightarrow> Inl (BindError ''binding request failed'')
           | BindReadFailed \<Rightarrow> Inl (BindError ''read binding response'')
           | BindAnswer status contentType full \<Rightarrow>
               let body = take (Suc MaxResponseBytes) full in
               if length body > MaxResponseBytes then Inl (BindError ''binding response exceeds maximum size'')
               else if status < 200 \<or> status \<ge> 300 then
                 (case parseDefinitiveRejection lib status contentType body of
                    Some e \<Rightarrow> Inl e | None \<Rightarrow> Inl (BindError ''binding response outcome is unknown''))
               else if \<not> isJSON contentType then Inl (BindError ''binding response must be application/json'')
               else (case el_response lib body of
                       None \<Rightarrow> Inl (BindError ''binding response is not a valid JSON object'')
                     | Some r \<Rightarrow>
                         if \<not> Response_Validate lib r endpoint then Inl (BindError ''invalid binding response'')
                         else if er_DeviceID r \<noteq> eq_DeviceID request
                         then Inl (BindError ''binding response device does not match request'')
                         else Inr r)), Some sent))"

subsection \<open>Monitoring enrollment\<close>

definition TelemetryPath :: string where
  "TelemetryPath = ''/internal/v1/monitoring/telemetry/batches''"

definition AuditPath :: string where
  "AuditPath = ''/internal/v1/monitoring/audit-events/batches''"

text \<open>\<open>RawPath\<close> is empty exactly when the escaped path is the default encoding of the path.\<close>

definition AuditEndpoint :: "enroll_lib \<Rightarrow> string \<Rightarrow> string option" where
  "AuditEndpoint lib telemetryEndpoint =
     (case parseSecureURL (web_lib.truncate lib) telemetryEndpoint of
        None \<Rightarrow> None
      | Some u \<Rightarrow>
          if u_Path u \<noteq> TelemetryPath \<or> u_EscapedPath u \<noteq> TelemetryPath then None
          else Some (el_url_string lib (u\<lparr>u_Path := AuditPath, u_EscapedPath := AuditPath\<rparr>)))"

definition contract_ok :: "telemetry_contract \<Rightarrow> bool" where
  "contract_ok t \<longleftrightarrow>
     tc_PayloadFormat t = ''telemetry-v1'' \<and> (tc_Compression t = ''none'' \<or> tc_Compression t = ''gzip'') \<and>
     2 ^ 20 \<le> tc_MaxCompressedBytes t \<and> tc_MaxCompressedBytes t \<le> 64 * 2 ^ 20 \<and>
     tc_MaxCompressedBytes t \<le> tc_MaxUncompressedBytes t \<and> tc_MaxUncompressedBytes t \<le> 256 * 2 ^ 20"

definition Monitor_Response_Validate :: "enroll_lib \<Rightarrow> monitor_response \<Rightarrow> url \<Rightarrow> bool" where
  "Monitor_Response_Validate lib r bound \<longleftrightarrow>
     mr_SchemaVersion r = 1 \<and> uuidValue (mr_BindingID r) \<and> safeID (mr_DeviceID r) \<and> safeID (mr_MonitoringAgentRef r) \<and>
     mr_CredentialEpoch r \<noteq> 0 \<and> \<not> is_zero_time (mr_IssuedAt r) \<and>
     canonicalIPv4 (web_lib.truncate lib) (mr_AgentObservedIPv4 r) \<and>
     safe_endpoint (web_lib.truncate lib) bound (mr_IngestEndpoint r) \<and> AuditEndpoint lib (mr_IngestEndpoint r) \<noteq> None \<and>
     mc_Algorithm (mr_HMACCredential r) = ''hmac-sha256'' \<and> mc_SecretEncoding (mr_HMACCredential r) = ''base64'' \<and>
     safeID (mc_KeyID (mr_HMACCredential r)) \<and> validSecret (mc_Secret (mr_HMACCredential r)) \<and> contract_ok (mr_Telemetry r)"

definition Monitor_Bind :: "enroll_lib \<Rightarrow> url \<Rightarrow> enroll_request \<Rightarrow> bind_exchange \<Rightarrow> (bind_error + monitor_response) \<times> bytes option" where
  "Monitor_Bind lib endpoint request x =
     (case (if Monitor_Request_Validate request then el_marshal lib request else None) of
        None \<Rightarrow> (Inl (BindError ''invalid monitoring binding request''), None)
      | Some sent \<Rightarrow>
          if length sent > MaxRequestBytes then (Inl (BindError ''invalid monitoring binding request''), None)
          else ((case x of
             BindFailed \<Rightarrow> Inl (BindError ''monitoring binding request failed'')
           | BindReadFailed \<Rightarrow> Inl (BindError ''invalid monitoring binding response'')
           | BindAnswer status contentType full \<Rightarrow>
               let body = take (Suc MaxResponseBytes) full in
               if length body > MaxResponseBytes then Inl (BindError ''invalid monitoring binding response'')
               else if status < 200 \<or> status \<ge> 300 then Inl (BindError ''monitoring binding response outcome is unknown'')
               else if \<not> isJSON contentType then Inl (BindError ''monitoring binding response must be application/json'')
               else (case el_monitor_response lib body of
                       None \<Rightarrow> Inl (BindError ''invalid monitoring binding response'')
                     | Some r \<Rightarrow>
                         if \<not> Monitor_Response_Validate lib r endpoint \<or> mr_DeviceID r \<noteq> eq_DeviceID request
                         then Inl (BindError ''invalid monitoring binding response'') else Inr r)), Some sent))"

end
