(* ===== verification/Binding_State.thy ===== *)
theory Binding_State
  imports Enrollment Durable_File Protocol
begin

section \<open>The private binding files (\<open>internal/bindstate\<close>)\<close>

text \<open>
  The bindings directory: the state issued by the website and by the monitoring service, the
  device identifier, the pending enrollment requests, the commit markers of bindings and the
  journals of removals.  A file is absent, irregular (a link or no regular file), exposed (regular
  with unsafe permissions), garbled (safe, but not one valid JSON object of its type) or holds a
  value.  The repair of ownership and modes in the installed directory is not modelled.
\<close>

datatype 'a pfile = Absent | Irregular | Exposed | Garbled | Holds 'a

text \<open>\<open>readPrivateFile\<close> with the decoder: \<open>Inr None\<close> is \<open>os.ErrNotExist\<close>.\<close>

fun read_private :: "'a pfile \<Rightarrow> string + 'a option" where
  "read_private Absent = Inr None"
| "read_private Irregular = Inl ''private file is not a regular file''"
| "read_private Exposed = Inl ''binding state file must be owner-readable and at most group-readable''"
| "read_private Garbled = Inl ''decode private file''"
| "read_private (Holds v) = Inr (Some v)"

text \<open>\<open>writePrivateAtomic\<close> refuses an irregular or exposed file in its place.\<close>

fun write_private :: "io \<Rightarrow> 'a \<Rightarrow> 'a pfile \<Rightarrow> bool \<times> 'a pfile" where
  "write_private oc v Irregular = (False, Irregular)"
| "write_private oc v Exposed = (False, Exposed)"
| "write_private IoOk v f = (True, Holds v)"
| "write_private IoFail v f = (False, f)"
| "write_private IoLate v f = (False, Holds v)"

text \<open>
  \<open>writePrivateExclusive\<close> creates the file once.  After the name is reserved a failure leaves a
  partial file or, when only the final syncs fail, the complete one.
\<close>

datatype excl = ExclOk | ExclNotCreated | ExclPartial | ExclUnsynced

fun write_exclusive :: "excl \<Rightarrow> 'a \<Rightarrow> 'a pfile \<Rightarrow> bool \<times> 'a pfile" where
  "write_exclusive ExclOk v Absent = (True, Holds v)"
| "write_exclusive ExclNotCreated v Absent = (False, Absent)"
| "write_exclusive ExclPartial v Absent = (False, Garbled)"
| "write_exclusive ExclUnsynced v Absent = (False, Holds v)"
| "write_exclusive oc v f = (False, f)"

text \<open>Removal of a regular file followed by a sync of the directory.\<close>

fun remove_private :: "io \<Rightarrow> 'a pfile \<Rightarrow> bool \<times> 'a pfile" where
  "remove_private oc Absent = (True, Absent)"
| "remove_private oc Irregular = (False, Irregular)"
| "remove_private IoOk f = (True, Absent)"
| "remove_private IoFail f = (False, f)"
| "remove_private IoLate f = (False, Absent)"

subsection \<open>Data\<close>

record public_identity =
  pi_AgentRef :: string
  pi_CollectorRef :: string
  pi_SourceRef :: string
  pi_ClusterRef :: string
  pi_NodeRef :: string
  pi_Site :: string

record binding_state =
  bs_SchemaVersion :: int
  bs_BindingEndpoint :: string
  bs_BindingID :: string
  bs_DeviceID :: string
  bs_CredentialEpoch :: u64
  bs_IssuedAt :: gotime
  bs_Identity :: public_identity
  bs_Endpoints :: endpoints
  bs_HMACCredentials :: hmac_credentials
  bs_CommandSigningCredential :: signing_credential
  bs_AllowedActions :: "string list"
  bs_AssignmentDocument :: bytes
  bs_AgentObservedIPv4 :: string

record monitoring_state =
  ms_SchemaVersion :: int
  ms_BindingEndpoint :: string
  ms_BindingID :: string
  ms_DeviceID :: string
  ms_MonitoringAgentRef :: string
  ms_IngestEndpoint :: string
  ms_HMACCredential :: monitor_credential
  ms_Telemetry :: telemetry_contract
  ms_AgentObservedIPv4 :: string
  ms_CredentialEpoch :: u64
  ms_IssuedAt :: gotime

record binding_commit =
  cm_SchemaVersion :: int
  cm_BindingID :: string
  cm_CredentialEpoch :: u64

record request_template =
  rt_SchemaVersion :: int
  rt_Domain :: string
  rt_Endpoint :: string
  rt_DeviceID :: string
  rt_AgentVersion :: string
  rt_Hostname :: string
  rt_NodeClaim :: node_claim
  rt_Capabilities :: "string list"

record pending_request =
  pq_SchemaVersion :: int
  pq_Kind :: string
  pq_RequestID :: string
  pq_Fingerprint :: string
  pq_Template :: request_template
  pq_CreatedAt :: gotime

datatype domain = Website | Monitoring

fun domain_name :: "domain \<Rightarrow> string" where
  "domain_name Website = ''website''"
| "domain_name Monitoring = ''monitoring''"

record unbind_commit =
  ub_SchemaVersion :: int
  ub_Domain :: string
  ub_BindingID :: string
  ub_CredentialEpoch :: u64
  ub_StateBackup :: string

record bindings =
  bd_state :: "binding_state pfile"
  bd_monitoring :: "monitoring_state pfile"
  bd_device :: "string pfile"
  bd_commit :: "domain \<Rightarrow> binding_commit pfile"
  bd_unbind :: "domain \<Rightarrow> unbind_commit pfile"
  bd_pending :: "domain \<Rightarrow> pending_request pfile"
  bd_backups :: "string \<Rightarrow> binding_state pfile"
  bd_monitoring_backups :: "string \<Rightarrow> monitoring_state pfile"

definition bindSchemaVersion :: int where
  "bindSchemaVersion = 1"

subsection \<open>The website state\<close>

definition FromResponse :: "string \<Rightarrow> string \<Rightarrow> enroll_response \<Rightarrow> binding_state" where
  "FromResponse bindingEndpoint deviceID r =
     \<lparr>bs_SchemaVersion = bindSchemaVersion, bs_BindingEndpoint = bindingEndpoint, bs_BindingID = er_BindingID r,
      bs_DeviceID = deviceID, bs_CredentialEpoch = er_CredentialEpoch r, bs_IssuedAt = er_IssuedAt r,
      bs_Identity = \<lparr>pi_AgentRef = er_AgentRef r, pi_CollectorRef = er_CollectorRef r, pi_SourceRef = er_SourceRef r,
        pi_ClusterRef = er_ClusterRef r, pi_NodeRef = er_NodeRef r, pi_Site = er_Site r\<rparr>,
      bs_Endpoints = er_Endpoints r, bs_HMACCredentials = er_HMACCredentials r,
      bs_CommandSigningCredential = er_CommandSigningCredential r, bs_AllowedActions = er_AllowedActions r,
      bs_AssignmentDocument = er_AssignmentDocument r, bs_AgentObservedIPv4 = er_AgentObservedIPv4 r\<rparr>"

definition State_Response :: "binding_state \<Rightarrow> enroll_response" where
  "State_Response s =
     \<lparr>er_SchemaVersion = 1, er_BindingID = bs_BindingID s, er_DeviceID = bs_DeviceID s,
      er_AgentRef = pi_AgentRef (bs_Identity s), er_CollectorRef = pi_CollectorRef (bs_Identity s),
      er_SourceRef = pi_SourceRef (bs_Identity s), er_ClusterRef = pi_ClusterRef (bs_Identity s),
      er_NodeRef = pi_NodeRef (bs_Identity s), er_Site = pi_Site (bs_Identity s),
      er_Endpoints = bs_Endpoints s, er_HMACCredentials = bs_HMACCredentials s,
      er_CommandSigningCredential = bs_CommandSigningCredential s, er_AllowedActions = bs_AllowedActions s,
      er_AssignmentDocument = bs_AssignmentDocument s, er_AgentObservedIPv4 = bs_AgentObservedIPv4 s,
      er_CredentialEpoch = bs_CredentialEpoch s, er_IssuedAt = bs_IssuedAt s\<rparr>"

text \<open>\<open>enrollment.NewClient\<close> accepts the endpoint exactly when it parses as a secure URL.\<close>

definition State_Validate :: "enroll_lib \<Rightarrow> binding_state \<Rightarrow> bool" where
  "State_Validate lib s \<longleftrightarrow>
     bs_SchemaVersion s = bindSchemaVersion \<and> safeID (bs_DeviceID s) \<and>
     (case parseSecureURL (web_lib.truncate lib) (bs_BindingEndpoint s) of
        None \<Rightarrow> False | Some u \<Rightarrow> Response_Validate lib (State_Response s) u)"

definition Load_binding :: "enroll_lib \<Rightarrow> bindings \<Rightarrow> string + binding_state option" where
  "Load_binding lib b =
     (case read_private (bd_state b) of
        Inl e \<Rightarrow> Inl e
      | Inr None \<Rightarrow> Inr None
      | Inr (Some s) \<Rightarrow> if State_Validate lib s then Inr (Some s) else Inl ''invalid binding state'')"

definition Save_binding :: "enroll_lib \<Rightarrow> io \<Rightarrow> binding_state \<Rightarrow> bindings \<Rightarrow> string option \<times> bindings" where
  "Save_binding lib oc s b =
     (if \<not> State_Validate lib s then (Some ''invalid binding state'', b)
      else case write_private oc s (bd_state b) of
        (ok, f) \<Rightarrow> (if ok then None else Some ''write binding state'', b\<lparr>bd_state := f\<rparr>))"

text \<open>The backup's name carries the time; \<open>Inr []\<close> means that there was no state to save.\<close>

definition BackupWebsite :: "enroll_lib \<Rightarrow> io \<Rightarrow> string \<Rightarrow> bindings \<Rightarrow> (string + string) \<times> bindings" where
  "BackupWebsite lib oc stamp b =
     (case Load_binding lib b of
        Inl e \<Rightarrow> (Inl e, b)
      | Inr None \<Rightarrow> (Inr [], b)
      | Inr (Some s) \<Rightarrow>
          let name = ''binding-state.backup.'' @ stamp @ ''.json'' in
          (case write_private oc s (bd_backups b name) of
             (ok, f) \<Rightarrow> (if ok then Inr name else Inl ''write binding backup'', b\<lparr>bd_backups := (bd_backups b)(name := f)\<rparr>)))"

definition RemoveWebsite :: "io \<Rightarrow> bindings \<Rightarrow> string option \<times> bindings" where
  "RemoveWebsite oc b =
     (case remove_private oc (bd_state b) of
        (ok, f) \<Rightarrow> (if ok then None else Some ''remove binding state'', b\<lparr>bd_state := f\<rparr>))"

definition website_backup_name :: "string \<Rightarrow> bool" where
  "website_backup_name name \<longleftrightarrow> has_prefix ''binding-state.backup.'' name \<and> has_suffix ''.json'' name"

definition RestoreWebsite :: "enroll_lib \<Rightarrow> io \<Rightarrow> string \<Rightarrow> bindings \<Rightarrow> string option \<times> bindings" where
  "RestoreWebsite lib oc backup b =
     (if backup = [] then RemoveWebsite oc b
      else if \<not> website_backup_name backup then (Some ''website binding backup path is invalid'', b)
      else case read_private (bd_backups b backup) of
        Inl e \<Rightarrow> (Some e, b)
      | Inr None \<Rightarrow> (Some ''website binding backup does not exist'', b)
      | Inr (Some s) \<Rightarrow>
          if \<not> State_Validate lib s then (Some ''invalid binding state'', b) else Save_binding lib oc s b)"

definition DiscardWebsiteBackup :: "io \<Rightarrow> string \<Rightarrow> bindings \<Rightarrow> string option \<times> bindings" where
  "DiscardWebsiteBackup oc backup b =
     (if backup = [] then (None, b)
      else if \<not> website_backup_name backup then (Some ''website binding backup path is invalid'', b)
      else if bd_backups b backup = Absent then (Some ''website binding backup does not exist'', b)
      else case remove_private oc (bd_backups b backup) of
        (ok, f) \<Rightarrow> (if ok then None else Some ''remove binding backup'', b\<lparr>bd_backups := (bd_backups b)(backup := f)\<rparr>))"

subsection \<open>The monitoring state\<close>

definition MonitoringFromResponse :: "string \<Rightarrow> string \<Rightarrow> monitor_response \<Rightarrow> monitoring_state" where
  "MonitoringFromResponse bindingEndpoint deviceID r =
     \<lparr>ms_SchemaVersion = bindSchemaVersion, ms_BindingEndpoint = bindingEndpoint, ms_BindingID = mr_BindingID r,
      ms_DeviceID = deviceID, ms_MonitoringAgentRef = mr_MonitoringAgentRef r, ms_IngestEndpoint = mr_IngestEndpoint r,
      ms_HMACCredential = mr_HMACCredential r, ms_Telemetry = mr_Telemetry r,
      ms_AgentObservedIPv4 = mr_AgentObservedIPv4 r, ms_CredentialEpoch = mr_CredentialEpoch r, ms_IssuedAt = mr_IssuedAt r\<rparr>"

definition Monitoring_Response :: "monitoring_state \<Rightarrow> monitor_response" where
  "Monitoring_Response s =
     \<lparr>mr_SchemaVersion = 1, mr_BindingID = ms_BindingID s, mr_DeviceID = ms_DeviceID s,
      mr_MonitoringAgentRef = ms_MonitoringAgentRef s, mr_IngestEndpoint = ms_IngestEndpoint s,
      mr_HMACCredential = ms_HMACCredential s, mr_Telemetry = ms_Telemetry s,
      mr_AgentObservedIPv4 = ms_AgentObservedIPv4 s, mr_CredentialEpoch = ms_CredentialEpoch s, mr_IssuedAt = ms_IssuedAt s\<rparr>"

definition Monitoring_Validate :: "enroll_lib \<Rightarrow> monitoring_state \<Rightarrow> bool" where
  "Monitoring_Validate lib s \<longleftrightarrow>
     ms_SchemaVersion s = bindSchemaVersion \<and> safeID (ms_DeviceID s) \<and>
     (case parseSecureURL (web_lib.truncate lib) (ms_BindingEndpoint s) of
        None \<Rightarrow> False | Some u \<Rightarrow> Monitor_Response_Validate lib (Monitoring_Response s) u)"

definition LoadMonitoring :: "enroll_lib \<Rightarrow> bindings \<Rightarrow> string + monitoring_state option" where
  "LoadMonitoring lib b =
     (case read_private (bd_monitoring b) of
        Inl e \<Rightarrow> Inl e
      | Inr None \<Rightarrow> Inr None
      | Inr (Some s) \<Rightarrow> if Monitoring_Validate lib s then Inr (Some s) else Inl ''invalid monitoring binding state'')"

definition SaveMonitoring :: "enroll_lib \<Rightarrow> io \<Rightarrow> monitoring_state \<Rightarrow> bindings \<Rightarrow> string option \<times> bindings" where
  "SaveMonitoring lib oc s b =
     (if \<not> Monitoring_Validate lib s then (Some ''invalid monitoring binding state'', b)
      else case write_private oc s (bd_monitoring b) of
        (ok, f) \<Rightarrow> (if ok then None else Some ''write monitoring binding state'', b\<lparr>bd_monitoring := f\<rparr>))"

definition BackupMonitoring :: "enroll_lib \<Rightarrow> io \<Rightarrow> string \<Rightarrow> bindings \<Rightarrow> (string + string) \<times> bindings" where
  "BackupMonitoring lib oc stamp b =
     (case LoadMonitoring lib b of
        Inl e \<Rightarrow> (Inl e, b)
      | Inr None \<Rightarrow> (Inr [], b)
      | Inr (Some s) \<Rightarrow>
          let name = ''monitoring-binding-state.backup.'' @ stamp @ ''.json'' in
          (case write_private oc s (bd_monitoring_backups b name) of
             (ok, f) \<Rightarrow> (if ok then Inr name else Inl ''write monitoring binding backup'',
                b\<lparr>bd_monitoring_backups := (bd_monitoring_backups b)(name := f)\<rparr>)))"

definition RemoveMonitoring :: "io \<Rightarrow> bindings \<Rightarrow> string option \<times> bindings" where
  "RemoveMonitoring oc b =
     (case remove_private oc (bd_monitoring b) of
        (ok, f) \<Rightarrow> (if ok then None else Some ''remove monitoring binding state'', b\<lparr>bd_monitoring := f\<rparr>))"

definition monitoring_backup_name :: "string \<Rightarrow> bool" where
  "monitoring_backup_name name \<longleftrightarrow> has_prefix ''monitoring-binding-state.backup.'' name \<and> has_suffix ''.json'' name"

definition RestoreMonitoring :: "enroll_lib \<Rightarrow> io \<Rightarrow> string \<Rightarrow> bindings \<Rightarrow> string option \<times> bindings" where
  "RestoreMonitoring lib oc backup b =
     (if backup = [] then RemoveMonitoring oc b
      else if \<not> monitoring_backup_name backup then (Some ''monitoring binding backup path is invalid'', b)
      else case read_private (bd_monitoring_backups b backup) of
        Inl e \<Rightarrow> (Some e, b)
      | Inr None \<Rightarrow> (Some ''monitoring binding backup does not exist'', b)
      | Inr (Some s) \<Rightarrow>
          if \<not> Monitoring_Validate lib s then (Some ''invalid monitoring binding state'', b) else SaveMonitoring lib oc s b)"

definition DiscardMonitoringBackup :: "io \<Rightarrow> string \<Rightarrow> bindings \<Rightarrow> string option \<times> bindings" where
  "DiscardMonitoringBackup oc backup b =
     (if backup = [] then (None, b)
      else if \<not> monitoring_backup_name backup then (Some ''monitoring binding backup path is invalid'', b)
      else if bd_monitoring_backups b backup = Absent then (Some ''monitoring binding backup does not exist'', b)
      else case remove_private oc (bd_monitoring_backups b backup) of
        (ok, f) \<Rightarrow> (if ok then None else Some ''remove binding backup'',
          b\<lparr>bd_monitoring_backups := (bd_monitoring_backups b)(backup := f)\<rparr>))"

subsection \<open>Commit markers\<close>

definition validCommitMarker :: "binding_commit \<Rightarrow> bool" where
  "validCommitMarker m \<longleftrightarrow> cm_SchemaVersion m = bindSchemaVersion \<and> uuidValue (cm_BindingID m) \<and> cm_CredentialEpoch m \<noteq> 0"

definition readCommit :: "domain \<Rightarrow> bindings \<Rightarrow> string + binding_commit option" where
  "readCommit d b =
     (case read_private (bd_commit b d) of
        Inl e \<Rightarrow> Inl e
      | Inr None \<Rightarrow> Inr None
      | Inr (Some m) \<Rightarrow>
          if validCommitMarker m then Inr (Some m) else Inl (''invalid '' @ domain_name d @ '' binding commit marker''))"

definition beginCommit :: "excl \<Rightarrow> domain \<Rightarrow> string \<Rightarrow> u64 \<Rightarrow> bindings \<Rightarrow> string option \<times> bindings" where
  "beginCommit oc d bindingID epoch b =
     (let marker = \<lparr>cm_SchemaVersion = bindSchemaVersion, cm_BindingID = bindingID, cm_CredentialEpoch = epoch\<rparr> in
      if \<not> validCommitMarker marker then (Some (''invalid '' @ domain_name d @ '' binding commit marker''), b)
      else case readCommit d b of
        Inl e \<Rightarrow> (Some e, b)
      | Inr (Some _) \<Rightarrow> (Some (domain_name d @ '' binding commit marker already exists''), b)
      | Inr None \<Rightarrow>
          (case write_exclusive oc marker (bd_commit b d) of
             (ok, f) \<Rightarrow> (if ok then None else Some ''write binding commit marker'', b\<lparr>bd_commit := (bd_commit b)(d := f)\<rparr>)))"

definition finishCommit :: "io \<Rightarrow> domain \<Rightarrow> bindings \<Rightarrow> string option \<times> bindings" where
  "finishCommit oc d b =
     (case readCommit d b of
        Inl e \<Rightarrow> (Some e, b)
      | Inr None \<Rightarrow> (None, b)
      | Inr (Some _) \<Rightarrow>
          (case remove_private oc (bd_commit b d) of
             (ok, f) \<Rightarrow> (if ok then None else Some ''remove binding commit marker'', b\<lparr>bd_commit := (bd_commit b)(d := f)\<rparr>)))"

subsection \<open>Removal journals\<close>

text \<open>The name of a backup is a base name; \<open>strings.ContainsAny(base, "/\\\\")\<close> excludes separators.\<close>

definition unbind_prefix :: "string \<Rightarrow> string" where
  "unbind_prefix name = (if name = ''monitoring'' then ''monitoring-binding-state.backup.'' else ''binding-state.backup.'')"

definition validUnbindCommit :: "unbind_commit \<Rightarrow> bool" where
  "validUnbindCommit m \<longleftrightarrow>
     ub_SchemaVersion m = 1 \<and> (ub_Domain m = ''website'' \<or> ub_Domain m = ''monitoring'') \<and> uuidValue (ub_BindingID m) \<and>
     ub_CredentialEpoch m \<noteq> 0 \<and> ub_StateBackup m \<noteq> [] \<and> \<not> list_ex (\<lambda>c. code_of c = 47 \<or> code_of c = 92) (ub_StateBackup m) \<and>
     has_prefix (unbind_prefix (ub_Domain m)) (ub_StateBackup m) \<and> has_suffix ''.json'' (ub_StateBackup m) \<and>
     length (ub_StateBackup m) < 256"

definition readUnbind :: "domain \<Rightarrow> bindings \<Rightarrow> string + unbind_commit option" where
  "readUnbind d b =
     (case read_private (bd_unbind b d) of
        Inl e \<Rightarrow> Inl e
      | Inr None \<Rightarrow> Inr None
      | Inr (Some m) \<Rightarrow>
          if validUnbindCommit m \<and> ub_Domain m = domain_name d then Inr (Some m)
          else Inl (''invalid '' @ domain_name d @ '' binding removal transaction''))"

definition BeginWebsiteUnbind :: "enroll_lib \<Rightarrow> io \<Rightarrow> excl \<Rightarrow> io \<Rightarrow> string \<Rightarrow> binding_state \<Rightarrow> bindings \<Rightarrow>
    (string + unbind_commit) \<times> bindings" where
  "BeginWebsiteUnbind lib oc1 oc2 oc3 stamp s b =
     (if \<not> State_Validate lib s then (Inl ''invalid website binding state for unbind'', b)
      else case readUnbind Website b of
        Inl e \<Rightarrow> (Inl e, b)
      | Inr (Some _) \<Rightarrow> (Inl ''website binding removal transaction already exists'', b)
      | Inr None \<Rightarrow>
          (case BackupWebsite lib oc1 stamp b of
             (Inl e, b1) \<Rightarrow> (Inl ''create private binding rollback backup'', b1)
           | (Inr [], b1) \<Rightarrow> (Inl ''create private binding rollback backup'', b1)
           | (Inr name, b1) \<Rightarrow>
               let m = \<lparr>ub_SchemaVersion = 1, ub_Domain = ''website'', ub_BindingID = bs_BindingID s,
                        ub_CredentialEpoch = bs_CredentialEpoch s, ub_StateBackup = name\<rparr> in
               if \<not> validUnbindCommit m
               then (Inl ''invalid binding removal transaction'', snd (DiscardWebsiteBackup oc3 name b1))
               else (case write_exclusive oc2 m (bd_unbind b1 Website) of
                       (True, f) \<Rightarrow> (Inr m, b1\<lparr>bd_unbind := (bd_unbind b1)(Website := f)\<rparr>)
                     | (False, f) \<Rightarrow>
                         (Inl ''write binding removal transaction'',
                          snd (DiscardWebsiteBackup oc3 name (b1\<lparr>bd_unbind := (bd_unbind b1)(Website := f)\<rparr>))))))"

definition RestoreWebsiteUnbind :: "enroll_lib \<Rightarrow> io \<Rightarrow> unbind_commit \<Rightarrow> bindings \<Rightarrow> string option \<times> bindings" where
  "RestoreWebsiteUnbind lib oc m b =
     (if \<not> validUnbindCommit m \<or> ub_Domain m \<noteq> ''website'' then (Some ''invalid website binding removal transaction'', b)
      else RestoreWebsite lib oc (ub_StateBackup m) b)"

text \<open>A backup that is already gone counts as discarded.\<close>

definition DiscardWebsiteUnbindBackup :: "io \<Rightarrow> unbind_commit \<Rightarrow> bindings \<Rightarrow> string option \<times> bindings" where
  "DiscardWebsiteUnbindBackup oc m b =
     (if \<not> validUnbindCommit m \<or> ub_Domain m \<noteq> ''website'' then (Some ''invalid website binding removal transaction'', b)
      else if bd_backups b (ub_StateBackup m) = Absent then (None, b)
      else DiscardWebsiteBackup oc (ub_StateBackup m) b)"

definition BeginMonitoringUnbind :: "enroll_lib \<Rightarrow> io \<Rightarrow> excl \<Rightarrow> io \<Rightarrow> string \<Rightarrow> monitoring_state \<Rightarrow> bindings \<Rightarrow>
    (string + unbind_commit) \<times> bindings" where
  "BeginMonitoringUnbind lib oc1 oc2 oc3 stamp s b =
     (if \<not> Monitoring_Validate lib s then (Inl ''invalid monitoring binding state for unbind'', b)
      else case readUnbind Monitoring b of
        Inl e \<Rightarrow> (Inl e, b)
      | Inr (Some _) \<Rightarrow> (Inl ''monitoring binding removal transaction already exists'', b)
      | Inr None \<Rightarrow>
          (case BackupMonitoring lib oc1 stamp b of
             (Inl e, b1) \<Rightarrow> (Inl ''create private binding rollback backup'', b1)
           | (Inr [], b1) \<Rightarrow> (Inl ''create private binding rollback backup'', b1)
           | (Inr name, b1) \<Rightarrow>
               let m = \<lparr>ub_SchemaVersion = 1, ub_Domain = ''monitoring'', ub_BindingID = ms_BindingID s,
                        ub_CredentialEpoch = ms_CredentialEpoch s, ub_StateBackup = name\<rparr> in
               if \<not> validUnbindCommit m
               then (Inl ''invalid binding removal transaction'', snd (DiscardMonitoringBackup oc3 name b1))
               else (case write_exclusive oc2 m (bd_unbind b1 Monitoring) of
                       (True, f) \<Rightarrow> (Inr m, b1\<lparr>bd_unbind := (bd_unbind b1)(Monitoring := f)\<rparr>)
                     | (False, f) \<Rightarrow>
                         (Inl ''write binding removal transaction'',
                          snd (DiscardMonitoringBackup oc3 name (b1\<lparr>bd_unbind := (bd_unbind b1)(Monitoring := f)\<rparr>))))))"

definition RestoreMonitoringUnbind :: "enroll_lib \<Rightarrow> io \<Rightarrow> unbind_commit \<Rightarrow> bindings \<Rightarrow> string option \<times> bindings" where
  "RestoreMonitoringUnbind lib oc m b =
     (if \<not> validUnbindCommit m \<or> ub_Domain m \<noteq> ''monitoring'' then (Some ''invalid monitoring binding removal transaction'', b)
      else RestoreMonitoring lib oc (ub_StateBackup m) b)"

definition DiscardMonitoringUnbindBackup :: "io \<Rightarrow> unbind_commit \<Rightarrow> bindings \<Rightarrow> string option \<times> bindings" where
  "DiscardMonitoringUnbindBackup oc m b =
     (if \<not> validUnbindCommit m \<or> ub_Domain m \<noteq> ''monitoring'' then (Some ''invalid monitoring binding removal transaction'', b)
      else if bd_monitoring_backups b (ub_StateBackup m) = Absent then (None, b)
      else DiscardMonitoringBackup oc (ub_StateBackup m) b)"

definition finishUnbind :: "io \<Rightarrow> domain \<Rightarrow> bindings \<Rightarrow> string option \<times> bindings" where
  "finishUnbind oc d b =
     (case readUnbind d b of
        Inl e \<Rightarrow> (Some e, b)
      | Inr None \<Rightarrow> (None, b)
      | Inr (Some _) \<Rightarrow>
          (case remove_private oc (bd_unbind b d) of
             (ok, f) \<Rightarrow> (if ok then None else Some ''remove binding removal transaction'', b\<lparr>bd_unbind := (bd_unbind b)(d := f)\<rparr>)))"

subsection \<open>Pending enrollment requests\<close>

record canonical_endpoint =
  ce_scheme :: string
  ce_host :: string
  ce_port :: string
  ce_path :: string

definition default_port :: "string \<Rightarrow> string" where
  "default_port scheme = (if scheme = ''https'' then ''443'' else ''80'')"

definition canonicalBindingEndpoint :: "web_lib \<Rightarrow> string \<Rightarrow> canonical_endpoint option" where
  "canonicalBindingEndpoint lib v =
     (case wl_parse_url lib (trim_space v) of
        None \<Rightarrow> None
      | Some u \<Rightarrow>
          let scheme = to_lower (u_Scheme u); host = to_lower (u_Hostname u);
              port = (if u_Port u = [] then default_port scheme else u_Port u);
              path = (if u_EscapedPath u = [] then ''/'' else u_EscapedPath u) in
          if u_Opaque u \<noteq> [] \<or> u_User u \<or> u_RawQuery u \<noteq> [] \<or> u_ForceQuery u \<or> u_Fragment u \<noteq> [] then None
          else if scheme \<noteq> ''https'' \<and> scheme \<noteq> ''http'' then None
          else if host = [] then None
          else (case parse_uint port of
                  None \<Rightarrow> None
                | Some n \<Rightarrow>
                    if unat n \<ge> 2 ^ 16 \<or> n = 0 \<or> \<not> has_prefix ''/'' path then None
                    else Some \<lparr>ce_scheme = scheme,
                               ce_host = (case parse_ip lib host of Some ip \<Rightarrow> ip_string ip | None \<Rightarrow> host),
                               ce_port = dec (unat n), ce_path = path\<rparr>))"

definition canonicalBindingEndpointString :: "web_lib \<Rightarrow> string \<Rightarrow> string option" where
  "canonicalBindingEndpointString lib v =
     map_option (\<lambda>e.
       ce_scheme e @ ''://'' @
       (if CHR '':'' \<in> set (ce_host e) then ''['' @ ce_host e @ '']'' else ce_host e) @ '':'' @ ce_port e @ ce_path e)
     (canonicalBindingEndpoint lib v)"

text \<open>The templates are checked as the request they stand for, with a placeholder for the one-time code.\<close>

definition template_request :: "request_template \<Rightarrow> enroll_request" where
  "template_request t =
     \<lparr>eq_SchemaVersion = 1, eq_RequestID = ''123e4567-e89b-42d3-a456-426614174000'', eq_BindingCode = ''PENDING-123456'',
      eq_DeviceID = rt_DeviceID t, eq_AgentVersion = rt_AgentVersion t, eq_Hostname = rt_Hostname t,
      eq_NodeClaim = rt_NodeClaim t, eq_Capabilities = rt_Capabilities t\<rparr>"

definition Template_Validate :: "web_lib \<Rightarrow> request_template \<Rightarrow> domain \<Rightarrow> bool" where
  "Template_Validate lib t d \<longleftrightarrow>
     rt_SchemaVersion t = 1 \<and> rt_Domain t = domain_name d \<and> rt_Endpoint t \<noteq> [] \<and> length (rt_Endpoint t) \<le> 2048 \<and>
     canonicalBindingEndpointString lib (rt_Endpoint t) = Some (rt_Endpoint t) \<and>
     (case d of Website \<Rightarrow> Request_Validate (template_request t) | Monitoring \<Rightarrow> Monitor_Request_Validate (template_request t))"

definition NewBindingRequestTemplate :: "web_lib \<Rightarrow> domain \<Rightarrow> string \<Rightarrow> string \<Rightarrow> string \<Rightarrow> string \<Rightarrow> node_claim \<Rightarrow> string list \<Rightarrow>
    request_template option" where
  "NewBindingRequestTemplate lib d endpoint deviceID agentVersion hostname claim capabilities =
     (case canonicalBindingEndpointString lib endpoint of
        None \<Rightarrow> None
      | Some canonical \<Rightarrow>
          let t = \<lparr>rt_SchemaVersion = 1, rt_Domain = domain_name d, rt_Endpoint = canonical, rt_DeviceID = deviceID,
                   rt_AgentVersion = agentVersion, rt_Hostname = hostname, rt_NodeClaim = claim, rt_Capabilities = capabilities\<rparr> in
          if Template_Validate lib t d then Some t else None)"

text \<open>\<open>uuidID\<close>: lower case, version 4.\<close>

definition uuidID :: "string \<Rightarrow> bool" where
  "uuidID s \<longleftrightarrow> uuidRE s \<and> s ! 14 = CHR ''4'' \<and> s ! 19 \<in> set ''89ab''"

definition hexDigest :: "string \<Rightarrow> bool" where
  "hexDigest = bodyHashRE"

datatype pending_error = PendingConflict | PendingInvalid | PendingIO string

definition pending_ok :: "web_lib \<Rightarrow> pending_request \<Rightarrow> bool" where
  "pending_ok lib v \<longleftrightarrow>
     pq_SchemaVersion v = 2 \<and> uuidID (pq_RequestID v) \<and> hexDigest (pq_Fingerprint v) \<and> \<not> is_zero_time (pq_CreatedAt v) \<and>
     (pq_Kind v = ''website'' \<and> Template_Validate lib (pq_Template v) Website \<or>
      pq_Kind v = ''monitoring'' \<and> Template_Validate lib (pq_Template v) Monitoring)"

definition loadPending :: "web_lib \<Rightarrow> domain \<Rightarrow> bindings \<Rightarrow> string + pending_request option" where
  "loadPending lib d b =
     (case read_private (bd_pending b d) of
        Inl e \<Rightarrow> Inl e
      | Inr None \<Rightarrow> Inr None
      | Inr (Some v) \<Rightarrow> if pending_ok lib v then Inr (Some v) else Inl ''invalid pending binding state'')"

text \<open>\<open>newID\<close> is the outcome of \<open>protocol.NewID\<close>, \<open>now\<close> the clock.\<close>

definition PreparePendingLocked :: "web_lib \<Rightarrow> io \<Rightarrow> string option \<Rightarrow> gotime \<Rightarrow> domain \<Rightarrow> string \<Rightarrow> request_template \<Rightarrow> bindings \<Rightarrow>
    (pending_error + string \<times> request_template) \<times> bindings" where
  "PreparePendingLocked lib oc newID now d fingerprint t b =
     (if \<not> hexDigest fingerprint \<or> \<not> Template_Validate lib t d then (Inl PendingInvalid, b)
      else case loadPending lib d b of
        Inl e \<Rightarrow> (Inl (PendingIO e), b)
      | Inr (Some v) \<Rightarrow>
          if pq_Kind v = domain_name d \<and> pq_Fingerprint v = fingerprint then (Inr (pq_RequestID v, pq_Template v), b)
          else (Inl PendingConflict, b)
      | Inr None \<Rightarrow>
          (case newID of
             None \<Rightarrow> (Inl (PendingIO ''generate request identifier''), b)
           | Some i \<Rightarrow>
               let v = \<lparr>pq_SchemaVersion = 2, pq_Kind = domain_name d, pq_RequestID = i, pq_Fingerprint = fingerprint,
                        pq_Template = t, pq_CreatedAt = to_utc now\<rparr> in
               (case write_private oc v (bd_pending b d) of
                  (ok, f) \<Rightarrow>
                    (if ok then Inr (i, t) else Inl (PendingIO ''write pending binding request''),
                     b\<lparr>bd_pending := (bd_pending b)(d := f)\<rparr>))))"

definition LoadPendingTemplate :: "web_lib \<Rightarrow> domain \<Rightarrow> bindings \<Rightarrow> pending_error + string \<times> request_template" where
  "LoadPendingTemplate lib d b =
     (case loadPending lib d b of
        Inl e \<Rightarrow> Inl (PendingIO e)
      | Inr None \<Rightarrow> Inl (PendingIO ''no pending binding request'')
      | Inr (Some v) \<Rightarrow> Inr (pq_RequestID v, pq_Template v))"

definition PendingRequestExists :: "web_lib \<Rightarrow> domain \<Rightarrow> bindings \<Rightarrow> string + bool" where
  "PendingRequestExists lib d b =
     (case loadPending lib d b of Inl e \<Rightarrow> Inl e | Inr None \<Rightarrow> Inr False | Inr (Some _) \<Rightarrow> Inr True)"

definition ClearPending :: "io \<Rightarrow> domain \<Rightarrow> bindings \<Rightarrow> string option \<times> bindings" where
  "ClearPending oc d b =
     (case remove_private oc (bd_pending b d) of
        (ok, f) \<Rightarrow> (if ok then None else Some ''clear pending binding request'', b\<lparr>bd_pending := (bd_pending b)(d := f)\<rparr>))"

subsection \<open>The device identifier\<close>

definition LoadOrCreateDeviceID :: "io \<Rightarrow> 8 word list option \<Rightarrow> bindings \<Rightarrow> (string + string) \<times> bindings" where
  "LoadOrCreateDeviceID oc random b =
     (case read_private (bd_device b) of
        Inl e \<Rightarrow> (Inl e, b)
      | Inr (Some raw) \<Rightarrow>
          let v = trim_space raw in (if safeID v then Inr v else Inl ''invalid device ID state'', b)
      | Inr None \<Rightarrow>
          (case random of
             None \<Rightarrow> (Inl ''generate device ID'', b)
           | Some bs \<Rightarrow>
               let v = ''device-'' @ hex_encode bs in
               (case write_private oc (v @ newline) (bd_device b) of
                  (ok, f) \<Rightarrow> (if ok then Inr v else Inl ''write device ID'', b\<lparr>bd_device := f\<rparr>))))"

end
