(* ===== verification/Binding_Overlay.thy ===== *)
theory Binding_Overlay
  imports Binding_State
begin

section \<open>Credentials from the bindings (\<open>internal/bindingoverlay/overlay.go\<close>)\<close>

text \<open>
  \<open>Resolve\<close> takes the credentials of the two trust domains from the private binding files and the
  other secrets from the environment.  The configuration is the part of \<open>config.Config\<close> the code
  reads.  The map in \<open>Config.ResolveSecrets\<close> is visited in any order; the model takes one, which only
  decides which of several errors is reported.
\<close>

subsection \<open>Configuration and secrets\<close>

record auth_config =
  ac_Mode :: string
  ac_KeyIDEnv :: string
  ac_SecretEnv :: string
  ac_BearerTokenEnv :: string

record destination_config =
  dc_Enabled :: bool
  dc_URL :: string
  dc_Auth :: auth_config
  dc_MaxCompressedBytes :: int
  dc_MaxUncompressedBytes :: int
  dc_Compression :: string
  dc_PayloadFormat :: string

record control_config =
  cc_Enabled :: bool
  cc_PollURL :: string
  cc_ResultURL :: string
  cc_Auth :: auth_config
  cc_CommandSecretEnv :: string
  cc_CommandSigningKeyIDEnv :: string
  cc_CommandPublicKeyEnv :: string
  cc_PVETokenIDEnv :: string
  cc_PVETokenSecretEnv :: string
  cc_AllowedActions :: "string list"
  cc_ProductionExecution :: bool

record agent_config =
  cf_Identity :: public_identity
  cf_PVESource :: string
  cf_PVETokenIDEnv :: string
  cf_PVETokenSecretEnv :: string
  cf_RefreshURL :: string
  cf_WebsiteMetering :: destination_config
  cf_WebsiteTelemetry :: destination_config
  cf_Monitoring :: destination_config
  cf_MonitoringAudit :: destination_config
  cf_Control :: control_config

record destination_secret =
  ds_KeyID :: string
  ds_Secret :: bytes
  ds_Bearer :: string
  ds_CredentialEpoch :: u64

definition no_secret :: destination_secret where
  "no_secret = \<lparr>ds_KeyID = [], ds_Secret = [], ds_Bearer = [], ds_CredentialEpoch = 0\<rparr>"

record secrets =
  se_PVETokenID :: string
  se_PVETokenSecret :: string
  se_WebsiteMetering :: destination_secret
  se_WebsiteTelemetry :: destination_secret
  se_Monitoring :: destination_secret
  se_MonitoringAudit :: destination_secret
  se_Assignments :: destination_secret
  se_ControlAPI :: destination_secret
  se_ControlReceipts :: destination_secret
  se_ControlCommandSecret :: bytes
  se_ControlSigningKeyID :: string
  se_ControlPublicKey :: bytes
  se_ControlPVETokenID :: string
  se_ControlPVETokenSecret :: string
  se_DeviceID :: string
  se_WebsiteBindingID :: string
  se_WebsiteCredentialEpoch :: u64
  se_MonitoringAgentRef :: string
  se_MonitoringBindingID :: string

definition no_secrets :: secrets where
  "no_secrets =
     \<lparr>se_PVETokenID = [], se_PVETokenSecret = [], se_WebsiteMetering = no_secret, se_WebsiteTelemetry = no_secret,
      se_Monitoring = no_secret, se_MonitoringAudit = no_secret, se_Assignments = no_secret, se_ControlAPI = no_secret,
      se_ControlReceipts = no_secret, se_ControlCommandSecret = [], se_ControlSigningKeyID = [], se_ControlPublicKey = [],
      se_ControlPVETokenID = [], se_ControlPVETokenSecret = [], se_DeviceID = [], se_WebsiteBindingID = [],
      se_WebsiteCredentialEpoch = 0, se_MonitoringAgentRef = [], se_MonitoringBindingID = []\<rparr>"

type_synonym env_lookup = "string \<Rightarrow> string option"

subsection \<open>Secrets from the environment (\<open>internal/config/config.go\<close>)\<close>

definition requiredEnv :: "env_lookup \<Rightarrow> string \<Rightarrow> string + string" where
  "requiredEnv lookup name =
     (case lookup name of
        Some v \<Rightarrow> if is_blank v then Inl (''required environment variable '' @ name @ '' is not set'') else Inr v
      | None \<Rightarrow> Inl (''required environment variable '' @ name @ '' is not set''))"

definition sum_bind :: "'e + 'a \<Rightarrow> ('a \<Rightarrow> 'e + 'b) \<Rightarrow> 'e + 'b" where
  "sum_bind x f = (case x of Inl e \<Rightarrow> Inl e | Inr a \<Rightarrow> f a)"

definition resolveDestination :: "env_lookup \<Rightarrow> auth_config \<Rightarrow> string + destination_secret" where
  "resolveDestination lookup a =
     (if ac_Mode a = ''hmac-sha256'' then
        sum_bind (requiredEnv lookup (ac_KeyIDEnv a)) (\<lambda>k.
        sum_bind (requiredEnv lookup (ac_SecretEnv a)) (\<lambda>v. Inr (no_secret\<lparr>ds_KeyID := k, ds_Secret := v\<rparr>)))
      else if ac_Mode a = ''bearer'' then
        sum_bind (requiredEnv lookup (ac_BearerTokenEnv a)) (\<lambda>v. Inr (no_secret\<lparr>ds_Bearer := v\<rparr>))
      else Inr no_secret)"

text \<open>A secret that is only required when its condition holds.\<close>

definition when_needed :: "bool \<Rightarrow> 'a \<Rightarrow> (string + 'a) \<Rightarrow> string + 'a" where
  "when_needed needed absent x = (if needed then x else Inr absent)"

definition ResolveSecrets :: "env_lookup \<Rightarrow> agent_config \<Rightarrow> string + secrets" where
  "ResolveSecrets lookup c =
     (let ct = cf_Control c; polls = cc_Enabled ct \<and> cc_PollURL ct \<noteq> [];
          api = (cf_PVESource c = ''api''); production = cc_Enabled ct \<and> cc_ProductionExecution ct;
          dest = (\<lambda>d. when_needed (dc_Enabled d) no_secret (resolveDestination lookup (dc_Auth d))) in
      sum_bind (when_needed api [] (requiredEnv lookup (cf_PVETokenIDEnv c))) (\<lambda>tokenID.
      sum_bind (when_needed api [] (requiredEnv lookup (cf_PVETokenSecretEnv c))) (\<lambda>tokenSecret.
      sum_bind (dest (cf_WebsiteMetering c)) (\<lambda>metering.
      sum_bind (dest (cf_WebsiteTelemetry c)) (\<lambda>telemetry.
      sum_bind (dest (cf_Monitoring c)) (\<lambda>monitoring.
      sum_bind (dest (cf_MonitoringAudit c)) (\<lambda>audit.
      sum_bind (when_needed (polls \<and> cc_CommandSecretEnv ct \<noteq> []) [] (requiredEnv lookup (cc_CommandSecretEnv ct))) (\<lambda>command.
      sum_bind (when_needed (polls \<and> cc_CommandSigningKeyIDEnv ct \<noteq> []) [] (requiredEnv lookup (cc_CommandSigningKeyIDEnv ct))) (\<lambda>keyID.
      sum_bind (when_needed (polls \<and> cc_CommandPublicKeyEnv ct \<noteq> []) [] (requiredEnv lookup (cc_CommandPublicKeyEnv ct))) (\<lambda>publicKey.
      sum_bind (when_needed polls no_secret (resolveDestination lookup (cc_Auth ct))) (\<lambda>control.
      sum_bind (when_needed production [] (requiredEnv lookup (cc_PVETokenIDEnv ct))) (\<lambda>pveID.
      sum_bind (when_needed production [] (requiredEnv lookup (cc_PVETokenSecretEnv ct))) (\<lambda>pveSecret.
      if production \<and> pveID = tokenID then Inl ''control PVE token must be distinct from the collection token''
      else Inr (no_secrets\<lparr>se_PVETokenID := tokenID, se_PVETokenSecret := tokenSecret, se_WebsiteMetering := metering,
        se_WebsiteTelemetry := telemetry, se_Monitoring := monitoring, se_MonitoringAudit := audit,
        se_ControlCommandSecret := command, se_ControlSigningKeyID := keyID, se_ControlPublicKey := publicKey,
        se_ControlAPI := control, se_ControlPVETokenID := pveID, se_ControlPVETokenSecret := pveSecret\<rparr>))))))))))))))"

subsection \<open>Reserved labels\<close>

definition WebsiteMeteringKeyIDEnv :: string where "WebsiteMeteringKeyIDEnv = ''PPFLIGHT_BINDING_METERING_KEY_ID''"
definition WebsiteMeteringSecretEnv :: string where "WebsiteMeteringSecretEnv = ''PPFLIGHT_BINDING_METERING_SECRET''"
definition WebsiteTelemetryKeyIDEnv :: string where "WebsiteTelemetryKeyIDEnv = ''PPFLIGHT_BINDING_TELEMETRY_KEY_ID''"
definition WebsiteTelemetrySecretEnv :: string where "WebsiteTelemetrySecretEnv = ''PPFLIGHT_BINDING_TELEMETRY_SECRET''"
definition WebsiteCommandKeyIDEnv :: string where "WebsiteCommandKeyIDEnv = ''PPFLIGHT_BINDING_COMMAND_KEY_ID''"
definition WebsiteCommandSecretEnv :: string where "WebsiteCommandSecretEnv = ''PPFLIGHT_BINDING_COMMAND_SECRET''"
definition WebsiteSigningKeyIDEnv :: string where "WebsiteSigningKeyIDEnv = ''PPFLIGHT_BINDING_COMMAND_SIGNING_KEY_ID''"
definition WebsiteCommandPublicKeyEnv :: string where "WebsiteCommandPublicKeyEnv = ''PPFLIGHT_BINDING_COMMAND_PUBLIC_KEY''"
definition MonitoringKeyIDEnv :: string where "MonitoringKeyIDEnv = ''PPFLIGHT_MONITORING_BINDING_KEY_ID''"
definition MonitoringSecretEnv :: string where "MonitoringSecretEnv = ''PPFLIGHT_MONITORING_BINDING_SECRET''"

definition reserved :: "string list" where
  "reserved = [WebsiteMeteringKeyIDEnv, WebsiteMeteringSecretEnv, WebsiteTelemetryKeyIDEnv, WebsiteTelemetrySecretEnv,
     WebsiteCommandKeyIDEnv, WebsiteCommandSecretEnv, WebsiteSigningKeyIDEnv, WebsiteCommandPublicKeyEnv,
     MonitoringKeyIDEnv, MonitoringSecretEnv]"

definition auth_labels :: "auth_config \<Rightarrow> string list" where
  "auth_labels a = [ac_KeyIDEnv a, ac_SecretEnv a, ac_BearerTokenEnv a]"

definition configLabels :: "agent_config \<Rightarrow> string list" where
  "configLabels c =
     auth_labels (dc_Auth (cf_WebsiteMetering c)) @ auth_labels (dc_Auth (cf_WebsiteTelemetry c)) @
     auth_labels (dc_Auth (cf_Monitoring c)) @ auth_labels (dc_Auth (cf_MonitoringAudit c)) @
     auth_labels (cc_Auth (cf_Control c)) @
     [cc_CommandSecretEnv (cf_Control c), cc_CommandSigningKeyIDEnv (cf_Control c), cc_CommandPublicKeyEnv (cf_Control c)]"

definition containsWebsiteLabel :: "string list \<Rightarrow> bool" where
  "containsWebsiteLabel labels \<longleftrightarrow> list_ex (has_prefix ''PPFLIGHT_BINDING_'') labels"

definition exactHMACLabels :: "auth_config \<Rightarrow> string \<Rightarrow> string \<Rightarrow> bool" where
  "exactHMACLabels a keyID secret \<longleftrightarrow>
     ac_Mode a = ''hmac-sha256'' \<and> ac_KeyIDEnv a = keyID \<and> ac_SecretEnv a = secret \<and> ac_BearerTokenEnv a = []"

definition allowedSubset :: "string list \<Rightarrow> string list \<Rightarrow> bool" where
  "allowedSubset configured granted \<longleftrightarrow> list_all (\<lambda>a. a \<in> set granted) configured"

text \<open>Decoded bytes as a byte string.\<close>

definition byte_text :: "8 word list \<Rightarrow> bytes" where
  "byte_text = map (\<lambda>w. char_of (unat w))"

definition decodeBoundSecret :: "string \<Rightarrow> nat \<Rightarrow> nat \<Rightarrow> bytes option" where
  "decodeBoundSecret v minimum maximum =
     (case base64_std v of
        None \<Rightarrow> None | Some k \<Rightarrow> if length k < minimum \<or> length k > maximum then None else Some (byte_text k))"

definition destinationSecret :: "hmac_credential \<Rightarrow> u64 \<Rightarrow> string + destination_secret" where
  "destinationSecret h epoch =
     (case decodeBoundSecret (hc_Secret h) 16 4096 of
        None \<Rightarrow> Inl ''website binding credential is invalid''
      | Some k \<Rightarrow> Inr \<lparr>ds_KeyID = hc_KeyID h, ds_Secret = k, ds_Bearer = [], ds_CredentialEpoch = epoch\<rparr>)"

definition guard_err :: "bool \<Rightarrow> string \<Rightarrow> string + unit" where
  "guard_err ok e = (if ok then Inr () else Inl e)"

subsection \<open>Applying the bindings\<close>

text \<open>The secret of one route: kept when the route is off, otherwise the bound one after its check.\<close>

definition bound_secret :: "bool \<Rightarrow> destination_secret \<Rightarrow> bool \<Rightarrow> string \<Rightarrow> hmac_credential \<Rightarrow> u64 \<Rightarrow> string + destination_secret" where
  "bound_secret on kept matches e h epoch =
     when_needed on kept (sum_bind (guard_err matches e) (\<lambda>_. destinationSecret h epoch))"

definition website_metering :: "agent_config \<Rightarrow> binding_state \<Rightarrow> secrets \<Rightarrow> string + destination_secret" where
  "website_metering c s x =
     (let d = cf_WebsiteMetering c in
      bound_secret (dc_Enabled d) (se_WebsiteMetering x)
        (dc_URL d = ep_Metering (bs_Endpoints s) \<and> exactHMACLabels (dc_Auth d) WebsiteMeteringKeyIDEnv WebsiteMeteringSecretEnv)
        ''website metering configuration does not match binding state'' (hs_Metering (bs_HMACCredentials s)) (bs_CredentialEpoch s))"

definition website_telemetry :: "agent_config \<Rightarrow> binding_state \<Rightarrow> secrets \<Rightarrow> string + destination_secret" where
  "website_telemetry c s x =
     (let d = cf_WebsiteTelemetry c in
      bound_secret (dc_Enabled d) (se_WebsiteTelemetry x)
        (dc_URL d = ep_Telemetry (bs_Endpoints s) \<and> exactHMACLabels (dc_Auth d) WebsiteTelemetryKeyIDEnv WebsiteTelemetrySecretEnv)
        ''website telemetry configuration does not match binding state'' (hs_Telemetry (bs_HMACCredentials s)) (bs_CredentialEpoch s))"

definition website_assignments :: "agent_config \<Rightarrow> binding_state \<Rightarrow> secrets \<Rightarrow> string + destination_secret" where
  "website_assignments c s x =
     bound_secret (cf_RefreshURL c \<noteq> []) (se_Assignments x) (cf_RefreshURL c = ep_Assignments (bs_Endpoints s))
       ''assignment refresh configuration does not match binding state'' (hs_Assignments (bs_HMACCredentials s)) (bs_CredentialEpoch s)"

definition website_signing_key :: "binding_state \<Rightarrow> string + bytes" where
  "website_signing_key s =
     (case decodeBoundSecret (sg_PublicKey (bs_CommandSigningCredential s)) 32 32 of
        None \<Rightarrow> Inl ''website binding signing public key is invalid'' | Some k \<Rightarrow> Inr k)"

definition website_control :: "agent_config \<Rightarrow> binding_state \<Rightarrow> secrets \<Rightarrow> string + destination_secret \<times> destination_secret \<times> bytes" where
  "website_control c s x =
     (let ct = cf_Control c; hs = bs_HMACCredentials s; ep = bs_Endpoints s; epoch = bs_CredentialEpoch s in
      when_needed (cc_Enabled ct \<and> cc_PollURL ct \<noteq> []) (se_ControlAPI x, se_ControlReceipts x, se_ControlCommandSecret x)
        (sum_bind (guard_err (cc_PollURL ct = ep_Commands ep \<and> cc_ResultURL ct = ep_Receipts ep \<and>
            exactHMACLabels (cc_Auth ct) WebsiteCommandKeyIDEnv WebsiteCommandSecretEnv \<and>
            cc_CommandSigningKeyIDEnv ct = WebsiteSigningKeyIDEnv \<and> cc_CommandPublicKeyEnv ct = WebsiteCommandPublicKeyEnv)
            ''control configuration does not match website binding state'') (\<lambda>_.
         sum_bind (guard_err (allowedSubset (cc_AllowedActions ct) (bs_AllowedActions s))
            ''control allowlist exceeds website binding grant'') (\<lambda>_.
         sum_bind (destinationSecret (hs_Commands hs) epoch) (\<lambda>commands.
         sum_bind (destinationSecret (hs_Receipts hs) epoch) (\<lambda>receipts. Inr (commands, receipts, [])))))))"

definition applyWebsite :: "agent_config \<Rightarrow> binding_state \<Rightarrow> secrets \<Rightarrow> string + secrets" where
  "applyWebsite c s x =
     sum_bind (guard_err (cf_Identity c = bs_Identity s) ''public configuration identity does not match website binding state'') (\<lambda>_.
     sum_bind (website_metering c s x) (\<lambda>m.
     sum_bind (website_telemetry c s x) (\<lambda>t.
     sum_bind (website_assignments c s x) (\<lambda>a.
     sum_bind (website_signing_key s) (\<lambda>publicKey.
     sum_bind (website_control c s x) (\<lambda>(api, receipts, command).
     Inr (x\<lparr>se_WebsiteMetering := m, se_WebsiteTelemetry := t, se_Assignments := a,
       se_ControlSigningKeyID := sg_KeyID (bs_CommandSigningCredential s), se_ControlPublicKey := publicKey,
       se_ControlAPI := api, se_ControlReceipts := receipts, se_ControlCommandSecret := command,
       se_DeviceID := bs_DeviceID s, se_WebsiteBindingID := bs_BindingID s, se_WebsiteCredentialEpoch := bs_CredentialEpoch s\<rparr>)))))))"

definition applyMonitoring :: "enroll_lib \<Rightarrow> agent_config \<Rightarrow> monitoring_state \<Rightarrow> secrets \<Rightarrow> string + secrets" where
  "applyMonitoring lib c s x =
     (case AuditEndpoint lib (ms_IngestEndpoint s) of
        None \<Rightarrow> Inl ''monitoring binding endpoint contract is invalid''
      | Some auditEndpoint \<Rightarrow>
          let m = cf_Monitoring c; a = cf_MonitoringAudit c; t = ms_Telemetry s; k = ms_HMACCredential s in
          if \<not> dc_Enabled m \<or> dc_URL m \<noteq> ms_IngestEndpoint s \<or>
             \<not> exactHMACLabels (dc_Auth m) MonitoringKeyIDEnv MonitoringSecretEnv \<or>
             dc_PayloadFormat m \<noteq> tc_PayloadFormat t \<or> dc_Compression m \<noteq> tc_Compression t \<or>
             dc_MaxCompressedBytes m \<noteq> tc_MaxCompressedBytes t \<or> dc_MaxUncompressedBytes m \<noteq> tc_MaxUncompressedBytes t
          then Inl ''monitoring configuration does not match monitoring binding state''
          else if \<not> dc_Enabled a \<or> dc_URL a \<noteq> auditEndpoint \<or>
             \<not> exactHMACLabels (dc_Auth a) MonitoringKeyIDEnv MonitoringSecretEnv \<or>
             dc_PayloadFormat a \<noteq> ''audit-v1'' \<or> dc_Compression a \<noteq> tc_Compression t \<or>
             dc_MaxCompressedBytes a \<noteq> 4 * 2 ^ 20 \<or> dc_MaxUncompressedBytes a \<noteq> 16 * 2 ^ 20
          then Inl ''monitoring audit configuration does not match monitoring binding state''
          else case decodeBoundSecret (mc_Secret k) 16 4096 of
            None \<Rightarrow> Inl ''monitoring binding credential is invalid''
          | Some secret \<Rightarrow>
              let d = \<lparr>ds_KeyID = mc_KeyID k, ds_Secret = secret, ds_Bearer = [], ds_CredentialEpoch = ms_CredentialEpoch s\<rparr> in
              if se_DeviceID x \<noteq> [] \<and> se_DeviceID x \<noteq> ms_DeviceID s
              then Inl ''website and monitoring bindings identify different devices''
              else Inr (x\<lparr>se_Monitoring := d, se_MonitoringAudit := d, se_MonitoringAgentRef := ms_MonitoringAgentRef s,
                se_MonitoringBindingID := ms_BindingID s, se_DeviceID := ms_DeviceID s\<rparr>))"

subsection \<open>\<open>Resolve\<close>\<close>

definition websiteRemovalConfigApplied :: "agent_config \<Rightarrow> bool" where
  "websiteRemovalConfigApplied c \<longleftrightarrow>
     \<not> dc_Enabled (cf_WebsiteMetering c) \<and> dc_URL (cf_WebsiteMetering c) = [] \<and>
     \<not> dc_Enabled (cf_WebsiteTelemetry c) \<and> dc_URL (cf_WebsiteTelemetry c) = [] \<and> cf_RefreshURL c = [] \<and>
     \<not> cc_Enabled (cf_Control c) \<and> cc_PollURL (cf_Control c) = [] \<and> cc_ResultURL (cf_Control c) = [] \<and>
     auth_labels (cc_Auth (cf_Control c)) = [[], [], []] \<and> cc_CommandSecretEnv (cf_Control c) = [] \<and>
     cc_CommandSigningKeyIDEnv (cf_Control c) = [] \<and> cc_CommandPublicKeyEnv (cf_Control c) = [] \<and>
     \<not> cc_ProductionExecution (cf_Control c)"

definition monitoringRemovalConfigApplied :: "agent_config \<Rightarrow> bool" where
  "monitoringRemovalConfigApplied c \<longleftrightarrow>
     \<not> dc_Enabled (cf_Monitoring c) \<and> dc_URL (cf_Monitoring c) = [] \<and>
     \<not> dc_Enabled (cf_MonitoringAudit c) \<and> dc_URL (cf_MonitoringAudit c) = [] \<and> \<not> cc_ProductionExecution (cf_Control c)"

text \<open>A file that is present or cannot be read.\<close>

definition pending_or_error :: "string + 'a option \<Rightarrow> bool" where
  "pending_or_error r = (case r of Inl _ \<Rightarrow> True | Inr m \<Rightarrow> m \<noteq> None)"

definition is_error :: "'e + 'a \<Rightarrow> bool" where
  "is_error r = (case r of Inl _ \<Rightarrow> True | Inr _ \<Rightarrow> False)"

definition bindings_stable :: "enroll_lib \<Rightarrow> agent_config \<Rightarrow> bindings \<Rightarrow> string + unit" where
  "bindings_stable lib c b =
     (if pending_or_error (readCommit Website b) \<or> pending_or_error (readCommit Monitoring b)
      then Inl ''binding transaction is incomplete''
      else if is_error (readUnbind Website b) \<or> pending_or_error (readUnbind Website b) \<and> \<not> websiteRemovalConfigApplied c
      then Inl ''website binding removal transaction is incomplete''
      else if is_error (readUnbind Monitoring b) \<or> pending_or_error (readUnbind Monitoring b) \<and> \<not> monitoringRemovalConfigApplied c
      then Inl ''monitoring binding removal transaction is incomplete''
      else if is_error (PendingRequestExists (web_lib.truncate lib) Website b)
      then Inl ''website binding request state is unsafe''
      else if is_error (PendingRequestExists (web_lib.truncate lib) Monitoring b)
      then Inl ''monitoring binding request state is unsafe''
      else Inr ())"

definition resolve_website :: "enroll_lib \<Rightarrow> agent_config \<Rightarrow> bindings \<Rightarrow> secrets \<Rightarrow> string + secrets" where
  "resolve_website lib c b x =
     (case Load_binding lib b of
        Inr (Some s) \<Rightarrow> applyWebsite c s x | _ \<Rightarrow> Inl ''website binding state is required or unreadable'')"

definition resolve_monitoring :: "enroll_lib \<Rightarrow> agent_config \<Rightarrow> bindings \<Rightarrow> secrets \<Rightarrow> string + secrets" where
  "resolve_monitoring lib c b x =
     (case LoadMonitoring lib b of
        Inr (Some s) \<Rightarrow> applyMonitoring lib c s x | _ \<Rightarrow> Inl ''monitoring binding state is required or unreadable'')"

definition usesWebsite :: "agent_config \<Rightarrow> bool" where
  "usesWebsite c \<longleftrightarrow> cf_RefreshURL c \<noteq> [] \<or> containsWebsiteLabel (configLabels c)"

definition usesMonitoring :: "agent_config \<Rightarrow> bool" where
  "usesMonitoring c \<longleftrightarrow> MonitoringKeyIDEnv \<in> set (configLabels c) \<or> MonitoringSecretEnv \<in> set (configLabels c)"

definition unknown_label :: "string \<Rightarrow> bool" where
  "unknown_label l \<longleftrightarrow>
     (has_prefix ''PPFLIGHT_BINDING_'' l \<or> has_prefix ''PPFLIGHT_MONITORING_BINDING_'' l) \<and> l \<notin> set reserved"

definition Resolve :: "enroll_lib \<Rightarrow> env_lookup \<Rightarrow> agent_config \<Rightarrow> bindings \<Rightarrow> string + secrets" where
  "Resolve lib lookup c b =
     (if list_ex unknown_label (configLabels c) then Inl ''configuration uses an unknown binding credential label''
      else sum_bind (bindings_stable lib c b) (\<lambda>_.
      sum_bind (ResolveSecrets (\<lambda>name. if name \<in> set reserved then Some ''binding-state-placeholder'' else lookup name) c) (\<lambda>x.
      sum_bind (if usesWebsite c then resolve_website lib c b x else Inr x) (\<lambda>y.
      if usesMonitoring c then resolve_monitoring lib c b y else Inr y))))"

end
