(* ===== verification/Binding_Guarantees.thy ===== *)
theory Binding_Guarantees
  imports Binding_Overlay
begin

section \<open>What the bindings guarantee\<close>

text \<open>
  Histories of operations on the bindings directory with failing writes, removals and crashes; the
  pending request that survives them, the marker that keeps an interrupted binding from being used,
  and the destinations the credentials of a binding reach.
\<close>

subsection \<open>Files\<close>

lemma write_private_ok: "write_private oc v f = (True, f') \<Longrightarrow> f' = Holds v"
  by (cases "(oc, v, f)" rule: write_private.cases) auto

lemma write_private_absent: "write_private oc v f = (ok, f') \<Longrightarrow> f' = f \<or> f' = Holds v"
  by (cases "(oc, v, f)" rule: write_private.cases) auto

lemma write_exclusive_ok: "write_exclusive oc v f = (True, f') \<Longrightarrow> f' = Holds v"
  by (cases "(oc, v, f)" rule: write_exclusive.cases) auto

lemma write_exclusive_keeps: "f \<noteq> Absent \<Longrightarrow> write_exclusive oc v f = (False, f)"
  by (cases "(oc, v, f)" rule: write_exclusive.cases) auto

subsection \<open>Histories\<close>

datatype bind_op =
    Prepare io "string option" gotime domain string request_template
  | Clear io domain
  | Begin excl domain string u64
  | Finish io domain
  | SaveState io binding_state
  | SaveMonitoringState io monitoring_state
  | Backup io string
  | Restore io string
  | Remove io
  | Discard io string
  | Device io "8 word list option"
  | BeginUnbind io excl io string binding_state
  | RestoreUnbind io unbind_commit
  | FinishUnbind io domain
  | BackupMonitoringState io string
  | RestoreMonitoringState io string
  | RemoveMonitoringState io
  | DiscardMonitoring io string
  | BeginMonitoringRemoval io excl io string monitoring_state
  | RestoreMonitoringRemoval io unbind_commit
  | DiscardUnbind io unbind_commit
  | DiscardMonitoringUnbind io unbind_commit

fun bind_step :: "enroll_lib \<Rightarrow> bind_op \<Rightarrow> bindings \<Rightarrow> bindings" where
  "bind_step lib (Prepare oc i now d fp t) b = snd (PreparePendingLocked (web_lib.truncate lib) oc i now d fp t b)"
| "bind_step lib (Clear oc d) b = snd (ClearPending oc d b)"
| "bind_step lib (Begin oc d i e) b = snd (beginCommit oc d i e b)"
| "bind_step lib (Finish oc d) b = snd (finishCommit oc d b)"
| "bind_step lib (SaveState oc s) b = snd (Save_binding lib oc s b)"
| "bind_step lib (SaveMonitoringState oc s) b = snd (SaveMonitoring lib oc s b)"
| "bind_step lib (Backup oc n) b = snd (BackupWebsite lib oc n b)"
| "bind_step lib (Restore oc n) b = snd (RestoreWebsite lib oc n b)"
| "bind_step lib (Remove oc) b = snd (RemoveWebsite oc b)"
| "bind_step lib (Discard oc n) b = snd (DiscardWebsiteBackup oc n b)"
| "bind_step lib (Device oc r) b = snd (LoadOrCreateDeviceID oc r b)"
| "bind_step lib (BeginUnbind oc1 oc2 oc3 n s) b = snd (BeginWebsiteUnbind lib oc1 oc2 oc3 n s b)"
| "bind_step lib (RestoreUnbind oc m) b = snd (RestoreWebsiteUnbind lib oc m b)"
| "bind_step lib (FinishUnbind oc d) b = snd (finishUnbind oc d b)"
| "bind_step lib (BackupMonitoringState oc n) b = snd (BackupMonitoring lib oc n b)"
| "bind_step lib (RestoreMonitoringState oc n) b = snd (RestoreMonitoring lib oc n b)"
| "bind_step lib (RemoveMonitoringState oc) b = snd (RemoveMonitoring oc b)"
| "bind_step lib (DiscardMonitoring oc n) b = snd (DiscardMonitoringBackup oc n b)"
| "bind_step lib (BeginMonitoringRemoval oc1 oc2 oc3 n s) b = snd (BeginMonitoringUnbind lib oc1 oc2 oc3 n s b)"
| "bind_step lib (RestoreMonitoringRemoval oc m) b = snd (RestoreMonitoringUnbind lib oc m b)"
| "bind_step lib (DiscardUnbind oc m) b = snd (DiscardWebsiteUnbindBackup oc m b)"
| "bind_step lib (DiscardMonitoringUnbind oc m) b = snd (DiscardMonitoringUnbindBackup oc m b)"

definition bind_run :: "enroll_lib \<Rightarrow> bind_op list \<Rightarrow> bindings \<Rightarrow> bindings" where
  "bind_run lib ops b = fold (bind_step lib) ops b"

text \<open>What each operation leaves alone.\<close>

lemma Save_binding_frame:
  "bd_pending (snd (Save_binding lib oc s b)) = bd_pending b" "bd_commit (snd (Save_binding lib oc s b)) = bd_commit b"
  by (auto simp: Save_binding_def split: prod.splits)

lemma SaveMonitoring_frame:
  "bd_pending (snd (SaveMonitoring lib oc s b)) = bd_pending b" "bd_commit (snd (SaveMonitoring lib oc s b)) = bd_commit b"
  by (auto simp: SaveMonitoring_def split: prod.splits)

lemma BackupWebsite_frame:
  "bd_pending (snd (BackupWebsite lib oc n b)) = bd_pending b" "bd_commit (snd (BackupWebsite lib oc n b)) = bd_commit b"
  by (auto simp: BackupWebsite_def Let_def split: prod.splits sum.splits option.splits)

lemma RemoveWebsite_frame:
  "bd_pending (snd (RemoveWebsite oc b)) = bd_pending b" "bd_commit (snd (RemoveWebsite oc b)) = bd_commit b"
  by (auto simp: RemoveWebsite_def split: prod.splits)

lemma RestoreWebsite_frame:
  "bd_pending (snd (RestoreWebsite lib oc n b)) = bd_pending b" "bd_commit (snd (RestoreWebsite lib oc n b)) = bd_commit b"
  by (auto simp: RestoreWebsite_def RemoveWebsite_frame Save_binding_frame split: sum.splits option.splits)

lemma DiscardWebsiteBackup_frame:
  "bd_pending (snd (DiscardWebsiteBackup oc n b)) = bd_pending b"
  "bd_commit (snd (DiscardWebsiteBackup oc n b)) = bd_commit b"
  "bd_unbind (snd (DiscardWebsiteBackup oc n b)) = bd_unbind b"
  "bd_state (snd (DiscardWebsiteBackup oc n b)) = bd_state b"
  by (auto simp: DiscardWebsiteBackup_def split: prod.splits)

lemma LoadOrCreateDeviceID_frame:
  "bd_pending (snd (LoadOrCreateDeviceID oc r b)) = bd_pending b" "bd_commit (snd (LoadOrCreateDeviceID oc r b)) = bd_commit b"
  by (auto simp: LoadOrCreateDeviceID_def Let_def split: prod.splits sum.splits option.splits)

lemma finishUnbind_frame:
  "bd_pending (snd (finishUnbind oc d b)) = bd_pending b" "bd_commit (snd (finishUnbind oc d b)) = bd_commit b"
  by (auto simp: finishUnbind_def split: prod.splits sum.splits option.splits)

lemma BeginWebsiteUnbind_frame:
  "bd_pending (snd (BeginWebsiteUnbind lib oc1 oc2 oc3 n s b)) = bd_pending b \<and>
   bd_commit (snd (BeginWebsiteUnbind lib oc1 oc2 oc3 n s b)) = bd_commit b"
proof -
  obtain r b1 where bk: "BackupWebsite lib oc1 n b = (r, b1)" by fastforce
  have "bd_pending b1 = bd_pending b" "bd_commit b1 = bd_commit b" using BackupWebsite_frame [of lib oc1 n b] bk by auto
  then show ?thesis
    by (auto simp: BeginWebsiteUnbind_def bk Let_def DiscardWebsiteBackup_frame split: prod.splits sum.splits option.splits list.splits bool.splits)
qed

lemma RestoreWebsiteUnbind_frame:
  "bd_pending (snd (RestoreWebsiteUnbind lib oc m b)) = bd_pending b" "bd_commit (snd (RestoreWebsiteUnbind lib oc m b)) = bd_commit b"
  by (auto simp: RestoreWebsiteUnbind_def RestoreWebsite_frame)

lemma BackupMonitoring_frame:
  "bd_pending (snd (BackupMonitoring lib oc n b)) = bd_pending b" "bd_commit (snd (BackupMonitoring lib oc n b)) = bd_commit b"
  by (auto simp: BackupMonitoring_def Let_def split: prod.splits sum.splits option.splits)

lemma RemoveMonitoring_frame:
  "bd_pending (snd (RemoveMonitoring oc b)) = bd_pending b" "bd_commit (snd (RemoveMonitoring oc b)) = bd_commit b"
  by (auto simp: RemoveMonitoring_def split: prod.splits)

lemma RestoreMonitoring_frame:
  "bd_pending (snd (RestoreMonitoring lib oc n b)) = bd_pending b" "bd_commit (snd (RestoreMonitoring lib oc n b)) = bd_commit b"
  by (auto simp: RestoreMonitoring_def RemoveMonitoring_frame SaveMonitoring_frame split: sum.splits option.splits)

lemma DiscardMonitoringBackup_frame:
  "bd_pending (snd (DiscardMonitoringBackup oc n b)) = bd_pending b" "bd_commit (snd (DiscardMonitoringBackup oc n b)) = bd_commit b"
  by (auto simp: DiscardMonitoringBackup_def split: prod.splits)

lemma BeginMonitoringUnbind_frame:
  "bd_pending (snd (BeginMonitoringUnbind lib oc1 oc2 oc3 n s b)) = bd_pending b \<and>
   bd_commit (snd (BeginMonitoringUnbind lib oc1 oc2 oc3 n s b)) = bd_commit b"
proof -
  obtain r b1 where bk: "BackupMonitoring lib oc1 n b = (r, b1)" by fastforce
  have "bd_pending b1 = bd_pending b" "bd_commit b1 = bd_commit b" using BackupMonitoring_frame [of lib oc1 n b] bk by auto
  then show ?thesis
    by (auto simp: BeginMonitoringUnbind_def bk Let_def DiscardMonitoringBackup_frame split: prod.splits sum.splits option.splits list.splits bool.splits)
qed

lemma unbind_backup_frame:
  "bd_pending (snd (RestoreMonitoringUnbind lib oc m b)) = bd_pending b" "bd_commit (snd (RestoreMonitoringUnbind lib oc m b)) = bd_commit b"
  "bd_pending (snd (DiscardWebsiteUnbindBackup oc m b)) = bd_pending b" "bd_commit (snd (DiscardWebsiteUnbindBackup oc m b)) = bd_commit b"
  "bd_pending (snd (DiscardMonitoringUnbindBackup oc m b)) = bd_pending b" "bd_commit (snd (DiscardMonitoringUnbindBackup oc m b)) = bd_commit b"
  by (auto simp: RestoreMonitoringUnbind_def RestoreMonitoring_frame DiscardWebsiteUnbindBackup_def DiscardWebsiteBackup_frame
      DiscardMonitoringUnbindBackup_def DiscardMonitoringBackup_frame)

lemma ClearPending_frame: "bd_commit (snd (ClearPending oc d b)) = bd_commit b"
  by (auto simp: ClearPending_def split: prod.splits)

lemma PreparePending_frame: "bd_commit (snd (PreparePendingLocked lib oc i now d fp t b)) = bd_commit b"
  by (auto simp: PreparePendingLocked_def Let_def split: prod.splits sum.splits option.splits)

lemma beginCommit_frame: "bd_pending (snd (beginCommit oc d i e b)) = bd_pending b"
  by (auto simp: beginCommit_def Let_def split: prod.splits sum.splits option.splits)

lemma finishCommit_frame: "bd_pending (snd (finishCommit oc d b)) = bd_pending b"
  by (auto simp: finishCommit_def split: prod.splits sum.splits option.splits)

lemmas bind_frames = Save_binding_frame SaveMonitoring_frame BackupWebsite_frame RemoveWebsite_frame RestoreWebsite_frame
  DiscardWebsiteBackup_frame LoadOrCreateDeviceID_frame finishUnbind_frame BeginWebsiteUnbind_frame RestoreWebsiteUnbind_frame
  ClearPending_frame PreparePending_frame beginCommit_frame finishCommit_frame
  BackupMonitoring_frame RemoveMonitoring_frame RestoreMonitoring_frame DiscardMonitoringBackup_frame BeginMonitoringUnbind_frame
  unbind_backup_frame

subsection \<open>The pending request\<close>

definition clears :: "domain \<Rightarrow> bind_op \<Rightarrow> bool" where
  "clears d p \<longleftrightarrow> (\<exists>oc. p = Clear oc d)"

lemma Prepare_keeps:
  assumes "loadPending lib d b = Inr (Some v)"
  shows "bd_pending (snd (PreparePendingLocked lib oc i now e fp t b)) d = bd_pending b d"
  using assms by (cases "e = d") (auto simp: PreparePendingLocked_def Let_def split: prod.splits sum.splits option.splits)

lemma Clear_other: "e \<noteq> d \<Longrightarrow> bd_pending (snd (ClearPending oc e b)) d = bd_pending b d"
  by (auto simp: ClearPending_def split: prod.splits)

lemma step_keeps_pending:
  assumes "loadPending (web_lib.truncate lib) d b = Inr (Some v)" "\<not> clears d p"
  shows "bd_pending (bind_step lib p b) d = bd_pending b d"
  using assms Prepare_keeps [OF assms(1)] Clear_other
  by (cases p) (auto simp: bind_frames clears_def)

lemma loadPending_cong: "bd_pending b d = bd_pending b' d \<Longrightarrow> loadPending lib d b = loadPending lib d b'"
  by (simp add: loadPending_def)

lemma run_keeps_pending:
  assumes "loadPending (web_lib.truncate lib) d b = Inr (Some v)" "\<forall>p \<in> set ops. \<not> clears d p"
  shows "loadPending (web_lib.truncate lib) d (bind_run lib ops b) = Inr (Some v)"
  using assms
proof (induction ops arbitrary: b)
  case (Cons p ops)
  have "loadPending (web_lib.truncate lib) d (bind_step lib p b) = Inr (Some v)"
    using step_keeps_pending [OF Cons.prems(1), of p] Cons.prems loadPending_cong by (metis list.set_intros(1))
  then show ?case using Cons by (simp add: bind_run_def)
qed (simp add: bind_run_def)

lemma domain_name_inject: "domain_name d = domain_name e \<longleftrightarrow> d = e"
  by (cases d; cases e) simp_all

lemma Prepare_stored:
  assumes "PreparePendingLocked lib oc i now d fp t b = (Inr (rid, tm), b1)"
    and "\<forall>k. i = Some k \<longrightarrow> uuidID k" and "\<not> is_zero_time (to_utc now)"
  shows "\<exists>v. loadPending lib d b1 = Inr (Some v) \<and> pq_Kind v = domain_name d \<and> pq_Fingerprint v = fp \<and>
    pq_RequestID v = rid \<and> pq_Template v = tm"
proof -
  have ok: "hexDigest fp" "Template_Validate lib t d"
    using assms(1) by (auto simp: PreparePendingLocked_def split: if_splits)
  show ?thesis
  proof (cases "loadPending lib d b")
    case (Inl e)
    then show ?thesis using assms(1) ok by (simp add: PreparePendingLocked_def)
  next
    case (Inr r)
    show ?thesis
    proof (cases r)
      case (Some v)
      then show ?thesis using assms(1) ok Inr by (auto simp: PreparePendingLocked_def split: if_splits)
    next
      case None
      then obtain k where k: "i = Some k" using assms(1) ok Inr by (auto simp: PreparePendingLocked_def split: option.splits)
      define v where "v = \<lparr>pq_SchemaVersion = 2, pq_Kind = domain_name d, pq_RequestID = k, pq_Fingerprint = fp,
        pq_Template = t, pq_CreatedAt = to_utc now\<rparr>"
      obtain okw f where w: "write_private oc v (bd_pending b d) = (okw, f)" by fastforce
      have "okw" "b1 = b\<lparr>bd_pending := (bd_pending b)(d := f)\<rparr>" "rid = k" "tm = t"
        using assms(1) ok Inr None k w by (auto simp: PreparePendingLocked_def Let_def v_def [symmetric] split: if_splits)
      moreover have "f = Holds v" using w \<open>okw\<close> write_private_ok by auto
      moreover have "pending_ok lib v" using ok k assms(2,3) by (cases d) (auto simp: pending_ok_def v_def)
      ultimately show ?thesis by (auto simp: loadPending_def v_def)
    qed
  qed
qed

text \<open>
  C16: An enrollment keeps one request identifier.  Once \<open>PreparePendingLocked\<close> has answered, every
  later call for the same domain and input gives the same identifier and template and every call for
  another input is refused, through any operations, failures and crashes, until the pending request
  is cleared.
\<close>

theorem pending_request_stable:
  assumes "PreparePendingLocked (web_lib.truncate lib) oc i now d fp t b = (Inr (rid, tm), b1)"
    and "\<forall>k. i = Some k \<longrightarrow> uuidID k" and "\<not> is_zero_time (to_utc now)"
    and "\<forall>p \<in> set ops. \<not> clears d p"
  shows "LoadPendingTemplate (web_lib.truncate lib) d (bind_run lib ops b1) = Inr (rid, tm) \<and>
    (\<forall>oc' i' now' fp' t'. hexDigest fp' \<longrightarrow> Template_Validate (web_lib.truncate lib) t' d \<longrightarrow>
      PreparePendingLocked (web_lib.truncate lib) oc' i' now' d fp' t' (bind_run lib ops b1) =
        (if fp' = fp then Inr (rid, tm) else Inl PendingConflict, bind_run lib ops b1))"
proof -
  obtain v where v: "loadPending (web_lib.truncate lib) d b1 = Inr (Some v)" "pq_Kind v = domain_name d"
      "pq_Fingerprint v = fp" "pq_RequestID v = rid" "pq_Template v = tm"
    using Prepare_stored [OF assms(1-3)] by blast
  note run = run_keeps_pending [OF v(1) assms(4)]
  then show ?thesis using v by (auto simp: LoadPendingTemplate_def PreparePendingLocked_def)
qed

subsection \<open>Interrupted bindings\<close>

definition finishes :: "domain \<Rightarrow> bind_op \<Rightarrow> bool" where
  "finishes d p \<longleftrightarrow> (\<exists>oc. p = Finish oc d)"

lemma readCommit_none: "readCommit d b = Inr None \<longleftrightarrow> bd_commit b d = Absent"
  by (cases "bd_commit b d") (auto simp: readCommit_def)

lemma begin_keeps:
  assumes "bd_commit b d \<noteq> Absent"
  shows "bd_commit (snd (beginCommit oc e i n b)) d \<noteq> Absent"
proof (cases "e = d")
  case True
  then have "readCommit e b \<noteq> Inr None" using assms readCommit_none by simp
  then show ?thesis using assms True
    by (auto simp: beginCommit_def Let_def split: prod.splits sum.splits option.splits)
qed (use assms in \<open>auto simp: beginCommit_def Let_def split: prod.splits sum.splits option.splits\<close>)

lemma finish_other: "e \<noteq> d \<Longrightarrow> bd_commit (snd (finishCommit oc e b)) d = bd_commit b d"
  by (auto simp: finishCommit_def split: prod.splits sum.splits option.splits)

lemma run_keeps_marker:
  assumes "bd_commit b d \<noteq> Absent" "\<forall>p \<in> set ops. \<not> finishes d p"
  shows "bd_commit (bind_run lib ops b) d \<noteq> Absent"
  using assms
proof (induction ops arbitrary: b)
  case (Cons p ops)
  have "bd_commit (bind_step lib p b) d \<noteq> Absent"
    using Cons.prems begin_keeps [OF Cons.prems(1)] finish_other
    by (cases p) (auto simp: bind_frames finishes_def)
  then show ?case using Cons by (simp add: bind_run_def)
qed (simp add: bind_run_def)

lemma begin_marks: "beginCommit oc d i n b = (None, b1) \<Longrightarrow> bd_commit b1 d \<noteq> Absent"
  by (auto simp: beginCommit_def Let_def split: if_splits prod.splits sum.splits option.splits dest: write_exclusive_ok)

lemma Resolve_blocked:
  assumes "bd_commit b d \<noteq> Absent"
  shows "\<exists>e. Resolve lib lookup c b = Inl e"
proof -
  have "readCommit d b \<noteq> Inr None" using assms readCommit_none by simp
  then have "pending_or_error (readCommit d b)" by (auto simp: pending_or_error_def split: sum.splits)
  then have "bindings_stable lib c b = Inl ''binding transaction is incomplete''"
    by (cases d) (auto simp: bindings_stable_def)
  then show ?thesis by (auto simp: Resolve_def sum_bind_def Let_def)
qed

text \<open>
  C15: An interrupted binding is never used.  Once a commit marker was written, or its name was
  reserved by a write that failed, no credential of either domain is resolved under any
  configuration, through any operations, failures and crashes, until the commit of that domain is
  finished.
\<close>

theorem interrupted_binding_blocks_credentials:
  assumes "beginCommit oc d i n b = (r, b1)" and "r = None \<or> bd_commit b1 d \<noteq> Absent"
    and "\<forall>p \<in> set ops. \<not> finishes d p"
  shows "\<exists>e. Resolve lib lookup c (bind_run lib ops b1) = Inl e"
proof -
  have "bd_commit b1 d \<noteq> Absent" using assms(1,2) begin_marks by auto
  then show ?thesis using run_keeps_marker [OF _ assms(3)] Resolve_blocked by blast
qed

subsection \<open>Where credentials go\<close>

lemma sum_bind_Inr: "sum_bind x f = Inr y \<longleftrightarrow> (\<exists>a. x = Inr a \<and> f a = Inr y)"
  by (cases x) (auto simp: sum_bind_def)

lemma guard_err_Inr [simp]: "guard_err p e = Inr u \<longleftrightarrow> p"
  by (auto simp: guard_err_def)

lemma when_needed_Inr: "when_needed p z x = Inr y \<longleftrightarrow> (if p then x = Inr y else y = z)"
  by (auto simp: when_needed_def)

lemmas sum_intro = sum_bind_Inr when_needed_Inr

definition carries :: "destination_secret \<Rightarrow> string \<Rightarrow> string \<Rightarrow> u64 \<Rightarrow> bool" where
  "carries x keyID secret epoch \<longleftrightarrow>
     ds_KeyID x = keyID \<and> ds_CredentialEpoch x = epoch \<and> ds_Bearer x = [] \<and> decodeBoundSecret secret 16 4096 = Some (ds_Secret x)"

lemma destinationSecret_carries:
  "destinationSecret h e = Inr x \<Longrightarrow> carries x (hc_KeyID h) (hc_Secret h) e"
  by (auto simp: destinationSecret_def carries_def split: option.splits)

text \<open>The address has the origin of the endpoint that issued the binding.\<close>

definition at_origin :: "enroll_lib \<Rightarrow> string \<Rightarrow> string \<Rightarrow> bool" where
  "at_origin lib bound addr \<longleftrightarrow>
     (\<exists>u. parseSecureURL (web_lib.truncate lib) bound = Some u \<and> safe_endpoint (web_lib.truncate lib) u addr)"

definition website_bound :: "enroll_lib \<Rightarrow> agent_config \<Rightarrow> binding_state \<Rightarrow> secrets \<Rightarrow> bool" where
  "website_bound lib c s x \<longleftrightarrow>
     cf_Identity c = bs_Identity s \<and> se_WebsiteBindingID x = bs_BindingID s \<and>
     se_ControlSigningKeyID x = sg_KeyID (bs_CommandSigningCredential s) \<and>
     (dc_Enabled (cf_WebsiteMetering c) \<longrightarrow>
        dc_URL (cf_WebsiteMetering c) = ep_Metering (bs_Endpoints s) \<and>
        at_origin lib (bs_BindingEndpoint s) (dc_URL (cf_WebsiteMetering c)) \<and>
        carries (se_WebsiteMetering x) (hc_KeyID (hs_Metering (bs_HMACCredentials s)))
          (hc_Secret (hs_Metering (bs_HMACCredentials s))) (bs_CredentialEpoch s)) \<and>
     (dc_Enabled (cf_WebsiteTelemetry c) \<longrightarrow>
        dc_URL (cf_WebsiteTelemetry c) = ep_Telemetry (bs_Endpoints s) \<and>
        at_origin lib (bs_BindingEndpoint s) (dc_URL (cf_WebsiteTelemetry c)) \<and>
        carries (se_WebsiteTelemetry x) (hc_KeyID (hs_Telemetry (bs_HMACCredentials s)))
          (hc_Secret (hs_Telemetry (bs_HMACCredentials s))) (bs_CredentialEpoch s)) \<and>
     (cf_RefreshURL c \<noteq> [] \<longrightarrow>
        cf_RefreshURL c = ep_Assignments (bs_Endpoints s) \<and>
        at_origin lib (bs_BindingEndpoint s) (cf_RefreshURL c) \<and>
        carries (se_Assignments x) (hc_KeyID (hs_Assignments (bs_HMACCredentials s)))
          (hc_Secret (hs_Assignments (bs_HMACCredentials s))) (bs_CredentialEpoch s)) \<and>
     (cc_Enabled (cf_Control c) \<and> cc_PollURL (cf_Control c) \<noteq> [] \<longrightarrow>
        cc_PollURL (cf_Control c) = ep_Commands (bs_Endpoints s) \<and> cc_ResultURL (cf_Control c) = ep_Receipts (bs_Endpoints s) \<and>
        at_origin lib (bs_BindingEndpoint s) (cc_PollURL (cf_Control c)) \<and>
        at_origin lib (bs_BindingEndpoint s) (cc_ResultURL (cf_Control c)) \<and>
        set (cc_AllowedActions (cf_Control c)) \<subseteq> set (bs_AllowedActions s) \<and>
        carries (se_ControlAPI x) (hc_KeyID (hs_Commands (bs_HMACCredentials s)))
          (hc_Secret (hs_Commands (bs_HMACCredentials s))) (bs_CredentialEpoch s) \<and>
        carries (se_ControlReceipts x) (hc_KeyID (hs_Receipts (bs_HMACCredentials s)))
          (hc_Secret (hs_Receipts (bs_HMACCredentials s))) (bs_CredentialEpoch s))"

definition monitoring_bound :: "enroll_lib \<Rightarrow> agent_config \<Rightarrow> monitoring_state \<Rightarrow> secrets \<Rightarrow> bool" where
  "monitoring_bound lib c s x \<longleftrightarrow>
     se_MonitoringBindingID x = ms_BindingID s \<and> se_DeviceID x = ms_DeviceID s \<and>
     dc_URL (cf_Monitoring c) = ms_IngestEndpoint s \<and> at_origin lib (ms_BindingEndpoint s) (dc_URL (cf_Monitoring c)) \<and>
     Some (dc_URL (cf_MonitoringAudit c)) = AuditEndpoint lib (dc_URL (cf_Monitoring c)) \<and>
     carries (se_Monitoring x) (mc_KeyID (ms_HMACCredential s)) (mc_Secret (ms_HMACCredential s)) (ms_CredentialEpoch s) \<and>
     se_MonitoringAudit x = se_Monitoring x"

lemma Load_valid: "Load_binding lib b = Inr (Some s) \<Longrightarrow> State_Validate lib s"
  by (auto simp: Load_binding_def split: sum.splits option.splits if_splits)

lemma LoadMonitoring_valid: "LoadMonitoring lib b = Inr (Some s) \<Longrightarrow> Monitoring_Validate lib s"
  by (auto simp: LoadMonitoring_def split: sum.splits option.splits if_splits)

lemma valid_endpoints:
  assumes "State_Validate lib s" "e \<in> set (endpoint_list (bs_Endpoints s))"
  shows "at_origin lib (bs_BindingEndpoint s) e"
  using assms
  by (auto simp: State_Validate_def at_origin_def Response_Validate_def State_Response_def list_all_iff split: option.splits)

lemma sum_bind_E:
  assumes "sum_bind x f = Inr y"
  obtains a where "x = Inr a" "f a = Inr y"
  using assms unfolding sum_bind_Inr by blast

lemma bound_secret_carries:
  "bound_secret on kept matches e h n = Inr x \<Longrightarrow> on \<Longrightarrow> matches \<and> carries x (hc_KeyID h) (hc_Secret h) n"
  using destinationSecret_carries by (auto simp: bound_secret_def sum_intro)

lemma website_control_carries:
  assumes "website_control c s x = Inr (k, l, w)" "cc_Enabled (cf_Control c)" "cc_PollURL (cf_Control c) \<noteq> []"
  shows "cc_PollURL (cf_Control c) = ep_Commands (bs_Endpoints s)" "cc_ResultURL (cf_Control c) = ep_Receipts (bs_Endpoints s)"
    "set (cc_AllowedActions (cf_Control c)) \<subseteq> set (bs_AllowedActions s)"
    "carries k (hc_KeyID (hs_Commands (bs_HMACCredentials s))) (hc_Secret (hs_Commands (bs_HMACCredentials s))) (bs_CredentialEpoch s)"
    "carries l (hc_KeyID (hs_Receipts (bs_HMACCredentials s))) (hc_Secret (hs_Receipts (bs_HMACCredentials s))) (bs_CredentialEpoch s)"
  using assms destinationSecret_carries
  by (auto simp: website_control_def Let_def sum_intro allowedSubset_def list_all_iff)

lemma applyWebsite_form:
  assumes "applyWebsite c s x = Inr y"
  shows "\<exists>m t a k p q w. cf_Identity c = bs_Identity s \<and> website_metering c s x = Inr m \<and> website_telemetry c s x = Inr t \<and>
    website_assignments c s x = Inr a \<and> website_control c s x = Inr (p, q, w) \<and>
    y = x\<lparr>se_WebsiteMetering := m, se_WebsiteTelemetry := t, se_Assignments := a,
       se_ControlSigningKeyID := sg_KeyID (bs_CommandSigningCredential s), se_ControlPublicKey := k,
       se_ControlAPI := p, se_ControlReceipts := q, se_ControlCommandSecret := w,
       se_DeviceID := bs_DeviceID s, se_WebsiteBindingID := bs_BindingID s, se_WebsiteCredentialEpoch := bs_CredentialEpoch s\<rparr>"
  using assms unfolding applyWebsite_def
  by (elim sum_bind_E) (simp only: guard_err_Inr split: prod.split_asm, blast)

lemma applyWebsite_bound:
  assumes "applyWebsite c s x = Inr y" "State_Validate lib s"
  shows "website_bound lib c s y"
proof -
  have e: "at_origin lib (bs_BindingEndpoint s) e'" if "e' \<in> set (endpoint_list (bs_Endpoints s))" for e'
    using valid_endpoints [OF assms(2) that] .
  obtain m t a k p q w where f: "cf_Identity c = bs_Identity s" "website_metering c s x = Inr m" "website_telemetry c s x = Inr t"
      "website_assignments c s x = Inr a" "website_control c s x = Inr (p, q, w)"
    and y: "y = x\<lparr>se_WebsiteMetering := m, se_WebsiteTelemetry := t, se_Assignments := a,
       se_ControlSigningKeyID := sg_KeyID (bs_CommandSigningCredential s), se_ControlPublicKey := k,
       se_ControlAPI := p, se_ControlReceipts := q, se_ControlCommandSecret := w,
       se_DeviceID := bs_DeviceID s, se_WebsiteBindingID := bs_BindingID s, se_WebsiteCredentialEpoch := bs_CredentialEpoch s\<rparr>"
    using applyWebsite_form [OF assms(1)] by blast
  note routes = f(2-4) [unfolded website_metering_def website_telemetry_def website_assignments_def Let_def,
      THEN bound_secret_carries]
  show ?thesis unfolding website_bound_def y
    using f(1) routes website_control_carries [OF f(5)] by (auto simp: endpoint_list_def intro!: e)
qed

lemma applyMonitoring_form:
  assumes "applyMonitoring lib c s x = Inr y"
  shows "\<exists>d. y = x\<lparr>se_Monitoring := d, se_MonitoringAudit := d, se_MonitoringAgentRef := ms_MonitoringAgentRef s,
      se_MonitoringBindingID := ms_BindingID s, se_DeviceID := ms_DeviceID s\<rparr> \<and>
    carries d (mc_KeyID (ms_HMACCredential s)) (mc_Secret (ms_HMACCredential s)) (ms_CredentialEpoch s) \<and>
    dc_URL (cf_Monitoring c) = ms_IngestEndpoint s \<and> AuditEndpoint lib (ms_IngestEndpoint s) = Some (dc_URL (cf_MonitoringAudit c)) \<and>
    (se_DeviceID x = [] \<or> se_DeviceID x = ms_DeviceID s)"
proof -
  obtain a where a: "AuditEndpoint lib (ms_IngestEndpoint s) = Some a"
    using assms by (auto simp: applyMonitoring_def split: option.splits)
  obtain k where k: "decodeBoundSecret (mc_Secret (ms_HMACCredential s)) 16 4096 = Some k"
    using assms by (auto simp: applyMonitoring_def Let_def split: option.splits if_splits)
  show ?thesis
    using assms unfolding applyMonitoring_def Let_def a k option.case
    by (simp only: split: if_splits) (auto simp: carries_def a k)
qed

lemma applyMonitoring_bound:
  assumes "applyMonitoring lib c s x = Inr y" "Monitoring_Validate lib s"
  shows "monitoring_bound lib c s y"
proof -
  have "at_origin lib (ms_BindingEndpoint s) (ms_IngestEndpoint s)"
    using assms(2) by (auto simp: Monitoring_Validate_def at_origin_def Monitor_Response_Validate_def Monitoring_Response_def split: option.splits)
  then show ?thesis using applyMonitoring_form [OF assms(1)] by (auto simp: monitoring_bound_def)
qed

lemma applyMonitoring_keeps:
  assumes "applyMonitoring lib c s x = Inr y"
  shows "website_bound lib c' w y = website_bound lib c' w x" "se_DeviceID x = [] \<or> se_DeviceID x = se_DeviceID y"
proof -
  obtain d where y: "y = x\<lparr>se_Monitoring := d, se_MonitoringAudit := d, se_MonitoringAgentRef := ms_MonitoringAgentRef s,
      se_MonitoringBindingID := ms_BindingID s, se_DeviceID := ms_DeviceID s\<rparr>" "se_DeviceID x = [] \<or> se_DeviceID x = ms_DeviceID s"
    using applyMonitoring_form [OF assms] by blast
  show "website_bound lib c' w y = website_bound lib c' w x" unfolding website_bound_def y(1) by simp
  show "se_DeviceID x = [] \<or> se_DeviceID x = se_DeviceID y" using y by simp
qed

lemma applyWebsite_device: "applyWebsite c s x = Inr y \<Longrightarrow> se_DeviceID y = bs_DeviceID s"
  using applyWebsite_form [of c s x y] by auto

text \<open>
  C14: Credentials stay with the service that issued them.  When \<open>Resolve\<close> succeeds with a website
  binding in use, the configured identity is the bound one; the address of every enabled website
  destination, of the assignment refresh and of the command and receipt exchanges is exactly the endpoint the
  binding names for that use and has the origin of the binding endpoint; each carries exactly the
  credential issued for it, with no more actions than granted.  A monitoring binding in use gives its credential
  to its ingest endpoint and the audit route of that endpoint only, and both bindings name one device.
\<close>

theorem credentials_stay_at_issuer:
  assumes "Resolve lib lookup c b = Inr x"
  shows "(usesWebsite c \<longrightarrow>
      (\<exists>s. Load_binding lib b = Inr (Some s) \<and> website_bound lib c s x \<and> se_DeviceID x = bs_DeviceID s)) \<and>
    (usesMonitoring c \<longrightarrow> (\<exists>m. LoadMonitoring lib b = Inr (Some m) \<and> monitoring_bound lib c m x))"
proof -
  obtain y z where y: "(if usesWebsite c then resolve_website lib c b y else Inr y) = Inr z"
      "(if usesMonitoring c then resolve_monitoring lib c b z else Inr z) = Inr x"
    using assms unfolding Resolve_def
    by (cases "list_ex unknown_label (configLabels c)") (simp, simp only: if_False sum_bind_Inr, blast)
  have m: "\<exists>m. LoadMonitoring lib b = Inr (Some m) \<and> applyMonitoring lib c m z = Inr x" if "usesMonitoring c"
    using y(2) that by (auto simp: resolve_monitoring_def split: sum.splits option.splits)
  have w: "\<exists>s. Load_binding lib b = Inr (Some s) \<and> applyWebsite c s y = Inr z" if "usesWebsite c"
    using y(1) that by (auto simp: resolve_website_def split: sum.splits option.splits)
  have "\<exists>s. Load_binding lib b = Inr (Some s) \<and> website_bound lib c s x \<and> se_DeviceID x = bs_DeviceID s" if web: "usesWebsite c"
  proof -
    obtain s where s: "Load_binding lib b = Inr (Some s)" "applyWebsite c s y = Inr z" using w [OF web] by blast
    have wz: "website_bound lib c s z" "se_DeviceID z = bs_DeviceID s" "bs_DeviceID s \<noteq> []"
      using applyWebsite_bound [OF s(2) Load_valid [OF s(1)]] applyWebsite_device [OF s(2)] Load_valid [OF s(1)]
      by (auto simp: State_Validate_def safeID_def)
    show ?thesis
    proof (cases "usesMonitoring c")
      case True
      then show ?thesis using m s(1) wz applyMonitoring_keeps by metis
    qed (use s(1) wz y(2) in auto)
  qed
  moreover have "\<exists>m. LoadMonitoring lib b = Inr (Some m) \<and> monitoring_bound lib c m x" if "usesMonitoring c"
    using m [OF that] applyMonitoring_bound LoadMonitoring_valid by blast
  ultimately show ?thesis by blast
qed

subsection \<open>A removal that could not begin\<close>

lemma BackupWebsite_stored:
  assumes "Load_binding lib b = Inr (Some s)" "bd_backups b name \<notin> {Irregular, Exposed}"
    and "name = ''binding-state.backup.'' @ stamp @ ''.json''"
  shows "BackupWebsite lib IoOk stamp b = (Inr name, b\<lparr>bd_backups := (bd_backups b)(name := Holds s)\<rparr>)"
proof -
  have "write_private IoOk s (bd_backups b name) = (True, Holds s)"
    using assms(2) by (cases "bd_backups b name") auto
  then show ?thesis using assms(1,3) by (simp add: BackupWebsite_def Let_def)
qed

lemma backup_name: "website_backup_name (''binding-state.backup.'' @ stamp @ ''.json'')"
proof -
  have "has_suffix ''.json'' ((''binding-state.backup.'' @ stamp) @ ''.json'')" by (rule has_suffix_append)
  then show ?thesis by (simp add: website_backup_name_def has_prefix_def)
qed

text \<open>
  C39: When the journal of a removal is written completely and only its final sync fails,
  \<open>BeginWebsiteUnbind\<close> reports an error and discards the backup the journal names: the journal stays,
  no credential is resolved any more for a configuration that still uses the binding, and restoring
  the preimage named by the journal fails for ever, although the bound state was never touched.
\<close>

theorem failed_removal_strands_binding:
  fixes b :: bindings
  assumes "Load_binding lib b = Inr (Some s)" "bd_unbind b Website = Absent"
    and "name = ''binding-state.backup.'' @ stamp @ ''.json''" "bd_backups b name \<notin> {Irregular, Exposed}"
    and "m = \<lparr>ub_SchemaVersion = 1, ub_Domain = ''website'', ub_BindingID = bs_BindingID s,
      ub_CredentialEpoch = bs_CredentialEpoch s, ub_StateBackup = name\<rparr>" "validUnbindCommit m"
    and "\<not> websiteRemovalConfigApplied c"
  shows "\<exists>e b1. BeginWebsiteUnbind lib IoOk ExclUnsynced IoOk stamp s b = (Inl e, b1) \<and> bd_state b1 = bd_state b \<and>
    readUnbind Website b1 = Inr (Some m) \<and> (\<exists>e'. Resolve lib lookup c b1 = Inl e') \<and>
    (\<forall>oc. fst (RestoreWebsiteUnbind lib oc m b1) \<noteq> None)"
proof -
  define b2 where "b2 = b\<lparr>bd_backups := (bd_backups b)(name := Holds s), bd_unbind := (bd_unbind b)(Website := Holds m)\<rparr>"
  define b1 where "b1 = b2\<lparr>bd_backups := (bd_backups b2)(name := Absent)\<rparr>"
  have bk: "BackupWebsite lib IoOk stamp b = (Inr name, b\<lparr>bd_backups := (bd_backups b)(name := Holds s)\<rparr>)"
    using BackupWebsite_stored [OF assms(1,4,3)] .
  obtain k ks where ks: "name = k # ks" using assms(3) by simp
  have bn: "website_backup_name name" using assms(3) backup_name by simp
  have disc: "snd (DiscardWebsiteBackup IoOk name b2) = b1"
    using bn ks by (simp add: DiscardWebsiteBackup_def b1_def b2_def)
  have valid: "State_Validate lib s" using Load_valid [OF assms(1)] .
  have none: "readUnbind Website b = Inr None" using assms(2) by (simp add: readUnbind_def)
  have "BeginWebsiteUnbind lib IoOk ExclUnsynced IoOk stamp s b = (Inl ''write binding removal transaction'', b1)"
    using valid none bk ks disc assms(2,5,6) unfolding BeginWebsiteUnbind_def b2_def by (simp add: Let_def)
  moreover have "bd_state b1 = bd_state b" by (simp add: b1_def b2_def)
  moreover have journal: "readUnbind Website b1 = Inr (Some m)"
    using assms(5,6) by (simp add: readUnbind_def b1_def b2_def)
  moreover have "fst (RestoreWebsiteUnbind lib oc m b1) \<noteq> None" for oc
    using assms(5,6) bn ks by (simp add: RestoreWebsiteUnbind_def RestoreWebsite_def b1_def)
  moreover have "\<exists>e'. Resolve lib lookup c b1 = Inl e'"
  proof -
    have "\<exists>e'. bindings_stable lib c b1 = Inl e'"
      using journal assms(7) by (auto simp: bindings_stable_def pending_or_error_def is_error_def)
    then show ?thesis by (auto simp: Resolve_def sum_bind_def)
  qed
  ultimately show ?thesis by blast
qed

lemma BeginWebsiteUnbind_ok:
  assumes "BeginWebsiteUnbind lib oc1 oc2 oc3 stamp t b = (Inr m, b1)" "Load_binding lib b = Inr (Some s)"
  shows "validUnbindCommit m" "ub_Domain m = ''website''" "ub_StateBackup m = ''binding-state.backup.'' @ stamp @ ''.json''"
    "bd_backups b1 (ub_StateBackup m) = Holds s" "bd_state b1 = Holds s" "bd_monitoring b1 = bd_monitoring b" "bd_pending b1 = bd_pending b"
proof -
  define name where "name = ''binding-state.backup.'' @ stamp @ ''.json''"
  define n where "n = \<lparr>ub_SchemaVersion = 1, ub_Domain = ''website'', ub_BindingID = bs_BindingID t, ub_CredentialEpoch = bs_CredentialEpoch t, ub_StateBackup = name\<rparr>"
  have ne: "name \<noteq> []" by (simp add: name_def)
  obtain k ks where ks: "name = k # ks" using ne by (cases name) auto
  obtain ok f where w: "write_private oc1 s (bd_backups b name) = (ok, f)" by (cases "write_private oc1 s (bd_backups b name)")
  have bk: "BackupWebsite lib oc1 stamp b =
      (if ok then Inr name else Inl ''write binding backup'', b\<lparr>bd_backups := (bd_backups b)(name := f)\<rparr>)"
    unfolding BackupWebsite_def Let_def name_def [symmetric] using w assms(2) by simp
  obtain ok2 g where x: "write_exclusive oc2 n (bd_unbind b Website) = (ok2, g)" by (cases "write_exclusive oc2 n (bd_unbind b Website)")
  have all: "ok \<and> validUnbindCommit n \<and> ok2 \<and> m = n \<and> b1 = b\<lparr>bd_backups := (bd_backups b)(name := f), bd_unbind := (bd_unbind b)(Website := g)\<rparr>"
    using assms(1) bk ks x unfolding BeginWebsiteUnbind_def Let_def
    by (cases ok; cases ok2) (simp_all add: n_def split: if_splits sum.splits option.splits)
  have "f = Holds s" using w all by (cases oc1; cases "bd_backups b name") auto
  then show "validUnbindCommit m" "ub_Domain m = ''website''" "bd_backups b1 (ub_StateBackup m) = Holds s" "bd_monitoring b1 = bd_monitoring b" "bd_pending b1 = bd_pending b"
    using all by (simp_all add: n_def)
  have "ub_StateBackup m = name" using all by (simp add: n_def)
  then show "ub_StateBackup m = ''binding-state.backup.'' @ stamp @ ''.json''" unfolding name_def .
  have "bd_state b = Holds s" using assms(2) by (cases "bd_state b") (auto simp: Load_binding_def split: if_splits)
  then show "bd_state b1 = Holds s" using all by simp
qed

text \<open>
  C20: A removal that is aborted before it is committed gives the old binding back: after the removal journal was written,
  whatever became of the deletion of the state file, restoring from the journal puts exactly the old state back in place,
  and the monitoring domain is not touched.
\<close>
theorem aborted_removal_restores:
  assumes "Load_binding lib b = Inr (Some s)" "BeginWebsiteUnbind lib oc1 oc2 oc3 stamp t b = (Inr m, b1)"
    and "RemoveWebsite oc4 b1 = (e, b2)"
  shows "\<exists>b3. RestoreWebsiteUnbind lib IoOk m b2 = (None, b3) \<and> Load_binding lib b3 = Inr (Some s) \<and>
    bd_monitoring b3 = bd_monitoring b \<and> bd_pending b3 = bd_pending b"
proof -
  note k = BeginWebsiteUnbind_ok [OF assms(2, 1)]
  obtain ok f where f: "remove_private oc4 (bd_state b1) = (ok, f)" by (cases "remove_private oc4 (bd_state b1)")
  then have b2: "b2 = b1\<lparr>bd_state := f\<rparr>" using assms(3) by (simp add: RemoveWebsite_def)
  have "f = Absent \<or> f = Holds s" using f k(5) by (cases oc4) auto
  then have w: "write_private IoOk s f = (True, Holds s)" by auto
  have valid: "State_Validate lib s" using Load_valid [OF assms(1)] .
  have n: "website_backup_name (ub_StateBackup m)" "ub_StateBackup m \<noteq> []" using backup_name k(3) by simp_all
  have "RestoreWebsiteUnbind lib IoOk m b2 = (None, b2\<lparr>bd_state := Holds s\<rparr>)"
    using k(1, 2, 4) n valid w unfolding b2 by (simp add: RestoreWebsiteUnbind_def RestoreWebsite_def Save_binding_def)
  then show ?thesis using valid k(6, 7) unfolding b2 by (simp add: Load_binding_def)
qed

subsection \<open>Examples\<close>

definition ex_site :: url where
  "ex_site = \<lparr>u_Scheme = ''https'', u_Opaque = [], u_User = False, u_Host = ''site.example'', u_Hostname = ''site.example'',
     u_Port = [], u_Path = ''/bind'', u_EscapedPath = ''/bind'', u_ForceQuery = False, u_RawQuery = [], u_Fragment = []\<rparr>"

definition ex_enroll_lib :: enroll_lib where
  "ex_enroll_lib = \<lparr>wl_parse_url = (\<lambda>_. Some ex_site), wl_parse_ipv6 = (\<lambda>_. None), el_object = (\<lambda>_. Some True),
     el_marshal = (\<lambda>_. Some ''{}''), el_response = (\<lambda>_. None), el_monitor_response = (\<lambda>_. None),
     el_rejection = (\<lambda>_. None), el_url_string = (\<lambda>_. ''https://site.example/'')\<rparr>"

definition ex_secret :: hmac_credential where
  "ex_secret = \<lparr>hc_KeyID = ''key-1'', hc_Secret = base64_encode (replicate 16 7)\<rparr>"

definition ex_binding :: binding_state where
  "ex_binding = \<lparr>bs_SchemaVersion = 1, bs_BindingEndpoint = ''https://site.example/bind'',
     bs_BindingID = ''123e4567-e89b-42d3-a456-426614174000'', bs_DeviceID = ''device-1'', bs_CredentialEpoch = 1,
     bs_IssuedAt = GoTime 1 UTC,
     bs_Identity = \<lparr>pi_AgentRef = ''ag-1'', pi_CollectorRef = ''co-1'', pi_SourceRef = ''so-1'', pi_ClusterRef = ''cl-1'',
       pi_NodeRef = ''no-1'', pi_Site = ''si-1''\<rparr>,
     bs_Endpoints = \<lparr>ep_Metering = ''https://site.example/m'', ep_Telemetry = ''https://site.example/t'',
       ep_Assignments = ''https://site.example/a'', ep_Commands = ''https://site.example/c'', ep_Receipts = ''https://site.example/r''\<rparr>,
     bs_HMACCredentials = \<lparr>hs_Metering = ex_secret, hs_Telemetry = ex_secret, hs_Assignments = ex_secret,
       hs_Commands = ex_secret, hs_Receipts = ex_secret\<rparr>,
     bs_CommandSigningCredential = \<lparr>sg_KeyID = ''sign-1'', sg_Algorithm = ''ed25519'',
       sg_PublicKey = base64_encode (replicate 32 7)\<rparr>,
     bs_AllowedActions = [''vm.start''], bs_AssignmentDocument = ''{}'', bs_AgentObservedIPv4 = ''10.0.0.1''\<rparr>"

definition ex_bindings :: bindings where
  "ex_bindings = \<lparr>bd_state = Holds ex_binding, bd_monitoring = Absent, bd_device = Absent, bd_commit = (\<lambda>_. Absent),
     bd_unbind = (\<lambda>_. Absent), bd_pending = (\<lambda>_. Absent), bd_backups = (\<lambda>_. Absent), bd_monitoring_backups = (\<lambda>_. Absent)\<rparr>"

definition ex_auth :: auth_config where
  "ex_auth = \<lparr>ac_Mode = ''none'', ac_KeyIDEnv = [], ac_SecretEnv = [], ac_BearerTokenEnv = []\<rparr>"

definition ex_off :: destination_config where
  "ex_off = \<lparr>dc_Enabled = False, dc_URL = [], dc_Auth = ex_auth, dc_MaxCompressedBytes = 0, dc_MaxUncompressedBytes = 0,
     dc_Compression = [], dc_PayloadFormat = []\<rparr>"

definition ex_config :: agent_config where
  "ex_config = \<lparr>cf_Identity = bs_Identity ex_binding, cf_PVESource = ''disabled'', cf_PVETokenIDEnv = [], cf_PVETokenSecretEnv = [],
     cf_RefreshURL = ''https://site.example/a'',
     cf_WebsiteMetering = ex_off\<lparr>dc_Enabled := True, dc_URL := ''https://site.example/m'',
       dc_Auth := \<lparr>ac_Mode = ''hmac-sha256'', ac_KeyIDEnv = WebsiteMeteringKeyIDEnv, ac_SecretEnv = WebsiteMeteringSecretEnv,
         ac_BearerTokenEnv = []\<rparr>\<rparr>,
     cf_WebsiteTelemetry = ex_off, cf_Monitoring = ex_off, cf_MonitoringAudit = ex_off,
     cf_Control = \<lparr>cc_Enabled = False, cc_PollURL = [], cc_ResultURL = [], cc_Auth = ex_auth, cc_CommandSecretEnv = [],
       cc_CommandSigningKeyIDEnv = [], cc_CommandPublicKeyEnv = [], cc_PVETokenIDEnv = [], cc_PVETokenSecretEnv = [],
       cc_AllowedActions = [], cc_ProductionExecution = False\<rparr>\<rparr>"

lemma ex_patterns:
  "list_all safeID [''device-1'', ''ag-1'', ''co-1'', ''so-1'', ''cl-1'', ''no-1'', ''si-1'', ''key-1'', ''sign-1'']"
  "uuidValue ''123e4567-e89b-42d3-a456-426614174000''" "validateUniqueValues [''vm.start''] actionValue"
  "dotted 10 0 0 1 = ''10.0.0.1''"
  by code_simp+

lemma ex_address: "canonicalIPv4 lib ''10.0.0.1''"
  unfolding canonicalIPv4_iff
  by (rule exI [of _ 10], rule exI [of _ 0], rule exI [of _ 0], rule exI [of _ 1])
    (simp add: ex_patterns(4) is_unspecified_def is_multicast_def del: One_nat_def)

lemma ex_secure: "parseSecureURL (web_lib.truncate ex_enroll_lib) a = Some ex_site"
  by (simp add: parseSecureURL_def ex_enroll_lib_def web_lib.defs ex_site_def ValidateIPv4URL_def parse_ip_def parse_ipv4_def octet_def
      is_digit_def code_of_def)

lemma ex_object: "el_object ex_enroll_lib d = Some True"
  by (simp add: ex_enroll_lib_def)

lemma ex_valid: "State_Validate ex_enroll_lib ex_binding"
  using ex_patterns(1-3)
  by (simp add: State_Validate_def ex_secure Response_Validate_def State_Response_def ex_binding_def bindSchemaVersion_def ex_address
      ex_secret_def validSecret_def validEd25519Key_def base64_std_encode signing_ok_def endpoint_list_def credential_list_def
      safe_endpoint_def sameOrigin_def equal_fold_def is_zero_time_def zero_time_def ex_object)

lemma ex_load: "Load_binding ex_enroll_lib ex_bindings = Inr (Some ex_binding)"
  by (simp add: Load_binding_def ex_bindings_def ex_valid)

lemma ex_stable: "bindings_stable ex_enroll_lib ex_config ex_bindings = Inr ()"
  by (simp add: bindings_stable_def readCommit_def readUnbind_def PendingRequestExists_def loadPending_def ex_bindings_def
      pending_or_error_def is_error_def)

lemma ex_labels: "set (configLabels ex_config) = {WebsiteMeteringKeyIDEnv, WebsiteMeteringSecretEnv, []}"
  by (auto simp: configLabels_def ex_config_def auth_labels_def ex_off_def ex_auth_def)

lemma ex_uses: "usesWebsite ex_config" "\<not> usesMonitoring ex_config" "\<not> list_ex unknown_label (configLabels ex_config)"
proof -
  show "usesWebsite ex_config" by (simp add: usesWebsite_def ex_config_def)
  show "\<not> usesMonitoring ex_config"
    unfolding usesMonitoring_def ex_labels
    by (simp add: MonitoringKeyIDEnv_def MonitoringSecretEnv_def WebsiteMeteringKeyIDEnv_def WebsiteMeteringSecretEnv_def)
  show "\<not> list_ex unknown_label (configLabels ex_config)"
    unfolding list_ex_iff ex_labels unknown_label_def by (simp add: reserved_def has_prefix_def)
qed

lemma ex_secrets:
  "\<exists>x. ResolveSecrets (\<lambda>name. if name \<in> set reserved then Some ''binding-state-placeholder'' else None) ex_config = Inr x"
proof -
  have "\<not> is_blank ''binding-state-placeholder''" by (rule not_is_blank_head) (simp add: code_of_def)
  then show ?thesis
    by (simp add: ResolveSecrets_def ex_config_def ex_off_def ex_auth_def when_needed_def sum_bind_def resolveDestination_def
        requiredEnv_def reserved_def Let_def)
qed

lemma ex_resolves: "\<exists>x. Resolve ex_enroll_lib (\<lambda>_. None) ex_config ex_bindings = Inr x"
proof -
  obtain x where x: "ResolveSecrets (\<lambda>name. if name \<in> set reserved then Some ''binding-state-placeholder'' else None) ex_config = Inr x"
    using ex_secrets by blast
  obtain y where y: "applyWebsite ex_config ex_binding x = Inr y"
    by (simp add: applyWebsite_def sum_bind_def guard_err_def ex_config_def website_metering_def website_telemetry_def
        website_assignments_def website_signing_key_def website_control_def bound_secret_def when_needed_def ex_binding_def
        destinationSecret_def decodeBoundSecret_def ex_secret_def base64_std_encode exactHMACLabels_def ex_off_def)
  then show ?thesis
    using ex_uses by (simp add: Resolve_def ex_stable sum_bind_def x y resolve_website_def ex_load)
qed

theorem credentials_stay_at_issuer_witness:
  "\<exists>x. Resolve ex_enroll_lib (\<lambda>_. None) ex_config ex_bindings = Inr x \<and> usesWebsite ex_config \<and>
    at_origin ex_enroll_lib ''https://site.example/bind'' ''https://site.example/m'' \<and>
    ds_KeyID (se_WebsiteMetering x) = ''key-1'' \<and> ds_Secret (se_WebsiteMetering x) = byte_text (replicate 16 7) \<and>
    se_DeviceID x = ''device-1''"
proof -
  obtain x where x: "Resolve ex_enroll_lib (\<lambda>_. None) ex_config ex_bindings = Inr x" using ex_resolves by blast
  have "website_bound ex_enroll_lib ex_config ex_binding x" "se_DeviceID x = bs_DeviceID ex_binding"
    using credentials_stay_at_issuer [OF x] ex_uses(1) ex_load by auto
  then show ?thesis using x ex_uses(1)
    by (auto simp: website_bound_def ex_config_def ex_binding_def carries_def ex_secret_def decodeBoundSecret_def base64_std_encode)
qed

definition ex_template :: request_template where
  "ex_template = \<lparr>rt_SchemaVersion = 1, rt_Domain = ''website'', rt_Endpoint = ''https://site.example:443/bind'',
     rt_DeviceID = ''device-1'', rt_AgentVersion = ''0.2.0'', rt_Hostname = ''host-1'',
     rt_NodeClaim = \<lparr>nc_NodeRef = ''node-1'', nc_PVEVersion = ''8.2''\<rparr>, rt_Capabilities = [''metering'']\<rparr>"

lemma ex_template_valid: "Template_Validate (web_lib.truncate ex_enroll_lib) ex_template Website"
proof -
  have c: "canonicalBindingEndpointString (web_lib.truncate ex_enroll_lib) v = Some ''https://site.example:443/bind''" for v
  proof -
    have d: "dec 443 = ''443''" by code_simp
    then have p: "parse_uint ''443'' = Some 443" "dec (unat (443 :: u64)) = ''443''"
      using parse_uint_dec [of "443 :: u64"] by simp_all
    have h: "to_lower ''https'' = ''https''" "to_lower ''site.example'' = ''site.example''" by code_simp+
    show ?thesis
      by (simp add: canonicalBindingEndpointString_def canonicalBindingEndpoint_def ex_enroll_lib_def web_lib.defs ex_site_def
          Let_def h default_port_def p d parse_ip_def parse_ipv4_def octet_def is_digit_def code_of_def has_prefix_def)
  qed
  have "Request_Validate (template_request ex_template)" by code_simp
  then show ?thesis by (simp add: Template_Validate_def c) (simp add: ex_template_def)
qed

lemma ex_prepared:
  "PreparePendingLocked (web_lib.truncate ex_enroll_lib) IoOk (Some ''123e4567-e89b-42d3-a456-426614174000'') (GoTime 1 UTC) Website
     (replicate 64 (CHR ''a'')) ex_template ex_bindings =
   (Inr (''123e4567-e89b-42d3-a456-426614174000'', ex_template),
    ex_bindings\<lparr>bd_pending := (bd_pending ex_bindings)(Website :=
      Holds \<lparr>pq_SchemaVersion = 2, pq_Kind = ''website'', pq_RequestID = ''123e4567-e89b-42d3-a456-426614174000'',
        pq_Fingerprint = replicate 64 (CHR ''a''), pq_Template = ex_template, pq_CreatedAt = to_utc (GoTime 1 UTC)\<rparr>)\<rparr>)"
proof -
  have "hexDigest (replicate 64 (CHR ''a''))" by code_simp
  then show ?thesis
    using ex_template_valid by (simp add: PreparePendingLocked_def loadPending_def ex_bindings_def Let_def)
qed

theorem pending_request_stable_witness:
  "\<exists>b1. fst (PreparePendingLocked (web_lib.truncate ex_enroll_lib) IoFail None (GoTime 9 UTC) Website (replicate 64 (CHR ''b'')) ex_template b1)
      = Inl PendingConflict \<and>
    LoadPendingTemplate (web_lib.truncate ex_enroll_lib) Website b1 = Inr (''123e4567-e89b-42d3-a456-426614174000'', ex_template)"
proof -
  let ?ops = "[Clear IoOk Monitoring, SaveState IoLate ex_binding, Begin ExclPartial Website [] 0]"
  have u: "uuidID ''123e4567-e89b-42d3-a456-426614174000''" by code_simp
  have h: "hexDigest (replicate 64 (CHR ''b''))" by code_simp
  have ne: "replicate 64 (CHR ''b'') \<noteq> replicate 64 (CHR ''a'')" by (simp add: eval_nat_numeral)
  have n: "\<not> is_zero_time (to_utc (GoTime 1 UTC))" by (simp add: is_zero_time_def zero_time_def to_utc_def)
  have o: "\<forall>p \<in> set ?ops. \<not> clears Website p" by (simp add: clears_def)
  note kept = pending_request_stable [OF ex_prepared _ n o]
  show ?thesis using kept u h ne ex_template_valid by (intro exI conjI) (auto simp: fst_def)
qed

theorem interrupted_binding_blocks_credentials_witness:
  "\<exists>b1 e. snd (beginCommit ExclPartial Monitoring ''123e4567-e89b-42d3-a456-426614174000'' 2 ex_bindings) = b1 \<and>
    Resolve ex_enroll_lib (\<lambda>_. None) ex_config (bind_run ex_enroll_lib [Finish IoOk Website, Remove IoFail] b1) = Inl e"
proof -
  have b: "beginCommit ExclPartial Monitoring ''123e4567-e89b-42d3-a456-426614174000'' 2 ex_bindings =
    (Some ''write binding commit marker'', ex_bindings\<lparr>bd_commit := (bd_commit ex_bindings)(Monitoring := Garbled)\<rparr>)"
    using ex_patterns(2) by (simp add: beginCommit_def validCommitMarker_def bindSchemaVersion_def readCommit_def ex_bindings_def)
  have "\<forall>p \<in> set [Finish IoOk Website, Remove IoFail]. \<not> finishes Monitoring p" by (simp add: finishes_def)
  then show ?thesis
    using interrupted_binding_blocks_credentials [OF b, of "[Finish IoOk Website, Remove IoFail]"] b by simp
qed

theorem failed_removal_strands_binding_witness:
  "\<exists>e b1 m. BeginWebsiteUnbind ex_enroll_lib IoOk ExclUnsynced IoOk ''20260101T000000.000000000Z'' ex_binding ex_bindings = (Inl e, b1) \<and>
    readUnbind Website b1 = Inr (Some m) \<and> fst (RestoreWebsiteUnbind ex_enroll_lib IoOk m b1) \<noteq> None"
proof -
  let ?name = "''binding-state.backup.'' @ ''20260101T000000.000000000Z'' @ ''.json''"
  let ?m = "\<lparr>ub_SchemaVersion = 1, ub_Domain = ''website'', ub_BindingID = bs_BindingID ex_binding,
      ub_CredentialEpoch = bs_CredentialEpoch ex_binding, ub_StateBackup = ?name\<rparr>"
  have m: "validUnbindCommit ?m"
    using ex_patterns(2) by (simp add: validUnbindCommit_def unbind_prefix_def ex_binding_def has_prefix_def has_suffix_def code_of_def)
  have c: "\<not> websiteRemovalConfigApplied ex_config" by (simp add: websiteRemovalConfigApplied_def ex_config_def)
  have u: "bd_unbind ex_bindings Website = Absent" "bd_backups ex_bindings ?name \<notin> {Irregular, Exposed}"
    by (simp_all add: ex_bindings_def)
  show ?thesis
    using failed_removal_strands_binding [OF ex_load u(1) refl u(2) refl m c] by blast
qed

theorem aborted_removal_restores_witness:
  "\<exists>m b1 b3. BeginWebsiteUnbind ex_enroll_lib IoOk ExclOk IoOk ''20260101T000000.000000000Z'' ex_binding ex_bindings = (Inr m, b1) \<and>
    RestoreWebsiteUnbind ex_enroll_lib IoOk m (snd (RemoveWebsite IoOk b1)) = (None, b3) \<and> Load_binding ex_enroll_lib b3 = Inr (Some ex_binding)"
proof -
  let ?name = "''binding-state.backup.'' @ ''20260101T000000.000000000Z'' @ ''.json''"
  let ?m = "\<lparr>ub_SchemaVersion = 1, ub_Domain = ''website'', ub_BindingID = bs_BindingID ex_binding,
      ub_CredentialEpoch = bs_CredentialEpoch ex_binding, ub_StateBackup = ?name\<rparr>"
  have m: "validUnbindCommit ?m"
    using ex_patterns(2) by (simp add: validUnbindCommit_def unbind_prefix_def ex_binding_def has_prefix_def has_suffix_def code_of_def)
  obtain b1 where b1: "BeginWebsiteUnbind ex_enroll_lib IoOk ExclOk IoOk ''20260101T000000.000000000Z'' ex_binding ex_bindings = (Inr ?m, b1)"
  proof -
    have "BackupWebsite ex_enroll_lib IoOk ''20260101T000000.000000000Z'' ex_bindings =
        (Inr ?name, ex_bindings\<lparr>bd_backups := (bd_backups ex_bindings)(?name := Holds ex_binding)\<rparr>)"
      using BackupWebsite_stored [OF ex_load _ refl, of "''20260101T000000.000000000Z''"] by (simp add: ex_bindings_def)
    moreover have "readUnbind Website ex_bindings = Inr None" "bd_unbind ex_bindings Website = Absent"
      by (simp_all add: readUnbind_def ex_bindings_def)
    ultimately show ?thesis using that m ex_valid by (simp add: BeginWebsiteUnbind_def Let_def)
  qed
  show ?thesis using aborted_removal_restores [OF ex_load b1 prod.collapse [symmetric], of IoOk] b1 by blast
qed

end
