(* ===== verification/Upgrade_Contract.thy ===== *)
theory Upgrade_Contract
  imports "HOL-Library.Product_Lexorder" Go_Utf8 Web_Address
begin

section \<open>Versions and the upgrade contract (\<open>internal/upgradecontract/contract.go\<close>)\<close>

text \<open>
  The signed parameters of an upgrade, the release manifest of the website, and the version
  comparison of \<open>internal/selfupdate/coordinator.go\<close>.  Errors are the texts the code reports.
  The strict JSON decoders are the fields of \<open>upgrade_codec\<close>: \<open>None\<close> for malformed input, unknown
  fields or trailing data.
\<close>

subsection \<open>Version texts\<close>

definition digits :: "string \<Rightarrow> (string \<times> string) option" where
  "digits s = (if takeWhile is_digit s = [] then None else Some (takeWhile is_digit s, dropWhile is_digit s))"

text \<open>\<open>[0-9]+\.[0-9]+\.[0-9]+\<close> with the rest of the text, then the optional \<open>-rc\.[0-9]+\<close>.\<close>

definition version_core :: "string \<Rightarrow> ((string \<times> string \<times> string) \<times> string) option" where
  "version_core s =
     Option.bind (digits s) (\<lambda>(a, s1).
     Option.bind (strip_prefix ''.'' s1) (\<lambda>s2.
     Option.bind (digits s2) (\<lambda>(b, s3).
     Option.bind (strip_prefix ''.'' s3) (\<lambda>s4.
     Option.bind (digits s4) (\<lambda>(c, s5). Some ((a, b, c), s5))))))"

definition rc_part :: "string \<Rightarrow> string \<times> string" where
  "rc_part s =
     (case Option.bind (strip_prefix ''-rc.'' s) digits of None \<Rightarrow> ([], s) | Some (d, t) \<Rightarrow> (d, t))"

definition version_groups :: "string \<Rightarrow> ((string \<times> string \<times> string) \<times> string \<times> string) option" where
  "version_groups s =
     map_option (\<lambda>(g, t). case rc_part t of (rc, u) \<Rightarrow> (g, rc, u)) (version_core s)"

definition agentVersionRE :: "string \<Rightarrow> (string \<times> string \<times> string \<times> string) option" where
  "agentVersionRE s =
     (case version_groups (trim_prefix ''v'' s) of
        Some ((a, b, c), rc, []) \<Rightarrow> Some (a, b, c, rc) | _ \<Rightarrow> None)"

definition releaseTagRE :: "string \<Rightarrow> bool" where
  "releaseTagRE s =
     (case Option.bind (strip_prefix ''v'' s) version_groups of Some (_, _, []) \<Rightarrow> True | _ \<Rightarrow> False)"

definition hex64RE :: "string \<Rightarrow> bool" where
  "hex64RE s \<longleftrightarrow> length s = 64 \<and> list_all is_lower_hex s"

definition assetRE :: "string \<Rightarrow> bool" where
  "assetRE s =
     (case Option.bind (strip_prefix ''ppflight-agent-'' s) version_groups of
        Some (_, _, t) \<Rightarrow> t = ''-linux-amd64.tar.gz'' \<or> t = ''-linux-arm64.tar.gz''
      | None \<Rightarrow> False)"

definition keyIDRE :: "string \<Rightarrow> bool" where
  "keyIDRE = match_ref ''._:-'' 0 95"

subsection \<open>Parameters and manifests\<close>

record signing_rotation =
  sr_KeyID :: string
  sr_PublicKey :: string

record artifact =
  ar_Architecture :: string
  ar_AssetName :: string
  ar_SizeBytes :: string
  ar_SHA256 :: string
  ar_DownloadURL :: string

record parameters =
  pm_SchemaVersion :: int
  pm_ReleaseTag :: string
  pm_AgentCommitSHA :: string
  pm_Artifact :: artifact
  pm_CommandSigningRotation :: "signing_rotation option"

record manifest =
  mf_SchemaVersion :: int
  mf_ReleaseTag :: string
  mf_Version :: string
  mf_AgentCommitSHA :: string
  mf_InstallerCommitSHA :: string
  mf_Prerelease :: bool
  mf_PublishedAt :: gotime
  mf_UpgradeDeliveryEnabled :: bool
  mf_FailClosedReason :: string
  mf_Artifacts :: "artifact list"

record upgrade_codec = web_lib +
  uc_parameters :: "bytes \<Rightarrow> parameters option"
  uc_manifest :: "bytes \<Rightarrow> manifest option"
  uc_arch :: string

definition upgradeSchemaVersion :: int where
  "upgradeSchemaVersion = 1"

definition MinArtifactBytes :: nat where
  "MinArtifactBytes = 2 ^ 20"

definition MaxArtifactBytes :: nat where
  "MaxArtifactBytes = 128 * 2 ^ 20"

definition CurrentManifestPath :: string where
  "CurrentManifestPath = ''/api/pve-agent/v1/releases/current''"

definition ArtifactPath :: "string \<Rightarrow> string \<Rightarrow> string" where
  "ArtifactPath releaseTag architecture =
     ''/api/pve-agent/v1/releases/artifacts/'' @ releaseTag @ ''/'' @ architecture"

definition Artifact_Validate :: "web_lib \<Rightarrow> artifact \<Rightarrow> string \<Rightarrow> string \<Rightarrow> string option" where
  "Artifact_Validate lib a releaseTag architecture =
     (if architecture \<noteq> ''amd64'' \<and> architecture \<noteq> ''arm64'' \<or> ar_Architecture a \<noteq> architecture \<or>
         \<not> hex64RE (ar_SHA256 a) \<or> \<not> assetRE (ar_AssetName a)
      then Some ''upgrade artifact identity is invalid''
      else if ar_AssetName a \<noteq> ''ppflight-agent-'' @ trim_prefix ''v'' releaseTag @ ''-linux-'' @ architecture @ ''.tar.gz''
      then Some ''upgrade artifact name does not match release and architecture''
      else if (case parse_uint (ar_SizeBytes a) of
                 None \<Rightarrow> True
               | Some w \<Rightarrow> dec (unat w) \<noteq> ar_SizeBytes a \<or> unat w < MinArtifactBytes \<or> unat w > MaxArtifactBytes)
      then Some ''upgrade artifact size is invalid''
      else case wl_parse_url lib (ar_DownloadURL a) of
        None \<Rightarrow> Some ''upgrade artifact URL is invalid''
      | Some u \<Rightarrow>
          if u_Scheme u \<noteq> ''https'' \<or> u_Hostname u = [] \<or> u_User u \<or> u_RawQuery u \<noteq> [] \<or> u_Fragment u \<noteq> [] \<or> u_Port u \<noteq> []
          then Some ''upgrade artifact URL is invalid''
          else if u_EscapedPath u \<noteq> ArtifactPath releaseTag architecture \<or> u_Path u \<noteq> ArtifactPath releaseTag architecture
          then Some (''upgrade artifact URL must use fixed path '' @ ArtifactPath releaseTag architecture)
          else None)"

definition rotation_ok :: "signing_rotation \<Rightarrow> bool" where
  "rotation_ok r \<longleftrightarrow>
     (case base64_std (sr_PublicKey r) of None \<Rightarrow> False | Some k \<Rightarrow> length k = 32 \<and> keyIDRE (sr_KeyID r))"

definition Parameters_Validate :: "web_lib \<Rightarrow> parameters \<Rightarrow> string \<Rightarrow> string option" where
  "Parameters_Validate lib p architecture =
     (if pm_SchemaVersion p \<noteq> upgradeSchemaVersion \<or> \<not> releaseTagRE (pm_ReleaseTag p) \<or> \<not> hex64RE (pm_AgentCommitSHA p)
      then Some ''upgrade parameters identity is invalid''
      else case Artifact_Validate lib (pm_Artifact p) (pm_ReleaseTag p) architecture of
        Some e \<Rightarrow> Some e
      | None \<Rightarrow>
          (case pm_CommandSigningRotation p of
             Some r \<Rightarrow> if rotation_ok r then None else Some ''command signing rotation is invalid''
           | None \<Rightarrow> None))"

definition DecodeParameters :: "upgrade_codec \<Rightarrow> bytes \<Rightarrow> string + parameters" where
  "DecodeParameters cd raw =
     (case uc_parameters cd raw of
        None \<Rightarrow> Inl ''JSON is invalid''
      | Some p \<Rightarrow>
          (case Parameters_Validate (web_lib.truncate cd) p (uc_arch cd) of Some e \<Rightarrow> Inl e | None \<Rightarrow> Inr p))"

fun check_artifacts :: "web_lib \<Rightarrow> string \<Rightarrow> string list \<Rightarrow> artifact list \<Rightarrow> string option" where
  "check_artifacts lib tag seen [] = None"
| "check_artifacts lib tag seen (a # as) =
     (if ar_Architecture a \<in> set seen then Some ''release manifest repeats an architecture''
      else case Artifact_Validate lib a tag (ar_Architecture a) of
        Some e \<Rightarrow> Some e | None \<Rightarrow> check_artifacts lib tag (ar_Architecture a # seen) as)"

definition Manifest_Validate :: "web_lib \<Rightarrow> manifest \<Rightarrow> string option" where
  "Manifest_Validate lib m =
     (if mf_SchemaVersion m \<noteq> upgradeSchemaVersion \<or> \<not> releaseTagRE (mf_ReleaseTag m) \<or> mf_Version m \<noteq> mf_ReleaseTag m \<or>
         \<not> hex64RE (mf_AgentCommitSHA m) \<or> \<not> hex64RE (mf_InstallerCommitSHA m) \<or> is_zero_time (mf_PublishedAt m) \<or>
         location (mf_PublishedAt m) \<noteq> UTC \<or> mf_Prerelease m \<noteq> contains_text ''-rc.'' (mf_ReleaseTag m) \<or>
         length (mf_Artifacts m) < 1 \<or> length (mf_Artifacts m) > 2
      then Some ''release manifest identity is invalid''
      else case check_artifacts lib (mf_ReleaseTag m) [] (mf_Artifacts m) of
        Some e \<Rightarrow> Some e
      | None \<Rightarrow>
          if mf_UpgradeDeliveryEnabled m \<and> mf_FailClosedReason m \<noteq> []
          then Some ''enabled release manifest has a fail-closed reason''
          else if \<not> mf_UpgradeDeliveryEnabled m \<and> is_blank (mf_FailClosedReason m)
          then Some ''disabled release manifest is missing its fail-closed reason''
          else None)"

definition DecodeManifest :: "upgrade_codec \<Rightarrow> bytes \<Rightarrow> string + manifest" where
  "DecodeManifest cd raw =
     (case uc_manifest cd raw of
        None \<Rightarrow> Inl ''JSON is invalid''
      | Some m \<Rightarrow> (case Manifest_Validate (web_lib.truncate cd) m of Some e \<Rightarrow> Inl e | None \<Rightarrow> Inr m))"

definition Manifest_Match :: "manifest \<Rightarrow> parameters \<Rightarrow> string option" where
  "Manifest_Match m p =
     (if \<not> mf_UpgradeDeliveryEnabled m then Some (''upgrade delivery is disabled: '' @ mf_FailClosedReason m)
      else if mf_ReleaseTag m \<noteq> pm_ReleaseTag p \<or> mf_AgentCommitSHA m \<noteq> pm_AgentCommitSHA p
      then Some ''signed upgrade does not match the current server manifest''
      else case find (\<lambda>a. ar_Architecture a = ar_Architecture (pm_Artifact p)) (mf_Artifacts m) of
        Some a \<Rightarrow>
          if a \<noteq> pm_Artifact p then Some ''signed artifact does not exactly match the server manifest'' else None
      | None \<Rightarrow> Some ''server manifest has no artifact for this architecture'')"

definition SameOrigin :: "web_lib \<Rightarrow> string \<Rightarrow> string \<Rightarrow> string option" where
  "SameOrigin lib endpoint candidate =
     (case (wl_parse_url lib endpoint, wl_parse_url lib candidate) of
        (Some l, Some r) \<Rightarrow>
          if u_Scheme l \<noteq> ''https'' \<or> u_Scheme r \<noteq> ''https'' \<or> \<not> equal_fold (u_Hostname l) (u_Hostname r) \<or> u_Port l \<noteq> u_Port r
          then Some ''upgrade URL is not on the bound website origin'' else None
      | _ \<Rightarrow> Some ''URL is invalid'')"

text \<open>The manifest's address: the bound origin with the fixed path.\<close>

definition ManifestURL :: "web_lib \<Rightarrow> string \<Rightarrow> string + url" where
  "ManifestURL lib endpoint =
     (case wl_parse_url lib endpoint of
        None \<Rightarrow> Inl ''bound website endpoint is invalid''
      | Some u \<Rightarrow>
          if u_Scheme u \<noteq> ''https'' \<or> u_Hostname u = [] \<or> u_User u then Inl ''bound website endpoint is invalid''
          else Inr (u\<lparr>u_Path := CurrentManifestPath, u_EscapedPath := CurrentManifestPath, u_RawQuery := [], u_Fragment := []\<rparr>))"

subsection \<open>The order of versions (\<open>validateUpgradeTransition\<close>)\<close>

datatype agent_version = AgentVersion (av_numbers: "u64 \<times> u64 \<times> u64") (av_release: bool) (av_rc: u64)

definition parseAgentVersion :: "string \<Rightarrow> string + agent_version" where
  "parseAgentVersion v =
     (case agentVersionRE v of
        None \<Rightarrow> Inl ''version must be X.Y.Z or X.Y.Z-rc.N''
      | Some (a, b, c, rc) \<Rightarrow>
          (case (parse_uint a, parse_uint b, parse_uint c) of
             (Some x, Some y, Some z) \<Rightarrow>
               if rc = [] then Inr (AgentVersion (x, y, z) True 0)
               else (case parse_uint rc of
                       None \<Rightarrow> Inl ''release candidate component exceeds uint64''
                     | Some r \<Rightarrow> Inr (AgentVersion (x, y, z) False r))
           | _ \<Rightarrow> Inl ''version component exceeds uint64''))"

text \<open>The loop over the three numbers: decided by the first that differs.\<close>

fun compare_numbers :: "u64 list \<Rightarrow> u64 list \<Rightarrow> bool option" where
  "compare_numbers (c # cs) (t # ts) =
     (if c < t then Some True else if c > t then Some False else compare_numbers cs ts)"
| "compare_numbers _ _ = None"

fun number_list :: "u64 \<times> u64 \<times> u64 \<Rightarrow> u64 list" where
  "number_list (a, b, c) = [a, b, c]"

definition validateUpgradeTransition :: "string \<Rightarrow> string \<Rightarrow> string option" where
  "validateUpgradeTransition currentVersion targetRelease =
     (case parseAgentVersion currentVersion of
        Inl e \<Rightarrow> Some (''current agent version is invalid: '' @ e)
      | Inr current \<Rightarrow>
          (case parseAgentVersion targetRelease of
             Inl e \<Rightarrow> Some (''target agent version is invalid: '' @ e)
           | Inr target \<Rightarrow>
               (case compare_numbers (number_list (av_numbers current)) (number_list (av_numbers target)) of
                  Some True \<Rightarrow> None
                | Some False \<Rightarrow> Some ''agent downgrade is forbidden''
                | None \<Rightarrow>
                    if av_release current \<noteq> av_release target
                    then (if av_release current then Some ''agent downgrade is forbidden'' else None)
                    else if av_release current then None
                    else if av_rc current > av_rc target then Some ''agent downgrade is forbidden'' else None)))"

text \<open>Versions are ordered by their numbers, release candidates before their release.\<close>

definition version_key :: "agent_version \<Rightarrow> u64 \<times> u64 \<times> u64 \<times> bool \<times> u64" where
  "version_key v = (case av_numbers v of (a, b, c) \<Rightarrow> (a, b, c, av_release v, av_rc v))"

lemma version_key_inject: "version_key v = version_key w \<longleftrightarrow> v = w"
  by (cases v; cases w) (auto simp: version_key_def split: prod.splits)

instantiation agent_version :: linorder
begin

definition less_agent_version :: "agent_version \<Rightarrow> agent_version \<Rightarrow> bool" where
  "less_agent_version v w \<longleftrightarrow> version_key v < version_key w"

definition less_eq_agent_version :: "agent_version \<Rightarrow> agent_version \<Rightarrow> bool" where
  "less_eq_agent_version v w \<longleftrightarrow> version_key v \<le> version_key w"

instance
proof
  fix v w x :: agent_version
  note defs = less_agent_version_def less_eq_agent_version_def
  show "(v < w) = (v \<le> w \<and> \<not> w \<le> v)" unfolding defs by (rule less_le_not_le)
  show "v \<le> v" unfolding defs by (rule order_refl)
  show "v \<le> w \<Longrightarrow> w \<le> x \<Longrightarrow> v \<le> x" unfolding defs by (rule order_trans)
  show "v \<le> w \<Longrightarrow> w \<le> v \<Longrightarrow> v = w" using version_key_inject unfolding defs by (metis order_antisym)
  show "v \<le> w \<or> w \<le> v" unfolding defs by (rule linear)
qed

end

definition version_text :: "agent_version \<Rightarrow> string" where
  "version_text v =
     (case av_numbers v of
        (a, b, c) \<Rightarrow>
          dec (unat a) @ ''.'' @ dec (unat b) @ ''.'' @ dec (unat c) @
          (if av_release v then [] else ''-rc.'' @ dec (unat (av_rc v))))"

lemma digits_dec: "s = [] \<or> \<not> is_digit (hd s) \<Longrightarrow> digits (dec n @ s) = Some (dec n, s)"
proof -
  assume s: "s = [] \<or> \<not> is_digit (hd s)"
  have ds: "\<And>c. c \<in> set (dec n) \<Longrightarrow> is_digit c" using dec_digits [of n] by (auto simp: list_all_iff)
  have "takeWhile is_digit (dec n @ s) = dec n @ takeWhile is_digit s" using ds by (simp add: takeWhile_append2)
  moreover have "dropWhile is_digit (dec n @ s) = dropWhile is_digit s" using ds by (simp add: dropWhile_append2)
  moreover have "takeWhile is_digit s = []" "dropWhile is_digit s = s" using s by (cases s; auto)+
  ultimately show ?thesis by (simp add: digits_def)
qed

lemma version_core_dec:
  "s = [] \<or> \<not> is_digit (hd s) \<Longrightarrow>
   version_core (dec a @ CHR ''.'' # dec b @ CHR ''.'' # dec c @ s) = Some ((dec a, dec b, dec c), s)"
  by (simp add: version_core_def digits_dec char_class_defs)

lemma dec_not_v: "trim_prefix ''v'' (dec n @ s) = dec n @ s"
proof -
  obtain c cs where c: "dec n = c # cs" by (cases "dec n") auto
  moreover have "is_digit c" using dec_digits [of n] c by simp
  ultimately show ?thesis by (auto simp: trim_prefix_def has_prefix_def char_class_defs)
qed

text \<open>Printing and parsing are inverse, with and without the leading \<open>v\<close>.\<close>

lemma parse_version_text:
  assumes "av_release v \<longrightarrow> av_rc v = 0"
  shows "parseAgentVersion (version_text v) = Inr v" "parseAgentVersion (CHR ''v'' # version_text v) = Inr v"
proof -
  obtain a b c where n: "av_numbers v = (a, b, c)" by (cases "av_numbers v")
  define tail where "tail = (if av_release v then [] else ''-rc.'' @ dec (unat (av_rc v)))"
  have t: "version_text v = dec (unat a) @ CHR ''.'' # dec (unat b) @ CHR ''.'' # dec (unat c) @ tail"
    by (simp add: version_text_def n tail_def)
  have core: "version_core (version_text v) = Some ((dec (unat a), dec (unat b), dec (unat c)), tail)"
    unfolding t by (rule version_core_dec) (simp add: tail_def char_class_defs)
  have rc: "rc_part tail = (if av_release v then ([], []) else (dec (unat (av_rc v)), []))"
    using digits_dec [of "[]" "unat (av_rc v)"] by (simp add: tail_def rc_part_def)
  have groups: "version_groups (version_text v) =
    Some ((dec (unat a), dec (unat b), dec (unat c)), (if av_release v then [] else dec (unat (av_rc v))), [])"
    by (simp add: version_groups_def core rc)
  have re: "agentVersionRE (version_text v) =
    Some (dec (unat a), dec (unat b), dec (unat c), if av_release v then [] else dec (unat (av_rc v)))"
    using groups dec_not_v [of "unat a"] unfolding agentVersionRE_def by (simp add: t)
  moreover have "agentVersionRE (CHR ''v'' # version_text v) = agentVersionRE (version_text v)"
    using dec_not_v [of "unat a"] unfolding agentVersionRE_def
    by (simp add: t) (simp add: trim_prefix_def has_prefix_def)
  ultimately show "parseAgentVersion (version_text v) = Inr v" "parseAgentVersion (CHR ''v'' # version_text v) = Inr v"
    using assms n by (cases v; simp add: parseAgentVersion_def parse_uint_dec)+
qed

lemma parsed_release: "parseAgentVersion s = Inr v \<Longrightarrow> av_release v \<Longrightarrow> av_rc v = 0"
  by (auto simp: parseAgentVersion_def split: option.splits prod.splits if_splits)

lemma transition_order:
  assumes "parseAgentVersion s = Inr v" "parseAgentVersion t = Inr w"
  shows "validateUpgradeTransition s t = None \<longleftrightarrow> v \<le> w"
proof -
  have "av_release v \<longrightarrow> av_rc v = 0" "av_release w \<longrightarrow> av_rc w = 0"
    using parsed_release assms by blast+
  then show ?thesis
    using assms unfolding less_eq_agent_version_def version_key_def validateUpgradeTransition_def
    by (cases v; cases w) (auto simp: not_less split: prod.splits)
qed

end
