(* ===== verification/Self_Update.thy ===== *)
theory Self_Update
  imports Upgrade_Contract Binding_Overlay Journal Uploader
begin

section \<open>Self-update (\<open>internal/selfupdate\<close>)\<close>

text \<open>
  The unprivileged coordinator downloads a signed release and leaves a prepared request; the
  reconciliation of the journal activates it; the root helper verifies everything again, installs the
  binary, restarts the service and rolls back or reports.  The files below the state directory are
  keyed by the upgrade's identifier, the suffix of the file giving the field.  HTTP exchanges,
  systemd, the firewall commands and the polls of the status page are scripted outcomes; gzip and
  tar give the entries of an archive.
\<close>

subsection \<open>Data\<close>

record upgrade_request =
  uq_SchemaVersion :: int
  uq_UpgradeID :: string
  uq_PreparedAt :: gotime
  uq_CurrentVersion :: string
  uq_ArtifactFile :: string
  uq_ArtifactSHA256 :: string
  uq_ArtifactBytes :: string
  uq_Command :: command

record upgrade_result =
  us_SchemaVersion :: int
  us_UpgradeID :: string
  us_Status :: string
  us_Version :: string
  us_Code :: string
  us_Error :: "execution_error option"
  us_FinishedAt :: gotime

text \<open>
  In a directory \<open>None\<close> stands for an entry that is no safe regular file; a request or result file
  that is safe but does not decode holds \<open>None\<close>.
\<close>

record upgrade_disk =
  ud_prepared :: "upgrade_request option dir"
  ud_request :: "upgrade_request option dir"
  ud_artifact :: "bytes dir"
  ud_results :: "upgrade_result option dir"
  ud_backups :: "bytes dir"
  ud_preflight :: "bytes dir"
  ud_binary :: "bytes option"
  ud_bindings :: bindings

definition requestSchema :: int where
  "requestSchema = 1"

text \<open>\<open>filepath.Base(s) == s\<close>.\<close>

definition base_name :: "string \<Rightarrow> bool" where
  "base_name s \<longleftrightarrow> s = ''/'' \<or> s \<noteq> [] \<and> CHR ''/'' \<notin> set s"

subsection \<open>Downloads\<close>

text \<open>
  One GET: an error, or an answer with whether the final URL is the requested one, the status, the
  content encoding, the declared length (negative when unknown) and the body, \<open>None\<close> on a read error.
\<close>

datatype get_exchange = GetFailed string | GetAnswer bool int string int "bytes option"

definition getExact :: "get_exchange \<Rightarrow> nat \<Rightarrow> string + bytes" where
  "getExact x limit =
     (case x of
        GetFailed e \<Rightarrow> Inl e
      | GetAnswer same status encoding len body \<Rightarrow>
          if \<not> same then Inl ''redirected response is forbidden''
          else if status \<noteq> 200 then Inl (''unexpected HTTP status '' @ dec_int status)
          else (case body of
                  None \<Rightarrow> Inl ''response exceeds the allowed size''
                | Some b \<Rightarrow>
                    let r = take (Suc limit) b in
                    if length r > limit then Inl ''response exceeds the allowed size'' else Inr r))"

text \<open>The checks of a download before and after the destination file is created.\<close>

definition download_header_ok :: "get_exchange \<Rightarrow> nat \<Rightarrow> string + bytes option" where
  "download_header_ok x want =
     (case x of
        GetFailed e \<Rightarrow> Inl e
      | GetAnswer same status encoding len body \<Rightarrow>
          if \<not> same then Inl ''redirected artifact response is forbidden''
          else if status \<noteq> 200 then Inl (''artifact returned HTTP status '' @ dec_int status)
          else if encoding \<noteq> [] \<and> encoding \<noteq> ''identity'' then Inl ''encoded artifact response is forbidden''
          else if len \<ge> 0 \<and> len \<noteq> int want then Inl ''artifact Content-Length does not match the manifest''
          else Inr body)"

definition download_body_ok :: "crypto \<Rightarrow> bytes option \<Rightarrow> nat \<Rightarrow> string \<Rightarrow> string + bytes" where
  "download_body_ok cr body want digest =
     (case body of
        None \<Rightarrow> Inl ''artifact body length does not match the manifest''
      | Some b \<Rightarrow>
          let r = take (Suc want) b in
          if length r \<noteq> want then Inl ''artifact body length does not match the manifest''
          else if hex_encode (sha256 cr r) \<noteq> digest then Inl ''artifact SHA-256 does not match the manifest''
          else Inr r)"

text \<open>
  The destination must not exist.  \<open>oc\<close> is the outcome of creating (\<open>IoFail\<close>) and of writing, syncing
  and closing (\<open>IoLate\<close>) the file, \<open>rm\<close> that of removing it after an error.
\<close>

definition downloadArtifact :: "crypto \<Rightarrow> get_exchange \<Rightarrow> io \<Rightarrow> io \<Rightarrow> string \<Rightarrow> artifact \<Rightarrow> bytes dir \<Rightarrow> string option \<times> bytes dir" where
  "downloadArtifact cr x oc rm name expected d =
     (let want = parse_dec (ar_SizeBytes expected);
          undo = (\<lambda>d1. if rm = IoOk then dir_del name d1 else d1) in
      case download_header_ok x want of
        Inl e \<Rightarrow> (Some e, d)
      | Inr body \<Rightarrow>
          if oc = IoFail \<or> dir_read d name \<noteq> None then (Some ''create artifact'', d)
          else (case download_body_ok cr body want (ar_SHA256 expected) of
                  Inl e \<Rightarrow> (Some e, undo (dir_put name None d))
                | Inr r \<Rightarrow>
                    if oc = IoLate then (Some ''sync artifact'', undo (dir_put name (Some r) d))
                    else (None, dir_put name (Some r) d)))"

subsection \<open>The coordinator\<close>

record upgrade_config =
  uf_WebsiteEndpoint :: string
  uf_CurrentVersion :: string
  uf_codec :: upgrade_codec
  uf_crypto :: command_crypto

record prepare_env =
  pv_manifest :: get_exchange
  pv_directory :: "string option"
  pv_id :: "string option"
  pv_download :: get_exchange
  pv_create :: io
  pv_now :: gotime
  pv_write :: io
  pv_remove :: io

text \<open>What has to hold before anything is written: the parameters of the signed command.\<close>

definition release_checked :: "upgrade_config \<Rightarrow> bytes \<Rightarrow> get_exchange \<Rightarrow> string + parameters" where
  "release_checked cfg raw x =
     (let cd = uf_codec cfg; lib = web_lib.truncate cd in
      sum_bind (DecodeParameters cd raw) (\<lambda>p.
      sum_bind (ManifestURL lib (uf_WebsiteEndpoint cfg)) (\<lambda>_.
      sum_bind (case getExact x (2 ^ 20) of Inl e \<Rightarrow> Inl (''fetch release manifest: '' @ e) | Inr b \<Rightarrow> Inr b) (\<lambda>body.
      sum_bind (case DecodeManifest cd body of Inl e \<Rightarrow> Inl (''validate release manifest: '' @ e) | Inr m \<Rightarrow> Inr m) (\<lambda>m.
      case Manifest_Match m p of
        Some e \<Rightarrow> Inl e
      | None \<Rightarrow>
          (case validateUpgradeTransition (uf_CurrentVersion cfg) (pm_ReleaseTag p) of
             Some e \<Rightarrow> Inl e
           | None \<Rightarrow>
               (case SameOrigin lib (uf_WebsiteEndpoint cfg) (ar_DownloadURL (pm_Artifact p)) of
                  Some e \<Rightarrow> Inl e | None \<Rightarrow> Inr p)))))))"

definition Prepare_upgrade :: "upgrade_config \<Rightarrow> prepare_env \<Rightarrow> command \<Rightarrow> upgrade_disk \<Rightarrow> (string + string) \<times> upgrade_disk" where
  "Prepare_upgrade cfg pv c d =
     (if c_Action c \<noteq> ''agent.upgrade'' \<or> c_Scope c \<noteq> ScopeNode
      then (Inl ''self-update coordinator received a non-upgrade command'', d)
      else case release_checked cfg (c_Parameters c) (pv_manifest pv) of
        Inl e \<Rightarrow> (Inl e, d)
      | Inr p \<Rightarrow>
          (case pv_directory pv of
             Some e \<Rightarrow> (Inl e, d)
           | None \<Rightarrow>
               (case pv_id pv of
                  None \<Rightarrow> (Inl ''generate identifier'', d)
                | Some i \<Rightarrow>
                    (case downloadArtifact (crypto.truncate (uf_crypto cfg)) (pv_download pv) (pv_create pv) (pv_remove pv) i
                            (pm_Artifact p) (ud_artifact d) of
                       (Some e, a) \<Rightarrow> (Inl e, d\<lparr>ud_artifact := a\<rparr>)
                     | (None, a) \<Rightarrow>
                         let r = \<lparr>uq_SchemaVersion = requestSchema, uq_UpgradeID = i, uq_PreparedAt = to_utc (pv_now pv),
                                  uq_CurrentVersion = uf_CurrentVersion cfg, uq_ArtifactFile = i @ ''.tar.gz'',
                                  uq_ArtifactSHA256 = ar_SHA256 (pm_Artifact p), uq_ArtifactBytes = ar_SizeBytes (pm_Artifact p),
                                  uq_Command = c\<rparr> in
                         (case dir_write (pv_write pv) i (Some r) (ud_prepared d) of
                            (True, w) \<Rightarrow> (Inr i, d\<lparr>ud_artifact := a, ud_prepared := w\<rparr>)
                          | (False, w) \<Rightarrow>
                              (Inl ''write prepared request'',
                               d\<lparr>ud_artifact := (if pv_remove pv = IoOk then dir_del i a else a), ud_prepared := w\<rparr>))))))"

text \<open>
  The rename of the prepared request; \<open>IoFail\<close> is a failed rename, \<open>IoLate\<close> a failed sync after it.
\<close>

definition activatePreparedRequest :: "io \<Rightarrow> string \<Rightarrow> upgrade_disk \<Rightarrow> string option \<times> upgrade_disk" where
  "activatePreparedRequest oc i d =
     (case dir_read (ud_prepared d) i of
        None \<Rightarrow> (None, d)
      | Some None \<Rightarrow> (Some ''prepared upgrade request is unsafe'', d)
      | Some (Some r) \<Rightarrow>
          (case dir_read (ud_request d) i of
             Some None \<Rightarrow> (Some ''active upgrade request is unsafe'', d)
           | Some (Some _) \<Rightarrow> (Some ''prepared and active upgrade requests both exist'', d)
           | None \<Rightarrow>
               let d1 = d\<lparr>ud_prepared := dir_del i (ud_prepared d), ud_request := dir_put i (Some r) (ud_request d)\<rparr> in
               (case oc of
                  IoFail \<Rightarrow> (Some ''activate prepared upgrade request'', d)
                | IoLate \<Rightarrow> (Some ''sync upgrade request directory'', d1)
                | IoOk \<Rightarrow> (None, d1))))"

definition resultErrorStageRE :: "string \<Rightarrow> bool" where
  "resultErrorStageRE = errorStageRE"

definition validResultError :: "execution_error option \<Rightarrow> bool" where
  "validResultError v =
     (case v of
        None \<Rightarrow> True
      | Some e \<Rightarrow>
          ee_Source e = ''agent'' \<and> resultErrorStageRE (ee_Stage e) \<and> ee_Method e = [] \<and> ee_Path e = [] \<and> ee_HTTPStatus e = 0 \<and>
          is_trimmed (ee_Reason e) \<and> ee_Reason e \<noteq> [] \<and> length (ee_Reason e) \<le> 512 \<and>
          \<not> list_ex (\<lambda>c. code_of c = 0 \<or> code_of c = 13 \<or> code_of c = 10) (ee_Reason e))"

definition result_well_formed :: "string \<Rightarrow> upgrade_result \<Rightarrow> bool" where
  "result_well_formed i r \<longleftrightarrow>
     us_SchemaVersion r = requestSchema \<and> us_UpgradeID r = i \<and> \<not> is_zero_time (us_FinishedAt r) \<and> validResultError (us_Error r)"

datatype resolution = Pending | Resolved string string string "execution_error option"

definition ResolveUpgrade :: "io \<Rightarrow> string \<Rightarrow> upgrade_disk \<Rightarrow> (string + resolution) \<times> upgrade_disk" where
  "ResolveUpgrade oc i d =
     (if i = [] \<or> \<not> base_name i then (Inl ''upgrade ID is invalid'', d)
      else case dir_read (ud_results d) i of
        None \<Rightarrow>
          (case activatePreparedRequest oc i d of
             (Some e, d1) \<Rightarrow> (Inl e, d1) | (None, d1) \<Rightarrow> (Inr Pending, d1))
      | Some None \<Rightarrow> (Inl ''upgrade result is unavailable'', d)
      | Some (Some None) \<Rightarrow> (Inl ''upgrade result is invalid'', d)
      | Some (Some (Some r)) \<Rightarrow>
          if \<not> result_well_formed i r then (Inl ''upgrade result is invalid'', d)
          else if us_Status r \<noteq> ''succeeded'' \<and> us_Status r \<noteq> ''rolled_back'' \<and> us_Status r \<noteq> ''failed''
          then (Inl ''upgrade result status is invalid'', d)
          else (Inr (Resolved (us_Status r) (us_Version r) (us_Code r) (us_Error r)), d))"

subsection \<open>Diagnostics\<close>

text \<open>Control characters become spaces; runs of white space become one space; both ends of a long text are kept.\<close>

definition clean_rune :: "string \<Rightarrow> string" where
  "clean_rune r = (case r of [c] \<Rightarrow> if code_of c < 32 \<or> code_of c = 127 then '' '' else r | _ \<Rightarrow> r)"

fun safe_prefix :: "nat \<Rightarrow> string \<Rightarrow> string" where
  "safe_prefix 0 v = []"
| "safe_prefix (Suc n) v = (if valid_utf8 (take (Suc n) v) then take (Suc n) v else safe_prefix n v)"

definition utf8SafePrefix :: "string \<Rightarrow> nat \<Rightarrow> string" where
  "utf8SafePrefix v most = (if length v \<le> most then v else safe_prefix most v)"

fun safe_suffix :: "nat \<Rightarrow> string \<Rightarrow> string" where
  "safe_suffix 0 v = []"
| "safe_suffix (Suc n) v =
     (if valid_utf8 (drop (length v - Suc n) v) then drop (length v - Suc n) v else safe_suffix n v)"

definition utf8SafeSuffix :: "string \<Rightarrow> nat \<Rightarrow> string" where
  "utf8SafeSuffix v most = (if length v \<le> most then v else safe_suffix most v)"

definition maxHelperDiagnosticBytes :: nat where
  "maxHelperDiagnosticBytes = 512"

definition helperDiagnosticHeadBytes :: nat where
  "helperDiagnosticHeadBytes = 160"

definition helper_separator :: string where
  "helper_separator = '' ... ''"

definition safeHelperText :: "bytes \<Rightarrow> string" where
  "safeHelperText v =
     (let t = join_space (Go_Utf8.fields (map_runes clean_rune v)) in
      if length t \<le> maxHelperDiagnosticBytes then t
      else let head = utf8SafePrefix t helperDiagnosticHeadBytes;
               tail = utf8SafeSuffix t (maxHelperDiagnosticBytes - length head - length helper_separator)
           in head @ helper_separator @ tail)"

subsection \<open>The release archive\<close>

datatype tar_type = TarReg | TarDir | TarOther

record tar_header =
  th_Name :: string
  th_Type :: tar_type
  th_Uid :: int
  th_Gid :: int
  th_Mode :: int
  th_Size :: int

text \<open>
  What gzip and tar read: the entries with the bytes that follow each header, and the error that ends
  them, if any.
\<close>

type_synonym tar_stream = "(tar_header \<times> bytes option) list \<times> string option"

definition releaseFileAllowlist :: "string list" where
  "releaseFileAllowlist =
     [''ppflight-agent'', ''ppflight-agent.sha256'', ''VERSION'', ''README.md'',
      ''config/README.md'', ''config/agent.env.example'', ''config/agent.example.yaml'', ''config/assignments.example.yaml'',
      ''docs/AGENT-API-V1.md'', ''docs/API.md'', ''docs/CONTRACT-REVIEW.md'', ''docs/INSTALL.md'', ''docs/SELF-UPGRADE-V1.md'',
      ''docs/MONITORING-NETWORK-PROJECTION-V1.md'',
      ''packaging/systemd/ppflight-agent.service'', ''packaging/systemd/ppflight-agent-upgrade.path'',
      ''packaging/systemd/ppflight-agent-upgrade.service'', ''packaging/systemd/ppflight-host-firewall.service'',
      ''packaging/systemd/ppflight-node-exporter.service'', ''packaging/systemd/ppflight-smartctl-exporter.service'',
      ''packaging/tmpfiles.d/ppflight-agent.conf'',
      ''scripts/install.sh'', ''scripts/quick-install.sh'', ''scripts/uninstall.sh'', ''scripts/create-pve-tokens.sh'',
      ''scripts/remove-pve-credentials.sh'', ''scripts/verify-template-bundle.py'',
      ''bundles/ppflight-cloudinit/agent-vendor-manifest.v1.json'', ''bundles/ppflight-cloudinit/build-cloud-templates.sh'',
      ''bundles/ppflight-cloudinit/tools/ppflight-template-bootstrap.py'',
      ''bundles/ppflight-cloudinit/catalog/template-catalog.v1.json'',
      ''bundles/ppflight-cloudinit/catalog/template-catalog.schema.json'',
      ''bundles/ppflight-cloudinit/contracts/template-bootstrap-request.schema.json'',
      ''bundles/ppflight-cloudinit/contracts/template-bootstrap-result.schema.json'',
      ''bundles/ppflight-cloudinit/contracts/template-storage-discovery.schema.json'',
      ''bundles/ppflight-cloudinit/contracts/agent-vendor-manifest.schema.json'']"

definition trim_suffix :: "string \<Rightarrow> string \<Rightarrow> string" where
  "trim_suffix p s = (if has_suffix p s then take (length s - length p) s else s)"

definition allowedReleaseEntry :: "string \<Rightarrow> bool \<Rightarrow> bool" where
  "allowedReleaseEntry name directory =
     (let clean = trim_suffix ''/'' name in
      if clean = ''ppflight-agent'' then directory
      else if \<not> has_prefix ''ppflight-agent/'' clean then False
      else let relative = drop (length ''ppflight-agent/'') clean in
      if \<not> directory then relative \<in> set releaseFileAllowlist
      else list_ex (has_prefix (relative @ ''/'')) releaseFileAllowlist)"

record release_files =
  rf_binary :: bytes
  rf_checksum :: bytes
  rf_version :: bytes

definition unsafe_path :: "string \<Rightarrow> bool" where
  "unsafe_path name \<longleftrightarrow>
     name = [] \<or> list_ex (\<lambda>c. code_of c = 92) name \<or> has_prefix ''/'' name \<or> contains_text ''/../'' (''/'' @ name @ ''/'')"

definition entry_body :: "tar_header \<Rightarrow> bytes option \<Rightarrow> bytes \<Rightarrow> string + bytes" where
  "entry_body h body old =
     (if old \<noteq> [] \<or> th_Size h < 1 \<or> th_Size h > 64 * 2 ^ 20 then Inl ''release archive contains an invalid duplicate''
      else case body of
        None \<Rightarrow> Inl ''release archive entry is truncated''
      | Some b \<Rightarrow>
          let r = take (nat (th_Size h + 1)) b in
          if int (length r) \<noteq> th_Size h then Inl ''release archive entry is truncated'' else Inr r)"

definition store_entry :: "tar_header \<Rightarrow> bytes option \<Rightarrow> release_files \<Rightarrow> string + release_files" where
  "store_entry h body f =
     (if th_Name h = ''ppflight-agent/ppflight-agent''
      then sum_bind (entry_body h body (rf_binary f)) (\<lambda>b. Inr (f\<lparr>rf_binary := b\<rparr>))
      else if th_Name h = ''ppflight-agent/ppflight-agent.sha256''
      then sum_bind (entry_body h body (rf_checksum f)) (\<lambda>b. Inr (f\<lparr>rf_checksum := b\<rparr>))
      else if th_Name h = ''ppflight-agent/VERSION''
      then sum_bind (entry_body h body (rf_version f)) (\<lambda>b. Inr (f\<lparr>rf_version := b\<rparr>))
      else Inr f)"

text \<open>\<open>entries\<close> counts the headers read; the expanded size is a 64-bit sum.\<close>

fun scan_archive :: "nat \<Rightarrow> int \<Rightarrow> release_files \<Rightarrow> (tar_header \<times> bytes option) list \<Rightarrow> string option \<Rightarrow> string + release_files" where
  "scan_archive entries expanded f [] stop = (case stop of Some e \<Rightarrow> Inl e | None \<Rightarrow> Inr f)"
| "scan_archive entries expanded f ((h, body) # hs) stop =
     (if Suc entries > 512 \<or> unsafe_path (th_Name h) then Inl ''release archive path is unsafe''
      else if th_Type h = TarOther then Inl ''release archive contains a link or special file''
      else if th_Uid h \<noteq> 0 \<or> th_Gid h \<noteq> 0 \<or> th_Mode h < 0 \<or> th_Mode h \<ge> 512 \<or>
              \<not> allowedReleaseEntry (th_Name h) (th_Type h = TarDir)
      then Inl ''release archive contains an unreviewed entry''
      else if th_Type h = TarDir then scan_archive (Suc entries) expanded f hs stop
      else let total = wrap64 (expanded + th_Size h) in
      if th_Size h < 0 \<or> total > 256 * 2 ^ 20 then Inl ''release archive expands beyond its limit''
      else (case store_entry h body f of
              Inl e \<Rightarrow> Inl e | Inr f1 \<Rightarrow> scan_archive (Suc entries) total f1 hs stop))"

definition verifiedBinary :: "crypto \<Rightarrow> (bytes \<Rightarrow> string + tar_stream) \<Rightarrow> bytes option option \<Rightarrow> parameters \<Rightarrow> string + bytes" where
  "verifiedBinary cr untar file p =
     (case file of
        None \<Rightarrow> Inl ''staged artifact does not exist''
      | Some None \<Rightarrow> Inl ''staged artifact is not a regular file''
      | Some (Some raw) \<Rightarrow>
          if length raw \<noteq> parse_dec (ar_SizeBytes (pm_Artifact p)) then Inl ''staged artifact size changed''
          else if hex_encode (sha256 cr raw) \<noteq> ar_SHA256 (pm_Artifact p) then Inl ''staged artifact hash changed''
          else sum_bind (untar raw) (\<lambda>(hs, stop).
               sum_bind (scan_archive 0 0 \<lparr>rf_binary = [], rf_checksum = [], rf_version = []\<rparr> hs stop) (\<lambda>f.
               if trim_space (rf_version f) \<noteq> trim_prefix ''v'' (pm_ReleaseTag p) \<or> rf_binary f = []
               then Inl ''release archive version is invalid''
               else (case Go_Utf8.fields (rf_checksum f) of
                       [sum1, name1] \<Rightarrow>
                         if name1 \<noteq> ''ppflight-agent'' then Inl ''release binary checksum file is invalid''
                         else if sum1 \<noteq> hex_encode (sha256 cr (rf_binary f)) then Inl ''release binary checksum mismatch''
                         else Inr (rf_binary f)
                     | _ \<Rightarrow> Inl ''release binary checksum file is invalid''))))"

end
