(* ===== verification/Upgrade_Text.thy ===== *)
theory Upgrade_Text
  imports Self_Update
begin

section \<open>Diagnostics of the helper are well formed\<close>

text \<open>
  The text the helper reports is valid UTF-8 of at most 512 bytes without control characters and
  without surrounding white space, whatever bytes a subprocess wrote.
\<close>

subsection \<open>Runes of a cleaned text\<close>

definition visible :: "string \<Rightarrow> bool" where
  "visible r \<longleftrightarrow> is_rune r \<and> list_all (\<lambda>c. 32 \<le> code_of c) r"

lemma visible_space: "visible '' ''"
  by (simp add: visible_def lead_len_def between_def code_of_def)

lemma cont_visible: "is_cont c \<Longrightarrow> 32 \<le> code_of c"
  by (simp add: is_cont_def between_def)

lemma clean_rune_visible: "is_rune r \<Longrightarrow> visible (clean_rune r)"
proof -
  assume r: "is_rune r"
  obtain c cs where c: "r = c # cs" "lead_len c = Suc (length cs)" "list_all is_cont cs" using is_rune_parts [OF r] by auto
  show ?thesis
  proof (cases cs)
    case Nil
    then show ?thesis using r c(1) visible_space by (auto simp: clean_rune_def visible_def)
  next
    case (Cons d ds)
    then have "32 \<le> code_of c" using c(2) by (auto simp: lead_len_def between_def split: if_splits)
    then have "list_all (\<lambda>c. 32 \<le> code_of c) r" using c cont_visible by (auto simp: list_all_iff)
    then show ?thesis using r c(1) Cons by (simp add: clean_rune_def visible_def)
  qed
qed

lemma cleaned_runes: "\<exists>rs. list_all visible rs \<and> map_runes clean_rune v = concat rs"
proof -
  have "visible (clean_rune (rune_bytes r))" if "r \<in> set (runes v)" for r
    by (cases r) (use that runes_are_runes rune_error_rune clean_rune_visible in \<open>auto simp: rune_bytes_def\<close>)
  then show ?thesis
    by (intro exI [of _ "map (\<lambda>r. clean_rune (rune_bytes r)) (runes v)"]) (auto simp: map_runes_def list_all_iff)
qed

lemma rune_pieces_concat: "rune_pieces (map Some rs) (concat rs) = rs"
  by (induction rs) simp_all

lemma fields_concat: "list_all is_rune rs \<Longrightarrow> Go_Utf8.fields (concat rs) = fields_of rs []"
  using runes_concat [of rs "[]"] by (simp add: Go_Utf8.fields_def rune_pieces_concat)

subsection \<open>Fields and their join\<close>

definition is_field :: "string \<Rightarrow> bool" where
  "is_field w \<longleftrightarrow> (\<exists>rs. rs \<noteq> [] \<and> w = concat rs \<and> list_all (\<lambda>r. visible r \<and> r \<notin> set space_runes) rs)"

lemma fields_are_fields:
  "list_all visible rs \<Longrightarrow> w = [] \<or> is_field w \<Longrightarrow> list_all is_field (fields_of rs w)"
proof (induction rs arbitrary: w)
  case (Cons r rs)
  show ?case
  proof (cases "r \<in> set space_runes")
    case True
    then show ?thesis using Cons by auto
  next
    case False
    have "is_field (w @ r)"
    proof (cases "w = []")
      case True
      then show ?thesis using Cons.prems False by (auto simp: is_field_def intro!: exI [of _ "[r]"])
    next
      case w: False
      then obtain ws where "ws \<noteq> []" "w = concat ws" "list_all (\<lambda>r. visible r \<and> r \<notin> set space_runes) ws"
        using Cons.prems by (auto simp: is_field_def)
      then show ?thesis using Cons.prems False by (auto simp: is_field_def intro!: exI [of _ "ws @ [r]"])
    qed
    then show ?thesis using Cons False by simp
  qed
qed auto

text \<open>Runes that start and end with no white space.\<close>

definition tight :: "string list \<Rightarrow> bool" where
  "tight rs \<longleftrightarrow> rs \<noteq> [] \<and> list_all visible rs \<and> hd rs \<notin> set space_runes \<and> last rs \<notin> set space_runes"

lemma tight_append: "tight rs \<Longrightarrow> list_all visible ms \<Longrightarrow> tight qs \<Longrightarrow> tight (rs @ ms @ qs)"
  by (auto simp: tight_def hd_append)

lemma field_tight: "is_field w \<Longrightarrow> \<exists>rs. tight rs \<and> w = concat rs"
  by (auto simp: is_field_def tight_def list_all_iff)

lemma join_tight: "list_all is_field ws \<Longrightarrow> ws \<noteq> [] \<Longrightarrow> \<exists>rs. tight rs \<and> join_space ws = concat rs"
proof (induction ws rule: join_space.induct)
  case (2 w)
  then show ?case using field_tight by simp
next
  case (3 w v ws)
  obtain rs where rs: "tight rs" "w = concat rs" using field_tight 3(2) by auto
  obtain qs where qs: "tight qs" "join_space (v # ws) = concat qs" using 3 by auto
  have "tight (rs @ ['' ''] @ qs)" by (rule tight_append) (use rs qs visible_space in simp_all)
  then show ?case using rs qs by (intro exI [of _ "rs @ ['' ''] @ qs"]) simp
qed simp

subsection \<open>Cutting a valid text\<close>

lemma safe_prefix_valid: "n \<le> length v \<Longrightarrow> \<exists>k. k \<le> n \<and> safe_prefix n v = take k v \<and> valid_utf8 (take k v)"
proof (induction n)
  case 0
  then show ?case by (auto simp: valid_utf8_def)
next
  case (Suc n)
  then show ?case by (metis le_SucI le_refl safe_prefix.simps(2) Suc_leD)
qed

lemma safe_prefix_longest: "n \<le> length v \<Longrightarrow> k \<le> n \<Longrightarrow> valid_utf8 (take k v) \<Longrightarrow> k \<le> length (safe_prefix n v)"
  by (induction n) (auto simp: le_Suc_eq)

lemma safe_suffix_valid: "n \<le> length v \<Longrightarrow> \<exists>k. k \<le> n \<and> safe_suffix n v = drop (length v - k) v \<and> valid_utf8 (drop (length v - k) v)"
proof (induction n)
  case 0
  then show ?case by (auto simp: valid_utf8_def)
next
  case (Suc n)
  then show ?case by (metis le_SucI le_refl safe_suffix.simps(2) Suc_leD)
qed

lemma safe_suffix_longest:
  "n \<le> length v \<Longrightarrow> k \<le> n \<Longrightarrow> valid_utf8 (drop (length v - k) v) \<Longrightarrow> k \<le> length (safe_suffix n v)"
  by (induction n) (auto simp: le_Suc_eq)

lemma visible_runes:
  assumes "list_all is_rune rs" "list_all (\<lambda>c. 32 \<le> code_of c) (concat rs)"
  shows "list_all visible rs"
  using assms by (auto simp: visible_def list_all_iff)

lemma tight_concat_visible: "tight rs \<Longrightarrow> list_all (\<lambda>c. 32 \<le> code_of c) (concat rs)"
  by (auto simp: tight_def visible_def list_all_iff)

lemma concat_split_hd: "rs \<noteq> [] \<Longrightarrow> concat rs = hd rs @ concat (tl rs)"
  by (cases rs) auto

lemma concat_split_last: "rs \<noteq> [] \<Longrightarrow> concat rs = concat (butlast rs) @ last rs"
  by (metis append_butlast_last_id concat.simps concat_append append_Nil2)

lemma tight_prefix:
  assumes t: "tight rs" and n: "4 \<le> n" "n < length (concat rs)"
  shows "\<exists>hs. hs \<noteq> [] \<and> list_all visible hs \<and> hd hs = hd rs \<and> safe_prefix n (concat rs) = concat hs"
proof -
  let ?v = "concat rs"
  have rs: "rs \<noteq> []" "list_all visible rs" using t by (auto simp: tight_def)
  have r: "is_rune (hd rs)" using rs by (cases rs) (auto simp: visible_def)
  have "take (length (hd rs)) ?v = hd rs" using concat_split_hd [OF rs(1)] by simp
  moreover have "valid_utf8 (hd rs)" using r valid_utf8_iff [of "hd rs"] by (auto intro!: exI [of _ "[hd rs]"])
  ultimately have l: "length (hd rs) \<le> length (safe_prefix n ?v)"
    using safe_prefix_longest [of n ?v "length (hd rs)"] is_rune_length [OF r] n by simp
  obtain k where k: "safe_prefix n ?v = take k ?v" "valid_utf8 (take k ?v)" using safe_prefix_valid [of n ?v] n by auto
  obtain hs where hs: "list_all is_rune hs" "take k ?v = concat hs" using k(2) valid_utf8_iff by auto
  have ne: "hs \<noteq> []" using l k(1) hs(2) is_rune_nonempty [OF r] by (cases hs) auto
  have "hd hs @ (concat (tl hs) @ drop k ?v) = concat hs @ drop k ?v" by (subst concat_split_hd [OF ne]) (rule append_assoc [symmetric])
  also have "\<dots> = ?v" unfolding hs(2) [symmetric] by (rule append_take_drop_id)
  also have "\<dots> = hd rs @ concat (tl rs)" by (rule concat_split_hd [OF rs(1)])
  finally have e: "hd hs @ (concat (tl hs) @ drop k ?v) = hd rs @ concat (tl rs)" .
  have "is_rune (hd hs)" using hs(1) ne by (cases hs) simp_all
  from rune_prefix_eq [OF this r e] have "hd hs = hd rs" by (rule conjunct1)
  moreover have "list_all (\<lambda>c. 32 \<le> code_of c) (concat hs)"
    unfolding hs(2) [symmetric] using tight_concat_visible [OF t] by (metis append_take_drop_id list_all_append)
  ultimately show ?thesis using hs k(1) ne visible_runes by auto
qed

lemma tight_suffix:
  assumes t: "tight rs" and n: "4 \<le> n" "n < length (concat rs)"
  shows "\<exists>ts. ts \<noteq> [] \<and> list_all visible ts \<and> last ts = last rs \<and> safe_suffix n (concat rs) = concat ts"
proof -
  let ?v = "concat rs"
  have rs: "rs \<noteq> []" "list_all visible rs" using t by (auto simp: tight_def)
  have r: "is_rune (last rs)" using rs by (cases rs rule: rev_cases) (auto simp: visible_def)
  have "drop (length ?v - length (last rs)) ?v = last rs" using concat_split_last [OF rs(1)] by simp
  moreover have "valid_utf8 (last rs)" using r valid_utf8_iff [of "last rs"] by (auto intro!: exI [of _ "[last rs]"])
  ultimately have l: "length (last rs) \<le> length (safe_suffix n ?v)"
    using safe_suffix_longest [of n ?v "length (last rs)"] is_rune_length [OF r] n by simp
  obtain k where k: "safe_suffix n ?v = drop (length ?v - k) ?v" "valid_utf8 (drop (length ?v - k) ?v)"
    using safe_suffix_valid [of n ?v] n by auto
  obtain ts where ts: "list_all is_rune ts" "drop (length ?v - k) ?v = concat ts" using k(2) valid_utf8_iff by auto
  have ne: "ts \<noteq> []" using l k(1) ts(2) is_rune_nonempty [OF r] by (cases ts) auto
  have "(take (length ?v - k) ?v @ concat (butlast ts)) @ last ts = take (length ?v - k) ?v @ concat ts"
    by (subst concat_split_last [OF ne]) (rule append_assoc)
  also have "\<dots> = ?v" unfolding ts(2) [symmetric] by (rule append_take_drop_id)
  also have "\<dots> = concat (butlast rs) @ last rs" by (rule concat_split_last [OF rs(1)])
  finally have e: "(take (length ?v - k) ?v @ concat (butlast ts)) @ last ts = concat (butlast rs) @ last rs" .
  have "is_rune (last ts)" using ts(1) ne by (cases ts rule: rev_cases) simp_all
  from rune_suffix_eq [OF this r e] have "last ts = last rs" by (rule conjunct1)
  moreover have "list_all (\<lambda>c. 32 \<le> code_of c) (concat ts)"
    unfolding ts(2) [symmetric] using tight_concat_visible [OF t] by (metis append_take_drop_id list_all_append)
  ultimately show ?thesis using ts k(1) ne visible_runes by auto
qed

subsection \<open>The helper's text\<close>

lemma separator_visible: "\<exists>ms. list_all visible ms \<and> helper_separator = concat ms"
  by (rule exI [of _ "['' '', ''.'', ''.'', ''.'', '' '']"])
    (simp add: helper_separator_def visible_def lead_len_def between_def code_of_def)

lemma safeHelperText_tight:
  assumes "safeHelperText v \<noteq> []"
  shows "\<exists>rs. tight rs \<and> safeHelperText v = concat rs" and "length (safeHelperText v) \<le> 512"
proof -
  define t where "t = join_space (Go_Utf8.fields (map_runes clean_rune v))"
  obtain rs0 where rs0: "list_all visible rs0" "map_runes clean_rune v = concat rs0" using cleaned_runes by blast
  have "list_all is_rune rs0" using rs0(1) by (auto simp: visible_def list_all_iff)
  then have f: "Go_Utf8.fields (map_runes clean_rune v) = fields_of rs0 []" using rs0(2) fields_concat by simp
  have "t \<noteq> []"
  proof
    assume "t = []"
    then have "safeHelperText v = []" by (simp add: safeHelperText_def t_def [symmetric])
    then show False using assms by simp
  qed
  then have "Go_Utf8.fields (map_runes clean_rune v) \<noteq> []" by (auto simp: t_def)
  moreover have "list_all is_field (fields_of rs0 [])" using fields_are_fields [OF rs0(1)] by simp
  ultimately obtain rs where rs: "tight rs" "t = concat rs" using join_tight f unfolding t_def by metis
  have "(\<exists>rs. tight rs \<and> safeHelperText v = concat rs) \<and> length (safeHelperText v) \<le> 512"
  proof (cases "length t \<le> 512")
    case True
    then have "safeHelperText v = t"
      by (simp add: safeHelperText_def t_def [symmetric] maxHelperDiagnosticBytes_def)
    then show ?thesis using rs True by auto
  next
    case False
    define n where "n = 512 - length (safe_prefix 160 t) - length helper_separator"
    have p: "length (safe_prefix 160 t) \<le> 160" using safe_prefix_valid [of 160 t] False by auto
    have n: "4 \<le> n" "n < length t" "n \<le> 512 - length (safe_prefix 160 t) - 5"
      using p False by (auto simp: n_def helper_separator_def)
    have s: "length (safe_suffix n t) \<le> n" using safe_suffix_valid [of n t] n by auto
    have h: "safeHelperText v = safe_prefix 160 t @ helper_separator @ safe_suffix n t"
    proof -
      have pre: "utf8SafePrefix t 160 = safe_prefix 160 t" using False by (simp add: utf8SafePrefix_def)
      have suf: "utf8SafeSuffix t n = safe_suffix n t" using n by (simp add: utf8SafeSuffix_def)
      show ?thesis using False suf
        unfolding safeHelperText_def t_def [symmetric] maxHelperDiagnosticBytes_def helperDiagnosticHeadBytes_def Let_def pre n_def
        by simp
    qed
    obtain hs where hs: "hs \<noteq> []" "list_all visible hs" "hd hs = hd rs" "safe_prefix 160 t = concat hs"
      using tight_prefix [OF rs(1), of 160] rs(2) False by auto
    obtain ts where ts: "ts \<noteq> []" "list_all visible ts" "last ts = last rs" "safe_suffix n t = concat ts"
      using tight_suffix [OF rs(1), of n] rs(2) n by auto
    obtain ms where ms: "list_all visible ms" "helper_separator = concat ms" using separator_visible by blast
    have "tight (hs @ ms @ ts)" using hs ms ts rs(1) by (auto simp: tight_def hd_append)
    moreover have "safeHelperText v = concat (hs @ ms @ ts)" using h hs ms ts by simp
    moreover have "length (safeHelperText v) \<le> 512" using h p s n(3) by (simp add: helper_separator_def)
    ultimately show ?thesis by blast
  qed
  then show "\<exists>rs. tight rs \<and> safeHelperText v = concat rs" "length (safeHelperText v) \<le> 512" by auto
qed

lemma safeHelperText_ok:
  assumes "safeHelperText v \<noteq> []"
  shows "is_trimmed (safeHelperText v)" "length (safeHelperText v) \<le> 512"
    "\<not> list_ex (\<lambda>c. code_of c = 0 \<or> code_of c = 13 \<or> code_of c = 10) (safeHelperText v)"
proof -
  obtain rs where rs: "tight rs" "safeHelperText v = concat rs" using safeHelperText_tight(1) [OF assms] by blast
  show "is_trimmed (safeHelperText v)"
    unfolding rs(2) using rs(1) by (intro trimmed_runes) (auto simp: tight_def visible_def list_all_iff)
  show "length (safeHelperText v) \<le> 512" using safeHelperText_tight(2) [OF assms] .
  show "\<not> list_ex (\<lambda>c. code_of c = 0 \<or> code_of c = 13 \<or> code_of c = 10) (safeHelperText v)"
    unfolding rs(2) using tight_concat_visible [OF rs(1)] by (fastforce simp: list_ex_iff list_all_iff)
qed

end
