(* ===== verification/Upgrade_Helper.thy ===== *)
theory Upgrade_Helper
  imports Self_Update
begin

section \<open>The root helper (\<open>internal/selfupdate/helper.go\<close>)\<close>

text \<open>
  One run of the helper from the choice of a request to its result.  The environment of a run
  scripts what the helper does not decide: exchanges, clock, the states of the journal its polls
  see, the outcomes of file operations, of \<open>systemctl restart\<close>, of the two firewall commands and the
  answers of the status page, in the order of their use.  A poll that times out or is cancelled
  ends the list of answers with the text of its error.
\<close>

subsection \<open>Configuration and environment\<close>

record local_status =
  ls_Version :: string
  ls_SigningKeyID :: string
  ls_BindingID :: string
  ls_DeviceID :: string
  ls_CredentialEpoch :: string

record helper_config =
  hp_upgrade :: upgrade_config
  hp_enroll :: enroll_lib
  hp_jenv :: jenv
  hp_params :: "command \<Rightarrow> bool"
  hp_verify :: verify_config
  hp_untar :: "bytes \<Rightarrow> string + tar_stream"

type_synonym polls = "local_status option list \<times> string"

record helper_env =
  he_root :: "string option"
  he_readdir :: "string option"
  he_stale :: "io list"
  he_now :: gotime
  he_clock :: gotime
  he_handoff :: "jdir list \<times> string"
  he_manifest :: get_exchange
  he_preflight_dir :: "string option"
  he_preflight_write :: io
  he_preflight :: "string option"
  he_preflight_remove :: "string option"
  he_backup_dir :: "string option"
  he_backup_write :: io
  he_install :: io
  he_reinstall :: io
  he_restart :: "string option"
  he_status :: polls
  he_rollback_restart :: "string option"
  he_rollback_status :: polls
  he_postflight :: "string option"
  he_rotate :: io
  he_rotate_restart :: "string option"
  he_rotate_status :: polls
  he_recover :: io
  he_recover_restart :: "string option"
  he_recover_status :: polls
  he_success_save :: io
  he_finish :: gotime
  he_save :: io
  he_clean :: "io list"

subsection \<open>The request\<close>

definition remove_quiet :: "io \<Rightarrow> string \<Rightarrow> 'c dir \<Rightarrow> 'c dir" where
  "remove_quiet oc p d = snd (dir_remove oc p d)"

text \<open>
  The requests in the order of their file names; one that already has a result is cleaned up and
  skipped.
\<close>

fun next_request :: "io list \<Rightarrow> string list \<Rightarrow> upgrade_disk \<Rightarrow> (string + string \<times> upgrade_request) \<times> upgrade_disk" where
  "next_request ios [] d = (Inl ''file does not exist'', d)"
| "next_request ios (i # is) d =
     (if dir_read (ud_results d) i \<noteq> None then
        (case take_io ios of
           (oc1, ios1) \<Rightarrow>
             (case take_io ios1 of
                (oc2, ios2) \<Rightarrow>
                  next_request ios2 is (d\<lparr>ud_artifact := remove_quiet oc1 i (ud_artifact d),
                    ud_request := remove_quiet oc2 i (ud_request d)\<rparr>)))
      else (case dir_read (ud_request d) i of
              Some (Some (Some r)) \<Rightarrow>
                if uq_UpgradeID r \<noteq> i then (Inl ''upgrade request ID does not match its filename'', d) else (Inr (i, r), d)
            | Some (Some None) \<Rightarrow> (Inl ''upgrade request JSON is invalid'', d)
            | _ \<Rightarrow> (Inl ''upgrade request is unreadable'', d)))"

definition request_order :: "upgrade_disk \<Rightarrow> string list" where
  "request_order d = sort_key (\<lambda>i. i @ ''.request.json'') (remdups (map fst (ud_request d)))"

definition nextRequest :: "helper_env \<Rightarrow> upgrade_disk \<Rightarrow> (string + string \<times> upgrade_request) \<times> upgrade_disk" where
  "nextRequest he d =
     (case he_readdir he of
        Some e \<Rightarrow> (Inl e, d) | None \<Rightarrow> next_request (he_stale he) (request_order d) d)"

text \<open>The journal is polled until it shows the submitted command or the time is over.\<close>

fun await_handoff :: "jenv \<Rightarrow> string \<Rightarrow> string \<Rightarrow> string \<Rightarrow> jdir list \<Rightarrow> string \<Rightarrow> string option" where
  "await_handoff env commandID digest upgradeID [] stop = Some stop"
| "await_handoff env commandID digest upgradeID (j # js) stop =
     (if AuthorizeUpgrade env j commandID digest upgradeID = None then None
      else await_handoff env commandID digest upgradeID js stop)"

definition request_identity_ok :: "upgrade_request \<Rightarrow> bool" where
  "request_identity_ok r \<longleftrightarrow>
     uq_SchemaVersion r = requestSchema \<and> uq_UpgradeID r \<noteq> [] \<and> base_name (uq_UpgradeID r) \<and> base_name (uq_ArtifactFile r) \<and>
     uq_ArtifactFile r = uq_UpgradeID r @ ''.tar.gz'' \<and> \<not> is_zero_time (uq_PreparedAt r)"

definition validateHelperRequest :: "helper_config \<Rightarrow> helper_env \<Rightarrow> upgrade_request \<Rightarrow> string option" where
  "validateHelperRequest cfg he r =
     (if \<not> request_identity_ok r then Some ''upgrade request identity is invalid''
      else case DecodeParameters (uf_codec (hp_upgrade cfg)) (c_Parameters (uq_Command r)) of
        Inl e \<Rightarrow> Some e
      | Inr p \<Rightarrow>
          if uq_ArtifactSHA256 r \<noteq> ar_SHA256 (pm_Artifact p) \<or> uq_ArtifactBytes r \<noteq> ar_SizeBytes (pm_Artifact p)
          then Some ''upgrade request artifact does not match its signed command''
          else (case Verify (je_crypto (hp_jenv cfg)) (hp_params cfg) (he_clock he) (uq_Command r)
                       ((hp_verify cfg)\<lparr>vc_Now := to_utc (he_now he)\<rparr>) of
                  Some e \<Rightarrow> Some ''upgrade command re-verification failed''
                | None \<Rightarrow>
                    await_handoff (hp_jenv cfg) (c_CommandID (uq_Command r)) (Digest (je_crypto (hp_jenv cfg)) (uq_Command r))
                      (uq_UpgradeID r) (fst (he_handoff he)) (snd (he_handoff he))))"

text \<open>Everything the helper checks before it changes a file: the stage and cause of a failure, or the parameters and the binary.\<close>

definition verify_upgrade :: "helper_config \<Rightarrow> helper_env \<Rightarrow> upgrade_request \<Rightarrow> upgrade_disk \<Rightarrow> (string \<times> string) + (parameters \<times> bytes)" where
  "verify_upgrade cfg he r d =
     (let uf = hp_upgrade cfg; cd = uf_codec uf; lib = web_lib.truncate cd in
      case validateHelperRequest cfg he r of
        Some e \<Rightarrow> Inl (''validate_request'', e)
      | None \<Rightarrow>
     (case DecodeParameters cd (c_Parameters (uq_Command r)) of
        Inl e \<Rightarrow> Inl (''validate_request'', e)
      | Inr p \<Rightarrow>
     (case getExact (he_manifest he) (2 ^ 20) of
        Inl e \<Rightarrow> Inl (''fetch_manifest'', e)
      | Inr body \<Rightarrow>
     (case DecodeManifest cd body of
        Inl e \<Rightarrow> Inl (''decode_manifest'', e)
      | Inr m \<Rightarrow>
     (case Manifest_Match m p of
        Some e \<Rightarrow> Inl (''match_manifest'', e)
      | None \<Rightarrow>
     (case validateUpgradeTransition (uf_CurrentVersion uf) (pm_ReleaseTag p) of
        Some e \<Rightarrow> Inl (''validate_version_transition'', e)
      | None \<Rightarrow>
     (case SameOrigin lib (uf_WebsiteEndpoint uf) (ar_DownloadURL (pm_Artifact p)) of
        Some e \<Rightarrow> Inl (''verify_origin'', e)
      | None \<Rightarrow>
     (case verifiedBinary (crypto.truncate (uf_crypto uf)) (hp_untar cfg) (dir_read (ud_artifact d) (uq_UpgradeID r)) p of
        Inl e \<Rightarrow> Inl (''verify_archive'', e)
      | Inr binary \<Rightarrow> Inr (p, binary)))))))))"

subsection \<open>Files\<close>

definition candidateHostFirewallPreflight :: "helper_env \<Rightarrow> string \<Rightarrow> bytes \<Rightarrow> upgrade_disk \<Rightarrow> string option \<times> upgrade_disk" where
  "candidateHostFirewallPreflight he i binary d =
     (case he_preflight_dir he of
        Some e \<Rightarrow> (Some e, d)
      | None \<Rightarrow>
          (case dir_write (he_preflight_write he) i binary (ud_preflight d) of
             (False, w) \<Rightarrow> (Some ''stage candidate firewall preflight'', d\<lparr>ud_preflight := w\<rparr>)
           | (True, w) \<Rightarrow>
               let d1 = d\<lparr>ud_preflight := (if he_preflight_remove he = None then dir_del i w else w)\<rparr> in
               (case (he_preflight he, he_preflight_remove he) of
                  (Some e, Some e') \<Rightarrow>
                    (Some (''candidate firewall preflight failed ('' @ e @ ''); cleanup failed ('' @ e' @ '')''), d1)
                | (Some e, None) \<Rightarrow> (Some e, d1)
                | (None, Some e') \<Rightarrow> (Some (''clean up candidate firewall preflight: '' @ e'), d1)
                | (None, None) \<Rightarrow> (None, d1))))"

text \<open>\<open>replaceBinary\<close>: a temporary file renamed over the binary, as every atomic write.\<close>

fun replaceBinary :: "io \<Rightarrow> bytes \<Rightarrow> upgrade_disk \<Rightarrow> string option \<times> upgrade_disk" where
  "replaceBinary IoOk b d = (None, d\<lparr>ud_binary := Some b\<rparr>)"
| "replaceBinary IoFail b d = (Some ''replace binary'', d)"
| "replaceBinary IoLate b d = (Some ''sync binary directory'', d\<lparr>ud_binary := Some b\<rparr>)"

definition restoreBackup :: "io \<Rightarrow> string \<Rightarrow> upgrade_disk \<Rightarrow> string option \<times> upgrade_disk" where
  "restoreBackup oc i d =
     (case dir_read (ud_backups d) i of
        Some (Some b) \<Rightarrow> replaceBinary oc b d | _ \<Rightarrow> (Some ''read backup'', d))"

definition save_backup :: "io \<Rightarrow> string \<Rightarrow> bytes \<Rightarrow> upgrade_disk \<Rightarrow> string option \<times> upgrade_disk" where
  "save_backup oc i current d =
     (case dir_read (ud_backups d) i of
        None \<Rightarrow>
          (case dir_write oc i current (ud_backups d) of
             (ok, w) \<Rightarrow> (if ok then None else Some ''write backup'', d\<lparr>ud_backups := w\<rparr>))
      | Some None \<Rightarrow> (Some ''upgrade backup path is unsafe'', d)
      | Some (Some _) \<Rightarrow> (None, d))"

definition installCandidate :: "helper_env \<Rightarrow> string \<Rightarrow> bytes \<Rightarrow> upgrade_disk \<Rightarrow> string option \<times> upgrade_disk" where
  "installCandidate he i binary d =
     (case ud_binary d of
        None \<Rightarrow> (Some ''installed agent binary path is unsafe'', d)
      | Some current \<Rightarrow>
          (case he_backup_dir he of
             Some e \<Rightarrow> (Some e, d)
           | None \<Rightarrow>
               (case save_backup (he_backup_write he) i current d of
                  (Some e, d1) \<Rightarrow> (Some e, d1)
                | (None, d1) \<Rightarrow>
                    (case replaceBinary (he_install he) binary d1 of
                       (None, d2) \<Rightarrow> (None, d2)
                     | (Some e, d2) \<Rightarrow>
                         (case restoreBackup (he_reinstall he) i d2 of
                            (None, d3) \<Rightarrow> (Some e, d3)
                          | (Some e', d3) \<Rightarrow>
                              (Some (''candidate installation failed ('' @ e @ '') and local restore failed ('' @ e' @ '')''), d3))))))"

subsection \<open>The running agent\<close>

definition status_ok :: "verify_config \<Rightarrow> string \<Rightarrow> string \<Rightarrow> local_status \<Rightarrow> bool" where
  "status_ok vc version signingKeyID s \<longleftrightarrow>
     ls_Version s = version \<and> ls_BindingID s = vc_BindingID vc \<and> ls_DeviceID s = vc_DeviceID vc \<and>
     ls_CredentialEpoch s = dec (unat (vc_CredentialEpoch vc)) \<and> (signingKeyID = [] \<or> ls_SigningKeyID s = signingKeyID)"

fun poll_status :: "verify_config \<Rightarrow> string \<Rightarrow> string \<Rightarrow> local_status option list \<Rightarrow> string \<Rightarrow> string option" where
  "poll_status vc version key [] stop = Some stop"
| "poll_status vc version key (None # ss) stop = poll_status vc version key ss stop"
| "poll_status vc version key (Some s # ss) stop =
     (if status_ok vc version key s then None else poll_status vc version key ss stop)"

definition waitForStatus :: "helper_config \<Rightarrow> string \<Rightarrow> string \<Rightarrow> polls \<Rightarrow> string option" where
  "waitForStatus cfg version key ps = poll_status (hp_verify cfg) version key (fst ps) (snd ps)"

subsection \<open>Rotation of the command signing key\<close>

definition stageCommandSigningRotation :: "enroll_lib \<Rightarrow> io \<Rightarrow> string \<Rightarrow> signing_rotation \<Rightarrow> upgrade_disk \<Rightarrow>
    (string + binding_state) \<times> upgrade_disk" where
  "stageCommandSigningRotation lib oc authorityKeyID r d =
     (case Load_binding lib (ud_bindings d) of
        Inl e \<Rightarrow> (Inl e, d)
      | Inr None \<Rightarrow> (Inl ''file does not exist'', d)
      | Inr (Some s) \<Rightarrow>
          if sg_KeyID (bs_CommandSigningCredential s) \<noteq> authorityKeyID
          then (Inl ''active command signing key does not match signed rotation authority'', d)
          else if \<not> validEd25519Key (sr_PublicKey r) then (Inl ''replacement command signing key is invalid'', d)
          else (case Save_binding lib oc (s\<lparr>bs_CommandSigningCredential := \<lparr>sg_KeyID = sr_KeyID r, sg_Algorithm = ''ed25519'',
                       sg_PublicKey = sr_PublicKey r\<rparr>\<rparr>) (ud_bindings d) of
                  (Some e, b) \<Rightarrow> (Inl e, d\<lparr>ud_bindings := b\<rparr>)
                | (None, b) \<Rightarrow> (Inr s, d\<lparr>ud_bindings := b\<rparr>)))"

definition restoreSigningRotation :: "helper_config \<Rightarrow> helper_env \<Rightarrow> binding_state \<Rightarrow> string \<Rightarrow> upgrade_disk \<Rightarrow> string option \<times> upgrade_disk" where
  "restoreSigningRotation cfg he previous version d =
     (case Save_binding (hp_enroll cfg) (he_recover he) previous (ud_bindings d) of
        (Some e, b) \<Rightarrow> (Some (''restore old signing binding: '' @ e), d\<lparr>ud_bindings := b\<rparr>)
      | (None, b) \<Rightarrow>
          ((case he_recover_restart he of
              Some e \<Rightarrow> Some (''restart with old signing binding: '' @ e)
            | None \<Rightarrow>
                (case waitForStatus cfg version (sg_KeyID (bs_CommandSigningCredential previous)) (he_recover_status he) of
                   Some e \<Rightarrow> Some (''verify old signing binding: '' @ e) | None \<Rightarrow> None)),
           d\<lparr>ud_bindings := b\<rparr>))"

subsection \<open>Results\<close>

definition AgentUpgradeHostFirewallSuccessCode :: string where
  "AgentUpgradeHostFirewallSuccessCode = ''AGENT_UPGRADE_SUCCEEDED_HOST_FIREWALL_V1''"

definition helper_error :: "string \<Rightarrow> string \<Rightarrow> execution_error" where
  "helper_error stage cause =
     \<lparr>ee_Source = ''agent'', ee_Stage = stage, ee_Method = [], ee_Path = [], ee_HTTPStatus = 0, ee_Reason = safeHelperText cause\<rparr>"

definition new_result :: "helper_env \<Rightarrow> string \<Rightarrow> string \<Rightarrow> string \<Rightarrow> string \<Rightarrow> execution_error option \<Rightarrow> upgrade_result" where
  "new_result he i status version code err =
     \<lparr>us_SchemaVersion = requestSchema, us_UpgradeID = i, us_Status = status, us_Version = version, us_Code = code,
      us_Error = err, us_FinishedAt = to_utc (he_finish he)\<rparr>"

definition saveResult :: "io \<Rightarrow> upgrade_result \<Rightarrow> upgrade_disk \<Rightarrow> bool \<times> upgrade_disk" where
  "saveResult oc r d =
     (if us_UpgradeID r = [] \<or> \<not> base_name (us_UpgradeID r) then (False, d)
      else case dir_write oc (us_UpgradeID r) (Some r) (ud_results d) of (ok, w) \<Rightarrow> (ok, d\<lparr>ud_results := w\<rparr>))"

definition clean_up :: "helper_env \<Rightarrow> upgrade_request \<Rightarrow> string \<Rightarrow> upgrade_disk \<Rightarrow> upgrade_disk" where
  "clean_up he q i d =
     (case take_io (he_clean he) of
        (oc1, ios) \<Rightarrow>
          (case take_io ios of
             (oc2, _) \<Rightarrow>
               let d1 = (if uq_ArtifactFile q = uq_UpgradeID q @ ''.tar.gz'' \<and> base_name (uq_ArtifactFile q)
                         then d\<lparr>ud_artifact := remove_quiet oc1 i (ud_artifact d)\<rparr> else d)
               in d1\<lparr>ud_request := remove_quiet oc2 i (ud_request d1)\<rparr>))"

definition writeResult :: "helper_env \<Rightarrow> upgrade_request \<Rightarrow> string \<Rightarrow> upgrade_result \<Rightarrow> upgrade_disk \<Rightarrow> upgrade_disk" where
  "writeResult he q i r d =
     (case saveResult (he_save he) r d of (ok, d1) \<Rightarrow> if ok then clean_up he q i d1 else d1)"

definition fail_run :: "helper_env \<Rightarrow> upgrade_request \<Rightarrow> string \<Rightarrow> string \<Rightarrow> string \<Rightarrow> upgrade_disk \<Rightarrow> string option \<times> upgrade_disk" where
  "fail_run he q i stage cause d =
     (Some cause, writeResult he q i (new_result he i ''failed'' [] ''UPGRADE_HELPER_FAILED'' (Some (helper_error stage cause))) d)"

definition roll_back :: "helper_config \<Rightarrow> helper_env \<Rightarrow> upgrade_request \<Rightarrow> string \<Rightarrow> string \<Rightarrow> upgrade_disk \<Rightarrow> string option \<times> upgrade_disk" where
  "roll_back cfg he q i cause d =
     (case restoreBackup (he_reinstall he) i d of
        (restored, d1) \<Rightarrow>
          let err = (case restored of
                       Some e \<Rightarrow> Some e
                     | None \<Rightarrow>
                         (case he_rollback_restart he of
                            Some e \<Rightarrow> Some e
                          | None \<Rightarrow> waitForStatus cfg (uf_CurrentVersion (hp_upgrade cfg)) [] (he_rollback_status he))) in
          (case err of
             Some e \<Rightarrow>
               let text = ''upgrade failed ('' @ cause @ ''); rollback failed ('' @ e @ '')'' in
               (Some (''upgrade failed ('' @ cause @ '') and rollback failed ('' @ e @ '')''),
                writeResult he q i (new_result he i ''failed'' [] ''UPGRADE_HELPER_FAILED'' (Some (helper_error ''rollback'' text))) d1)
           | None \<Rightarrow>
               (Some (''upgrade failed and was rolled back: '' @ cause),
                writeResult he q i (new_result he i ''rolled_back'' [] ''AGENT_UPGRADE_ROLLED_BACK''
                  (Some (helper_error ''restart_health_check'' cause))) d1)))"

subsection \<open>A run\<close>

definition conclude :: "helper_config \<Rightarrow> helper_env \<Rightarrow> upgrade_request \<Rightarrow> string \<Rightarrow> string \<Rightarrow> binding_state option \<Rightarrow> upgrade_disk \<Rightarrow>
    string option \<times> upgrade_disk" where
  "conclude cfg he q i version previous d =
     (case saveResult (he_success_save he) (new_result he i ''succeeded'' version AgentUpgradeHostFirewallSuccessCode None) d of
        (True, d1) \<Rightarrow> (None, clean_up he q i d1)
      | (False, d1) \<Rightarrow>
          (case previous of
             None \<Rightarrow> fail_run he q i ''save_success_result'' ''save result'' d1
           | Some s \<Rightarrow>
               (case restoreSigningRotation cfg he s version d1 of
                  (Some e, d2) \<Rightarrow>
                    fail_run he q i ''rotate_command_key_recovery''
                      (''save success result failed (save result); old signing key recovery failed ('' @ e @ '')'') d2
                | (None, d2) \<Rightarrow> fail_run he q i ''save_success_result'' ''save result'' d2)))"

definition recover_rotation :: "helper_config \<Rightarrow> helper_env \<Rightarrow> upgrade_request \<Rightarrow> string \<Rightarrow> string \<Rightarrow> binding_state \<Rightarrow> string \<Rightarrow> string \<Rightarrow>
    upgrade_disk \<Rightarrow> string option \<times> upgrade_disk" where
  "recover_rotation cfg he q i version previous stage cause d =
     (case restoreSigningRotation cfg he previous version d of
        (Some e, d1) \<Rightarrow>
          fail_run he q i ''rotate_command_key_recovery''
            (stage @ '' failed ('' @ cause @ ''); old signing key recovery failed ('' @ e @ '')'') d1
      | (None, d1) \<Rightarrow> fail_run he q i stage cause d1)"

definition rotate_key :: "helper_config \<Rightarrow> helper_env \<Rightarrow> upgrade_request \<Rightarrow> string \<Rightarrow> string \<Rightarrow> parameters \<Rightarrow> upgrade_disk \<Rightarrow>
    string option \<times> upgrade_disk" where
  "rotate_key cfg he q i version p d =
     (case pm_CommandSigningRotation p of
        None \<Rightarrow> conclude cfg he q i version None d
      | Some r \<Rightarrow>
          (case stageCommandSigningRotation (hp_enroll cfg) (he_rotate he) (c_SigningKeyID (uq_Command q)) r d of
             (Inl e, d1) \<Rightarrow> fail_run he q i ''rotate_command_key'' e d1
           | (Inr previous, d1) \<Rightarrow>
               (case he_rotate_restart he of
                  Some e \<Rightarrow> recover_rotation cfg he q i version previous ''rotate_command_key_restart'' e d1
                | None \<Rightarrow>
                    (case waitForStatus cfg version (sr_KeyID r) (he_rotate_status he) of
                       Some e \<Rightarrow> recover_rotation cfg he q i version previous ''rotate_command_key_health_check'' e d1
                     | None \<Rightarrow> conclude cfg he q i version (Some previous) d1))))"

definition activate :: "helper_config \<Rightarrow> helper_env \<Rightarrow> upgrade_request \<Rightarrow> string \<Rightarrow> parameters \<Rightarrow> upgrade_disk \<Rightarrow> string option \<times> upgrade_disk" where
  "activate cfg he q i p d =
     (let version = trim_prefix ''v'' (pm_ReleaseTag p) in
      case he_restart he of
        Some e \<Rightarrow> roll_back cfg he q i e d
      | None \<Rightarrow>
          (case waitForStatus cfg version (c_SigningKeyID (uq_Command q)) (he_status he) of
             Some e \<Rightarrow> roll_back cfg he q i e d
           | None \<Rightarrow>
               (case he_postflight he of
                  Some e \<Rightarrow> fail_run he q i ''host_firewall_reconcile'' e d
                | None \<Rightarrow> rotate_key cfg he q i version p d)))"

definition process_request :: "helper_config \<Rightarrow> helper_env \<Rightarrow> string \<Rightarrow> upgrade_request \<Rightarrow> upgrade_disk \<Rightarrow> string option \<times> upgrade_disk" where
  "process_request cfg he i q d =
     (case verify_upgrade cfg he q d of
        Inl (stage, e) \<Rightarrow> fail_run he q i stage e d
      | Inr (p, binary) \<Rightarrow>
          (case candidateHostFirewallPreflight he i binary d of
             (Some e, d1) \<Rightarrow> fail_run he q i ''host_firewall_preflight'' e d1
           | (None, d1) \<Rightarrow>
               (case installCandidate he i binary d1 of
                  (Some e, d2) \<Rightarrow> fail_run he q i ''install_candidate'' e d2
                | (None, d2) \<Rightarrow> activate cfg he q i p d2)))"

definition RunHelper :: "helper_config \<Rightarrow> helper_env \<Rightarrow> upgrade_disk \<Rightarrow> string option \<times> upgrade_disk" where
  "RunHelper cfg he d =
     (case he_root he of
        Some e \<Rightarrow> (Some e, d)
      | None \<Rightarrow>
          (case nextRequest he d of
             (Inl e, d1) \<Rightarrow> (Some e, d1)
           | (Inr (i, q), d1) \<Rightarrow> process_request cfg he i q d1))"

end
