(* ===== verification/Upgrade_Example.thy ===== *)
theory Upgrade_Example
  imports Binding_Guarantees Upgrade_Text Upgrade_Helper Journal_Guarantees
begin

section \<open>A concrete upgrade\<close>

text \<open>A signed command for release 1.2.0, its archive and a helper that installs it over 1.1.0.\<close>

definition ex_node :: identity where
  "ex_node = \<lparr>id_ServiceRef = [], id_ClusterRef = ''cluster-a'', id_NodeRef = ''pve1'', id_VMID = 0, id_Generation = 0,
     id_InstanceUUID = [], id_GuestType = []\<rparr>"

definition ex_upgrade :: command where
  "ex_upgrade = ex_command\<lparr>c_Action := ''agent.upgrade'', c_Scope := ScopeNode, c_Identity := ex_node\<rparr>"

definition ex_authority :: verify_config where
  "ex_authority = Command_Types.ex_config\<lparr>vc_Allowed := AllowedSet [''agent.upgrade'']\<rparr>"

lemma ex_upgrade_action [simp]:
  "actionRE ''agent.upgrade''" "action_spec ''agent.upgrade'' = Some ([ScopeNode], False)"
  by code_simp+

lemma ex_upgrade_verified: "Verify ex_command_crypto (\<lambda>_. True) zero_time ex_upgrade ex_authority = None"
proof -
  have body: "body_hash_ok ex_command_crypto ex_upgrade" using ex_body by (simp add: body_hash_ok_def ex_upgrade_def)
  have sig: "verifySignature ex_command_crypto ex_upgrade ex_authority = None"
    by (simp add: verifySignature_def ex_authority_def Command_Types.ex_config_def ex_upgrade_def ex_command_def base64_roundtrip
        PublicKeySize_def SignatureSize_def CanonicalCommandBody_def ex_command_crypto_def del: base64_encode.simps base64_decode.simps)
  have "verifyScope ex_upgrade ex_authority = None"
    by (simp add: verifyScope_def ex_upgrade_def ex_authority_def Command_Types.ex_config_def ex_node_def validActionScope_def no_guest_def)
  moreover have "verifyAuthority ex_upgrade ex_authority = None"
    by (simp add: verifyAuthority_def ex_upgrade_def ex_authority_def ex_command_def Command_Types.ex_config_def)
  moreover have "\<not> is_zero_time ex_issued" "to_utc ex_issued = ex_issued"
    by (simp_all add: ex_issued_def is_zero_time_def to_utc_def)
  moreover have "timing_ok ex_issued (5 * minute) (15 * minute) ex_upgrade"
    using ex_timing by (simp add: timing_ok_def ex_upgrade_def)
  ultimately have "verifyPolicy (\<lambda>_. True) zero_time ex_upgrade ex_authority = None"
    using ex_command_fields by (simp add: verifyPolicy_def ex_upgrade_def ex_authority_def authority_present_def AllowedSet_def)
  then show ?thesis using body sig by (simp add: Verify_ok)
qed

definition ex_submitted :: journal_record where
  "ex_submitted = (new_record ex_upgrade ex_issued None (hex_encode ex_hash) ''node:pve1'')\<lparr>jr_State := ''submitted'',
     jr_AgentUpgradeID := ''u-1'', jr_Receipt := Some (empty_receipt\<lparr>r_AgentUpgradeID := ''u-1''\<rparr>)\<rparr>"

definition ex_upgrade_jenv :: jenv where
  "ex_upgrade_jenv = ex_jenv\<lparr>je_crypto := ex_command_crypto\<rparr>"

definition ex_handoff :: jdir where
  "ex_handoff = [(journal_path ex_upgrade_jenv ''cmd-1'', Some ex_submitted)]"

lemma ex_upgrade_digest: "Digest ex_command_crypto ex_upgrade = hex_encode ex_hash"
  by (simp add: Digest_def CanonicalCommandBody_def ex_command_crypto_def crypto.defs ex_upgrade_def ex_command_def canonical_fields_def)

lemma ex_submitted_ok: "record_ok ex_submitted"
proof -
  have "hex_encode ex_hash \<noteq> []" by (simp add: hex_encode_def ex_hash_def)
  then show ?thesis
    by (simp add: record_ok_def ex_submitted_def new_record_def validJournalScope_def ex_upgrade_def ex_node_def ex_command_def
        validOptionalJournalLineage_def validJournalMigrationMarkers_def utc_marker_def validSnippetJournalRecord_def ScopeNode_def
        ScopeCluster_def ScopeVM_def)
qed

lemma ex_authorized: "AuthorizeUpgrade ex_upgrade_jenv ex_handoff ''cmd-1'' (hex_encode ex_hash) ''u-1'' = None"
proof -
  have "readJournal ex_handoff (journal_path ex_upgrade_jenv ''cmd-1'') = Inr ex_submitted"
    using ex_submitted_ok by (simp add: readJournal_def ex_handoff_def dir_read_def)
  then show ?thesis by (simp add: AuthorizeUpgrade_def ex_submitted_def new_record_def)
qed

subsection \<open>The release\<close>

definition ex_raw :: bytes where
  "ex_raw = replicate (2 ^ 20) (CHR ''x'')"

lemma ex_raw_length: "length ex_raw = 2 ^ 20"
  by (simp only: ex_raw_def length_replicate)

definition ex_release_url :: url where
  "ex_release_url = ex_site\<lparr>u_Path := ArtifactPath ''v1.2.0'' ''amd64'', u_EscapedPath := ArtifactPath ''v1.2.0'' ''amd64''\<rparr>"

definition ex_sha :: string where
  "ex_sha = hex_encode ex_hash"

definition ex_artifact :: artifact where
  "ex_artifact = \<lparr>ar_Architecture = ''amd64'', ar_AssetName = ''ppflight-agent-1.2.0-linux-amd64.tar.gz'',
     ar_SizeBytes = ''1048576'', ar_SHA256 = ex_sha, ar_DownloadURL = ''https://site.example/a''\<rparr>"

definition ex_parameters :: parameters where
  "ex_parameters = \<lparr>pm_SchemaVersion = 1, pm_ReleaseTag = ''v1.2.0'', pm_AgentCommitSHA = ex_sha,
     pm_Artifact = ex_artifact, pm_CommandSigningRotation = None\<rparr>"

definition ex_manifest :: manifest where
  "ex_manifest = \<lparr>mf_SchemaVersion = 1, mf_ReleaseTag = ''v1.2.0'', mf_Version = ''v1.2.0'', mf_AgentCommitSHA = ex_sha,
     mf_InstallerCommitSHA = ex_sha, mf_Prerelease = False, mf_PublishedAt = ex_issued, mf_UpgradeDeliveryEnabled = True,
     mf_FailClosedReason = [], mf_Artifacts = [ex_artifact]\<rparr>"

definition ex_codec :: upgrade_codec where
  "ex_codec = \<lparr>wl_parse_url = (\<lambda>_. Some ex_release_url), wl_parse_ipv6 = (\<lambda>_. None), uc_parameters = (\<lambda>_. Some ex_parameters),
     uc_manifest = (\<lambda>_. Some ex_manifest), uc_arch = ''amd64''\<rparr>"

lemma ex_sha_hex: "hex64RE ex_sha"
  by (simp add: hex64RE_def ex_sha_def hex_encode_lower ex_hash_def)

lemma ex_versions:
  "releaseTagRE ''v1.2.0''" "assetRE ''ppflight-agent-1.2.0-linux-amd64.tar.gz''"
  "trim_prefix ''v'' ''v1.2.0'' = ''1.2.0''" "\<not> contains_text ''-rc.'' ''v1.2.0''"
  by code_simp+

lemma ex_digits: "map digit_char [0, 1, 2, 3, 4, 5, 6, 7, 8, 9] = ''0123456789''"
  by code_simp

lemma ex_dec: "dec 1048576 = ''1048576''" "dec 0 = ''0''" "dec 1 = ''1''" "dec 2 = ''2''"
  using ex_digits by (simp_all add: dec.simps)

lemma ex_size: "parse_uint ''1048576'' = Some 1048576" "parse_dec ''1048576'' = 1048576"
  using parse_uint_dec [of 1048576] parse_dec_dec [of 1048576] by (simp_all add: ex_dec)

lemma ex_artifact_valid: "Artifact_Validate (web_lib.truncate ex_codec) ex_artifact ''v1.2.0'' ''amd64'' = None"
  using ex_sha_hex
  by (simp add: Artifact_Validate_def ex_artifact_def ex_versions ex_size ex_dec MinArtifactBytes_def MaxArtifactBytes_def ex_codec_def
      web_lib.defs ex_release_url_def ex_site_def)

lemma ex_parameters_decoded: "DecodeParameters ex_codec raw = Inr ex_parameters"
  using ex_artifact_valid ex_sha_hex
  by (simp add: DecodeParameters_def Parameters_Validate_def ex_parameters_def upgradeSchemaVersion_def ex_versions
      ex_codec_def)

lemma ex_manifest_decoded: "DecodeManifest ex_codec raw = Inr ex_manifest"
proof -
  have "\<not> is_zero_time ex_issued" "location ex_issued = UTC" by (simp_all add: ex_issued_def is_zero_time_def)
  moreover have "ar_Architecture ex_artifact = ''amd64''" by (simp add: ex_artifact_def)
  ultimately show ?thesis
    using ex_artifact_valid ex_sha_hex
    by (simp add: DecodeManifest_def Manifest_Validate_def ex_manifest_def upgradeSchemaVersion_def ex_versions ex_codec_def)
qed

lemma ex_match: "Manifest_Match ex_manifest ex_parameters = None"
  by (simp add: Manifest_Match_def ex_manifest_def ex_parameters_def)

lemma ex_transition: "validateUpgradeTransition ''1.1.0'' ''v1.2.0'' = None"
proof -
  have "parseAgentVersion ''1.1.0'' = Inr (AgentVersion (1, 1, 0) True 0)" "parseAgentVersion ''v1.2.0'' = Inr (AgentVersion (1, 2, 0) True 0)"
    using parse_version_text [of "AgentVersion (1, 1, 0) True 0"] parse_version_text [of "AgentVersion (1, 2, 0) True 0"]
    by (simp_all add: version_text_def ex_dec del: One_nat_def)
  then show ?thesis by (simp add: validateUpgradeTransition_def)
qed

lemma ex_origin: "SameOrigin (web_lib.truncate ex_codec) a b = None"
  by (simp add: SameOrigin_def ex_codec_def web_lib.defs ex_release_url_def ex_site_def equal_fold_def)

definition ex_header :: "string \<Rightarrow> bytes \<Rightarrow> tar_header \<times> bytes option" where
  "ex_header name b = (\<lparr>th_Name = name, th_Type = TarReg, th_Uid = 0, th_Gid = 0, th_Mode = 420, th_Size = int (length b)\<rparr>, Some b)"

definition ex_checksum :: bytes where
  "ex_checksum = ex_sha @ '' ppflight-agent''"

definition ex_tar :: tar_stream where
  "ex_tar = ([ex_header ''ppflight-agent/ppflight-agent'' ''new'', ex_header ''ppflight-agent/ppflight-agent.sha256'' ex_checksum,
     ex_header ''ppflight-agent/VERSION'' ''1.2.0''], None)"

lemma ex_entries:
  "allowedReleaseEntry ''ppflight-agent/ppflight-agent'' False" "allowedReleaseEntry ''ppflight-agent/ppflight-agent.sha256'' False"
  "allowedReleaseEntry ''ppflight-agent/VERSION'' False" "\<not> unsafe_path ''ppflight-agent/ppflight-agent''"
  "\<not> unsafe_path ''ppflight-agent/ppflight-agent.sha256''" "\<not> unsafe_path ''ppflight-agent/VERSION''"
  by code_simp+

lemma printable_no_space: "printable c \<Longrightarrow> [c] \<notin> set space_runes"
  by (auto simp: printable_def space_runes_def code_of_def)

lemma fields_words:
  assumes "list_all printable v" "list_all printable w" "v \<noteq> []" "w \<noteq> []"
  shows "Go_Utf8.fields (v @ '' '' @ w) = [v, w]"
proof -
  have sp: "'' '' \<in> set space_runes" by code_simp
  define ss :: "string \<Rightarrow> string list" where "ss = map (\<lambda>c. [c])"
  have p: "is_rune [c]" "[c] \<notin> set space_runes" if "printable c" for c
    using that by (auto simp: printable_def lead_len_def between_def space_runes_def code_of_def)
  have r: "list_all is_rune (ss u)" if "list_all printable u" for u using that p(1) by (induction u) (simp_all add: ss_def)
  have f: "fields_of (ss u @ rs) a = fields_of rs (a @ u)" if "list_all printable u" for u rs a
    using that p(2) by (induction u arbitrary: a) (simp_all add: ss_def)
  have "concat (ss u) = u" for u by (induction u) (simp_all add: ss_def)
  then have c: "concat (ss v @ ['' ''] @ ss w) = v @ '' '' @ w" by simp
  have "list_all is_rune (ss v @ ['' ''] @ ss w)" using r assms by (simp add: lead_len_def between_def code_of_def)
  then have "runes (v @ '' '' @ w) = map Some (ss v @ ['' ''] @ ss w)" using runes_concat [of _ "[]"] c by (metis append_Nil2 runes.simps(1))
  then have "Go_Utf8.fields (v @ '' '' @ w) = fields_of (ss v @ ['' ''] @ ss w) []"
    using rune_pieces_concat c unfolding Go_Utf8.fields_def by metis
  also have "\<dots> = [v, w]" using f [of v "['' ''] @ ss w" "[]"] f [of w "[]" "[]"] assms sp by simp
  finally show ?thesis .
qed

lemma ex_fields: "Go_Utf8.fields ex_checksum = [ex_sha, ''ppflight-agent'']"
proof -
  have "list_all printable ex_sha" using ex_sha_hex
    by (auto simp: hex64RE_def list_all_iff is_lower_hex_def is_digit_def printable_def between_def)
  moreover have "ex_sha \<noteq> []" using ex_sha_hex by (auto simp: hex64RE_def)
  moreover have "list_all printable ''ppflight-agent''" by (simp add: printable_def code_of_def)
  ultimately show ?thesis using fields_words [of ex_sha "''ppflight-agent''"] unfolding ex_checksum_def by simp
qed

lemma ex_binary: "verifiedBinary (crypto.truncate ex_command_crypto) (\<lambda>_. Inr ex_tar) (Some (Some ex_raw)) ex_parameters = Inr ''new''"
proof -
  have sha: "sha256 (crypto.truncate ex_command_crypto) b = ex_hash" for b by (simp add: ex_command_crypto_def crypto.defs)
  have len: "length ex_checksum = 79" by (simp add: ex_checksum_def ex_sha_def ex_hash_def)
  have ne: "ex_checksum \<noteq> []" by (simp add: ex_checksum_def)
  define f where "f = \<lparr>rf_binary = ''new'', rf_checksum = ex_checksum, rf_version = ''1.2.0''\<rparr>"
  have scan: "scan_archive 0 0 \<lparr>rf_binary = [], rf_checksum = [], rf_version = []\<rparr> (fst ex_tar) (snd ex_tar) = Inr f"
    by (simp add: ex_tar_def ex_header_def ex_entries store_entry_def entry_body_def len sum_bind_def wrap64_def f_def)
  have trim: "trim_space ''1.2.0'' = ''1.2.0''" by (rule trim_space_printable) (simp add: code_of_def)
  have "length ex_raw = parse_dec (ar_SizeBytes (pm_Artifact ex_parameters))"
    by (simp add: ex_raw_length ex_parameters_def ex_artifact_def ex_size)
  then show ?thesis
    using scan unfolding verifiedBinary_def
    by (simp add: sha case_prod_beta sum_bind_def f_def trim ex_fields ex_parameters_def ex_versions ex_artifact_def ex_sha_def)
qed

subsection \<open>The helper\<close>

definition ex_uprequest :: upgrade_request where
  "ex_uprequest = \<lparr>uq_SchemaVersion = 1, uq_UpgradeID = ''u-1'', uq_PreparedAt = ex_issued, uq_CurrentVersion = ''1.1.0'',
     uq_ArtifactFile = ''u-1.tar.gz'', uq_ArtifactSHA256 = ex_sha, uq_ArtifactBytes = ''1048576'', uq_Command = ex_upgrade\<rparr>"

definition ex_status :: "string \<Rightarrow> local_status" where
  "ex_status v = \<lparr>ls_Version = v, ls_SigningKeyID = ''key-1'', ls_BindingID = Command_Types.ex_binding, ls_DeviceID = ''dev-1'',
     ls_CredentialEpoch = ''1''\<rparr>"

definition ex_helper :: helper_config where
  "ex_helper = \<lparr>hp_upgrade = \<lparr>uf_WebsiteEndpoint = ''https://site.example/bind'', uf_CurrentVersion = ''1.1.0'', uf_codec = ex_codec,
       uf_crypto = ex_command_crypto\<rparr>, hp_enroll = ex_enroll_lib, hp_jenv = ex_upgrade_jenv, hp_params = (\<lambda>_. True),
     hp_verify = ex_authority, hp_untar = (\<lambda>_. Inr ex_tar)\<rparr>"

text \<open>Every step succeeds; \<open>polls\<close> are the answers of the status page after the restart.\<close>

definition ex_run :: "polls \<Rightarrow> helper_env" where
  "ex_run ps = \<lparr>he_root = None, he_readdir = None, he_stale = [], he_now = ex_issued, he_clock = zero_time,
     he_handoff = ([ex_handoff], ''timeout''), he_manifest = GetAnswer True 200 [] 2 (Some ''{}''), he_preflight_dir = None,
     he_preflight_write = IoOk, he_preflight = None, he_preflight_remove = None, he_backup_dir = None, he_backup_write = IoOk,
     he_install = IoOk, he_reinstall = IoOk, he_restart = None, he_status = ps, he_rollback_restart = None,
     he_rollback_status = ([Some (ex_status ''1.1.0'')], ''timeout''), he_postflight = None, he_rotate = IoOk, he_rotate_restart = None,
     he_rotate_status = ([], ''timeout''), he_recover = IoOk, he_recover_restart = None, he_recover_status = ([], ''timeout''),
     he_success_save = IoOk, he_finish = ex_issued, he_save = IoOk, he_clean = []\<rparr>"

definition ex_updisk :: upgrade_disk where
  "ex_updisk = \<lparr>ud_prepared = [], ud_request = [(''u-1'', Some (Some ex_uprequest))], ud_artifact = [(''u-1'', Some ex_raw)],
     ud_results = [], ud_backups = [], ud_preflight = [], ud_binary = Some ''old'', ud_bindings = ex_bindings\<rparr>"

lemma ex_chosen: "nextRequest (ex_run ps) ex_updisk = (Inr (''u-1'', ex_uprequest), ex_updisk)"
  by (simp add: nextRequest_def request_order_def ex_run_def ex_updisk_def dir_read_def ex_uprequest_def)

lemma ex_validated: "validateHelperRequest ex_helper (ex_run ps) ex_uprequest = None"
proof -
  have now: "to_utc ex_issued = ex_issued" "\<not> is_zero_time ex_issued" by (simp_all add: ex_issued_def is_zero_time_def to_utc_def)
  have same: "ex_authority\<lparr>vc_Now := ex_issued\<rparr> = ex_authority" by (simp add: ex_authority_def Command_Types.ex_config_def)
  have id: "request_identity_ok ex_uprequest"
    using now(2) by (simp add: request_identity_ok_def ex_uprequest_def requestSchema_def base_name_def)
  have art: "uq_ArtifactSHA256 ex_uprequest = ar_SHA256 (pm_Artifact ex_parameters)" "uq_ArtifactBytes ex_uprequest = ar_SizeBytes (pm_Artifact ex_parameters)"
    by (simp_all add: ex_uprequest_def ex_parameters_def ex_artifact_def)
  have cmd: "uq_Command ex_uprequest = ex_upgrade" "uq_UpgradeID ex_uprequest = ''u-1''" "c_CommandID ex_upgrade = ''cmd-1''"
    by (simp_all add: ex_uprequest_def ex_upgrade_def ex_command_def)
  have cfg: "uf_codec (hp_upgrade ex_helper) = ex_codec" "hp_jenv ex_helper = ex_upgrade_jenv" "hp_verify ex_helper = ex_authority"
    "hp_params ex_helper = (\<lambda>_. True)" "je_crypto ex_upgrade_jenv = ex_command_crypto"
    by (simp_all add: ex_helper_def ex_upgrade_jenv_def ex_jenv_def)
  have env: "he_clock (ex_run ps) = zero_time" "he_now (ex_run ps) = ex_issued" "he_handoff (ex_run ps) = ([ex_handoff], ''timeout'')"
    by (simp_all add: ex_run_def)
  show ?thesis
    by (simp add: validateHelperRequest_def id ex_parameters_decoded art cmd cfg env now same ex_upgrade_verified ex_upgrade_digest ex_authorized)
qed

lemma ex_checked: "verify_upgrade ex_helper (ex_run ps) ex_uprequest ex_updisk = Inr (ex_parameters, ''new'')"
proof -
  have cfg: "uf_codec (hp_upgrade ex_helper) = ex_codec" "uf_CurrentVersion (hp_upgrade ex_helper) = ''1.1.0''"
    "uf_crypto (hp_upgrade ex_helper) = ex_command_crypto" "hp_untar ex_helper = (\<lambda>_. Inr ex_tar)"
    by (simp_all add: ex_helper_def)
  have env: "getExact (he_manifest (ex_run ps)) 1048576 = Inr ''{}''" by (simp add: ex_run_def getExact_def)
  have d: "dir_read (ud_artifact ex_updisk) (uq_UpgradeID ex_uprequest) = Some (Some ex_raw)"
    by (simp add: ex_updisk_def ex_uprequest_def dir_read_def)
  have tag: "pm_ReleaseTag ex_parameters = ''v1.2.0''" by (simp add: ex_parameters_def)
  show ?thesis
    by (simp add: verify_upgrade_def Let_def ex_validated cfg env d tag ex_parameters_decoded ex_manifest_decoded ex_match ex_transition
        ex_origin ex_binary)
qed

text \<open>The disk with the candidate installed.\<close>

definition ex_installed :: upgrade_disk where
  "ex_installed = ex_updisk\<lparr>ud_backups := [(''u-1'', Some ''old'')], ud_binary := Some ''new''\<rparr>"

lemma ex_installs:
  "RunHelper ex_helper (ex_run ps) ex_updisk = activate ex_helper (ex_run ps) ex_uprequest ''u-1'' ex_parameters ex_installed"
proof -
  have "candidateHostFirewallPreflight (ex_run ps) ''u-1'' ''new'' ex_updisk = (None, ex_updisk)"
    by (simp add: candidateHostFirewallPreflight_def ex_run_def ex_updisk_def dir_put_def dir_del_def)
  moreover have "installCandidate (ex_run ps) ''u-1'' ''new'' ex_updisk = (None, ex_installed)"
    by (simp add: installCandidate_def ex_run_def ex_updisk_def save_backup_def dir_read_def dir_put_def ex_installed_def)
  moreover have "he_root (ex_run ps) = None" by (simp add: ex_run_def)
  ultimately show ?thesis by (simp add: RunHelper_def ex_chosen process_request_def ex_checked)
qed

lemma ex_status_ok:
  "status_ok ex_authority ''1.2.0'' ''key-1'' (ex_status ''1.2.0'')" "status_ok ex_authority ''1.1.0'' [] (ex_status ''1.1.0'')"
  by (simp_all add: status_ok_def ex_status_def ex_authority_def Command_Types.ex_config_def ex_dec del: One_nat_def)

abbreviation ex_seen :: polls where
  "ex_seen \<equiv> ([None, Some (ex_status ''1.2.0'')], ''timeout'')"

abbreviation ex_unseen :: polls where
  "ex_unseen \<equiv> ([None], ''timeout'')"

lemma ex_succeeds:
  "\<exists>d. RunHelper ex_helper (ex_run ex_seen) ex_updisk = (None, d) \<and> ud_binary d = Some ''new''"
proof -
  have w: "waitForStatus ex_helper ''1.2.0'' ''key-1'' ex_seen = None"
    using ex_status_ok(1) by (simp add: waitForStatus_def ex_helper_def)
  have p: "trim_prefix ''v'' (pm_ReleaseTag ex_parameters) = ''1.2.0''" "pm_CommandSigningRotation ex_parameters = None"
    "c_SigningKeyID (uq_Command ex_uprequest) = ''key-1''"
    by (simp_all add: ex_parameters_def ex_versions ex_uprequest_def ex_upgrade_def ex_command_def)
  have e: "he_restart (ex_run ps) = None" "he_postflight (ex_run ps) = None" "he_success_save (ex_run ps) = IoOk" "he_status (ex_run ps) = ps" for ps
    by (simp_all add: ex_run_def)
  have "RunHelper ex_helper (ex_run ex_seen) ex_updisk = rotate_key ex_helper (ex_run ex_seen) ex_uprequest ''u-1'' ''1.2.0'' ex_parameters ex_installed"
    unfolding ex_installs by (simp add: activate_def Let_def e p w)
  also have "\<dots> = conclude ex_helper (ex_run ex_seen) ex_uprequest ''u-1'' ''1.2.0'' None ex_installed" by (simp add: rotate_key_def p)
  finally have r: "RunHelper ex_helper (ex_run ex_seen) ex_updisk = conclude ex_helper (ex_run ex_seen) ex_uprequest ''u-1'' ''1.2.0'' None ex_installed" .
  obtain ok d1 where s: "saveResult IoOk (new_result (ex_run ex_seen) ''u-1'' ''succeeded'' ''1.2.0'' AgentUpgradeHostFirewallSuccessCode None) ex_installed = (ok, d1)"
    by (metis surj_pair)
  then have "ok" "ud_binary d1 = Some ''new''"
    by (auto simp: saveResult_def new_result_def base_name_def ex_installed_def)
  then show ?thesis unfolding r conclude_def e s by (simp add: clean_up_def Let_def split: prod.split)
qed

lemma ex_reason: "safeHelperText ''timeout'' = ''timeout''"
proof -
  define rs where "rs = [''t'', ''i'', ''m'', ''e'', ''o'', ''u'', ''t'']"
  have r: "list_all is_rune rs" "concat rs = ''timeout''" by (simp_all add: rs_def lead_len_def between_def code_of_def)
  have "[c] \<notin> set space_runes" if "c \<in> set ''timeout''" for c
    by (rule printable_no_space) (use that in \<open>auto simp: printable_def code_of_def\<close>)
  then have "fields_of rs [] = [''timeout'']" by (simp add: rs_def)
  then have f: "Go_Utf8.fields ''timeout'' = [''timeout'']" using fields_concat [OF r(1)] r(2) by simp
  have "runes ''timeout'' = map Some rs" using runes_concat [OF r(1), of "[]"] r(2) by simp
  then have "map_runes clean_rune ''timeout'' = ''timeout''" by (simp add: map_runes_def rs_def rune_bytes_def clean_rune_def code_of_def)
  then show ?thesis by (simp add: safeHelperText_def f maxHelperDiagnosticBytes_def)
qed

definition ex_rolled_back :: upgrade_result where
  "ex_rolled_back = new_result (ex_run ex_unseen) ''u-1'' ''rolled_back'' [] ''AGENT_UPGRADE_ROLLED_BACK''
     (Some (helper_error ''restart_health_check'' ''timeout''))"

lemma ex_rolls_back:
  "\<exists>e d. RunHelper ex_helper (ex_run ex_unseen) ex_updisk = (Some e, d) \<and> dir_read (ud_results d) ''u-1'' = Some (Some (Some ex_rolled_back))"
proof -
  have p: "trim_prefix ''v'' (pm_ReleaseTag ex_parameters) = ''1.2.0''" by (simp add: ex_parameters_def ex_versions)
  have e: "he_restart (ex_run ps) = None" "he_status (ex_run ps) = ps" "he_reinstall (ex_run ps) = IoOk" "he_rollback_restart (ex_run ps) = None"
    "he_rollback_status (ex_run ps) = ([Some (ex_status ''1.1.0'')], ''timeout'')" "he_save (ex_run ps) = IoOk" for ps
    by (simp_all add: ex_run_def)
  have w: "waitForStatus ex_helper v k ex_unseen = Some ''timeout''" for v k by (simp add: waitForStatus_def)
  have v: "waitForStatus ex_helper ''1.1.0'' [] ([Some (ex_status ''1.1.0'')], ''timeout'') = None"
    using ex_status_ok(2) by (simp add: waitForStatus_def ex_helper_def)
  have c: "uf_CurrentVersion (hp_upgrade ex_helper) = ''1.1.0''" by (simp add: ex_helper_def)
  define d1 where "d1 = ex_installed\<lparr>ud_binary := Some ''old''\<rparr>"
  have b: "restoreBackup IoOk ''u-1'' ex_installed = (None, d1)"
    by (simp add: restoreBackup_def ex_installed_def d1_def dir_read_def)
  have "RunHelper ex_helper (ex_run ex_unseen) ex_updisk = roll_back ex_helper (ex_run ex_unseen) ex_uprequest ''u-1'' ''timeout'' ex_installed"
    unfolding ex_installs by (simp add: activate_def Let_def e p w)
  also have "\<dots> = (Some (''upgrade failed and was rolled back: '' @ ''timeout''), writeResult (ex_run ex_unseen) ex_uprequest ''u-1'' ex_rolled_back d1)"
    by (simp add: roll_back_def e b c v ex_rolled_back_def)
  finally have r: "RunHelper ex_helper (ex_run ex_unseen) ex_updisk =
      (Some (''upgrade failed and was rolled back: '' @ ''timeout''), writeResult (ex_run ex_unseen) ex_uprequest ''u-1'' ex_rolled_back d1)" .
  obtain ok d2 where s: "saveResult IoOk ex_rolled_back d1 = (ok, d2)" by (metis surj_pair)
  then have "ok" "dir_read (ud_results d2) ''u-1'' = Some (Some (Some ex_rolled_back))"
    by (auto simp: saveResult_def ex_rolled_back_def new_result_def base_name_def)
  moreover have "ud_results (clean_up h q i d2) = ud_results d2" for h q i by (simp add: clean_up_def Let_def split: prod.split)
  ultimately have "dir_read (ud_results (writeResult (ex_run ex_unseen) ex_uprequest ''u-1'' ex_rolled_back d1)) ''u-1'' = Some (Some (Some ex_rolled_back))"
    by (simp add: writeResult_def e s)
  then show ?thesis using r by blast
qed

definition ex_rotation :: signing_rotation where
  "ex_rotation = \<lparr>sr_KeyID = ''sign-2'', sr_PublicKey = base64_encode (replicate 32 9)\<rparr>"

abbreviation ex_rotated :: binding_state where
  "ex_rotated \<equiv> Binding_Guarantees.ex_binding\<lparr>bs_CommandSigningCredential := \<lparr>sg_KeyID = sr_KeyID ex_rotation, sg_Algorithm = ''ed25519'',
     sg_PublicKey = sr_PublicKey ex_rotation\<rparr>\<rparr>"

lemma ex_rotated_valid: "State_Validate ex_enroll_lib ex_rotated" "validEd25519Key (sr_PublicKey ex_rotation)"
proof -
  have "safeID ''sign-2''" by code_simp
  then show "State_Validate ex_enroll_lib ex_rotated" "validEd25519Key (sr_PublicKey ex_rotation)"
    using Binding_Guarantees.ex_patterns(1-3)
    by (simp_all add: State_Validate_def ex_secure Response_Validate_def State_Response_def Binding_Guarantees.ex_binding_def bindSchemaVersion_def
        ex_address ex_secret_def validSecret_def validEd25519Key_def base64_std_encode signing_ok_def endpoint_list_def credential_list_def
        safe_endpoint_def sameOrigin_def equal_fold_def is_zero_time_def zero_time_def ex_object ex_rotation_def)
qed

end
