(* ===== verification/Upgrade_Guarantees.thy ===== *)
theory Upgrade_Guarantees
  imports Upgrade_Example
begin

section \<open>Guarantees of the self-update\<close>

text \<open>
  Frame lemmas of the helper's steps, then what a whole run of the helper may install, which result
  it leaves and that the reader of results accepts it.
\<close>

subsection \<open>What the steps keep\<close>

lemma remove_quiet_frame [simp]: "q \<noteq> p \<Longrightarrow> dir_read (remove_quiet oc p d) q = dir_read d q"
  by (simp add: remove_quiet_def dir_remove_def)

definition same_unfinished :: "upgrade_disk \<Rightarrow> upgrade_disk \<Rightarrow> bool" where
  "same_unfinished d d1 \<longleftrightarrow>
     d1 = d\<lparr>ud_artifact := ud_artifact d1, ud_request := ud_request d1\<rparr> \<and>
     (\<forall>j. dir_read (ud_results d) j = None \<longrightarrow>
        dir_read (ud_artifact d1) j = dir_read (ud_artifact d) j \<and> dir_read (ud_request d1) j = dir_read (ud_request d) j)"

lemma same_unfinishedD:
  assumes "same_unfinished d d1"
  shows "ud_results d1 = ud_results d" "ud_binary d1 = ud_binary d" "ud_backups d1 = ud_backups d"
    "ud_bindings d1 = ud_bindings d"
    "dir_read (ud_results d) j = None \<Longrightarrow> dir_read (ud_artifact d1) j = dir_read (ud_artifact d) j"
    "dir_read (ud_results d) j = None \<Longrightarrow> dir_read (ud_request d1) j = dir_read (ud_request d) j"
proof -
  obtain a q where d1: "d1 = d\<lparr>ud_artifact := a, ud_request := q\<rparr>" using assms unfolding same_unfinished_def by blast
  show "ud_results d1 = ud_results d" "ud_binary d1 = ud_binary d" "ud_backups d1 = ud_backups d" "ud_bindings d1 = ud_bindings d"
    unfolding d1 by simp_all
  show "dir_read (ud_artifact d1) j = dir_read (ud_artifact d) j" "dir_read (ud_request d1) j = dir_read (ud_request d) j"
    if "dir_read (ud_results d) j = None" using assms that unfolding same_unfinished_def by simp_all
qed

lemma same_unfinished_refl: "same_unfinished d d"
  by (simp add: same_unfinished_def)

lemma next_request_frame: "same_unfinished d (snd (next_request ios is d))"
proof (induction ios "is" d rule: next_request.induct)
  case (2 ios i "is" d)
  show ?case
  proof (cases "dir_read (ud_results d) i = None")
    case True
    then show ?thesis by (simp add: same_unfinished_refl split: option.split)
  next
    case False
    obtain oc1 ios1 where t1: "take_io ios = (oc1, ios1)" by (cases "take_io ios")
    obtain oc2 ios2 where t2: "take_io ios1 = (oc2, ios2)" by (cases "take_io ios1")
    define d0 where "d0 = d\<lparr>ud_artifact := remove_quiet oc1 i (ud_artifact d), ud_request := remove_quiet oc2 i (ud_request d)\<rparr>"
    have n: "next_request ios (i # is) d = next_request ios2 is d0" using False t1 t2 by (simp add: d0_def)
    have ih: "same_unfinished d0 (snd (next_request ios2 is d0))"
      using 2 False t1 t2 unfolding d0_def by (metis prod.collapse)
    obtain a q where e: "snd (next_request ios2 is d0) = d0\<lparr>ud_artifact := a, ud_request := q\<rparr>"
      using ih unfolding same_unfinished_def by blast
    have "dir_read a j = dir_read (ud_artifact d) j \<and> dir_read q j = dir_read (ud_request d) j"
      if j: "dir_read (ud_results d) j = None" for j
    proof -
      have "j \<noteq> i" using j False by auto
      then show ?thesis using ih j unfolding same_unfinished_def e by (simp add: d0_def)
    qed
    then show ?thesis unfolding n same_unfinished_def e by (simp add: d0_def)
  qed
qed (simp add: same_unfinished_refl)

lemma next_request_found:
  "next_request ios is d = (Inr (i, q), d1) \<Longrightarrow>
   dir_read (ud_results d) i = None \<and> dir_read (ud_request d) i = Some (Some (Some q)) \<and> uq_UpgradeID q = i"
proof (induction ios "is" d rule: next_request.induct)
  case (2 ios j "is" d)
  show ?case
  proof (cases "dir_read (ud_results d) j = None")
    case True
    then show ?thesis using 2(2) by (auto split: option.splits if_splits)
  next
    case False
    obtain oc1 ios1 where t1: "take_io ios = (oc1, ios1)" by (cases "take_io ios")
    obtain oc2 ios2 where t2: "take_io ios1 = (oc2, ios2)" by (cases "take_io ios1")
    define d0 where "d0 = d\<lparr>ud_artifact := remove_quiet oc1 j (ud_artifact d), ud_request := remove_quiet oc2 j (ud_request d)\<rparr>"
    have n: "next_request ios2 is d0 = (Inr (i, q), d1)" using 2(2) False t1 t2 by (simp add: d0_def)
    have ih: "dir_read (ud_results d0) i = None \<and> dir_read (ud_request d0) i = Some (Some (Some q)) \<and> uq_UpgradeID q = i"
      using 2(1) False t1 t2 n unfolding d0_def by (metis prod.collapse)
    then have "i \<noteq> j" using False by (auto simp: d0_def)
    then show ?thesis using ih by (simp add: d0_def)
  qed
qed simp

lemma nextRequest_frame: "same_unfinished d (snd (nextRequest he d))"
  by (simp add: nextRequest_def same_unfinished_refl next_request_frame split: option.split)

lemma nextRequest_found:
  "nextRequest he d = (Inr (i, q), d1) \<Longrightarrow>
   dir_read (ud_results d) i = None \<and> dir_read (ud_request d) i = Some (Some (Some q)) \<and> uq_UpgradeID q = i"
  by (auto simp: nextRequest_def split: option.splits dest: next_request_found)

lemma saveResult_keeps [simp]:
  "ud_binary (snd (saveResult oc r d)) = ud_binary d" "ud_backups (snd (saveResult oc r d)) = ud_backups d"
  "ud_bindings (snd (saveResult oc r d)) = ud_bindings d"
  by (simp_all add: saveResult_def split: prod.split)

lemma clean_up_keeps [simp]:
  "ud_binary (clean_up he q i d) = ud_binary d" "ud_backups (clean_up he q i d) = ud_backups d"
  "ud_bindings (clean_up he q i d) = ud_bindings d" "ud_results (clean_up he q i d) = ud_results d"
  by (simp_all add: clean_up_def Let_def split: prod.split)

lemma writeResult_keeps [simp]:
  "ud_binary (writeResult he q i r d) = ud_binary d" "ud_backups (writeResult he q i r d) = ud_backups d"
  "ud_bindings (writeResult he q i r d) = ud_bindings d"
  by (simp_all add: writeResult_def case_prod_beta)

lemma fail_run_keeps [simp]:
  "ud_binary (snd (fail_run he q i stage cause d)) = ud_binary d"
  "ud_backups (snd (fail_run he q i stage cause d)) = ud_backups d"
  "ud_bindings (snd (fail_run he q i stage cause d)) = ud_bindings d"
  "fst (fail_run he q i stage cause d) = Some cause"
  by (simp_all add: fail_run_def)

lemma restoreSigningRotation_keeps [simp]:
  "ud_binary (snd (restoreSigningRotation cfg he s v d)) = ud_binary d"
  "ud_backups (snd (restoreSigningRotation cfg he s v d)) = ud_backups d"
  "ud_results (snd (restoreSigningRotation cfg he s v d)) = ud_results d"
  by (simp_all add: restoreSigningRotation_def split: prod.split option.split)

lemma stageCommandSigningRotation_keeps [simp]:
  "ud_binary (snd (stageCommandSigningRotation lib oc k r d)) = ud_binary d"
  "ud_backups (snd (stageCommandSigningRotation lib oc k r d)) = ud_backups d"
  "ud_results (snd (stageCommandSigningRotation lib oc k r d)) = ud_results d"
  by (simp_all add: stageCommandSigningRotation_def split: prod.split option.split sum.split)

lemma saveResult_pair: "saveResult oc r d = (ok, d1) \<Longrightarrow> ud_binary d1 = ud_binary d \<and> ud_backups d1 = ud_backups d"
  using saveResult_keeps [of oc r d] by simp

lemma restoreSigningRotation_pair:
  "restoreSigningRotation cfg he s v d = (e, d1) \<Longrightarrow> ud_binary d1 = ud_binary d \<and> ud_backups d1 = ud_backups d"
  using restoreSigningRotation_keeps [of cfg he s v d] by simp

lemma stageCommandSigningRotation_pair:
  "stageCommandSigningRotation lib oc k r d = (e, d1) \<Longrightarrow> ud_binary d1 = ud_binary d \<and> ud_backups d1 = ud_backups d"
  using stageCommandSigningRotation_keeps [of lib oc k r d] by simp

lemma conclude_keeps [simp]:
  "ud_binary (snd (conclude cfg he q i v s d)) = ud_binary d"
  "ud_backups (snd (conclude cfg he q i v s d)) = ud_backups d"
  by (simp_all add: conclude_def restoreSigningRotation_pair saveResult_pair split: prod.split option.split bool.split)

lemma recover_rotation_keeps [simp]:
  "ud_binary (snd (recover_rotation cfg he q i v s stage cause d)) = ud_binary d"
  "ud_backups (snd (recover_rotation cfg he q i v s stage cause d)) = ud_backups d"
  "fst (recover_rotation cfg he q i v s stage cause d) \<noteq> None"
  by (simp_all add: recover_rotation_def restoreSigningRotation_pair split: prod.split option.split)

lemma rotate_key_keeps [simp]:
  "ud_binary (snd (rotate_key cfg he q i v p d)) = ud_binary d"
  "ud_backups (snd (rotate_key cfg he q i v p d)) = ud_backups d"
  by (simp_all add: rotate_key_def stageCommandSigningRotation_pair split: prod.split option.split sum.split)

subsection \<open>The binary\<close>

lemma replaceBinary_cases:
  "replaceBinary oc b d = (e, d1) \<Longrightarrow>
   ud_backups d1 = ud_backups d \<and> ud_results d1 = ud_results d \<and> ud_bindings d1 = ud_bindings d \<and>
   (ud_binary d1 = ud_binary d \<and> e \<noteq> None \<or> ud_binary d1 = Some b)"
  by (cases oc) auto

lemma restoreBackup_cases:
  "restoreBackup oc i d = (e, d1) \<Longrightarrow>
   ud_backups d1 = ud_backups d \<and> ud_results d1 = ud_results d \<and> ud_bindings d1 = ud_bindings d \<and>
   (ud_binary d1 = ud_binary d \<and> e \<noteq> None \<or> ud_binary d1 \<noteq> None \<and> dir_read (ud_backups d) i = Some (ud_binary d1))"
  by (auto simp: restoreBackup_def split: option.splits dest: replaceBinary_cases)

lemma save_backup_cases:
  assumes "save_backup oc i current d = (e, d1)"
  shows "ud_binary d1 = ud_binary d" "ud_results d1 = ud_results d" "ud_bindings d1 = ud_bindings d"
    "e = None \<Longrightarrow> dir_read (ud_backups d1) i = Some (Some current) \<or>
       dir_read (ud_backups d1) i = dir_read (ud_backups d) i \<and> dir_read (ud_backups d) i \<noteq> None"
    "dir_read (ud_backups d) i \<noteq> None \<Longrightarrow> ud_backups d1 = ud_backups d"
  using assms by (auto simp: save_backup_def split: option.splits prod.splits if_splits dest: dir_write_ok)

text \<open>The copy a failed upgrade is rolled back to: an earlier backup of this request, else the binary before the run.\<close>

definition rollback_copy :: "string \<Rightarrow> upgrade_disk \<Rightarrow> bytes option" where
  "rollback_copy i d = (case dir_read (ud_backups d) i of Some b \<Rightarrow> b | None \<Rightarrow> ud_binary d)"

lemma backup_is_copy:
  assumes "save_backup oc i current d = (None, d1)" "ud_binary d = Some current"
  shows "dir_read (ud_backups d1) i = Some (rollback_copy i d)"
proof (cases "dir_read (ud_backups d) i")
  case None
  then show ?thesis using save_backup_cases(4) [OF assms(1)] assms(2) by (simp add: rollback_copy_def)
next
  case (Some b)
  then show ?thesis using save_backup_cases(5) [OF assms(1)] by (simp add: rollback_copy_def)
qed

lemma installCandidate_cases:
  assumes "installCandidate he i binary d = (e, d1)"
  shows "e = None \<Longrightarrow> ud_binary d1 = Some binary \<and> dir_read (ud_backups d1) i = Some (rollback_copy i d)"
    "ud_binary d1 = ud_binary d \<or> ud_binary d1 = Some binary \<or> ud_binary d1 = rollback_copy i d"
    "ud_results d1 = ud_results d" "ud_bindings d1 = ud_bindings d"
proof -
  have "(e = None \<longrightarrow> ud_binary d1 = Some binary \<and> dir_read (ud_backups d1) i = Some (rollback_copy i d)) \<and>
    (ud_binary d1 = ud_binary d \<or> ud_binary d1 = Some binary \<or> ud_binary d1 = rollback_copy i d) \<and>
    ud_results d1 = ud_results d \<and> ud_bindings d1 = ud_bindings d"
  proof (cases "ud_binary d")
    case None
    then show ?thesis using assms by (auto simp: installCandidate_def)
  next
    case (Some current)
    show ?thesis
    proof (cases "he_backup_dir he")
      case None
      obtain e2 d2 where s: "save_backup (he_backup_write he) i current d = (e2, d2)"
        by (cases "save_backup (he_backup_write he) i current d")
      obtain e3 d3 where r: "replaceBinary (he_install he) binary d2 = (e3, d3)" by (cases "replaceBinary (he_install he) binary d2")
      obtain e4 d4 where u: "restoreBackup (he_reinstall he) i d3 = (e4, d4)" by (cases "restoreBackup (he_reinstall he) i d3")
      note f = save_backup_cases [OF s] replaceBinary_cases [OF r] restoreBackup_cases [OF u]
      show ?thesis
      proof (cases e2)
        case None
        have c: "dir_read (ud_backups d2) i = Some (rollback_copy i d)" using backup_is_copy s None Some by simp
        show ?thesis
        proof (cases e3)
          case None
          then show ?thesis using assms Some \<open>he_backup_dir he = None\<close> s r \<open>e2 = None\<close> f c by (simp add: installCandidate_def)
        next
          case e3: (Some x)
          then have "d1 = d4 \<and> e \<noteq> None" using assms Some \<open>he_backup_dir he = None\<close> s r u \<open>e2 = None\<close>
            by (auto simp: installCandidate_def split: option.splits)
          then show ?thesis using f c by auto
        qed
      next
        case e2: (Some x)
        then have "d1 = d2 \<and> e \<noteq> None" using assms Some \<open>he_backup_dir he = None\<close> s by (auto simp: installCandidate_def)
        then show ?thesis using f(1-3) by auto
      qed
    qed (use assms Some in \<open>auto simp: installCandidate_def\<close>)
  qed
  then show "e = None \<Longrightarrow> ud_binary d1 = Some binary \<and> dir_read (ud_backups d1) i = Some (rollback_copy i d)"
    "ud_binary d1 = ud_binary d \<or> ud_binary d1 = Some binary \<or> ud_binary d1 = rollback_copy i d"
    "ud_results d1 = ud_results d" "ud_bindings d1 = ud_bindings d" by simp_all
qed

lemma preflight_keeps:
  "candidateHostFirewallPreflight he i binary d = (e, d1) \<Longrightarrow> d1 = d\<lparr>ud_preflight := ud_preflight d1\<rparr>"
  by (auto simp: candidateHostFirewallPreflight_def Let_def split: option.splits prod.splits bool.splits if_splits)

lemma roll_back_binary:
  "dir_read (ud_backups d) i = Some c \<Longrightarrow>
   ud_binary (snd (roll_back cfg he q i cause d)) = ud_binary d \<or> ud_binary (snd (roll_back cfg he q i cause d)) = c"
  "fst (roll_back cfg he q i cause d) \<noteq> None"
  by (auto simp: roll_back_def Let_def split: prod.splits option.splits dest!: restoreBackup_cases)

lemma activate_binary:
  assumes "dir_read (ud_backups d) i = Some c"
  shows "ud_binary (snd (activate cfg he q i p d)) = ud_binary d \<or> ud_binary (snd (activate cfg he q i p d)) = c"
  using roll_back_binary(1) [OF assms] by (simp add: activate_def Let_def split: option.split)

lemma process_binary:
  assumes "process_request cfg he i q d = (res, d')" "ud_binary d' \<noteq> ud_binary d"
  shows "\<exists>p binary. verify_upgrade cfg he q d = Inr (p, binary) \<and>
           (ud_binary d' = Some binary \<or> dir_read (ud_backups d) i = Some (ud_binary d'))"
proof (cases "verify_upgrade cfg he q d")
  case (Inl x)
  have "ud_binary d' = ud_binary d"
    using assms(1) Inl fail_run_keeps(1) [of he q i "fst x" "snd x" d] by (simp add: process_request_def case_prod_beta)
  then show ?thesis using assms(2) by simp
next
  case (Inr x)
  obtain p binary where x: "x = (p, binary)" by (cases x)
  obtain e1 d1 where f: "candidateHostFirewallPreflight he i binary d = (e1, d1)"
    by (cases "candidateHostFirewallPreflight he i binary d")
  obtain w where d1: "d1 = d\<lparr>ud_preflight := w\<rparr>" using preflight_keeps [OF f] by blast
  obtain e2 d2 where k: "installCandidate he i binary d1 = (e2, d2)" by (cases "installCandidate he i binary d1")
  have copy: "rollback_copy i d1 = rollback_copy i d" by (simp add: rollback_copy_def d1 split: option.split)
  have "ud_binary d' = ud_binary d \<or> ud_binary d' = Some binary \<or> ud_binary d' = rollback_copy i d"
  proof (cases e1)
    case (Some e)
    have "ud_binary d' = ud_binary d1"
      using assms(1) Inr x f Some fail_run_keeps(1) [of he q i "''host_firewall_preflight''" e d1]
      by (simp add: process_request_def)
    then show ?thesis unfolding d1 by simp
  next
    case e1: None
    have two: "ud_binary d2 = ud_binary d \<or> ud_binary d2 = Some binary \<or> ud_binary d2 = rollback_copy i d"
      using installCandidate_cases(2) [OF k] unfolding copy by (simp add: d1)
    show ?thesis
    proof (cases e2)
      case (Some e)
      have "ud_binary d' = ud_binary d2"
        using assms(1) Inr x f e1 k Some fail_run_keeps(1) [of he q i "''install_candidate''" e d2]
        by (simp add: process_request_def)
      then show ?thesis using two by simp
    next
      case None
      have "dir_read (ud_backups d2) i = Some (rollback_copy i d)" using installCandidate_cases(1) [OF k None] copy by simp
      moreover have "activate cfg he q i p d2 = (res, d')" using assms(1) Inr x f e1 k None by (simp add: process_request_def)
      ultimately show ?thesis using activate_binary [of d2 i "rollback_copy i d" cfg he q p] two by auto
    qed
  qed
  then show ?thesis using assms(2) Inr x by (auto simp: rollback_copy_def split: option.splits)
qed

lemma run_cases:
  assumes "RunHelper cfg he d = (res, d')"
  obtains (idle) "res \<noteq> None" "same_unfinished d d'"
  | (processed) i q d1 where "nextRequest he d = (Inr (i, q), d1)" "same_unfinished d d1"
      "process_request cfg he i q d1 = (res, d')"
proof (cases "he_root he")
  case (Some e)
  have "res = Some e" "d' = d" using assms unfolding RunHelper_def Some by simp_all
  then show ?thesis using idle same_unfinished_refl by simp
next
  case None
  obtain r d1 where n: "nextRequest he d = (r, d1)" by (cases "nextRequest he d")
  have f: "same_unfinished d d1" using nextRequest_frame [of d he] n by simp
  show ?thesis
  proof (cases r)
    case (Inl e)
    then show ?thesis using assms None n f by (intro idle) (auto simp: RunHelper_def)
  next
    case (Inr x)
    obtain i q where "x = (i, q)" by (cases x)
    then show ?thesis using assms None n f Inr processed by (simp add: RunHelper_def)
  qed
qed

subsection \<open>What a verified upgrade is\<close>

lemma await_handoff_seen:
  "await_handoff env c g u js stop = None \<Longrightarrow> \<exists>j \<in> set js. AuthorizeUpgrade env j c g u = None"
  by (induction js) (auto split: if_splits)

lemma validated_request:
  assumes "validateHelperRequest cfg he r = None"
  shows "Verify (je_crypto (hp_jenv cfg)) (hp_params cfg) (he_clock he) (uq_Command r) ((hp_verify cfg)\<lparr>vc_Now := to_utc (he_now he)\<rparr>) = None"
    "\<exists>j \<in> set (fst (he_handoff he)).
       AuthorizeUpgrade (hp_jenv cfg) j (c_CommandID (uq_Command r)) (Digest (je_crypto (hp_jenv cfg)) (uq_Command r)) (uq_UpgradeID r) = None"
  using assms by (auto simp: validateHelperRequest_def split: if_splits sum.splits option.splits dest: await_handoff_seen)

lemma transition_versions:
  assumes "validateUpgradeTransition s t = None"
  shows "\<exists>v w. parseAgentVersion s = Inr v \<and> parseAgentVersion t = Inr w \<and> v \<le> w"
proof -
  obtain v w where "parseAgentVersion s = Inr v" "parseAgentVersion t = Inr w"
    using assms by (auto simp: validateUpgradeTransition_def split: sum.splits)
  then show ?thesis using transition_order assms by blast
qed

text \<open>
  The comparison of versions is an order: the step from one version text to another is allowed exactly when both are
  versions and the second is not below the first in the linear order that compares the three numbers in turn and puts every
  release candidate before its release.  So upgrades never lead back to an older version, however many are made.
\<close>
theorem upgrade_order_exact:
  "validateUpgradeTransition s t = None \<longleftrightarrow>
   (\<exists>v w. parseAgentVersion s = Inr v \<and> parseAgentVersion t = Inr w \<and> v \<le> w)"
proof
  assume "\<exists>v w. parseAgentVersion s = Inr v \<and> parseAgentVersion t = Inr w \<and> v \<le> w"
  then obtain v w where "parseAgentVersion s = Inr v" "parseAgentVersion t = Inr w" "v \<le> w" by blast
  then show "validateUpgradeTransition s t = None" using transition_order [of s v t w] by simp
qed (rule transition_versions)

lemma verified_binary_file:
  "verifiedBinary cr untar file p = Inr b \<Longrightarrow>
   \<exists>raw. file = Some (Some raw) \<and> hex_encode (sha256 cr raw) = ar_SHA256 (pm_Artifact p)"
  by (auto simp: verifiedBinary_def split: option.splits if_splits)

lemma verify_upgrade_facts:
  assumes "verify_upgrade cfg he q d = Inr (p, binary)"
  shows "validateHelperRequest cfg he q = None"
    "DecodeParameters (uf_codec (hp_upgrade cfg)) (c_Parameters (uq_Command q)) = Inr p"
    "validateUpgradeTransition (uf_CurrentVersion (hp_upgrade cfg)) (pm_ReleaseTag p) = None"
    "verifiedBinary (crypto.truncate (uf_crypto (hp_upgrade cfg))) (hp_untar cfg) (dir_read (ud_artifact d) (uq_UpgradeID q)) p = Inr binary"
  using assms by (auto simp: verify_upgrade_def Let_def split: option.splits sum.splits)

text \<open>
  C4: The helper only ever installs a release the control plane signed for this node.  Whenever a run changes the installed
  binary there is a request without a result whose command passed the full signature and binding verification at the time
  of the run, the durable journal showed that very command as submitted for this upgrade, the staged archive has the SHA-256
  of the signed parameters, its release is not older than the running version, and the new binary is the one unpacked from
  that archive or an earlier backup of the same upgrade.
\<close>
theorem only_verified_release_installed:
  assumes "RunHelper cfg he d = (res, d')" "ud_binary d' \<noteq> ud_binary d"
  shows "\<exists>i q p binary raw v w j.
    dir_read (ud_results d) i = None \<and> dir_read (ud_request d) i = Some (Some (Some q)) \<and>
    Verify (je_crypto (hp_jenv cfg)) (hp_params cfg) (he_clock he) (uq_Command q) ((hp_verify cfg)\<lparr>vc_Now := to_utc (he_now he)\<rparr>) = None \<and>
    j \<in> set (fst (he_handoff he)) \<and>
    AuthorizeUpgrade (hp_jenv cfg) j (c_CommandID (uq_Command q)) (Digest (je_crypto (hp_jenv cfg)) (uq_Command q)) i = None \<and>
    DecodeParameters (uf_codec (hp_upgrade cfg)) (c_Parameters (uq_Command q)) = Inr p \<and>
    dir_read (ud_artifact d) i = Some (Some raw) \<and>
    hex_encode (sha256 (crypto.truncate (uf_crypto (hp_upgrade cfg))) raw) = ar_SHA256 (pm_Artifact p) \<and>
    parseAgentVersion (uf_CurrentVersion (hp_upgrade cfg)) = Inr v \<and> parseAgentVersion (pm_ReleaseTag p) = Inr w \<and> v \<le> w \<and>
    verifiedBinary (crypto.truncate (uf_crypto (hp_upgrade cfg))) (hp_untar cfg) (Some (Some raw)) p = Inr binary \<and>
    (ud_binary d' = Some binary \<or> dir_read (ud_backups d) i = Some (ud_binary d'))"
  using assms(1)
proof (cases rule: run_cases)
  case idle
  then show ?thesis using assms(2) same_unfinishedD(2) by simp
next
  case (processed i q d1)
  note found = nextRequest_found [OF processed(1)]
  note same = same_unfinishedD [OF processed(2)]
  obtain p binary where v: "verify_upgrade cfg he q d1 = Inr (p, binary)"
      "ud_binary d' = Some binary \<or> dir_read (ud_backups d) i = Some (ud_binary d')"
    using process_binary [OF processed(3)] assms(2) same by auto
  note facts = verify_upgrade_facts [OF v(1)]
  have staged: "dir_read (ud_artifact d1) (uq_UpgradeID q) = dir_read (ud_artifact d) i" using found same(5) by simp
  obtain raw where raw: "dir_read (ud_artifact d) i = Some (Some raw)"
      "hex_encode (sha256 (crypto.truncate (uf_crypto (hp_upgrade cfg))) raw) = ar_SHA256 (pm_Artifact p)"
    using verified_binary_file [OF facts(4)] staged by auto
  have b: "verifiedBinary (crypto.truncate (uf_crypto (hp_upgrade cfg))) (hp_untar cfg) (Some (Some raw)) p = Inr binary"
    using facts(4) raw(1) staged by simp
  obtain j where j: "j \<in> set (fst (he_handoff he))"
      "AuthorizeUpgrade (hp_jenv cfg) j (c_CommandID (uq_Command q)) (Digest (je_crypto (hp_jenv cfg)) (uq_Command q)) i = None"
    using validated_request(2) [OF facts(1)] found by auto
  obtain x y where xy: "parseAgentVersion (uf_CurrentVersion (hp_upgrade cfg)) = Inr x" "parseAgentVersion (pm_ReleaseTag p) = Inr y" "x \<le> y"
    using transition_versions [OF facts(3)] by auto
  show ?thesis
    using found validated_request(1) [OF facts(1)] j facts(2) raw xy b v(2)
    by (intro exI [of _ i] exI [of _ q] exI [of _ p] exI [of _ binary] exI [of _ raw] exI [of _ x] exI [of _ y] exI [of _ j]) simp
qed

theorem only_verified_release_installed_witness:
  "\<exists>d'. RunHelper ex_helper (ex_run ex_seen) ex_updisk = (None, d') \<and> ud_binary d' = Some ''new'' \<and>
    (\<exists>i p raw. DecodeParameters (uf_codec (hp_upgrade ex_helper)) (c_Parameters ex_upgrade) = Inr p \<and>
      dir_read (ud_artifact ex_updisk) i = Some (Some raw) \<and>
      hex_encode (sha256 (crypto.truncate (uf_crypto (hp_upgrade ex_helper))) raw) = ar_SHA256 (pm_Artifact p))"
proof -
  obtain d' where r: "RunHelper ex_helper (ex_run ex_seen) ex_updisk = (None, d')" "ud_binary d' = Some ''new''" using ex_succeeds by blast
  moreover have "ud_binary d' \<noteq> ud_binary ex_updisk" using r(2) by (simp add: ex_updisk_def)
  moreover have "DecodeParameters (uf_codec (hp_upgrade ex_helper)) a = DecodeParameters (uf_codec (hp_upgrade ex_helper)) b" for a b
    by (simp add: DecodeParameters_def ex_helper_def ex_codec_def)
  ultimately show ?thesis using only_verified_release_installed [OF r(1)] by metis
qed

subsection \<open>Results\<close>

text \<open>At most the result of upgrade \<open>i\<close> changes, and then to one of \<open>S\<close>.\<close>

definition reports :: "string \<Rightarrow> upgrade_result set \<Rightarrow> upgrade_disk \<Rightarrow> upgrade_disk \<Rightarrow> bool" where
  "reports i S d d1 \<longleftrightarrow>
     (\<forall>j. j \<noteq> i \<longrightarrow> dir_read (ud_results d1) j = dir_read (ud_results d) j) \<and>
     (dir_read (ud_results d1) i = dir_read (ud_results d) i \<or>
      (\<exists>r \<in> S. dir_read (ud_results d1) i = Some (Some (Some r)) \<and> i \<noteq> [] \<and> base_name i))"

lemma reports_same: "ud_results d1 = ud_results d \<Longrightarrow> reports i S d d1"
  by (simp add: reports_def)

lemma reports_trans: "reports i S d d1 \<Longrightarrow> reports i S d1 d2 \<Longrightarrow> reports i S d d2"
  by (auto simp: reports_def)

lemma reports_mono: "reports i S d d1 \<Longrightarrow> S \<subseteq> T \<Longrightarrow> reports i T d d1"
  by (auto simp: reports_def)

lemma reports_from: "ud_results d0 = ud_results d \<Longrightarrow> reports i S d0 d1 \<Longrightarrow> reports i S d d1"
  by (simp add: reports_def)

lemma saveResult_reports:
  assumes "us_UpgradeID r = i" "r \<in> S"
  shows "reports i S d (snd (saveResult oc r d))"
proof (cases "i = [] \<or> \<not> base_name i")
  case True
  then show ?thesis using assms by (simp add: saveResult_def reports_def)
next
  case False
  obtain ok w where w: "dir_write oc i (Some r) (ud_results d) = (ok, w)" by (cases "dir_write oc i (Some r) (ud_results d)")
  then have "dir_read w j = dir_read (ud_results d) j" if "j \<noteq> i" for j using dir_write_frame that by metis
  then show ?thesis using False assms w dir_write_old_or_new [OF w] by (auto simp: saveResult_def reports_def)
qed

lemma writeResult_reports:
  assumes "us_UpgradeID r = i" "r \<in> S"
  shows "reports i S d (writeResult he q i r d)"
  using saveResult_reports [OF assms, of d "he_save he"] by (simp add: writeResult_def case_prod_beta reports_def)

abbreviation failure :: "helper_env \<Rightarrow> string \<Rightarrow> string \<Rightarrow> string \<Rightarrow> upgrade_result" where
  "failure he i stage cause \<equiv> new_result he i ''failed'' [] ''UPGRADE_HELPER_FAILED'' (Some (helper_error stage cause))"

abbreviation success :: "helper_env \<Rightarrow> string \<Rightarrow> string \<Rightarrow> upgrade_result" where
  "success he i version \<equiv> new_result he i ''succeeded'' version AgentUpgradeHostFirewallSuccessCode None"

abbreviation rolled_back :: "helper_env \<Rightarrow> string \<Rightarrow> string \<Rightarrow> upgrade_result" where
  "rolled_back he i cause \<equiv>
     new_result he i ''rolled_back'' [] ''AGENT_UPGRADE_ROLLED_BACK'' (Some (helper_error ''restart_health_check'' cause))"

definition decided :: "helper_env \<Rightarrow> string \<Rightarrow> upgrade_result set" where
  "decided he i = {failure he i stage cause | stage cause. errorStageRE stage} \<union> {success he i v | v. True}"

lemma failure_decided: "errorStageRE stage \<Longrightarrow> failure he i stage cause \<in> decided he i"
  by (auto simp: decided_def)

lemma success_decided: "success he i v \<in> decided he i"
  by (auto simp: decided_def)

lemma new_result_id [simp]: "us_UpgradeID (new_result he i st v c e) = i"
  by (simp add: new_result_def)

lemma fail_run_reports: "errorStageRE stage \<Longrightarrow> reports i (decided he i) d (snd (fail_run he q i stage cause d))"
  by (simp add: fail_run_def writeResult_reports failure_decided)

lemma helper_stages:
  "errorStageRE ''validate_request''" "errorStageRE ''fetch_manifest''" "errorStageRE ''decode_manifest''"
  "errorStageRE ''match_manifest''" "errorStageRE ''validate_version_transition''" "errorStageRE ''verify_origin''"
  "errorStageRE ''verify_archive''" "errorStageRE ''host_firewall_preflight''" "errorStageRE ''install_candidate''"
  "errorStageRE ''host_firewall_reconcile''" "errorStageRE ''rotate_command_key''" "errorStageRE ''rotate_command_key_restart''"
  "errorStageRE ''rotate_command_key_health_check''" "errorStageRE ''rotate_command_key_recovery''"
  "errorStageRE ''save_success_result''" "errorStageRE ''rollback''" "errorStageRE ''restart_health_check''"
  by (simp_all add: is_lower_def is_digit_def between_def code_of_def)

lemma opt_stage_E:
  assumes "(case x of None \<Rightarrow> k | Some e \<Rightarrow> Inl (l, e)) = Inl (stage, c)"
  obtains "stage = l" | "k = Inl (stage, c)"
  using assms by (cases x) auto

lemma sum_stage_E:
  assumes "(case x of Inl e \<Rightarrow> Inl (l, e) | Inr y \<Rightarrow> k y) = Inl (stage, c)"
  obtains "stage = l" | y where "k y = Inl (stage, c)"
  using assms by (cases x) auto

lemma verify_upgrade_stage: "verify_upgrade cfg he q d = Inl (stage, e) \<Longrightarrow> errorStageRE stage"
  unfolding verify_upgrade_def Let_def by (elim opt_stage_E sum_stage_E) (simp_all only: helper_stages sum.distinct)

lemma restoreSigningRotation_results:
  "restoreSigningRotation cfg he s v d = (e, d1) \<Longrightarrow> ud_results d1 = ud_results d"
  using restoreSigningRotation_keeps(3) [of cfg he s v d] by simp

lemma stageCommandSigningRotation_results:
  "stageCommandSigningRotation lib oc k r d = (e, d1) \<Longrightarrow> ud_results d1 = ud_results d"
  using stageCommandSigningRotation_keeps(3) [of lib oc k r d] by simp

lemma recover_rotation_reports:
  assumes "errorStageRE stage"
  shows "reports i (decided he i) d (snd (recover_rotation cfg he q i v s stage cause d))"
proof -
  obtain e d1 where r: "restoreSigningRotation cfg he s v d = (e, d1)" by (cases "restoreSigningRotation cfg he s v d")
  show ?thesis
    by (cases e; simp only: recover_rotation_def r prod.case option.case)
      (intro reports_from [OF restoreSigningRotation_results [OF r]] fail_run_reports helper_stages assms)+
qed

lemma conclude_reports: "reports i (decided he i) d (snd (conclude cfg he q i v s d))"
proof -
  obtain ok d1 where o1: "saveResult (he_success_save he) (success he i v) d = (ok, d1)"
    by (cases "saveResult (he_success_save he) (success he i v) d")
  have one: "reports i (decided he i) d d1"
  proof -
    have "reports i (decided he i) d (snd (saveResult (he_success_save he) (success he i v) d))"
      by (rule saveResult_reports [OF new_result_id success_decided])
    then show ?thesis unfolding o1 by simp
  qed
  have more: "reports i (decided he i) d1 d2 \<Longrightarrow> reports i (decided he i) d d2" for d2 using reports_trans one by blast
  show ?thesis
  proof (cases ok)
    case True
    then show ?thesis using one o1 by (simp add: conclude_def reports_def)
  next
    case False
    show ?thesis
    proof (cases s)
      case None
      then have "conclude cfg he q i v s d = fail_run he q i ''save_success_result'' ''save result'' d1"
        using False o1 by (simp add: conclude_def)
      then show ?thesis by (simp only:) (intro more fail_run_reports helper_stages)
    next
      case (Some b)
      obtain e d2 where r: "restoreSigningRotation cfg he b v d1 = (e, d2)" by (cases "restoreSigningRotation cfg he b v d1")
      show ?thesis using False
        by (cases e; simp only: conclude_def o1 Some r prod.case option.case bool.case)
          (intro more reports_from [OF restoreSigningRotation_results [OF r]] fail_run_reports helper_stages)+
    qed
  qed
qed

lemma rotate_key_reports: "reports i (decided he i) d (snd (rotate_key cfg he q i v p d))"
proof (cases "pm_CommandSigningRotation p")
  case None
  then show ?thesis by (simp add: rotate_key_def conclude_reports)
next
  case (Some r)
  obtain e d1 where t: "stageCommandSigningRotation (hp_enroll cfg) (he_rotate he) (c_SigningKeyID (uq_Command q)) r d = (e, d1)"
    by (cases "stageCommandSigningRotation (hp_enroll cfg) (he_rotate he) (c_SigningKeyID (uq_Command q)) r d")
  note via = reports_from [OF stageCommandSigningRotation_results [OF t]]
  show ?thesis
    by (cases e; simp only: rotate_key_def Some t prod.case option.case sum.case split: option.split)
      (intro conjI allI impI via fail_run_reports recover_rotation_reports conclude_reports helper_stages)+
qed

text \<open>What the rollback branch leaves.\<close>

definition restored :: "helper_config \<Rightarrow> helper_env \<Rightarrow> string \<Rightarrow> upgrade_disk \<Rightarrow> upgrade_disk \<Rightarrow> bool" where
  "restored cfg he i d d1 \<longleftrightarrow>
     dir_read (ud_backups d) i = Some (ud_binary d1) \<and> ud_bindings d1 = ud_bindings d \<and> he_rollback_restart he = None \<and>
     waitForStatus cfg (uf_CurrentVersion (hp_upgrade cfg)) [] (he_rollback_status he) = None"

lemma roll_back_reports:
  "reports i (decided he i) d (snd (roll_back cfg he q i cause d)) \<or>
   reports i {rolled_back he i cause} d (snd (roll_back cfg he q i cause d)) \<and> restored cfg he i d (snd (roll_back cfg he q i cause d))"
proof -
  obtain e d1 where r: "restoreBackup (he_reinstall he) i d = (e, d1)" by (cases "restoreBackup (he_reinstall he) i d")
  note k = restoreBackup_cases [OF r]
  have rk: "ud_results d1 = ud_results d" using k by simp
  define err where "err = (case e of Some e \<Rightarrow> Some e | None \<Rightarrow> (case he_rollback_restart he of Some e \<Rightarrow> Some e
      | None \<Rightarrow> waitForStatus cfg (uf_CurrentVersion (hp_upgrade cfg)) [] (he_rollback_status he)))"
  show ?thesis
  proof (cases err)
    case (Some x)
    then have "snd (roll_back cfg he q i cause d) =
        writeResult he q i (failure he i ''rollback'' (''upgrade failed ('' @ cause @ ''); rollback failed ('' @ x @ '')'')) d1"
      by (simp add: roll_back_def r err_def [symmetric] Let_def)
    moreover have "reports i (decided he i) d (writeResult he q i (failure he i ''rollback'' y) d1)" for y
      by (intro reports_from [OF rk] writeResult_reports failure_decided helper_stages new_result_id)
    ultimately show ?thesis by (simp only:) simp
  next
    case None
    then have w: "snd (roll_back cfg he q i cause d) = writeResult he q i (rolled_back he i cause) d1"
      by (simp add: roll_back_def r err_def [symmetric] Let_def)
    have "reports i {rolled_back he i cause} d (writeResult he q i (rolled_back he i cause) d1)"
      by (intro reports_from [OF rk] writeResult_reports new_result_id singletonI)
    moreover have "restored cfg he i d (writeResult he q i (rolled_back he i cause) d1)"
      using None k unfolding err_def restored_def by (simp split: option.splits)
    ultimately show ?thesis unfolding w by simp
  qed
qed

lemma activate_alternatives:
  "(\<exists>e. activate cfg he q i p d = roll_back cfg he q i e d) \<or>
    (\<exists>e. activate cfg he q i p d = fail_run he q i ''host_firewall_reconcile'' e d) \<or>
    (\<exists>v. activate cfg he q i p d = rotate_key cfg he q i v p d)"
    by (cases "he_restart he"; cases "waitForStatus cfg (trim_prefix ''v'' (pm_ReleaseTag p)) (c_SigningKeyID (uq_Command q)) (he_status he)";
        cases "he_postflight he"; simp only: activate_def Let_def option.case) blast+

lemma activate_reports:
  "reports i (decided he i) d (snd (activate cfg he q i p d)) \<or>
   (\<exists>cause. reports i {rolled_back he i cause} d (snd (activate cfg he q i p d))) \<and> restored cfg he i d (snd (activate cfg he q i p d))"
proof -
  consider e where "activate cfg he q i p d = roll_back cfg he q i e d"
    | e where "activate cfg he q i p d = fail_run he q i ''host_firewall_reconcile'' e d"
    | v where "activate cfg he q i p d = rotate_key cfg he q i v p d" using activate_alternatives by blast
  then show ?thesis
  proof cases
    case 1
    then show ?thesis using roll_back_reports [of i he d cfg q e] by auto
  next
    case 2
    then show ?thesis using fail_run_reports [OF helper_stages(10)] by simp
  next
    case 3
    then show ?thesis using rotate_key_reports by simp
  qed
qed

text \<open>A run on a request either decides it or rolls it back.\<close>

lemma process_reports:
  assumes "process_request cfg he i q d = (res, d')"
  shows "reports i (decided he i) d d' \<or>
    (\<exists>cause. reports i {rolled_back he i cause} d d') \<and> ud_binary d' = rollback_copy i d \<and> ud_bindings d' = ud_bindings d \<and>
    he_rollback_restart he = None \<and> waitForStatus cfg (uf_CurrentVersion (hp_upgrade cfg)) [] (he_rollback_status he) = None"
proof (cases "verify_upgrade cfg he q d")
  case (Inl x)
  have "errorStageRE (fst x)" using verify_upgrade_stage [of cfg he q d "fst x" "snd x"] Inl by simp
  then have "reports i (decided he i) d (snd (fail_run he q i (fst x) (snd x) d))" by (rule fail_run_reports)
  then show ?thesis using assms Inl by (simp add: process_request_def case_prod_beta)
next
  case (Inr x)
  obtain p binary where x: "x = (p, binary)" by (cases x)
  obtain e1 d1 where f: "candidateHostFirewallPreflight he i binary d = (e1, d1)"
    by (cases "candidateHostFirewallPreflight he i binary d")
  obtain w where d1: "d1 = d\<lparr>ud_preflight := w\<rparr>" using preflight_keeps [OF f] by blast
  have keep: "ud_results d1 = ud_results d" "ud_bindings d1 = ud_bindings d" "rollback_copy i d1 = rollback_copy i d"
    by (simp_all add: rollback_copy_def d1 split: option.split)
  obtain e2 d2 where k: "installCandidate he i binary d1 = (e2, d2)" by (cases "installCandidate he i binary d1")
  note c = installCandidate_cases [OF k]
  show ?thesis
  proof (cases "e1 = None \<and> e2 = None")
    case True
    then have a: "activate cfg he q i p d2 = (res, d')" using assms Inr x f k by (simp add: process_request_def)
    have via: "reports i S d2 d' \<Longrightarrow> reports i S d d'" for S using c(3) keep(1) reports_from [of d2 d] by simp
    have "dir_read (ud_backups d2) i = Some (rollback_copy i d)" using c(1) True keep by simp
    moreover have "ud_bindings d2 = ud_bindings d" using c(4) keep by simp
    ultimately show ?thesis using activate_reports [of i he d2 cfg q p] via unfolding a restored_def by auto
  next
    case False
    then consider e where "d' = snd (fail_run he q i ''host_firewall_preflight'' e d1)"
      | e where "d' = snd (fail_run he q i ''install_candidate'' e d2)"
      using assms Inr x f k unfolding process_request_def by (cases e1; cases e2; simp) (metis snd_conv)+
    then show ?thesis
    proof cases
      case 1
      have "reports i (decided he i) d (snd (fail_run he q i ''host_firewall_preflight'' e d1))"
        by (intro reports_from [OF keep(1)] fail_run_reports helper_stages)
      then show ?thesis using 1 by simp
    next
      case 2
      have r: "ud_results d2 = ud_results d" using c(3) keep by simp
      have "reports i (decided he i) d (snd (fail_run he q i ''install_candidate'' e d2))"
        by (intro reports_from [OF r] fail_run_reports helper_stages)
      then show ?thesis using 2 by simp
    qed
  qed
qed

lemma waitForStatus_seen:
  assumes "waitForStatus cfg version key ps = None"
  shows "\<exists>s. Some s \<in> set (fst ps) \<and> status_ok (hp_verify cfg) version key s"
proof -
  have "poll_status vc version key ss stop = None \<Longrightarrow> \<exists>s. Some s \<in> set ss \<and> status_ok vc version key s" for vc ss stop
    by (induction vc version key ss stop rule: poll_status.induct) (auto split: if_splits)
  then show ?thesis using assms by (simp add: waitForStatus_def)
qed

text \<open>What a new result tells of the run.\<close>

lemma run_reports:
  assumes "RunHelper cfg he d = (res, d')"
  shows "(\<forall>j. dir_read (ud_results d) j \<noteq> None \<longrightarrow> dir_read (ud_results d') j = dir_read (ud_results d) j) \<and>
    (\<forall>i r. dir_read (ud_results d) i = None \<longrightarrow> dir_read (ud_results d') i = Some (Some (Some r)) \<longrightarrow>
      i \<noteq> [] \<and> base_name i \<and>
      (r \<in> decided he i \<or> (\<exists>cause. r = rolled_back he i cause) \<and> ud_binary d' = rollback_copy i d \<and> ud_bindings d' = ud_bindings d \<and>
        he_rollback_restart he = None \<and> waitForStatus cfg (uf_CurrentVersion (hp_upgrade cfg)) [] (he_rollback_status he) = None))"
  using assms
proof (cases rule: run_cases)
  case idle
  then show ?thesis using same_unfinishedD(1) by simp
next
  case (processed k q d1)
  note same = same_unfinishedD [OF processed(2)]
  have new: "dir_read (ud_results d) k = None" using nextRequest_found [OF processed(1)] by simp
  have copy: "rollback_copy k d1 = rollback_copy k d" unfolding rollback_copy_def same(2, 3) ..
  have r: "reports k (decided he k) d d' \<or>
    (\<exists>cause. reports k {rolled_back he k cause} d d') \<and> ud_binary d' = rollback_copy k d \<and> ud_bindings d' = ud_bindings d \<and>
    he_rollback_restart he = None \<and> waitForStatus cfg (uf_CurrentVersion (hp_upgrade cfg)) [] (he_rollback_status he) = None"
    using process_reports [OF processed(3)] reports_from [OF same(1)] same(4) copy by metis
  have others: "dir_read (ud_results d') j = dir_read (ud_results d) j" if "j \<noteq> k" for j using r that unfolding reports_def by metis
  then have kept: "dir_read (ud_results d') j = dir_read (ud_results d) j" if "dir_read (ud_results d) j \<noteq> None" for j
    using that new by metis
  show ?thesis
  proof (intro conjI allI impI kept)
    fix i x
    assume a: "dir_read (ud_results d) i = None" "dir_read (ud_results d') i = Some (Some (Some x))"
    then have i: "i = k" using others by force
    show "i \<noteq> []" "base_name i" using r a unfolding i reports_def by auto
    show "x \<in> decided he i \<or> (\<exists>cause. x = rolled_back he i cause) \<and> ud_binary d' = rollback_copy i d \<and> ud_bindings d' = ud_bindings d \<and>
        he_rollback_restart he = None \<and> waitForStatus cfg (uf_CurrentVersion (hp_upgrade cfg)) [] (he_rollback_status he) = None"
      using r a unfolding i reports_def by auto
  qed
qed

text \<open>
  C19: Every upgrade is run to a result at most once: a result on disk is never changed by a later run of the helper,
  and the request it belongs to is never chosen again, even when its file could not be removed.
\<close>
theorem finished_upgrade_never_reruns:
  assumes "RunHelper cfg he d = (res, d')" "dir_read (ud_results d) i \<noteq> None"
  shows "dir_read (ud_results d') i = dir_read (ud_results d) i \<and> (\<forall>q d1. nextRequest he d \<noteq> (Inr (i, q), d1))"
  using run_reports [OF assms(1)] assms(2) nextRequest_found [of he d i] by fastforce

theorem finished_upgrade_never_reruns_witness:
  "dir_read (ud_results (snd (RunHelper ex_helper (ex_run ex_seen) (ex_updisk\<lparr>ud_results := [(''u-1'', Some (Some ex_rolled_back))]\<rparr>)))) ''u-1'' =
     Some (Some (Some ex_rolled_back))"
proof -
  let ?d = "ex_updisk\<lparr>ud_results := [(''u-1'', Some (Some ex_rolled_back))]\<rparr>"
  obtain res d' where r: "RunHelper ex_helper (ex_run ex_seen) ?d = (res, d')" by (metis surj_pair)
  have "dir_read (ud_results ?d) ''u-1'' = Some (Some (Some ex_rolled_back))" by (simp add: dir_read_def)
  then show ?thesis using finished_upgrade_never_reruns [OF r, of "''u-1''"] r by simp
qed

text \<open>
  C17: A result that reports a rollback is the truth: the installed binary is the backup of this upgrade, which is the
  binary from before the run unless an earlier interrupted run had saved one, the binding is untouched, and after the
  restart the status page showed the old version under the same binding, device and credential epoch.
\<close>
theorem rolled_back_restores:
  assumes "RunHelper cfg he d = (res, d')" "dir_read (ud_results d) i = None"
    and "dir_read (ud_results d') i = Some (Some (Some r))" "us_Status r = ''rolled_back''"
  shows "ud_binary d' = rollback_copy i d \<and> ud_bindings d' = ud_bindings d \<and> he_rollback_restart he = None \<and>
    (\<exists>s. Some s \<in> set (fst (he_rollback_status he)) \<and> status_ok (hp_verify cfg) (uf_CurrentVersion (hp_upgrade cfg)) [] s)"
proof -
  have "r \<notin> decided he i" using assms(4) by (auto simp: decided_def new_result_def)
  then show ?thesis using run_reports [OF assms(1)] assms(2, 3) waitForStatus_seen by blast
qed

theorem rolled_back_restores_witness:
  "ud_binary (snd (RunHelper ex_helper (ex_run ex_unseen) ex_updisk)) = Some ''old''"
proof -
  obtain e d' where r: "RunHelper ex_helper (ex_run ex_unseen) ex_updisk = (Some e, d')"
      "dir_read (ud_results d') ''u-1'' = Some (Some (Some ex_rolled_back))" using ex_rolls_back by blast
  have "us_Status ex_rolled_back = ''rolled_back''" by (simp add: ex_rolled_back_def new_result_def)
  moreover have "dir_read (ud_results ex_updisk) ''u-1'' = None" "rollback_copy ''u-1'' ex_updisk = Some ''old''"
    by (simp_all add: ex_updisk_def rollback_copy_def)
  ultimately show ?thesis using rolled_back_restores [OF r(1) _ r(2)] r(1) by simp
qed

lemma helper_error_valid: "errorStageRE stage \<Longrightarrow> safeHelperText cause \<noteq> [] \<Longrightarrow> validResultError (Some (helper_error stage cause))"
  using safeHelperText_ok [of cause] by (simp add: validResultError_def helper_error_def resultErrorStageRE_def)

lemma written_results_valid:
  assumes "r \<in> decided he i \<or> (\<exists>cause. r = rolled_back he i cause)" "\<not> is_zero_time (to_utc (he_finish he))"
    and "\<forall>e. us_Error r = Some e \<longrightarrow> ee_Reason e \<noteq> []"
  shows "result_well_formed i r" "us_Status r = ''succeeded'' \<or> us_Status r = ''rolled_back'' \<or> us_Status r = ''failed''"
proof -
  consider stage cause where "r = failure he i stage cause" "errorStageRE stage" | v where "r = success he i v"
    | cause where "r = rolled_back he i cause" using assms(1) by (auto simp: decided_def)
  then have "result_well_formed i r \<and> (us_Status r = ''succeeded'' \<or> us_Status r = ''rolled_back'' \<or> us_Status r = ''failed'')"
  proof cases
    case 1
    then have "validResultError (us_Error r)"
      using assms(3) helper_error_valid by (simp add: new_result_def helper_error_def)
    then show ?thesis using assms(2) 1 by (simp add: result_well_formed_def new_result_def)
  next
    case 2
    then show ?thesis using assms(2) by (simp add: result_well_formed_def new_result_def validResultError_def)
  next
    case 3
    then have "validResultError (us_Error r)"
      using assms(3) helper_error_valid [OF helper_stages(17)] by (simp add: new_result_def helper_error_def)
    then show ?thesis using assms(2) 3 by (simp add: result_well_formed_def new_result_def)
  qed
  then show "result_well_formed i r" "us_Status r = ''succeeded'' \<or> us_Status r = ''rolled_back'' \<or> us_Status r = ''failed''" by auto
qed

text \<open>
  C18: Whatever the helper writes, the agent can read: a result a run of the helper leaves is accepted by
  \<open>ResolveUpgrade\<close> and gives the receipt its status, version, code and error, also when the cause is an arbitrary output of
  a subprocess.  The clock has to be set, and the cause has to contain something besides white space.
\<close>
theorem helper_results_resolve:
  assumes "RunHelper cfg he d = (res, d')" "dir_read (ud_results d) i = None" "dir_read (ud_results d') i = Some (Some (Some r))"
    and "\<not> is_zero_time (to_utc (he_finish he))" "\<forall>e. us_Error r = Some e \<longrightarrow> ee_Reason e \<noteq> []"
  shows "ResolveUpgrade oc i d' = (Inr (Resolved (us_Status r) (us_Version r) (us_Code r) (us_Error r)), d')"
proof -
  have i: "i \<noteq> []" "base_name i" and r: "r \<in> decided he i \<or> (\<exists>cause. r = rolled_back he i cause)"
    using run_reports [OF assms(1)] assms(2, 3) by blast+
  show ?thesis using written_results_valid [OF r assms(4, 5)] i assms(3) by (auto simp: ResolveUpgrade_def)
qed

theorem helper_results_resolve_witness:
  "fst (ResolveUpgrade IoOk ''u-1'' (snd (RunHelper ex_helper (ex_run ex_unseen) ex_updisk))) =
    Inr (Resolved ''rolled_back'' [] ''AGENT_UPGRADE_ROLLED_BACK'' (Some (helper_error ''restart_health_check'' ''timeout'')))"
proof -
  obtain e d' where r: "RunHelper ex_helper (ex_run ex_unseen) ex_updisk = (Some e, d')"
      "dir_read (ud_results d') ''u-1'' = Some (Some (Some ex_rolled_back))" using ex_rolls_back by blast
  have "dir_read (ud_results ex_updisk) ''u-1'' = None" by (simp add: ex_updisk_def)
  moreover have "\<not> is_zero_time (to_utc (he_finish (ex_run ex_unseen)))" by (simp add: ex_run_def ex_issued_def is_zero_time_def to_utc_def)
  moreover have "\<forall>x. us_Error ex_rolled_back = Some x \<longrightarrow> ee_Reason x \<noteq> []"
    by (simp add: ex_rolled_back_def new_result_def helper_error_def ex_reason)
  ultimately have "ResolveUpgrade IoOk ''u-1'' d' =
      (Inr (Resolved (us_Status ex_rolled_back) (us_Version ex_rolled_back) (us_Code ex_rolled_back) (us_Error ex_rolled_back)), d')"
    by (rule helper_results_resolve [OF r(1) _ r(2)])
  then show ?thesis using r(1) by (simp add: ex_rolled_back_def new_result_def)
qed

subsection \<open>Success and the signing key\<close>

lemma Save_binding_ok:
  assumes "Save_binding lib oc s b = (None, b')"
  shows "Load_binding lib b' = Inr (Some s)"
proof -
  obtain ok f where w: "write_private oc s (bd_state b) = (ok, f)" by (cases "write_private oc s (bd_state b)")
  then have "ok" "State_Validate lib s" "b' = b\<lparr>bd_state := f\<rparr>" using assms by (auto simp: Save_binding_def split: if_splits)
  moreover have "f = Holds s" using w \<open>ok\<close> by (cases "bd_state b"; cases oc) auto
  ultimately show ?thesis by (simp add: Load_binding_def)
qed

lemma Load_binding_valid: "Load_binding lib b = Inr (Some s) \<Longrightarrow> State_Validate lib s"
  by (auto simp: Load_binding_def split: sum.splits option.splits if_splits)

lemma staged_rotation:
  assumes "stageCommandSigningRotation lib oc k r d = (Inr s, d1)"
  shows "Load_binding lib (ud_bindings d) = Inr (Some s)"
    "Load_binding lib (ud_bindings d1) =
       Inr (Some (s\<lparr>bs_CommandSigningCredential := \<lparr>sg_KeyID = sr_KeyID r, sg_Algorithm = ''ed25519'', sg_PublicKey = sr_PublicKey r\<rparr>\<rparr>))"
    "sg_KeyID (bs_CommandSigningCredential s) = k"
proof -
  obtain s' where l: "Load_binding lib (ud_bindings d) = Inr (Some s')"
    using assms unfolding stageCommandSigningRotation_def by (simp split: sum.splits option.splits)
  let ?n = "s'\<lparr>bs_CommandSigningCredential := \<lparr>sg_KeyID = sr_KeyID r, sg_Algorithm = ''ed25519'', sg_PublicKey = sr_PublicKey r\<rparr>\<rparr>"
  obtain e b where w: "Save_binding lib oc ?n (ud_bindings d) = (e, b)" by (cases "Save_binding lib oc ?n (ud_bindings d)")
  have x: "e = None" "s = s'" "d1 = d\<lparr>ud_bindings := b\<rparr>" "sg_KeyID (bs_CommandSigningCredential s') = k"
    using assms l w unfolding stageCommandSigningRotation_def by (simp_all split: if_splits option.splits)
  show "Load_binding lib (ud_bindings d) = Inr (Some s)" using l x by simp
  show "sg_KeyID (bs_CommandSigningCredential s) = k" using x by simp
  show "Load_binding lib (ud_bindings d1) = Inr (Some (s\<lparr>bs_CommandSigningCredential := \<lparr>sg_KeyID = sr_KeyID r, sg_Algorithm = ''ed25519'', sg_PublicKey = sr_PublicKey r\<rparr>\<rparr>))"
    using Save_binding_ok [of lib oc ?n] w x by simp
qed

lemma saveResult_ok:
  assumes "saveResult oc r d = (True, d1)"
  shows "dir_read (ud_results d1) (us_UpgradeID r) = Some (Some (Some r))" "ud_bindings d1 = ud_bindings d"
proof -
  obtain ok w where w: "dir_write oc (us_UpgradeID r) (Some r) (ud_results d) = (ok, w)"
    by (cases "dir_write oc (us_UpgradeID r) (Some r) (ud_results d)")
  then have "ok" "d1 = d\<lparr>ud_results := w\<rparr>" using assms by (auto simp: saveResult_def split: if_splits)
  then show "dir_read (ud_results d1) (us_UpgradeID r) = Some (Some (Some r))" "ud_bindings d1 = ud_bindings d"
    using dir_write_ok w by auto
qed

lemma conclude_succeeds:
  assumes "conclude cfg he q i v s d = (None, d')"
  shows "dir_read (ud_results d') i = Some (Some (Some (success he i v)))" "ud_bindings d' = ud_bindings d"
proof -
  obtain ok d1 where o1: "saveResult (he_success_save he) (success he i v) d = (ok, d1)"
    by (cases "saveResult (he_success_save he) (success he i v) d")
  have f: "fst (fail_run he q i st c d2) \<noteq> None" for st c d2 by simp
  have "ok"
  proof (rule ccontr)
    assume "\<not> ok"
    then have "\<exists>st c d2. conclude cfg he q i v s d = fail_run he q i st c d2"
      using o1 by (cases s; simp add: conclude_def) (blast, auto split: prod.split option.split)
    then show False using assms f by (metis fst_conv)
  qed
  then have "d' = clean_up he q i d1" using assms o1 by (simp add: conclude_def)
  then show "dir_read (ud_results d') i = Some (Some (Some (success he i v)))" "ud_bindings d' = ud_bindings d"
    using saveResult_ok [of "he_success_save he" "success he i v" d d1] o1 \<open>ok\<close> by simp_all
qed

text \<open>The active key after a successful run.\<close>

definition rotation_active :: "helper_config \<Rightarrow> helper_env \<Rightarrow> string \<Rightarrow> parameters \<Rightarrow> upgrade_disk \<Rightarrow> bool" where
  "rotation_active cfg he v p d' \<longleftrightarrow>
     (case pm_CommandSigningRotation p of
        None \<Rightarrow> True
      | Some r \<Rightarrow>
          (\<exists>s x. Load_binding (hp_enroll cfg) (ud_bindings d') = Inr (Some s) \<and>
             sg_KeyID (bs_CommandSigningCredential s) = sr_KeyID r \<and> sg_PublicKey (bs_CommandSigningCredential s) = sr_PublicKey r \<and>
             Some x \<in> set (fst (he_rotate_status he)) \<and> status_ok (hp_verify cfg) v (sr_KeyID r) x))"

lemma rotate_key_succeeds:
  assumes "rotate_key cfg he q i v p d = (None, d')"
  shows "dir_read (ud_results d') i = Some (Some (Some (success he i v)))" "rotation_active cfg he v p d'"
proof -
  have "dir_read (ud_results d') i = Some (Some (Some (success he i v))) \<and> rotation_active cfg he v p d'"
  proof (cases "pm_CommandSigningRotation p")
    case None
    then show ?thesis using assms conclude_succeeds(1) by (simp add: rotate_key_def rotation_active_def)
  next
    case (Some r)
    obtain e d1 where t: "stageCommandSigningRotation (hp_enroll cfg) (he_rotate he) (c_SigningKeyID (uq_Command q)) r d = (e, d1)"
      by (cases "stageCommandSigningRotation (hp_enroll cfg) (he_rotate he) (c_SigningKeyID (uq_Command q)) r d")
    have no: "fst (fail_run he q i st c d2) \<noteq> None" "fst (recover_rotation cfg he q i v s st c d2) \<noteq> None" for s st c d2
      using recover_rotation_keeps(3) by simp_all
    obtain s where e: "e = Inr s"
    proof (cases e)
      case (Inl c)
      then show ?thesis using assms Some t by (simp add: rotate_key_def fail_run_def)
    qed (rule that)
    define k where "k = (case he_rotate_restart he of
        Some e \<Rightarrow> recover_rotation cfg he q i v s ''rotate_command_key_restart'' e d1
      | None \<Rightarrow> (case waitForStatus cfg v (sr_KeyID r) (he_rotate_status he) of
          Some e \<Rightarrow> recover_rotation cfg he q i v s ''rotate_command_key_health_check'' e d1
        | None \<Rightarrow> conclude cfg he q i v (Some s) d1))"
    have k: "k = (None, d')" using assms Some t e by (simp add: rotate_key_def k_def)
    have rest: "he_rotate_restart he = None \<and> waitForStatus cfg v (sr_KeyID r) (he_rotate_status he) = None \<and>
        conclude cfg he q i v (Some s) d1 = (None, d')"
    proof (cases "he_rotate_restart he")
      case (Some c)
      then show ?thesis using k no(2) [of s "''rotate_command_key_restart''" c d1] unfolding k_def by simp
    next
      case N: None
      show ?thesis
      proof (cases "waitForStatus cfg v (sr_KeyID r) (he_rotate_status he)")
        case (Some c)
        then show ?thesis using N k no(2) [of s "''rotate_command_key_health_check''" c d1] unfolding k_def by simp
      qed (use N k in \<open>simp add: k_def\<close>)
    qed
    show ?thesis
      using conclude_succeeds [of cfg he q i v "Some s" d1 d'] staged_rotation(2) t e waitForStatus_seen [of cfg v "sr_KeyID r" "he_rotate_status he"] rest Some
      by (auto simp: rotation_active_def)
  qed
  then show "dir_read (ud_results d') i = Some (Some (Some (success he i v)))" "rotation_active cfg he v p d'" by auto
qed

text \<open>A request that ends without an error went through every step.\<close>

lemma process_succeeds:
  assumes "process_request cfg he i q d = (None, d')"
  obtains p binary d1 d2 where "verify_upgrade cfg he q d = Inr (p, binary)"
    "candidateHostFirewallPreflight he i binary d = (None, d1)" "installCandidate he i binary d1 = (None, d2)"
    "he_restart he = None" "waitForStatus cfg (trim_prefix ''v'' (pm_ReleaseTag p)) (c_SigningKeyID (uq_Command q)) (he_status he) = None"
    "he_postflight he = None" "rotate_key cfg he q i (trim_prefix ''v'' (pm_ReleaseTag p)) p d2 = (None, d')"
proof -
  have no: "fail_run he q i st c d2 \<noteq> (None, d')" "roll_back cfg he q i c d2 \<noteq> (None, d')" for st c d2
    using fail_run_keeps(4) [of he q i st c d2] roll_back_binary(2) [of cfg he q i c d2] by (auto simp del: fail_run_keeps)
  obtain p binary where v: "verify_upgrade cfg he q d = Inr (p, binary)"
    using assms no(1) by (cases "verify_upgrade cfg he q d") (auto simp: process_request_def)
  obtain e1 d1 where f: "candidateHostFirewallPreflight he i binary d = (e1, d1)"
    by (cases "candidateHostFirewallPreflight he i binary d")
  obtain e2 d2 where k: "installCandidate he i binary d1 = (e2, d2)" by (cases "installCandidate he i binary d1")
  have e1: "e1 = None" using assms v f no(1) by (cases e1) (simp_all add: process_request_def)
  have e2: "e2 = None" using assms v f e1 k no(1) by (cases e2) (simp_all add: process_request_def)
  have a: "activate cfg he q i p d2 = (None, d')" using assms v f e1 k e2 by (simp add: process_request_def)
  have r: "he_restart he = None" using a no(2) by (cases "he_restart he") (simp_all add: activate_def)
  let ?w = "waitForStatus cfg (trim_prefix ''v'' (pm_ReleaseTag p)) (c_SigningKeyID (uq_Command q)) (he_status he)"
  have w: "?w = None" using a r no(2) by (cases ?w) (simp_all add: activate_def)
  have o1: "he_postflight he = None" using a r w no(1) by (cases "he_postflight he") (simp_all add: activate_def)
  have "rotate_key cfg he q i (trim_prefix ''v'' (pm_ReleaseTag p)) p d2 = (None, d')" using a r w o1 by (simp add: activate_def)
  then show ?thesis using that v f e1 k e2 r w o1 by simp
qed

lemma preflight_passed: "candidateHostFirewallPreflight he i binary d = (None, d1) \<Longrightarrow> he_preflight he = None"
  by (auto simp: candidateHostFirewallPreflight_def Let_def split: option.splits prod.splits bool.splits)

text \<open>
  C13: A run that ends without an error has installed the verified release and seen it run.  It worked on a request without a
  result whose command passed the full verification at the time of the run and was submitted for this upgrade in the journal.
  With \<open>p\<close> the signed parameters of that command, the installed binary is the one unpacked from the archive \<open>p\<close> names,
  the replaced binary is kept as backup, the firewall preflight of the candidate and the reconciliation after the restart passed,
  the status page showed the version of \<open>p\<close> under the bound identity and the key that signed the command, a key rotation in \<open>p\<close> is
  the active key on disk and was seen on the status page, and the stored result says that the upgrade to this version succeeded.
\<close>
theorem success_means_release_running:
  assumes "RunHelper cfg he d = (None, d')"
  shows "\<exists>i q p binary s j. dir_read (ud_results d) i = None \<and> dir_read (ud_request d) i = Some (Some (Some q)) \<and>
    Verify (je_crypto (hp_jenv cfg)) (hp_params cfg) (he_clock he) (uq_Command q) ((hp_verify cfg)\<lparr>vc_Now := to_utc (he_now he)\<rparr>) = None \<and>
    j \<in> set (fst (he_handoff he)) \<and>
    AuthorizeUpgrade (hp_jenv cfg) j (c_CommandID (uq_Command q)) (Digest (je_crypto (hp_jenv cfg)) (uq_Command q)) i = None \<and>
    DecodeParameters (uf_codec (hp_upgrade cfg)) (c_Parameters (uq_Command q)) = Inr p \<and>
    verifiedBinary (crypto.truncate (uf_crypto (hp_upgrade cfg))) (hp_untar cfg) (dir_read (ud_artifact d) i) p = Inr binary \<and>
    ud_binary d' = Some binary \<and> dir_read (ud_backups d') i = Some (rollback_copy i d) \<and>
    he_preflight he = None \<and> he_postflight he = None \<and>
    Some s \<in> set (fst (he_status he)) \<and>
    status_ok (hp_verify cfg) (trim_prefix ''v'' (pm_ReleaseTag p)) (c_SigningKeyID (uq_Command q)) s \<and>
    rotation_active cfg he (trim_prefix ''v'' (pm_ReleaseTag p)) p d' \<and>
    dir_read (ud_results d') i = Some (Some (Some (new_result he i ''succeeded'' (trim_prefix ''v'' (pm_ReleaseTag p))
      AgentUpgradeHostFirewallSuccessCode None)))"
  using assms
proof (cases rule: run_cases)
  case (processed i q d0)
  note found = nextRequest_found [OF processed(1)]
  note same = same_unfinishedD [OF processed(2)]
  obtain p binary d1 d2 where k: "verify_upgrade cfg he q d0 = Inr (p, binary)"
    "candidateHostFirewallPreflight he i binary d0 = (None, d1)" "installCandidate he i binary d1 = (None, d2)"
    "he_restart he = None" "waitForStatus cfg (trim_prefix ''v'' (pm_ReleaseTag p)) (c_SigningKeyID (uq_Command q)) (he_status he) = None"
    "he_postflight he = None" "rotate_key cfg he q i (trim_prefix ''v'' (pm_ReleaseTag p)) p d2 = (None, d')"
    by (rule process_succeeds [OF processed(3)])
  obtain w where d1: "d1 = d0\<lparr>ud_preflight := w\<rparr>" using preflight_keeps [OF k(2)] by blast
  have copy: "rollback_copy i d1 = rollback_copy i d" unfolding rollback_copy_def same(2, 3) [symmetric] d1 by (simp split: option.split)
  have b: "ud_binary d' = Some binary" "dir_read (ud_backups d') i = Some (rollback_copy i d)"
    using installCandidate_cases(1) [OF k(3) refl] rotate_key_keeps [of cfg he q i "trim_prefix ''v'' (pm_ReleaseTag p)" p d2]
    unfolding k(7) copy by simp_all
  have v: "verifiedBinary (crypto.truncate (uf_crypto (hp_upgrade cfg))) (hp_untar cfg) (dir_read (ud_artifact d) i) p = Inr binary"
    using verify_upgrade_facts(4) [OF k(1)] found same(5) [of i] by simp
  obtain s where s: "Some s \<in> set (fst (he_status he))"
      "status_ok (hp_verify cfg) (trim_prefix ''v'' (pm_ReleaseTag p)) (c_SigningKeyID (uq_Command q)) s"
    using waitForStatus_seen [OF k(5)] by blast
  note facts = verify_upgrade_facts [OF k(1)]
  obtain j where j: "j \<in> set (fst (he_handoff he))"
      "AuthorizeUpgrade (hp_jenv cfg) j (c_CommandID (uq_Command q)) (Digest (je_crypto (hp_jenv cfg)) (uq_Command q)) i = None"
    using validated_request(2) [OF facts(1)] found by auto
  show ?thesis
    using found v b preflight_passed [OF k(2)] k(6) s rotate_key_succeeds [OF k(7)] validated_request(1) [OF facts(1)] facts(2) j
    by (intro exI [of _ i] exI [of _ q] exI [of _ p] exI [of _ binary] exI [of _ s] exI [of _ j]) simp
qed simp

theorem success_means_release_running_witness:
  "\<exists>s. Some s \<in> set (fst ex_seen) \<and> he_postflight (ex_run ex_seen) = None \<and>
    (\<exists>v k. status_ok (hp_verify ex_helper) v k s)"
proof -
  obtain d' where "RunHelper ex_helper (ex_run ex_seen) ex_updisk = (None, d')" using ex_succeeds by blast
  moreover have "he_status (ex_run ex_seen) = ex_seen" by (simp add: ex_run_def)
  ultimately show ?thesis using success_means_release_running by metis
qed

lemma Load_binding_holds: "Load_binding lib b = Inr (Some s) \<Longrightarrow> bd_state b = Holds s"
  by (cases "bd_state b") (auto simp: Load_binding_def split: if_splits)

lemma Load_binding_again: "Load_binding lib b = Inr (Some s) \<Longrightarrow> Load_binding lib (b'\<lparr>bd_state := Holds s\<rparr>) = Inr (Some s)"
  using Load_binding_valid [of lib b s] by (simp add: Load_binding_def)

text \<open>The key on disk is that of \<open>s\<close> or, while a rotation is under way, its replacement.\<close>

abbreviation bound_to :: "helper_config \<Rightarrow> upgrade_disk \<Rightarrow> binding_state \<Rightarrow> bool" where
  "bound_to cfg d s \<equiv> Load_binding (hp_enroll cfg) (ud_bindings d) = Inr (Some s)"

lemma recovered_binding:
  assumes "bound_to cfg d x" "he_recover he = IoOk" "State_Validate (hp_enroll cfg) s"
    and "restoreSigningRotation cfg he s v d = (e, d1)"
  shows "bound_to cfg d1 s"
proof -
  have "Save_binding (hp_enroll cfg) (he_recover he) s (ud_bindings d) = (None, (ud_bindings d)\<lparr>bd_state := Holds s\<rparr>)"
    using Load_binding_holds [OF assms(1)] assms(2, 3) by (simp add: Save_binding_def)
  then have "ud_bindings d1 = (ud_bindings d)\<lparr>bd_state := Holds s\<rparr>" using assms(4) by (auto simp: restoreSigningRotation_def)
  then show ?thesis using assms(3) by (simp add: Load_binding_def)
qed

lemma saveResult_bindings: "saveResult oc r d = (ok, d1) \<Longrightarrow> ud_bindings d1 = ud_bindings d"
  using saveResult_keeps(3) [of oc r d] by simp

lemma conclude_keeps_key:
  assumes "conclude cfg he q i v t d = (Some e, d')" "he_recover he = IoOk" "State_Validate (hp_enroll cfg) s"
    and "case t of None \<Rightarrow> bound_to cfg d s | Some s' \<Rightarrow> s' = s \<and> (\<exists>x. bound_to cfg d x)"
  shows "bound_to cfg d' s"
proof -
  obtain ok d1 where o1: "saveResult (he_success_save he) (success he i v) d = (ok, d1)"
    by (cases "saveResult (he_success_save he) (success he i v) d")
  have ok: "\<not> ok" using assms(1) o1 by (auto simp: conclude_def)
  note b = saveResult_bindings [OF o1]
  show ?thesis
  proof (cases t)
    case None
    then have "ud_bindings d' = ud_bindings d1" using assms(1) o1 ok by (auto simp: conclude_def fail_run_def)
    then show ?thesis using b None assms(4) by simp
  next
    case (Some s')
    obtain y d2 where r: "restoreSigningRotation cfg he s v d1 = (y, d2)" by (cases "restoreSigningRotation cfg he s v d1")
    have "ud_bindings d' = ud_bindings d2"
      using assms(1, 4) o1 ok r Some by (cases y) (auto simp: conclude_def fail_run_def)
    moreover have "\<exists>x. bound_to cfg d1 x" using assms(4) Some b by auto
    ultimately show ?thesis using recovered_binding [OF _ assms(2, 3) r] by auto
  qed
qed

lemma unstaged_binding:
  assumes "stageCommandSigningRotation lib oc k r d = (Inl e, d1)" "oc \<noteq> IoLate" "Load_binding lib (ud_bindings d) = Inr (Some s)"
  shows "Load_binding lib (ud_bindings d1) = Inr (Some s)"
  using assms Load_binding_holds [OF assms(3)] Load_binding_again [OF assms(3)]
  by (cases oc) (auto simp: stageCommandSigningRotation_def Save_binding_def split: if_splits)

lemma recover_rotation_key:
  assumes "bound_to cfg d x" "he_recover he = IoOk" "State_Validate (hp_enroll cfg) s"
  shows "bound_to cfg (snd (recover_rotation cfg he q i v s stage cause d)) s"
proof -
  obtain y d2 where r: "restoreSigningRotation cfg he s v d = (y, d2)" by (cases "restoreSigningRotation cfg he s v d")
  show ?thesis using recovered_binding [OF assms r] by (cases y) (simp_all add: recover_rotation_def r)
qed

lemma rotate_key_keeps_key:
  assumes "rotate_key cfg he q i v p d = (Some e, d')" "he_rotate he \<noteq> IoLate" "he_recover he = IoOk" "bound_to cfg d s"
  shows "bound_to cfg d' s"
proof (cases "pm_CommandSigningRotation p")
  case None
  then show ?thesis using assms conclude_keeps_key [of cfg he q i v None d e d' s] Load_binding_valid by (simp add: rotate_key_def)
next
  case (Some r)
  have ok: "State_Validate (hp_enroll cfg) s" using Load_binding_valid assms(4) .
  obtain t d1 where t: "stageCommandSigningRotation (hp_enroll cfg) (he_rotate he) (c_SigningKeyID (uq_Command q)) r d = (t, d1)"
    by (cases "stageCommandSigningRotation (hp_enroll cfg) (he_rotate he) (c_SigningKeyID (uq_Command q)) r d")
  show ?thesis
  proof (cases t)
    case (Inl c)
    have "bound_to cfg d1 s" using unstaged_binding t Inl assms(2, 4) by blast
    moreover have "ud_bindings d' = ud_bindings d1" using assms(1) Some t Inl by (auto simp: rotate_key_def fail_run_def)
    ultimately show ?thesis by simp
  next
    case (Inr s')
    have s': "s' = s" "\<exists>x. bound_to cfg d1 x" using staged_rotation [of "hp_enroll cfg" "he_rotate he"] t Inr assms(4) by auto
    then obtain x where x: "bound_to cfg d1 x" by blast
    have rec: "bound_to cfg (snd (recover_rotation cfg he q i v s st c d1)) s" for st c
      by (rule recover_rotation_key [OF x assms(3) ok])
    have con: "conclude cfg he q i v (Some s) d1 = (Some e, d') \<Longrightarrow> ?thesis"
      using conclude_keeps_key [of cfg he q i v "Some s" d1 e d' s] assms(3) ok x by auto
    show ?thesis
    proof (cases "he_rotate_restart he")
      case N: None
      show ?thesis
      proof (cases "waitForStatus cfg v (sr_KeyID r) (he_rotate_status he)")
        case None
        then show ?thesis using N assms(1) Some t Inr s' con by (simp add: rotate_key_def)
      next
        case W: (Some c)
        then show ?thesis using N assms(1) Some t Inr s' rec [of "''rotate_command_key_health_check''" c] by (simp add: rotate_key_def)
      qed
    next
      case R: (Some c)
      then show ?thesis using assms(1) Some t Inr s' rec [of "''rotate_command_key_restart''" c] by (simp add: rotate_key_def)
    qed
  qed
qed

lemma roll_back_bindings: "ud_bindings (snd (roll_back cfg he q i cause d)) = ud_bindings d"
  by (auto simp: roll_back_def Let_def split: prod.splits option.splits dest!: restoreBackup_cases)

lemma process_keeps_key:
  assumes "process_request cfg he i q d = (Some e, d')" "he_rotate he \<noteq> IoLate" "he_recover he = IoOk" "bound_to cfg d s"
  shows "bound_to cfg d' s"
proof (cases "verify_upgrade cfg he q d")
  case (Inl x)
  then have "ud_bindings d' = ud_bindings d" using assms(1) by (auto simp: process_request_def fail_run_def split: prod.splits)
  then show ?thesis using assms(4) by simp
next
  case (Inr x)
  obtain p binary where x: "x = (p, binary)" by (cases x)
  obtain e1 d1 where f: "candidateHostFirewallPreflight he i binary d = (e1, d1)"
    by (cases "candidateHostFirewallPreflight he i binary d")
  obtain w where d1: "d1 = d\<lparr>ud_preflight := w\<rparr>" using preflight_keeps [OF f] by blast
  obtain e2 d2 where k: "installCandidate he i binary d1 = (e2, d2)" by (cases "installCandidate he i binary d1")
  have b: "ud_bindings d1 = ud_bindings d" "ud_bindings d2 = ud_bindings d" using installCandidate_cases(4) [OF k] by (simp_all add: d1)
  show ?thesis
  proof (cases "e1 = None \<and> e2 = None")
    case False
    then have "ud_bindings d' = ud_bindings d" using assms(1) Inr x f k b by (cases e1; cases e2) (auto simp: process_request_def fail_run_def)
    then show ?thesis using assms(4) by simp
  next
    case True
    then have a: "activate cfg he q i p d2 = (Some e, d')" using assms(1) Inr x f k by (simp add: process_request_def)
    consider c where "activate cfg he q i p d2 = roll_back cfg he q i c d2"
      | c where "activate cfg he q i p d2 = fail_run he q i ''host_firewall_reconcile'' c d2"
      | v where "activate cfg he q i p d2 = rotate_key cfg he q i v p d2" using activate_alternatives by blast
    then show ?thesis
    proof cases
      case 1
      have "ud_bindings d' = ud_bindings d2" using roll_back_bindings [of cfg he q i c d2] a unfolding 1 by simp
      then show ?thesis using b assms(4) by simp
    next
      case 2
      have "ud_bindings d' = ud_bindings d2" using fail_run_keeps(3) [of he q i "''host_firewall_reconcile''" c d2] a unfolding 2 by simp
      then show ?thesis using b assms(4) by simp
    next
      case 3
      then show ?thesis using a rotate_key_keeps_key [of cfg he q i v p d2 e d'] b assms by simp
    qed
  qed
qed

text \<open>
  A run that fails leaves the binding as it was, also when the failure comes after the new signing key was activated:
  the old credential is written back before the result is reported.  The two conditions are that this last write succeeds
  and that the write of the new key did not fail after its rename.
\<close>
theorem failed_run_keeps_signing_key:
  assumes "RunHelper cfg he d = (Some e, d')" "Load_binding (hp_enroll cfg) (ud_bindings d) = Inr (Some s)"
    and "he_rotate he \<noteq> IoLate" "he_recover he = IoOk"
  shows "Load_binding (hp_enroll cfg) (ud_bindings d') = Inr (Some s)"
  using assms(1)
proof (cases rule: run_cases)
  case idle
  then show ?thesis using assms(2) same_unfinishedD(4) by simp
next
  case (processed i q d1)
  then show ?thesis using process_keeps_key [OF processed(3) assms(3, 4)] same_unfinishedD(4) [OF processed(2)] assms(2) by simp
qed

theorem failed_run_keeps_signing_key_witness:
  "Load_binding ex_enroll_lib (ud_bindings (snd (RunHelper ex_helper (ex_run ex_unseen) ex_updisk))) = Inr (Some Binding_Guarantees.ex_binding)"
proof -
  obtain e d' where r: "RunHelper ex_helper (ex_run ex_unseen) ex_updisk = (Some e, d')" using ex_rolls_back by blast
  have "Load_binding (hp_enroll ex_helper) (ud_bindings ex_updisk) = Inr (Some Binding_Guarantees.ex_binding)"
    using ex_load by (simp add: ex_helper_def ex_updisk_def)
  moreover have "he_rotate (ex_run ex_unseen) \<noteq> IoLate" "he_recover (ex_run ex_unseen) = IoOk" by (simp_all add: ex_run_def)
  ultimately show ?thesis using failed_run_keeps_signing_key [OF r] r by (simp add: ex_helper_def)
qed

text \<open>
  C40: When the write of the rotated key fails late, after its rename, the helper reports the failure of the rotation
  without the recovery that every later failure gets: the new signing key stays active on disk, although the upgrade is
  reported as failed and the website keeps signing with the old key.
\<close>
theorem late_rotation_failure_keeps_new_key:
  assumes "pm_CommandSigningRotation p = Some r" "Load_binding (hp_enroll cfg) (ud_bindings d) = Inr (Some s)"
    and "sg_KeyID (bs_CommandSigningCredential s) = c_SigningKeyID (uq_Command q)" "validEd25519Key (sr_PublicKey r)"
    and "State_Validate (hp_enroll cfg)
       (s\<lparr>bs_CommandSigningCredential := \<lparr>sg_KeyID = sr_KeyID r, sg_Algorithm = ''ed25519'', sg_PublicKey = sr_PublicKey r\<rparr>\<rparr>)"
    and "he_rotate he = IoLate"
  shows "\<exists>e d'. rotate_key cfg he q i v p d = (Some e, d') \<and>
    Load_binding (hp_enroll cfg) (ud_bindings d') =
      Inr (Some (s\<lparr>bs_CommandSigningCredential := \<lparr>sg_KeyID = sr_KeyID r, sg_Algorithm = ''ed25519'', sg_PublicKey = sr_PublicKey r\<rparr>\<rparr>))"
proof -
  let ?n = "s\<lparr>bs_CommandSigningCredential := \<lparr>sg_KeyID = sr_KeyID r, sg_Algorithm = ''ed25519'', sg_PublicKey = sr_PublicKey r\<rparr>\<rparr>"
  let ?d = "d\<lparr>ud_bindings := (ud_bindings d)\<lparr>bd_state := Holds ?n\<rparr>\<rparr>"
  have "rotate_key cfg he q i v p d = fail_run he q i ''rotate_command_key'' ''write binding state'' ?d"
    using assms Load_binding_holds [OF assms(2)]
    by (simp add: rotate_key_def stageCommandSigningRotation_def Save_binding_def)
  moreover have "Load_binding (hp_enroll cfg) (ud_bindings ?d) = Inr (Some ?n)" using assms(5) by (simp add: Load_binding_def)
  ultimately show ?thesis by (simp add: fail_run_def)
qed

theorem late_rotation_failure_keeps_new_key_witness:
  "\<exists>e d'. rotate_key ex_helper ((ex_run ex_seen)\<lparr>he_rotate := IoLate\<rparr>)
      (ex_uprequest\<lparr>uq_Command := ex_upgrade\<lparr>c_SigningKeyID := ''sign-1''\<rparr>\<rparr>) ''u-1'' ''1.2.0''
      (ex_parameters\<lparr>pm_CommandSigningRotation := Some ex_rotation\<rparr>) ex_installed = (Some e, d') \<and>
    Load_binding ex_enroll_lib (ud_bindings d') = Inr (Some ex_rotated)"
proof -
  have cfg: "hp_enroll ex_helper = ex_enroll_lib" by (simp add: ex_helper_def)
  show ?thesis unfolding cfg [symmetric]
  proof (rule late_rotation_failure_keeps_new_key)
    show "Load_binding (hp_enroll ex_helper) (ud_bindings ex_installed) = Inr (Some Binding_Guarantees.ex_binding)"
      using ex_load by (simp add: cfg ex_installed_def ex_updisk_def)
    show "validEd25519Key (sr_PublicKey ex_rotation)" by (rule ex_rotated_valid)
    show "State_Validate (hp_enroll ex_helper) ex_rotated" unfolding cfg by (rule ex_rotated_valid)
  qed (simp_all add: Binding_Guarantees.ex_binding_def)
qed

end
