(* ===== verification/Assignment_Refresh.thy ===== *)
theory Assignment_Refresh
  imports Command_Types Binding_Overlay
begin

section \<open>Refreshing the assignments (\<open>internal/assignment/client.go\<close>)\<close>

text \<open>
  The website issues the assignment document in signed bundles.  The client asks for a bundle newer
  than the revision and cursor it holds and returns a document only when the bundle is
  addressed to this agent, fresh, signed, and signed over the hash of exactly the bytes it carries.
  Ed25519, SHA-256, \<open>url.Parse\<close>, the printing of times and the JSON decoders are arguments.
\<close>

subsection \<open>Data\<close>

record asn_state =
  an_Revision :: u64
  an_Cursor :: string

record asn_bundle =
  bu_SchemaVersion :: int
  bu_AgentRef :: string
  bu_DeviceID :: string
  bu_ClusterRef :: string
  bu_Cursor :: string
  bu_Revision :: u64
  bu_IssuedAt :: gotime
  bu_ExpiresAt :: gotime
  bu_Nonce :: string
  bu_ContentSHA256 :: string
  bu_SigningKeyID :: string
  bu_AssignmentDocument :: bytes
  bu_Signature :: string

record refreshed =
  rf_Document :: assignments
  rf_DocumentRaw :: bytes
  rf_State :: asn_state
  rf_IssuedAt :: gotime
  rf_ExpiresAt :: gotime

text \<open>
  \<open>al_time_text\<close> is \<open>Format(time.RFC3339Nano)\<close>, \<open>al_unique_keys\<close> accepts one JSON value without duplicate
  keys, \<open>al_bundle\<close> and \<open>al_document\<close> are the strict decoders of the two types.
\<close>

record asn_lib = command_crypto +
  al_time_text :: "gotime \<Rightarrow> string"
  al_unique_keys :: "bytes \<Rightarrow> bool"
  al_bundle :: "bytes \<Rightarrow> asn_bundle option"
  al_document :: "bytes \<Rightarrow> assignments option"

definition al_crypto :: "asn_lib \<Rightarrow> crypto" where
  "al_crypto lib = crypto.truncate lib"

definition asn_SchemaVersion :: int where
  "asn_SchemaVersion = 1"

definition asn_MaxResponseBytes :: nat where
  "asn_MaxResponseBytes = 4 * 2 ^ 20"

definition MaxWait :: int where
  "MaxWait = 25 * second"

definition MaxValidity :: int where
  "MaxValidity = 24 * 60 * minute"

text \<open>\<open>safeID\<close> of this package is the pattern \<open>safeRef\<close>.\<close>

definition isLowerHex :: "string \<Rightarrow> bool" where
  "isLowerHex = list_all is_lower_hex"

definition validNonce :: "string \<Rightarrow> bool" where
  "validNonce v \<longleftrightarrow> 16 \<le> length v \<and> length v \<le> 191 \<and> safeRef v"

subsection \<open>The signed text\<close>

fun join_lines :: "string list \<Rightarrow> string" where
  "join_lines [] = []"
| "join_lines [w] = w"
| "join_lines (w # ws) = w @ newline @ join_lines ws"

definition payload_lines :: "asn_lib \<Rightarrow> asn_bundle \<Rightarrow> string list" where
  "payload_lines lib b =
     [''ppflight-assignment-bundle-v1'', dec_int (bu_SchemaVersion b), bu_AgentRef b, bu_DeviceID b, bu_ClusterRef b,
      bu_Cursor b, dec (unat (bu_Revision b)), al_time_text lib (to_utc (bu_IssuedAt b)),
      al_time_text lib (to_utc (bu_ExpiresAt b)), bu_Nonce b, bu_ContentSHA256 b, bu_SigningKeyID b]"

definition CanonicalPayload :: "asn_lib \<Rightarrow> asn_bundle \<Rightarrow> bytes option" where
  "CanonicalPayload lib b =
     (if \<not> safeRef (bu_AgentRef b) \<or> \<not> safeRef (bu_DeviceID b) \<or> \<not> safeRef (bu_ClusterRef b) \<or>
         \<not> safeRef (bu_Cursor b) \<or> \<not> validNonce (bu_Nonce b) \<or> \<not> safeRef (bu_SigningKeyID b) \<or>
         length (bu_ContentSHA256 b) \<noteq> 64 \<or> \<not> isLowerHex (bu_ContentSHA256 b) \<or> bu_Revision b = 0 \<or>
         is_zero_time (bu_IssuedAt b) \<or> is_zero_time (bu_ExpiresAt b)
      then None else Some (join_lines (payload_lines lib b)))"

subsection \<open>The client\<close>

record asn_config =
  cf_Endpoint :: string
  cf_AgentRef :: string
  cf_DeviceID :: string
  cf_ClusterRef :: string
  cf_KeyID :: string
  cf_Secret :: string
  cf_SigningKeyID :: string
  cf_SigningPublicKey :: bytes
  cf_Wait :: int
  cf_Timeout :: int
  cf_MaxClockSkew :: int
  cf_HTTPTransport :: bool
  cf_AllowLoopbackHTTP :: bool

text \<open>\<open>cf_HTTPTransport\<close>: the HTTP client given, if any, has a transport that can be hardened.\<close>

record asn_client =
  cl_endpoint :: url
  cl_agentRef :: string
  cl_deviceID :: string
  cl_clusterRef :: string
  cl_keyID :: string
  cl_secret :: bytes
  cl_signingKeyID :: string
  cl_publicKey :: bytes
  cl_wait :: int
  cl_maxSkew :: int
  cl_timeout :: int

definition isIPv4Loopback :: "web_lib \<Rightarrow> string \<Rightarrow> bool" where
  "isIPv4Loopback = isLoopback"

definition refresh_endpoint :: "web_lib \<Rightarrow> asn_config \<Rightarrow> url option" where
  "refresh_endpoint web cfg =
     (case wl_parse_url web (cf_Endpoint cfg) of
        None \<Rightarrow> None
      | Some u \<Rightarrow>
          if (u_Scheme u \<noteq> ''https'' \<and>
              \<not> (cf_AllowLoopbackHTTP cfg \<and> u_Scheme u = ''http'' \<and> isIPv4Loopback web (u_Hostname u))) \<or>
             u_Host u = [] \<or> u_User u \<or> u_Fragment u \<noteq> [] \<or> u_RawQuery u \<noteq> [] \<or> \<not> ValidateIPv4URL web u
          then None else Some u)"

definition refresh_identity_ok :: "asn_config \<Rightarrow> bool" where
  "refresh_identity_ok cfg \<longleftrightarrow>
     safeRef (cf_AgentRef cfg) \<and> safeRef (cf_DeviceID cfg) \<and> safeRef (cf_ClusterRef cfg) \<and> safeRef (cf_KeyID cfg) \<and>
     safeRef (cf_SigningKeyID cfg) \<and> length (cf_SigningPublicKey cfg) = PublicKeySize"

text \<open>The defaults of the three durations, and the bounds checked with them.\<close>

definition effective_wait :: "asn_config \<Rightarrow> int" where
  "effective_wait cfg = (if cf_Wait cfg = 0 then MaxWait else cf_Wait cfg)"

definition effective_timeout :: "asn_config \<Rightarrow> int" where
  "effective_timeout cfg = (if cf_Timeout cfg \<le> 0 then effective_wait cfg + 5 * second else cf_Timeout cfg)"

definition effective_skew :: "asn_config \<Rightarrow> int" where
  "effective_skew cfg = (if cf_MaxClockSkew cfg \<le> 0 then 5 * minute else cf_MaxClockSkew cfg)"

definition NewClient :: "web_lib \<Rightarrow> asn_config \<Rightarrow> string + asn_client" where
  "NewClient web cfg =
     (case refresh_endpoint web cfg of
        None \<Rightarrow> Inl ''assignment endpoint must be an HTTPS URL without credentials, fragment, or query''
      | Some u \<Rightarrow>
          if \<not> refresh_identity_ok cfg then Inl ''invalid assignment client identity or credential''
          else case base64_std (cf_Secret cfg) of
            None \<Rightarrow> Inl ''invalid assignment HMAC credential''
          | Some secret \<Rightarrow>
              if length secret < 16 \<or> length secret > 4096 then Inl ''invalid assignment HMAC credential''
              else if cf_Wait cfg < 0 \<or> cf_Wait cfg > MaxWait then Inl ''assignment wait is out of bounds''
              else if effective_timeout cfg \<le> effective_wait cfg \<or> effective_timeout cfg > MaxWait + 30 * second
              then Inl ''assignment timeout must exceed wait and remain bounded''
              else if effective_skew cfg > 60 * minute then Inl ''assignment clock skew is too large''
              else if \<not> cf_HTTPTransport cfg then Inl ''assignment HTTP transport must be *http.Transport''
              else Inr \<lparr>cl_endpoint = u, cl_agentRef = cf_AgentRef cfg, cl_deviceID = cf_DeviceID cfg,
                     cl_clusterRef = cf_ClusterRef cfg, cl_keyID = cf_KeyID cfg, cl_secret = byte_text secret,
                     cl_signingKeyID = cf_SigningKeyID cfg, cl_publicKey = cf_SigningPublicKey cfg,
                     cl_wait = effective_wait cfg, cl_maxSkew = effective_skew cfg,
                     cl_timeout = effective_timeout cfg\<rparr>)"

subsection \<open>Verification of a bundle\<close>

definition bundle_fresh :: "asn_client \<Rightarrow> gotime \<Rightarrow> asn_bundle \<Rightarrow> bool" where
  "bundle_fresh c now b \<longleftrightarrow>
     \<not> after (bu_IssuedAt b) (time_add now (cl_maxSkew c)) \<and> after (bu_ExpiresAt b) (bu_IssuedAt b) \<and>
     after (bu_ExpiresAt b) now \<and> time_sub (bu_ExpiresAt b) (bu_IssuedAt b) \<le> MaxValidity"

definition bundle_addressed :: "asn_client \<Rightarrow> asn_bundle \<Rightarrow> bool" where
  "bundle_addressed c b \<longleftrightarrow>
     bu_SchemaVersion b = asn_SchemaVersion \<and> bu_AgentRef b = cl_agentRef c \<and> bu_DeviceID b = cl_deviceID c \<and>
     bu_ClusterRef b = cl_clusterRef c \<and> bu_SigningKeyID b = cl_signingKeyID c"

definition bundle_advances :: "asn_state \<Rightarrow> asn_bundle \<Rightarrow> bool" where
  "bundle_advances previous b \<longleftrightarrow>
     bu_Revision b > an_Revision previous \<and> \<not> (an_Cursor previous \<noteq> [] \<and> bu_Cursor b = an_Cursor previous)"

definition bundle_signed :: "asn_lib \<Rightarrow> asn_client \<Rightarrow> asn_bundle \<Rightarrow> bool" where
  "bundle_signed lib c b \<longleftrightarrow>
     (case CanonicalPayload lib b of
        None \<Rightarrow> False
      | Some payload \<Rightarrow>
          (case base64_std (bu_Signature b) of
             None \<Rightarrow> False
           | Some signature \<Rightarrow>
               length signature = SignatureSize \<and> ed25519_verify lib (cl_publicKey c) payload signature))"

datatype refresh_error = NoChange | RefreshError string

definition verify_bundle :: "asn_lib \<Rightarrow> asn_client \<Rightarrow> gotime \<Rightarrow> asn_bundle \<Rightarrow> asn_state \<Rightarrow> refresh_error + refreshed" where
  "verify_bundle lib c clock b previous =
     (let now = to_utc clock in
      if \<not> bundle_addressed c b \<or> \<not> safeRef (bu_Cursor b) \<or> \<not> validNonce (bu_Nonce b) \<or> \<not> bundle_advances previous b \<or>
         \<not> bundle_fresh c now b \<or> bu_AssignmentDocument b = [] \<or> \<not> json_valid lib (bu_AssignmentDocument b)
      then Inl (RefreshError ''invalid or stale assignment bundle'')
      else if \<not> equal_fold (bu_ContentSHA256 b) (BodyHash (al_crypto lib) (bu_AssignmentDocument b))
      then Inl (RefreshError ''assignment content hash mismatch'')
      else if CanonicalPayload lib b = None then Inl (RefreshError ''invalid assignment signature payload'')
      else if \<not> bundle_signed lib c b then Inl (RefreshError ''assignment signature verification failed'')
      else case Parse (al_document lib) (bu_AssignmentDocument b) (cl_clusterRef c) of
        Inl _ \<Rightarrow> Inl (RefreshError ''assignment document is invalid'')
      | Inr d \<Rightarrow>
          if instant (ad_IssuedAt d) \<noteq> instant (bu_IssuedAt b)
          then Inl (RefreshError ''assignment document does not match signed bundle'')
          else Inr \<lparr>rf_Document = d, rf_DocumentRaw = bu_AssignmentDocument b,
                 rf_State = \<lparr>an_Revision = bu_Revision b, an_Cursor = bu_Cursor b\<rparr>,
                 rf_IssuedAt = bu_IssuedAt b, rf_ExpiresAt = bu_ExpiresAt b\<rparr>)"

subsection \<open>One exchange\<close>

text \<open>\<open>url.QueryEscape\<close>, and \<open>Values.Encode\<close> of values whose keys are given in sorted order.\<close>

definition query_byte :: "char \<Rightarrow> string" where
  "query_byte c =
     (if is_alnum c \<or> c \<in> set ''-_.~'' then [c]
      else if c = CHR '' '' then ''+''
      else CHR ''%'' # map (\<lambda>d. if is_lower d then to_upper_char d else d) (hex_encode [of_nat (code_of c)]))"

definition QueryEscape :: "string \<Rightarrow> string" where
  "QueryEscape s = concat (map query_byte s)"

fun encode_query :: "(string \<times> string) list \<Rightarrow> string" where
  "encode_query [] = []"
| "encode_query [(k, v)] = QueryEscape k @ ''='' @ QueryEscape v"
| "encode_query ((k, v) # kvs) = QueryEscape k @ ''='' @ QueryEscape v @ ''&'' @ encode_query kvs"

definition refresh_query :: "asn_client \<Rightarrow> asn_state \<Rightarrow> string" where
  "refresh_query c previous =
     (let revision = dec (unat (an_Revision previous)) in
      encode_query
        [(''afterRevision'', revision), (''agentRef'', cl_agentRef c), (''clusterRef'', cl_clusterRef c),
         (''cursor'', an_Cursor previous), (''deviceId'', cl_deviceID c), (''version'', revision),
         (''wait'', dec_int (cl_wait c div second))])"

definition refresh_request :: "asn_client \<Rightarrow> asn_state \<Rightarrow> request" where
  "refresh_request c previous =
     \<lparr>rq_Method = ''GET'', rq_EscapedPath = u_EscapedPath (cl_endpoint c), rq_RawQuery = refresh_query c previous,
      rq_Header = (\<lambda>_. [])(''Accept'' := ''application/json'')\<rparr>"

datatype refresh_exchange = RefreshFailed | RefreshReadFailed | RefreshAnswer int string bytes

text \<open>\<open>Refresh\<close> with the request it sent, if any; \<open>rnd\<close> are the random bytes of its nonce.\<close>

definition read_answer :: "asn_lib \<Rightarrow> asn_client \<Rightarrow> gotime \<Rightarrow> asn_state \<Rightarrow> refresh_exchange \<Rightarrow> refresh_error + refreshed" where
  "read_answer lib c clock previous x =
     (case x of
        RefreshFailed \<Rightarrow> Inl (RefreshError ''assignment request failed'')
      | RefreshReadFailed \<Rightarrow> Inl (RefreshError ''read assignment response'')
      | RefreshAnswer status contentType full \<Rightarrow>
          let body = take (Suc asn_MaxResponseBytes) full in
          if length body > asn_MaxResponseBytes then Inl (RefreshError ''assignment response exceeds maximum size'')
          else if status = 204 \<or> status = 304 then Inl NoChange
          else if status < 200 \<or> status \<ge> 300 then Inl (RefreshError ''assignment service returned HTTP'')
          else if \<not> isJSON contentType then Inl (RefreshError ''assignment response must be application/json'')
          else if \<not> al_unique_keys lib body then Inl (RefreshError ''assignment response is not strict JSON'')
          else case al_bundle lib body of
            None \<Rightarrow> Inl (RefreshError ''assignment response is not a valid JSON object'')
          | Some b \<Rightarrow> verify_bundle lib c clock b previous)"

definition Refresh :: "asn_lib \<Rightarrow> asn_client \<Rightarrow> gotime \<Rightarrow> gotime \<Rightarrow> 8 word list option \<Rightarrow> asn_state \<Rightarrow> refresh_exchange \<Rightarrow>
    (refresh_error + refreshed) \<times> request option" where
  "Refresh lib c signed_at clock rnd previous x =
     (if an_Cursor previous \<noteq> [] \<and> \<not> safeRef (an_Cursor previous)
      then (Inl (RefreshError ''invalid previous assignment cursor''), None)
      else case SignRequest (al_crypto lib) (refresh_request c previous) [] (cl_keyID c) (cl_secret c) signed_at [] rnd of
        Inl _ \<Rightarrow> (Inl (RefreshError ''sign assignment request''), None)
      | Inr r \<Rightarrow> (read_answer lib c clock previous x, Some r))"

subsection \<open>What an accepted document has passed\<close>

definition authentic :: "asn_lib \<Rightarrow> asn_client \<Rightarrow> asn_bundle \<Rightarrow> bool" where
  "authentic lib c b \<longleftrightarrow> bundle_addressed c b \<and> bundle_signed lib c b"

lemma verify_bundle_ok:
  assumes "verify_bundle lib c clock b previous = Inr r"
  shows "authentic lib c b" "bundle_fresh c (to_utc clock) b" "bundle_advances previous b"
    "equal_fold (bu_ContentSHA256 b) (BodyHash (al_crypto lib) (rf_DocumentRaw r))"
    "Parse (al_document lib) (rf_DocumentRaw r) (cl_clusterRef c) = Inr (rf_Document r)"
    "rf_State r = \<lparr>an_Revision = bu_Revision b, an_Cursor = bu_Cursor b\<rparr>" "safeRef (bu_Cursor b)"
    "instant (ad_IssuedAt (rf_Document r)) = instant (bu_IssuedAt b)" "rf_DocumentRaw r = bu_AssignmentDocument b"
  using assms by (auto simp: verify_bundle_def authentic_def Let_def split: if_splits sum.splits)

lemma Refresh_ok:
  assumes "fst (Refresh lib c signed_at clock rnd previous x) = Inr r"
  obtains status contentType body b where "x = RefreshAnswer status contentType body" "200 \<le> status" "status < 300"
    "al_bundle lib body = Some b" "verify_bundle lib c clock b previous = Inr r"
  using assms
  by (auto simp: Refresh_def read_answer_def Let_def split: if_splits sum.splits refresh_exchange.splits option.splits)

end
