(* ===== verification/Assignment_Authority.thy ===== *)
theory Assignment_Authority
  imports Assignment_Refresh
begin

section \<open>The durable assignment authority (\<open>internal/assignment/state.go\<close>)\<close>

text \<open>
  One file holds either the cursor of a legacy binding (version 1) or the whole authority
  (version 2): revision, cursor, the scope of the binding, the document and its hash.  A file is
  absent, unreadable, no strict JSON, or the decoded value with the size of its text.

  \<open>json.Marshal\<close> does not copy a raw message: it compacts it and escapes characters that are
  special in HTML.  This is \<open>json_compact\<close>, so the document that is stored may differ from the document
  that was hashed.
\<close>

subsection \<open>Compaction of raw JSON\<close>

definition json_space :: "char \<Rightarrow> bool" where
  "json_space c \<longleftrightarrow> code_of c \<in> set [32, 9, 13, 10]"

definition html_special :: "char \<Rightarrow> bool" where
  "html_special c \<longleftrightarrow> c \<in> set ''<>&''"

text \<open>The UTF-8 encodings of U+2028 and U+2029.\<close>

definition line_separator :: "char \<Rightarrow> char \<Rightarrow> char \<Rightarrow> bool" where
  "line_separator a b c \<longleftrightarrow> code_of a = 226 \<and> code_of b = 128 \<and> (code_of c = 168 \<or> code_of c = 169)"

definition unicode_escape :: "string \<Rightarrow> string" where
  "unicode_escape digits = CHR 0x5C # CHR ''u'' # digits"

text \<open>
  The scanner of \<open>encoding/json\<close> on a valid text, reduced to what \<open>compact\<close> uses of it: whether the
  next byte belongs to a string, and whether it is escaped there.
\<close>

definition json_quoted :: "bool \<Rightarrow> bool \<Rightarrow> char \<Rightarrow> bool" where
  "json_quoted quoted escaped c \<longleftrightarrow> (if quoted then escaped \<or> code_of c \<noteq> 34 else code_of c = 34)"

definition json_escaped :: "bool \<Rightarrow> bool \<Rightarrow> char \<Rightarrow> bool" where
  "json_escaped quoted escaped c \<longleftrightarrow> quoted \<and> \<not> escaped \<and> c = CHR 0x5C"

definition json_byte :: "bool \<Rightarrow> char \<Rightarrow> bytes" where
  "json_byte quoted c =
     (if html_special c then unicode_escape (''00'' @ [hex_digit (code_of c div 16), hex_digit (code_of c mod 16)])
      else if \<not> quoted \<and> json_space c then [] else [c])"

fun json_compact :: "bool \<Rightarrow> bool \<Rightarrow> bytes \<Rightarrow> bytes" where
  "json_compact quoted escaped [] = []"
| "json_compact quoted escaped (a # b # c # s) =
     (if line_separator a b c
      then unicode_escape (''202'' @ [hex_digit (code_of c mod 16)]) @ json_compact quoted False s
      else json_byte quoted a @ json_compact (json_quoted quoted escaped a) (json_escaped quoted escaped a) (b # c # s))"
| "json_compact quoted escaped (a # s) =
     json_byte quoted a @ json_compact (json_quoted quoted escaped a) (json_escaped quoted escaped a) s"

definition compact_json :: "bytes \<Rightarrow> bytes" where
  "compact_json = json_compact False False"

subsection \<open>Data\<close>

definition durableStateVersion :: int where
  "durableStateVersion = 1"

definition durableAuthorityVersion :: int where
  "durableAuthorityVersion = 2"

definition maxDurableAuthoritySize :: nat where
  "maxDurableAuthoritySize = asn_MaxResponseBytes + 64 * 2 ^ 10"

record durable_state =
  ds_Version :: int
  ds_Revision :: u64
  ds_Cursor :: string

record durable_authority =
  da_Version :: int
  da_BindingID :: string
  da_DeviceID :: string
  da_CredentialEpoch :: u64
  da_Revision :: u64
  da_Cursor :: string
  da_ContentSHA256 :: string
  da_AssignmentDocument :: bytes

record authority_scope =
  sp_BindingID :: string
  sp_DeviceID :: string
  sp_CredentialEpoch :: u64

record authority =
  au_State :: asn_state
  au_Document :: assignments
  au_DocumentRaw :: bytes
  au_Present :: bool

datatype refresh_doc = NotStrict | StateDoc durable_state | AuthorityDoc durable_authority

datatype refresh_file = NoFile | Unreadable | Stored nat refresh_doc

text \<open>\<open>ah_size\<close> is the length of the text \<open>json.Marshal\<close> prints.\<close>

record authority_lib = asn_lib +
  ah_size :: "refresh_doc \<Rightarrow> nat"

definition no_document :: assignments where
  "no_document = \<lparr>ad_SchemaVersion = 0, ad_Revision = [], ad_IssuedAt = zero_time, ad_AllowedActions = None,
     ad_Assignments = []\<rparr>"

definition no_authority :: authority where
  "no_authority = \<lparr>au_State = \<lparr>an_Revision = 0, an_Cursor = []\<rparr>, au_Document = no_document, au_DocumentRaw = [],
     au_Present = False\<rparr>"

subsection \<open>Reading\<close>

definition authority_fields_ok :: "durable_authority \<Rightarrow> bool" where
  "authority_fields_ok v \<longleftrightarrow>
     da_Version v = durableAuthorityVersion \<and> uuidValue (da_BindingID v) \<and> safeRef (da_DeviceID v) \<and>
     da_CredentialEpoch v \<noteq> 0 \<and> da_Revision v \<noteq> 0 \<and> safeRef (da_Cursor v) \<and> da_AssignmentDocument v \<noteq> [] \<and>
     length (da_ContentSHA256 v) = 64 \<and> isLowerHex (da_ContentSHA256 v)"

definition scope_matches :: "authority_scope option \<Rightarrow> durable_authority \<Rightarrow> bool" where
  "scope_matches expected v \<longleftrightarrow>
     (case expected of
        None \<Rightarrow> True
      | Some p \<Rightarrow> sp_BindingID p = da_BindingID v \<and> sp_DeviceID p = da_DeviceID v \<and>
          sp_CredentialEpoch p = da_CredentialEpoch v)"

definition decodeAuthority :: "authority_lib \<Rightarrow> durable_authority \<Rightarrow> string \<Rightarrow> authority_scope option \<Rightarrow> string + authority" where
  "decodeAuthority lib v cluster expected =
     (if \<not> authority_fields_ok v then Inl ''assignment refresh authority is invalid''
      else if \<not> scope_matches expected v then Inl ''assignment refresh authority binding scope mismatch''
      else if da_ContentSHA256 v \<noteq> BodyHash (al_crypto (asn_lib.truncate lib)) (da_AssignmentDocument v)
      then Inl ''assignment refresh authority content hash mismatch''
      else case Parse (al_document lib) (da_AssignmentDocument v) cluster of
        Inl _ \<Rightarrow> Inl ''assignment refresh authority document is invalid''
      | Inr d \<Rightarrow>
          if ad_AllowedActions d = None then Inl ''assignment refresh authority document is invalid''
          else Inr \<lparr>au_State = \<lparr>an_Revision = da_Revision v, an_Cursor = da_Cursor v\<rparr>, au_Document = d,
                 au_DocumentRaw = da_AssignmentDocument v, au_Present = True\<rparr>)"

definition decode_state :: "durable_state \<Rightarrow> string + authority" where
  "decode_state v =
     (if ds_Version v \<noteq> durableStateVersion \<or> ds_Revision v = 0 \<or> \<not> safeRef (ds_Cursor v)
      then Inl ''assignment refresh state is invalid''
      else Inr (no_authority\<lparr>au_State := \<lparr>an_Revision = ds_Revision v, an_Cursor = ds_Cursor v\<rparr>\<rparr>))"

text \<open>
  The version in the header selects the decoder.  A cursor file that claims version 2 lacks the fields
  of an authority, and an authority that claims another version has fields the other decoder does not know.
\<close>

definition LoadAuthority :: "authority_lib \<Rightarrow> refresh_file \<Rightarrow> string \<Rightarrow> authority_scope option \<Rightarrow> string + authority" where
  "LoadAuthority lib f cluster expected =
     (case f of
        NoFile \<Rightarrow> Inr no_authority
      | Unreadable \<Rightarrow> Inl ''read assignment refresh state''
      | Stored n doc \<Rightarrow>
          if n > maxDurableAuthoritySize then Inl ''assignment refresh state exceeds maximum size''
          else (case doc of
             NotStrict \<Rightarrow> Inl ''assignment refresh state is invalid''
           | AuthorityDoc v \<Rightarrow>
               if da_Version v = durableAuthorityVersion then decodeAuthority lib v cluster expected
               else if n > 4096 then Inl ''assignment refresh state exceeds maximum size''
               else Inl ''assignment refresh state is invalid''
           | StateDoc v \<Rightarrow>
               if ds_Version v = durableAuthorityVersion then Inl ''assignment refresh authority is invalid''
               else if n > 4096 then Inl ''assignment refresh state exceeds maximum size''
               else decode_state v))"

definition LoadState :: "authority_lib \<Rightarrow> refresh_file \<Rightarrow> string + asn_state" where
  "LoadState lib f = (case LoadAuthority lib f [] None of Inl e \<Rightarrow> Inl e | Inr a \<Rightarrow> Inr (au_State a))"

subsection \<open>Writing\<close>

text \<open>The file has one byte more than the encoded value, its final newline.\<close>

fun write_refresh :: "authority_lib \<Rightarrow> io \<Rightarrow> refresh_doc \<Rightarrow> refresh_file \<Rightarrow> string option \<times> refresh_file" where
  "write_refresh lib IoOk v f = (None, Stored (Suc (ah_size lib v)) v)"
| "write_refresh lib IoFail v f = (Some ''write failed'', f)"
| "write_refresh lib IoLate v f = (Some ''write failed'', Stored (Suc (ah_size lib v)) v)"

definition SaveState :: "authority_lib \<Rightarrow> bool \<Rightarrow> io \<Rightarrow> asn_state \<Rightarrow> refresh_file \<Rightarrow> string option \<times> refresh_file" where
  "SaveState lib directory_ok oc st f =
     (if an_Revision st = 0 \<or> \<not> safeRef (an_Cursor st) then (Some ''assignment refresh state is invalid'', f)
      else if \<not> directory_ok then (Some ''private directory'', f)
      else write_refresh lib oc
             (StateDoc \<lparr>ds_Version = durableStateVersion, ds_Revision = an_Revision st, ds_Cursor = an_Cursor st\<rparr>) f)"

definition authority_record :: "authority_lib \<Rightarrow> asn_state \<Rightarrow> bytes \<Rightarrow> authority_scope \<Rightarrow> durable_authority" where
  "authority_record lib st raw p =
     \<lparr>da_Version = durableAuthorityVersion, da_BindingID = sp_BindingID p, da_DeviceID = sp_DeviceID p,
      da_CredentialEpoch = sp_CredentialEpoch p, da_Revision = an_Revision st, da_Cursor = an_Cursor st,
      da_ContentSHA256 = BodyHash (al_crypto (asn_lib.truncate lib)) raw, da_AssignmentDocument = compact_json raw\<rparr>"

definition scope_ok :: "authority_scope \<Rightarrow> bool" where
  "scope_ok p \<longleftrightarrow> uuidValue (sp_BindingID p) \<and> safeRef (sp_DeviceID p) \<and> sp_CredentialEpoch p \<noteq> 0"

definition SaveAuthority :: "authority_lib \<Rightarrow> bool \<Rightarrow> io \<Rightarrow> asn_state \<Rightarrow> bytes \<Rightarrow> string \<Rightarrow> authority_scope \<Rightarrow> refresh_file \<Rightarrow>
    string option \<times> refresh_file" where
  "SaveAuthority lib directory_ok oc st raw cluster p f =
     (if an_Revision st = 0 \<or> \<not> safeRef (an_Cursor st) \<or> \<not> scope_ok p
      then (Some ''assignment refresh authority state is invalid'', f)
      else case Parse (al_document lib) raw cluster of
        Inl _ \<Rightarrow> (Some ''assignment refresh authority document is invalid'', f)
      | Inr d \<Rightarrow>
          if ad_AllowedActions d = None then (Some ''assignment refresh authority document is invalid'', f)
          else if \<not> directory_ok then (Some ''private directory'', f)
          else let v = AuthorityDoc (authority_record lib st raw p) in
               if ah_size lib v > maxDurableAuthoritySize
               then (Some ''assignment refresh authority exceeds maximum size'', f)
               else write_refresh lib oc v f)"

end
