(* ===== verification/Assignment_Agent.thy ===== *)
theory Assignment_Agent
  imports Assignment_Authority Service_Guarantees
begin

section \<open>The assignment authority in force (\<open>internal/agent/agent.go\<close>)\<close>

text \<open>
  Start-up loads the authority and hands it to the control service; the refresh loop replaces it.
  The model keeps what the two functions read and write: the state file, the compatibility file, the
  state of the client, the shared inventory and the control service, when one is configured.  The
  inventory is shared by pointer, so an assignment to it is seen by the service.
\<close>

subsection \<open>State\<close>

datatype raw_file = RawMissing | RawUnreadable | RawBytes bytes

record asn_files =
  fl_refresh :: refresh_file
  fl_compat :: raw_file

record asn_app =
  ap_state :: asn_state
  ap_dynamic :: bool
  ap_store :: asn_store
  ap_control :: "service option"

text \<open>The configuration of the process: \<open>gc_client\<close> is nil when no refresh URL is configured.\<close>

record asn_setup =
  gc_cluster :: string
  gc_mode :: string
  gc_actions :: "string list"
  gc_scope :: authority_scope
  gc_client :: "asn_client option"
  gc_control :: "service_config option"

subsection \<open>The compatibility file\<close>

text \<open>\<open>bindstate.WriteAssignment\<close>.\<close>

definition WriteAssignment :: "authority_lib \<Rightarrow> io \<Rightarrow> bytes \<Rightarrow> raw_file \<Rightarrow> bool \<times> raw_file" where
  "WriteAssignment lib oc document f =
     (if document = [] \<or> length document > MaxResponseBytes \<or> \<not> json_valid lib document then (False, f)
      else case oc of
        IoOk \<Rightarrow> (True, RawBytes (document @ newline))
      | IoFail \<Rightarrow> (False, f)
      | IoLate \<Rightarrow> (False, RawBytes (document @ newline)))"

text \<open>\<open>inventory.LoadFile\<close>; \<open>Inl True\<close> is an error that is \<open>fs.ErrNotExist\<close>.\<close>

definition LoadFile :: "authority_lib \<Rightarrow> raw_file \<Rightarrow> string \<Rightarrow> bool + assignments" where
  "LoadFile lib f cluster =
     (case f of
        RawMissing \<Rightarrow> Inl True
      | RawUnreadable \<Rightarrow> Inl False
      | RawBytes contents \<Rightarrow>
          (case Parse (al_document lib) (take (Suc maxFileBytes) contents) cluster of Inl _ \<Rightarrow> Inl False | Inr d \<Rightarrow> Inr d))"

definition empty_test_document :: "gotime \<Rightarrow> assignments" where
  "empty_test_document now =
     \<lparr>ad_SchemaVersion = inv_SchemaVersion, ad_Revision = ''empty-test'', ad_IssuedAt = to_utc now,
      ad_AllowedActions = None, ad_Assignments = []\<rparr>"

definition loadAssignments :: "authority_lib \<Rightarrow> asn_setup \<Rightarrow> gotime \<Rightarrow> raw_file \<Rightarrow> string + asn_store" where
  "loadAssignments lib g now f =
     (case LoadFile lib f (gc_cluster g) of
        Inr d \<Rightarrow> Inr (Replace d)
      | Inl missing \<Rightarrow>
          if gc_mode g = ''production'' \<or> \<not> missing then Inl ''load assignments''
          else Inr (Replace (empty_test_document now)))"

subsection \<open>Start-up\<close>

definition expected_scope :: "asn_setup \<Rightarrow> authority_scope option" where
  "expected_scope g =
     (let p = gc_scope g in
      if sp_BindingID p \<noteq> [] \<and> sp_DeviceID p \<noteq> [] \<and> sp_CredentialEpoch p \<noteq> 0 then Some p else None)"

text \<open>The inventory and the effective actions of a start.\<close>

definition start_inventory :: "authority_lib \<Rightarrow> asn_setup \<Rightarrow> gotime \<Rightarrow> asn_files \<Rightarrow> authority \<Rightarrow> string + asn_store \<times> string list" where
  "start_inventory lib g now fs a =
     (if au_Present a then
        (let actions = (case ad_AllowedActions (au_Document a) of None \<Rightarrow> [] | Some as \<Rightarrow> as) in
         if \<not> validateAllowedActions actions True then Inl ''load assignment allowed actions''
         else Inr (Replace (au_Document a), actions))
      else case loadAssignments lib g now (fl_compat fs) of
        Inl e \<Rightarrow> Inl e
      | Inr st \<Rightarrow> Inr (st, gc_actions g))"

text \<open>\<open>s\<close> carries the files of the service (journal, cursor) over the start; \<open>ios\<close> are the outcomes of reading its cursor.\<close>

definition start_control :: "asn_setup \<Rightarrow> bool \<Rightarrow> u64 \<Rightarrow> string list \<Rightarrow> asn_store \<Rightarrow> io list \<Rightarrow> service \<Rightarrow> string + service option" where
  "start_control g dynamic revision actions st ios s =
     (case gc_control g of
        None \<Rightarrow> Inr None
      | Some cfg \<Rightarrow>
          (case NewService cfg dynamic actions st ios (s\<lparr>sv_external_revision := revision\<rparr>) of
             (Some e, _) \<Rightarrow> Inl ''create control service''
           | (None, s') \<Rightarrow> Inr (Some s')))"

definition start_app :: "authority_lib \<Rightarrow> asn_setup \<Rightarrow> gotime \<Rightarrow> io list \<Rightarrow> service \<Rightarrow> asn_files \<Rightarrow> string + asn_app" where
  "start_app lib g now ios s fs =
     (case LoadAuthority lib (fl_refresh fs) (gc_cluster g) (expected_scope g) of
        Inl e \<Rightarrow> Inl e
      | Inr a \<Rightarrow>
          (case start_inventory lib g now fs a of
             Inl e \<Rightarrow> Inl e
           | Inr (st, actions) \<Rightarrow>
               (case start_control g (au_Present a) (an_Revision (au_State a)) actions st ios s of
                  Inl e \<Rightarrow> Inl e
                | Inr control \<Rightarrow>
                    Inr \<lparr>ap_state = au_State a, ap_dynamic = au_Present a, ap_store = st, ap_control = control\<rparr>)))"

subsection \<open>Refresh\<close>

text \<open>What one refresh meets: its clocks, random bytes, the answer, and the outcomes of its writes.\<close>

record refresh_env =
  re_signed_at :: gotime
  re_clock :: gotime
  re_random :: "8 word list option"
  re_exchange :: refresh_exchange
  re_directory :: bool
  re_authority_io :: io
  re_compat_io :: io

text \<open>\<open>a.assignments.Replace\<close> through the shared pointer.\<close>

definition replace_shared :: "assignments \<Rightarrow> asn_app \<Rightarrow> asn_app" where
  "replace_shared d a =
     a\<lparr>ap_store := Replace d, ap_control := map_option (\<lambda>s. s\<lparr>sv_assignments := Replace d\<rparr>) (ap_control a)\<rparr>"

text \<open>The new state of the client, which the service reads through \<open>currentAssignmentRevision\<close>.\<close>

definition commit_state :: "asn_state \<Rightarrow> bool \<Rightarrow> asn_app \<Rightarrow> asn_app" where
  "commit_state st dynamic a =
     a\<lparr>ap_state := st, ap_dynamic := dynamic,
       ap_control := map_option (\<lambda>s. s\<lparr>sv_external_revision := an_Revision st\<rparr>) (ap_control a)\<rparr>"

definition apply_authority :: "asn_setup \<Rightarrow> refreshed \<Rightarrow> string list \<Rightarrow> asn_app \<Rightarrow> bool \<times> asn_app" where
  "apply_authority g r actions a =
     (case (gc_control g, ap_control a) of
        (Some cfg, Some s) \<Rightarrow>
          (case ApplyAssignmentAuthority cfg (rf_Document r) (an_Revision (rf_State r)) actions s of
             (Some e, _) \<Rightarrow> (False, a)
           | (None, s') \<Rightarrow> (True, a\<lparr>ap_control := Some s', ap_store := sv_assignments s'\<rparr>))
      | _ \<Rightarrow> (True, replace_shared (rf_Document r) a))"

definition refresh_dynamic :: "authority_lib \<Rightarrow> asn_setup \<Rightarrow> refresh_env \<Rightarrow> refreshed \<Rightarrow> string list \<Rightarrow> asn_files \<Rightarrow> asn_app \<Rightarrow>
    (string + bool) \<times> asn_files \<times> asn_app" where
  "refresh_dynamic lib g e r actions fs a =
     (if \<not> validateAllowedActions actions True
      then (Inl ''validate refreshed assignment allowed actions'', fs, a)
      else case SaveAuthority lib (re_directory e) (re_authority_io e) (rf_State r) (rf_DocumentRaw r) (gc_cluster g)
                  (gc_scope g) (fl_refresh fs) of
        (Some _, f) \<Rightarrow> (Inl ''persist refreshed assignment authority'', fs\<lparr>fl_refresh := f\<rparr>, a)
      | (None, f) \<Rightarrow>
          let fs' = fs\<lparr>fl_refresh := f,
                      fl_compat := snd (WriteAssignment lib (re_compat_io e) (rf_DocumentRaw r) (fl_compat fs))\<rparr> in
          (case apply_authority g r actions a of
             (False, a') \<Rightarrow> (Inl ''apply refreshed assignment authority'', fs', a')
           | (True, a') \<Rightarrow> (Inr True, fs', commit_state (rf_State r) True a')))"

definition refresh_static :: "authority_lib \<Rightarrow> refresh_env \<Rightarrow> refreshed \<Rightarrow> asn_files \<Rightarrow> asn_app \<Rightarrow>
    (string + bool) \<times> asn_files \<times> asn_app" where
  "refresh_static lib e r fs a =
     (if ap_dynamic a then (Inl ''refreshed assignment authority omitted allowedActions'', fs, a)
      else case WriteAssignment lib (re_compat_io e) (rf_DocumentRaw r) (fl_compat fs) of
        (False, f) \<Rightarrow> (Inl ''persist refreshed assignments'', fs\<lparr>fl_compat := f\<rparr>, a)
      | (True, f) \<Rightarrow>
          (case SaveState lib (re_directory e) (re_authority_io e) (rf_State r) (fl_refresh fs) of
             (Some _, h) \<Rightarrow> (Inl ''persist assignment refresh cursor'', fs\<lparr>fl_compat := f, fl_refresh := h\<rparr>, a)
           | (None, h) \<Rightarrow>
               (Inr True, fs\<lparr>fl_compat := f, fl_refresh := h\<rparr>,
                commit_state (rf_State r) False (replace_shared (rf_Document r) a))))"

definition refreshAssignments :: "authority_lib \<Rightarrow> asn_setup \<Rightarrow> refresh_env \<Rightarrow> asn_files \<Rightarrow> asn_app \<Rightarrow>
    (string + bool) \<times> asn_files \<times> asn_app" where
  "refreshAssignments lib g e fs a =
     (case gc_client g of
        None \<Rightarrow> (Inr False, fs, a)
      | Some c \<Rightarrow>
          (case fst (Refresh (asn_lib.truncate lib) c (re_signed_at e) (re_clock e) (re_random e) (ap_state a) (re_exchange e)) of
             Inl NoChange \<Rightarrow> (Inr False, fs, a)
           | Inl (RefreshError m) \<Rightarrow> (Inl m, fs, a)
           | Inr r \<Rightarrow>
               (case ad_AllowedActions (rf_Document r) of
                  Some actions \<Rightarrow> refresh_dynamic lib g e r actions fs a
                | None \<Rightarrow> refresh_static lib e r fs a)))"

text \<open>One tick of \<open>assignmentLoop\<close> without a client.\<close>

definition reload_assignments :: "authority_lib \<Rightarrow> asn_setup \<Rightarrow> asn_files \<Rightarrow> asn_app \<Rightarrow> asn_app" where
  "reload_assignments lib g fs a =
     (case LoadFile lib (fl_compat fs) (gc_cluster g) of Inl _ \<Rightarrow> a | Inr d \<Rightarrow> replace_shared d a)"

end
