(* ===== verification/Assignment_Guarantees.thy ===== *)
theory Assignment_Guarantees
  imports Assignment_Agent
begin

section \<open>What the assignment authority guarantees\<close>

text \<open>
  Histories of the agent: refreshes with any answer and any failing write, the work of the control
  service under the authority in force, and restarts from the files.  At every moment the revision,
  the allowed actions and the inventory in force come from one document the website signed, and
  the revision never falls.  The round trip of the state file holds for compact documents only.
\<close>

subsection \<open>Histories\<close>

datatype agent_op = AServe svc_op | ARefresh refresh_env | AReload | AStart gotime "io list"

text \<open>\<open>gn_service\<close> is the control service as last seen: its files outlive the process.\<close>

record agent =
  gn_files :: asn_files
  gn_app :: "asn_app option"
  gn_service :: service

text \<open>The operations of the service that are not a change of its authority.\<close>

fun serves :: "svc_op \<Rightarrow> bool" where
  "serves (SPoll response ios) = True"
| "serves (SStart l) = True"
| "serves (SFinish l c we) = True"
| "serves (SReconcile re) = True"
| "serves y = False"

definition see_app :: "asn_app option \<Rightarrow> agent \<Rightarrow> agent" where
  "see_app ao st =
     st\<lparr>gn_app := ao,
        gn_service := (case ao of None \<Rightarrow> gn_service st | Some a \<Rightarrow>
                         (case ap_control a of None \<Rightarrow> gn_service st | Some s \<Rightarrow> s))\<rparr>"

definition serve :: "svc_context \<Rightarrow> svc_op \<Rightarrow> asn_app \<Rightarrow> asn_app" where
  "serve cx y a =
     (case ap_control a of
        None \<Rightarrow> a
      | Some s \<Rightarrow> if serves y then a\<lparr>ap_control := Some (snd (snd (snd (svc_step cx y (True, s)))))\<rparr> else a)"

definition start_agent :: "authority_lib \<Rightarrow> asn_setup \<Rightarrow> gotime \<Rightarrow> io list \<Rightarrow> agent \<Rightarrow> asn_app option" where
  "start_agent lib g now ios st =
     (case start_app lib g now ios (gn_service st) (gn_files st) of Inl _ \<Rightarrow> None | Inr a \<Rightarrow> Some a)"

fun agent_step :: "svc_context \<Rightarrow> authority_lib \<Rightarrow> asn_setup \<Rightarrow> agent_op \<Rightarrow> agent \<Rightarrow> agent" where
  "agent_step cx lib g (AServe y) st = see_app (map_option (serve cx y) (gn_app st)) st"
| "agent_step cx lib g (ARefresh e) st =
     (case gn_app st of
        None \<Rightarrow> st
      | Some a \<Rightarrow> (case refreshAssignments lib g e (gn_files st) a of
                     (_, fs, a') \<Rightarrow> see_app (Some a') (st\<lparr>gn_files := fs\<rparr>)))"
| "agent_step cx lib g AReload st =
     (if gc_client g = None then see_app (map_option (reload_assignments lib g (gn_files st)) (gn_app st)) st else st)"
| "agent_step cx lib g (AStart now ios) st = see_app (start_agent lib g now ios st) st"

fun agent_run :: "svc_context \<Rightarrow> authority_lib \<Rightarrow> asn_setup \<Rightarrow> agent_op list \<Rightarrow> agent \<Rightarrow> agent" where
  "agent_run cx lib g [] st = st"
| "agent_run cx lib g (y # ys) st = agent_run cx lib g ys (agent_step cx lib g y st)"

lemma see_app_simps [simp]:
  "gn_files (see_app ao st) = gn_files st" "gn_app (see_app ao st) = ao"
  by (simp_all add: see_app_def)

subsection \<open>Loading and saving\<close>

lemma write_refresh_file:
  "write_refresh lib oc v f = (err, f') \<Longrightarrow> f' = f \<or> f' = Stored (Suc (ah_size lib v)) v"
  by (cases oc) auto

lemma write_refresh_ok: "write_refresh lib oc v f = (None, f') \<Longrightarrow> f' = Stored (Suc (ah_size lib v)) v"
  by (cases oc) auto

lemma LoadAuthority_present:
  assumes "LoadAuthority lib f cluster p = Inr a" "au_Present a"
  obtains n v where "f = Stored n (AuthorityDoc v)" "scope_matches p v"
    "da_ContentSHA256 v = BodyHash (al_crypto (asn_lib.truncate lib)) (da_AssignmentDocument v)"
    "Parse (al_document lib) (da_AssignmentDocument v) cluster = Inr (au_Document a)"
    "ad_AllowedActions (au_Document a) \<noteq> None"
    "au_State a = \<lparr>an_Revision = da_Revision v, an_Cursor = da_Cursor v\<rparr>" "au_DocumentRaw a = da_AssignmentDocument v"
  using assms
  by (auto simp: LoadAuthority_def decode_state_def decodeAuthority_def no_authority_def
      split: refresh_file.splits refresh_doc.splits if_splits sum.splits)

lemma LoadAuthority_authority_file:
  assumes "LoadAuthority lib (Stored n (AuthorityDoc v)) cluster p = Inr a"
  shows "au_Present a \<and> an_Revision (au_State a) = da_Revision v"
  using assms
  by (auto simp: LoadAuthority_def decodeAuthority_def split: if_splits sum.splits)

lemma SaveAuthority_file:
  assumes "SaveAuthority lib dir oc st raw cluster p f = (err, f')"
  shows "f' = f \<or> f' = Stored (Suc (ah_size lib (AuthorityDoc (authority_record lib st raw p))))
      (AuthorityDoc (authority_record lib st raw p))"
    "err = None \<Longrightarrow> f' = Stored (Suc (ah_size lib (AuthorityDoc (authority_record lib st raw p))))
      (AuthorityDoc (authority_record lib st raw p))"
  using assms write_refresh_file write_refresh_ok
  by (auto simp: SaveAuthority_def Let_def split: if_splits sum.splits)

lemma SaveAuthority_ok:
  assumes "SaveAuthority lib dir oc st raw cluster p f = (None, f')"
  shows "an_Revision st \<noteq> 0 \<and> safeRef (an_Cursor st) \<and> scope_ok p \<and>
    ah_size lib (AuthorityDoc (authority_record lib st raw p)) \<le> maxDurableAuthoritySize \<and>
    (\<exists>d. Parse (al_document lib) raw cluster = Inr d \<and> ad_AllowedActions d \<noteq> None)"
  using assms by (auto simp: SaveAuthority_def Let_def split: if_splits sum.splits)

lemma SaveState_file:
  "SaveState lib dir oc st f = (err, f') \<Longrightarrow>
   f' = f \<or> (\<exists>n v. f' = Stored n (StateDoc v))"
  using write_refresh_file by (fastforce simp: SaveState_def split: if_splits)

subsection \<open>Signed authorities\<close>

text \<open>
  A document in the form it has now is backed by a signed bundle: an authentic bundle with this revision
  and cursor whose content hash is that of the bytes, which decode to the document.
\<close>

definition signed_authority :: "authority_lib \<Rightarrow> asn_client \<Rightarrow> asn_state \<Rightarrow> bytes \<Rightarrow> assignments \<Rightarrow> bool" where
  "signed_authority lib c st raw d \<longleftrightarrow>
     (\<exists>b. authentic (asn_lib.truncate lib) c b \<and> st = \<lparr>an_Revision = bu_Revision b, an_Cursor = bu_Cursor b\<rparr> \<and>
        equal_fold (bu_ContentSHA256 b) (BodyHash (al_crypto (asn_lib.truncate lib)) raw)) \<and>
     Parse (al_document lib) raw (cl_clusterRef c) = Inr d"

definition signed_file :: "authority_lib \<Rightarrow> asn_client \<Rightarrow> refresh_file \<Rightarrow> bool" where
  "signed_file lib c f \<longleftrightarrow>
     (\<forall>n v. f = Stored n (AuthorityDoc v) \<longrightarrow>
        (\<exists>b. authentic (asn_lib.truncate lib) c b \<and> da_Revision v = bu_Revision b \<and> da_Cursor v = bu_Cursor b \<and>
          equal_fold (bu_ContentSHA256 b) (da_ContentSHA256 v)))"

text \<open>What a service and the agent around it have in force.\<close>

definition in_force :: "asn_app \<Rightarrow> assignments \<Rightarrow> string list \<Rightarrow> bool" where
  "in_force a d actions \<longleftrightarrow>
     ap_store a = Replace d \<and> ad_AllowedActions d = Some actions \<and>
     (\<forall>s. ap_control a = Some s \<longrightarrow>
        sv_dynamic s \<and> sv_revision s = an_Revision (ap_state a) \<and> sv_allowed s = AllowedSet actions \<and>
        sv_assignments s = Replace d)"

definition app_ok :: "authority_lib \<Rightarrow> asn_client \<Rightarrow> asn_app \<Rightarrow> bool" where
  "app_ok lib c a \<longleftrightarrow>
     (if ap_dynamic a then \<exists>raw d actions. signed_authority lib c (ap_state a) raw d \<and> in_force a d actions
      else \<forall>s. ap_control a = Some s \<longrightarrow> \<not> sv_dynamic s)"

definition agent_ok :: "authority_lib \<Rightarrow> asn_client \<Rightarrow> agent \<Rightarrow> bool" where
  "agent_ok lib c st \<longleftrightarrow>
     signed_file lib c (fl_refresh (gn_files st)) \<and> (\<forall>a. gn_app st = Some a \<longrightarrow> app_ok lib c a)"

text \<open>The agent is set up for one website: its client, its service and its files name one cluster.\<close>

definition one_cluster :: "asn_setup \<Rightarrow> asn_client \<Rightarrow> svc_context \<Rightarrow> bool" where
  "one_cluster g c cx \<longleftrightarrow>
     gc_client g = Some c \<and> cl_clusterRef c = gc_cluster g \<and>
     (\<forall>cfg. gc_control g = Some cfg \<longrightarrow> cfg = cx_config cx \<and> sc_ClusterRef cfg = gc_cluster g \<and> sc_AssignmentRevision cfg)"

lemma verified_signed:
  assumes "verify_bundle (asn_lib.truncate lib) c clock b previous = Inr r"
  shows "signed_authority lib c (rf_State r) (rf_DocumentRaw r) (rf_Document r)"
  using verify_bundle_ok [OF assms] by (auto simp: signed_authority_def asn_lib.defs)

lemma saved_signed:
  assumes "verify_bundle (asn_lib.truncate lib) c clock b previous = Inr r"
    and "signed_file lib c f" "SaveAuthority lib dir oc (rf_State r) (rf_DocumentRaw r) cluster p f = (err, f')"
  shows "signed_file lib c f'"
  using SaveAuthority_file(1) [OF assms(3)] assms(2) verify_bundle_ok [OF assms(1)]
  by (auto simp: signed_file_def authority_record_def)

lemma loaded_signed:
  assumes "signed_file lib c f" "LoadAuthority lib f (cl_clusterRef c) p = Inr a" "au_Present a"
  shows "signed_authority lib c (au_State a) (au_DocumentRaw a) (au_Document a)"
  using LoadAuthority_present [OF assms(2,3)] assms(1) unfolding signed_file_def signed_authority_def by metis

subsection \<open>Every step keeps the authority signed\<close>

definition authority_of :: "service \<Rightarrow> u64 \<times> u64 \<times> bool \<times> (string \<Rightarrow> bool) \<times> asn_store" where
  "authority_of s = (sv_external_revision s, sv_revision s, sv_dynamic s, sv_allowed s, sv_assignments s)"

lemma same_authority_of: "same_authority s s' \<Longrightarrow> authority_of s' = authority_of s"
  by (simp add: same_authority_def authority_of_def)

lemma saveCursor_authority: "saveCursor ios cursor s = (err, s') \<Longrightarrow> authority_of s' = authority_of s"
  by (auto simp: saveCursor_def Let_def authority_of_def split: if_splits prod.splits io.splits)

lemma PollOnce_authority:
  fixes cx :: svc_context
  assumes "PollOnce (cx_env cx) (cx_validParameters cx) (cx_config cx) response ios s = (err, xs, s')"
  shows "authority_of s' = authority_of s"
  using PollOnce_cases [OF assms] saveCursor_authority same_authority_of by (fastforce simp: polls_def)

lemma keeps_authority: "keeps env s s' \<Longrightarrow> authority_of s' = authority_of s"
  by (simp add: keeps_def same_authority_of)

lemma dispatcher_authority [simp]: "authority_of (s\<lparr>sv_dispatcher := d\<rparr>) = authority_of s"
  by (simp add: authority_of_def)

lemma svc_step_authority:
  assumes "serves y"
  shows "authority_of (snd (snd (snd (svc_step cx y (True, s))))) = authority_of s"
  using assms
proof (cases y)
  case (SPoll response ios)
  then show ?thesis using PollOnce_authority by (auto split: prod.splits)
next
  case (SFinish l c we)
  then show ?thesis using keeps_authority [OF executeDispatched_keeps] by (simp add: Let_def)
next
  case (SReconcile re)
  obtain err s' where "ReconcileOnce (cx_env cx) (cx_deletedResult cx) (cx_config cx) re s = (err, s')" by fastforce
  then show ?thesis using keeps_authority [OF ReconcileOnce_keeps] SReconcile by simp
qed (auto split: option.splits prod.splits)

lemma serve_fields [simp]:
  "ap_state (serve cx y a) = ap_state a" "ap_dynamic (serve cx y a) = ap_dynamic a" "ap_store (serve cx y a) = ap_store a"
  by (auto simp: serve_def split: option.splits)

lemma serve_authority:
  assumes "ap_control (serve cx y a) = Some s'"
  obtains s where "ap_control a = Some s" "authority_of s' = authority_of s"
  using assms svc_step_authority by (auto simp: serve_def split: option.splits if_splits)

lemma serve_fields_of:
  assumes "ap_control (serve cx y a) = Some s'"
  obtains s where "ap_control a = Some s" "sv_dynamic s' = sv_dynamic s" "sv_revision s' = sv_revision s"
    "sv_allowed s' = sv_allowed s" "sv_assignments s' = sv_assignments s"
  using serve_authority [OF assms] by (auto simp: authority_of_def)

lemma serve_in_force: "in_force a d actions \<Longrightarrow> in_force (serve cx y a) d actions"
  unfolding in_force_def by (auto elim: serve_fields_of)

lemma serve_static:
  "\<forall>s. ap_control a = Some s \<longrightarrow> \<not> sv_dynamic s \<Longrightarrow> \<forall>s. ap_control (serve cx y a) = Some s \<longrightarrow> \<not> sv_dynamic s"
  by (auto elim: serve_fields_of)

lemma serve_ok:
  assumes "app_ok lib c a"
  shows "app_ok lib c (serve cx y a)"
proof (cases "ap_dynamic a")
  case True
  then obtain raw d actions where "signed_authority lib c (ap_state a) raw d" "in_force a d actions"
    using assms unfolding app_ok_def by auto
  then show ?thesis using True serve_in_force [of a d actions cx y] unfolding app_ok_def serve_fields by auto
next
  case False
  then show ?thesis using assms serve_static [of a cx y] by (simp only: app_ok_def serve_fields if_False)
qed

lemma ApplyAssignmentAuthority_ok:
  assumes "ApplyAssignmentAuthority cfg d revision actions s = (None, s')"
  shows "s' = s\<lparr>sv_assignments := Replace d, sv_allowed := AllowedSet actions, sv_revision := revision, sv_dynamic := True\<rparr>"
  using assms unfolding ApplyAssignmentAuthority_def
  by (simp only: split: if_split_asm) simp_all

lemma apply_authority_in_force:
  assumes "apply_authority g r actions a = (ok, a')" "ad_AllowedActions (rf_Document r) = Some actions"
    and "gc_control g = None \<longrightarrow> ap_control a = None"
  shows "if ok then in_force (commit_state (rf_State r) True a') (rf_Document r) actions else a' = a"
proof (cases "ap_control a")
  case None
  then show ?thesis using assms(1,2)
    by (auto simp: apply_authority_def in_force_def commit_state_def replace_shared_def split: option.splits)
next
  case (Some s)
  then obtain cfg where cfg: "gc_control g = Some cfg" using assms(3) by auto
  obtain err s' where ap: "ApplyAssignmentAuthority cfg (rf_Document r) (an_Revision (rf_State r)) actions s = (err, s')"
    by fastforce
  show ?thesis
  proof (cases err)
    case None
    then show ?thesis using assms(1,2) Some cfg ap ApplyAssignmentAuthority_ok [OF ap [unfolded None]]
      by (simp add: apply_authority_def in_force_def commit_state_def split: prod.splits)
        (auto simp: in_force_def commit_state_def)
  next
    case (Some e)
    then show ?thesis using assms(1) \<open>ap_control a = Some s\<close> cfg ap by (auto simp: apply_authority_def)
  qed
qed

lemma commit_state_fields [simp]:
  "ap_state (commit_state st dyn a) = st" "ap_dynamic (commit_state st dyn a) = dyn"
  by (simp_all add: commit_state_def)

lemma NewService_authority:
  assumes "NewService cfg dynamic actions st ios s = (None, s')"
  shows "sv_dynamic s' = dynamic \<and> sv_allowed s' = AllowedSet actions \<and> sv_assignments s' = st \<and>
    (sc_AssignmentRevision cfg \<longrightarrow> sv_revision s' = sv_external_revision s) \<and> sv_external_revision s' = sv_external_revision s"
  using assms by (auto simp: NewService_def Let_def loadCursor_def split: if_splits option.splits prod.splits)

lemma wired_control:
  "serve cx y a = a' \<Longrightarrow> ap_control a' = None \<longleftrightarrow> ap_control a = None"
  by (auto simp: serve_def split: option.splits)

text \<open>A service is present only when one is configured.\<close>

definition wired :: "asn_setup \<Rightarrow> agent \<Rightarrow> bool" where
  "wired g st \<longleftrightarrow> (\<forall>a. gn_app st = Some a \<longrightarrow> gc_control g = None \<longrightarrow> ap_control a = None)"

lemma apply_authority_control:
  "apply_authority g r actions a = (ok, a') \<Longrightarrow> ap_control a' = None \<longleftrightarrow> ap_control a = None"
  by (auto simp: apply_authority_def replace_shared_def split: option.splits prod.splits)

lemma apply_authority_dynamic:
  "apply_authority g r actions a = (ok, a') \<Longrightarrow> ap_dynamic a' = ap_dynamic a \<and> ap_state a' = ap_state a"
  by (auto simp: apply_authority_def replace_shared_def split: option.splits prod.splits)

lemma commit_control [simp]: "ap_control (commit_state st dyn a) = None \<longleftrightarrow> ap_control a = None"
  by (simp add: commit_state_def)

lemma replace_control [simp]: "ap_control (replace_shared d a) = None \<longleftrightarrow> ap_control a = None"
  by (simp add: replace_shared_def)

text \<open>The ways a refresh ends: nothing adopted, a signed authority adopted, or a legacy document adopted.\<close>

lemma refresh_dynamic_cases:
  assumes "refresh_dynamic lib g e r actions fs a = (res, fs', a')"
  shows "(a' = a \<and> fs' = fs) \<or>
    (\<exists>err f. SaveAuthority lib (re_directory e) (re_authority_io e) (rf_State r) (rf_DocumentRaw r) (gc_cluster g)
        (gc_scope g) (fl_refresh fs) = (err, f) \<and> fl_refresh fs' = f \<and>
      (a' = a \<or> err = None \<and> (\<exists>a1. apply_authority g r actions a = (True, a1) \<and> a' = commit_state (rf_State r) True a1) \<or>
       err = None \<and> apply_authority g r actions a = (False, a')))"
  using assms unfolding refresh_dynamic_def Let_def
  by (auto split: if_split_asm prod.split_asm option.split_asm bool.split_asm)

lemma refresh_static_cases:
  assumes "refresh_static lib e r fs a = (res, fs', a')"
  shows "(a' = a \<and> fl_refresh fs' = fl_refresh fs) \<or>
    \<not> ap_dynamic a \<and> (\<exists>err f. SaveState lib (re_directory e) (re_authority_io e) (rf_State r) (fl_refresh fs) = (err, f) \<and>
      fl_refresh fs' = f \<and> (a' = a \<or> a' = commit_state (rf_State r) False (replace_shared (rf_Document r) a)))"
  using assms unfolding refresh_static_def
  by (auto split: if_split_asm prod.split_asm option.split_asm bool.split_asm)

lemma refreshAssignments_cases:
  assumes "refreshAssignments lib g e fs a = (res, fs', a')" "gc_client g = Some c"
  obtains "fs' = fs" "a' = a"
  | b r actions where "verify_bundle (asn_lib.truncate lib) c (re_clock e) b (ap_state a) = Inr r"
      "ad_AllowedActions (rf_Document r) = Some actions" "refresh_dynamic lib g e r actions fs a = (res, fs', a')"
  | b r where "verify_bundle (asn_lib.truncate lib) c (re_clock e) b (ap_state a) = Inr r"
      "ad_AllowedActions (rf_Document r) = None" "refresh_static lib e r fs a = (res, fs', a')"
proof (cases "fst (Refresh (asn_lib.truncate lib) c (re_signed_at e) (re_clock e) (re_random e) (ap_state a) (re_exchange e))")
  case (Inl m)
  then show ?thesis using assms that(1) by (cases m) (auto simp: refreshAssignments_def)
next
  case (Inr r)
  then obtain b where v: "verify_bundle (asn_lib.truncate lib) c (re_clock e) b (ap_state a) = Inr r"
    by (rule Refresh_ok)
  show ?thesis
  proof (cases "ad_AllowedActions (rf_Document r)")
    case None
    then show ?thesis using that(3) [OF v] assms Inr by (simp add: refreshAssignments_def)
  next
    case (Some actions)
    then show ?thesis using that(2) [OF v] assms Inr by (simp add: refreshAssignments_def)
  qed
qed

lemma adopted_ok:
  assumes "verify_bundle (asn_lib.truncate lib) c clock b previous = Inr r" "ad_AllowedActions (rf_Document r) = Some actions"
    and "apply_authority g r actions a = (True, a1)" "gc_control g = None \<longrightarrow> ap_control a = None"
  shows "app_ok lib c (commit_state (rf_State r) True a1)"
  using apply_authority_in_force [OF assms(3,2,4)] verified_signed [OF assms(1)] unfolding app_ok_def by auto

lemma static_ok:
  assumes "app_ok lib c a" "\<not> ap_dynamic a"
  shows "app_ok lib c (commit_state st False (replace_shared d a))"
  using assms by (auto simp: app_ok_def commit_state_def replace_shared_def)

lemma refresh_app_ok:
  assumes r: "refreshAssignments lib g e fs a = (res, fs', a')" and c: "gc_client g = Some c"
    and ok: "signed_file lib c (fl_refresh fs)" "app_ok lib c a" "gc_control g = None \<longrightarrow> ap_control a = None"
  shows "signed_file lib c (fl_refresh fs') \<and> app_ok lib c a' \<and> (ap_control a' = None \<longleftrightarrow> ap_control a = None)"
  using r c
proof (cases rule: refreshAssignments_cases)
  case 1
  then show ?thesis using ok by simp
next
  case (2 b r actions)
  from refresh_dynamic_cases [OF 2(3)] show ?thesis
  proof (elim disjE conjE exE)
    fix err f assume s: "SaveAuthority lib (re_directory e) (re_authority_io e) (rf_State r) (rf_DocumentRaw r) (gc_cluster g)
        (gc_scope g) (fl_refresh fs) = (err, f)" "fl_refresh fs' = f"
    note f = saved_signed [OF 2(1) ok(1) s(1)]
    { assume "a' = a" then show ?thesis using f s(2) ok by simp }
    { fix a1 assume a: "apply_authority g r actions a = (True, a1)" "a' = commit_state (rf_State r) True a1"
      then show ?thesis using f s(2) adopted_ok [OF 2(1,2) a(1) ok(3)] apply_authority_control [OF a(1)] by simp }
    { assume a: "apply_authority g r actions a = (False, a')"
      then show ?thesis using f s(2) ok apply_authority_in_force [OF a 2(2) ok(3)] by simp }
  qed (use ok in simp)
next
  case (3 b r)
  from refresh_static_cases [OF 3(3)] show ?thesis
  proof (elim disjE conjE exE)
    fix err f assume d: "\<not> ap_dynamic a" and s: "SaveState lib (re_directory e) (re_authority_io e) (rf_State r) (fl_refresh fs) = (err, f)"
      "fl_refresh fs' = f"
    have f: "signed_file lib c (fl_refresh fs')" using SaveState_file [OF s(1)] s(2) ok(1) by (auto simp: signed_file_def)
    { assume "a' = a" then show ?thesis using f ok by simp }
    { assume "a' = commit_state (rf_State r) False (replace_shared (rf_Document r) a)"
      then show ?thesis using f static_ok [OF ok(2) d] by simp }
  qed (use ok in simp)
qed

lemma start_inventory_present:
  assumes "start_inventory lib g now fs a = Inr (st, actions)" "au_Present a" "ad_AllowedActions (au_Document a) = Some as"
  shows "st = Replace (au_Document a) \<and> actions = as"
  using assms by (auto simp: start_inventory_def Let_def split: if_splits)

lemma start_control_authority:
  assumes "start_control g dyn revision actions st ios s = Inr (Some s')"
    and "\<And>cfg. gc_control g = Some cfg \<Longrightarrow> sc_AssignmentRevision cfg"
  shows "sv_dynamic s' = dyn \<and> sv_revision s' = revision \<and> sv_allowed s' = AllowedSet actions \<and> sv_assignments s' = st"
proof -
  obtain cfg where "gc_control g = Some cfg" "NewService cfg dyn actions st ios (s\<lparr>sv_external_revision := revision\<rparr>) = (None, s')"
    using assms(1) by (auto simp: start_control_def split: option.splits prod.splits)
  then show ?thesis using NewService_authority assms(2) by fastforce
qed

lemma start_app_cases:
  assumes "start_app lib g now ios s fs = Inr a'"
  obtains a st actions control where "LoadAuthority lib (fl_refresh fs) (gc_cluster g) (expected_scope g) = Inr a"
    "start_inventory lib g now fs a = Inr (st, actions)"
    "start_control g (au_Present a) (an_Revision (au_State a)) actions st ios s = Inr control"
    "a' = \<lparr>ap_state = au_State a, ap_dynamic = au_Present a, ap_store = st, ap_control = control\<rparr>"
  using assms by (auto simp: start_app_def split: sum.splits prod.splits)

lemma start_app_ok:
  assumes "start_app lib g now ios s fs = Inr a'" "one_cluster g c cx" "signed_file lib c (fl_refresh fs)"
  shows "app_ok lib c a' \<and> (gc_control g = None \<longrightarrow> ap_control a' = None)"
  using assms(1)
proof (cases rule: start_app_cases)
  case (1 a st actions control)
  have rev: "\<And>cfg. gc_control g = Some cfg \<Longrightarrow> sc_AssignmentRevision cfg"
    and cl: "cl_clusterRef c = gc_cluster g" using assms(2) by (auto simp: one_cluster_def)
  have control: "control = Some s' \<Longrightarrow> sv_dynamic s' = au_Present a \<and> sv_revision s' = an_Revision (au_State a) \<and>
      sv_allowed s' = AllowedSet actions \<and> sv_assignments s' = st" for s'
    using start_control_authority [OF _ rev] 1(3) by blast
  have "app_ok lib c a'"
  proof (cases "au_Present a")
    case True
    obtain as where as: "ad_AllowedActions (au_Document a) = Some as"
      using LoadAuthority_present [OF 1(1) True] by blast
    have "signed_authority lib c (au_State a) (au_DocumentRaw a) (au_Document a)"
      using loaded_signed [OF assms(3)] 1(1) True cl by simp
    moreover have "in_force a' (au_Document a) actions"
      using start_inventory_present [OF 1(2) True as] control True as by (simp add: in_force_def 1(4))
    ultimately show ?thesis using True unfolding app_ok_def 1(4) by auto
  next
    case False
    then show ?thesis using control by (simp add: app_ok_def 1(4))
  qed
  moreover have "gc_control g = None \<longrightarrow> ap_control a' = None"
    using 1(3) by (auto simp: start_control_def 1(4))
  ultimately show ?thesis ..
qed

subsection \<open>Histories keep the authority signed\<close>

lemma agent_step_ok:
  assumes "one_cluster g c cx" "agent_ok lib c st" "wired g st"
  shows "agent_ok lib c (agent_step cx lib g y st) \<and> wired g (agent_step cx lib g y st)"
proof (cases y)
  case (AServe x)
  then show ?thesis using assms serve_ok wired_control by (auto simp: agent_ok_def wired_def)
next
  case (ARefresh e)
  show ?thesis
  proof (cases "gn_app st")
    case None
    then show ?thesis using assms ARefresh by simp
  next
    case (Some a)
    obtain res fs' a' where r: "refreshAssignments lib g e (gn_files st) a = (res, fs', a')" by (metis prod_cases3)
    then show ?thesis using refresh_app_ok [OF r] assms ARefresh Some by (auto simp: agent_ok_def wired_def one_cluster_def)
  qed
next
  case AReload
  then show ?thesis using assms by (simp add: one_cluster_def)
next
  case (AStart now ios)
  show ?thesis
  proof (cases "start_app lib g now ios (gn_service st) (gn_files st)")
    case (Inl e)
    then show ?thesis using assms AStart by (simp add: start_agent_def agent_ok_def wired_def)
  next
    case (Inr a)
    then show ?thesis using start_app_ok [OF Inr assms(1)] assms AStart by (simp add: start_agent_def agent_ok_def wired_def)
  qed
qed

lemma agent_run_ok:
  assumes "one_cluster g c cx" "agent_ok lib c st" "wired g st"
  shows "agent_ok lib c (agent_run cx lib g ys st) \<and> wired g (agent_run cx lib g ys st)"
  using assms by (induction ys arbitrary: st) (use agent_step_ok in auto)

text \<open>A host without a dynamic authority: no process runs and the state file holds none.\<close>

definition no_dynamic_authority :: "agent \<Rightarrow> bool" where
  "no_dynamic_authority st \<longleftrightarrow>
     gn_app st = None \<and> (case fl_refresh (gn_files st) of Stored n (AuthorityDoc v) \<Rightarrow> False | _ \<Rightarrow> True)"

lemma fresh_ok: "no_dynamic_authority st \<Longrightarrow> agent_ok lib c st \<and> wired g st"
  by (auto simp: no_dynamic_authority_def agent_ok_def wired_def signed_file_def)

lemma reached_in_force:
  assumes "one_cluster g c cx" "no_dynamic_authority st0" "gn_app (agent_run cx lib g ys st0) = Some a" "ap_dynamic a"
  obtains raw d actions where "signed_authority lib c (ap_state a) raw d" "in_force a d actions"
proof -
  have "agent_ok lib c (agent_run cx lib g ys st0)"
    using agent_run_ok [OF assms(1)] fresh_ok [OF assms(2)] by blast
  then have "app_ok lib c a" using assms(3) by (simp add: agent_ok_def)
  then show ?thesis using assms(4) that unfolding app_ok_def by (simp only: if_True) blast
qed

lemma signed_authority_valid: "signed_authority lib c st raw d \<Longrightarrow> doc_Validate (cl_clusterRef c) d = None"
  by (auto simp: signed_authority_def Parse_def split: if_splits option.splits)

lemma polled_verified:
  fixes cx :: svc_context
  assumes "PollOnce (cx_env cx) (cx_validParameters cx) (cx_config cx) response ios s = (err, xs, s')" "x \<in> set xs"
  obtains pe :: poll_env where "Verify (je_crypto (cx_env cx)) (cx_validParameters cx) (to_utc (pe_now pe)) x
      (verify_config_of (cx_config cx) s (to_utc (pe_now pe))) = None"
proof -
  have "\<exists>pe :: poll_env. Verify (je_crypto (cx_env cx)) (cx_validParameters cx) (to_utc (pe_now pe)) x
      (verify_config_of (cx_config cx) s (to_utc (pe_now pe))) = None"
    using PollOnce_cases [OF assms(1)]
  proof (elim disjE conjE exE)
    fix cs cursor e1 s1 assume "polls cx cs s e1 xs s1"
    then show ?thesis using assms(2) unfolding polls_def by blast
  next
    fix cs cursor e1 s1 assume "polls cx cs s e1 xs s1"
    then show ?thesis using assms(2) unfolding polls_def by blast
  qed (use assms(2) in simp)
  then show ?thesis using that by blast
qed

text \<open>The file holds an authority from a revision on; a bound below every later authority.\<close>

definition disk_from :: "u64 \<Rightarrow> refresh_file \<Rightarrow> bool" where
  "disk_from n f \<longleftrightarrow> (\<exists>k v. f = Stored k (AuthorityDoc v) \<and> n \<le> da_Revision v)"

lemma disk_from_stored [simp]: "disk_from n (Stored k (AuthorityDoc v)) \<longleftrightarrow> n \<le> da_Revision v"
  by (simp add: disk_from_def)

lemma SaveAuthority_disk:
  assumes "SaveAuthority lib dir oc st raw cluster p f = (err, f')"
  shows "disk_from n f \<Longrightarrow> n \<le> an_Revision st \<Longrightarrow> disk_from n f'" "err = None \<Longrightarrow> disk_from (an_Revision st) f'"
  using SaveAuthority_file [OF assms] by (auto simp: authority_record_def)

definition floor_ok :: "u64 \<Rightarrow> agent \<Rightarrow> bool" where
  "floor_ok n st \<longleftrightarrow>
     (disk_from n (fl_refresh (gn_files st))) \<and>
     (\<forall>a. gn_app st = Some a \<longrightarrow> ap_dynamic a \<and> n \<le> an_Revision (ap_state a))"

lemma advances: "verify_bundle lib c clock b previous = Inr r \<Longrightarrow> an_Revision previous < an_Revision (rf_State r)"
  using verify_bundle_ok by (fastforce simp: bundle_advances_def)

lemma refresh_floor:
  assumes r: "refreshAssignments lib g e fs a = (res, fs', a')" and c: "gc_client g = Some c"
    and fl: "disk_from n (fl_refresh fs)"
    and a: "ap_dynamic a" "n \<le> an_Revision (ap_state a)"
  shows "(disk_from n (fl_refresh fs')) \<and>
    ap_dynamic a' \<and> n \<le> an_Revision (ap_state a')"
  using r c
proof (cases rule: refreshAssignments_cases)
  case 1
  then show ?thesis using fl a by simp
next
  case (2 b r actions)
  have n: "n \<le> an_Revision (rf_State r)" using advances [OF 2(1)] a(2) by simp
  from refresh_dynamic_cases [OF 2(3)] show ?thesis
  proof (elim disjE conjE exE)
    fix err f assume s: "SaveAuthority lib (re_directory e) (re_authority_io e) (rf_State r) (rf_DocumentRaw r) (gc_cluster g)
        (gc_scope g) (fl_refresh fs) = (err, f)" "fl_refresh fs' = f"
    have f: "disk_from n (fl_refresh fs')"
      using SaveAuthority_disk(1) [OF s(1) fl n] s(2) by simp
    { assume "a' = a" then show ?thesis using f a by simp }
    { fix a1 assume "apply_authority g r actions a = (True, a1)" "a' = commit_state (rf_State r) True a1"
      then show ?thesis using f n by simp }
    { assume x: "apply_authority g r actions a = (False, a')"
      then show ?thesis using f a apply_authority_dynamic [OF x] by simp }
  qed (use fl a in simp)
next
  case (3 b r)
  then show ?thesis using fl a by (simp add: refresh_static_def)
qed

lemma start_floor:
  assumes "start_app lib g now ios s fs = Inr a'"
    and "disk_from n (fl_refresh fs)"
  shows "ap_dynamic a' \<and> n \<le> an_Revision (ap_state a')"
  using assms(1)
proof (cases rule: start_app_cases)
  case (1 a st actions control)
  obtain k v where "fl_refresh fs = Stored k (AuthorityDoc v)" "n \<le> da_Revision v"
    using assms(2) by (auto simp: disk_from_def)
  then show ?thesis using 1 LoadAuthority_authority_file by fastforce
qed

lemma agent_step_floor:
  assumes "one_cluster g c cx" "floor_ok n st"
  shows "floor_ok n (agent_step cx lib g y st)"
proof (cases y)
  case (AServe x)
  then show ?thesis using assms by (auto simp: floor_ok_def)
next
  case (ARefresh e)
  show ?thesis
  proof (cases "gn_app st")
    case None
    then show ?thesis using assms ARefresh by simp
  next
    case (Some a)
    obtain res fs' a' where r: "refreshAssignments lib g e (gn_files st) a = (res, fs', a')" by (metis prod_cases3)
    have "gc_client g = Some c" using assms(1) by (simp add: one_cluster_def)
    then show ?thesis using refresh_floor [OF r, of c n] assms(2) ARefresh Some r by (simp add: floor_ok_def)
  qed
next
  case AReload
  then show ?thesis using assms by (simp add: one_cluster_def)
next
  case (AStart now ios)
  then show ?thesis using start_floor assms(2)
    by (auto simp: start_agent_def floor_ok_def split: sum.splits)
qed

lemma agent_run_floor:
  "one_cluster g c cx \<Longrightarrow> floor_ok n st \<Longrightarrow> floor_ok n (agent_run cx lib g ys st)"
  by (induction ys arbitrary: st) (use agent_step_floor in auto)

text \<open>While a dynamic authority is in force the file holds one that is no older.\<close>

definition disk_ahead :: "asn_files \<Rightarrow> asn_app \<Rightarrow> bool" where
  "disk_ahead fs a \<longleftrightarrow>
     (ap_dynamic a \<longrightarrow>
       (disk_from (an_Revision (ap_state a)) (fl_refresh fs)))"

lemma adopted_ahead:
  assumes "verify_bundle lib c clock b (ap_state a) = Inr r"
    and "SaveAuthority lb dir oc (rf_State r) raw cluster p f = (err, f')"
    and "err = None \<and> a' = commit_state (rf_State r) True a1 \<or> ap_dynamic a' = ap_dynamic a \<and> ap_state a' = ap_state a"
    and "disk_ahead fs a" "f = fl_refresh fs" "f' = fl_refresh fs'"
  shows "disk_ahead fs' a'"
proof -
  have "an_Revision (ap_state a) \<le> an_Revision (rf_State r)" using advances [OF assms(1)] by simp
  then show ?thesis using SaveAuthority_disk [OF assms(2)] assms(3-6) by (auto simp: disk_ahead_def)
qed

lemma refresh_ahead:
  assumes r: "refreshAssignments lib g e fs a = (res, fs', a')" and c: "gc_client g = Some c" and d: "disk_ahead fs a"
  shows "disk_ahead fs' a'"
  using r c
proof (cases rule: refreshAssignments_cases)
  case 1
  then show ?thesis using d by simp
next
  case (2 b r actions)
  from refresh_dynamic_cases [OF 2(3)] show ?thesis
  proof (elim disjE conjE exE)
    fix err f assume s: "SaveAuthority lib (re_directory e) (re_authority_io e) (rf_State r) (rf_DocumentRaw r) (gc_cluster g)
        (gc_scope g) (fl_refresh fs) = (err, f)" "fl_refresh fs' = f"
    note ahead = adopted_ahead [OF 2(1) s(1) _ d refl s(2) [symmetric]]
    { assume "a' = a" then show ?thesis by (intro ahead) simp }
    { fix a1 assume "err = None" "a' = commit_state (rf_State r) True a1"
      then show ?thesis by (intro ahead disjI1 conjI) }
    { assume x: "apply_authority g r actions a = (False, a')"
      show ?thesis by (intro ahead) (simp add: apply_authority_dynamic [OF x]) }
  qed (use d in simp)
next
  case (3 b r)
  from refresh_static_cases [OF 3(3)] show ?thesis using d by (auto simp: disk_ahead_def)
qed

lemma start_ahead:
  assumes "start_app lib g now ios s fs = Inr a'"
  shows "disk_ahead fs a'"
  using assms
proof (cases rule: start_app_cases)
  case (1 a st actions control)
  show ?thesis
  proof (cases "au_Present a")
    case True
    obtain n v where "fl_refresh fs = Stored n (AuthorityDoc v)" "an_Revision (au_State a) = da_Revision v"
      using LoadAuthority_present [OF 1(1) True] by (metis asn_state.select_convs(1))
    then show ?thesis by (simp add: disk_ahead_def 1(4))
  next
    case False
    then show ?thesis by (simp add: disk_ahead_def 1(4))
  qed
qed

definition agent_ahead :: "agent \<Rightarrow> bool" where
  "agent_ahead st \<longleftrightarrow> (\<forall>a. gn_app st = Some a \<longrightarrow> disk_ahead (gn_files st) a)"

lemma serve_ahead: "disk_ahead fs (serve cx y a) = disk_ahead fs a"
  by (simp add: disk_ahead_def)

lemma agent_step_ahead:
  assumes "one_cluster g c cx" "agent_ahead st"
  shows "agent_ahead (agent_step cx lib g y st)"
proof (cases y)
  case (ARefresh e)
  have c: "gc_client g = Some c" using assms(1) by (simp add: one_cluster_def)
  show ?thesis
  proof (cases "gn_app st")
    case None
    then show ?thesis using assms ARefresh by simp
  next
    case (Some a)
    obtain res fs' a' where r: "refreshAssignments lib g e (gn_files st) a = (res, fs', a')" by (metis prod_cases3)
    have "disk_ahead (gn_files st) a" using assms(2) Some by (simp add: agent_ahead_def)
    then show ?thesis using refresh_ahead [OF r c] ARefresh Some r by (simp add: agent_ahead_def)
  qed
next
  case (AStart now ios)
  then show ?thesis using start_ahead by (auto simp: agent_ahead_def start_agent_def split: sum.splits)
qed (use assms serve_ahead in \<open>auto simp: agent_ahead_def one_cluster_def\<close>)

lemma agent_run_ahead: "one_cluster g c cx \<Longrightarrow> agent_ahead st \<Longrightarrow> agent_ahead (agent_run cx lib g ys st)"
  by (induction ys arbitrary: st) (use agent_step_ahead in auto)

lemma agent_run_append: "agent_run cx lib g (ys @ zs) st = agent_run cx lib g zs (agent_run cx lib g ys st)"
  by (induction ys arbitrary: st) auto

lemma ahead_floor:
  "agent_ahead st \<Longrightarrow> gn_app st = Some a \<Longrightarrow> ap_dynamic a \<Longrightarrow> floor_ok (an_Revision (ap_state a)) st"
  by (auto simp: agent_ahead_def disk_ahead_def floor_ok_def)

subsection \<open>The lines of a signed text\<close>

lemma safeRef_no_newline: "safeRef s \<Longrightarrow> CHR 0x0A \<notin> set s"
  by (cases s) (auto simp: safeRef_def list_all_iff char_class_defs)

lemma payload_lines_plain:
  assumes "CanonicalPayload lib b = Some p" "\<forall>t. CHR 0x0A \<notin> set (al_time_text lib t)"
  shows "list_all (\<lambda>w. CHR 0x0A \<notin> set w) (payload_lines lib b)"
proof -
  have ok: "safeRef (bu_AgentRef b)" "safeRef (bu_DeviceID b)" "safeRef (bu_ClusterRef b)" "safeRef (bu_Cursor b)"
    "safeRef (bu_Nonce b)" "safeRef (bu_SigningKeyID b)" "list_all is_lower_hex (bu_ContentSHA256 b)"
    using assms(1) by (simp_all add: CanonicalPayload_def validNonce_def isLowerHex_def split: if_splits)
  have "CHR 0x0A \<notin> set (bu_ContentSHA256 b)" using ok(7) by (auto simp: list_all_iff char_class_defs)
  moreover have d: "CHR 0x0A \<notin> set (dec n)" for n
    using dec_digits [of n] by (auto simp: list_all_iff char_class_defs)
  moreover have "CHR 0x0A \<notin> set (dec_int n)" for n
    using d by (auto simp: dec_int_def)
  ultimately show ?thesis using ok(1-6) assms(2) safeRef_no_newline by (simp add: payload_lines_def)
qed

lemma join_lines_inject:
  "list_all (\<lambda>w. CHR 0x0A \<notin> set w) xs \<Longrightarrow> list_all (\<lambda>w. CHR 0x0A \<notin> set w) ys \<Longrightarrow> length xs = length ys \<Longrightarrow>
   join_lines xs = join_lines ys \<longleftrightarrow> xs = ys"
proof (induction xs arbitrary: ys rule: join_lines.induct)
  case (3 w v ws)
  then obtain w' v' ws' where ys: "ys = w' # v' # ws'" by (metis length_Suc_conv)
  have "join_lines (w # v # ws) = join_lines ys \<longleftrightarrow> w @ newline @ join_lines (v # ws) = w' @ newline @ join_lines (v' # ws')"
    by (simp add: ys)
  also have "\<dots> \<longleftrightarrow> w = w' \<and> join_lines (v # ws) = join_lines (v' # ws')"
    using "3.prems" ys split_newline [of w w'] by simp
  also have "\<dots> \<longleftrightarrow> w # v # ws = ys" using "3.IH" [of "v' # ws'"] "3.prems" by (simp add: ys)
  finally show ?case .
next
  case (2 w)
  then show ?case by (cases ys) auto
qed simp

subsection \<open>Properties\<close>

text \<open>
  C3: Commands follow documents the website signed.  In every history of refreshes with any answers
  and failing writes, restarts and work of the service, from a host without a dynamic authority:
  a command that a poll lets execute under a dynamic authority carries the revision of a bundle
  signed for this agent, device and cluster, its action is in the list of a document whose bytes have
  the signed hash, and a guest command names exactly a guest of that same document.
\<close>

theorem commands_follow_signed_documents:
  fixes cx :: svc_context
  assumes "one_cluster g c cx" "no_dynamic_authority st0" "gn_app (agent_run cx lib g ys st0) = Some a"
    and "ap_dynamic a" "ap_control a = Some s" "sc_Mode (cx_config cx) \<noteq> ''test''"
    and "PollOnce (cx_env cx) (cx_validParameters cx) (cx_config cx) response ios s = (err, xs, s')" "x \<in> set xs"
  shows "\<exists>b raw d actions. authentic (asn_lib.truncate lib) c b \<and> bu_Revision b = c_AssignmentRevision x \<and>
    equal_fold (bu_ContentSHA256 b) (BodyHash (al_crypto (asn_lib.truncate lib)) raw) \<and>
    Parse (al_document lib) raw (cl_clusterRef c) = Inr d \<and> ad_AllowedActions d = Some actions \<and> c_Action x \<in> set actions \<and>
    (c_Scope x = ScopeVM \<longrightarrow> (\<exists>i \<in> set (ad_Assignments d). assigned i (c_Identity x)))"
proof -
  obtain raw d actions where sg: "signed_authority lib c (ap_state a) raw d" and f: "in_force a d actions"
    using reached_in_force [OF assms(1-4)] .
  obtain pe :: poll_env where "Verify (je_crypto (cx_env cx)) (cx_validParameters cx) (to_utc (pe_now pe)) x
      (verify_config_of (cx_config cx) s (to_utc (pe_now pe))) = None"
    using polled_verified [OF assms(7,8)] .
  moreover define v where "v = verify_config_of (cx_config cx) s (to_utc (pe_now pe))"
  ultimately have pol: "vc_Allowed v (c_Action x)" "verifyAuthority x v = None" "verifyScope x v = None"
    using verifyPolicy_ok by (auto simp: Verify_ok)
  have fields: "vc_Mode v \<noteq> ''test''" "vc_AssignmentRevision v = Some (an_Revision (ap_state a))"
    "vc_Allowed v = AllowedSet actions" "vc_Assignments v = Some (Replace d)" "ad_AllowedActions d = Some actions"
    using f assms(5,6) by (simp_all add: v_def verify_config_of_def in_force_def)
  have "c_Scope x = ScopeVM \<longrightarrow> (\<exists>i \<in> set (ad_Assignments d). assigned i (c_Identity x))"
    using verifyScope_vm [OF pol(3) _ fields(4) signed_authority_valid [OF sg]] by blast
  moreover have "c_Action x \<in> set actions" using pol(1) fields(3) by (simp add: AllowedSet_def)
  moreover have "c_AssignmentRevision x = an_Revision (ap_state a)"
    using verifyAuthority_production [OF pol(2) fields(1)] fields(2) by simp
  moreover obtain b where "authentic (asn_lib.truncate lib) c b" "bu_Revision b = an_Revision (ap_state a)"
    "equal_fold (bu_ContentSHA256 b) (BodyHash (al_crypto (asn_lib.truncate lib)) raw)"
    "Parse (al_document lib) raw (cl_clusterRef c) = Inr d"
    using sg unfolding signed_authority_def by auto
  ultimately show ?thesis using fields(5) by (intro exI conjI) simp_all
qed

text \<open>
  C10: The authority never falls back.  Once a dynamic authority of some revision is in force, every
  later process of the same host that runs has a dynamic authority of at least that revision,
  whatever refreshes, failing writes and restarts lie between.
\<close>

theorem authority_never_falls_back:
  fixes cx :: svc_context
  assumes "one_cluster g c cx" "no_dynamic_authority st0" "gn_app (agent_run cx lib g ys st0) = Some a" "ap_dynamic a"
    and "gn_app (agent_run cx lib g (ys @ zs) st0) = Some a'"
  shows "ap_dynamic a' \<and> an_Revision (ap_state a) \<le> an_Revision (ap_state a')"
proof -
  have "agent_ahead (agent_run cx lib g ys st0)"
    using agent_run_ahead [OF assms(1)] assms(2) by (simp add: agent_ahead_def no_dynamic_authority_def)
  then have "floor_ok (an_Revision (ap_state a)) (agent_run cx lib g (ys @ zs) st0)"
    unfolding agent_run_append using ahead_floor [OF _ assms(3,4)] agent_run_floor [OF assms(1)] by blast
  then show ?thesis using assms(5) by (simp add: floor_ok_def)
qed

text \<open>
  A signature covers one bundle.  Two bundles with the same canonical payload, the text that is
  signed, agree in every identity, in revision, cursor, nonce, key and content hash and in their
  printed times, so a signature cannot be moved to another document, device, cluster or revision.
\<close>

theorem signed_payload_names_bundle:
  assumes "CanonicalPayload lib a = Some p" "CanonicalPayload lib b = Some p"
    and "\<forall>t. CHR 0x0A \<notin> set (al_time_text lib t)"
  shows "bu_SchemaVersion a = bu_SchemaVersion b \<and> bu_AgentRef a = bu_AgentRef b \<and> bu_DeviceID a = bu_DeviceID b \<and>
    bu_ClusterRef a = bu_ClusterRef b \<and> bu_Cursor a = bu_Cursor b \<and> bu_Revision a = bu_Revision b \<and>
    al_time_text lib (to_utc (bu_IssuedAt a)) = al_time_text lib (to_utc (bu_IssuedAt b)) \<and>
    al_time_text lib (to_utc (bu_ExpiresAt a)) = al_time_text lib (to_utc (bu_ExpiresAt b)) \<and>
    bu_Nonce a = bu_Nonce b \<and> bu_ContentSHA256 a = bu_ContentSHA256 b \<and> bu_SigningKeyID a = bu_SigningKeyID b"
proof -
  have "list_all (\<lambda>w. CHR 0x0A \<notin> set w) (payload_lines lib x)" if "CanonicalPayload lib x = Some p" for x
    using payload_lines_plain [OF that assms(3)] .
  moreover have "join_lines (payload_lines lib a) = join_lines (payload_lines lib b)"
    using assms(1,2) by (simp add: CanonicalPayload_def split: if_splits)
  moreover have "length (payload_lines lib a) = length (payload_lines lib b)" by (simp add: payload_lines_def)
  ultimately have "payload_lines lib a = payload_lines lib b" using join_lines_inject assms(1,2) by blast
  then show ?thesis by (simp add: payload_lines_def word_unat_eq_iff)
qed

text \<open>
  C23: A compact authority survives a restart.  When the document has no white space or HTML
  characters that the encoder would change, a successful save is read back under the same scope as exactly
  the same state, document and bytes, and is refused under every other scope.
\<close>

theorem saved_authority_loads:
  assumes "SaveAuthority lib directory oc st raw cluster p f = (None, f')" "compact_json raw = raw" "raw \<noteq> []"
    and "Parse (al_document lib) raw cluster = Inr d" "length (sha256 (al_crypto (asn_lib.truncate lib)) raw) = 32"
    and "ah_size lib (AuthorityDoc (authority_record lib st raw p)) \<noteq> maxDurableAuthoritySize"
  shows "LoadAuthority lib f' cluster (Some q) =
    (if q = p then Inr \<lparr>au_State = st, au_Document = d, au_DocumentRaw = raw, au_Present = True\<rparr>
     else Inl ''assignment refresh authority binding scope mismatch'')"
proof -
  let ?v = "authority_record lib st raw p"
  note ok = SaveAuthority_ok [OF assms(1)]
  have "f' = Stored (Suc (ah_size lib (AuthorityDoc ?v))) (AuthorityDoc ?v)"
    using SaveAuthority_file(2) [OF assms(1)] by simp
  moreover have "Suc (ah_size lib (AuthorityDoc ?v)) \<le> maxDurableAuthoritySize" using ok assms(6) by simp
  ultimately have load: "LoadAuthority lib f' cluster (Some q) = decodeAuthority lib ?v cluster (Some q)"
    by (simp add: LoadAuthority_def authority_record_def)
  have "authority_fields_ok ?v"
    using ok assms(2,3,5) hex_encode_lower
    by (simp add: authority_fields_ok_def authority_record_def scope_ok_def BodyHash_def isLowerHex_def)
  moreover have "scope_matches (Some q) ?v \<longleftrightarrow> q = p"
    by (auto simp: scope_matches_def authority_record_def)
  moreover obtain actions where "ad_AllowedActions d = Some actions" using ok assms(4) by auto
  ultimately show ?thesis
    unfolding load using assms(2,4) by (simp add: decodeAuthority_def) (simp add: authority_record_def)
qed

text \<open>
  C22: A document with white space blocks the next start.  A signed document that is not in compact form
  is accepted, saved without error and put in force; but the encoder stores its compact form beside the
  hash of the original, so, when the two hashes differ, no later start can load the file.
\<close>

theorem spaced_document_blocks_start:
  assumes "refreshAssignments lib g e fs a = (Inr True, fs', a')" "gc_client g = Some c"
    and "fst (Refresh (asn_lib.truncate lib) c (re_signed_at e) (re_clock e) (re_random e) (ap_state a) (re_exchange e)) = Inr r"
    and "ad_AllowedActions (rf_Document r) = Some actions"
    and "sha256 (al_crypto (asn_lib.truncate lib)) (compact_json (rf_DocumentRaw r)) \<noteq>
      sha256 (al_crypto (asn_lib.truncate lib)) (rf_DocumentRaw r)"
  shows "ap_state a' = rf_State r \<and> ap_dynamic a' \<and> (\<exists>m. start_app lib g now ios s fs' = Inl m)"
proof -
  have rd: "refresh_dynamic lib g e r actions fs a = (Inr True, fs', a')"
    using assms(1-4) by (simp add: refreshAssignments_def)
  obtain err f where sv: "SaveAuthority lib (re_directory e) (re_authority_io e) (rf_State r) (rf_DocumentRaw r) (gc_cluster g)
        (gc_scope g) (fl_refresh fs) = (err, f)" by fastforce
  have ok: "err = None" "fl_refresh fs' = f" "\<exists>a1. a' = commit_state (rf_State r) True a1"
    using rd sv unfolding refresh_dynamic_def Let_def
    by (auto split: if_split_asm prod.split_asm option.split_asm bool.split_asm)
  let ?v = "authority_record lib (rf_State r) (rf_DocumentRaw r) (gc_scope g)"
  have stored: "fl_refresh fs' = Stored (Suc (ah_size lib (AuthorityDoc ?v))) (AuthorityDoc ?v)"
    using SaveAuthority_file(2) [OF sv] ok by simp
  have "da_ContentSHA256 ?v \<noteq> BodyHash (al_crypto (asn_lib.truncate lib)) (da_AssignmentDocument ?v)"
    using assms(5) by (auto simp: authority_record_def BodyHash_def)
  then have "decodeAuthority lib ?v cl q \<noteq> Inr x" for cl q x
    by (simp add: decodeAuthority_def)
  then have "LoadAuthority lib (fl_refresh fs') cl q \<noteq> Inr x" for cl q x
    using stored by (simp add: LoadAuthority_def)
  then obtain m where "LoadAuthority lib (fl_refresh fs') (gc_cluster g) (expected_scope g) = Inl m"
    by (metis old.sum.exhaust)
  then show ?thesis using ok(3) by (auto simp: start_app_def)
qed

end
