(* ===== verification/Assignment_Example.thy ===== *)
theory Assignment_Example
  imports Assignment_Guarantees
begin

section \<open>A concrete history of the assignment authority\<close>

text \<open>
  One host, one bundle and one refresh, with a document in compact form and one with a space.  The
  hash of the example depends on the length of its argument only.
\<close>

definition asx_sha :: "bytes \<Rightarrow> 8 word list" where
  "asx_sha b = replicate 31 0 @ [of_nat (length b)]"

definition asx_bundle :: "bytes \<Rightarrow> asn_bundle" where
  "asx_bundle raw = \<lparr>bu_SchemaVersion = 1, bu_AgentRef = ''agent-1'', bu_DeviceID = ''dev-1'', bu_ClusterRef = ''cluster-a'',
     bu_Cursor = ''cur-7'', bu_Revision = 7, bu_IssuedAt = GoTime 5 UTC, bu_ExpiresAt = GoTime 60 UTC,
     bu_Nonce = ''0123456789abcdef'', bu_ContentSHA256 = hex_encode (asx_sha raw), bu_SigningKeyID = ''key-1'',
     bu_AssignmentDocument = raw, bu_Signature = base64_encode (replicate 64 1)\<rparr>"

definition asx_lib :: authority_lib where
  "asx_lib = \<lparr>sha256 = asx_sha, hmac_sha256 = (\<lambda>k m. ex_hash), json_valid = (\<lambda>b. True),
     marshal_body = (\<lambda>c. Some (c_CommandID c)), ed25519_verify = (\<lambda>k m s. s = replicate 64 1),
     al_time_text = (\<lambda>t. ''t''), al_unique_keys = (\<lambda>b. True), al_bundle = (\<lambda>b. Some (asx_bundle b)),
     al_document = (\<lambda>b. if b = ''{}'' \<or> b = ''{ }'' then Some ex_assignments else None), ah_size = (\<lambda>d. 100)\<rparr>"

definition asx_client :: asn_client where
  "asx_client = \<lparr>cl_endpoint = \<lparr>u_Scheme = ''https'', u_Opaque = [], u_User = False, u_Host = ''w'', u_Hostname = ''w'',
       u_Port = [], u_Path = ''/a'', u_EscapedPath = ''/a'', u_ForceQuery = False, u_RawQuery = [], u_Fragment = []\<rparr>,
     cl_agentRef = ''agent-1'', cl_deviceID = ''dev-1'', cl_clusterRef = ''cluster-a'', cl_keyID = ''hk-1'',
     cl_secret = ''secret'', cl_signingKeyID = ''key-1'', cl_publicKey = replicate 32 CHR ''k'', cl_wait = MaxWait,
     cl_maxSkew = 5 * minute, cl_timeout = MaxWait + 5 * second\<rparr>"

definition asx_setup :: asn_setup where
  "asx_setup = \<lparr>gc_cluster = ''cluster-a'', gc_mode = ''production'', gc_actions = [''vm.start''],
     gc_scope = \<lparr>sp_BindingID = ''11111111-1111-4111-8111-111111111111'', sp_DeviceID = ''dev-1'', sp_CredentialEpoch = 1\<rparr>,
     gc_client = Some asx_client, gc_control = Some (cx_config (ex_cx True))\<rparr>"

definition asx_refresh :: "bytes \<Rightarrow> refresh_env" where
  "asx_refresh raw = \<lparr>re_signed_at = GoTime 10 UTC, re_clock = GoTime 10 UTC, re_random = Some (replicate 16 0),
     re_exchange = RefreshAnswer 200 ''application/json'' raw, re_directory = True, re_authority_io = IoOk, re_compat_io = IoOk\<rparr>"

definition asx_files :: asn_files where
  "asx_files = \<lparr>fl_refresh = NoFile, fl_compat = RawBytes ''{}''\<rparr>"

definition asx_host :: agent where
  "asx_host = \<lparr>gn_files = asx_files, gn_app = None, gn_service = ex_service\<rparr>"

definition asx_state :: asn_state where
  "asx_state = \<lparr>an_Revision = 7, an_Cursor = ''cur-7''\<rparr>"

lemma asx_refs [simp]:
  "safeRef ''agent-1''" "safeRef ''dev-1''" "safeRef ''cluster-a''" "safeRef ''cur-7''" "safeRef ''key-1''"
  "validNonce ''0123456789abcdef''" "uuidValue ''11111111-1111-4111-8111-111111111111''"
  by code_simp+

lemma asx_actions [simp]: "validateAllowedActions [''vm.start''] True" "validateAllowedActions [''vm.start''] False"
  by code_simp+

lemma asx_lib_fields [simp]:
  "al_crypto (asn_lib.truncate asx_lib) = \<lparr>sha256 = asx_sha, hmac_sha256 = (\<lambda>k m. ex_hash)\<rparr>"
  "json_valid (asn_lib.truncate asx_lib) b" "json_valid asx_lib b" "al_unique_keys (asn_lib.truncate asx_lib) b"
  "ed25519_verify (asn_lib.truncate asx_lib) k m s \<longleftrightarrow> s = replicate 64 1"
  "al_bundle (asn_lib.truncate asx_lib) b = Some (asx_bundle b)"
  "al_document (asn_lib.truncate asx_lib) b = (if b = ''{}'' \<or> b = ''{ }'' then Some ex_assignments else None)"
  "al_document asx_lib b = (if b = ''{}'' \<or> b = ''{ }'' then Some ex_assignments else None)"
  "ah_size asx_lib d = 100"
  by (simp_all add: asx_lib_def al_crypto_def asn_lib.defs crypto.defs)

lemma asx_parse: "raw = ''{}'' \<or> raw = ''{ }'' \<Longrightarrow> d = al_document asx_lib \<or> d = al_document (asn_lib.truncate asx_lib) \<Longrightarrow>
    Parse d raw ''cluster-a'' = Inr ex_assignments"
  by (auto simp: Parse_def maxFileBytes_def ex_assignments_valid)

lemma asx_content: "length (hex_encode (asx_sha raw)) = 64" "list_all is_lower_hex (hex_encode (asx_sha raw))"
  using hex_encode_lower by (simp_all add: asx_sha_def)

lemma asx_payload: "CanonicalPayload (asn_lib.truncate asx_lib) (asx_bundle raw) \<noteq> None"
  using asx_content by (simp add: CanonicalPayload_def asx_bundle_def isLowerHex_def is_zero_time_def)

lemma asx_signed: "bundle_signed (asn_lib.truncate asx_lib) asx_client (asx_bundle raw)"
  using asx_payload [of raw]
  by (auto simp: bundle_signed_def asx_bundle_def SignatureSize_def base64_std_encode split: option.splits)

lemma asx_verified:
  assumes "raw = ''{}'' \<or> raw = ''{ }''" "an_Revision previous < 7" "an_Cursor previous = []"
  shows "verify_bundle (asn_lib.truncate asx_lib) asx_client (GoTime 10 UTC) (asx_bundle raw) previous =
    Inr \<lparr>rf_Document = ex_assignments, rf_DocumentRaw = raw, rf_State = asx_state,
         rf_IssuedAt = GoTime 5 UTC, rf_ExpiresAt = GoTime 60 UTC\<rparr>"
proof -
  have "bundle_addressed asx_client (asx_bundle raw)"
    by (simp add: bundle_addressed_def asx_bundle_def asx_client_def asn_SchemaVersion_def)
  moreover have "bundle_fresh asx_client (to_utc (GoTime 10 UTC)) (asx_bundle raw)"
    by (simp add: bundle_fresh_def asx_bundle_def asx_client_def after_def time_add_def to_utc_def time_sub_def
        minute_def second_def MaxValidity_def max_duration_def min_duration_def)
  moreover have "bundle_advances previous (asx_bundle raw)"
    using assms(2,3) by (simp add: bundle_advances_def asx_bundle_def)
  moreover have "Parse (al_document (asn_lib.truncate asx_lib)) raw (cl_clusterRef asx_client) = Inr ex_assignments"
    using asx_parse [OF assms(1)] by (simp add: asx_client_def)
  moreover have "equal_fold t t" for t by (simp add: equal_fold_def)
  moreover have "raw \<noteq> []" "instant (ad_IssuedAt ex_assignments) = 5" using assms(1) by (auto simp: ex_assignments_def)
  ultimately show ?thesis using asx_payload asx_signed
    unfolding verify_bundle_def Let_def
    by (simp add: BodyHash_def) (simp add: asx_bundle_def asx_state_def)
qed

definition asx_app :: "service \<Rightarrow> asn_app" where
  "asx_app s = \<lparr>ap_state = \<lparr>an_Revision = 0, an_Cursor = []\<rparr>, ap_dynamic = False, ap_store = Replace ex_assignments,
     ap_control = Some s\<rparr>"

text \<open>The service after the start and after the refresh.\<close>

definition asx_started :: service where
  "asx_started = ex_service\<lparr>sv_external_revision := 0, sv_revision := 0\<rparr>"

definition asx_served :: service where
  "asx_served = ex_service\<lparr>sv_dynamic := True\<rparr>"

lemma asx_compat: "LoadFile asx_lib (RawBytes ''{}'') ''cluster-a'' = Inr ex_assignments"
  using asx_parse [of "''{}''"] by (simp add: LoadFile_def maxFileBytes_def)

lemma asx_new_service:
  "NewService (cx_config (ex_cx True)) False [''vm.start''] (Replace ex_assignments) []
     (ex_service\<lparr>sv_external_revision := 0\<rparr>) = (None, asx_started)"
  by (simp add: NewService_def ex_cx_def PublicKeySize_def loadCursor_def ex_service_def asx_started_def Let_def
      newCommandDispatcher_def)

lemma asx_start: "start_app asx_lib asx_setup now [] ex_service asx_files = Inr (asx_app asx_started)"
  using asx_new_service asx_compat
  by (simp add: start_app_def asx_files_def LoadAuthority_def no_authority_def start_inventory_def loadAssignments_def
      start_control_def asx_setup_def asx_app_def)

lemma asx_refreshes:
  assumes "raw = ''{}'' \<or> raw = ''{ }''"
  shows "fst (Refresh (asn_lib.truncate asx_lib) asx_client (GoTime 10 UTC) (GoTime 10 UTC) (Some (replicate 16 0))
      \<lparr>an_Revision = 0, an_Cursor = []\<rparr> (RefreshAnswer 200 ''application/json'' raw)) =
    Inr \<lparr>rf_Document = ex_assignments, rf_DocumentRaw = raw, rf_State = asx_state,
         rf_IssuedAt = GoTime 5 UTC, rf_ExpiresAt = GoTime 60 UTC\<rparr>"
proof -
  have "trim_space ''application/json'' = ''application/json''" by (rule trim_space_printable) (simp add: code_of_def)
  then have "isJSON ''application/json''"
    by (simp add: isJSON_def to_lower_def is_upper_def code_of_def)
  moreover have "take (Suc asn_MaxResponseBytes) raw = raw" "length raw \<le> asn_MaxResponseBytes"
    using assms by (auto simp: asn_MaxResponseBytes_def)
  moreover have "cl_keyID asx_client \<noteq> []" "cl_secret asx_client \<noteq> []" by (simp_all add: asx_client_def)
  ultimately show ?thesis
    using asx_verified [OF assms] by (simp add: Refresh_def SignRequest_def read_answer_def Let_def)
qed

lemma asx_saved:
  assumes "raw = ''{}'' \<or> raw = ''{ }''"
  shows "SaveAuthority asx_lib True IoOk asx_state raw ''cluster-a'' (gc_scope asx_setup) f =
    (None, Stored 101 (AuthorityDoc (authority_record asx_lib asx_state raw (gc_scope asx_setup))))"
proof -
  have "scope_ok (gc_scope asx_setup)" by (simp add: scope_ok_def asx_setup_def)
  moreover have "\<exists>as. ad_AllowedActions ex_assignments = Some as" by (simp add: ex_assignments_def)
  ultimately show ?thesis using asx_parse [OF assms]
    by (auto simp: SaveAuthority_def Let_def asx_state_def maxDurableAuthoritySize_def asn_MaxResponseBytes_def)
qed

lemma asx_applied:
  "ApplyAssignmentAuthority (cx_config (ex_cx True)) ex_assignments 7 [''vm.start''] asx_started =
    (None, asx_started\<lparr>sv_assignments := Replace ex_assignments, sv_allowed := AllowedSet [''vm.start''], sv_revision := 7, sv_dynamic := True\<rparr>)"
proof -
  have "sc_ClusterRef (cx_config (ex_cx True)) = ''cluster-a''" "ad_AllowedActions ex_assignments = Some [''vm.start'']"
    by (simp_all add: ex_cx_def ex_assignments_def)
  moreover have "current_revision (cx_config (ex_cx True)) asx_started = 0"
    by (simp add: current_revision_def asx_started_def ex_service_def ex_cx_def)
  ultimately show ?thesis using ex_assignments_valid by (simp add: ApplyAssignmentAuthority_def)
qed

lemma asx_adopts:
  assumes "raw = ''{}'' \<or> raw = ''{ }''"
  shows "\<exists>fs'. refreshAssignments asx_lib asx_setup (asx_refresh raw) asx_files (asx_app asx_started) =
    (Inr True, fs', \<lparr>ap_state = asx_state, ap_dynamic = True, ap_store = Replace ex_assignments, ap_control = Some asx_served\<rparr>)"
proof -
  have "ad_AllowedActions ex_assignments = Some [''vm.start'']" by (simp add: ex_assignments_def)
  moreover have "gc_cluster asx_setup = ''cluster-a''" "gc_client asx_setup = Some asx_client"
    "gc_control asx_setup = Some (cx_config (ex_cx True))" by (simp_all add: asx_setup_def)
  ultimately show ?thesis
    using asx_refreshes [OF assms] asx_saved [OF assms] asx_applied
    by (simp add: refreshAssignments_def asx_refresh_def asx_app_def refresh_dynamic_def Let_def apply_authority_def
        asx_state_def commit_state_def split: prod.splits)
      (simp add: asx_served_def asx_started_def ex_service_def)
qed

subsection \<open>The first poll under the signed authority\<close>

lemma asx_poll:
  "\<exists>err s'. PollOnce (cx_env (ex_cx True)) (cx_validParameters (ex_cx True)) (cx_config (ex_cx True))
      (Some ([(ex_command, ex_poll)], ''c-1'')) [] asx_served = (err, [ex_command], s')"
proof -
  have "verify_config_of (cx_config (ex_cx True)) asx_served ex_issued = ex_config"
    by (simp add: verify_config_of_def ex_cx_def asx_served_def ex_service_def ex_config_def)
  then obtain e s1 where "poll_command (cx_env (ex_cx True)) (\<lambda>_. True) (cx_config (ex_cx True)) ex_command ex_poll asx_served =
      (e, [ex_command], s1)"
    using ex_admitted_with [of True asx_served] by (auto simp: asx_served_def ex_service_def)
  then show ?thesis by (cases e) (simp_all add: PollOnce_def split: prod.splits)
qed

lemma asx_one_cluster: "one_cluster asx_setup asx_client (ex_cx True)"
  by (simp add: one_cluster_def asx_setup_def asx_client_def ex_cx_def)

lemma asx_fresh: "no_dynamic_authority asx_host"
  by (simp add: no_dynamic_authority_def asx_host_def asx_files_def)

abbreviation asx_history :: "agent_op list" where
  "asx_history \<equiv> [AStart ex_issued [], ARefresh (asx_refresh ''{}'')]"

lemma asx_reached:
  "gn_app (agent_run (ex_cx True) asx_lib asx_setup asx_history asx_host) =
    Some \<lparr>ap_state = asx_state, ap_dynamic = True, ap_store = Replace ex_assignments, ap_control = Some asx_served\<rparr>"
proof -
  have h: "gn_files asx_host = asx_files" "gn_service asx_host = ex_service" by (simp_all add: asx_host_def)
  obtain fs' where "refreshAssignments asx_lib asx_setup (asx_refresh ''{}'') asx_files (asx_app asx_started) =
    (Inr True, fs', \<lparr>ap_state = asx_state, ap_dynamic = True, ap_store = Replace ex_assignments, ap_control = Some asx_served\<rparr>)"
    using asx_adopts by blast
  then show ?thesis by (simp add: h start_agent_def asx_start)
qed

lemma refresh_keeps_running: "gn_app st = Some a \<Longrightarrow> \<exists>a'. gn_app (agent_run cx lib g [ARefresh e] st) = Some a'"
  by (simp split: prod.split)

subsection \<open>The properties applied\<close>

theorem commands_follow_signed_documents_witness:
  "\<exists>b raw. authentic (asn_lib.truncate asx_lib) asx_client b \<and> bu_Revision b = c_AssignmentRevision ex_command \<and>
    equal_fold (bu_ContentSHA256 b) (BodyHash (al_crypto (asn_lib.truncate asx_lib)) raw)"
proof -
  obtain err s' where p: "PollOnce (cx_env (ex_cx True)) (cx_validParameters (ex_cx True)) (cx_config (ex_cx True))
      (Some ([(ex_command, ex_poll)], ''c-1'')) [] asx_served = (err, [ex_command], s')"
    using asx_poll by blast
  have "sc_Mode (cx_config (ex_cx True)) \<noteq> ''test''" by (simp add: ex_cx_def)
  then show ?thesis
    using commands_follow_signed_documents [OF asx_one_cluster asx_fresh asx_reached _ _ _ p, of ex_command] by auto
qed

theorem authority_never_falls_back_witness:
  "\<exists>a'. gn_app (agent_run (ex_cx True) asx_lib asx_setup (asx_history @ [ARefresh (asx_refresh ''{}'')]) asx_host) = Some a' \<and>
    ap_dynamic a' \<and> 7 \<le> an_Revision (ap_state a')"
proof -
  let ?st = "agent_run (ex_cx True) asx_lib asx_setup asx_history asx_host"
  obtain a' where a: "gn_app (agent_run (ex_cx True) asx_lib asx_setup (asx_history @ [ARefresh (asx_refresh ''{}'')]) asx_host) = Some a'"
    using refresh_keeps_running [OF asx_reached] unfolding agent_run_append by blast
  show ?thesis
    using authority_never_falls_back [OF asx_one_cluster asx_fresh asx_reached _ a] a by (simp add: asx_state_def)
qed

theorem saved_authority_loads_witness:
  "\<exists>f'. SaveAuthority asx_lib True IoOk asx_state ''{}'' ''cluster-a'' (gc_scope asx_setup) NoFile = (None, f') \<and>
    LoadAuthority asx_lib f' ''cluster-a'' (Some (gc_scope asx_setup)) =
      Inr \<lparr>au_State = asx_state, au_Document = ex_assignments, au_DocumentRaw = ''{}'', au_Present = True\<rparr>"
proof -
  have s: "SaveAuthority asx_lib True IoOk asx_state ''{}'' ''cluster-a'' (gc_scope asx_setup) NoFile =
    (None, Stored 101 (AuthorityDoc (authority_record asx_lib asx_state ''{}'' (gc_scope asx_setup))))"
    by (rule asx_saved) simp
  have "compact_json ''{}'' = ''{}''" by code_simp
  then show ?thesis
    using saved_authority_loads [OF s _ _ asx_parse [of "''{}''"], of "gc_scope asx_setup"] s
    by (simp add: asx_sha_def maxDurableAuthoritySize_def asn_MaxResponseBytes_def)
qed

theorem spaced_document_blocks_start_witness:
  "\<exists>fs' a' m. refreshAssignments asx_lib asx_setup (asx_refresh ''{ }'') asx_files (asx_app asx_started) = (Inr True, fs', a') \<and>
    ap_dynamic a' \<and> start_app asx_lib asx_setup ex_issued [] ex_service fs' = Inl m"
proof -
  obtain fs' a' where r: "refreshAssignments asx_lib asx_setup (asx_refresh ''{ }'') asx_files (asx_app asx_started) = (Inr True, fs', a')"
    using asx_adopts by blast
  have f: "fst (Refresh (asn_lib.truncate asx_lib) asx_client (re_signed_at (asx_refresh ''{ }'')) (re_clock (asx_refresh ''{ }''))
      (re_random (asx_refresh ''{ }'')) (ap_state (asx_app asx_started)) (re_exchange (asx_refresh ''{ }''))) =
    Inr \<lparr>rf_Document = ex_assignments, rf_DocumentRaw = ''{ }'', rf_State = asx_state,
         rf_IssuedAt = GoTime 5 UTC, rf_ExpiresAt = GoTime 60 UTC\<rparr>"
    using asx_refreshes [of "''{ }''"] by (simp add: asx_refresh_def asx_app_def)
  have "compact_json ''{ }'' = ''{}''" by code_simp
  then have "sha256 (al_crypto (asn_lib.truncate asx_lib)) (compact_json ''{ }'') \<noteq> sha256 (al_crypto (asn_lib.truncate asx_lib)) ''{ }''"
    by (simp add: asx_sha_def)
  then show ?thesis
    using spaced_document_blocks_start [OF r _ f, where actions = "[''vm.start'']" and now = ex_issued and ios = "[]" and s = ex_service] r
    by (simp add: asx_setup_def ex_assignments_def)
qed

theorem signed_payload_names_bundle_witness:
  "\<exists>p. CanonicalPayload (asn_lib.truncate asx_lib) (asx_bundle ''{}'') = Some p \<and>
    CanonicalPayload (asn_lib.truncate asx_lib) (asx_bundle ''{ }'') \<noteq> Some p"
proof -
  obtain p where p: "CanonicalPayload (asn_lib.truncate asx_lib) (asx_bundle ''{}'') = Some p" using asx_payload by blast
  have t: "\<forall>t. CHR 0x0A \<notin> set (al_time_text (asn_lib.truncate asx_lib) t)" by (simp add: asx_lib_def asn_lib.defs)
  have "hex_encode (asx_sha ''{}'') \<noteq> hex_encode (asx_sha ''{ }'')" by (simp add: asx_sha_def)
  then have "CanonicalPayload (asn_lib.truncate asx_lib) (asx_bundle ''{ }'') \<noteq> Some p"
    using signed_payload_names_bundle [OF p _ t, of "asx_bundle ''{ }''"] by (auto simp: asx_bundle_def)
  then show ?thesis using p by blast
qed

end
