(* ===== verification/Spec2Isabelle.thy ===== *)
theory Spec2Isabelle
  imports Queue_Recovery Run_State Lifecycle Migration_Safety Meter_Guarantees Service_Receipts Uploader_Guarantees
    Binding_Guarantees Upgrade_Guarantees Assignment_Example
begin

text \<open>
  A verification of the PPFlight agent, the program that connects a Proxmox host to two
  remote systems: a website that sends signed commands and receives telemetry, usage and receipts,
  and a monitoring system that receives telemetry, usage and audit events.

  How the parts work together.  The host is enrolled at each system once
  (\<open>internal/enrollment\<close>, \<open>internal/monitorenrollment\<close>) and keeps the credentials in state
  files (\<open>internal/bindstate\<close>), from which \<open>internal/bindingoverlay\<close> resolves the secrets of the
  configuration at every start.  What it may do to which guests is the assignment authority, a signed
  bundle the agent fetches and stores (\<open>internal/assignment\<close>) and puts in force
  (\<open>internal/agent\<close>).  The control service (\<open>internal/control\<close>) polls for command
  envelopes, verifies each one against the signing key of the binding and the assignment authority,
  records it in a journal before it may have an effect, executes it in one of four lanes and
  hands the receipt and an audit event to durable queues (\<open>internal/store\<close>).  The usage meter
  (\<open>internal/meter\<close>) turns interface counters into usage records and hands them to two of these
  queues.  The uploader (\<open>internal/uploader\<close>) delivers the queues over HTTPS.  \<open>internal/runstate\<close>
  numbers the messages and \<open>internal/lifecycle\<close> reports unclean exits.  One command upgrades
  the agent itself (\<open>internal/selfupdate\<close>, \<open>internal/upgradecontract\<close>): the agent prepares a
  request file and a helper that runs as root verifies the release, replaces the binary and
  rolls back when the new one does not come up.

  Conventions.  A Go struct is a record with a prefix on its fields, an enumeration of
  named strings stays a string where the code compares strings and becomes a datatype where the
  code switches over it, machine integers are words, texts are lists of bytes (one character per
  byte, as in Go), a nil pointer or slice that differs from an empty one is an option, a map is a
  map or an association list where its order matters.  An error is the left branch of a sum, so
  every early return of the source is a branch of a definition; definitions carry the name of
  the Go function, with a suffix or prefix where that name is taken.  Loops are recursive
  functions over the list they range over; the loops of the source without a bound (retries, waits,
  the workers) are either steps of a history or consume a finite list of outcomes given as an
  argument, and the end of that list is the point where the observed history ends.

  Faults.  A file is the value decoded from it.  The atomic write of \<open>internal/fsutil\<close> has three
  outcomes (\<open>io\<close> in Durable_File): \<open>IoOk\<close>; \<open>IoFail\<close>, an error with the old file in
  place; and \<open>IoLate\<close>, an error of the final directory sync with the new file in place.  Where the
  encoding of a value loses something the model says so: the text of a queue record (\<open>item_json\<close>) and the
  stored assignment document (Assignment_Authority).
  Operations take the outcomes of their writes as arguments and the guarantees quantify over all of
  them.  A crash is the end of an operation after any prefix of its writes, followed by the code's
  own start-up from the files.

  Parameters.  Code outside the repository is an argument: SHA-256, HMAC and Ed25519
  verification, encoders and strict decoders of JSON, \<open>url.Parse\<close>, IPv6 parsing, HTTP exchanges, gzip
  and tar, subprocesses and systemd, clocks and random identifiers.  No property assumes that a hash has
  no collisions.  Where a property needs a law of such a parameter (an encoder that tells values apart,
  identifiers that are fresh) the law is a hypothesis of the theorem and its witness gives an
  instance.
\<close>

text \<open>
  The theories, in the order of their imports.

  Shared library.  Go_Base: byte texts, results, word and list lemmas and the collections of
  simplification rules.  Go_Text: the functions of \<open>strings\<close>, \<open>strconv\<close> and the regular expressions the
  code uses, with base64, hexadecimal and decimal printing and parsing and their inverses.
  Go_Utf8: UTF-8 validity and decoding.  Durable_File: the atomic write and a directory of files,
  as the locale \<open>durable_store\<close>, interpreted for both write routines.

  Commands.  Protocol: \<open>internal/protocol\<close>, counters, identifiers, usage batches, request
  signatures.  Command_Types: \<open>control/types.go\<close>, envelopes, the action registry, \<open>Verify\<close> and receipts.
  Inventory: \<open>internal/inventory\<close>, assignments and capabilities.  Audit_Event: events and their validation.

  Journal.  Journal_Records: the records of \<open>control/journal.go\<close>, their consistency and the two
  recoveries of \<open>delete_501_recovery.go\<close> and \<open>ipfilter_delete_recovery.go\<close>.  Journal: \<open>Begin\<close>,
  \<open>Claim\<close>, \<open>Complete\<close>, the task and snippet operations, \<open>RecoverInterrupted\<close> and the marks for queued
  receipts, as operations on a file with failing writes.  Journal_Safety states the locale
  \<open>record_op\<close> of operations that change one record and interprets it for each of them;
  Journal_Guarantees proves execution at most once, resource locks, receipts and audit order over
  all histories.  Legacy_Journal and Migration_Safety: the three migrations of
  \<open>legacy_journal.go\<close>, with a resumption theorem.

  Service.  Dispatcher: \<open>control/dispatcher.go\<close> as a step relation and its refinement of four
  bounded queues.  Service: \<open>control/service.go\<close>, polling, admission, execution, receipts and
  reconciliation.  Service_Safety and Service_Guarantees: histories of polls, workers,
  reconciliations, authority changes and restarts over the journal.  Service_Receipts: each polled
  command is answered by a receipt with its ID before the cursor moves.

  Assignment authority.  Assignment_Refresh: \<open>assignment/client.go\<close>, the request and the
  verification of a signed bundle.  Assignment_Authority: \<open>assignment/state.go\<close>, the stored authority, with
  the compaction JSON applies to the document.  Assignment_Agent: the start, refresh and reload of the authority in
  \<open>agent/agent.go\<close>, as histories together with the work of the service.  Assignment_Guarantees: its
  properties.  Assignment_Example: concrete runs.

  Queues and delivery.  Store_Queue: \<open>store/queue.go\<close>.  Outbox: the interface the producers use, a
  locale interpreted on it.  Queue_Recovery: restart and survival of stored batches.  Uploader and
  Uploader_Guarantees: \<open>uploader/uploader.go\<close>, with the locale \<open>delivery_queue\<close>.  Run_State:
  \<open>runstate/state.go\<close>, three counters through the locale \<open>wire_counter\<close>.  Lifecycle: \<open>lifecycle/state.go\<close>.

  Metering.  Exporter_Value: the exact reading of counters in \<open>exporter/normalize.go\<close>.  Meter:
  \<open>meter/meter.go\<close> with its state and transaction files.  Meter_Ledger: the abstract, fault-free
  ledger and the simulation.  Meter_Guarantees: what follows for sequences, epochs and billing.

  Binding.  Web_Address: \<open>netpolicy/ipv4.go\<close> and the endpoint checks.  Enrollment: requests, responses and
  one exchange of both enrollments.  Binding_State: the state, pending, marker and removal files of
  \<open>internal/bindstate\<close>.  Binding_Overlay: \<open>bindingoverlay/overlay.go\<close>.  Binding_Guarantees: the
  properties over histories of operations.

  Self-upgrade.  Upgrade_Contract: versions, parameters and manifests.  Self_Update:
  \<open>selfupdate/coordinator.go\<close> and the archive and text functions of the helper.  Upgrade_Helper:
  \<open>selfupdate/helper.go\<close>, the whole run with rollback and key rotation.  Upgrade_Text: texts the helper
  stores are valid.  Upgrade_Example: a concrete run.  Upgrade_Guarantees: its properties.
\<close>

text \<open>
  What the lemmas show.  Preservation lemmas (\<open>queue_ok\<close>, the journal invariant, the ledger
  simulation, the dispatcher invariant, the phases of the upgrade) are proved for every operation with every
  outcome of its writes and combined by induction over histories; the numbered properties C1 to C40
  follow from them.  The order of the properties is that of their importance: what may execute and how
  often; what is installed; what is billed; what is never lost; what credentials reach; bounds and
  equivalences; and last the behaviours of the error paths that differ from what the code intends.

  Findings.  Seven behaviours differ from the evident intention or a comment of the source: a payload that
  exceeds the queue's byte limit empties the queue first; a journal that was written but not synced when
  a removal starts cannot be rolled back; a rotated key that was written but not synced stays in force
  after a failed upgrade; a migration with an empty list of records loses its result; a signed assignment document with white
  space is put in force but its stored form has another hash, so that no later start loads it; the claim check of a
  migration ignores running records; and a comment of the journal names one exception where there are three.

  Bounds.  The exponential delay of the uploader is computed with the code's own cap, word arithmetic wraps
  where Go wraps, and the limits of sizes and counts are the constants of the source.  No definition
  needs fuel: recursion is structural or has a measure.

  Not modelled.  The administration commands (\<open>internal/admincli\<close>), the executor of actions and its
  helpers (\<open>control/executor.go\<close>, \<open>executor_extended.go\<close>, \<open>firewall_rules.go\<close>,
  \<open>cloud_init_snippet.go\<close>, \<open>console_sink.go\<close>), the host firewall (\<open>internal/hostfirewall\<close>), the
  collection of telemetry (\<open>internal/collector\<close>, \<open>internal/pve\<close>, \<open>internal/discovery\<close>) and its
  projection to wire formats (\<open>internal/wire\<close>) are subprocesses, terminal dialogues, HTTP reads and
  conversions of data; their effect on the modelled parts is arbitrary in the theorems: an execution may
  return any result, an observation may have any counters.  The goroutines and timers of
  \<open>internal/agent\<close> only decide the order of operations, over which the theorems quantify.  The system calls of
  \<open>internal/fsutil\<close> are represented by the fault model, mutual exclusion by locks by the atomicity of
  operations.

  Limits of the model.  A poll is one step: a refresh of a statically configured inventory between two commands of one
  response is not represented.  The histories of the service do not contain the journal migrations that the executor
  starts; Migration_Safety treats them on their own.  The list of receipts holds every receipt the queue accepted, also one it
  already held under the same ID.  A file the code cannot read, for whatever reason, and a binding file over the size
  limit of its reader are the undecodable or garbled file of the model; that what the agent itself wrote stays below these limits (and
  below the 64 KiB of an upgrade result) is not proved.  During one run of the helper no other process changes
  the staged archive, which the code hashes and then reads again, and the examination of a result
  file fails only when there is none.
\<close>

end
